(* ===== verification/Prelude.thy ===== *)
theory Prelude
  imports Main "HOL-Library.Word" "HOL-Library.Char_ord" "HOL-Library.List_Lexorder"
begin

text \<open>
  Shared vocabulary of the development: bytes and strings, the exceptions the Python code
  raises and the result type that carries them, the string and integer helpers of the
  Python standard library that the sources call, and SQL tables as row lists with the
  locale of their laws.

  A Python \<open>str\<close> is a list of code points; the model keeps the code points below 256, the
  range of the HOL type \<open>char\<close>.
\<close>

unbundle bit_operations_syntax

declare map_of_append [simp del]

type_synonym byte = "8 word"
type_synonym bytes = "byte list"
type_synonym str = string

named_theorems py_simps \<open>unfolding rules of the Python helpers\<close>
named_theorems codec_simps \<open>decode-after-encode rules\<close>

section \<open>Exceptions and results\<close>

datatype exn =
    ValueError str
  | KeyError str
  | TypeError str
  | NameError str
  | OverflowError str
  | StructError
  | RuntimeError str
  | InvalidSignature
  | CryptoError str
  | OperationalError str
  | OSError str
  | ZeroDivisionError
  | HttpError str
  | YakrError str str
  | DecryptError str
  | DuplicateSeqError str
  | ContactNotFoundError str
  | MessageExpiredError str
  | RekeyRequiredError str
  | AssertionError str
  | HTTPException int str

type_synonym 'a res = "exn + 'a"

text \<open>Which \<open>except\<close> clause catches an exception: the class hierarchy of the sources.\<close>

fun is_value_error :: "exn \<Rightarrow> bool" where
  "is_value_error (ValueError _) = True"
| "is_value_error _ = False"

fun is_yakr_error :: "exn \<Rightarrow> bool" where
  "is_yakr_error (YakrError _ _) = True"
| "is_yakr_error (DecryptError _) = True"
| "is_yakr_error (DuplicateSeqError _) = True"
| "is_yakr_error (ContactNotFoundError _) = True"
| "is_yakr_error (MessageExpiredError _) = True"
| "is_yakr_error (RekeyRequiredError _) = True"
| "is_yakr_error _ = False"

fun exn_text :: "exn \<Rightarrow> str" where
  "exn_text (ValueError m) = m"
| "exn_text (KeyError m) = m"
| "exn_text (TypeError m) = m"
| "exn_text (NameError m) = m"
| "exn_text (OverflowError m) = m"
| "exn_text (RuntimeError m) = m"
| "exn_text (CryptoError m) = m"
| "exn_text (OperationalError m) = m"
| "exn_text (OSError m) = m"
| "exn_text (HttpError m) = m"
| "exn_text (YakrError _ m) = m"
| "exn_text (DecryptError m) = m"
| "exn_text (DuplicateSeqError m) = m"
| "exn_text (ContactNotFoundError m) = m"
| "exn_text (MessageExpiredError m) = m"
| "exn_text (RekeyRequiredError m) = m"
| "exn_text (AssertionError m) = m"
| "exn_text (HTTPException _ m) = m"
| "exn_text _ = []"

text \<open>Sequencing of fallible steps; \<open>require\<close> is an \<open>if\<close> that raises.\<close>

definition and_then :: "'a res \<Rightarrow> ('a \<Rightarrow> 'b res) \<Rightarrow> 'b res" where
  "and_then m f = (case m of Inl e \<Rightarrow> Inl e | Inr x \<Rightarrow> f x)"

definition require :: "bool \<Rightarrow> exn \<Rightarrow> unit res" where
  "require b e = (if b then Inr () else Inl e)"

definition opt_res :: "exn \<Rightarrow> 'a option \<Rightarrow> 'a res" where
  "opt_res e x = (case x of None \<Rightarrow> Inl e | Some y \<Rightarrow> Inr y)"

fun map_res :: "('a \<Rightarrow> 'b res) \<Rightarrow> 'a list \<Rightarrow> 'b list res" where
  "map_res f [] = Inr []"
| "map_res f (x # xs) =
     and_then (f x) (\<lambda>y. and_then (map_res f xs) (\<lambda>ys. Inr (y # ys)))"

lemma and_then_simps [simp]:
  "and_then (Inl e) f = Inl e" "and_then (Inr x) f = f x"
  by (simp_all add: and_then_def)

lemma and_then_Inr_iff:
  "and_then m f = Inr y \<longleftrightarrow> (\<exists>x. m = Inr x \<and> f x = Inr y)"
  by (cases m) simp_all

lemma and_then_InrE [elim!]:
  assumes "and_then m f = Inr y"
  obtains x where "m = Inr x" "f x = Inr y"
  using assms by (auto simp: and_then_Inr_iff)

lemma require_simps [simp]:
  "require True e = Inr ()" "require False e = Inl e"
  by (simp_all add: require_def)

lemma require_Inr [simp]: "require b e = Inr u \<longleftrightarrow> b"
  by (simp add: require_def)

lemma require_Inl [simp]: "require b e = Inl e' \<longleftrightarrow> \<not> b \<and> e' = e"
  by (auto simp: require_def)

lemma and_then_require [simp]:
  "and_then (require b e) f = (if b then f () else Inl e)"
  by (simp add: require_def)

lemma opt_res_simps [simp]:
  "opt_res e None = Inl e" "opt_res e (Some x) = Inr x"
  by (simp_all add: opt_res_def)

lemma opt_res_Inr [simp]: "opt_res e x = Inr y \<longleftrightarrow> x = Some y"
  by (cases x) auto

lemma map_res_all_Inr:
  assumes "\<And>x. x \<in> set xs \<Longrightarrow> f x = Inr (g x)"
  shows "map_res f xs = Inr (map g xs)"
  using assms by (induction xs) auto

text \<open>
  Methods that mutate an object: a function from the object to the result or exception and
  the object as it is left, also when an exception is raised half way.
\<close>

type_synonym ('s, 'a) meth = "'s \<Rightarrow> 'a res \<times> 's"

definition m_return :: "'a \<Rightarrow> ('s, 'a) meth" where
  "m_return x s = (Inr x, s)"

definition m_raise :: "exn \<Rightarrow> ('s, 'a) meth" where
  "m_raise e s = (Inl e, s)"

definition m_of :: "'a res \<Rightarrow> ('s, 'a) meth" where
  "m_of x s = (x, s)"

definition m_modify :: "('s \<Rightarrow> 's) \<Rightarrow> ('s, unit) meth" where
  "m_modify f s = (Inr (), f s)"

definition m_get :: "('s \<Rightarrow> ('s, 'a) meth) \<Rightarrow> ('s, 'a) meth" where
  "m_get f s = f s s"

definition m_bind :: "('s, 'a) meth \<Rightarrow> ('a \<Rightarrow> ('s, 'b) meth) \<Rightarrow> ('s, 'b) meth" where
  "m_bind m f s = (case m s of (Inl e, s') \<Rightarrow> (Inl e, s') | (Inr x, s') \<Rightarrow> f x s')"

definition m_when :: "bool \<Rightarrow> ('s, unit) meth \<Rightarrow> ('s, unit) meth" where
  "m_when b m s = (if b then m s else (Inr (), s))"

lemma meth_simps [simp]:
  "m_return x s = (Inr x, s)" "m_raise e s = (Inl e, s)" "m_of y s = (y, s)"
  "m_modify f s = (Inr (), f s)" "m_get g s = g s s"
  "m_when True m s = m s" "m_when False m s = (Inr (), s)"
  by (simp_all add: m_return_def m_raise_def m_of_def m_modify_def m_get_def m_when_def)

lemma m_bind_simps [simp]:
  "m_bind (m_return x) f s = f x s" "m_bind (m_raise e) g s = (Inl e, s)"
  "m_bind (m_of (Inr x)) f s = f x s" "m_bind (m_of (Inl e)) g s = (Inl e, s)"
  "m_bind (m_modify h) k s = k () (h s)" "m_bind (m_get i) g s = m_bind (i s) g s"
  by (simp_all add: m_bind_def)

lemma m_bind_Inr:
  "m_bind m f s = (Inr y, t) \<longleftrightarrow> (\<exists>x s'. m s = (Inr x, s') \<and> f x s' = (Inr y, t))"
  by (cases "m s" rule: prod.exhaust) (auto simp: m_bind_def split: sum.splits)

text \<open>A method that leaves one view \<open>f\<close> of the object alone, on success and on failure.\<close>

definition keeps :: "('s \<Rightarrow> 'v) \<Rightarrow> ('s, 'a) meth \<Rightarrow> bool" where
  "keeps f m \<longleftrightarrow> (\<forall>s. f (snd (m s)) = f s)"

named_theorems keeps_rules \<open>introduction rules for methods that leave a view alone\<close>

lemma keepsD: "keeps f m \<Longrightarrow> m s = (x, s') \<Longrightarrow> f s' = f s"
  by (metis keeps_def snd_conv)

lemma keepsI: "(\<And>s x s'. m s = (x, s') \<Longrightarrow> f s' = f s) \<Longrightarrow> keeps f m"
  by (metis keeps_def prod.collapse)

lemma keeps_basic [keeps_rules, simp]:
  "keeps f (m_return x)" "keeps f (m_raise e)" "keeps f (m_of y)"
  by (simp_all add: keeps_def)

lemma keeps_bind [keeps_rules]:
  "keeps f m \<Longrightarrow> (\<And>x. keeps f (g x)) \<Longrightarrow> keeps f (m_bind m g)"
  by (auto simp: keeps_def m_bind_def split: prod.splits sum.splits) (metis snd_conv)+

lemma keeps_get [keeps_rules]: "(\<And>s. keeps f (g s)) \<Longrightarrow> keeps f (m_get g)"
  by (simp add: keeps_def)

lemma keeps_modify [keeps_rules]: "(\<And>s. f (h s) = f s) \<Longrightarrow> keeps f (m_modify h)"
  by (simp add: keeps_def)

lemma keeps_let [keeps_rules]: "keeps f (g x) \<Longrightarrow> keeps f (Let x g)"
  by simp

lemma keeps_if [keeps_rules]: "(b \<Longrightarrow> keeps f m) \<Longrightarrow> (\<not> b \<Longrightarrow> keeps f m') \<Longrightarrow> keeps f (if b then m else m')"
  by simp

lemma keeps_option [keeps_rules]:
  "keeps f m \<Longrightarrow> (\<And>x. keeps f (g x)) \<Longrightarrow> keeps f (case y of None \<Rightarrow> m | Some x \<Rightarrow> g x)"
  by (cases y) simp_all

lemma keeps_sum [keeps_rules]:
  "(\<And>x. keeps f (g x)) \<Longrightarrow> (\<And>x. keeps f (h x)) \<Longrightarrow> keeps f (case y of Inl x \<Rightarrow> g x | Inr x \<Rightarrow> h x)"
  by (cases y) simp_all

lemma keeps_prod [keeps_rules]: "(\<And>a b. keeps f (g a b)) \<Longrightarrow> keeps f (case y of (a, b) \<Rightarrow> g a b)"
  by (cases y) simp

lemma keeps_list [keeps_rules]:
  "keeps f m \<Longrightarrow> (\<And>x xs. keeps f (g x xs)) \<Longrightarrow> keeps f (case y of [] \<Rightarrow> m | x # xs \<Rightarrow> g x xs)"
  by (cases y) simp_all

section \<open>Python string helpers\<close>

text \<open>\<open>s.rstrip("/")\<close>.\<close>

definition rstrip_slash :: "str \<Rightarrow> str" where
  "rstrip_slash s = rev (dropWhile (\<lambda>c. c = CHR ''/'') (rev s))"

definition starts_with :: "str \<Rightarrow> str \<Rightarrow> bool" where
  "starts_with p s \<longleftrightarrow> take (length p) s = p"

text \<open>\<open>p in s\<close> for strings.\<close>

fun substr :: "str \<Rightarrow> str \<Rightarrow> bool" where
  "substr p [] \<longleftrightarrow> p = []"
| "substr p (c # cs) \<longleftrightarrow> starts_with p (c # cs) \<or> substr p cs"

text \<open>\<open>s.strip()\<close>: the white space of \<open>str.isspace\<close> below 256.\<close>

definition is_space :: "char \<Rightarrow> bool" where
  "is_space c \<longleftrightarrow> (let n = of_char c :: nat in
     (9 \<le> n \<and> n \<le> 13) \<or> (28 \<le> n \<and> n \<le> 32) \<or> n = 133 \<or> n = 160)"

definition py_strip :: "str \<Rightarrow> str" where
  "py_strip s = rev (dropWhile is_space (rev (dropWhile is_space s)))"

text \<open>\<open>s.split(sep)\<close> for a one-character separator and \<open>sep.join(xs)\<close>.\<close>

fun py_split :: "char \<Rightarrow> str \<Rightarrow> str list" where
  "py_split sep [] = [[]]"
| "py_split sep (c # cs) =
     (if c = sep then [] # py_split sep cs
      else (case py_split sep cs of [] \<Rightarrow> [[c]] | w # ws \<Rightarrow> (c # w) # ws))"

fun py_join :: "'a list \<Rightarrow> 'a list list \<Rightarrow> 'a list" where
  "py_join sep [] = []"
| "py_join sep [x] = x"
| "py_join sep (x # y # ys) = x @ sep @ py_join sep (y # ys)"

lemma rstrip_slash_idem [simp]: "rstrip_slash (rstrip_slash s) = rstrip_slash s"
  by (simp add: rstrip_slash_def)

lemma rstrip_slash_no_slash:
  "s = [] \<or> last s \<noteq> CHR ''/'' \<Longrightarrow> rstrip_slash s = s"
  by (cases s rule: rev_cases) (auto simp: rstrip_slash_def)

lemma starts_with_append [simp]: "starts_with p (p @ s)"
  by (simp add: starts_with_def)

lemma starts_with_take_drop: "starts_with p s \<Longrightarrow> s = p @ drop (length p) s"
  by (metis append_take_drop_id starts_with_def)

lemma py_split_nonempty [simp]: "py_split sep s \<noteq> []"
  by (cases s) (auto split: list.splits)

lemma py_split_no_sep: "sep \<notin> set s \<Longrightarrow> py_split sep s = [s]"
  by (induction s) auto

lemma py_split_append_sep:
  "sep \<notin> set x \<Longrightarrow> py_split sep (x @ sep # s) = x # py_split sep s"
  by (induction x) auto

lemma py_split_join:
  assumes "xs \<noteq> []" "\<And>x. x \<in> set xs \<Longrightarrow> sep \<notin> set x"
  shows "py_split sep (py_join [sep] xs) = xs"
  using assms
proof (induction "[sep]" xs rule: py_join.induct)
  case (3 x y ys)
  then show ?case by (simp add: py_split_append_sep)
qed (auto simp: py_split_no_sep)

text \<open>A word that neither starts nor ends with white space is its own \<open>strip\<close>.\<close>

definition stripped :: "str \<Rightarrow> bool" where
  "stripped s \<longleftrightarrow> s \<noteq> [] \<longrightarrow> \<not> is_space (hd s) \<and> \<not> is_space (last s)"

lemma dropWhile_hd: "xs = [] \<or> \<not> P (hd xs) \<Longrightarrow> dropWhile P xs = xs"
  by (cases xs) auto

lemma py_strip_stripped: "stripped s \<Longrightarrow> py_strip s = s"
proof (cases "s = []")
  case False
  assume "stripped s"
  with False have "dropWhile is_space s = s" "dropWhile is_space (rev s) = rev s"
    by (auto simp: stripped_def hd_rev intro!: dropWhile_hd)
  then show ?thesis by (simp add: py_strip_def)
qed (simp add: py_strip_def)

section \<open>Integers as text and as big-endian bytes\<close>

definition digit_char :: "nat \<Rightarrow> char" where
  "digit_char d = char_of (48 + d)"

fun str_of_nat :: "nat \<Rightarrow> str" where
  "str_of_nat n =
     (if n < 10 then [digit_char n] else str_of_nat (n div 10) @ [digit_char (n mod 10)])"

declare str_of_nat.simps [simp del]

definition str_of_int :: "int \<Rightarrow> str" where
  "str_of_int i = (if i < 0 then CHR ''-'' # str_of_nat (nat (- i)) else str_of_nat (nat i))"

definition is_digit :: "char \<Rightarrow> bool" where
  "is_digit c \<longleftrightarrow> (let n = of_char c :: nat in 48 \<le> n \<and> n \<le> 57)"

definition digit_val :: "char \<Rightarrow> nat" where
  "digit_val c = of_char c - 48"

definition nat_of_str :: "str \<Rightarrow> nat" where
  "nat_of_str s = foldl (\<lambda>n c. 10 * n + digit_val c) 0 s"

lemma digit_char_props [simp]:
  assumes "d < 10"
  shows "is_digit (digit_char d)" "digit_val (digit_char d) = d"
  using assms by (auto simp: is_digit_def digit_char_def digit_val_def)

lemma str_of_nat_nonempty [simp]: "str_of_nat n \<noteq> []"
  by (subst str_of_nat.simps) simp

lemma str_of_nat_digits: "c \<in> set (str_of_nat n) \<Longrightarrow> is_digit c"
proof (induction n rule: str_of_nat.induct)
  case (1 n)
  from "1.prems" show ?case
    by (subst (asm) str_of_nat.simps) (auto split: if_splits intro: "1.IH")
qed

lemma nat_of_str_of_nat [simp]: "nat_of_str (str_of_nat n) = n"
proof (induction n rule: str_of_nat.induct)
  case (1 n)
  show ?case
  proof (cases "n < 10")
    case True
    then show ?thesis by (subst str_of_nat.simps) (simp add: nat_of_str_def)
  next
    case False
    with 1 have "nat_of_str (str_of_nat (n div 10)) = n div 10" by simp
    with False show ?thesis
      by (subst str_of_nat.simps) (simp add: nat_of_str_def)
  qed
qed

text \<open>\<open>v.to_bytes(n, "big")\<close>, its error, and \<open>int.from_bytes\<close>.\<close>

fun be_bytes :: "nat \<Rightarrow> nat \<Rightarrow> bytes" where
  "be_bytes 0 v = []"
| "be_bytes (Suc n) v = be_bytes n (v div 256) @ [word_of_nat (v mod 256)]"

definition be_nat :: "bytes \<Rightarrow> nat" where
  "be_nat bs = foldl (\<lambda>a b. a * 256 + unat b) 0 bs"

definition int_to_bytes :: "int \<Rightarrow> nat \<Rightarrow> bytes res" where
  "int_to_bytes v n =
     (if 0 \<le> v \<and> v < 256 ^ n then Inr (be_bytes n (nat v))
      else Inl (OverflowError ''int too big to convert''))"

lemma length_be_bytes [simp]: "length (be_bytes n v) = n"
  by (induction n v rule: be_bytes.induct) auto

lemma be_nat_snoc: "be_nat (bs @ [b]) = be_nat bs * 256 + unat b"
  by (simp add: be_nat_def)

lemma be_nat_be_bytes: "be_nat (be_bytes n v) = v mod 256 ^ n"
proof (induction n v rule: be_bytes.induct)
  case (2 n v)
  have "unat (word_of_nat (v mod 256) :: byte) = v mod 256"
    by (simp add: unat_of_nat)
  with 2 have "be_nat (be_bytes (Suc n) v) = (v div 256) mod 256 ^ n * 256 + v mod 256"
    by (simp add: be_nat_snoc)
  also have "\<dots> = v mod 256 ^ Suc n"
    using mod_mult2_eq [of v 256 "256 ^ n"] by (simp add: mult.commute)
  finally show ?case .
qed (simp add: be_nat_def)

lemma int_to_bytes_Inr:
  "int_to_bytes v n = Inr bs \<longleftrightarrow> 0 \<le> v \<and> v < 256 ^ n \<and> bs = be_bytes n (nat v)"
  by (auto simp: int_to_bytes_def)

lemma be_nat_int_to_bytes:
  assumes "int_to_bytes v n = Inr bs"
  shows "int (be_nat bs) = v" "length bs = n"
proof -
  from assms have v: "0 \<le> v" "v < 256 ^ n" "bs = be_bytes n (nat v)"
    by (auto simp: int_to_bytes_Inr)
  then have "nat v < 256 ^ n" by (simp add: nat_less_iff)
  with v show "int (be_nat bs) = v" "length bs = n"
    by (simp_all add: be_nat_be_bytes)
qed

section \<open>UTF-8 and hexadecimal\<close>

fun utf8_char :: "char \<Rightarrow> bytes" where
  "utf8_char c = (let n = of_char c :: nat in
     if n < 128 then [word_of_nat n]
     else [word_of_nat (192 + n div 64), word_of_nat (128 + n mod 64)])"

definition utf8 :: "str \<Rightarrow> bytes" where
  "utf8 s = concat (map utf8_char s)"

text \<open>\<open>None\<close> is \<open>UnicodeDecodeError\<close>, or a code point outside the model.\<close>

fun utf8_decode :: "bytes \<Rightarrow> str option" where
  "utf8_decode [] = Some []"
| "utf8_decode (b # bs) =
     (if unat b < 128 then map_option ((#) (char_of (unat b))) (utf8_decode bs)
      else (case bs of
              [] \<Rightarrow> None
            | d # ds \<Rightarrow>
                if (unat b = 194 \<or> unat b = 195) \<and> 128 \<le> unat d \<and> unat d < 192
                then map_option ((#) (char_of ((unat b - 192) * 64 + (unat d - 128))))
                       (utf8_decode ds)
                else None))"

lemma utf8_simps [simp]:
  "utf8 [] = []" "utf8 (c # s) = utf8_char c @ utf8 s" "utf8 (s @ t) = utf8 s @ utf8 t"
  by (simp_all add: utf8_def)

lemma unat_byte: "n < 256 \<Longrightarrow> unat (word_of_nat n :: byte) = n"
  by (simp add: unat_of_nat)

lemma of_char_less: "(of_char c :: nat) < 256"
  by (simp add: of_char_def)

lemma utf8_decode_char: "utf8_decode (utf8_char c @ bs) = map_option ((#) c) (utf8_decode bs)"
proof (cases "(of_char c :: nat) < 128")
  case True
  then have "unat (word_of_nat (of_char c) :: byte) = of_char c"
    by (simp add: unat_of_nat)
  with True show ?thesis by (simp add: Let_def)
next
  case False
  let ?n = "of_char c :: nat"
  have n: "?n < 256" by (rule of_char_less)
  have q: "?n div 64 = 2 \<or> ?n div 64 = 3"
    using n False by arith
  have u: "unat (word_of_nat (192 + ?n div 64) :: byte) = 192 + ?n div 64"
          "unat (word_of_nat (128 + ?n mod 64) :: byte) = 128 + ?n mod 64"
    using q by (auto intro!: unat_byte simp del: of_nat_add)
  have "char_of (?n div 64 * 64 + ?n mod 64) = c" by simp
  with False q u show ?thesis by (auto simp: Let_def)
qed

lemma utf8_decode_utf8 [simp, codec_simps]: "utf8_decode (utf8 s) = Some s"
  by (induction s) (simp_all add: utf8_decode_char del: utf8_char.simps)

text \<open>\<open>data.decode("utf-8")\<close>.\<close>

definition decode_utf8 :: "bytes \<Rightarrow> str res" where
  "decode_utf8 b = opt_res (ValueError ''invalid utf-8'') (utf8_decode b)"

lemma decode_utf8_utf8 [simp, codec_simps]: "decode_utf8 (utf8 s) = Inr s"
  by (simp add: decode_utf8_def)

lemma utf8_inject [simp]: "utf8 s = utf8 t \<longleftrightarrow> s = t"
  by (metis option.inject utf8_decode_utf8)

definition hex_digit :: "nat \<Rightarrow> char" where
  "hex_digit d = char_of (if d < 10 then 48 + d else 87 + d)"

definition hex_val :: "char \<Rightarrow> nat option" where
  "hex_val c = (let n = of_char c :: nat in
     if 48 \<le> n \<and> n \<le> 57 then Some (n - 48)
     else if 97 \<le> n \<and> n \<le> 102 then Some (n - 87)
     else if 65 \<le> n \<and> n \<le> 70 then Some (n - 55)
     else None)"

definition to_hex :: "bytes \<Rightarrow> str" where
  "to_hex bs = concat (map (\<lambda>b. [hex_digit (unat b div 16), hex_digit (unat b mod 16)]) bs)"

text \<open>\<open>bytes.fromhex\<close> skips ASCII white space between bytes.\<close>

fun from_hex :: "str \<Rightarrow> bytes res" where
  "from_hex [] = Inr []"
| "from_hex [c] =
     (if is_space c then Inr [] else Inl (ValueError ''non-hexadecimal number found in fromhex() arg''))"
| "from_hex (c # d # s) =
     (if is_space c then from_hex (d # s)
      else (case (hex_val c, hex_val d) of
              (Some x, Some y) \<Rightarrow>
                and_then (from_hex s) (\<lambda>r. Inr (word_of_nat (16 * x + y) # r))
            | _ \<Rightarrow> Inl (ValueError ''non-hexadecimal number found in fromhex() arg'')))"

lemma hex_val_digit: "d < 16 \<Longrightarrow> hex_val (hex_digit d) = Some d \<and> \<not> is_space (hex_digit d)"
  by (auto simp: hex_val_def hex_digit_def is_space_def Let_def)

lemma to_hex_simps [simp]:
  "to_hex [] = []"
  "to_hex (b # bs) = hex_digit (unat b div 16) # hex_digit (unat b mod 16) # to_hex bs"
  by (simp_all add: to_hex_def)

lemma from_hex_to_hex [simp, codec_simps]: "from_hex (to_hex bs) = Inr bs"
proof (induction bs)
  case (Cons b bs)
  have "unat b div 16 < 16" using unsigned_less [of b, where 'a = nat] by simp
  then have h: "hex_val (hex_digit (unat b div 16)) = Some (unat b div 16)"
       "\<not> is_space (hex_digit (unat b div 16))"
       "hex_val (hex_digit (unat b mod 16)) = Some (unat b mod 16)"
    by (simp_all add: hex_val_digit)
  have "word_of_nat (16 * (unat b div 16) + unat b mod 16) = b" by simp
  with h Cons show ?case by simp
qed simp

lemma to_hex_inject [simp]: "to_hex a = to_hex b \<longleftrightarrow> a = b"
  by (metis from_hex_to_hex sum.inject(2))

section \<open>SQL tables\<close>

text \<open>
  A table is the list of its rows in \<open>rowid\<close> order. \<open>tbl_replace\<close> is
  \<open>INSERT OR REPLACE\<close> (the old row of the key goes, the new one is appended),
  \<open>tbl_ignore\<close> is \<open>INSERT OR IGNORE\<close>, \<open>tbl_delete\<close> a \<open>DELETE ... WHERE\<close>, and
  \<open>tbl_get\<close> the \<open>SELECT\<close> by primary key. \<open>ORDER BY\<close> is the stable \<open>sort_key\<close>: rows with
  equal keys stay in \<open>rowid\<close> order.
\<close>

definition tbl_get :: "('r \<Rightarrow> 'k) \<Rightarrow> 'k \<Rightarrow> 'r list \<Rightarrow> 'r option" where
  "tbl_get key k t = find (\<lambda>r. key r = k) t"

definition tbl_replace :: "('r \<Rightarrow> 'k) \<Rightarrow> 'r \<Rightarrow> 'r list \<Rightarrow> 'r list" where
  "tbl_replace key r t = filter (\<lambda>x. key x \<noteq> key r) t @ [r]"

definition tbl_ignore :: "('r \<Rightarrow> 'k) \<Rightarrow> 'r \<Rightarrow> 'r list \<Rightarrow> 'r list" where
  "tbl_ignore key r t = (if tbl_get key (key r) t = None then t @ [r] else t)"

definition tbl_delete :: "('r \<Rightarrow> bool) \<Rightarrow> 'r list \<Rightarrow> 'r list" where
  "tbl_delete P t = filter (\<lambda>r. \<not> P r) t"

definition tbl_count :: "('r \<Rightarrow> bool) \<Rightarrow> 'r list \<Rightarrow> int" where
  "tbl_count P t = int (length (filter P t))"

definition tbl_unique :: "('r \<Rightarrow> 'k) \<Rightarrow> 'r list \<Rightarrow> bool" where
  "tbl_unique key t \<longleftrightarrow> distinct (map key t)"

text \<open>
  The contract of a table with a primary key, as its clients use it: what a lookup returns
  after each statement, and that every statement keeps the key unique.
\<close>

locale keyed_table =
  fixes key :: "'r \<Rightarrow> 'k"
    and get :: "'k \<Rightarrow> 't \<Rightarrow> 'r option"
    and replace_row :: "'r \<Rightarrow> 't \<Rightarrow> 't"
    and insert_row :: "'r \<Rightarrow> 't \<Rightarrow> 't"
    and delete_key :: "'k \<Rightarrow> 't \<Rightarrow> 't"
    and ok :: "'t \<Rightarrow> bool"
  assumes get_key: "get k t = Some r \<Longrightarrow> key r = k"
    and get_replace: "get k (replace_row r t) = (if k = key r then Some r else get k t)"
    and get_insert:
      "get k (insert_row r t) = (if k = key r \<and> get k t = None then Some r else get k t)"
    and get_delete: "get k (delete_key k' t) = (if k = k' then None else get k t)"
    and ok_replace: "ok t \<Longrightarrow> ok (replace_row r t)"
    and ok_insert: "ok t \<Longrightarrow> ok (insert_row r t)"
    and ok_delete: "ok t \<Longrightarrow> ok (delete_key k t)"
begin

lemma replace_overwrites:
  "key r = key r' \<Longrightarrow> get k (replace_row r (replace_row r' t)) = get k (replace_row r t)"
  by (simp add: get_replace)

lemma insert_keeps_old: "get (key r) t = Some r' \<Longrightarrow> get k (insert_row r t) = get k t"
  by (auto simp: get_insert)

lemma delete_then_insert: "get (key r) (insert_row r (delete_key (key r) t)) = Some r"
  by (simp add: get_insert get_delete)

lemma other_keys_untouched:
  assumes "k \<noteq> key r"
  shows "get k (replace_row r t) = get k t" "get k (insert_row r t) = get k t"
    "get k (delete_key (key r) t) = get k t"
  using assms by (simp_all add: get_replace get_insert get_delete)

end

lemma tbl_get_append: "tbl_get key k (t @ u) =
    (case tbl_get key k t of Some r \<Rightarrow> Some r | None \<Rightarrow> tbl_get key k u)"
  by (induction t) (auto simp: tbl_get_def)

lemma tbl_get_simps [simp]:
  "tbl_get key k [] = None"
  "tbl_get key k (r # t) = (if key r = k then Some r else tbl_get key k t)"
  by (simp_all add: tbl_get_def)

lemma tbl_get_None: "tbl_get key k t = None \<longleftrightarrow> k \<notin> key ` set t"
  by (induction t) auto

lemma tbl_get_Some: "tbl_get key k t = Some r \<Longrightarrow> r \<in> set t \<and> key r = k"
  by (induction t) (auto split: if_splits)

lemma tbl_get_filter:
  "tbl_get key k (filter (\<lambda>x. key x \<noteq> k') t) = (if k = k' then None else tbl_get key k t)"
  by (induction t) auto

lemma tbl_get_unique:
  "tbl_unique key t \<Longrightarrow> r \<in> set t \<Longrightarrow> tbl_get key (key r) t = Some r"
  by (induction t) (auto simp: tbl_unique_def)

lemma tbl_unique_delete: "tbl_unique key t \<Longrightarrow> tbl_unique key (tbl_delete P t)"
  by (simp add: tbl_unique_def tbl_delete_def distinct_map_filter)

lemma keyed_table_tbl:
  "keyed_table key (tbl_get key) (tbl_replace key) (tbl_ignore key)
     (\<lambda>k. tbl_delete (\<lambda>r. key r = k)) (tbl_unique key)"
proof
  show "tbl_unique key t \<Longrightarrow> tbl_unique key (tbl_replace key r t)" for t and r :: 'a
    by (auto simp: tbl_unique_def tbl_replace_def distinct_map_filter)
  show "tbl_unique key t \<Longrightarrow> tbl_unique key (tbl_ignore key r t)" for t and r :: 'a
    by (auto simp: tbl_unique_def tbl_ignore_def tbl_get_None)
  show "tbl_unique key t \<Longrightarrow> tbl_unique key (tbl_delete (\<lambda>r. key r = k) t)" for t :: "'a list" and k
    by (rule tbl_unique_delete)
qed (auto simp: tbl_replace_def tbl_ignore_def tbl_delete_def tbl_get_append tbl_get_filter
       split: option.splits dest: tbl_get_Some)

end
