(* ===== verification/Base64.thy ===== *)
theory Base64
  imports Prelude
begin

text \<open>
  The URL-safe base64 of the sources: \<open>b64encode\<close> and \<open>b64decode\<close> of
  \<open>yakr_core/identity.py\<close> (and their copies in \<open>relay.py\<close>, \<open>message.py\<close>,
  \<open>yakr_relay/store.py\<close>), on a model of the decoder of the standard library, which skips
  characters outside the alphabet and stops at complete padding. The main facts are the
  round trip and the aliases the lenient decoder accepts.
\<close>

section \<open>Alphabet\<close>

definition b64_char :: "nat \<Rightarrow> char" where
  "b64_char v = char_of
     (if v < 26 then 65 + v else if v < 52 then 71 + v else if v < 62 then v - 4
      else if v = 62 then 45 else 95)"

definition b64_val :: "char \<Rightarrow> nat option" where
  "b64_val c = (let n = of_char c :: nat in
     if 65 \<le> n \<and> n \<le> 90 then Some (n - 65)
     else if 97 \<le> n \<and> n \<le> 122 then Some (n - 71)
     else if 48 \<le> n \<and> n \<le> 57 then Some (n + 4)
     else if n = 45 \<or> n = 43 then Some 62
     else if n = 95 \<or> n = 47 then Some 63
     else None)"

lemma b64_val_char [simp]: "v < 64 \<Longrightarrow> b64_val (b64_char v) = Some v"
  by (auto simp: b64_val_def b64_char_def Let_def)

lemma b64_char_not_pad [simp]: "v < 64 \<Longrightarrow> b64_char v \<noteq> CHR ''=''"
  by (auto simp: b64_char_def char_of_eq_iff take_bit_eq_mod)

lemma b64_char_ascii: "v < 64 \<Longrightarrow> (of_char (b64_char v) :: nat) < 128"
  by (auto simp: b64_char_def)

section \<open>Encoding\<close>

text \<open>\<open>base64.urlsafe_b64encode\<close>: groups of three bytes, padded with \<open>=\<close>.\<close>

fun urlsafe_b64encode :: "bytes \<Rightarrow> str" where
  "urlsafe_b64encode [] = []"
| "urlsafe_b64encode [a] =
     [b64_char (unat a div 4), b64_char (unat a mod 4 * 16), CHR ''='', CHR ''='']"
| "urlsafe_b64encode [a, b] =
     [b64_char (unat a div 4), b64_char (unat a mod 4 * 16 + unat b div 16),
      b64_char (unat b mod 16 * 4), CHR ''='']"
| "urlsafe_b64encode (a # b # c # r) =
     b64_char (unat a div 4) # b64_char (unat a mod 4 * 16 + unat b div 16) #
     b64_char (unat b mod 16 * 4 + unat c div 64) # b64_char (unat c mod 64) #
     urlsafe_b64encode r"

definition rstrip_pad :: "str \<Rightarrow> str" where
  "rstrip_pad s = rev (dropWhile (\<lambda>c. c = CHR ''='') (rev s))"

definition b64encode :: "bytes \<Rightarrow> str" where
  "b64encode data = rstrip_pad (urlsafe_b64encode data)"

section \<open>Decoding\<close>

text \<open>
  \<open>binascii.a2b_base64\<close> in its lenient mode: \<open>q\<close> is the position in the current quad,
  \<open>l\<close> the bits left over, \<open>p\<close> the padding seen since the last data character.
\<close>

fun a2b :: "str \<Rightarrow> nat \<Rightarrow> nat \<Rightarrow> nat \<Rightarrow> bytes res" where
  "a2b [] q l p =
     (if q = 0 then Inr []
      else if q = 1 then Inl (ValueError ''Invalid base64-encoded string'')
      else Inl (ValueError ''Incorrect padding''))"
| "a2b (c # cs) q l p =
     (if c = CHR ''='' then
        (if 2 \<le> q then (if 4 \<le> q + Suc p then Inr [] else a2b cs q l (Suc p))
         else a2b cs q l p)
      else (case b64_val c of
              None \<Rightarrow> a2b cs q l p
            | Some v \<Rightarrow>
                if q = 0 then a2b cs 1 v 0
                else if q = 1 then
                  and_then (a2b cs 2 (v mod 16) 0) (\<lambda>r. Inr (word_of_nat (l * 4 + v div 16) # r))
                else if q = 2 then
                  and_then (a2b cs 3 (v mod 4) 0) (\<lambda>r. Inr (word_of_nat (l * 16 + v div 4) # r))
                else
                  and_then (a2b cs 0 0 0) (\<lambda>r. Inr (word_of_nat (l * 64 + v) # r))))"

definition urlsafe_b64decode :: "str \<Rightarrow> bytes res" where
  "urlsafe_b64decode s =
     (if list_all (\<lambda>c. (of_char c :: nat) < 128) s then a2b s 0 0 0
      else Inl (ValueError ''string argument should contain only ASCII characters''))"

text \<open>\<open>"=" * (-len(value) % 4)\<close>.\<close>

definition b64_padding :: "str \<Rightarrow> str" where
  "b64_padding v = replicate (nat ((- int (length v)) mod 4)) (CHR ''='')"

definition b64decode :: "str \<Rightarrow> bytes res" where
  "b64decode v = urlsafe_b64decode (v @ b64_padding v)"

section \<open>Round trip\<close>

text \<open>The encoded data characters, without padding.\<close>

fun b64_data :: "bytes \<Rightarrow> str" where
  "b64_data [] = []"
| "b64_data [a] = [b64_char (unat a div 4), b64_char (unat a mod 4 * 16)]"
| "b64_data [a, b] =
     [b64_char (unat a div 4), b64_char (unat a mod 4 * 16 + unat b div 16),
      b64_char (unat b mod 16 * 4)]"
| "b64_data (a # b # c # r) =
     b64_char (unat a div 4) # b64_char (unat a mod 4 * 16 + unat b div 16) #
     b64_char (unat b mod 16 * 4 + unat c div 64) # b64_char (unat c mod 64) # b64_data r"

lemma unat_byte_less [simp]: "unat (a :: byte) < 256"
  using unsigned_less [of a, where 'a = nat] by simp

lemma byte_parts [simp]:
  fixes a b :: byte
  shows "unat a div 4 < 64" "unat a mod 4 * 16 < 64" "unat a mod 4 * 16 + unat b div 16 < 64"
    "unat a mod 16 * 4 < 64" "unat a mod 16 * 4 + unat b div 64 < 64" "unat a mod 64 < 64"
proof -
  have a: "unat a < 256" and b: "unat b < 256" by simp_all
  show "unat a div 4 < 64" using a by (simp add: less_mult_imp_div_less)
  show "unat a mod 4 * 16 < 64" by simp
  have "unat a mod 4 \<le> 3" "unat b div 16 \<le> 15" using b by linarith+
  then show "unat a mod 4 * 16 + unat b div 16 < 64" by linarith
  show "unat a mod 16 * 4 < 64" by simp
  have "unat a mod 16 \<le> 15" "unat b div 64 \<le> 3" using b by linarith+
  then show "unat a mod 16 * 4 + unat b div 64 < 64" by linarith
  show "unat a mod 64 < 64" by simp
qed

lemma urlsafe_b64encode_data:
  "urlsafe_b64encode bs = b64_data bs @ b64_padding (b64_data bs)"
proof (induction bs rule: b64_data.induct)
  case (4 a b c r)
  have "(- int (length (b64_data (a # b # c # r)))) mod 4 = (- int (length (b64_data r))) mod 4"
    by simp presburger
  then show ?case using 4 by (simp add: b64_padding_def)
qed (simp_all add: b64_padding_def numeral_2_eq_2)

lemma b64_data_chars: "c \<in> set (b64_data bs) \<Longrightarrow> c \<noteq> CHR ''='' \<and> (of_char c :: nat) < 128"
  by (induction bs rule: b64_data.induct) (auto simp: b64_char_ascii)

lemma b64encode_data: "b64encode bs = b64_data bs"
proof -
  have "dropWhile (\<lambda>c. c = CHR ''='') (replicate n (CHR ''='') @ rev (b64_data bs)) =
      rev (b64_data bs)" for n
    by (induction n) (auto intro!: dropWhile_hd dest: b64_data_chars [OF last_in_set] simp: hd_rev)
  then show ?thesis
    by (simp add: b64encode_def rstrip_pad_def urlsafe_b64encode_data b64_padding_def)
qed

lemma byte_small [simp]:
  fixes b :: byte
  shows "unat b div 16 div 16 = 0" "unat b div 16 mod 16 = unat b div 16"
    "unat b div 64 div 4 = 0" "unat b div 64 mod 4 = unat b div 64"
proof -
  have "unat b div 16 < 16" "unat b div 64 < 4" by (simp_all add: less_mult_imp_div_less)
  then show "unat b div 16 div 16 = 0" "unat b div 16 mod 16 = unat b div 16"
    "unat b div 64 div 4 = 0" "unat b div 64 mod 4 = unat b div 64" by simp_all
qed

lemma a2b_data: "a2b (urlsafe_b64encode bs) 0 0 0 = Inr bs"
proof (induction bs rule: urlsafe_b64encode.induct)
  case (4 a b c r)
  then show ?case
    by (simp del: of_nat_add of_nat_mult)
qed (simp_all del: of_nat_add of_nat_mult)

lemma b64decode_encode [simp, codec_simps]: "b64decode (b64encode bs) = Inr bs"
proof -
  have "list_all (\<lambda>c. (of_char c :: nat) < 128) (b64_data bs @ b64_padding (b64_data bs))"
    by (auto simp: list_all_iff b64_padding_def dest: b64_data_chars)
  then show ?thesis
    using a2b_data [of bs]
    by (simp add: b64decode_def urlsafe_b64decode_def b64encode_data urlsafe_b64encode_data)
qed

lemma b64encode_inject [simp]: "b64encode a = b64encode b \<longleftrightarrow> a = b"
  by (metis b64decode_encode sum.inject(2))

lemma b64encode_Nil [simp]: "b64encode [] = []"
  by (simp add: b64encode_data)

lemma b64encode_eq_Nil [simp]: "b64encode bs = [] \<longleftrightarrow> bs = []"
  by (metis b64encode_Nil b64encode_inject)

section \<open>Aliases\<close>

text \<open>
  The padding the callers add makes an explicit \<open>=\<close> at the end of an unpadded text
  invisible: two different texts decode to the same bytes.
\<close>

lemma b64decode_extra_pad:
  assumes "length v mod 4 \<in> {2, 3}"
  shows "b64decode (v @ ''='') = b64decode v"
proof -
  have "length v mod 4 = 2 \<or> length v mod 4 = 3" using assms by simp
  then have "(- int (length v)) mod 4 = 2 \<and> (- int (Suc (length v))) mod 4 = 1 \<or>
      (- int (length v)) mod 4 = 1 \<and> (- int (Suc (length v))) mod 4 = 0"
    by presburger
  then have "nat ((- int (length v)) mod 4) = Suc (nat ((- int (Suc (length v))) mod 4))"
    by auto
  then have "b64_padding v = CHR ''='' # b64_padding (v @ ''='')"
    by (simp add: b64_padding_def)
  then show ?thesis by (simp add: b64decode_def)
qed

lemma length_b64encode:
  "length (b64encode bs) = length bs div 3 * 4 + (if length bs mod 3 = 0 then 0 else length bs mod 3 + 1)"
proof (unfold b64encode_data, induction bs rule: b64_data.induct)
  case (4 a b c r)
  have "length (a # b # c # r) div 3 = Suc (length r div 3)"
    "length (a # b # c # r) mod 3 = length r mod 3" by auto
  with 4 show ?case by simp
qed auto

end
