(* ===== verification/Json.thy ===== *)
theory Json
  imports Prelude
begin

text \<open>
  The part of the standard \<open>json\<close> module the sources use: \<open>json.dumps\<close> with the default
  or compact separators and \<open>ensure_ascii\<close>, and \<open>json.loads\<close>, on values without floats
  and on strings over the code points below 256. The main fact is that loading a dumped
  value gives it back.
\<close>

datatype json =
    JNull
  | JBool bool
  | JInt int
  | JStr str
  | JList "json list"
  | JObj "(str \<times> json) list"

section \<open>Dictionaries\<close>

text \<open>\<open>d[k] = v\<close>, \<open>d.get(k)\<close> and \<open>d[k]\<close> on an insertion-ordered dict.\<close>

fun dict_put :: "'k \<Rightarrow> 'v \<Rightarrow> ('k \<times> 'v) list \<Rightarrow> ('k \<times> 'v) list" where
  "dict_put k v [] = [(k, v)]"
| "dict_put k v ((k', v') # d) =
     (if k = k' then (k, v) # d else (k', v') # dict_put k v d)"

definition dict_of :: "('k \<times> 'v) list \<Rightarrow> ('k \<times> 'v) list" where
  "dict_of ps = fold (\<lambda>(k, v). dict_put k v) ps []"

definition jget :: "(str \<times> json) list \<Rightarrow> str \<Rightarrow> json res" where
  "jget d k = opt_res (KeyError k) (map_of d k)"

lemma map_of_dict_put [simp]: "map_of (dict_put k v d) = (map_of d)(k \<mapsto> v)"
  by (induction k v d rule: dict_put.induct) auto

lemma keys_dict_put: "fst ` set (dict_put k v d) = insert k (fst ` set d)"
  by (induction k v d rule: dict_put.induct) auto

lemma dict_put_fresh: "k \<notin> fst ` set d \<Longrightarrow> dict_put k v d = d @ [(k, v)]"
  by (induction k v d rule: dict_put.induct) auto

lemma distinct_dict_put: "distinct (map fst d) \<Longrightarrow> distinct (map fst (dict_put k v d))"
  by (induction k v d rule: dict_put.induct) (auto simp: keys_dict_put)

lemma dict_of_distinct:
  assumes "distinct (map fst ps)"
  shows "dict_of ps = ps"
proof -
  have "distinct (map fst (d @ ps)) \<Longrightarrow> fold (\<lambda>(k, v). dict_put k v) ps d = d @ ps" for d
    by (induction ps arbitrary: d) (force simp: dict_put_fresh)+
  from this [of "[]"] assms show ?thesis by (simp add: dict_of_def)
qed

text \<open>\<open>int(x)\<close> and \<open>str(x)\<close> of a loaded value, for the values the sources convert.\<close>

definition int_of_str :: "str \<Rightarrow> int res" where
  "int_of_str s = (let t = py_strip s; (neg, ds) = (case t of
       c # cs \<Rightarrow> if c = CHR ''-'' then (True, cs) else if c = CHR ''+'' then (False, cs)
                else (False, t)
     | [] \<Rightarrow> (False, []))
     in if ds \<noteq> [] \<and> list_all is_digit ds
        then Inr (if neg then - int (nat_of_str ds) else int (nat_of_str ds))
        else Inl (ValueError ''invalid literal for int() with base 10''))"

fun jint :: "json \<Rightarrow> int res" where
  "jint (JInt i) = Inr i"
| "jint (JBool b) = Inr (if b then 1 else 0)"
| "jint (JStr s) = int_of_str s"
| "jint _ = Inl (TypeError ''int() argument must be a string or a number'')"

fun jstr :: "json \<Rightarrow> str res" where
  "jstr (JStr s) = Inr s"
| "jstr (JInt i) = Inr (str_of_int i)"
| "jstr (JBool b) = Inr (if b then ''True'' else ''False'')"
| "jstr JNull = Inr ''None''"
| "jstr _ = Inl (TypeError ''str() of a container is not modelled'')"

fun jtruthy :: "json \<Rightarrow> bool" where
  "jtruthy JNull = False"
| "jtruthy (JBool b) = b"
| "jtruthy (JInt i) = (i \<noteq> 0)"
| "jtruthy (JStr s) = (s \<noteq> [])"
| "jtruthy (JList xs) = (xs \<noteq> [])"
| "jtruthy (JObj ps) = (ps \<noteq> [])"

definition jget_default :: "(str \<times> json) list \<Rightarrow> str \<Rightarrow> json \<Rightarrow> json" where
  "jget_default d k v = (case map_of d k of Some x \<Rightarrow> x | None \<Rightarrow> v)"

fun jobj :: "json \<Rightarrow> (str \<times> json) list res" where
  "jobj (JObj d) = Inr d"
| "jobj _ = Inl (TypeError ''not a dict'')"

section \<open>Printing\<close>

definition json_escape_char :: "char \<Rightarrow> str" where
  "json_escape_char c = (let n = of_char c :: nat in
     if n = 34 then [CHR 0x5C, CHR 0x22]
     else if n = 92 then [CHR 0x5C, CHR 0x5C]
     else if n = 10 then [CHR 0x5C, CHR ''n'']
     else if n = 13 then [CHR 0x5C, CHR ''r'']
     else if n = 9 then [CHR 0x5C, CHR ''t'']
     else if n = 12 then [CHR 0x5C, CHR ''f'']
     else if n = 8 then [CHR 0x5C, CHR ''b'']
     else if 32 \<le> n \<and> n \<le> 126 then [c]
     else [CHR 0x5C, CHR ''u'', CHR ''0'', CHR ''0'', hex_digit (n div 16), hex_digit (n mod 16)])"

definition json_string :: "str \<Rightarrow> str" where
  "json_string s = CHR 0x22 # concat (map json_escape_char s) @ [CHR 0x22]"

text \<open>\<open>json.dumps(j, separators=(isep, ksep))\<close>.\<close>

fun json_dumps :: "str \<Rightarrow> str \<Rightarrow> json \<Rightarrow> str" where
  "json_dumps isep ksep JNull = ''null''"
| "json_dumps isep ksep (JBool b) = (if b then ''true'' else ''false'')"
| "json_dumps isep ksep (JInt i) = str_of_int i"
| "json_dumps isep ksep (JStr s) = json_string s"
| "json_dumps isep ksep (JList xs) =
     ''['' @ py_join isep (map (json_dumps isep ksep) xs) @ '']''"
| "json_dumps isep ksep (JObj ps) =
     ''{'' @ py_join isep (map (\<lambda>p. json_string (fst p) @ ksep @ json_dumps isep ksep (snd p)) ps)
     @ ''}''"

section \<open>Parsing\<close>

definition json_ws :: "char \<Rightarrow> bool" where
  "json_ws c \<longleftrightarrow> c = CHR '' '' \<or> c = CHR 0x09 \<or> c = CHR 0x0A \<or> c = CHR 0x0D"

definition skip_ws :: "str \<Rightarrow> str" where
  "skip_ws s = dropWhile json_ws s"

definition json_unescape :: "char \<Rightarrow> char option" where
  "json_unescape c =
     (if c = CHR 0x22 \<or> c = CHR 0x5C \<or> c = CHR ''/'' then Some c
      else if c = CHR ''n'' then Some (CHR 0x0A)
      else if c = CHR ''r'' then Some (CHR 0x0D)
      else if c = CHR ''t'' then Some (CHR 0x09)
      else if c = CHR ''f'' then Some (CHR 0x0C)
      else if c = CHR ''b'' then Some (CHR 0x08)
      else None)"

definition hex4 :: "char \<Rightarrow> char \<Rightarrow> char \<Rightarrow> char \<Rightarrow> nat option" where
  "hex4 a b c d =
     (case (hex_val a, hex_val b, hex_val c, hex_val d) of
        (Some w, Some x, Some y, Some z) \<Rightarrow> Some (((w * 16 + x) * 16 + y) * 16 + z)
      | _ \<Rightarrow> None)"

text \<open>The text after an opening quote: the string and what follows its closing quote.\<close>

fun scan_string :: "str \<Rightarrow> (str \<times> str) option" where
  "scan_string [] = None"
| "scan_string (c # cs) =
     (if c = CHR 0x22 then Some ([], cs)
      else if c = CHR 0x5C then
        (case cs of
           e # es \<Rightarrow>
             if e = CHR ''u'' then
               (case es of
                  h1 # h2 # h3 # h4 # r \<Rightarrow>
                    (case hex4 h1 h2 h3 h4 of
                       Some n \<Rightarrow>
                         if n < 256 then map_option (\<lambda>(t, r'). (char_of n # t, r')) (scan_string r)
                         else None
                     | None \<Rightarrow> None)
                | _ \<Rightarrow> None)
             else (case json_unescape e of
                     Some x \<Rightarrow> map_option (\<lambda>(t, r'). (x # t, r')) (scan_string es)
                   | None \<Rightarrow> None)
         | [] \<Rightarrow> None)
      else if (of_char c :: nat) < 32 then None
      else map_option (\<lambda>(t, r'). (c # t, r')) (scan_string cs))"

text \<open>An integer literal; a fraction or an exponent makes a float, which is not modelled.\<close>

definition num_end :: "str \<Rightarrow> bool" where
  "num_end r \<longleftrightarrow> (case r of [] \<Rightarrow> True
     | c # _ \<Rightarrow> \<not> is_digit c \<and> c \<noteq> CHR ''.'' \<and> c \<noteq> CHR ''e'' \<and> c \<noteq> CHR ''E'')"

definition scan_nat :: "str \<Rightarrow> (nat \<times> str) option" where
  "scan_nat s =
     (let ds = takeWhile is_digit s; r = dropWhile is_digit s in
      if ds = [] \<or> (hd ds = CHR ''0'' \<and> ds \<noteq> ''0'') \<or> \<not> num_end r then None
      else Some (nat_of_str ds, r))"

definition scan_int :: "str \<Rightarrow> (json \<times> str) option" where
  "scan_int s =
     (case s of
        c # cs \<Rightarrow>
          if c = CHR ''-'' then map_option (\<lambda>(n, r). (JInt (- int n), r)) (scan_nat cs)
          else map_option (\<lambda>(n, r). (JInt (int n), r)) (scan_nat s)
      | [] \<Rightarrow> None)"

text \<open>
  The recursive descent of the decoder; the fuel bounds the nesting and the number of
  items, and the length of the text is always enough for a printed value.
\<close>

fun parse_value :: "nat \<Rightarrow> str \<Rightarrow> (json \<times> str) option"
  and parse_items :: "nat \<Rightarrow> str \<Rightarrow> (json list \<times> str) option"
  and parse_members :: "nat \<Rightarrow> str \<Rightarrow> ((str \<times> json) list \<times> str) option" where
  "parse_value 0 s = None"
| "parse_value (Suc n) s =
     (case skip_ws s of
        [] \<Rightarrow> None
      | c # cs \<Rightarrow>
          if c = CHR 0x22 then map_option (\<lambda>(t, r). (JStr t, r)) (scan_string cs)
          else if c = CHR ''['' then
            (case skip_ws cs of
               [] \<Rightarrow> None
             | d # ds \<Rightarrow> if d = CHR '']'' then Some (JList [], ds)
                 else map_option (\<lambda>(xs, r). (JList xs, r)) (parse_items n (d # ds)))
          else if c = CHR ''{'' then
            (case skip_ws cs of
               [] \<Rightarrow> None
             | d # ds \<Rightarrow> if d = CHR ''}'' then Some (JObj [], ds)
                 else map_option (\<lambda>(ps, r). (JObj (dict_of ps), r)) (parse_members n (d # ds)))
          else if starts_with ''null'' (c # cs) then Some (JNull, drop 4 (c # cs))
          else if starts_with ''true'' (c # cs) then Some (JBool True, drop 4 (c # cs))
          else if starts_with ''false'' (c # cs) then Some (JBool False, drop 5 (c # cs))
          else scan_int (c # cs))"
| "parse_items 0 s = None"
| "parse_items (Suc n) s =
     (case parse_value n s of
        None \<Rightarrow> None
      | Some (v, r) \<Rightarrow>
          (case skip_ws r of
             [] \<Rightarrow> None
           | d # ds \<Rightarrow>
               if d = CHR '','' then map_option (\<lambda>(xs, r'). (v # xs, r')) (parse_items n ds)
               else if d = CHR '']'' then Some ([v], ds)
               else None))"
| "parse_members 0 s = None"
| "parse_members (Suc n) s =
     (case skip_ws s of
        [] \<Rightarrow> None
      | q # qs \<Rightarrow>
          if q \<noteq> CHR 0x22 then None
          else (case scan_string qs of
            None \<Rightarrow> None
          | Some (k, r) \<Rightarrow>
              (case skip_ws r of
                 [] \<Rightarrow> None
               | col # r1 \<Rightarrow>
                   if col \<noteq> CHR '':'' then None
                   else (case parse_value n r1 of
                     None \<Rightarrow> None
                   | Some (v, r2) \<Rightarrow>
                       (case skip_ws r2 of
                          [] \<Rightarrow> None
                        | d # ds \<Rightarrow>
                            if d = CHR '','' then
                              map_option (\<lambda>(ps, r'). ((k, v) # ps, r')) (parse_members n ds)
                            else if d = CHR ''}'' then Some ([(k, v)], ds)
                            else None)))))"

definition json_loads :: "str \<Rightarrow> json res" where
  "json_loads s =
     (case parse_value (Suc (length s)) s of
        Some (v, r) \<Rightarrow> if skip_ws r = [] then Inr v else Inl (ValueError ''Extra data'')
      | None \<Rightarrow> Inl (ValueError ''Expecting value''))"

section \<open>Loading a printed value\<close>

lemma char_eqI: "(of_char c :: nat) = of_char d \<Longrightarrow> c = d"
  by simp

lemma scan_string_special:
  assumes "c \<in> {CHR 0x22, CHR 0x5C, CHR 0x0A, CHR 0x0D, CHR 0x09, CHR 0x0C, CHR 0x08}"
  shows "scan_string (json_escape_char c @ s) = map_option (\<lambda>(t, r). (c # t, r)) (scan_string s)"
  using assms by (elim insertE) (simp_all add: json_escape_char_def json_unescape_def)

lemma scan_string_escape:
  "scan_string (json_escape_char c @ s) = map_option (\<lambda>(t, r). (c # t, r)) (scan_string s)"
proof (cases "c \<in> {CHR 0x22, CHR 0x5C, CHR 0x0A, CHR 0x0D, CHR 0x09, CHR 0x0C, CHR 0x08}")
  case True
  then show ?thesis by (rule scan_string_special)
next
  case False
  let ?n = "of_char c :: nat"
  have ne: "?n \<noteq> of_char d" if "c \<noteq> d" for d using that by simp
  from False have n: "?n \<noteq> 34" "?n \<noteq> 92" "?n \<noteq> 10" "?n \<noteq> 13" "?n \<noteq> 9" "?n \<noteq> 12" "?n \<noteq> 8"
    using ne [of "CHR 0x22"] ne [of "CHR 0x5C"] ne [of "CHR 0x0A"] ne [of "CHR 0x0D"]
      ne [of "CHR 0x09"] ne [of "CHR 0x0C"] ne [of "CHR 0x08"] by simp_all
  show ?thesis
  proof (cases "32 \<le> ?n \<and> ?n \<le> 126")
    case True
    with n have "json_escape_char c = [c]" by (simp add: json_escape_char_def)
    with True False show ?thesis by simp
  next
    case False
    have lt: "?n < 256" by (rule of_char_less)
    then have "?n div 16 < 16" by (simp add: less_mult_imp_div_less)
    then have "hex4 (CHR ''0'') (CHR ''0'') (hex_digit (?n div 16)) (hex_digit (?n mod 16)) = Some ?n"
      by (simp add: hex4_def hex_val_digit hex_val_def [of "CHR ''0''"])
    moreover from n False have "json_escape_char c = [CHR 0x5C, CHR ''u'', CHR ''0'', CHR ''0'',
        hex_digit (?n div 16), hex_digit (?n mod 16)]"
      by (auto simp: json_escape_char_def Let_def)
    ultimately show ?thesis using lt by simp
  qed
qed

lemma scan_string_printed [simp]:
  "scan_string (concat (map json_escape_char s) @ CHR 0x22 # r) = Some (s, r)"
  by (induction s) (simp_all add: scan_string_escape)

lemma hd_str_of_nat: "0 < n \<Longrightarrow> hd (str_of_nat n) \<noteq> CHR ''0''"
proof (induction n rule: str_of_nat.induct)
  case (1 n)
  show ?case
  proof (cases "n < 10")
    case True
    have "char_of (48 + n) \<noteq> CHR ''0''" using True \<open>0 < n\<close>
      by (auto simp: char_of_eq_iff take_bit_eq_mod)
    with True show ?thesis by (subst str_of_nat.simps) (simp add: digit_char_def)
  next
    case False
    then have "hd (str_of_nat (n div 10)) \<noteq> CHR ''0''" using 1 by simp
    with False show ?thesis by (subst str_of_nat.simps) simp
  qed
qed

lemma str_of_nat_0: "str_of_nat 0 = ''0''"
  by (simp add: str_of_nat.simps digit_char_def) (rule char_eqI, simp)

lemma scan_nat_printed: "num_end r \<Longrightarrow> scan_nat (str_of_nat n @ r) = Some (n, r)"
proof -
  assume r: "num_end r"
  then have "takeWhile is_digit (str_of_nat n @ r) = str_of_nat n"
    "dropWhile is_digit (str_of_nat n @ r) = r"
    by (auto simp: num_end_def takeWhile_append2 dropWhile_append2 str_of_nat_digits
        split: list.splits)
  moreover have "hd (str_of_nat n) = CHR ''0'' \<longrightarrow> str_of_nat n = ''0''"
    using hd_str_of_nat [of n] by (cases "n = 0") (simp_all add: str_of_nat_0)
  ultimately show ?thesis using r by (simp add: scan_nat_def Let_def)
qed

lemma hd_str_of_nat_digit: "is_digit (hd (str_of_nat n))"
  by (meson hd_in_set str_of_nat_digits str_of_nat_nonempty)

lemma is_digit_not:
  "is_digit c \<Longrightarrow> c \<noteq> CHR ''-'' \<and> c \<noteq> CHR 0x22 \<and> c \<noteq> CHR ''['' \<and> c \<noteq> CHR ''{''
     \<and> c \<noteq> CHR ''n'' \<and> c \<noteq> CHR ''t'' \<and> c \<noteq> CHR ''f'' \<and> \<not> json_ws c"
  by (auto simp: is_digit_def json_ws_def)

lemma scan_int_printed: "num_end r \<Longrightarrow> scan_int (str_of_int i @ r) = Some (JInt i, r)"
proof (cases "i < 0")
  case False
  assume "num_end r"
  with False show ?thesis
    using scan_nat_printed [of r "nat i"] hd_str_of_nat_digit [of "nat i"]
    by (auto simp: scan_int_def str_of_int_def dest!: is_digit_not
        split: list.splits) (metis hd_append hd_Cons_tl list.sel(1) str_of_nat_nonempty)
qed (simp add: scan_int_def str_of_int_def scan_nat_printed)

text \<open>Values whose objects have distinct keys: what a Python dict can hold.\<close>

fun json_ok :: "json \<Rightarrow> bool" where
  "json_ok (JList xs) \<longleftrightarrow> (\<forall>x \<in> set xs. json_ok x)"
| "json_ok (JObj ps) \<longleftrightarrow> distinct (map fst ps) \<and> (\<forall>p \<in> set ps. json_ok (snd p))"
| "json_ok _ \<longleftrightarrow> True"

definition seps_ok :: "str \<Rightarrow> str \<Rightarrow> bool" where
  "seps_ok isep ksep \<longleftrightarrow>
     (\<exists>w. isep = CHR '','' # w \<and> list_all json_ws w) \<and> (\<exists>w. ksep = CHR '':'' # w \<and> list_all json_ws w)"

lemma seps_ok_compact: "seps_ok '','' '':''" and seps_ok_default: "seps_ok '', '' '': ''"
  by (simp_all add: seps_ok_def json_ws_def)

lemma skip_ws_append: "list_all json_ws w \<Longrightarrow> skip_ws (w @ s) = skip_ws s"
  by (simp add: skip_ws_def list_all_iff)

lemma skip_ws_Cons: "\<not> json_ws c \<Longrightarrow> skip_ws (c # s) = c # s"
  by (simp add: skip_ws_def)

lemma json_ws_not [simp]:
  "\<not> json_ws (CHR '','')" "\<not> json_ws (CHR '']'')" "\<not> json_ws (CHR ''}'')" "\<not> json_ws (CHR 0x22)"
  "\<not> json_ws (CHR ''['')" "\<not> json_ws (CHR ''{'')" "\<not> json_ws (CHR '':'')"
  "\<not> json_ws (CHR ''n'')" "\<not> json_ws (CHR ''t'')" "\<not> json_ws (CHR ''f'')" "\<not> json_ws (CHR ''-'')"
  by (simp_all add: json_ws_def)

lemma num_end_Cons [simp]:
  "num_end (CHR '','' # r)" "num_end (CHR '']'' # r)" "num_end (CHR ''}'' # r)" "num_end []"
  by (simp_all add: num_end_def is_digit_def)

lemma json_dumps_nonempty [simp]: "json_dumps i k j \<noteq> []"
  by (cases j) (auto simp: str_of_int_def json_string_def)

text \<open>A printed value starts with neither white space nor a closing bracket.\<close>

lemma json_dumps_hd:
  "\<not> json_ws (hd (json_dumps i k j)) \<and> hd (json_dumps i k j) \<noteq> CHR '']''"
proof (cases j)
  case (JInt n)
  have "d \<noteq> CHR '']''" if "is_digit d" for d using that by (auto simp: is_digit_def)
  then show ?thesis using JInt hd_str_of_nat_digit
    by (auto simp: str_of_int_def dest!: is_digit_not)
qed (auto simp: json_string_def)

lemma parse_value_hd:
  assumes "s \<noteq> []" "\<not> json_ws (hd s)"
  shows "skip_ws s = s"
  using assms by (cases s) (auto simp: skip_ws_Cons)

text \<open>Items and members, given that each element parses with enough fuel.\<close>

lemma parse_items_printed:
  assumes "\<And>x m r. x \<in> set xs \<Longrightarrow> num_end r \<Longrightarrow> length (json_dumps i k x) \<le> m \<Longrightarrow>
      parse_value m (json_dumps i k x @ r) = Some (x, r)"
    and "seps_ok i k" "xs \<noteq> []"
    and "length (py_join i (map (json_dumps i k) xs)) < n"
  shows "parse_items n (py_join i (map (json_dumps i k) xs) @ CHR '']'' # r) = Some (xs, r)"
  using assms
proof (induction xs arbitrary: n)
  case (Cons x xs)
  from Cons.prems(4) obtain m where n: "n = Suc m" by (cases n) auto
  show ?case
  proof (cases xs)
    case Nil
    with Cons.prems n show ?thesis by (simp add: skip_ws_Cons)
  next
    case (Cons y ys)
    obtain w where i: "i = CHR '','' # w" "list_all json_ws w"
      using \<open>seps_ok i k\<close> by (auto simp: seps_ok_def)
    let ?rest = "py_join i (map (json_dumps i k) xs) @ CHR '']'' # r"
    have len: "length (json_dumps i k x) \<le> m"
      "length (py_join i (map (json_dumps i k) xs)) < m"
      using Cons.prems(4) n Cons i by simp_all
    have "parse_items m ?rest = Some (xs, r)"
      using Cons.prems len Cons by (intro Cons.IH) auto
    moreover have "parse_value m (json_dumps i k x @ CHR '','' # w @ ?rest) =
        Some (x, CHR '','' # w @ ?rest)"
      using Cons.prems len by auto
    moreover have "parse_items m (w @ s) = parse_items m s" if "list_all json_ws w" for s
      using that by (cases m; cases "m - 1") (simp_all add: skip_ws_append)
    ultimately show ?thesis using n i Cons by (simp add: skip_ws_Cons)
  qed
qed simp

lemma parse_members_printed:
  assumes "\<And>p m r. p \<in> set ps \<Longrightarrow> num_end r \<Longrightarrow> length (json_dumps i k (snd p)) \<le> m \<Longrightarrow>
      parse_value m (json_dumps i k (snd p) @ r) = Some (snd p, r)"
    and "seps_ok i k" "ps \<noteq> []"
    and "length (py_join i (map (\<lambda>p. json_string (fst p) @ k @ json_dumps i k (snd p)) ps)) < n"
  shows "parse_members n (py_join i (map (\<lambda>p. json_string (fst p) @ k @ json_dumps i k (snd p)) ps)
      @ CHR ''}'' # r) = Some (ps, r)"
  using assms
proof (induction ps arbitrary: n)
  case (Cons p ps)
  from Cons.prems(4) obtain m where n: "n = Suc m" by (cases n) auto
  obtain w where i: "i = CHR '','' # w" "list_all json_ws w"
    using \<open>seps_ok i k\<close> by (auto simp: seps_ok_def)
  obtain v where k: "k = CHR '':'' # v" "list_all json_ws v"
    using \<open>seps_ok i k\<close> by (auto simp: seps_ok_def)
  have ws: "parse_value m (v @ s) = parse_value m s" "parse_members m (w @ s) = parse_members m s" for s
    using i k by (cases m; simp add: skip_ws_append)+
  let ?f = "\<lambda>p. json_string (fst p) @ k @ json_dumps i k (snd p)"
  show ?case
  proof (cases ps)
    case Nil
    then have "parse_value m (json_dumps i k (snd p) @ CHR ''}'' # r) = Some (snd p, CHR ''}'' # r)"
      using Cons.prems n by (auto simp: json_string_def)
    with Nil n k ws show ?thesis by (simp add: json_string_def skip_ws_Cons)
  next
    case (Cons q qs)
    let ?rest = "py_join i (map ?f ps) @ CHR ''}'' # r"
    have len: "length (json_dumps i k (snd p)) \<le> m" "length (py_join i (map ?f ps)) < m"
      using Cons.prems(4) n Cons i by (simp_all add: json_string_def)
    have "parse_members m ?rest = Some (ps, r)"
      using Cons.prems len Cons by (intro Cons.IH) auto
    moreover have "parse_value m (json_dumps i k (snd p) @ CHR '','' # w @ ?rest) =
        Some (snd p, CHR '','' # w @ ?rest)"
      using Cons.prems len by auto
    ultimately show ?thesis using n i k ws Cons by (simp add: skip_ws_Cons json_string_def)
  qed
qed simp

lemma parse_value_printed:
  assumes "seps_ok i k" "json_ok j" "num_end r" "length (json_dumps i k j) \<le> n"
  shows "parse_value n (json_dumps i k j @ r) = Some (j, r)"
  using assms(2-4)
proof (induction j arbitrary: n r)
  case (JInt x)
  then obtain m where "n = Suc m" by (cases n) (auto simp: str_of_int_def split: if_splits)
  moreover have "\<exists>c cs. str_of_int x @ r = c # cs \<and> (c = CHR ''-'' \<or> is_digit c)"
    using hd_str_of_nat_digit [of "nat x"]
    by (cases "str_of_nat (nat x)") (auto simp: str_of_int_def)
  ultimately show ?case
    using scan_int_printed [OF JInt.prems(2), of x]
    by (auto simp: skip_ws_Cons starts_with_def dest: is_digit_not)
next
  case (JList xs)
  then obtain m where n: "n = Suc m" "length (py_join i (map (json_dumps i k) xs)) < m"
    by (cases n) auto
  show ?case
  proof (cases "xs = []")
    case False
    then obtain d ds where d: "py_join i (map (json_dumps i k) xs) @ CHR '']'' # r = d # ds"
      "\<not> json_ws d" "d \<noteq> CHR '']''"
      using json_dumps_hd [of i k "hd xs"]
      by (cases xs; cases "tl xs"; cases "json_dumps i k (hd xs)") auto
    have "parse_items m (d # ds) = Some (xs, r)"
      unfolding d(1) [symmetric] using JList False n assms(1)
      by (intro parse_items_printed) auto
    with d n show ?thesis by (simp add: skip_ws_Cons)
  qed (simp add: n skip_ws_Cons)
next
  case (JObj ps)
  then obtain m where n: "n = Suc m"
    "length (py_join i (map (\<lambda>p. json_string (fst p) @ k @ json_dumps i k (snd p)) ps)) < m"
    by (cases n) auto
  show ?case
  proof (cases "ps = []")
    case False
    let ?t = "py_join i (map (\<lambda>p. json_string (fst p) @ k @ json_dumps i k (snd p)) ps) @ CHR ''}'' # r"
    obtain ds where d: "?t = CHR 0x22 # ds"
      using False by (cases ps; cases "tl ps") (auto simp: json_string_def)
    have "parse_members m ?t = Some (ps, r)"
      using JObj False n assms(1)
      by (intro parse_members_printed) (auto simp: snds.simps)
    with d n JObj.prems show ?thesis by (simp add: skip_ws_Cons dict_of_distinct)
  qed (simp add: n skip_ws_Cons dict_of_def)
qed (auto simp: skip_ws_Cons starts_with_def json_string_def gr0_conv_Suc
       Suc_le_eq [symmetric] dest!: Suc_le_D)

lemma json_loads_dumps [codec_simps]:
  assumes "seps_ok i k" "json_ok j"
  shows "json_loads (json_dumps i k j) = Inr j"
  using parse_value_printed [OF assms, of "[]" "Suc (length (json_dumps i k j))"]
  by (simp add: json_loads_def skip_ws_def)

text \<open>The two printers of the sources, in the form their callers use.\<close>

abbreviation json_compact :: "json \<Rightarrow> str" where
  "json_compact \<equiv> json_dumps '','' '':''"

abbreviation json_default :: "json \<Rightarrow> str" where
  "json_default \<equiv> json_dumps '', '' '': ''"

lemmas json_compact_roundtrip = json_loads_dumps [OF seps_ok_compact]
lemmas json_default_roundtrip = json_loads_dumps [OF seps_ok_default]

section \<open>Optional items of a dictionary\<close>

text \<open>\<open>if x is not None: payload[k] = x\<close> while a dictionary is built.\<close>

definition opt_item :: "'k \<Rightarrow> 'v option \<Rightarrow> ('k \<times> 'v) list" where
  "opt_item k x = (case x of None \<Rightarrow> [] | Some v \<Rightarrow> [(k, v)])"

definition when_item :: "bool \<Rightarrow> 'k \<Rightarrow> 'v \<Rightarrow> ('k \<times> 'v) list" where
  "when_item b k v = (if b then [(k, v)] else [])"

lemma map_of_opt_item [simp]:
  "map_of (opt_item k x @ d) k' = (if k' = k \<and> x \<noteq> None then x else map_of d k')"
  "map_of (opt_item k x) k' = (if k' = k then x else None)"
  by (auto simp: opt_item_def split: option.splits)

lemma map_of_when_item [simp]:
  "map_of (when_item b k v @ d) k' = (if k' = k \<and> b then Some v else map_of d k')"
  "map_of (when_item b k v) k' = (if k' = k \<and> b then Some v else None)"
  by (auto simp: when_item_def)

lemma item_keys [simp]:
  "k' \<noteq> k \<Longrightarrow> k' \<in> fst ` set (opt_item k x @ d) \<longleftrightarrow> k' \<in> fst ` set d"
  "k' \<noteq> k \<Longrightarrow> k' \<in> fst ` set (when_item b k v @ d) \<longleftrightarrow> k' \<in> fst ` set d"
  "k' \<noteq> k \<Longrightarrow> k' \<notin> fst ` set (opt_item k x)"
  "k' \<noteq> k \<Longrightarrow> k' \<notin> fst ` set (when_item b k v)"
  by (auto simp: opt_item_def when_item_def split: option.splits if_splits)

lemma json_ok_items:
  "json_ok (JObj ((k, j) # d)) \<longleftrightarrow> k \<notin> fst ` set d \<and> json_ok j \<and> json_ok (JObj d)"
  "k \<notin> fst ` set d \<Longrightarrow> json_ok (JObj (opt_item k x @ d)) \<longleftrightarrow>
     json_ok (JObj d) \<and> (case x of None \<Rightarrow> True | Some j \<Rightarrow> json_ok j)"
  "k \<notin> fst ` set d \<Longrightarrow> json_ok (JObj (when_item b k j @ d)) \<longleftrightarrow>
     json_ok (JObj d) \<and> (b \<longrightarrow> json_ok j)"
  "json_ok (JObj (opt_item k x)) \<longleftrightarrow> (case x of None \<Rightarrow> True | Some j \<Rightarrow> json_ok j)"
  "json_ok (JObj (when_item b k j)) \<longleftrightarrow> (b \<longrightarrow> json_ok j)"
  by (auto simp: opt_item_def when_item_def split: option.splits)

declare json_dumps.simps [simp del]

end
