(* ===== verification/Crypto.thy ===== *)
theory Crypto
  imports Base64 Json
begin

text \<open>
  The primitives of third-party packages (\<open>cryptography\<close>, \<open>PyNaCl\<close>, \<open>pqcrypto\<close>, \<open>cbor2\<close>) and
  the hash functions as one parameter, a record of functions; the documented laws the code
  relies on, as named predicates of it; and the wrappers of \<open>yakr_core/crypto.py\<close> and
  \<open>yakr_core/hybrid_pq.py\<close>. A key object is its raw private bytes; every random choice
  (nonce, fresh key) is an argument.
\<close>



section \<open>CBOR values\<close>

datatype cval =
    CNull
  | CBool bool
  | CInt int
  | CStr str
  | CBytes bytes
  | CList "cval list"
  | CMap "(str \<times> cval) list"

definition cget :: "(str \<times> cval) list \<Rightarrow> str \<Rightarrow> cval res" where
  "cget d k = opt_res (KeyError k) (map_of d k)"

definition cget_default :: "(str \<times> cval) list \<Rightarrow> str \<Rightarrow> cval \<Rightarrow> cval" where
  "cget_default d k v = (case map_of d k of Some x \<Rightarrow> x | None \<Rightarrow> v)"

text \<open>
  \<open>int(x)\<close>, \<open>str(x)\<close>, \<open>bytes(x)\<close> and iteration on a decoded value. \<open>str\<close> of a byte
  string, a list or a map (Python's \<open>repr\<close>) is not modelled and raises.
\<close>

fun c_int :: "cval \<Rightarrow> int res" where
  "c_int (CInt i) = Inr i"
| "c_int (CBool b) = Inr (if b then 1 else 0)"
| "c_int (CStr s) = int_of_str s"
| "c_int (CBytes b) = int_of_str (map (char_of \<circ> unat) b)"
| "c_int _ = Inl (TypeError ''int() argument'')"

fun c_str :: "cval \<Rightarrow> str res" where
  "c_str (CStr s) = Inr s"
| "c_str (CInt i) = Inr (str_of_int i)"
| "c_str (CBool b) = Inr (if b then ''True'' else ''False'')"
| "c_str CNull = Inr ''None''"
| "c_str _ = Inl (TypeError ''str() of a container'')"

fun c_byte :: "cval \<Rightarrow> byte res" where
  "c_byte (CInt i) =
     (if 0 \<le> i \<and> i < 256 then Inr (word_of_int i)
      else Inl (ValueError ''bytes must be in range(0, 256)''))"
| "c_byte (CBool b) = Inr (if b then 1 else 0)"
| "c_byte _ = Inl (TypeError ''cannot be interpreted as an integer'')"

fun c_bytes :: "cval \<Rightarrow> bytes res" where
  "c_bytes (CBytes b) = Inr b"
| "c_bytes (CInt i) =
     (if 0 \<le> i then Inr (replicate (nat i) 0) else Inl (ValueError ''negative count''))"
| "c_bytes (CBool b) = Inr (if b then [0] else [])"
| "c_bytes (CList xs) = map_res c_byte xs"
| "c_bytes (CMap []) = Inr []"
| "c_bytes _ = Inl (TypeError ''cannot convert to bytes'')"

fun c_list :: "cval \<Rightarrow> cval list res" where
  "c_list (CList xs) = Inr xs"
| "c_list (CStr s) = Inr (map (\<lambda>c. CStr [c]) s)"
| "c_list (CBytes b) = Inr (map (\<lambda>x. CInt (int (unat x))) b)"
| "c_list (CMap d) = Inr (map (\<lambda>p. CStr (fst p)) d)"
| "c_list _ = Inl (TypeError ''object is not iterable'')"

fun c_dict :: "cval \<Rightarrow> (str \<times> cval) list res" where
  "c_dict (CMap d) = Inr d"
| "c_dict _ = Inl (TypeError ''object is not subscriptable by a string'')"

fun c_map :: "str \<Rightarrow> cval \<Rightarrow> (str \<times> cval) list res" where
  "c_map err (CMap d) = Inr d"
| "c_map err _ = Inl (ValueError err)"

section \<open>The primitives\<close>

record prims =
  p_hkdf :: "nat \<Rightarrow> bytes \<Rightarrow> bytes \<Rightarrow> bytes \<Rightarrow> bytes"  \<comment> \<open>length, salt, info, input key\<close>
  p_sha256 :: "bytes \<Rightarrow> bytes"
  p_hmac :: "bytes \<Rightarrow> bytes \<Rightarrow> bytes"
  p_x25519_pub :: "bytes \<Rightarrow> bytes"
  p_x25519 :: "bytes \<Rightarrow> bytes \<Rightarrow> bytes res"
  p_aead_enc :: "bytes \<Rightarrow> bytes \<Rightarrow> bytes \<Rightarrow> bytes \<Rightarrow> bytes"  \<comment> \<open>key, nonce, data, plaintext\<close>
  p_aead_dec :: "bytes \<Rightarrow> bytes \<Rightarrow> bytes \<Rightarrow> bytes \<Rightarrow> bytes option"
  p_ed_pub :: "bytes \<Rightarrow> bytes"
  p_ed_sign :: "bytes \<Rightarrow> bytes \<Rightarrow> bytes"
  p_ed_verify :: "bytes \<Rightarrow> bytes \<Rightarrow> bytes \<Rightarrow> bool"  \<comment> \<open>public key, signature, message\<close>
  p_kem_pk_size :: nat
  p_kem_sk_size :: nat
  p_kem_ct_size :: nat
  p_kem_pt_size :: nat
  p_kem_enc :: "bytes \<Rightarrow> bytes \<Rightarrow> bytes \<times> bytes"  \<comment> \<open>public key, randomness\<close>
  p_kem_dec :: "bytes \<Rightarrow> bytes \<Rightarrow> bytes"
  p_pq_sign :: "bytes \<Rightarrow> bytes \<Rightarrow> bytes"
  p_pq_verify :: "bytes \<Rightarrow> bytes \<Rightarrow> bytes \<Rightarrow> bool"
  p_spki :: "bytes \<Rightarrow> bytes"  \<comment> \<open>SPKI DER of the public key of an ECDSA private key\<close>
  p_cbor_dumps :: "cval \<Rightarrow> bytes"
  p_cbor_loads :: "bytes \<Rightarrow> cval res"

text \<open>The laws, each the documented behaviour of one primitive.\<close>

definition aead_correct :: "prims \<Rightarrow> bool" where
  "aead_correct P \<longleftrightarrow>
     (\<forall>k n a m. p_aead_dec P k n a (p_aead_enc P k n a m) = Some m)"

definition x25519_commutes :: "prims \<Rightarrow> bool" where
  "x25519_commutes P \<longleftrightarrow>
     (\<forall>a b. length a = 32 \<longrightarrow> length b = 32 \<longrightarrow>
        length (p_x25519_pub P a) = 32 \<and>
        (\<exists>s. p_x25519 P a (p_x25519_pub P b) = Inr s \<and> p_x25519 P b (p_x25519_pub P a) = Inr s))"

definition ed25519_correct :: "prims \<Rightarrow> bool" where
  "ed25519_correct P \<longleftrightarrow> (\<forall>k m. length k = 32 \<longrightarrow>
     length (p_ed_pub P k) = 32 \<and> p_ed_verify P (p_ed_pub P k) (p_ed_sign P k m) m)"

definition hkdf_lengths :: "prims \<Rightarrow> bool" where
  "hkdf_lengths P \<longleftrightarrow> (\<forall>n salt info ikm. length (p_hkdf P n salt info ikm) = n)"

definition hash_lengths :: "prims \<Rightarrow> bool" where
  "hash_lengths P \<longleftrightarrow> (\<forall>m. length (p_sha256 P m) = 32) \<and> (\<forall>k m. length (p_hmac P k m) = 32)"

definition cbor_correct :: "prims \<Rightarrow> bool" where
  "cbor_correct P \<longleftrightarrow> (\<forall>v. p_cbor_loads P (p_cbor_dumps P v) = Inr v)"

lemmas prim_laws = aead_correct_def x25519_commutes_def ed25519_correct_def
  hkdf_lengths_def hash_lengths_def cbor_correct_def

text \<open>\<open>Ed25519PublicKey.from_public_bytes(pk).verify(sig, msg)\<close>.\<close>

definition ed_verify :: "prims \<Rightarrow> bytes \<Rightarrow> bytes \<Rightarrow> bytes \<Rightarrow> unit res" where
  "ed_verify P pk sig msg =
     (if length pk \<noteq> 32 then Inl (ValueError ''An Ed25519 public key is 32 bytes long'')
      else require (p_ed_verify P pk sig msg) InvalidSignature)"

lemma ed_verify_Inr [simp]: "ed_verify P pk sig msg = Inr u \<longleftrightarrow> length pk = 32 \<and> p_ed_verify P pk sig msg"
  by (simp add: ed_verify_def)

lemma ed_verify_signed [simp]:
  "ed25519_correct P \<Longrightarrow> length k = 32 \<Longrightarrow> ed_verify P (p_ed_pub P k) (p_ed_sign P k m) m = Inr ()"
  by (simp add: ed25519_correct_def)

lemma cbor_loads_dumps [simp]: "cbor_correct P \<Longrightarrow> p_cbor_loads P (p_cbor_dumps P v) = Inr v"
  by (simp add: cbor_correct_def)

lemma cbor_dumps_inject: "cbor_correct P \<Longrightarrow> p_cbor_dumps P v = p_cbor_dumps P w \<longleftrightarrow> v = w"
  by (metis cbor_loads_dumps sum.inject(2))

section \<open>\<open>crypto.py\<close>\<close>

definition MASTER_INFO :: bytes where "MASTER_INFO = utf8 ''yakr/v0.1/master''"
definition MESSAGE_KEY_INFO :: bytes where "MESSAGE_KEY_INFO = utf8 ''yakr/v0.1/message-key''"
definition MAILBOX_TAG_INFO :: bytes where "MAILBOX_TAG_INFO = utf8 ''yakr/v0.1/mailbox-tag''"

definition hkdf_derive :: "prims \<Rightarrow> bytes \<Rightarrow> bytes \<Rightarrow> nat \<Rightarrow> bytes \<Rightarrow> bytes" where
  "hkdf_derive P ikm info len salt = p_hkdf P len salt info ikm"

definition x25519_shared_secret :: "prims \<Rightarrow> bytes \<Rightarrow> bytes \<Rightarrow> bytes res" where
  "x25519_shared_secret P private_key peer_public_bytes =
     p_x25519 P private_key peer_public_bytes"

definition derive_master_secret :: "prims \<Rightarrow> bytes \<Rightarrow> bytes \<Rightarrow> bytes" where
  "derive_master_secret P shared_secret salt = hkdf_derive P shared_secret MASTER_INFO 32 salt"

definition derive_message_key :: "prims \<Rightarrow> bytes \<Rightarrow> int \<Rightarrow> bytes res" where
  "derive_message_key P master_secret seq =
     and_then (int_to_bytes seq 8) (\<lambda>b.
     Inr (hkdf_derive P master_secret (MESSAGE_KEY_INFO @ b) 32 []))"

definition derive_mailbox_secret :: "prims \<Rightarrow> bytes \<Rightarrow> str \<Rightarrow> bytes" where
  "derive_mailbox_secret P master_secret direction =
     hkdf_derive P master_secret (MAILBOX_TAG_INFO @ utf8 direction) 32 []"

definition xchacha_encrypt :: "prims \<Rightarrow> bytes \<Rightarrow> bytes \<Rightarrow> bytes \<Rightarrow> bytes \<Rightarrow> bytes" where
  "xchacha_encrypt P nonce key plaintext associated_data =
     nonce @ p_aead_enc P key nonce associated_data plaintext"

definition xchacha_decrypt :: "prims \<Rightarrow> bytes \<Rightarrow> bytes \<Rightarrow> bytes \<Rightarrow> bytes res" where
  "xchacha_decrypt P key payload associated_data =
     (if length payload < 24 then Inl (ValueError ''ciphertext too short'')
      else opt_res (CryptoError ''Decryption failed.'')
             (p_aead_dec P key (take 24 payload) associated_data (drop 24 payload)))"

lemma xchacha_roundtrip [codec_simps]:
  assumes "aead_correct P" "length nonce = 24"
  shows "xchacha_decrypt P k (xchacha_encrypt P nonce k m a) a = Inr m"
  using assms by (simp add: xchacha_decrypt_def xchacha_encrypt_def aead_correct_def)

section \<open>\<open>hybrid_pq.py\<close>\<close>

definition HYBRID_MASTER_INFO :: bytes where "HYBRID_MASTER_INFO = utf8 ''yakr/v0.6/hybrid-master''"
definition HYBRID_PQ_CAPABILITY :: str where "HYBRID_PQ_CAPABILITY = ''hybrid_pq''"
definition PQ_REKEY_MAX_MESSAGES :: int where "PQ_REKEY_MAX_MESSAGES = 10000"
definition PQ_REKEY_MAX_AGE_MS :: int where "PQ_REKEY_MAX_AGE_MS = 7 * 24 * 60 * 60 * 1000"

definition kem_encapsulate :: "prims \<Rightarrow> bytes \<Rightarrow> bytes \<Rightarrow> (bytes \<times> bytes) res" where
  "kem_encapsulate P rnd public_key =
     (if length public_key \<noteq> p_kem_pk_size P
      then Inl (ValueError ''invalid ML-KEM-768 public key length'')
      else Inr (p_kem_enc P public_key rnd))"

definition kem_decapsulate :: "prims \<Rightarrow> bytes \<Rightarrow> bytes \<Rightarrow> bytes res" where
  "kem_decapsulate P secret_key ciphertext =
     (if length secret_key \<noteq> p_kem_sk_size P
      then Inl (ValueError ''invalid ML-KEM-768 secret key length'')
      else if length ciphertext \<noteq> p_kem_ct_size P
      then Inl (ValueError ''invalid ML-KEM-768 ciphertext length'')
      else Inr (p_kem_dec P secret_key ciphertext))"

text \<open>A key pair of the KEM: what one side encapsulates, the other decapsulates.\<close>

definition kem_pair :: "prims \<Rightarrow> bytes \<Rightarrow> bytes \<Rightarrow> bool" where
  "kem_pair P pk sk \<longleftrightarrow> length pk = p_kem_pk_size P \<and> length sk = p_kem_sk_size P \<and>
     (\<forall>rnd. length (fst (p_kem_enc P pk rnd)) = p_kem_ct_size P \<and>
        length (snd (p_kem_enc P pk rnd)) = p_kem_pt_size P \<and>
        p_kem_dec P sk (fst (p_kem_enc P pk rnd)) = snd (p_kem_enc P pk rnd))"

lemma kem_roundtrip:
  assumes "kem_pair P pk sk" "kem_encapsulate P rnd pk = Inr (ct, ss)"
  shows "kem_decapsulate P sk ct = Inr ss" "length ss = p_kem_pt_size P"
  using assms unfolding kem_pair_def kem_encapsulate_def kem_decapsulate_def
  by (auto split: if_splits) (metis fst_conv snd_conv)+

definition derive_hybrid_master ::
    "prims \<Rightarrow> bytes \<Rightarrow> bytes \<Rightarrow> bytes \<Rightarrow> bytes \<Rightarrow> bytes res" where
  "derive_hybrid_master P identity_shared ephemeral_shared pq_secret transcript_hash =
     (if length pq_secret \<noteq> p_kem_pt_size P
      then Inl (ValueError ''invalid PQ shared secret length'')
      else Inr (hkdf_derive P ((identity_shared @ ephemeral_shared) @ pq_secret)
                  HYBRID_MASTER_INFO 32 transcript_hash))"

definition needs_pq_rekey :: "bool \<Rightarrow> int \<Rightarrow> int \<Rightarrow> int \<Rightarrow> bool" where
  "needs_pq_rekey hybrid session_started_at_ms messages_sent now =
     (if \<not> hybrid then False
      else now - session_started_at_ms \<ge> PQ_REKEY_MAX_AGE_MS
           \<or> messages_sent \<ge> PQ_REKEY_MAX_MESSAGES)"

end
