(* ===== verification/Message.thy ===== *)
theory Message
  imports Crypto
begin

text \<open>
  The data that travels: lifetimes (\<open>ephemeral.py\<close>), mailbox tags (\<open>mailbox.py\<close>), padding to
  size classes and decoy tags (\<open>privacy.py\<close>), the inner message and the outer blob
  (\<open>message.py\<close>), and the presence payload (first half of \<open>presence.py\<close>). The clock is an
  argument \<open>now\<close> in milliseconds.
\<close>

section \<open>\<open>ephemeral.py\<close>\<close>

definition MESSAGE_TTL_MS :: int where "MESSAGE_TTL_MS = 24 * 60 * 60 * 1000"
definition PRESENCE_TTL_MS :: int where "PRESENCE_TTL_MS = 30 * 60 * 1000"
definition DEFAULT_BLOB_TTL_MS :: int where "DEFAULT_BLOB_TTL_MS = MESSAGE_TTL_MS"
definition MAX_RELAY_BLOB_TTL_MS :: int where "MAX_RELAY_BLOB_TTL_MS = MESSAGE_TTL_MS"

definition message_valid_until :: "int \<Rightarrow> int" where
  "message_valid_until created_at_ms = created_at_ms + MESSAGE_TTL_MS"

definition is_message_expired :: "int \<Rightarrow> int \<Rightarrow> bool" where
  "is_message_expired valid_until_ms now \<longleftrightarrow> now > valid_until_ms"

definition enforce_message_ttl :: "int \<Rightarrow> int \<Rightarrow> unit res" where
  "enforce_message_ttl valid_until_ms now =
     require (\<not> is_message_expired valid_until_ms now) (MessageExpiredError ''message TTL expired'')"

section \<open>\<open>mailbox.py\<close>\<close>

definition current_epoch :: "int \<Rightarrow> int \<Rightarrow> int res" where
  "current_epoch epoch_secs now =
     (if epoch_secs = 0 then Inl ZeroDivisionError else Inr ((now div 1000) div epoch_secs))"

record mailbox_tag =
  tag :: bytes
  tag_epoch :: int
  tag_direction :: str

definition tag_b64 :: "mailbox_tag \<Rightarrow> str" where
  "tag_b64 t = b64encode (tag t)"

record tag_deriver =
  td_secret :: bytes
  td_epoch_secs :: int

definition derive_at :: "prims \<Rightarrow> tag_deriver \<Rightarrow> str \<Rightarrow> int \<Rightarrow> mailbox_tag" where
  "derive_at P d direction epoch =
     \<lparr>tag = p_hmac P (td_secret d) (utf8 (direction @ ''|'' @ str_of_int epoch)),
      tag_epoch = epoch, tag_direction = direction\<rparr>"

definition derive :: "prims \<Rightarrow> tag_deriver \<Rightarrow> str \<Rightarrow> int option \<Rightarrow> int \<Rightarrow> mailbox_tag res" where
  "derive P d direction epoch now =
     (case epoch of
        Some e \<Rightarrow> Inr (derive_at P d direction e)
      | None \<Rightarrow> and_then (current_epoch (td_epoch_secs d) now) (\<lambda>e. Inr (derive_at P d direction e)))"

definition candidate_epochs :: "prims \<Rightarrow> tag_deriver \<Rightarrow> str \<Rightarrow> nat \<Rightarrow> int \<Rightarrow> mailbox_tag list res" where
  "candidate_epochs P d direction lookback now =
     and_then (current_epoch (td_epoch_secs d) now) (\<lambda>e.
     Inr (map (\<lambda>offset. derive_at P d direction (e - int offset)) [0..<lookback + 1]))"

section \<open>\<open>privacy.py\<close>\<close>

definition SIZE_4K :: nat where "SIZE_4K = 4096"
definition SIZE_32K :: nat where "SIZE_32K = 32768"

definition relay_delay_max_secs :: "str \<Rightarrow> int" where
  "relay_delay_max_secs mode =
     (if mode = ''balanced'' then 15 else if mode = ''high'' then 90 else 0)"

definition size_classes :: "str \<Rightarrow> nat list" where
  "size_classes mode =
     (if mode = ''high'' then [SIZE_4K, SIZE_32K] else if mode = ''balanced'' then [SIZE_4K] else [])"

definition select_size_class :: "nat \<Rightarrow> str \<Rightarrow> nat option res" where
  "select_size_class plaintext_len mode =
     (if mode = ''fast'' then Inr None
      else case find (\<lambda>c. plaintext_len + 4 \<le> c) (sort (size_classes mode)) of
             Some c \<Rightarrow> Inr (Some c)
           | None \<Rightarrow> if size_classes mode = []
                     then Inl (ValueError ''max() arg is an empty sequence'')
                     else Inr (Some (Max (set (size_classes mode)))))"

definition pad_plaintext :: "bytes \<Rightarrow> str \<Rightarrow> (bytes \<times> int) res" where
  "pad_plaintext plaintext mode =
     and_then (select_size_class (length plaintext) mode) (\<lambda>cs.
     case cs of None \<Rightarrow> Inr (plaintext, 0)
     | Some class_size \<Rightarrow>
         and_then (int_to_bytes (int (length plaintext)) 4) (\<lambda>prefix.
         let framed = prefix @ plaintext in
         if length framed > class_size
         then Inl (ValueError ''plaintext exceeds maximum size class'')
         else Inr (framed @ replicate (class_size - length framed) 0,
                   int class_size - int (length plaintext))))"

definition unpad_plaintext :: "bytes \<Rightarrow> bytes res" where
  "unpad_plaintext padded =
     (if length padded < 4 then Inl (ValueError ''padded payload too short'')
      else let len = be_nat (take 4 padded) in
        if 4 + len > length padded then Inl (ValueError ''invalid padded length prefix'')
        else Inr (take len (drop 4 padded)))"

definition decode_padded_plaintext :: "bytes \<Rightarrow> str \<Rightarrow> bytes res" where
  "decode_padded_plaintext padded mode =
     (if mode = ''fast'' then Inr padded else unpad_plaintext padded)"

definition decoy_count :: "str \<Rightarrow> nat" where
  "decoy_count mode = (if mode = ''balanced'' then 3 else if mode = ''high'' then 7 else 0)"

definition derive_decoy_tag :: "prims \<Rightarrow> bytes \<Rightarrow> str \<Rightarrow> int \<Rightarrow> nat \<Rightarrow> mailbox_tag" where
  "derive_decoy_tag P mailbox_secret direction epoch index =
     \<lparr>tag = p_hmac P mailbox_secret
        (utf8 (''decoy|'' @ direction @ ''|'' @ str_of_int epoch @ ''|'' @ str_of_nat index)),
      tag_epoch = epoch, tag_direction = direction\<rparr>"

definition fetch_tags_for_mode ::
    "prims \<Rightarrow> tag_deriver \<Rightarrow> str \<Rightarrow> str \<Rightarrow> bytes \<Rightarrow> nat \<Rightarrow> int \<Rightarrow> mailbox_tag list res" where
  "fetch_tags_for_mode P d direction mode mailbox_secret lookback now =
     and_then (candidate_epochs P d direction lookback now) (\<lambda>real_tags.
     if mode = ''fast'' then Inr real_tags
     else Inr (real_tags @ concat (map (\<lambda>real. map (\<lambda>index.
        derive_decoy_tag P mailbox_secret direction (tag_epoch real) index) [0..<decoy_count mode])
        real_tags)))"

text \<open>\<open>rnd\<close> is the stream of the random bytes drawn.\<close>

definition generate_dummy_ciphertext :: "(nat \<Rightarrow> bytes) \<Rightarrow> nat \<Rightarrow> bytes" where
  "generate_dummy_ciphertext rnd csize = rnd 24 @ rnd (csize - 40) @ rnd 16"

record privacy_metrics =
  bytes_sent :: int
  bytes_fetched :: int
  decoy_fetches :: int
  padding_bytes :: int
  dummy_blobs_sent :: int
  send_count :: int
  fetch_count :: int

definition metrics_to_dict :: "privacy_metrics \<Rightarrow> json" where
  "metrics_to_dict m = JObj
     [(''bytes_sent'', JInt (bytes_sent m)), (''bytes_fetched'', JInt (bytes_fetched m)),
      (''decoy_fetches'', JInt (decoy_fetches m)), (''padding_bytes'', JInt (padding_bytes m)),
      (''dummy_blobs_sent'', JInt (dummy_blobs_sent m)), (''send_count'', JInt (send_count m)),
      (''fetch_count'', JInt (fetch_count m))]"

definition metrics_from_dict :: "json \<Rightarrow> privacy_metrics res" where
  "metrics_from_dict j =
     and_then (jobj j) (\<lambda>d. let field = (\<lambda>k. jint (jget_default d k (JInt 0))) in
     and_then (field ''bytes_sent'') (\<lambda>a. and_then (field ''bytes_fetched'') (\<lambda>b.
     and_then (field ''decoy_fetches'') (\<lambda>c. and_then (field ''padding_bytes'') (\<lambda>e.
     and_then (field ''dummy_blobs_sent'') (\<lambda>f. and_then (field ''send_count'') (\<lambda>g.
     and_then (field ''fetch_count'') (\<lambda>h.
     Inr \<lparr>bytes_sent = a, bytes_fetched = b, decoy_fetches = c, padding_bytes = e,
          dummy_blobs_sent = f, send_count = g, fetch_count = h\<rparr>))))))))"

definition record_send :: "int \<Rightarrow> int \<Rightarrow> privacy_metrics \<Rightarrow> privacy_metrics" where
  "record_send ciphertext_len padding m =
     m\<lparr>bytes_sent := bytes_sent m + ciphertext_len, padding_bytes := padding_bytes m + padding,
       send_count := send_count m + 1\<rparr>"

definition record_fetch :: "int \<Rightarrow> bool \<Rightarrow> privacy_metrics \<Rightarrow> privacy_metrics" where
  "record_fetch fetched decoy m =
     (let m' = m\<lparr>bytes_fetched := bytes_fetched m + fetched, fetch_count := fetch_count m + 1\<rparr>
      in if decoy then m'\<lparr>decoy_fetches := decoy_fetches m' + 1\<rparr> else m')"

section \<open>\<open>message.py\<close>\<close>

text \<open>\<open>type\<close> and \<open>message_id\<close> are stored as loaded, without a conversion.\<close>

record inner_message =
  im_version :: int
  conversation_id :: str
  sender_device_id :: str
  seq :: int
  created_at :: int
  valid_until :: int
  im_type :: json
  im_body :: str
  im_message_id :: json

definition inner_to_bytes :: "inner_message \<Rightarrow> bytes" where
  "inner_to_bytes m = utf8 (json_compact (JObj
     [(''body'', JStr (im_body m)), (''conversation_id'', JStr (conversation_id m)),
      (''created_at'', JInt (created_at m)), (''message_id'', im_message_id m),
      (''sender_device_id'', JStr (sender_device_id m)), (''seq'', JInt (seq m)),
      (''type'', im_type m), (''valid_until'', JInt (valid_until m)),
      (''version'', JInt (im_version m))]))"

definition inner_from_bytes :: "bytes \<Rightarrow> inner_message res" where
  "inner_from_bytes data =
     and_then (decode_utf8 data) (\<lambda>text.
     and_then (json_loads text) (\<lambda>j.
     and_then (jobj j) (\<lambda>payload.
     and_then (and_then (jget payload ''created_at'') jint) (\<lambda>created.
     and_then (jint (jget_default payload ''valid_until'' (JInt (created + MESSAGE_TTL_MS)))) (\<lambda>until.
     and_then (and_then (jget payload ''version'') jint) (\<lambda>version.
     and_then (and_then (jget payload ''conversation_id'') jstr) (\<lambda>conv.
     and_then (and_then (jget payload ''sender_device_id'') jstr) (\<lambda>sender.
     and_then (and_then (jget payload ''seq'') jint) (\<lambda>n.
     and_then (jget payload ''type'') (\<lambda>ty.
     and_then (jstr (jget_default payload ''body'' (JStr []))) (\<lambda>body.
     Inr \<lparr>im_version = version, conversation_id = conv, sender_device_id = sender, seq = n,
          created_at = created, valid_until = until, im_type = ty, im_body = body,
          im_message_id = jget_default payload ''message_id'' JNull\<rparr>)))))))))))"

definition inner_new ::
    "str \<Rightarrow> str \<Rightarrow> int \<Rightarrow> str \<Rightarrow> str \<Rightarrow> json \<Rightarrow> int \<Rightarrow> int \<Rightarrow> inner_message" where
  "inner_new conv sender n ty body mid created until =
     \<lparr>im_version = 1, conversation_id = conv, sender_device_id = sender, seq = n,
      created_at = created, valid_until = until, im_type = JStr ty, im_body = body,
      im_message_id = mid\<rparr>"

definition inner_text :: "str \<Rightarrow> str \<Rightarrow> int \<Rightarrow> str \<Rightarrow> int \<Rightarrow> inner_message" where
  "inner_text conv sender n body now =
     inner_new conv sender n ''text'' body JNull now (message_valid_until now)"

definition inner_receipt :: "str \<Rightarrow> str \<Rightarrow> int \<Rightarrow> str \<Rightarrow> int \<Rightarrow> inner_message" where
  "inner_receipt conv sender n mid now =
     inner_new conv sender n ''receipt'' [] (JStr mid) now (message_valid_until now)"

definition inner_profile :: "str \<Rightarrow> str \<Rightarrow> int \<Rightarrow> str \<Rightarrow> int \<Rightarrow> inner_message" where
  "inner_profile conv sender n profile_b64 now =
     inner_new conv sender n ''profile'' profile_b64 JNull now (message_valid_until now)"

definition presence_valid_until :: "int \<Rightarrow> int" where
  "presence_valid_until now = now + PRESENCE_TTL_MS"

definition inner_presence ::
    "str \<Rightarrow> str \<Rightarrow> int \<Rightarrow> str \<Rightarrow> int option \<Rightarrow> int \<Rightarrow> inner_message" where
  "inner_presence conv sender n presence_b64 until now =
     inner_new conv sender n ''presence'' presence_b64 JNull now
       (case until of Some v \<Rightarrow> v | None \<Rightarrow> presence_valid_until now)"

record outer_blob =
  ob_version :: int
  ob_tag :: bytes
  ob_expires_at :: int
  ob_ciphertext :: bytes

definition to_relay_json :: "outer_blob \<Rightarrow> json" where
  "to_relay_json b = JObj
     [(''mailbox_tag'', JStr (b64encode (ob_tag b))), (''expires_at'', JInt (ob_expires_at b)),
      (''ciphertext'', JStr (b64encode (ob_ciphertext b)))]"

definition from_relay_json :: "json \<Rightarrow> outer_blob res" where
  "from_relay_json j =
     and_then (jobj j) (\<lambda>payload.
     and_then (and_then (and_then (jget payload ''mailbox_tag'') jstr) b64decode) (\<lambda>t.
     and_then (and_then (jget payload ''expires_at'') jint) (\<lambda>e.
     and_then (and_then (and_then (jget payload ''ciphertext'') jstr) b64decode) (\<lambda>c.
     Inr \<lparr>ob_version = 1, ob_tag = t, ob_expires_at = e, ob_ciphertext = c\<rparr>))))"

definition message_id :: "prims \<Rightarrow> bytes \<Rightarrow> str" where
  "message_id P ciphertext = to_hex (p_sha256 P (utf8 ''yakr/v0.1/message-id|'' @ ciphertext))"

section \<open>The presence payload\<close>

definition PRESENCE_PROTOCOL :: str where "PRESENCE_PROTOCOL = ''yakr-v1.1/presence''"

record presence_payload =
  operator_name :: str
  reachable_url :: str
  relay_active :: bool
  pr_valid_until :: int

definition presence_to_bytes :: "presence_payload \<Rightarrow> bytes" where
  "presence_to_bytes p = utf8 (json_compact (JObj
     [(''operator_name'', JStr (operator_name p)), (''protocol'', JStr PRESENCE_PROTOCOL),
      (''reachable_url'', JStr (rstrip_slash (reachable_url p))),
      (''relay_active'', JBool (relay_active p)), (''valid_until'', JInt (pr_valid_until p))]))"

definition presence_from_bytes :: "bytes \<Rightarrow> presence_payload res" where
  "presence_from_bytes data =
     and_then (decode_utf8 data) (\<lambda>text.
     and_then (json_loads text) (\<lambda>j.
     and_then (jobj j) (\<lambda>payload.
     if map_of payload ''protocol'' \<noteq> Some (JStr PRESENCE_PROTOCOL)
     then Inl (ValueError ''unsupported presence protocol'') else
     and_then (and_then (jget payload ''operator_name'') jstr) (\<lambda>name.
     and_then (and_then (jget payload ''reachable_url'') jstr) (\<lambda>url.
     and_then (jget payload ''relay_active'') (\<lambda>active.
     and_then (and_then (jget payload ''valid_until'') jint) (\<lambda>until.
     Inr \<lparr>operator_name = name, reachable_url = rstrip_slash url, relay_active = jtruthy active,
          pr_valid_until = until\<rparr>)))))))"

definition presence_to_b64 :: "presence_payload \<Rightarrow> str" where
  "presence_to_b64 p = b64encode (presence_to_bytes p)"

definition presence_from_b64 :: "str \<Rightarrow> presence_payload res" where
  "presence_from_b64 value = and_then (b64decode value) presence_from_bytes"

definition presence_for_operator :: "str \<Rightarrow> str \<Rightarrow> bool \<Rightarrow> int \<Rightarrow> presence_payload" where
  "presence_for_operator name url active now =
     \<lparr>operator_name = name, reachable_url = rstrip_slash url, relay_active = active,
      pr_valid_until = now + PRESENCE_TTL_MS\<rparr>"

definition is_presence_fresh :: "presence_payload \<Rightarrow> int \<Rightarrow> bool" where
  "is_presence_fresh p now \<longleftrightarrow> relay_active p \<and> pr_valid_until p > now"

section \<open>Round trips\<close>

lemma inner_from_to_bytes [codec_simps]:
  assumes "json_ok (im_type m)" "json_ok (im_message_id m)"
  shows "inner_from_bytes (inner_to_bytes m) = Inr m"
  using assms
  by (simp add: inner_from_bytes_def inner_to_bytes_def json_compact_roundtrip jget_def
      jget_default_def)

lemma inner_new_json_ok [simp]:
  "json_ok (im_type (inner_new c d n t b mid x y))"
  "json_ok mid \<Longrightarrow> json_ok (im_message_id (inner_new c d n t b mid x y))"
  by (simp_all add: inner_new_def)

lemma inner_new_simps [simp]:
  "im_version (inner_new c d n t b mid x y) = 1"
  "conversation_id (inner_new c d n t b mid x y) = c"
  "sender_device_id (inner_new c d n t b mid x y) = d"
  "seq (inner_new c d n t b mid x y) = n"
  "created_at (inner_new c d n t b mid x y) = x"
  "valid_until (inner_new c d n t b mid x y) = y"
  "im_type (inner_new c d n t b mid x y) = JStr t"
  "im_body (inner_new c d n t b mid x y) = b"
  "im_message_id (inner_new c d n t b mid x y) = mid"
  by (simp_all add: inner_new_def)

lemmas inner_kinds = inner_text_def inner_receipt_def inner_profile_def inner_presence_def

lemma from_to_relay_json [codec_simps]:
  "from_relay_json (to_relay_json b) = Inr (b\<lparr>ob_version := 1\<rparr>)"
  by (simp add: from_relay_json_def to_relay_json_def jget_def)

lemma json_ok_to_relay_json [simp]: "json_ok (to_relay_json b)"
  by (simp add: to_relay_json_def)

lemma presence_from_to_bytes [codec_simps]:
  "presence_from_bytes (presence_to_bytes p)
     = Inr (p\<lparr>reachable_url := rstrip_slash (reachable_url p)\<rparr>)"
  by (simp add: presence_from_bytes_def presence_to_bytes_def json_compact_roundtrip jget_def)

lemma presence_from_to_b64 [codec_simps]:
  "presence_from_b64 (presence_to_b64 p)
     = Inr (p\<lparr>reachable_url := rstrip_slash (reachable_url p)\<rparr>)"
  by (simp add: presence_from_b64_def presence_to_b64_def presence_from_to_bytes)

lemma metrics_from_to_dict [codec_simps]: "metrics_from_dict (metrics_to_dict m) = Inr m"
  by (simp add: metrics_from_dict_def metrics_to_dict_def jget_default_def)

section \<open>Padding\<close>

definition known_mode :: "str \<Rightarrow> bool" where
  "known_mode mode \<longleftrightarrow> mode \<in> {''fast'', ''balanced'', ''high''}"

definition max_body :: "str \<Rightarrow> nat" where
  "max_body mode = (if mode = ''high'' then SIZE_32K - 4 else SIZE_4K - 4)"

lemma select_size_class_cases:
  "select_size_class n ''fast'' = Inr None"
  "select_size_class n ''balanced'' = Inr (Some SIZE_4K)"
  "select_size_class n ''high'' = Inr (Some (if n + 4 \<le> SIZE_4K then SIZE_4K else SIZE_32K))"
  by (auto simp: select_size_class_def size_classes_def SIZE_4K_def SIZE_32K_def)

lemma int_to_bytes_length: "n < 2 ^ 32 \<Longrightarrow> int_to_bytes (int n) 4 = Inr (be_bytes 4 n)"
  by (simp add: int_to_bytes_def)

lemma unpad_padded:
  assumes "length plaintext < 2 ^ 32"
  shows "unpad_plaintext (be_bytes 4 (length plaintext) @ plaintext @ zs) = Inr plaintext"
  using assms by (simp add: unpad_plaintext_def be_nat_be_bytes)

lemma pad_plaintext_fast [simp]: "pad_plaintext m ''fast'' = Inr (m, 0)"
  by (simp add: pad_plaintext_def select_size_class_cases)

lemma pad_plaintext_class:
  assumes "select_size_class (length m) mode = Inr (Some c)" "c \<le> SIZE_32K"
  shows "pad_plaintext m mode =
    (if length m + 4 \<le> c
     then Inr (be_bytes 4 (length m) @ m @ replicate (c - length m - 4) 0, int c - int (length m))
     else if length m < 2 ^ 32 then Inl (ValueError ''plaintext exceeds maximum size class'')
     else Inl (OverflowError ''int too big to convert''))"
  using assms by (auto simp: pad_plaintext_def SIZE_32K_def int_to_bytes_def)

lemma pad_plaintext_spec:
  assumes "known_mode mode" "mode \<noteq> ''fast''"
  shows "length m \<le> max_body mode \<longleftrightarrow> (\<exists>p n. pad_plaintext m mode = Inr (p, n))"
    and "pad_plaintext m mode = Inr (p, n) \<Longrightarrow>
      unpad_plaintext p = Inr m \<and> length p \<in> set (size_classes mode) \<and>
      int (length p) = int (length m) + n \<and>
      (\<forall>c \<in> set (size_classes mode). length m + 4 \<le> c \<longrightarrow> length p \<le> c)"
proof -
  define c where "c = (if mode = ''high'' \<and> SIZE_4K < length m + 4 then SIZE_32K else SIZE_4K)"
  have mode: "mode = ''balanced'' \<or> mode = ''high''" using assms by (auto simp: known_mode_def)
  then have c: "select_size_class (length m) mode = Inr (Some c)" "c \<in> {SIZE_4K, SIZE_32K}"
    "c \<in> set (size_classes mode)" "length m + 4 \<le> c \<longleftrightarrow> length m \<le> max_body mode"
    "\<forall>c' \<in> set (size_classes mode). length m + 4 \<le> c' \<longrightarrow> c \<le> c'"
    by (auto simp: c_def select_size_class_cases size_classes_def max_body_def
        SIZE_4K_def SIZE_32K_def)
  then have le: "c \<le> SIZE_32K" by (auto simp: SIZE_4K_def SIZE_32K_def)
  note pad = pad_plaintext_class [OF c(1) le]
  show "length m \<le> max_body mode \<longleftrightarrow> (\<exists>p n. pad_plaintext m mode = Inr (p, n))"
    using c(4) by (auto simp: pad)
  assume p: "pad_plaintext m mode = Inr (p, n)"
  then have ok: "length m + 4 \<le> c" by (auto simp: pad split: if_splits)
  with p have p': "p = be_bytes 4 (length m) @ m @ replicate (c - length m - 4) 0"
    "n = int c - int (length m)" by (simp_all add: pad)
  have "length m < 2 ^ 32" using ok le by (simp add: SIZE_32K_def)
  with p' have "unpad_plaintext p = Inr m" by (simp add: unpad_padded)
  moreover have "length p = c" using p' ok by simp
  ultimately show "unpad_plaintext p = Inr m \<and> length p \<in> set (size_classes mode) \<and>
      int (length p) = int (length m) + n \<and>
      (\<forall>c \<in> set (size_classes mode). length m + 4 \<le> c \<longrightarrow> length p \<le> c)"
    using c p' by auto
qed

lemma decode_pad_roundtrip [codec_simps]:
  assumes "known_mode mode" "pad_plaintext m mode = Inr (p, n)"
  shows "decode_padded_plaintext p mode = Inr m"
  using assms pad_plaintext_spec(2) [OF assms(1) _ assms(2)]
  by (cases "mode = ''fast''") (auto simp: decode_padded_plaintext_def)

section \<open>Which tags a receiver polls\<close>

text \<open>
  The epochs of the polled tags are the current one and the \<open>lookback\<close> before it, so a
  message is polled while fewer than \<open>lookback + 1\<close> epochs have begun since it was sent.
\<close>

lemma candidate_epochs_epochs:
  assumes "td_epoch_secs d \<noteq> 0"
  shows "\<exists>tags. candidate_epochs P d direction lookback now = Inr tags \<and>
    (\<forall>t. t \<in> set tags \<longleftrightarrow> (\<exists>e. t = derive_at P d direction e \<and>
        now div 1000 div td_epoch_secs d - int lookback \<le> e \<and> e \<le> now div 1000 div td_epoch_secs d))"
proof -
  let ?e = "now div 1000 div td_epoch_secs d"
  have "(\<exists>k \<in> {0..<lookback + 1}. t = derive_at P d direction (?e - int k)) \<longleftrightarrow>
        (\<exists>e. t = derive_at P d direction e \<and> ?e - int lookback \<le> e \<and> e \<le> ?e)" for t
  proof
    assume "\<exists>e. t = derive_at P d direction e \<and> ?e - int lookback \<le> e \<and> e \<le> ?e"
    then obtain e where e: "t = derive_at P d direction e" "?e - int lookback \<le> e" "e \<le> ?e" by blast
    then show "\<exists>k \<in> {0..<lookback + 1}. t = derive_at P d direction (?e - int k)"
      by (intro bexI [of _ "nat (?e - e)"]) auto
  qed auto
  then have "t \<in> set (map (\<lambda>k. derive_at P d direction (?e - int k)) [0..<lookback + 1]) \<longleftrightarrow>
        (\<exists>e. t = derive_at P d direction e \<and> ?e - int lookback \<le> e \<and> e \<le> ?e)" for t
    by (simp only: set_map set_upt image_iff)
  with assms show ?thesis
    by (simp add: candidate_epochs_def current_epoch_def del: upt_Suc)
qed

lemma fetch_tags_prefix:
  assumes "candidate_epochs P d direction lookback now = Inr tags"
  shows "\<exists>decoys. fetch_tags_for_mode P d direction mode secret lookback now = Inr (tags @ decoys) \<and>
    length decoys = length tags * (if mode = ''fast'' then 0 else decoy_count mode)"
  using assms by (auto simp: fetch_tags_for_mode_def length_concat comp_def sum_list_triv)

lemma sent_tag_polled:
  assumes "0 < td_epoch_secs d" "0 \<le> sent_at" "sent_at \<le> now"
    and window: "now < sent_at + int lookback * td_epoch_secs d * 1000"
  shows "\<exists>t tags. derive P d direction None sent_at = Inr t \<and>
    candidate_epochs P d direction lookback now = Inr tags \<and> t \<in> set tags"
proof -
  let ?s = "td_epoch_secs d"
  let ?e = "\<lambda>t. t div 1000 div ?s"
  have mono: "?e sent_at \<le> ?e now"
    using assms by (simp add: zdiv_mono1)
  have "?e now \<le> ?e (sent_at + int lookback * ?s * 1000)"
    using assms by (intro zdiv_mono1) simp_all
  also have "\<dots> = ?e sent_at + int lookback"
    using assms(1) by simp
  finally have "?e now - int lookback \<le> ?e sent_at" by simp
  with mono candidate_epochs_epochs [of d P direction lookback now] assms(1) show ?thesis
    by (auto simp: derive_def current_epoch_def)
qed

text \<open>Beyond the window no polled tag has the epoch of the message.\<close>

lemma sent_tag_not_polled:
  assumes "0 < td_epoch_secs d" "sent_at + int (Suc lookback) * td_epoch_secs d * 1000 \<le> now"
    and "candidate_epochs P d direction lookback now = Inr tags" "t \<in> set tags"
    and "derive P d direction None sent_at = Inr t'"
  shows "tag_epoch t' < tag_epoch t"
proof -
  let ?s = "td_epoch_secs d"
  let ?e = "\<lambda>t. t div 1000 div ?s"
  have "?e sent_at + int (Suc lookback) = ?e (sent_at + int (Suc lookback) * ?s * 1000)"
    using assms(1) by simp
  also have "\<dots> \<le> ?e now" using assms by (intro zdiv_mono1) simp_all
  finally have "?e sent_at + int (Suc lookback) \<le> ?e now" .
  moreover obtain e where "t = derive_at P d direction e" "?e now - int lookback \<le> e"
    using candidate_epochs_epochs [of d P direction lookback now] assms by auto
  moreover have "tag_epoch t' = ?e sent_at"
    using assms(1,5) by (auto simp: derive_def current_epoch_def derive_at_def)
  ultimately show ?thesis by (simp add: derive_at_def)
qed

end
