(* ===== verification/Profile.thy ===== *)
theory Profile
  imports Message
begin

text \<open>
  Relay nodes (\<open>relay.py\<close>), relay descriptors and the signed delivery profile
  (\<open>delivery_profile.py\<close>): encoding, verification, expiry and the anti-rollback rule.
  \<open>create_delivery_profile\<close> and the rule applied to a contact are in \<open>Identity\<close>.
\<close>

section \<open>\<open>relay.py\<close>\<close>

text \<open>A loaded value used as a string without a conversion.\<close>

fun jtext :: "json \<Rightarrow> str res" where
  "jtext (JStr s) = Inr s"
| "jtext _ = Inl (TypeError ''not a str'')"

record relay_node =
  rn_name :: str
  rn_role :: str
  rn_url :: str
  rn_wrap_secret :: bytes

definition node_from_dict :: "str \<Rightarrow> json \<Rightarrow> relay_node res" where
  "node_from_dict name j =
     and_then (jobj j) (\<lambda>payload.
     and_then (and_then (jget payload ''role'') jtext) (\<lambda>role.
     and_then (and_then (jget payload ''url'') jtext) (\<lambda>url.
     and_then (and_then (and_then (jget payload ''wrap_secret'') jtext) b64decode) (\<lambda>w.
     Inr \<lparr>rn_name = name, rn_role = role, rn_url = rstrip_slash url, rn_wrap_secret = w\<rparr>))))"

definition node_to_dict :: "relay_node \<Rightarrow> json" where
  "node_to_dict n = JObj [(''role'', JStr (rn_role n)), (''url'', JStr (rn_url n)),
     (''wrap_secret'', JStr (b64encode (rn_wrap_secret n)))]"

definition load_relay_network :: "str \<Rightarrow> (str \<times> relay_node) list res" where
  "load_relay_network text =
     and_then (json_loads text) (\<lambda>j. and_then (jobj j) (\<lambda>raw.
     map_res (\<lambda>(name, d). and_then (node_from_dict name d) (\<lambda>n. Inr (name, n))) raw))"

definition save_relay_network :: "(str \<times> relay_node) list \<Rightarrow> str" where
  "save_relay_network nodes =
     json_default (JObj (map (\<lambda>(name, n). (name, node_to_dict n)) nodes))"

section \<open>Relay descriptors\<close>

record relay_descriptor =
  rd_name :: str
  rd_role :: str
  rd_url :: str
  rd_wrap_secret :: bytes
  rd_tls_spki :: bytes
  rd_capability_generation :: int
  rd_issuance_salt :: bytes

definition desc_to_dict :: "relay_descriptor \<Rightarrow> cval" where
  "desc_to_dict d = CMap
     ([(''name'', CStr (rd_name d)), (''role'', CStr (rd_role d)), (''url'', CStr (rd_url d)),
       (''wrap_secret'', CBytes (rd_wrap_secret d))] @
      (if rd_tls_spki d \<noteq> [] then [(''tls_spki_sha256'', CBytes (rd_tls_spki d))] else []) @
      (if rd_issuance_salt d \<noteq> []
       then [(''capability_generation'', CInt (rd_capability_generation d)),
             (''capability_issuance_salt'', CBytes (rd_issuance_salt d))] else []))"

definition desc_from_dict :: "cval \<Rightarrow> relay_descriptor res" where
  "desc_from_dict v =
     and_then (c_dict v) (\<lambda>payload.
     and_then (and_then (cget payload ''name'') c_str) (\<lambda>name.
     and_then (and_then (cget payload ''role'') c_str) (\<lambda>role.
     and_then (and_then (cget payload ''url'') c_str) (\<lambda>url.
     and_then (and_then (cget payload ''wrap_secret'') c_bytes) (\<lambda>w.
     and_then (c_bytes (cget_default payload ''tls_spki_sha256'' (CBytes []))) (\<lambda>tls.
     and_then (c_int (cget_default payload ''capability_generation'' (CInt 0))) (\<lambda>g.
     and_then (c_bytes (cget_default payload ''capability_issuance_salt'' (CBytes []))) (\<lambda>salt.
     Inr \<lparr>rd_name = name, rd_role = role, rd_url = rstrip_slash url, rd_wrap_secret = w,
          rd_tls_spki = tls, rd_capability_generation = g, rd_issuance_salt = salt\<rparr>))))))))"

definition to_relay_node :: "relay_descriptor \<Rightarrow> relay_node" where
  "to_relay_node d = \<lparr>rn_name = rd_name d, rn_role = rd_role d, rn_url = rd_url d,
     rn_wrap_secret = rd_wrap_secret d\<rparr>"

section \<open>Delivery profiles\<close>

definition PROTOCOL_V5 :: str where "PROTOCOL_V5 = ''yakr-v0.5''"
definition DEFAULT_PROFILE_TTL_MS :: int where "DEFAULT_PROFILE_TTL_MS = 7 * 24 * 60 * 60 * 1000"

record delivery_profile =
  dp_protocol :: str
  dp_version :: int
  dp_valid_from :: int
  dp_valid_until :: int
  dp_direct_hints :: "str list"
  dp_relays :: "relay_descriptor list"
  dp_epoch_secs :: int
  dp_direction_salt :: bytes
  dp_blob_classes :: "int list"
  dp_receipt_policy :: str
  dp_signature :: bytes
  dp_endpoint_tls :: bytes

definition profile_fields :: "delivery_profile \<Rightarrow> (str \<times> cval) list" where
  "profile_fields p =
     [(''protocol'', CStr (dp_protocol p)), (''version'', CInt (dp_version p)),
      (''valid_from'', CInt (dp_valid_from p)), (''valid_until'', CInt (dp_valid_until p)),
      (''direct_hints'', CList (map CStr (dp_direct_hints p))),
      (''relay_descriptors'', CList (map desc_to_dict (dp_relays p))),
      (''mailbox_params'', CMap [(''epoch_secs'', CInt (dp_epoch_secs p)),
                               (''direction_salt'', CBytes (dp_direction_salt p))]),
      (''blob_classes'', CList (map CInt (dp_blob_classes p))),
      (''receipt_policy'', CStr (dp_receipt_policy p)),
      (''endpoint_tls_spki_sha256'', CBytes (dp_endpoint_tls p))]"

definition profile_unsigned_payload :: "prims \<Rightarrow> delivery_profile \<Rightarrow> bytes" where
  "profile_unsigned_payload P p = p_cbor_dumps P (CMap (profile_fields p))"

definition profile_to_bytes :: "prims \<Rightarrow> delivery_profile \<Rightarrow> bytes" where
  "profile_to_bytes P p =
     p_cbor_dumps P (CMap (profile_fields p @ [(''signature'', CBytes (dp_signature p))]))"

definition profile_from_bytes :: "prims \<Rightarrow> bytes \<Rightarrow> delivery_profile res" where
  "profile_from_bytes P data =
     and_then (p_cbor_loads P data) (\<lambda>v.
     and_then (c_map ''invalid delivery profile'' v) (\<lambda>payload.
     and_then (cget payload ''mailbox_params'') (\<lambda>mailbox_params.
     and_then (and_then (cget payload ''protocol'') c_str) (\<lambda>protocol.
     and_then (and_then (cget payload ''version'') c_int) (\<lambda>version.
     and_then (and_then (cget payload ''valid_from'') c_int) (\<lambda>vfrom.
     and_then (and_then (cget payload ''valid_until'') c_int) (\<lambda>vuntil.
     and_then (and_then (and_then (cget payload ''direct_hints'') c_list) (map_res c_str)) (\<lambda>hints.
     and_then (and_then (and_then (cget payload ''relay_descriptors'') c_list) (map_res desc_from_dict))
       (\<lambda>relays.
     and_then (and_then (and_then (c_dict mailbox_params) (\<lambda>d. cget d ''epoch_secs'')) c_int) (\<lambda>epoch.
     and_then (and_then (and_then (c_dict mailbox_params) (\<lambda>d. cget d ''direction_salt'')) c_bytes) (\<lambda>salt.
     and_then (and_then (and_then (cget payload ''blob_classes'') c_list) (map_res c_int)) (\<lambda>classes.
     and_then (and_then (cget payload ''receipt_policy'') c_str) (\<lambda>policy.
     and_then (and_then (cget payload ''signature'') c_bytes) (\<lambda>sig.
     and_then (c_bytes (cget_default payload ''endpoint_tls_spki_sha256'' (CBytes []))) (\<lambda>tls.
     Inr \<lparr>dp_protocol = protocol, dp_version = version, dp_valid_from = vfrom,
          dp_valid_until = vuntil, dp_direct_hints = hints, dp_relays = relays,
          dp_epoch_secs = epoch, dp_direction_salt = salt, dp_blob_classes = classes,
          dp_receipt_policy = policy, dp_signature = sig, dp_endpoint_tls = tls\<rparr>)))))))))))))))"

definition profile_to_b64 :: "prims \<Rightarrow> delivery_profile \<Rightarrow> str" where
  "profile_to_b64 P p = b64encode (profile_to_bytes P p)"

definition profile_from_b64 :: "prims \<Rightarrow> str \<Rightarrow> delivery_profile res" where
  "profile_from_b64 P value = and_then (b64decode value) (profile_from_bytes P)"

definition verify_delivery_profile :: "prims \<Rightarrow> delivery_profile \<Rightarrow> bytes \<Rightarrow> unit res" where
  "verify_delivery_profile P profile signing_public =
     (if dp_protocol profile \<noteq> PROTOCOL_V5
      then Inl (ValueError ''unsupported delivery profile protocol'')
      else ed_verify P signing_public (dp_signature profile) (profile_unsigned_payload P profile))"

definition profile_is_expired :: "delivery_profile \<Rightarrow> int \<Rightarrow> bool" where
  "profile_is_expired profile now \<longleftrightarrow> dp_valid_until profile < now"

definition profile_is_stale :: "delivery_profile \<Rightarrow> int \<Rightarrow> bool" where
  "profile_is_stale profile now = profile_is_expired profile now"

definition accept_delivery_profile_update ::
    "prims \<Rightarrow> delivery_profile option \<Rightarrow> delivery_profile \<Rightarrow> int \<Rightarrow> unit res" where
  "accept_delivery_profile_update P current incoming now =
     (if profile_is_expired incoming now then Inl (ValueError ''delivery profile expired'') else
      case current of None \<Rightarrow> Inr ()
      | Some cur \<Rightarrow>
          if dp_version incoming < dp_version cur
          then Inl (ValueError (''delivery profile rollback rejected: incoming v''
                      @ str_of_int (dp_version incoming) @ '' < stored v'' @ str_of_int (dp_version cur)))
          else if dp_version incoming = dp_version cur
                  \<and> profile_to_bytes P incoming \<noteq> profile_to_bytes P cur
          then Inl (ValueError (''delivery profile version conflict at v''
                      @ str_of_int (dp_version incoming)))
          else Inr ())"

definition relay_network_from_profile :: "delivery_profile \<Rightarrow> (str \<times> relay_node) list" where
  "relay_network_from_profile profile = dict_of (map (\<lambda>d. (rd_name d, to_relay_node d)) (dp_relays profile))"

definition mailbox_descriptors :: "delivery_profile \<Rightarrow> relay_descriptor list" where
  "mailbox_descriptors profile = filter (\<lambda>d. rd_role d \<in> {''mailbox'', ''both''}) (dp_relays profile)"

definition entry_descriptors :: "delivery_profile \<Rightarrow> relay_descriptor list" where
  "entry_descriptors profile = filter (\<lambda>d. rd_role d \<in> {''entry'', ''both''}) (dp_relays profile)"

definition relay_names_from_profile :: "delivery_profile \<Rightarrow> str list" where
  "relay_names_from_profile profile = map rd_name (mailbox_descriptors profile)"

section \<open>Round trips\<close>

lemma node_from_to_dict [codec_simps]:
  "node_from_dict (rn_name n) (node_to_dict n) = Inr (n\<lparr>rn_url := rstrip_slash (rn_url n)\<rparr>)"
  by (simp add: node_from_dict_def node_to_dict_def jget_def)

text \<open>A descriptor as \<open>from_dict\<close> leaves it: no generation without a salt, no final slash.\<close>

definition desc_ok :: "relay_descriptor \<Rightarrow> bool" where
  "desc_ok d \<longleftrightarrow> rstrip_slash (rd_url d) = rd_url d \<and>
     (rd_issuance_salt d = [] \<longrightarrow> rd_capability_generation d = 0)"

lemma desc_from_to_dict [codec_simps]: "desc_ok d \<Longrightarrow> desc_from_dict (desc_to_dict d) = Inr d"
  by (cases d) (auto simp: desc_ok_def desc_from_dict_def desc_to_dict_def cget_def cget_default_def)

lemma desc_from_dict_ok: "desc_from_dict v = Inr d \<Longrightarrow> rstrip_slash (rd_url d) = rd_url d"
  by (auto simp: desc_from_dict_def)

definition profile_ok :: "delivery_profile \<Rightarrow> bool" where
  "profile_ok p \<longleftrightarrow> (\<forall>d \<in> set (dp_relays p). desc_ok d)"

lemma map_res_map: "(\<And>x. x \<in> set xs \<Longrightarrow> f (g x) = Inr (h x)) \<Longrightarrow> map_res f (map g xs) = Inr (map h xs)"
  by (induction xs) auto

lemma profile_from_to_bytes [codec_simps]:
  assumes "cbor_correct P" "profile_ok p"
  shows "profile_from_bytes P (profile_to_bytes P p) = Inr p"
proof -
  have "map_res desc_from_dict (map desc_to_dict (dp_relays p)) = Inr (map id (dp_relays p))"
    using assms(2) by (intro map_res_map) (simp add: profile_ok_def desc_from_to_dict)
  moreover have "map_res c_str (map CStr xs) = Inr (map id xs)" for xs
    by (rule map_res_map) simp
  moreover have "map_res c_int (map CInt xs) = Inr (map id xs)" for xs
    by (rule map_res_map) simp
  ultimately show ?thesis
    using assms(1)
    by (simp add: profile_from_bytes_def profile_to_bytes_def profile_fields_def cget_def
        cget_default_def)
qed

lemma profile_from_to_b64 [codec_simps]:
  "cbor_correct P \<Longrightarrow> profile_ok p \<Longrightarrow> profile_from_b64 P (profile_to_b64 P p) = Inr p"
  by (simp add: profile_from_b64_def profile_to_b64_def profile_from_to_bytes)

section \<open>What a verified or accepted profile guarantees\<close>

lemma verify_delivery_profile_Inr:
  "verify_delivery_profile P p pk = Inr u \<longleftrightarrow>
     dp_protocol p = PROTOCOL_V5 \<and> length pk = 32 \<and>
     p_ed_verify P pk (dp_signature p) (profile_unsigned_payload P p)"
  by (simp add: verify_delivery_profile_def)

lemma accept_delivery_profile_update_Inr:
  "accept_delivery_profile_update P current incoming now = Inr u \<longleftrightarrow>
     now \<le> dp_valid_until incoming \<and>
     (case current of None \<Rightarrow> True
      | Some cur \<Rightarrow> dp_version cur < dp_version incoming \<or>
          dp_version cur = dp_version incoming \<and> profile_to_bytes P incoming = profile_to_bytes P cur)"
  by (auto simp: accept_delivery_profile_update_def profile_is_expired_def split: option.splits if_splits)

end
