(* ===== verification/Ratchet.thy ===== *)
theory Ratchet
  imports Crypto
begin

text \<open>
  The double ratchet of \<open>yakr_core/ratchet.py\<close>: the state, its (de)serialisation, key
  derivation steps, \<open>encrypt\<close> and \<open>decrypt\<close>. \<open>decrypt\<close> restores a snapshot when it fails.
  The snapshot made by \<open>to_dict\<close> holds the \<^emph>\<open>same\<close> \<open>skipped_keys\<close> dictionary object as the
  state, which \<open>_dh_ratchet\<close> clears and \<open>_store_skip\<close> extends in place; the model writes
  this sharing out (\<open>alias_skipped\<close>): at the time of the restore the snapshot shows the
  dictionary as it is then.
\<close>

section \<open>State\<close>

record ratchet =
  root_key :: bytes
  dh_self_private :: bytes
  dh_self_public :: bytes
  dh_peer_public :: "bytes option"
  send_chain_key :: "bytes option"
  recv_chain_key :: "bytes option"
  send_n :: int
  recv_n :: int
  prev_send_n :: int
  skipped_keys :: "(str \<times> str) list"
  r_hybrid :: bool
  pending_pairing_dh_ratchet_peer :: "bytes option"

definition RATCHET_MAGIC :: bytes where "RATCHET_MAGIC = utf8 ''YKDR2''"
definition MAX_SKIP_GAP :: int where "MAX_SKIP_GAP = 128"
definition MAX_SKIPPED_KEYS :: int where "MAX_SKIPPED_KEYS = 256"
definition ROOT_INFO :: bytes where "ROOT_INFO = utf8 ''yakr/v1.0/double-ratchet-root''"
definition RK_INFO :: bytes where "RK_INFO = utf8 ''yakr/v1.0/double-ratchet-rk''"
definition CK_INFO :: bytes where "CK_INFO = utf8 ''yakr/v1.0/double-ratchet-ck''"
definition SEND_CHAIN_INFO :: bytes where
  "SEND_CHAIN_INFO = utf8 ''yakr/v1.0/double-ratchet-send''"
definition RECV_CHAIN_INFO :: bytes where
  "RECV_CHAIN_INFO = utf8 ''yakr/v1.0/double-ratchet-recv''"

definition kdf_rk :: "prims \<Rightarrow> bytes \<Rightarrow> bytes \<Rightarrow> bytes \<times> bytes" where
  "kdf_rk P root dh_output =
     (let material = hkdf_derive P root RK_INFO 64 dh_output
      in (take 32 material, drop 32 material))"

definition kdf_ck :: "prims \<Rightarrow> bytes \<Rightarrow> bytes \<times> bytes" where
  "kdf_ck P chain_key =
     (let material = hkdf_derive P chain_key CK_INFO 64 []
      in (take 32 material, drop 32 material))"

definition from_master :: "prims \<Rightarrow> bytes \<Rightarrow> bool \<Rightarrow> bool \<Rightarrow> bytes \<Rightarrow> ratchet" where
  "from_master P master_secret is_initiator hybrid ratchet_private =
     (let root = hkdf_derive P master_secret ROOT_INFO 32 [];
          send0 = hkdf_derive P root SEND_CHAIN_INFO 32 [];
          recv0 = hkdf_derive P root RECV_CHAIN_INFO 32 [];
          (send_chain, recv_chain) = (if \<not> is_initiator then (recv0, send0) else (send0, recv0))
      in \<lparr>root_key = root, dh_self_private = ratchet_private,
          dh_self_public = p_x25519_pub P ratchet_private, dh_peer_public = None,
          send_chain_key = Some send_chain, recv_chain_key = Some recv_chain,
          send_n = 0, recv_n = 0, prev_send_n = 0, skipped_keys = [], r_hybrid = hybrid,
          pending_pairing_dh_ratchet_peer = None\<rparr>)"

section \<open>Serialisation\<close>

definition opt_b64 :: "bytes option \<Rightarrow> json" where
  "opt_b64 x = JStr (case x of Some b \<Rightarrow> b64encode b | None \<Rightarrow> [])"

definition ratchet_to_dict :: "ratchet \<Rightarrow> json" where
  "ratchet_to_dict r = JObj
     [(''version'', JInt 2),
      (''root_key'', JStr (b64encode (root_key r))),
      (''dh_self_private'', JStr (b64encode (dh_self_private r))),
      (''dh_self_public'', JStr (b64encode (dh_self_public r))),
      (''dh_peer_public'', opt_b64 (dh_peer_public r)),
      (''send_chain_key'', opt_b64 (send_chain_key r)),
      (''recv_chain_key'', opt_b64 (recv_chain_key r)),
      (''send_n'', JInt (send_n r)),
      (''recv_n'', JInt (recv_n r)),
      (''prev_send_n'', JInt (prev_send_n r)),
      (''skipped_keys'', JObj (map (\<lambda>(k, v). (k, JStr v)) (skipped_keys r))),
      (''hybrid'', JBool (r_hybrid r)),
      (''pending_pairing_dh_ratchet_peer'', opt_b64 (pending_pairing_dh_ratchet_peer r))]"

definition dec_field :: "json \<Rightarrow> bytes res" where
  "dec_field j = and_then (jstr j) (\<lambda>value. if value = [] then Inr [] else b64decode value)"

definition or_none :: "bytes \<Rightarrow> bytes option" where
  "or_none b = (if b = [] then None else Some b)"

fun skipped_of :: "json \<Rightarrow> (str \<times> str) list res" where
  "skipped_of (JObj ps) =
     and_then (map_res (\<lambda>p. and_then (jstr (snd p)) (\<lambda>v. Inr (fst p, v))) ps) (\<lambda>qs.
     Inr (dict_of qs))"
| "skipped_of _ = Inr []"

definition ratchet_from_dict :: "json \<Rightarrow> ratchet res" where
  "ratchet_from_dict j =
     and_then (jobj j) (\<lambda>payload.
     and_then (jint (jget_default payload ''version'' (JInt 0))) (\<lambda>version.
     if version \<noteq> 2 then Inl (ValueError ''unsupported ratchet version; re-pair required'') else
     and_then (dec_field (jget_default payload ''dh_peer_public'' (JStr []))) (\<lambda>peer.
     and_then (dec_field (jget_default payload ''send_chain_key'' (JStr []))) (\<lambda>send_chain.
     and_then (dec_field (jget_default payload ''recv_chain_key'' (JStr []))) (\<lambda>recv_chain.
     and_then (dec_field (jget_default payload ''pending_pairing_dh_ratchet_peer'' (JStr [])))
       (\<lambda>pending_peer.
     and_then (and_then (jget payload ''root_key'') dec_field) (\<lambda>root.
     and_then (and_then (jget payload ''dh_self_private'') dec_field) (\<lambda>priv.
     and_then (and_then (jget payload ''dh_self_public'') dec_field) (\<lambda>pub.
     and_then (jint (jget_default payload ''send_n'' (JInt 0))) (\<lambda>sn.
     and_then (jint (jget_default payload ''recv_n'' (JInt 0))) (\<lambda>rn.
     and_then (jint (jget_default payload ''prev_send_n'' (JInt 0))) (\<lambda>pn.
     and_then (skipped_of (jget_default payload ''skipped_keys'' (JObj []))) (\<lambda>skipped.
     Inr \<lparr>root_key = root, dh_self_private = priv, dh_self_public = pub,
          dh_peer_public = or_none peer, send_chain_key = or_none send_chain,
          recv_chain_key = or_none recv_chain, send_n = sn, recv_n = rn, prev_send_n = pn,
          skipped_keys = skipped, r_hybrid = jtruthy (jget_default payload ''hybrid'' (JBool False)),
          pending_pairing_dh_ratchet_peer = or_none pending_peer\<rparr>)))))))))))))"

text \<open>The shared dictionary: what the snapshot shows once the state's dictionary is \<open>sk\<close>.\<close>

fun alias_skipped :: "(str \<times> str) list \<Rightarrow> json \<Rightarrow> json" where
  "alias_skipped sk (JObj ps) =
     JObj (dict_put ''skipped_keys'' (JObj (map (\<lambda>(k, v). (k, JStr v)) sk)) ps)"
| "alias_skipped sk j = j"

section \<open>Steps\<close>

definition key_id :: "bytes \<Rightarrow> int \<Rightarrow> str" where
  "key_id dh_public n = to_hex dh_public @ '':'' @ str_of_int n"

definition skip_key :: "bytes \<Rightarrow> int \<Rightarrow> ratchet \<Rightarrow> bytes res" where
  "skip_key dh_public n r =
     (case map_of (skipped_keys r) (key_id dh_public n) of
        None \<Rightarrow> Inl (KeyError (key_id dh_public n))
      | Some stored \<Rightarrow> b64decode stored)"

definition store_skip :: "bytes \<Rightarrow> int \<Rightarrow> bytes \<Rightarrow> ratchet \<Rightarrow> ratchet" where
  "store_skip dh_public n message_key r =
     r\<lparr>skipped_keys := dict_put (key_id dh_public n) (b64encode message_key) (skipped_keys r)\<rparr>"

definition pairing_send_init :: "prims \<Rightarrow> bytes \<Rightarrow> bytes \<Rightarrow> (ratchet, unit) meth" where
  "pairing_send_init P new_private peer_public =
     (if length peer_public \<noteq> 32
      then m_raise (ValueError ''peer ratchet public key must be 32 bytes'') else
      m_bind (m_modify (\<lambda>r. r\<lparr>dh_peer_public := Some peer_public\<rparr>)) (\<lambda>_.
      m_get (\<lambda>r. m_bind (m_of (x25519_shared_secret P (dh_self_private r) peer_public)) (\<lambda>dh1.
      m_bind (m_of (Inr (fst (kdf_rk P (root_key r) dh1)))) (\<lambda>root.
      m_bind (m_modify (\<lambda>r. r\<lparr>dh_self_private := new_private,
                                dh_self_public := p_x25519_pub P new_private\<rparr>)) (\<lambda>_.
      m_bind (m_of (x25519_shared_secret P new_private peer_public)) (\<lambda>dh2.
      m_modify (\<lambda>r. r\<lparr>root_key := fst (kdf_rk P root dh2),
                       send_chain_key := Some (snd (kdf_rk P root dh2)),
                       prev_send_n := send_n r, send_n := 0\<rparr>))))))))"

definition pairing_recv_init :: "prims \<Rightarrow> bytes \<Rightarrow> (ratchet, unit) meth" where
  "pairing_recv_init P peer_public =
     (if length peer_public \<noteq> 32
      then m_raise (ValueError ''peer ratchet public key must be 32 bytes'') else
      m_bind (m_modify (\<lambda>r. r\<lparr>dh_peer_public := Some peer_public\<rparr>)) (\<lambda>_.
      m_get (\<lambda>r. m_bind (m_of (x25519_shared_secret P (dh_self_private r) peer_public)) (\<lambda>dh.
      m_modify (\<lambda>r. r\<lparr>root_key := fst (kdf_rk P (root_key r) dh),
                       recv_chain_key := Some (snd (kdf_rk P (root_key r) dh)),
                       recv_n := 0\<rparr>)))))"

definition dh_ratchet :: "prims \<Rightarrow> bytes \<Rightarrow> bytes \<Rightarrow> (ratchet, unit) meth" where
  "dh_ratchet P new_private peer_public =
     m_bind (m_modify (\<lambda>r. r\<lparr>skipped_keys := [], dh_peer_public := Some peer_public\<rparr>)) (\<lambda>_.
     m_get (\<lambda>r. m_bind (m_of (x25519_shared_secret P (dh_self_private r) peer_public)) (\<lambda>dh1.
     m_bind (m_modify (\<lambda>r. r\<lparr>root_key := fst (kdf_rk P (root_key r) dh1),
                               recv_chain_key := Some (snd (kdf_rk P (root_key r) dh1)),
                               recv_n := 0\<rparr>)) (\<lambda>_.
     m_bind (m_modify (\<lambda>r. r\<lparr>dh_self_private := new_private,
                               dh_self_public := p_x25519_pub P new_private\<rparr>)) (\<lambda>_.
     m_bind (m_of (x25519_shared_secret P new_private peer_public)) (\<lambda>dh2.
     m_modify (\<lambda>r. r\<lparr>root_key := fst (kdf_rk P (root_key r) dh2),
                      send_chain_key := Some (snd (kdf_rk P (root_key r) dh2)),
                      prev_send_n := send_n r, send_n := 0\<rparr>)))))))"

text \<open>\<open>struct.pack(">II", a, b)\<close>.\<close>

definition pack_II :: "int \<Rightarrow> int \<Rightarrow> bytes res" where
  "pack_II a b =
     (if 0 \<le> a \<and> a < 2 ^ 32 \<and> 0 \<le> b \<and> b < 2 ^ 32
      then Inr (be_bytes 4 (nat a) @ be_bytes 4 (nat b)) else Inl StructError)"

definition header_aad :: "bytes \<Rightarrow> int \<Rightarrow> int \<Rightarrow> bytes res" where
  "header_aad dh_public prev_n message_n =
     and_then (pack_II prev_n message_n) (\<lambda>p. Inr (RATCHET_MAGIC @ dh_public @ p))"

definition ratchet_encrypt :: "prims \<Rightarrow> bytes \<Rightarrow> bytes \<Rightarrow> bytes \<Rightarrow> (ratchet, bytes) meth" where
  "ratchet_encrypt P new_private nonce plaintext =
     m_bind (m_get (\<lambda>r. case pending_pairing_dh_ratchet_peer r of
         None \<Rightarrow> m_return ()
       | Some peer \<Rightarrow>
           m_bind (m_modify (\<lambda>r. r\<lparr>pending_pairing_dh_ratchet_peer := None\<rparr>)) (\<lambda>_.
           pairing_send_init P new_private peer))) (\<lambda>_.
     m_get (\<lambda>r. case send_chain_key r of
         None \<Rightarrow> m_raise (ValueError ''send chain not initialized'')
       | Some ck \<Rightarrow>
           m_bind (m_modify (\<lambda>r. r\<lparr>send_chain_key := Some (snd (kdf_ck P ck))\<rparr>)) (\<lambda>_.
           m_bind (m_of (header_aad (dh_self_public r) (prev_send_n r) (send_n r))) (\<lambda>aad.
           m_bind (m_modify (\<lambda>r. r\<lparr>send_n := send_n r + 1\<rparr>)) (\<lambda>_.
           m_return (aad @ xchacha_encrypt P nonce (fst (kdf_ck P ck)) plaintext aad))))))"

text \<open>The loop that stores the keys of the messages not yet seen.\<close>

function skip_loop :: "prims \<Rightarrow> bytes \<Rightarrow> int \<Rightarrow> bytes \<Rightarrow> ratchet \<Rightarrow> ratchet" where
  "skip_loop P peer message_n ck r =
     (if recv_n r < message_n
      then skip_loop P peer message_n (snd (kdf_ck P ck))
             ((store_skip peer (recv_n r) (fst (kdf_ck P ck)) r)
                \<lparr>recv_chain_key := Some (snd (kdf_ck P ck)), recv_n := recv_n r + 1\<rparr>)
      else r)"
  by pat_completeness auto
termination
  by (relation "measure (\<lambda>(P, peer, n, ck, r). nat (n - recv_n r))") auto

declare skip_loop.simps [simp del]

definition advance_peer :: "prims \<Rightarrow> bytes \<Rightarrow> bytes \<Rightarrow> (ratchet, unit) meth" where
  "advance_peer P new_private peer_public =
     m_get (\<lambda>r. case dh_peer_public r of
         None \<Rightarrow> m_modify (\<lambda>r. r\<lparr>dh_peer_public := Some peer_public\<rparr>)
       | Some p \<Rightarrow> if p \<noteq> peer_public then dh_ratchet P new_private peer_public else m_return ())"

definition take_message_key :: "prims \<Rightarrow> bytes \<Rightarrow> int \<Rightarrow> (ratchet, bytes) meth" where
  "take_message_key P peer_public message_n =
     m_get (\<lambda>r. case recv_chain_key r of
         None \<Rightarrow> m_raise (ValueError ''recv chain not initialized'')
       | Some ck \<Rightarrow>
           if message_n < recv_n r then
             (case skip_key peer_public message_n r of
                Inl (KeyError _) \<Rightarrow> m_raise (ValueError ''ratchet message already received'')
              | Inl e \<Rightarrow> m_raise e
              | Inr k \<Rightarrow> m_return k)
           else if message_n - recv_n r > MAX_SKIP_GAP then
             m_raise (ValueError ''ratchet skip gap too large'')
           else if int (length (skipped_keys r)) + (message_n - recv_n r) > MAX_SKIPPED_KEYS then
             m_raise (ValueError ''ratchet skipped key limit exceeded'')
           else
             m_bind (m_modify (skip_loop P peer_public message_n ck)) (\<lambda>_.
             m_get (\<lambda>r. case recv_chain_key r of
                 None \<Rightarrow> m_raise (TypeError ''recv chain'')
               | Some ck' \<Rightarrow>
                   m_bind (m_modify (\<lambda>r. r\<lparr>recv_chain_key := Some (snd (kdf_ck P ck')),
                                             recv_n := message_n + 1\<rparr>)) (\<lambda>_.
                   m_return (fst (kdf_ck P ck'))))))"

definition decrypt_body ::
    "prims \<Rightarrow> bytes \<Rightarrow> bytes \<Rightarrow> int \<Rightarrow> int \<Rightarrow> bytes \<Rightarrow> (ratchet, bytes) meth" where
  "decrypt_body P new_private peer_public prev_n message_n ciphertext =
     m_bind (advance_peer P new_private peer_public) (\<lambda>_.
     m_bind (take_message_key P peer_public message_n) (\<lambda>message_key.
     m_bind (m_of (header_aad peer_public prev_n message_n)) (\<lambda>aad.
     m_of (xchacha_decrypt P message_key ciphertext aad))))"

text \<open>
  \<open>_restore_snapshot\<close> on the state \<open>r'\<close> left by the failed attempt: every field from the
  snapshot, which by then shows the dictionary of \<open>r'\<close>.
\<close>

definition restore_snapshot :: "json \<Rightarrow> ratchet \<Rightarrow> ratchet res" where
  "restore_snapshot snapshot r' = ratchet_from_dict (alias_skipped (skipped_keys r') snapshot)"

definition ratchet_decrypt :: "prims \<Rightarrow> bytes \<Rightarrow> bytes \<Rightarrow> (ratchet, bytes) meth" where
  "ratchet_decrypt P new_private payload r =
     (if length payload < length RATCHET_MAGIC + 32 + 8
      then (Inl (ValueError ''ratchet payload too short''), r)
      else if take (length RATCHET_MAGIC) payload \<noteq> RATCHET_MAGIC
      then (Inl (ValueError ''invalid ratchet header''), r)
      else
        let offset = length RATCHET_MAGIC;
            peer_public = take 32 (drop offset payload);
            prev_n = int (be_nat (take 4 (drop (offset + 32) payload)));
            message_n = int (be_nat (take 4 (drop (offset + 36) payload)));
            ciphertext = drop (offset + 40) payload;
            snapshot = ratchet_to_dict r
        in (case decrypt_body P new_private peer_public prev_n message_n ciphertext r of
              (Inr m, r') \<Rightarrow> (Inr m, r')
            | (Inl e, r') \<Rightarrow>
                (case restore_snapshot snapshot r' of
                   Inr restored \<Rightarrow> (Inl e, restored)
                 | Inl e' \<Rightarrow> (Inl e', r'))))"

end
