(* ===== verification/DemoPrims.thy ===== *)
theory DemoPrims
  imports Crypto
begin

text \<open>
  One concrete instance of the primitives, \<open>demo_prims\<close>, and the proof that it satisfies
  every law of \<open>Crypto\<close>. It has no cryptographic strength: it shows that the laws can hold
  together and is the instance the concrete runs of the development evaluate. CBOR is
  stood in for by a tagged JSON text.
\<close>

section \<open>Toy primitives\<close>

definition demo_digest :: "bytes \<Rightarrow> nat" where
  "demo_digest bs = foldl (\<lambda>a b. (31 * a + unat b) mod 65521) 7 bs"

definition demo_expand :: "nat \<Rightarrow> bytes \<Rightarrow> bytes" where
  "demo_expand n bs = (let d = demo_digest bs in map (\<lambda>i. word_of_nat (d + 13 * i)) [0..<n])"

definition demo_tag :: "bytes \<Rightarrow> bytes \<Rightarrow> bytes \<Rightarrow> bytes \<Rightarrow> bytes" where
  "demo_tag k n a m = be_bytes 2 (demo_digest (k @ n @ a @ m))"

definition demo_aead_dec :: "bytes \<Rightarrow> bytes \<Rightarrow> bytes \<Rightarrow> bytes \<Rightarrow> bytes option" where
  "demo_aead_dec k n a x =
     (if 2 \<le> length x \<and> take 2 x = demo_tag k n a (drop 2 x) then Some (drop 2 x) else None)"

definition demo_x25519 :: "bytes \<Rightarrow> bytes \<Rightarrow> bytes res" where
  "demo_x25519 a b =
     (if length a = 32 \<and> length b = 32 then Inr (map2 (+) a b)
      else Inl (ValueError ''An X25519 key is 32 bytes long''))"

fun cval_json :: "cval \<Rightarrow> json" where
  "cval_json CNull = JNull"
| "cval_json (CBool b) = JBool b"
| "cval_json (CInt i) = JInt i"
| "cval_json (CStr s) = JStr s"
| "cval_json (CBytes b) = JObj [(''b'', JStr (to_hex b))]"
| "cval_json (CList xs) = JList (map cval_json xs)"
| "cval_json (CMap ps) = JObj [(''m'', JList (map (\<lambda>(k, v). JList [JStr k, cval_json v]) ps))]"

fun json_cval :: "json \<Rightarrow> cval res"
  and json_cvals :: "json list \<Rightarrow> cval list res"
  and json_pairs :: "json list \<Rightarrow> (str \<times> cval) list res" where
  "json_cval JNull = Inr CNull"
| "json_cval (JBool b) = Inr (CBool b)"
| "json_cval (JInt i) = Inr (CInt i)"
| "json_cval (JStr s) = Inr (CStr s)"
| "json_cval (JList xs) = and_then (json_cvals xs) (\<lambda>ys. Inr (CList ys))"
| "json_cval (JObj [(k, JStr s)]) = and_then (from_hex s) (\<lambda>b. Inr (CBytes b))"
| "json_cval (JObj [(k, JList xs)]) = and_then (json_pairs xs) (\<lambda>ps. Inr (CMap ps))"
| "json_cval (JObj _) = Inl (ValueError ''cbor'')"
| "json_cvals [] = Inr []"
| "json_cvals (x # xs) =
     and_then (json_cval x) (\<lambda>y. and_then (json_cvals xs) (\<lambda>ys. Inr (y # ys)))"
| "json_pairs [] = Inr []"
| "json_pairs (JList [JStr k, v] # xs) =
     and_then (json_cval v) (\<lambda>y. and_then (json_pairs xs) (\<lambda>ys. Inr ((k, y) # ys)))"
| "json_pairs (_ # xs) = Inl (ValueError ''cbor'')"

definition demo_cbor_dumps :: "cval \<Rightarrow> bytes" where
  "demo_cbor_dumps v = utf8 (json_compact (cval_json v))"

definition demo_cbor_loads :: "bytes \<Rightarrow> cval res" where
  "demo_cbor_loads b = and_then (opt_res (ValueError ''utf8'') (utf8_decode b)) (\<lambda>s.
     and_then (json_loads s) json_cval)"

definition demo_prims :: prims where
  "demo_prims = \<lparr>
     p_hkdf = (\<lambda>n salt info ikm. demo_expand n (ikm @ info @ salt)),
     p_sha256 = demo_expand 32,
     p_hmac = (\<lambda>k m. demo_expand 32 (k @ m)),
     p_x25519_pub = (\<lambda>k. k),
     p_x25519 = demo_x25519,
     p_aead_enc = (\<lambda>k n a m. demo_tag k n a m @ m),
     p_aead_dec = demo_aead_dec,
     p_ed_pub = (\<lambda>k. k),
     p_ed_sign = (\<lambda>k m. demo_expand 4 (k @ m)),
     p_ed_verify = (\<lambda>pk s m. s = demo_expand 4 (pk @ m)),
     p_kem_pk_size = 4, p_kem_sk_size = 4, p_kem_ct_size = 2, p_kem_pt_size = 4,
     p_kem_enc = (\<lambda>pk rnd. ([0, 0], pk)),
     p_kem_dec = (\<lambda>sk ct. sk),
     p_pq_sign = (\<lambda>k m. demo_expand 4 (k @ m)),
     p_pq_verify = (\<lambda>pk s m. s = demo_expand 4 (pk @ m)),
     p_spki = (\<lambda>k. k),
     p_cbor_dumps = demo_cbor_dumps,
     p_cbor_loads = demo_cbor_loads\<rparr>"

section \<open>The laws hold\<close>

lemma json_ok_cval_json: "json_ok (cval_json v)"
  by (induction v rule: cval_json.induct) auto

lemma json_cvals_map:
  "(\<And>x. x \<in> set xs \<Longrightarrow> json_cval (cval_json x) = Inr x) \<Longrightarrow>
   json_cvals (map cval_json xs) = Inr xs"
  by (induction xs) auto

lemma json_pairs_map:
  "(\<And>p. p \<in> set ps \<Longrightarrow> json_cval (cval_json (snd p)) = Inr (snd p)) \<Longrightarrow>
   json_pairs (map (\<lambda>(k, v). JList [JStr k, cval_json v]) ps) = Inr ps"
  by (induction ps) (auto simp: split_beta)

lemma json_cval_cval_json: "json_cval (cval_json v) = Inr v"
proof (induction v rule: cval_json.induct)
  case (6 xs)
  then show ?case by (simp add: json_cvals_map)
next
  case (7 ps)
  then have "json_pairs (map (\<lambda>(k, v). JList [JStr k, cval_json v]) ps) = Inr ps"
    by (intro json_pairs_map) (metis prod.collapse)
  then show ?case by simp
qed simp_all

lemma demo_cbor: "cbor_correct demo_prims"
  by (simp add: cbor_correct_def demo_prims_def demo_cbor_loads_def demo_cbor_dumps_def
      json_compact_roundtrip json_ok_cval_json json_cval_cval_json)

lemma demo_aead: "aead_correct demo_prims"
  by (simp add: aead_correct_def demo_prims_def demo_aead_dec_def demo_tag_def)

lemma demo_x25519_commutes: "x25519_commutes demo_prims"
proof -
  have "map2 (+) a b = map2 (+) b a" if "length a = length b" for a b :: bytes
    using that by (induction a b rule: list_induct2) (auto simp: add.commute)
  then show ?thesis by (auto simp: x25519_commutes_def demo_prims_def demo_x25519_def)
qed

lemma demo_ed25519: "ed25519_correct demo_prims"
  by (simp add: ed25519_correct_def demo_prims_def)

lemma demo_hkdf: "hkdf_lengths demo_prims"
  by (simp add: hkdf_lengths_def demo_prims_def demo_expand_def Let_def)

lemma demo_hashes: "hash_lengths demo_prims"
  by (simp add: hash_lengths_def demo_prims_def demo_expand_def Let_def)

lemmas demo_laws = demo_hashes demo_cbor demo_aead demo_x25519_commutes demo_ed25519 demo_hkdf

end
