(* ===== verification/RatchetProofs.thy ===== *)
theory RatchetProofs
  imports Ratchet DemoPrims
begin

text \<open>
  The ratchet of \<open>Ratchet\<close>: saving and loading, what a failed \<open>decrypt\<close> leaves behind, the
  bound on the stored keys, in-order and out-of-order delivery, the agreement after pairing,
  and the system of two parties that exchange messages over ordered wires.
\<close>

lemma length_magic [simp]: "length RATCHET_MAGIC = 5"
  by (simp add: RATCHET_MAGIC_def Let_def)

section \<open>Saving and loading\<close>

definition opt_ok :: "bytes option \<Rightarrow> bool" where
  "opt_ok x \<longleftrightarrow> x \<noteq> Some []"

definition ratchet_wf :: "ratchet \<Rightarrow> bool" where
  "ratchet_wf r \<longleftrightarrow> opt_ok (dh_peer_public r) \<and> opt_ok (send_chain_key r) \<and>
     opt_ok (recv_chain_key r) \<and> opt_ok (pending_pairing_dh_ratchet_peer r) \<and>
     distinct (map fst (skipped_keys r))"

lemma opt_b64_field:
  "opt_b64 x = JStr s \<Longrightarrow> dec_field (JStr s) = Inr (case x of None \<Rightarrow> [] | Some b \<Rightarrow> b)"
  by (auto simp: opt_b64_def dec_field_def split: option.splits)

lemma dec_field_opt [simp]: "dec_field (opt_b64 x) = Inr (case x of None \<Rightarrow> [] | Some b \<Rightarrow> b)"
  by (metis opt_b64_def opt_b64_field)

lemma dec_field_b64 [simp]: "dec_field (JStr (b64encode b)) = Inr b"
  by (simp add: dec_field_def)

lemma or_none_case [simp]: "opt_ok x \<Longrightarrow> or_none (case x of None \<Rightarrow> [] | Some b \<Rightarrow> b) = x"
  by (auto simp: or_none_def opt_ok_def split: option.splits)

lemma skipped_of_map [simp]:
  assumes "distinct (map fst sk)"
  shows "skipped_of (JObj (map (\<lambda>(k, v). (k, JStr v)) sk)) = Inr sk"
proof -
  have "map_res (\<lambda>p. and_then (jstr (snd p)) (\<lambda>v. Inr (fst p, v)))
          (map (\<lambda>(k, v). (k, JStr v)) sk) = Inr sk"
    by (induction sk) auto
  with assms show ?thesis by (simp add: dict_of_distinct)
qed

lemma ratchet_from_to_dict [codec_simps]:
  assumes "ratchet_wf r"
  shows "ratchet_from_dict (ratchet_to_dict r) = Inr r"
  using assms
  by (simp add: ratchet_wf_def ratchet_from_dict_def ratchet_to_dict_def jget_def
      jget_default_def del: skipped_of.simps)

lemma alias_to_dict: "alias_skipped sk (ratchet_to_dict r) = ratchet_to_dict (r\<lparr>skipped_keys := sk\<rparr>)"
  by (simp add: ratchet_to_dict_def)

section \<open>What the steps keep\<close>

abbreviation sk_distinct :: "ratchet \<Rightarrow> bool" where
  "sk_distinct r \<equiv> distinct (map fst (skipped_keys r))"

lemma skip_loop_distinct: "sk_distinct r \<Longrightarrow> sk_distinct (skip_loop P peer n ck r)"
proof (induction P peer n ck r rule: skip_loop.induct)
  case (1 P peer n ck r)
  then show ?case
    by (subst skip_loop.simps) (auto simp: store_skip_def distinct_dict_put)
qed

lemma length_dict_put: "length (dict_put k v d) \<le> Suc (length d)"
  by (induction k v d rule: dict_put.induct) auto

lemma skip_loop_length:
  "int (length (skipped_keys (skip_loop P peer n ck r)))
     \<le> int (length (skipped_keys r)) + max 0 (n - recv_n r)"
proof (induction P peer n ck r rule: skip_loop.induct)
  case (1 P peer n ck r)
  let ?r = "(store_skip peer (recv_n r) (fst (kdf_ck P ck)) r)
                \<lparr>recv_chain_key := Some (snd (kdf_ck P ck)), recv_n := recv_n r + 1\<rparr>"
  have "length (skipped_keys ?r) \<le> Suc (length (skipped_keys r))"
    by (simp add: store_skip_def length_dict_put)
  moreover have "recv_n ?r = recv_n r + 1" by simp
  ultimately show ?case using 1 by (subst skip_loop.simps) auto
qed

lemma advance_peer_skipped:
  "skipped_keys (snd (advance_peer P np pk r)) = skipped_keys r \<or>
   skipped_keys (snd (advance_peer P np pk r)) = []"
  by (auto simp: advance_peer_def dh_ratchet_def m_bind_def m_of_def m_modify_def m_get_def
      split: option.splits sum.splits)

lemma take_message_key_distinct:
  "sk_distinct r \<Longrightarrow> sk_distinct (snd (take_message_key P pk n r))"
  by (auto simp: take_message_key_def m_bind_def m_of_def m_modify_def m_get_def m_raise_def
      m_return_def skip_loop_distinct split: option.splits sum.splits exn.splits)

lemma take_message_key_length:
  "int (length (skipped_keys r)) \<le> MAX_SKIPPED_KEYS \<Longrightarrow>
   int (length (skipped_keys (snd (take_message_key P pk n r)))) \<le> MAX_SKIPPED_KEYS"
proof -
  assume b: "int (length (skipped_keys r)) \<le> MAX_SKIPPED_KEYS"
  have "int (length (skipped_keys (skip_loop P pk n ck r))) \<le> MAX_SKIPPED_KEYS"
    if "\<not> n < recv_n r"
       "\<not> int (length (skipped_keys r)) + (n - recv_n r) > MAX_SKIPPED_KEYS" for ck
    using that skip_loop_length [of P pk n ck r] by simp
  with b show ?thesis
    by (auto simp: take_message_key_def m_bind_def m_of_def m_modify_def m_get_def m_raise_def
      m_return_def split: option.splits sum.splits exn.splits)
qed

lemma m_bind_snd_induct:
  assumes "Q (snd (m s))" "\<And>x s'. m s = (Inr x, s') \<Longrightarrow> Q s' \<Longrightarrow> Q (snd (f x s'))"
  shows "Q (snd (m_bind m f s))"
  using assms by (auto simp: m_bind_def split: prod.splits sum.splits)

lemma decrypt_body_invariant:
  assumes "Q (skipped_keys r)" "Q []"
    and "\<And>r. Q (skipped_keys r) \<Longrightarrow> Q (skipped_keys (snd (take_message_key P pk n r)))"
  shows "Q (skipped_keys (snd (decrypt_body P np pk pn n ct r)))"
  unfolding decrypt_body_def
  by (intro m_bind_snd_induct [where Q = "\<lambda>r. Q (skipped_keys r)"])
    (use assms advance_peer_skipped [of P np pk r] in \<open>auto simp: m_of_def\<close>)

lemma decrypt_body_distinct:
  "sk_distinct r \<Longrightarrow> sk_distinct (snd (decrypt_body P np pk pn n ct r))"
  by (rule decrypt_body_invariant) (auto intro: take_message_key_distinct)

lemma decrypt_body_length:
  "int (length (skipped_keys r)) \<le> MAX_SKIPPED_KEYS \<Longrightarrow>
   int (length (skipped_keys (snd (decrypt_body P np pk pn n ct r)))) \<le> MAX_SKIPPED_KEYS"
  by (rule decrypt_body_invariant [where Q = "\<lambda>s. int (length s) \<le> MAX_SKIPPED_KEYS"])
    (simp_all add: take_message_key_length)

section \<open>A failed \<open>decrypt\<close>\<close>

definition decrypt_result :: "json \<Rightarrow> bytes res \<times> ratchet \<Rightarrow> bytes res \<times> ratchet" where
  "decrypt_result snapshot x = (case x of
       (Inr m, r') \<Rightarrow> (Inr m, r')
     | (Inl e, r') \<Rightarrow> (case restore_snapshot snapshot r' of
           Inr restored \<Rightarrow> (Inl e, restored) | Inl e' \<Rightarrow> (Inl e', r')))"

lemma decrypt_result_simps [simp]: "decrypt_result j (Inr m, r') = (Inr m, r')"
  by (simp add: decrypt_result_def)

lemma ratchet_decrypt_result:
  assumes "ratchet_decrypt P np payload r = x"
  obtains e where "x = (Inl e, r)"
  | pk pn n ct where "x = decrypt_result (ratchet_to_dict r) (decrypt_body P np pk pn n ct r)"
proof -
  let ?d = "decrypt_result (ratchet_to_dict r)"
  have "x = (if length payload < length RATCHET_MAGIC + 32 + 8
      then (Inl (ValueError ''ratchet payload too short''), r)
      else if take (length RATCHET_MAGIC) payload \<noteq> RATCHET_MAGIC
      then (Inl (ValueError ''invalid ratchet header''), r)
      else ?d (decrypt_body P np (take 32 (drop (length RATCHET_MAGIC) payload))
        (int (be_nat (take 4 (drop (length RATCHET_MAGIC + 32) payload))))
        (int (be_nat (take 4 (drop (length RATCHET_MAGIC + 36) payload))))
        (drop (length RATCHET_MAGIC + 40) payload) r))"
    unfolding assms [symmetric] ratchet_decrypt_def decrypt_result_def Let_def by (rule refl)
  then show thesis using that by (metis (full_types))
qed

lemma decrypt_result_failed:
  assumes "ratchet_wf r" "sk_distinct (snd x)" "decrypt_result (ratchet_to_dict r) x = (Inl e, r')"
  shows "r' = r\<lparr>skipped_keys := skipped_keys (snd x)\<rparr>"
  using assms
  by (cases x) (auto simp: decrypt_result_def restore_snapshot_def alias_to_dict
      ratchet_from_to_dict ratchet_wf_def split: sum.splits)

lemma ratchet_decrypt_failed:
  assumes wf: "ratchet_wf r" and failed: "ratchet_decrypt P np payload r = (Inl e, r')"
  shows "\<exists>sk. r' = r\<lparr>skipped_keys := sk\<rparr> \<and> distinct (map fst sk)"
  using failed
proof (cases rule: ratchet_decrypt_result)
  case (1 e')
  then have "r' = r\<lparr>skipped_keys := skipped_keys r\<rparr>" by simp
  with wf show ?thesis unfolding ratchet_wf_def by blast
next
  case (2 pk pn n ct)
  have d: "sk_distinct (snd (decrypt_body P np pk pn n ct r))"
    using wf by (simp add: ratchet_wf_def decrypt_body_distinct)
  from decrypt_result_failed [OF wf d 2 [symmetric]] d show ?thesis by blast
qed

section \<open>The invariant of a saved ratchet\<close>

text \<open>
  Every operation keeps a ratchet fit for saving: keys present are non-empty, the stored
  keys have distinct names and are at most \<open>MAX_SKIPPED_KEYS\<close>.
\<close>

definition ratchet_inv :: "ratchet \<Rightarrow> bool" where
  "ratchet_inv r \<longleftrightarrow> ratchet_wf r \<and> int (length (skipped_keys r)) \<le> MAX_SKIPPED_KEYS"

lemma kdf_lengths:
  assumes "hkdf_lengths P"
  shows "length (fst (kdf_rk P k d)) = 32" "length (snd (kdf_rk P k d)) = 32"
    "length (fst (kdf_ck P c)) = 32" "length (snd (kdf_ck P c)) = 32"
    "kdf_rk P k d \<noteq> (x, [])" "kdf_ck P c \<noteq> (x, [])"
proof -
  show l: "length (fst (kdf_rk P k d)) = 32" "length (snd (kdf_rk P k d)) = 32"
    "length (fst (kdf_ck P c)) = 32" "length (snd (kdf_ck P c)) = 32"
    using assms by (simp_all add: kdf_rk_def kdf_ck_def hkdf_derive_def hkdf_lengths_def Let_def)
  show "kdf_rk P k d \<noteq> (x, [])" using l(2) by (metis list.size(3) snd_conv zero_neq_numeral)
  show "kdf_ck P c \<noteq> (x, [])" using l(4) by (metis list.size(3) snd_conv zero_neq_numeral)
qed

lemma hkdf_nonempty: "hkdf_lengths P \<Longrightarrow> 0 < n \<Longrightarrow> hkdf_derive P k i n x \<noteq> []"
  by (metis hkdf_derive_def hkdf_lengths_def list.size(3) neq0_conv)

lemma kdf_nonempty [simp]:
  "hkdf_lengths P \<Longrightarrow> snd (kdf_rk P k d) \<noteq> []" "hkdf_lengths P \<Longrightarrow> snd (kdf_ck P c) \<noteq> []"
  using kdf_lengths [of P] by (metis list.size(3) zero_neq_numeral)+

definition chains_ok :: "ratchet \<Rightarrow> bool" where
  "chains_ok r \<longleftrightarrow> opt_ok (dh_peer_public r) \<and> opt_ok (send_chain_key r) \<and>
     opt_ok (recv_chain_key r) \<and> opt_ok (pending_pairing_dh_ratchet_peer r)"

lemma ratchet_inv_split:
  "ratchet_inv r \<longleftrightarrow> chains_ok r \<and> sk_distinct r \<and> int (length (skipped_keys r)) \<le> MAX_SKIPPED_KEYS"
  by (auto simp: ratchet_inv_def ratchet_wf_def chains_ok_def)

lemma skip_loop_chains: "hkdf_lengths P \<Longrightarrow> chains_ok r \<Longrightarrow> chains_ok (skip_loop P pub n ck r)"
proof (induction P pub n ck r rule: skip_loop.induct)
  case (1 P pub n ck r)
  then show ?case
    by (subst skip_loop.simps) (auto simp: chains_ok_def opt_ok_def store_skip_def)
qed

lemma dh_ratchet_chains:
  "hkdf_lengths P \<Longrightarrow> pub \<noteq> [] \<Longrightarrow> chains_ok r \<Longrightarrow> chains_ok (snd (dh_ratchet P np pub r))"
  by (auto simp: dh_ratchet_def chains_ok_def opt_ok_def m_bind_def m_of_def m_modify_def m_get_def
      split: sum.splits)

lemma advance_peer_chains:
  "hkdf_lengths P \<Longrightarrow> pub \<noteq> [] \<Longrightarrow> chains_ok r \<Longrightarrow> chains_ok (snd (advance_peer P np pub r))"
  using dh_ratchet_chains [of P pub r np]
  by (auto simp: advance_peer_def m_get_def m_return_def m_modify_def split: option.splits)
    (simp add: chains_ok_def opt_ok_def)

lemma take_message_key_chains:
  "hkdf_lengths P \<Longrightarrow> chains_ok r \<Longrightarrow> chains_ok (snd (take_message_key P pub n r))"
  using skip_loop_chains [of P r pub n]
  by (auto simp: take_message_key_def m_bind_def m_of_def m_modify_def m_get_def m_raise_def
      m_return_def split: option.splits sum.splits exn.splits)
    (simp_all add: chains_ok_def opt_ok_def)

lemma decrypt_body_chains:
  "hkdf_lengths P \<Longrightarrow> pub \<noteq> [] \<Longrightarrow> chains_ok r \<Longrightarrow> chains_ok (snd (decrypt_body P np pub pn n ct r))"
  unfolding decrypt_body_def
  by (intro m_bind_snd_induct [where Q = chains_ok] advance_peer_chains take_message_key_chains)
    (simp_all add: m_of_def)

lemma decrypt_body_inv:
  "hkdf_lengths P \<Longrightarrow> pub \<noteq> [] \<Longrightarrow> ratchet_inv r \<Longrightarrow> ratchet_inv (snd (decrypt_body P np pub pn n ct r))"
  by (simp add: ratchet_inv_split decrypt_body_chains decrypt_body_distinct decrypt_body_length)

lemma restore_skipped:
  "ratchet_wf r \<Longrightarrow> sk_distinct r' \<Longrightarrow>
   restore_snapshot (ratchet_to_dict r) r' = Inr (r\<lparr>skipped_keys := skipped_keys r'\<rparr>)"
  by (simp add: restore_snapshot_def alias_to_dict ratchet_from_to_dict ratchet_wf_def)

lemma ratchet_decrypt_inv:
  assumes P: "hkdf_lengths P" and inv: "ratchet_inv r"
  shows "ratchet_inv (snd (ratchet_decrypt P np payload r))"
proof (cases "length payload < 45 \<or> take 5 payload \<noteq> RATCHET_MAGIC")
  case True
  then have "snd (ratchet_decrypt P np payload r) = r"
    by (auto simp: ratchet_decrypt_def Let_def)
  with inv show ?thesis by simp
next
  case False
  define pk where "pk = take 32 (drop (length RATCHET_MAGIC) payload)"
  let ?x = "decrypt_body P np pk
        (int (be_nat (take 4 (drop (length RATCHET_MAGIC + 32) payload))))
        (int (be_nat (take 4 (drop (length RATCHET_MAGIC + 36) payload))))
        (drop (length RATCHET_MAGIC + 40) payload) r"
  have "pk \<noteq> []" using False by (auto simp: pk_def)
  then have x: "ratchet_inv (snd ?x)" by (intro decrypt_body_inv P inv)
  have "ratchet_decrypt P np payload r = decrypt_result (ratchet_to_dict r) ?x"
    using False by (simp add: ratchet_decrypt_def decrypt_result_def Let_def pk_def)
  moreover have "ratchet_inv (snd (decrypt_result (ratchet_to_dict r) ?x))"
    using x inv restore_skipped [of r "snd ?x"]
    by (cases ?x) (auto simp: decrypt_result_def ratchet_inv_def ratchet_wf_def split: sum.splits)
  ultimately show ?thesis by simp
qed

lemma pairing_send_init_chains:
  "hkdf_lengths P \<Longrightarrow> chains_ok r \<Longrightarrow> chains_ok (snd (pairing_send_init P np pub r)) \<and>
   skipped_keys (snd (pairing_send_init P np pub r)) = skipped_keys r"
  by (auto simp: pairing_send_init_def chains_ok_def opt_ok_def m_bind_def m_of_def m_modify_def
      m_get_def m_raise_def split: sum.splits)

lemma ratchet_encrypt_inv:
  assumes P: "hkdf_lengths P" and inv: "ratchet_inv r"
  shows "ratchet_inv (snd (ratchet_encrypt P np nonce m r))"
  unfolding ratchet_encrypt_def
proof (rule m_bind_snd_induct [where Q = ratchet_inv])
  show "ratchet_inv (snd (m_get (\<lambda>r. case pending_pairing_dh_ratchet_peer r of None \<Rightarrow> m_return ()
      | Some peer \<Rightarrow> m_bind (m_modify (\<lambda>r. r\<lparr>pending_pairing_dh_ratchet_peer := None\<rparr>))
          (\<lambda>_. pairing_send_init P np peer)) r))"
    using inv pairing_send_init_chains [OF P, of "r\<lparr>pending_pairing_dh_ratchet_peer := None\<rparr>" np]
    by (auto simp: ratchet_inv_split split: option.splits) (auto simp: chains_ok_def opt_ok_def)
qed (auto simp: ratchet_inv_split chains_ok_def opt_ok_def m_bind_def m_modify_def m_of_def m_return_def
    m_raise_def P split: option.splits sum.splits)

section \<open>Packets of a chain\<close>

text \<open>The chain key after \<open>k\<close> steps and the packet a chain key seals.\<close>

fun chain_key :: "prims \<Rightarrow> nat \<Rightarrow> bytes \<Rightarrow> bytes" where
  "chain_key P 0 ck = ck"
| "chain_key P (Suc k) ck = chain_key P k (snd (kdf_ck P ck))"

definition packet_header :: "bytes \<Rightarrow> nat \<Rightarrow> nat \<Rightarrow> bytes" where
  "packet_header pub pn n = RATCHET_MAGIC @ pub @ be_bytes 4 pn @ be_bytes 4 n"

definition packet :: "prims \<Rightarrow> bytes \<Rightarrow> nat \<Rightarrow> nat \<Rightarrow> bytes \<Rightarrow> bytes \<Rightarrow> bytes \<Rightarrow> bytes" where
  "packet P pub pn n ck nonce m =
     packet_header pub pn n @
     xchacha_encrypt P nonce (fst (kdf_ck P ck)) m (packet_header pub pn n)"

lemma header_aad_packet [simp]:
  "int pn < 2 ^ 32 \<Longrightarrow> int n < 2 ^ 32 \<Longrightarrow> header_aad pub (int pn) (int n) = Inr (packet_header pub pn n)"
  by (simp add: header_aad_def pack_II_def packet_header_def)

lemma ratchet_encrypt_packet:
  assumes "pending_pairing_dh_ratchet_peer r = None" "send_chain_key r = Some ck"
    "send_n r = int n" "prev_send_n r = int pn" "n < 2 ^ 32" "pn < 2 ^ 32"
  shows "ratchet_encrypt P np nonce m r =
    (Inr (packet P (dh_self_public r) pn n ck nonce m),
     r\<lparr>send_chain_key := Some (snd (kdf_ck P ck)), send_n := int (Suc n)\<rparr>)"
proof -
  have "int pn < 2 ^ 32" using assms by simp
  moreover have "int n < 2 ^ 32" using assms by simp
  ultimately show ?thesis using assms
    by (simp add: ratchet_encrypt_def m_bind_def packet_def add.commute)
qed

lemma be_nat_4 [simp]: "n < 2 ^ 32 \<Longrightarrow> be_nat (be_bytes 4 n) = n"
  by (simp add: be_nat_be_bytes)

lemma ratchet_decrypt_header:
  assumes "length pub = 32" "n < 2 ^ 32" "pn < 2 ^ 32"
  shows "ratchet_decrypt P np (packet_header pub pn n @ ct) r =
    decrypt_result (ratchet_to_dict r) (decrypt_body P np pub (int pn) (int n) ct r)"
  using assms
  by (simp add: ratchet_decrypt_def packet_header_def Let_def decrypt_result_def)

section \<open>The keys of skipped messages\<close>

lemma chain_key_Suc: "chain_key P (Suc k) ck = snd (kdf_ck P (chain_key P k ck))"
  by (induction k arbitrary: ck) simp_all

lemma chain_key_add: "chain_key P j (chain_key P i ck) = chain_key P (i + j) ck"
  by (induction i arbitrary: ck) simp_all

definition chain_mkey :: "prims \<Rightarrow> nat \<Rightarrow> bytes \<Rightarrow> bytes" where
  "chain_mkey P i ck = fst (kdf_ck P (chain_key P i ck))"

fun stored_keys ::
    "prims \<Rightarrow> bytes \<Rightarrow> nat \<Rightarrow> nat \<Rightarrow> bytes \<Rightarrow> (str \<times> str) list \<Rightarrow> (str \<times> str) list" where
  "stored_keys P pub n 0 ck sk = sk"
| "stored_keys P pub n (Suc k) ck sk =
     stored_keys P pub (Suc n) k (snd (kdf_ck P ck))
       (dict_put (key_id pub (int n)) (b64encode (fst (kdf_ck P ck))) sk)"

lemma key_id_inject [simp]: "key_id pub (int m) = key_id pub (int n) \<longleftrightarrow> m = n"
  by (auto simp: key_id_def str_of_int_def) (metis nat_of_str_of_nat)

lemma stored_keys_other:
  "(\<And>i. i < k \<Longrightarrow> key \<noteq> key_id pub (int (n + i))) \<Longrightarrow>
   map_of (stored_keys P pub n k ck sk) key = map_of sk key"
proof (induction P pub n k ck sk rule: stored_keys.induct)
  case (2 P pub n k ck sk)
  have "key \<noteq> key_id pub (int (Suc n + i))" if "i < k" for i
    using "2.prems" [of "Suc i"] that by simp
  moreover have "key \<noteq> key_id pub (int n)" using "2.prems" [of 0] by simp
  ultimately show ?case using "2.IH" by simp
qed simp

lemma stored_keys_lookup:
  "i < k \<Longrightarrow> map_of (stored_keys P pub n k ck sk) (key_id pub (int (n + i)))
     = Some (b64encode (chain_mkey P i ck))"
proof (induction P pub n k ck sk arbitrary: i rule: stored_keys.induct)
  case (2 P pub n k ck sk)
  show ?case
  proof (cases i)
    case 0
    then show ?thesis by (simp add: stored_keys_other chain_mkey_def del: of_nat_add of_nat_Suc)
  next
    case (Suc j)
    with "2.IH" [of j] "2.prems" show ?thesis by (simp add: chain_mkey_def)
  qed
qed simp

lemma stored_keys_length: "length (stored_keys P pub n k ck sk) \<le> length sk + k"
proof (induction P pub n k ck sk rule: stored_keys.induct)
  case (2 P pub n k ck sk)
  then show ?case
    using length_dict_put [of "key_id pub (int n)" "b64encode (fst (kdf_ck P ck))" sk] by simp
qed simp

lemma stored_keys_distinct:
  "distinct (map fst sk) \<Longrightarrow> distinct (map fst (stored_keys P pub n k ck sk))"
  by (induction P pub n k ck sk rule: stored_keys.induct) (simp_all add: distinct_dict_put)

lemma skip_loop_stored:
  "recv_n r = int n \<Longrightarrow> recv_chain_key r = Some ck \<Longrightarrow>
   skip_loop P pub (int (n + k)) ck r =
     r\<lparr>recv_chain_key := Some (chain_key P k ck), recv_n := int (n + k),
       skipped_keys := stored_keys P pub n k ck (skipped_keys r)\<rparr>"
proof (induction k arbitrary: n ck r)
  case 0
  then show ?case by (subst skip_loop.simps) simp
next
  case (Suc k)
  let ?r = "(store_skip pub (int n) (fst (kdf_ck P ck)) r)
              \<lparr>recv_chain_key := Some (snd (kdf_ck P ck)), recv_n := int n + 1\<rparr>"
  have "skip_loop P pub (int (n + Suc k)) ck r
      = skip_loop P pub (int (Suc n + k)) (snd (kdf_ck P ck)) ?r"
    using Suc.prems by (subst skip_loop.simps) simp
  also have "\<dots> = ?r\<lparr>recv_chain_key := Some (chain_key P k (snd (kdf_ck P ck))),
      recv_n := int (Suc n + k),
      skipped_keys := stored_keys P pub (Suc n) k (snd (kdf_ck P ck)) (skipped_keys ?r)\<rparr>"
    by (rule Suc.IH) simp_all
  finally show ?case by (simp add: store_skip_def)
qed

section \<open>Delivery on one chain\<close>

text \<open>\<open>r\<close> expects message \<open>n\<close> of the chain \<open>ck\<close> of the peer key \<open>pub\<close>.\<close>

definition expects :: "bytes \<Rightarrow> nat \<Rightarrow> bytes \<Rightarrow> ratchet \<Rightarrow> bool" where
  "expects pub n ck r \<longleftrightarrow> dh_peer_public r \<in> {None, Some pub} \<and> recv_n r = int n \<and>
     recv_chain_key r = Some ck"

lemma advance_peer_same:
  "dh_peer_public r \<in> {None, Some pub} \<Longrightarrow>
   advance_peer P np pub r = (Inr (), r\<lparr>dh_peer_public := Some pub\<rparr>)"
  by (auto simp: advance_peer_def)

lemma ratchet_decrypt_packet:
  assumes law: "aead_correct P" and len: "length nonce = 24" "length pub = 32"
    and r: "expects pub n ck r"
    and range: "n + k < 2 ^ 32" "pn < 2 ^ 32"
    and gap: "k \<le> 128" "length (skipped_keys r) + k \<le> 256"
  shows "ratchet_decrypt P np (packet P pub pn (n + k) (chain_key P k ck) nonce m) r =
    (Inr m, r\<lparr>dh_peer_public := Some pub, recv_chain_key := Some (chain_key P (Suc k) ck),
              recv_n := int (Suc (n + k)),
              skipped_keys := stored_keys P pub n k ck (skipped_keys r)\<rparr>)"
proof -
  let ?r = "r\<lparr>dh_peer_public := Some pub\<rparr>"
  have sl: "skip_loop P pub (int (n + k)) ck ?r = ?r\<lparr>recv_chain_key := Some (chain_key P k ck),
      recv_n := int (n + k), skipped_keys := stored_keys P pub n k ck (skipped_keys r)\<rparr>"
    using r skip_loop_stored [of ?r n ck P pub k] by (simp add: expects_def)
  have g: "\<not> MAX_SKIP_GAP < int k" "\<not> MAX_SKIPPED_KEYS < int (length (skipped_keys r)) + int k"
    using gap by (simp_all add: MAX_SKIP_GAP_def MAX_SKIPPED_KEYS_def)
  have key: "take_message_key P pub (int (n + k)) ?r =
     (Inr (chain_mkey P k ck),
      ?r\<lparr>recv_chain_key := Some (chain_key P (Suc k) ck), recv_n := int (Suc (n + k)),
         skipped_keys := stored_keys P pub n k ck (skipped_keys r)\<rparr>)"
    using r g sl unfolding chain_key_Suc
    by (simp add: take_message_key_def expects_def m_bind_def m_modify_def m_return_def m_get_def
        chain_mkey_def)
  have aad: "header_aad pub (int pn) (int (n + k)) = Inr (packet_header pub pn (n + k))"
    by (rule header_aad_packet) (use range in simp_all)
  show ?thesis
    using r key aad law len range
    by (simp add: packet_def ratchet_decrypt_header decrypt_body_def m_bind_def expects_def
        advance_peer_same xchacha_roundtrip chain_mkey_def del: of_nat_add)
qed

text \<open>A message behind the chain is opened with its stored key, and nothing changes.\<close>

lemma ratchet_decrypt_stored:
  assumes law: "aead_correct P" and len: "length nonce = 24" "length pub = 32"
    and r: "dh_peer_public r = Some pub" "recv_chain_key r = Some ck'" "int n < recv_n r"
    and range: "n < 2 ^ 32" "pn < 2 ^ 32"
    and key: "map_of (skipped_keys r) (key_id pub (int n)) = Some (b64encode (fst (kdf_ck P ck)))"
  shows "ratchet_decrypt P np (packet P pub pn n ck nonce m) r = (Inr m, r)"
proof -
  have aad: "header_aad pub (int pn) (int n) = Inr (packet_header pub pn n)"
    using range by simp
  show ?thesis
    using r key aad law len range
    by (simp add: packet_def ratchet_decrypt_header decrypt_body_def m_bind_def
        advance_peer_same take_message_key_def skip_key_def xchacha_roundtrip)
qed

section \<open>Delivery in any order\<close>

text \<open>A batch of messages (nonce, plaintext) encrypted one after the other.\<close>

fun encrypt_all :: "prims \<Rightarrow> bytes \<Rightarrow> (bytes \<times> bytes) list \<Rightarrow> (ratchet, bytes list) meth" where
  "encrypt_all P np [] = m_return []"
| "encrypt_all P np ((nonce, m) # ms) =
     m_bind (ratchet_encrypt P np nonce m) (\<lambda>p.
     m_bind (encrypt_all P np ms) (\<lambda>ps. m_return (p # ps)))"

fun decrypt_all :: "prims \<Rightarrow> bytes \<Rightarrow> bytes list \<Rightarrow> (ratchet, bytes list) meth" where
  "decrypt_all P np [] = m_return []"
| "decrypt_all P np (p # ps) =
     m_bind (ratchet_decrypt P np p) (\<lambda>m.
     m_bind (decrypt_all P np ps) (\<lambda>ms. m_return (m # ms)))"

fun chain_packets ::
    "prims \<Rightarrow> bytes \<Rightarrow> nat \<Rightarrow> nat \<Rightarrow> bytes \<Rightarrow> (bytes \<times> bytes) list \<Rightarrow> bytes list" where
  "chain_packets P pub pn n ck [] = []"
| "chain_packets P pub pn n ck ((nonce, m) # ms) =
     packet P pub pn n ck nonce m # chain_packets P pub pn (Suc n) (snd (kdf_ck P ck)) ms"

lemma length_chain_packets [simp]: "length (chain_packets P pub pn n ck ms) = length ms"
  by (induction P pub pn n ck ms rule: chain_packets.induct) auto

lemma chain_packets_nth:
  "i < length ms \<Longrightarrow> chain_packets P pub pn n ck ms ! i =
     packet P pub pn (n + i) (chain_key P i ck) (fst (ms ! i)) (snd (ms ! i))"
proof (induction P pub pn n ck ms arbitrary: i rule: chain_packets.induct)
  case (2 P pub pn n ck nonce m ms)
  then show ?case by (cases i) auto
qed simp

lemma chain_packets_append:
  "chain_packets P pub pn n ck (ms @ ms') =
     chain_packets P pub pn n ck ms @
     chain_packets P pub pn (n + length ms) (chain_key P (length ms) ck) ms'"
  by (induction P pub pn n ck ms rule: chain_packets.induct) auto

text \<open>\<open>r\<close> seals its next message as number \<open>n\<close> of the chain \<open>ck\<close>.\<close>

definition seals :: "nat \<Rightarrow> nat \<Rightarrow> bytes \<Rightarrow> ratchet \<Rightarrow> bool" where
  "seals pn n ck r \<longleftrightarrow> pending_pairing_dh_ratchet_peer r = None \<and> send_chain_key r = Some ck \<and>
     send_n r = int n \<and> prev_send_n r = int pn"

lemma encrypt_all_packets:
  "seals pn n ck r \<Longrightarrow> n + length ms \<le> 2 ^ 32 \<Longrightarrow> pn < 2 ^ 32 \<Longrightarrow>
   encrypt_all P np ms r =
     (Inr (chain_packets P (dh_self_public r) pn n ck ms),
      r\<lparr>send_chain_key := Some (chain_key P (length ms) ck), send_n := int (n + length ms)\<rparr>)"
proof (induction P np ms arbitrary: n ck r rule: encrypt_all.induct)
  case (1 P np)
  then show ?case by (simp add: seals_def)
next
  case (2 P np nonce m ms)
  let ?r = "r\<lparr>send_chain_key := Some (snd (kdf_ck P ck)), send_n := int (Suc n)\<rparr>"
  have "ratchet_encrypt P np nonce m r = (Inr (packet P (dh_self_public r) pn n ck nonce m), ?r)"
    using 2 by (intro ratchet_encrypt_packet) (auto simp: seals_def)
  moreover have "encrypt_all P np ms ?r = (Inr (chain_packets P (dh_self_public ?r) pn (Suc n)
      (snd (kdf_ck P ck)) ms), ?r\<lparr>send_chain_key := Some (chain_key P (length ms) (snd (kdf_ck P ck))),
      send_n := int (Suc n + length ms)\<rparr>)"
    using 2 by (intro "2.IH") (auto simp: seals_def)
  ultimately show ?case by (simp add: m_bind_def)
qed

text \<open>
  After the messages \<open>D\<close> of the batch have arrived: the head \<open>h\<close> of the chain, and a stored
  key for every message below \<open>h\<close> that has not.
\<close>

definition window_inv :: "prims \<Rightarrow> bytes \<Rightarrow> nat \<Rightarrow> bytes \<Rightarrow> nat set \<Rightarrow> nat \<Rightarrow> ratchet \<Rightarrow> bool" where
  "window_inv P pub n ck D h r \<longleftrightarrow>
     expects pub (n + h) (chain_key P h ck) r \<and> (D \<noteq> {} \<longrightarrow> dh_peer_public r = Some pub) \<and>
     (\<forall>i \<in> D. i < h) \<and> (h \<noteq> 0 \<longrightarrow> D \<noteq> {}) \<and>
     length (skipped_keys r) \<le> 128 + h \<and>
     (\<forall>i < h. i \<notin> D \<longrightarrow> map_of (skipped_keys r) (key_id pub (int (n + i)))
                         = Some (b64encode (chain_mkey P i ck)))"

lemma window_step:
  assumes law: "aead_correct P" and inv: "window_inv P pub n ck D h r"
    and ms: "length ms \<le> 128" "n + length ms \<le> 2 ^ 32" "pn < 2 ^ 32" "length pub = 32"
    and i: "i < length ms" "i \<notin> D" "length (fst (ms ! i)) = 24" and h: "h \<le> length ms"
  shows "\<exists>h' r'. ratchet_decrypt P np (chain_packets P pub pn n ck ms ! i) r = (Inr (snd (ms ! i)), r')
           \<and> h' \<le> length ms \<and> window_inv P pub n ck (insert i D) h' r'"
proof (cases "i < h")
  case True
  have "ratchet_decrypt P np (packet P pub pn (n + i) (chain_key P i ck) (fst (ms ! i)) (snd (ms ! i))) r
      = (Inr (snd (ms ! i)), r)"
    using inv True i ms
    by (intro ratchet_decrypt_stored [OF law])
      (auto simp: window_inv_def expects_def chain_mkey_def simp del: of_nat_add)
  with inv True h i show ?thesis
    by (intro exI [of _ h] exI [of _ r]) (auto simp: chain_packets_nth window_inv_def)
next
  case False
  define k where "k = i - h"
  have k: "i = h + k" "n + h + k < 2 ^ 32" "k \<le> 128" "h + k < 128"
    using False i ms by (auto simp: k_def)
  let ?r = "r\<lparr>dh_peer_public := Some pub, recv_chain_key := Some (chain_key P (Suc k) (chain_key P h ck)),
      recv_n := int (Suc (n + h + k)),
      skipped_keys := stored_keys P pub (n + h) k (chain_key P h ck) (skipped_keys r)\<rparr>"
  have dec: "ratchet_decrypt P np (packet P pub pn (n + h + k) (chain_key P k (chain_key P h ck))
      (fst (ms ! i)) (snd (ms ! i))) r = (Inr (snd (ms ! i)), ?r)"
    using inv i ms k by (intro ratchet_decrypt_packet [OF law]) (auto simp: window_inv_def)
  have keys: "map_of (skipped_keys ?r) (key_id pub (int (n + j))) = Some (b64encode (chain_mkey P j ck))"
    if j: "j < Suc i" "j \<notin> insert i D" for j
  proof (cases "j < h")
    case True
    have "map_of (stored_keys P pub (n + h) k (chain_key P h ck) (skipped_keys r)) (key_id pub (int (n + j)))
        = map_of (skipped_keys r) (key_id pub (int (n + j)))"
      using True by (intro stored_keys_other) (simp del: of_nat_add)
    with True j inv show ?thesis by (simp add: window_inv_def del: of_nat_add)
  next
    case False
    then obtain l where l: "j = h + l" "l < k" using j k by (metis less_antisym insertI1
          le_add_diff_inverse linorder_not_less nat_add_left_cancel_less)
    then show ?thesis using stored_keys_lookup [of l k P pub "n + h" "chain_key P h ck"]
      by (simp add: chain_mkey_def chain_key_add add.assoc del: of_nat_add)
  qed
  have "length (skipped_keys ?r) \<le> 128 + Suc i"
    using inv k stored_keys_length [of P pub "n + h" k "chain_key P h ck" "skipped_keys r"]
    by (simp add: window_inv_def)
  then have "window_inv P pub n ck (insert i D) (Suc i) ?r"
    using inv k keys by (auto simp: window_inv_def expects_def chain_key_add simp del: chain_key.simps of_nat_add)
  with dec i k show ?thesis
    by (intro exI [of _ "Suc i"] exI [of _ ?r])
      (simp add: chain_packets_nth chain_key_add add.assoc del: chain_key.simps of_nat_add)
qed

lemma decrypt_all_window:
  assumes law: "aead_correct P"
    and ms: "length ms \<le> 128" "n + length ms \<le> 2 ^ 32" "pn < 2 ^ 32" "length pub = 32"
      "\<And>x. x \<in> set ms \<Longrightarrow> length (fst x) = 24"
  shows "window_inv P pub n ck D h r \<Longrightarrow> h \<le> length ms \<Longrightarrow> distinct order \<Longrightarrow>
    set order \<subseteq> {..<length ms} - D \<Longrightarrow>
    fst (decrypt_all P np (map ((!) (chain_packets P pub pn n ck ms)) order) r)
      = Inr (map (\<lambda>i. snd (ms ! i)) order)"
proof (induction order arbitrary: D h r)
  case (Cons i order)
  have i: "i < length ms" "i \<notin> D" "length (fst (ms ! i)) = 24" using Cons.prems ms by auto
  obtain h' r' where r': "ratchet_decrypt P np (chain_packets P pub pn n ck ms ! i) r
      = (Inr (snd (ms ! i)), r')" "h' \<le> length ms" "window_inv P pub n ck (insert i D) h' r'"
    using window_step [OF law Cons.prems(1) ms(1-4) i Cons.prems(2)] by blast
  have "fst (decrypt_all P np (map ((!) (chain_packets P pub pn n ck ms)) order) r')
      = Inr (map (\<lambda>i. snd (ms ! i)) order)"
    using Cons.prems r' by (intro Cons.IH [of "insert i D" h']) auto
  with r' show ?case
    by (cases "decrypt_all P np (map ((!) (chain_packets P pub pn n ck ms)) order) r'")
      (simp add: m_bind_def)
qed simp

text \<open>
  Two ratchets over one master secret, before the first message: the instances the concrete
  runs of this theory start from.
\<close>

definition demo_sender :: ratchet where
  "demo_sender = from_master demo_prims [1] True False (replicate 32 1)"

definition demo_receiver :: ratchet where
  "demo_receiver = from_master demo_prims [1] False False (replicate 32 2)"

lemma demo_ratchets:
  "seals 0 0 (the (send_chain_key demo_sender)) demo_sender"
  "expects (dh_self_public demo_sender) 0 (the (send_chain_key demo_sender)) demo_receiver"
  "length (dh_self_public demo_sender) = 32" "skipped_keys demo_receiver = []"
  by (simp_all add: demo_sender_def demo_receiver_def from_master_def Let_def seals_def expects_def
      demo_prims_def)

text \<open>
  C7. Delivery on one sending chain. When the sender seals message number \<open>n\<close> of a chain
  next and the receiver expects it, a batch of at most 128 messages is encrypted without an
  error, and whatever subset of the packets reaches the receiver, in whatever order, each
  one decrypts to the plaintext it carries.
\<close>

theorem any_order_delivery:
  assumes law: "aead_correct P" and s: "seals pn n ck s" and r: "expects (dh_self_public s) n ck r"
    and ms: "length ms \<le> 128" "n + length ms \<le> 2 ^ 32" "pn < 2 ^ 32"
      "length (dh_self_public s) = 32" "\<And>x. x \<in> set ms \<Longrightarrow> length (fst x) = 24"
    and room: "length (skipped_keys r) \<le> 128"
  shows "\<exists>ps. fst (encrypt_all P np ms s) = Inr ps \<and> length ps = length ms \<and>
    (\<forall>order. distinct order \<and> set order \<subseteq> {..<length ms} \<longrightarrow>
       fst (decrypt_all P np (map ((!) ps) order) r) = Inr (map (\<lambda>i. snd (ms ! i)) order))"
proof -
  have w: "window_inv P (dh_self_public s) n ck {} 0 r"
    using r room by (simp add: window_inv_def)
  have "fst (encrypt_all P np ms s) = Inr (chain_packets P (dh_self_public s) pn n ck ms)"
    using encrypt_all_packets [OF s ms(2,3)] by simp
  moreover have "fst (decrypt_all P np (map ((!) (chain_packets P (dh_self_public s) pn n ck ms)) order) r)
      = Inr (map (\<lambda>i. snd (ms ! i)) order)" if "distinct order \<and> set order \<subseteq> {..<length ms}" for order
    by (rule decrypt_all_window [OF law ms(1-5) w]) (use that in auto)
  ultimately show ?thesis by (intro exI conjI) (assumption | simp)+
qed

theorem any_order_delivery_witness:
  "\<exists>ps. fst (encrypt_all demo_prims [] [(replicate 24 0, [1, 2]), (replicate 24 1, [3])] demo_sender) = Inr ps \<and>
     fst (decrypt_all demo_prims [] (map ((!) ps) [1, 0]) demo_receiver) = Inr [[3], [1, 2]]"
proof -
  let ?ms = "[(replicate 24 0, [1, 2]), (replicate 24 1, [3])] :: (bytes \<times> bytes) list"
  have len: "length (fst x) = 24" if "x \<in> set ?ms" for x using that by auto
  from any_order_delivery [OF demo_aead demo_ratchets(1,2), of ?ms "[]"] demo_ratchets(3,4) len
  obtain ps where ps: "fst (encrypt_all demo_prims [] ?ms demo_sender) = Inr ps"
    and out: "\<And>order. distinct order \<Longrightarrow> set order \<subseteq> {..<length ?ms} \<Longrightarrow>
       fst (decrypt_all demo_prims [] (map ((!) ps) order) demo_receiver) = Inr (map (\<lambda>i. snd (?ms ! i)) order)"
    by auto
  from out [of "[1, 0]"] ps show ?thesis by auto
qed

section \<open>Hostile packets\<close>

text \<open>
  C12. A header with a fresh peer key and a message number out of the gap: no key is needed to
  make one, the packet is refused, every other field is restored, and all stored keys of
  skipped messages are gone, because the snapshot shares their dictionary.
\<close>

theorem forged_header_wipes:
  assumes wf: "ratchet_wf r" and peer: "dh_peer_public r = Some pub" "pub \<noteq> evil"
    and evil: "length evil = 32" "128 < n" "n < 2 ^ 32" "pn < 2 ^ 32"
  shows "\<exists>e. ratchet_decrypt P np (packet_header evil pn n @ junk) r = (Inl e, r\<lparr>skipped_keys := []\<rparr>)"
proof -
  let ?x = "decrypt_body P np evil (int pn) (int n) junk r"
  have "\<exists>e. fst ?x = Inl e \<and> skipped_keys (snd ?x) = []"
    using peer evil
    by (auto simp: decrypt_body_def advance_peer_def dh_ratchet_def m_bind_def m_of_def m_modify_def
        m_get_def m_raise_def m_return_def take_message_key_def MAX_SKIP_GAP_def
        split: sum.splits option.splits exn.splits)
  then obtain e where e: "fst ?x = Inl e" "skipped_keys (snd ?x) = []" by blast
  have "decrypt_result (ratchet_to_dict r) ?x = (Inl e, r\<lparr>skipped_keys := []\<rparr>)"
    using e wf by (cases ?x) (auto simp: decrypt_result_def restore_snapshot_def alias_to_dict
      ratchet_from_to_dict ratchet_wf_def)
  with evil show ?thesis by (simp add: ratchet_decrypt_header)
qed

theorem forged_header_wipes_witness:
  "\<exists>e. ratchet_decrypt demo_prims [] (packet_header (replicate 32 9) 0 200 @ [])
      (demo_receiver\<lparr>dh_peer_public := Some (replicate 32 1), skipped_keys := [(''k'', ''AAAA'')]\<rparr>)
    = (Inl e, demo_receiver\<lparr>dh_peer_public := Some (replicate 32 1), skipped_keys := []\<rparr>)"
proof -
  let ?r = "demo_receiver\<lparr>dh_peer_public := Some (replicate 32 1), skipped_keys := [(''k'', ''AAAA'')]\<rparr>"
  have wf: "ratchet_wf ?r"
    by (simp add: demo_receiver_def from_master_def Let_def ratchet_wf_def opt_ok_def
        hkdf_nonempty [OF demo_hkdf])
  show ?thesis
    using forged_header_wipes [OF wf, of "replicate 32 1" "replicate 32 9" 200 0 demo_prims "[]" "[]"]
    by (simp add: replicate_eq_replicate)
qed

lemma take_message_key_old:
  "n < recv_n r \<Longrightarrow> snd (take_message_key P pub n r) = r"
  by (auto simp: take_message_key_def m_get_def m_return_def m_raise_def
      split: option.splits sum.splits exn.splits)

lemma decrypt_body_old:
  assumes "dh_peer_public r = Some pub" "n < recv_n r"
  shows "snd (decrypt_body P np pub pn n ct r) = r"
    and "fst (decrypt_body P np pub pn n ct r) = fst (decrypt_body P np' pub pn n ct r)"
proof -
  have adv: "advance_peer P q pub r = (Inr (), r)" for q
    using assms by (simp add: advance_peer_def)
  show "fst (decrypt_body P np pub pn n ct r) = fst (decrypt_body P np' pub pn n ct r)"
    by (simp add: decrypt_body_def m_bind_def adv)
  show "snd (decrypt_body P np pub pn n ct r) = r"
    using take_message_key_old [OF assms(2), of P pub]
    by (cases "take_message_key P pub n r")
      (auto simp: decrypt_body_def m_bind_def adv m_of_def split: sum.splits)
qed

text \<open>
  C13. A message opened with a stored key can be opened again: the key is not removed, so a
  replayed packet is decrypted a second time, with the same plaintext.
\<close>

theorem stored_key_replays:
  assumes peer: "dh_peer_public r = Some pub" and len: "length pub = 32" "n < 2 ^ 32" "pn < 2 ^ 32"
    and old: "int n < recv_n r"
    and first: "ratchet_decrypt P np (packet_header pub pn n @ ct) r = (Inr m, r')"
  shows "r' = r \<and> ratchet_decrypt P np' (packet_header pub pn n @ ct) r' = (Inr m, r)"
proof -
  let ?b = "\<lambda>np. decrypt_body P np pub (int pn) (int n) ct r"
  have b: "?b np' = ?b np" "snd (?b np) = r"
    using decrypt_body_old [OF peer old, where P = P and pn = "int pn" and ct = ct]
    by (simp_all add: prod_eq_iff)
  have "decrypt_result (ratchet_to_dict r) (?b np) = (Inr m, r')"
    using first len by (simp add: ratchet_decrypt_header)
  then have "?b np = (Inr m, r')"
    by (cases "?b np") (auto simp: decrypt_result_def split: sum.splits)
  with b len show ?thesis by (auto simp: ratchet_decrypt_header)
qed

theorem stored_key_replays_witness:
  "\<exists>p r. (\<exists>ct. p = packet_header (replicate 32 1) 0 0 @ ct) \<and> ratchet_decrypt demo_prims [] p r = (Inr [5], r) \<and>
     ratchet_decrypt demo_prims [7] p r = (Inr [5], r)"
proof -
  let ?pub = "replicate 32 1 :: bytes"
  define ck where "ck = (replicate 32 3 :: bytes)"
  define r where "r = demo_receiver\<lparr>dh_peer_public := Some ?pub, recv_n := 2,
      skipped_keys := [(key_id ?pub 0, b64encode (fst (kdf_ck demo_prims ck)))]\<rparr>"
  define ct where "ct = xchacha_encrypt demo_prims (replicate 24 0) (fst (kdf_ck demo_prims ck)) [5] (packet_header ?pub 0 0)"
  obtain ck' where r: "dh_peer_public r = Some ?pub" "recv_chain_key r = Some ck'" "int 0 < recv_n r"
    by (simp add: r_def demo_receiver_def from_master_def Let_def)
  have key: "map_of (skipped_keys r) (key_id ?pub (int 0)) = Some (b64encode (fst (kdf_ck demo_prims ck)))"
    by (simp add: r_def)
  have first: "ratchet_decrypt demo_prims [] (packet_header ?pub 0 0 @ ct) r = (Inr [5], r)"
    using ratchet_decrypt_stored [OF demo_aead _ _ r _ _ key, of "replicate 24 0" 0 "[]" "[5]"]
    by (simp add: ct_def packet_def)
  with stored_key_replays [OF r(1) _ _ _ r(3) first, of "[7]"] show ?thesis
    by (intro exI [of _ "packet_header ?pub 0 0 @ ct"] exI [of _ r]) simp
qed

end
