(* ===== verification/Identity.thy ===== *)
theory Identity
  imports Profile Ratchet DemoPrims RatchetProofs
begin

text \<open>
  Identities and contacts (\<open>identity.py\<close>), the key of the TLS endpoint (\<open>tls.py\<close>), the
  operations of \<open>delivery_profile.py\<close> that need an identity or change a contact, and
  \<open>relay_authorization.py\<close> and \<open>profile_ack.py\<close>. A private key is its raw bytes.
\<close>

section \<open>Identities\<close>

record identity =
  id_name :: str
  signing_private :: bytes
  agreement_private :: bytes
  kem_public :: bytes
  kem_private :: bytes
  pq_signing_public :: bytes
  pq_signing_private :: bytes
  tls_ecdsa_private :: "bytes option"

definition signing_public_bytes :: "prims \<Rightarrow> identity \<Rightarrow> bytes" where
  "signing_public_bytes P i = p_ed_pub P (signing_private i)"

definition agreement_public_bytes :: "prims \<Rightarrow> identity \<Rightarrow> bytes" where
  "agreement_public_bytes P i = p_x25519_pub P (agreement_private i)"

definition device_id :: "prims \<Rightarrow> identity \<Rightarrow> str" where
  "device_id P i = take 16 (to_hex (signing_public_bytes P i))"

definition identity_to_dict :: "identity \<Rightarrow> json" where
  "identity_to_dict i = JObj
     ([(''name'', JStr (id_name i)),
       (''signing_private'', JStr (b64encode (signing_private i))),
       (''agreement_private'', JStr (b64encode (agreement_private i)))] @
      when_item (kem_private i \<noteq> []) ''kem_public'' (JStr (b64encode (kem_public i))) @
      when_item (kem_private i \<noteq> []) ''kem_private'' (JStr (b64encode (kem_private i))) @
      when_item (pq_signing_private i \<noteq> []) ''pq_signing_public''
        (JStr (b64encode (pq_signing_public i))) @
      when_item (pq_signing_private i \<noteq> []) ''pq_signing_private''
        (JStr (b64encode (pq_signing_private i))) @
      opt_item ''tls_ecdsa_private'' (map_option (\<lambda>k. JStr (b64encode k)) (tls_ecdsa_private i)))"

definition key32 :: "bytes \<Rightarrow> bytes res" where
  "key32 b = (if length b = 32 then Inr b else Inl (ValueError ''A private key is 32 bytes long''))"

definition opt_b64_key :: "(str \<times> json) list \<Rightarrow> str \<Rightarrow> bytes res" where
  "opt_b64_key payload k =
     (case map_of payload k of None \<Rightarrow> Inr [] | Some j \<Rightarrow> and_then (jtext j) b64decode)"

definition identity_from_dict :: "json \<Rightarrow> identity res" where
  "identity_from_dict j =
     and_then (jobj j) (\<lambda>payload.
     and_then (and_then (and_then (and_then (jget payload ''signing_private'') jtext) b64decode) key32) (\<lambda>sk.
     and_then (and_then (and_then (and_then (jget payload ''agreement_private'') jtext) b64decode) key32) (\<lambda>ak.
     and_then (case map_of payload ''tls_ecdsa_private'' of None \<Rightarrow> Inr None
               | Some t \<Rightarrow> and_then (and_then (jtext t) b64decode) (\<lambda>k. Inr (Some k))) (\<lambda>tls.
     and_then (and_then (jget payload ''name'') jtext) (\<lambda>name.
     and_then (opt_b64_key payload ''kem_public'') (\<lambda>kp.
     and_then (opt_b64_key payload ''kem_private'') (\<lambda>ks.
     and_then (opt_b64_key payload ''pq_signing_public'') (\<lambda>pp.
     and_then (opt_b64_key payload ''pq_signing_private'') (\<lambda>ps.
     Inr \<lparr>id_name = name, signing_private = sk, agreement_private = ak, kem_public = kp,
          kem_private = ks, pq_signing_public = pp, pq_signing_private = ps,
          tls_ecdsa_private = tls\<rparr>)))))))))"

definition identity_ok :: "identity \<Rightarrow> bool" where
  "identity_ok i \<longleftrightarrow> length (signing_private i) = 32 \<and> length (agreement_private i) = 32 \<and>
     (kem_private i = [] \<longrightarrow> kem_public i = []) \<and>
     (pq_signing_private i = [] \<longrightarrow> pq_signing_public i = [])"

lemma identity_from_to_dict [codec_simps]:
  assumes "identity_ok i"
  shows "identity_from_dict (identity_to_dict i) = Inr i"
  using assms
  by (cases i; cases "tls_ecdsa_private i")
    (auto simp: identity_ok_def identity_from_dict_def identity_to_dict_def jget_def opt_b64_key_def
      key32_def)

section \<open>The TLS key: \<open>tls.py\<close>\<close>

text \<open>A missing key is made and kept in the identity; \<open>fresh\<close> is the key made.\<close>

definition ensure_identity_tls_key :: "bytes \<Rightarrow> identity \<Rightarrow> bytes \<times> identity" where
  "ensure_identity_tls_key fresh i =
     (case tls_ecdsa_private i of
        Some k \<Rightarrow> (k, i) | None \<Rightarrow> (fresh, i\<lparr>tls_ecdsa_private := Some fresh\<rparr>))"

definition endpoint_tls_spki_sha256 :: "prims \<Rightarrow> bytes \<Rightarrow> identity \<Rightarrow> bytes \<times> identity" where
  "endpoint_tls_spki_sha256 P fresh i =
     (let (k, i') = ensure_identity_tls_key fresh i in (p_sha256 P (p_spki P k), i'))"

definition normalize_https_url :: "str \<Rightarrow> str" where
  "normalize_https_url url =
     (let n = rstrip_slash url in
      if starts_with ''http://'' n then ''https://'' @ drop (length ''http://'') n else n)"

definition require_https_url :: "str \<Rightarrow> str res" where
  "require_https_url url =
     (let n = rstrip_slash url in
      if \<not> starts_with ''https://'' n then Inl (ValueError ''TLS required; URL must use https://'')
      else Inr n)"

section \<open>Contacts\<close>

record contact =
  c_name :: str
  c_signing_public :: bytes
  c_agreement_public :: bytes
  master_secret :: bytes
  c_conversation_id :: str
  next_send_seq :: int
  last_recv_seq :: int
  contact_id :: "bytes option"
  transcript_hash :: "bytes option"
  c_ratchet :: "ratchet option"
  c_profile :: "delivery_profile option"
  acked_version :: int
  acked_relays :: "str list"
  hybrid_pq :: bool
  session_started_at :: int
  privacy_mode :: str

definition conversation_id_for :: "str \<Rightarrow> str \<Rightarrow> str" where
  "conversation_id_for a b =
     ''pairwise_'' @ (if a \<le> b then a @ ''_'' @ b else b @ ''_'' @ a)"

definition establish ::
    "prims \<Rightarrow> bytes \<Rightarrow> identity \<Rightarrow> str \<Rightarrow> (str \<times> str) list \<Rightarrow> contact res" where
  "establish P ratchet_private local remote_name remote_bundle =
     and_then (and_then (opt_res (KeyError ''signing_public'') (map_of remote_bundle ''signing_public''))
       b64decode) (\<lambda>remote_signing.
     and_then (and_then (opt_res (KeyError ''agreement_public'') (map_of remote_bundle ''agreement_public''))
       b64decode) (\<lambda>remote_agreement.
     and_then (x25519_shared_secret P (agreement_private local) remote_agreement) (\<lambda>shared.
     let master = derive_master_secret P shared [] in
     Inr \<lparr>c_name = remote_name, c_signing_public = remote_signing,
          c_agreement_public = remote_agreement, master_secret = master,
          c_conversation_id = conversation_id_for (id_name local) remote_name,
          next_send_seq = 1, last_recv_seq = 0, contact_id = None, transcript_hash = None,
          c_ratchet = Some (from_master P master (id_name local < remote_name) False ratchet_private),
          c_profile = None, acked_version = 0, acked_relays = [], hybrid_pq = False,
          session_started_at = 0, privacy_mode = ''fast''\<rparr>)))"

definition export_public_bundle :: "prims \<Rightarrow> identity \<Rightarrow> (str \<times> str) list" where
  "export_public_bundle P i =
     [(''name'', id_name i), (''signing_public'', b64encode (signing_public_bytes P i)),
      (''agreement_public'', b64encode (agreement_public_bytes P i))]"

definition contact_to_dict :: "prims \<Rightarrow> contact \<Rightarrow> json" where
  "contact_to_dict P c = JObj
     ([(''name'', JStr (c_name c)), (''signing_public'', JStr (b64encode (c_signing_public c))),
       (''agreement_public'', JStr (b64encode (c_agreement_public c))),
       (''master_secret'', JStr (b64encode (master_secret c))),
       (''conversation_id'', JStr (c_conversation_id c)),
       (''next_send_seq'', JInt (next_send_seq c)), (''last_recv_seq'', JInt (last_recv_seq c))] @
      opt_item ''contact_id'' (map_option (\<lambda>b. JStr (b64encode b)) (contact_id c)) @
      opt_item ''transcript_hash'' (map_option (\<lambda>b. JStr (b64encode b)) (transcript_hash c)) @
      opt_item ''ratchet'' (map_option (\<lambda>r. JStr (json_default (ratchet_to_dict r))) (c_ratchet c)) @
      opt_item ''delivery_profile'' (map_option (\<lambda>p. JStr (profile_to_b64 P p)) (c_profile c)) @
      when_item (acked_version c \<noteq> 0) ''peer_acked_my_profile_version'' (JInt (acked_version c)) @
      when_item (acked_relays c \<noteq> []) ''peer_acked_my_relay_names''
        (JStr (py_join '','' (acked_relays c))) @
      when_item (hybrid_pq c) ''hybrid_pq'' (JInt 1) @
      when_item (session_started_at c \<noteq> 0) ''session_started_at'' (JInt (session_started_at c)) @
      when_item (privacy_mode c \<noteq> ''fast'') ''privacy_mode'' (JStr (privacy_mode c)))"

definition split_names :: "str \<Rightarrow> str list" where
  "split_names raw = map py_strip (filter (\<lambda>part. py_strip part \<noteq> []) (py_split CHR '','' (py_strip raw)))"

definition opt_field :: "(str \<times> json) list \<Rightarrow> str \<Rightarrow> (str \<Rightarrow> 'a res) \<Rightarrow> 'a option res" where
  "opt_field payload k f =
     (case map_of payload k of None \<Rightarrow> Inr None
      | Some j \<Rightarrow> and_then (and_then (jstr j) f) (\<lambda>x. Inr (Some x)))"

definition contact_from_dict :: "prims \<Rightarrow> json \<Rightarrow> contact res" where
  "contact_from_dict P j =
     and_then (jobj j) (\<lambda>payload.
     and_then (opt_field payload ''ratchet'' (\<lambda>t. and_then (json_loads t) ratchet_from_dict)) (\<lambda>r.
     and_then (opt_field payload ''delivery_profile'' (profile_from_b64 P)) (\<lambda>p.
     and_then (opt_field payload ''peer_acked_my_relay_names'' (\<lambda>raw. Inr (split_names raw))) (\<lambda>names.
     and_then (opt_field payload ''contact_id'' b64decode) (\<lambda>cid.
     and_then (opt_field payload ''transcript_hash'' b64decode) (\<lambda>th.
     and_then (and_then (jget payload ''name'') jstr) (\<lambda>name.
     and_then (and_then (and_then (jget payload ''signing_public'') jstr) b64decode) (\<lambda>sp.
     and_then (and_then (and_then (jget payload ''agreement_public'') jstr) b64decode) (\<lambda>ap.
     and_then (and_then (and_then (jget payload ''master_secret'') jstr) b64decode) (\<lambda>ms.
     and_then (and_then (jget payload ''conversation_id'') jstr) (\<lambda>conv.
     and_then (jint (jget_default payload ''next_send_seq'' (JInt 1))) (\<lambda>nss.
     and_then (jint (jget_default payload ''last_recv_seq'' (JInt 0))) (\<lambda>lrs.
     and_then (jint (jget_default payload ''peer_acked_my_profile_version'' (JInt 0))) (\<lambda>av.
     and_then (jint (jget_default payload ''hybrid_pq'' (JInt 0))) (\<lambda>hy.
     and_then (jint (jget_default payload ''session_started_at'' (JInt 0))) (\<lambda>ssa.
     and_then (jstr (jget_default payload ''privacy_mode'' (JStr ''fast''))) (\<lambda>pm.
     Inr \<lparr>c_name = name, c_signing_public = sp, c_agreement_public = ap, master_secret = ms,
          c_conversation_id = conv, next_send_seq = nss, last_recv_seq = lrs, contact_id = cid,
          transcript_hash = th, c_ratchet = r, c_profile = p, acked_version = av,
          acked_relays = (case names of None \<Rightarrow> [] | Some xs \<Rightarrow> xs), hybrid_pq = (hy \<noteq> 0),
          session_started_at = ssa, privacy_mode = pm\<rparr>)))))))))))))))))"

section \<open>A contact survives saving and loading\<close>

text \<open>What \<open>peer_acked_my_relay_names\<close> can carry: no empty name, no comma, no outer space.\<close>

definition name_ok :: "str \<Rightarrow> bool" where
  "name_ok s \<longleftrightarrow> s \<noteq> [] \<and> stripped s \<and> CHR '','' \<notin> set s"

lemma py_join_ends:
  assumes "xs \<noteq> []" "\<forall>x \<in> set xs. x \<noteq> []"
  shows "py_join s xs \<noteq> [] \<and> hd (py_join s xs) = hd (hd xs) \<and> last (py_join s xs) = last (last xs)"
  using assms by (induction s xs rule: py_join.induct) auto

lemma split_names_join:
  assumes "xs \<noteq> []" "\<forall>x \<in> set xs. name_ok x"
  shows "split_names (py_join '','' xs) = xs"
proof -
  have "stripped (py_join '','' xs)"
    using py_join_ends [of xs "'',''"] assms
    by (cases xs rule: rev_cases) (auto simp: stripped_def name_ok_def hd_append split: if_splits)
  then have "py_split CHR '','' (py_strip (py_join '','' xs)) = xs"
    using assms by (simp add: py_strip_stripped py_split_join name_ok_def)
  moreover have "filter (\<lambda>x. py_strip x \<noteq> []) xs = xs" "map py_strip xs = xs"
    using assms by (auto simp: name_ok_def py_strip_stripped intro!: filter_True map_idI)
  ultimately show ?thesis by (simp add: split_names_def)
qed

definition contact_ok :: "contact \<Rightarrow> bool" where
  "contact_ok c \<longleftrightarrow>
     (case c_ratchet c of None \<Rightarrow> True | Some r \<Rightarrow> ratchet_wf r) \<and>
     (case c_profile c of None \<Rightarrow> True | Some p \<Rightarrow> profile_ok p) \<and>
     (\<forall>x \<in> set (acked_relays c). name_ok x)"

lemma json_ok_ratchet: "ratchet_wf r \<Longrightarrow> json_ok (ratchet_to_dict r)"
proof -
  show "ratchet_wf r \<Longrightarrow> json_ok (ratchet_to_dict r)"
    by (simp add: ratchet_to_dict_def ratchet_wf_def opt_b64_def comp_def split_beta)
qed

lemma ratchet_text_roundtrip [codec_simps]:
  "ratchet_wf r \<Longrightarrow> and_then (json_loads (json_default (ratchet_to_dict r))) ratchet_from_dict = Inr r"
  by (simp add: json_default_roundtrip json_ok_ratchet ratchet_from_to_dict)

lemma contact_from_to_dict [codec_simps]:
  assumes P: "cbor_correct P" and c: "contact_ok c"
  shows "contact_from_dict P (contact_to_dict P c) = Inr c"
proof -
  obtain d where d: "contact_to_dict P c = JObj d" by (simp add: contact_to_dict_def)
  have look: "map_of d ''name'' = Some (JStr (c_name c))"
    "map_of d ''signing_public'' = Some (JStr (b64encode (c_signing_public c)))"
    "map_of d ''agreement_public'' = Some (JStr (b64encode (c_agreement_public c)))"
    "map_of d ''master_secret'' = Some (JStr (b64encode (master_secret c)))"
    "map_of d ''conversation_id'' = Some (JStr (c_conversation_id c))"
    "map_of d ''next_send_seq'' = Some (JInt (next_send_seq c))"
    "map_of d ''last_recv_seq'' = Some (JInt (last_recv_seq c))"
    unfolding d [unfolded contact_to_dict_def json.inject, symmetric] by simp_all
  have opt: "map_of d ''ratchet'' = map_option (\<lambda>r. JStr (json_default (ratchet_to_dict r))) (c_ratchet c)"
    "map_of d ''delivery_profile'' = map_option (\<lambda>p. JStr (profile_to_b64 P p)) (c_profile c)"
    "map_of d ''contact_id'' = map_option (\<lambda>b. JStr (b64encode b)) (contact_id c)"
    "map_of d ''transcript_hash'' = map_option (\<lambda>b. JStr (b64encode b)) (transcript_hash c)"
    "map_of d ''peer_acked_my_relay_names'' =
       (if acked_relays c \<noteq> [] then Some (JStr (py_join '','' (acked_relays c))) else None)"
    "map_of d ''peer_acked_my_profile_version'' =
       (if acked_version c \<noteq> 0 then Some (JInt (acked_version c)) else None)"
    "map_of d ''hybrid_pq'' = (if hybrid_pq c then Some (JInt 1) else None)"
    "map_of d ''session_started_at'' =
       (if session_started_at c \<noteq> 0 then Some (JInt (session_started_at c)) else None)"
    "map_of d ''privacy_mode'' =
       (if privacy_mode c \<noteq> ''fast'' then Some (JStr (privacy_mode c)) else None)"
    unfolding d [unfolded contact_to_dict_def json.inject, symmetric]
    by simp_all
  have r: "opt_field d ''ratchet'' (\<lambda>t. and_then (json_loads t) ratchet_from_dict) = Inr (c_ratchet c)"
    using c by (cases "c_ratchet c") (simp_all add: opt_field_def opt contact_ok_def ratchet_text_roundtrip)
  have p: "opt_field d ''delivery_profile'' (profile_from_b64 P) = Inr (c_profile c)"
    using c P by (cases "c_profile c") (simp_all add: opt_field_def opt contact_ok_def profile_from_to_b64)
  have names: "opt_field d ''peer_acked_my_relay_names'' (\<lambda>raw. Inr (split_names raw)) =
      Inr (if acked_relays c = [] then None else Some (acked_relays c))"
    using c by (simp add: opt_field_def opt contact_ok_def split_names_join)
  have ids: "opt_field d ''contact_id'' b64decode = Inr (contact_id c)"
    "opt_field d ''transcript_hash'' b64decode = Inr (transcript_hash c)"
    by (cases "contact_id c"; cases "transcript_hash c"; simp add: opt_field_def opt)+
  show ?thesis
    by (simp add: d contact_from_dict_def r p names ids jget_def jget_default_def look opt)
qed

lemma contact_dict_json_ok: "json_ok (contact_to_dict P c)"
  by (simp add: contact_to_dict_def json_ok_items del: json_ok.simps(2) set_append split: option.splits)

end
