(* ===== verification/Grants.thy ===== *)
theory Grants
  imports Identity
begin

text \<open>
  What a relay asks of a client: the relay ticket (\<open>relay_ticket.py\<close>), and the capability
  grant with its per-request proof of possession (\<open>capability_grant.py\<close>).
\<close>

section \<open>Relay tickets\<close>

record relay_ticket =
  rt_issuer :: bytes
  rt_relay_name :: str
  rt_permissions :: "str list"
  rt_contact_id :: bytes
  rt_expires_at :: int
  rt_signature :: bytes

definition ticket_fields :: "relay_ticket \<Rightarrow> (str \<times> cval) list" where
  "ticket_fields t =
     [(''issuer_signing_public'', CBytes (rt_issuer t)), (''relay_name'', CStr (rt_relay_name t)),
      (''permissions'', CList (map CStr (rt_permissions t))),
      (''contact_id'', CBytes (rt_contact_id t)), (''expires_at'', CInt (rt_expires_at t))]"

definition ticket_unsigned_payload :: "prims \<Rightarrow> relay_ticket \<Rightarrow> bytes" where
  "ticket_unsigned_payload P t = p_cbor_dumps P (CMap (ticket_fields t))"

definition ticket_to_bytes :: "prims \<Rightarrow> relay_ticket \<Rightarrow> bytes" where
  "ticket_to_bytes P t =
     p_cbor_dumps P (CMap (ticket_fields t @ [(''signature'', CBytes (rt_signature t))]))"

definition ticket_from_bytes :: "prims \<Rightarrow> bytes \<Rightarrow> relay_ticket res" where
  "ticket_from_bytes P data =
     and_then (p_cbor_loads P data) (\<lambda>v.
     and_then (c_map ''invalid relay ticket'' v) (\<lambda>payload.
     and_then (and_then (cget payload ''issuer_signing_public'') c_bytes) (\<lambda>issuer.
     and_then (and_then (cget payload ''relay_name'') c_str) (\<lambda>name.
     and_then (and_then (and_then (cget payload ''permissions'') c_list) (map_res c_str)) (\<lambda>perms.
     and_then (and_then (cget payload ''contact_id'') c_bytes) (\<lambda>cid.
     and_then (and_then (cget payload ''expires_at'') c_int) (\<lambda>e.
     and_then (and_then (cget payload ''signature'') c_bytes) (\<lambda>sig.
     Inr \<lparr>rt_issuer = issuer, rt_relay_name = name, rt_permissions = perms, rt_contact_id = cid,
          rt_expires_at = e, rt_signature = sig\<rparr>))))))))"

definition ticket_to_b64 :: "prims \<Rightarrow> relay_ticket \<Rightarrow> str" where
  "ticket_to_b64 P t = b64encode (ticket_to_bytes P t)"

definition ticket_from_b64 :: "prims \<Rightarrow> str \<Rightarrow> relay_ticket res" where
  "ticket_from_b64 P value = and_then (b64decode value) (ticket_from_bytes P)"

definition issue_relay_ticket ::
    "prims \<Rightarrow> identity \<Rightarrow> str \<Rightarrow> str list \<Rightarrow> bytes \<Rightarrow> int \<Rightarrow> int \<Rightarrow> relay_ticket" where
  "issue_relay_ticket P i relay_name permissions cid ttl_ms now =
     (let t = \<lparr>rt_issuer = signing_public_bytes P i, rt_relay_name = relay_name,
               rt_permissions = permissions, rt_contact_id = cid, rt_expires_at = now + ttl_ms,
               rt_signature = []\<rparr>
      in t\<lparr>rt_signature := p_ed_sign P (signing_private i) (ticket_unsigned_payload P t)\<rparr>)"

definition verify_relay_ticket :: "prims \<Rightarrow> relay_ticket \<Rightarrow> str \<Rightarrow> str \<Rightarrow> int \<Rightarrow> unit res" where
  "verify_relay_ticket P t relay_name permission now =
     (if rt_expires_at t \<le> now then Inl (ValueError ''relay ticket expired'')
      else if rt_relay_name t \<noteq> relay_name then Inl (ValueError ''relay ticket name mismatch'')
      else if permission \<notin> set (rt_permissions t)
      then Inl (ValueError ''relay ticket missing permission'')
      else ed_verify P (rt_issuer t) (rt_signature t) (ticket_unsigned_payload P t))"

lemma ticket_from_to_bytes [codec_simps]:
  "cbor_correct P \<Longrightarrow> ticket_from_bytes P (ticket_to_bytes P t) = Inr t"
proof -
  have "map_res c_str (map CStr xs) = Inr (map id xs)" for xs
    by (rule map_res_map) simp
  then show "cbor_correct P \<Longrightarrow> ticket_from_bytes P (ticket_to_bytes P t) = Inr t"
    by (simp add: ticket_from_bytes_def ticket_to_bytes_def ticket_fields_def cget_def)
qed

lemma ticket_from_to_b64 [codec_simps]:
  "cbor_correct P \<Longrightarrow> ticket_from_b64 P (ticket_to_b64 P t) = Inr t"
  by (simp add: ticket_from_b64_def ticket_to_b64_def ticket_from_to_bytes)

lemma ticket_payload_signature [simp]:
  "ticket_unsigned_payload P (t\<lparr>rt_signature := s\<rparr>) = ticket_unsigned_payload P t"
  by (simp add: ticket_unsigned_payload_def ticket_fields_def)

lemma verify_relay_ticket_Inr:
  "verify_relay_ticket P t relay_name permission now = Inr u \<longleftrightarrow>
     now < rt_expires_at t \<and> rt_relay_name t = relay_name \<and> permission \<in> set (rt_permissions t) \<and>
     length (rt_issuer t) = 32 \<and> p_ed_verify P (rt_issuer t) (rt_signature t) (ticket_unsigned_payload P t)"
  by (auto simp: verify_relay_ticket_def)

text \<open>
  A ticket verifies whoever issued it: any identity can issue itself a ticket for any relay
  name and any permission.
\<close>

lemma issued_ticket_verifies:
  assumes "ed25519_correct P" "length (signing_private i) = 32" "0 < ttl_ms"
    and "permission \<in> set permissions"
  shows "verify_relay_ticket P (issue_relay_ticket P i relay_name permissions cid ttl_ms now)
     relay_name permission now = Inr ()"
proof -
  obtain t where t: "issue_relay_ticket P i relay_name permissions cid ttl_ms now
      = t\<lparr>rt_signature := p_ed_sign P (signing_private i) (ticket_unsigned_payload P t)\<rparr>"
    "rt_issuer t = p_ed_pub P (signing_private i)" "rt_relay_name t = relay_name"
    "rt_permissions t = permissions" "rt_expires_at t = now + ttl_ms"
    by (simp add: issue_relay_ticket_def Let_def signing_public_bytes_def
        del: relay_ticket.update_convs)
  then show ?thesis
    unfolding t(1) using assms by (simp add: verify_relay_ticket_Inr ed25519_correct_def)
qed

section \<open>Capability grants\<close>

definition GRANT_PROTOCOL :: str where "GRANT_PROTOCOL = ''yakr-relay-capability-grant-v1''"
definition CAPABILITY_HKDF_INFO :: bytes where "CAPABILITY_HKDF_INFO = utf8 ''yakr-relay-capability-v1''"
definition DEFAULT_CAPABILITY_TTL_MS :: int where "DEFAULT_CAPABILITY_TTL_MS = 24 * 60 * 60 * 1000"
definition TIMESTAMP_SKEW_MS :: int where "TIMESTAMP_SKEW_MS = 5 * 60 * 1000"

definition normalize_permission :: "str \<Rightarrow> str" where
  "normalize_permission permission =
     (if permission = ''store'' then ''post'' else if permission = ''forward'' then ''forward''
      else permission)"

record capability_grant =
  cg_id :: bytes
  cg_generation :: int
  cg_relay_name :: str
  cg_tls_spki :: bytes
  cg_permissions :: "str list"
  cg_expires_at :: int
  cg_auth_public :: bytes
  cg_signature :: bytes

definition grant_fields :: "capability_grant \<Rightarrow> (str \<times> cval) list" where
  "grant_fields g =
     [(''protocol'', CStr GRANT_PROTOCOL), (''capability_id'', CBytes (cg_id g)),
      (''capability_generation'', CInt (cg_generation g)), (''relay_name'', CStr (cg_relay_name g)),
      (''relay_tls_spki_sha256'', CBytes (cg_tls_spki g)),
      (''permissions'', CList (map CStr (cg_permissions g))),
      (''expires_at'', CInt (cg_expires_at g)), (''auth_public'', CBytes (cg_auth_public g))]"

definition grant_unsigned_payload :: "prims \<Rightarrow> capability_grant \<Rightarrow> bytes" where
  "grant_unsigned_payload P g = p_cbor_dumps P (CMap (grant_fields g))"

definition grant_to_bytes :: "prims \<Rightarrow> capability_grant \<Rightarrow> bytes" where
  "grant_to_bytes P g =
     p_cbor_dumps P (CMap (grant_fields g @ [(''relay_signature'', CBytes (cg_signature g))]))"

definition grant_from_bytes :: "prims \<Rightarrow> bytes \<Rightarrow> capability_grant res" where
  "grant_from_bytes P data =
     and_then (p_cbor_loads P data) (\<lambda>v.
     and_then (c_map ''invalid capability grant'' v) (\<lambda>payload.
     and_then (c_str (cget_default payload ''protocol'' CNull)) (\<lambda>protocol.
     if protocol \<noteq> GRANT_PROTOCOL then Inl (ValueError ''unsupported capability grant protocol'') else
     and_then (and_then (cget payload ''capability_id'') c_bytes) (\<lambda>cid.
     and_then (and_then (cget payload ''capability_generation'') c_int) (\<lambda>gen.
     and_then (and_then (cget payload ''relay_name'') c_str) (\<lambda>name.
     and_then (and_then (cget payload ''relay_tls_spki_sha256'') c_bytes) (\<lambda>tls.
     and_then (and_then (and_then (cget payload ''permissions'') c_list) (map_res c_str)) (\<lambda>perms.
     and_then (and_then (cget payload ''expires_at'') c_int) (\<lambda>e.
     and_then (and_then (cget payload ''auth_public'') c_bytes) (\<lambda>auth.
     and_then (and_then (cget payload ''relay_signature'') c_bytes) (\<lambda>sig.
     Inr \<lparr>cg_id = cid, cg_generation = gen, cg_relay_name = name, cg_tls_spki = tls,
          cg_permissions = perms, cg_expires_at = e, cg_auth_public = auth,
          cg_signature = sig\<rparr>)))))))))))"

definition grant_to_b64 :: "prims \<Rightarrow> capability_grant \<Rightarrow> str" where
  "grant_to_b64 P g = b64encode (grant_to_bytes P g)"

definition grant_from_b64 :: "prims \<Rightarrow> str \<Rightarrow> capability_grant res" where
  "grant_from_b64 P value = and_then (b64decode value) (grant_from_bytes P)"

definition derive_capability_material ::
    "prims \<Rightarrow> bytes \<Rightarrow> str \<Rightarrow> bytes \<Rightarrow> int \<Rightarrow> bytes \<Rightarrow> (bytes \<times> bytes) res" where
  "derive_capability_material P secret relay_name tls generation salt =
     (if length salt \<noteq> 16 then Inl (ValueError ''issuance_salt must be 16 bytes'') else
      and_then (int_to_bytes generation 8) (\<lambda>gb.
      let seed = hkdf_derive P secret CAPABILITY_HKDF_INFO 32 (utf8 relay_name @ tls @ gb @ salt)
      in Inr (hkdf_derive P seed (utf8 ''id'') 16 [], hkdf_derive P seed (utf8 ''auth'') 32 [])))"

definition issue_capability_grant ::
    "prims \<Rightarrow> bytes \<Rightarrow> bytes \<Rightarrow> int \<Rightarrow> str \<Rightarrow> bytes \<Rightarrow> str list \<Rightarrow> bytes \<Rightarrow> int \<Rightarrow> int \<Rightarrow>
     capability_grant res" where
  "issue_capability_grant P signing cid generation relay_name tls permissions auth_public ttl_ms now =
     (if length cid \<noteq> 16 then Inl (ValueError ''capability_id must be 16 bytes'')
      else if length tls \<noteq> 32 then Inl (ValueError ''relay_tls_spki_sha256 must be 32 bytes'')
      else let g = \<lparr>cg_id = cid, cg_generation = generation, cg_relay_name = relay_name,
                    cg_tls_spki = tls, cg_permissions = permissions, cg_expires_at = now + ttl_ms,
                    cg_auth_public = auth_public, cg_signature = []\<rparr>
           in Inr (g\<lparr>cg_signature := p_ed_sign P signing (grant_unsigned_payload P g)\<rparr>))"

definition verify_capability_grant ::
    "prims \<Rightarrow> capability_grant \<Rightarrow> bytes \<Rightarrow> str \<Rightarrow> bytes \<Rightarrow> int \<Rightarrow> unit res" where
  "verify_capability_grant P g relay_signing_public relay_name tls now =
     (if cg_expires_at g \<le> now then Inl (ValueError ''capability grant expired'')
      else if cg_relay_name g \<noteq> relay_name
      then Inl (ValueError ''capability grant relay name mismatch'')
      else if cg_tls_spki g \<noteq> tls then Inl (ValueError ''capability grant TLS pin mismatch'')
      else ed_verify P relay_signing_public (cg_signature g) (grant_unsigned_payload P g))"

text \<open>\<open>str.upper\<close> on ASCII letters: the methods of HTTP.\<close>

definition upper_ascii :: "str \<Rightarrow> str" where
  "upper_ascii s = map (\<lambda>c. let n = of_char c :: nat in
     if 97 \<le> n \<and> n \<le> 122 then char_of (n - 32) else c) s"

definition NL :: byte where "NL = 10"

definition capability_request_signing_input ::
    "prims \<Rightarrow> str \<Rightarrow> str \<Rightarrow> bytes \<Rightarrow> int \<Rightarrow> bytes \<Rightarrow> bytes" where
  "capability_request_signing_input P http_method path body timestamp_ms nonce =
     py_join [NL] [utf8 (upper_ascii http_method), utf8 path, p_sha256 P body,
                   utf8 (str_of_int timestamp_ms), nonce]"

definition sign_capability_request ::
    "prims \<Rightarrow> bytes \<Rightarrow> str \<Rightarrow> str \<Rightarrow> bytes \<Rightarrow> int \<Rightarrow> bytes \<Rightarrow> (int \<times> bytes \<times> bytes) res" where
  "sign_capability_request P auth_private http_method path body timestamp_ms nonce =
     (if length nonce \<noteq> 16 then Inl (ValueError ''nonce must be 16 bytes'')
      else Inr (timestamp_ms, nonce, p_ed_sign P auth_private
             (capability_request_signing_input P http_method path body timestamp_ms nonce)))"

definition verify_capability_request ::
    "prims \<Rightarrow> capability_grant \<Rightarrow> bytes \<Rightarrow> bytes \<Rightarrow> str \<Rightarrow> str \<Rightarrow> bytes \<Rightarrow> int \<Rightarrow> bytes \<Rightarrow> int \<Rightarrow> unit res" where
  "verify_capability_request P g auth_public signature http_method path body timestamp_ms nonce now =
     (if auth_public \<noteq> cg_auth_public g
      then Inl (ValueError ''capability auth public key mismatch'')
      else if \<bar>timestamp_ms - now\<bar> > TIMESTAMP_SKEW_MS
      then Inl (ValueError ''capability request timestamp out of range'')
      else if length nonce \<noteq> 16 then Inl (ValueError ''nonce must be 16 bytes'')
      else ed_verify P auth_public signature
             (capability_request_signing_input P http_method path body timestamp_ms nonce))"

definition grant_allows_permission :: "capability_grant \<Rightarrow> str \<Rightarrow> bool" where
  "grant_allows_permission g permission \<longleftrightarrow>
     normalize_permission permission \<in> set (cg_permissions g) \<or> permission \<in> set (cg_permissions g)"

definition capability_request_headers ::
    "prims \<Rightarrow> capability_grant \<Rightarrow> bytes \<Rightarrow> str \<Rightarrow> str \<Rightarrow> bytes \<Rightarrow> int \<Rightarrow> bytes \<Rightarrow> (str \<times> str) list res" where
  "capability_request_headers P g auth_private http_method path body now nonce =
     and_then (sign_capability_request P auth_private http_method path body now nonce)
       (\<lambda>(ts, n, sig).
     Inr [(''Yakr-Capability-Grant'', grant_to_b64 P g),
          (''Yakr-Capability-Timestamp'', str_of_int ts),
          (''Yakr-Capability-Nonce'', b64encode n),
          (''Yakr-Capability-Signature'', b64encode sig)])"

lemma grant_from_to_bytes [codec_simps]:
  "cbor_correct P \<Longrightarrow> grant_from_bytes P (grant_to_bytes P g) = Inr g"
proof -
  have "map_res c_str (map CStr xs) = Inr (map id xs)" for xs
    by (rule map_res_map) simp
  then show "cbor_correct P \<Longrightarrow> grant_from_bytes P (grant_to_bytes P g) = Inr g"
    by (simp add: grant_from_bytes_def grant_to_bytes_def grant_fields_def cget_def cget_default_def)
qed

lemma grant_from_to_b64 [codec_simps]:
  "cbor_correct P \<Longrightarrow> grant_from_b64 P (grant_to_b64 P g) = Inr g"
  by (simp add: grant_from_b64_def grant_to_b64_def grant_from_to_bytes)

lemma grant_payload_signature [simp]:
  "grant_unsigned_payload P (g\<lparr>cg_signature := s\<rparr>) = grant_unsigned_payload P g"
  by (simp add: grant_unsigned_payload_def grant_fields_def)

lemma verify_capability_grant_Inr:
  "verify_capability_grant P g pk relay_name tls now = Inr u \<longleftrightarrow>
     now < cg_expires_at g \<and> cg_relay_name g = relay_name \<and> cg_tls_spki g = tls \<and>
     length pk = 32 \<and> p_ed_verify P pk (cg_signature g) (grant_unsigned_payload P g)"
  by (auto simp: verify_capability_grant_def)

lemma issued_grant_verifies:
  assumes "ed25519_correct P" "length signing = 32" "0 < ttl_ms"
    and "issue_capability_grant P signing cid generation relay_name tls permissions auth ttl_ms now = Inr g"
  shows "verify_capability_grant P g (p_ed_pub P signing) relay_name tls now = Inr ()"
    "cg_auth_public g = auth" "cg_permissions g = permissions" "cg_generation g = generation"
    "cg_id g = cid" "cg_expires_at g = now + ttl_ms"
proof -
  obtain h where h: "g = h\<lparr>cg_signature := p_ed_sign P signing (grant_unsigned_payload P h)\<rparr>"
    "cg_relay_name h = relay_name" "cg_tls_spki h = tls" "cg_expires_at h = now + ttl_ms"
    "cg_auth_public h = auth" "cg_permissions h = permissions" "cg_generation h = generation" "cg_id h = cid"
    using assms(4) by (auto simp: issue_capability_grant_def Let_def split: if_splits
        simp del: capability_grant.update_convs)
  then show "verify_capability_grant P g (p_ed_pub P signing) relay_name tls now = Inr ()"
    "cg_auth_public g = auth" "cg_permissions g = permissions" "cg_generation g = generation"
    "cg_id g = cid" "cg_expires_at g = now + ttl_ms"
    unfolding h(1) using assms by (simp_all add: verify_capability_grant_Inr ed25519_correct_def)
qed

lemma verify_capability_request_Inr:
  "verify_capability_request P g auth sig meth path body ts nonce now = Inr u \<longleftrightarrow>
     auth = cg_auth_public g \<and> \<bar>ts - now\<bar> \<le> TIMESTAMP_SKEW_MS \<and> length nonce = 16 \<and> length auth = 32 \<and>
     p_ed_verify P auth sig (capability_request_signing_input P meth path body ts nonce)"
  by (auto simp: verify_capability_request_def)

section \<open>What a request signature binds\<close>

lemma split_at_separator:
  assumes "x @ s # y = x' @ s # y'" "s \<notin> set x" "s \<notin> set x'"
  shows "x = x' \<and> y = y'"
  using assms
proof (induction x arbitrary: x')
  case Nil
  then show ?case by (cases x') auto
next
  case (Cons a x)
  then show ?case by (cases x') auto
qed

lemma newline_code: "c = CHR 0x0A \<longleftrightarrow> (of_char c :: nat) = 10"
proof
  assume "(of_char c :: nat) = 10"
  then have "(of_char c :: nat) = of_char (CHR 0x0A)" by simp
  then show "c = CHR 0x0A" by (rule char_eqI)
qed simp

lemma utf8_char_no_newline: "c \<noteq> CHR 0x0A \<Longrightarrow> NL \<notin> set (utf8_char c)"
proof
  assume c: "c \<noteq> CHR 0x0A" and m: "NL \<in> set (utf8_char c)"
  let ?n = "of_char c :: nat"
  have n: "?n < 256" by (rule of_char_less)
  have ne: "?n \<noteq> 10" using c by (simp add: newline_code)
  have u: "unat (word_of_nat k :: byte) = k" if "k < 256" for k using that by (rule unat_byte)
  have nl: "unat NL = 10" by (simp add: NL_def)
  have "?n div 64 < 4" using n by arith
  then have "unat (word_of_nat (192 + ?n div 64) :: byte) = 192 + ?n div 64"
    "unat (word_of_nat (128 + ?n mod 64) :: byte) = 128 + ?n mod 64"
    by (auto intro!: u simp del: of_nat_add)
  moreover from m have "NL = word_of_nat ?n \<or> NL = word_of_nat (192 + ?n div 64) \<or>
      NL = word_of_nat (128 + ?n mod 64)"
    by (auto simp: Let_def split: if_splits)
  ultimately show False using ne nl u [OF n] by (elim disjE) auto
qed

lemma utf8_no_newline: "CHR 0x0A \<notin> set s \<Longrightarrow> NL \<notin> set (utf8 s)"
proof (induction s)
  case (Cons c s)
  then have "c \<noteq> CHR 0x0A" by auto
  from utf8_char_no_newline [OF this] Cons show ?case by (simp del: utf8_char.simps)
qed simp

lemma upper_no_newline: "CHR 0x0A \<notin> set s \<Longrightarrow> CHR 0x0A \<notin> set (upper_ascii s)"
proof
  assume s: "CHR 0x0A \<notin> set s" and m: "CHR 0x0A \<in> set (upper_ascii s)"
  then obtain c where c: "c \<in> set s" "CHR 0x0A = (if 97 \<le> (of_char c :: nat) \<and> (of_char c :: nat) \<le> 122
      then char_of (of_char c - 32 :: nat) else c)"
    unfolding upper_ascii_def Let_def by auto
  with s have r: "97 \<le> (of_char c :: nat)" "(of_char c :: nat) \<le> 122" "CHR 0x0A = char_of (of_char c - 32 :: nat)"
    by (auto split: if_splits)
  from r(3) have "(of_char (CHR 0x0A) :: nat) = (of_char c - 32) mod 256"
    by (metis of_char_of)
  with r(1,2) show False by simp
qed

lemma str_of_int_no_newline: "CHR 0x0A \<notin> set (str_of_int i)"
proof -
  have "\<not> is_digit (CHR 0x0A)" by (simp add: is_digit_def)
  then show ?thesis using str_of_nat_digits by (auto simp: str_of_int_def)
qed

lemma str_of_int_inject [simp]: "str_of_int i = str_of_int j \<longleftrightarrow> i = j"
proof
  assume eq: "str_of_int i = str_of_int j"
  have d: "\<not> is_digit (CHR ''-'')" by (simp add: is_digit_def)
  have "CHR ''-'' # xs \<noteq> str_of_nat n" for xs n
    using d str_of_nat_digits [of "CHR ''-''" n] by (metis list.set_intros(1))
  with eq show "i = j"
    by (auto simp: str_of_int_def split: if_splits) (metis nat_of_str_of_nat eq_nat_nat_iff neg_0_le_iff_le
        le_cases linorder_not_less neg_equal_iff_equal)+
qed simp

definition one_line :: "str \<Rightarrow> bool" where
  "one_line s \<longleftrightarrow> CHR 0x0A \<notin> set s"

lemma signing_input_injective:
  assumes h: "hash_lengths P"
    and lines: "one_line m" "one_line m'" "one_line path" "one_line path'"
    and eq: "capability_request_signing_input P m path body ts nonce
           = capability_request_signing_input P m' path' body' ts' nonce'"
  shows "upper_ascii m = upper_ascii m' \<and> path = path' \<and> p_sha256 P body = p_sha256 P body' \<and>
    ts = ts' \<and> nonce = nonce'"
proof -
  note nl = utf8_no_newline upper_no_newline str_of_int_no_newline
  have l: "length (p_sha256 P body) = length (p_sha256 P body')"
    using h by (simp add: hash_lengths_def)
  from eq have "utf8 (upper_ascii m) @ NL # (utf8 path @ NL # (p_sha256 P body @ NL # (utf8 (str_of_int ts) @ NL # nonce)))
      = utf8 (upper_ascii m') @ NL # (utf8 path' @ NL # (p_sha256 P body' @ NL # (utf8 (str_of_int ts') @ NL # nonce')))"
    by (simp add: capability_request_signing_input_def)
  from split_at_separator [OF this] have 1: "upper_ascii m = upper_ascii m'"
    "utf8 path @ NL # (p_sha256 P body @ NL # (utf8 (str_of_int ts) @ NL # nonce))
     = utf8 path' @ NL # (p_sha256 P body' @ NL # (utf8 (str_of_int ts') @ NL # nonce'))"
    using lines by (simp_all add: one_line_def nl)
  from split_at_separator [OF 1(2)] have 2: "path = path'"
    "p_sha256 P body @ NL # (utf8 (str_of_int ts) @ NL # nonce)
     = p_sha256 P body' @ NL # (utf8 (str_of_int ts') @ NL # nonce')"
    using lines by (simp_all add: one_line_def nl)
  from 2(2) l have 3: "p_sha256 P body = p_sha256 P body'"
    "utf8 (str_of_int ts) @ NL # nonce = utf8 (str_of_int ts') @ NL # nonce'"
    by simp_all
  from split_at_separator [OF 3(2)] have "ts = ts'" "nonce = nonce'"
    by (simp_all add: nl)
  with 1 2 3 show ?thesis by simp
qed

end
