(* ===== verification/Invite.thy ===== *)
theory Invite
  imports Identity
begin

text \<open>
  The invite bundle (\<open>invite.py\<close>): its encoding, creation with and without the hybrid
  post-quantum material, verification and the safety code. The invite secret is drawn by
  the caller of the model.
\<close>

section \<open>The bundle\<close>

definition PROTOCOL_V4 :: str where "PROTOCOL_V4 = ''yakr-v0.4''"
definition PROTOCOL_V6 :: str where "PROTOCOL_V6 = ''yakr-v0.6''"
definition DEFAULT_INVITE_TTL_MS :: int where "DEFAULT_INVITE_TTL_MS = 24 * 60 * 60 * 1000"

record invite_bundle =
  iv_protocol :: str
  iv_inviter_name :: str
  iv_signing_public :: bytes
  iv_agreement_public :: bytes
  iv_secret :: bytes
  iv_rendezvous_hint :: str
  iv_expires_at :: int
  iv_capabilities :: "str list"
  iv_signature :: bytes
  iv_kem_public :: bytes
  iv_pq_signing_public :: bytes
  iv_pq_signature :: bytes
  iv_rendezvous_tls :: bytes

definition invite_unsigned_dict :: "invite_bundle \<Rightarrow> (str \<times> cval) list" where
  "invite_unsigned_dict b =
     [(''protocol'', CStr (iv_protocol b)), (''inviter_name'', CStr (iv_inviter_name b)),
      (''signing_public'', CBytes (iv_signing_public b)),
      (''agreement_public'', CBytes (iv_agreement_public b)),
      (''invite_secret'', CBytes (iv_secret b)),
      (''rendezvous_hint'', CStr (iv_rendezvous_hint b)), (''expires_at'', CInt (iv_expires_at b)),
      (''capabilities'', CList (map CStr (iv_capabilities b)))] @
     when_item (iv_kem_public b \<noteq> []) ''kem_public'' (CBytes (iv_kem_public b)) @
     when_item (iv_pq_signing_public b \<noteq> []) ''pq_signing_public'' (CBytes (iv_pq_signing_public b)) @
     when_item (iv_rendezvous_tls b \<noteq> []) ''rendezvous_tls_spki_sha256'' (CBytes (iv_rendezvous_tls b))"

definition invite_unsigned_payload :: "prims \<Rightarrow> invite_bundle \<Rightarrow> bytes" where
  "invite_unsigned_payload P b = p_cbor_dumps P (CMap (invite_unsigned_dict b))"

definition invite_to_bytes :: "prims \<Rightarrow> invite_bundle \<Rightarrow> bytes" where
  "invite_to_bytes P b = p_cbor_dumps P (CMap (invite_unsigned_dict b @
     (''signature'', CBytes (iv_signature b)) #
     when_item (iv_pq_signature b \<noteq> []) ''pq_signature'' (CBytes (iv_pq_signature b))))"

definition opt_cbytes :: "(str \<times> cval) list \<Rightarrow> str \<Rightarrow> bytes res" where
  "opt_cbytes payload k = c_bytes (cget_default payload k (CBytes []))"

definition invite_from_bytes :: "prims \<Rightarrow> bytes \<Rightarrow> invite_bundle res" where
  "invite_from_bytes P data =
     and_then (p_cbor_loads P data) (\<lambda>v.
     and_then (c_map ''invalid invite bundle'' v) (\<lambda>payload.
     and_then (and_then (cget payload ''protocol'') c_str) (\<lambda>protocol.
     and_then (and_then (cget payload ''inviter_name'') c_str) (\<lambda>name.
     and_then (and_then (cget payload ''signing_public'') c_bytes) (\<lambda>sp.
     and_then (and_then (cget payload ''agreement_public'') c_bytes) (\<lambda>ap.
     and_then (and_then (cget payload ''invite_secret'') c_bytes) (\<lambda>secret.
     and_then (and_then (cget payload ''rendezvous_hint'') c_str) (\<lambda>hint.
     and_then (and_then (cget payload ''expires_at'') c_int) (\<lambda>e.
     and_then (and_then (and_then (cget payload ''capabilities'') c_list) (map_res c_str)) (\<lambda>caps.
     and_then (and_then (cget payload ''signature'') c_bytes) (\<lambda>sig.
     and_then (opt_cbytes payload ''kem_public'') (\<lambda>kem.
     and_then (opt_cbytes payload ''pq_signing_public'') (\<lambda>pqp.
     and_then (opt_cbytes payload ''pq_signature'') (\<lambda>pqs.
     and_then (opt_cbytes payload ''rendezvous_tls_spki_sha256'') (\<lambda>tls.
     Inr \<lparr>iv_protocol = protocol, iv_inviter_name = name, iv_signing_public = sp,
          iv_agreement_public = ap, iv_secret = secret, iv_rendezvous_hint = hint,
          iv_expires_at = e, iv_capabilities = caps, iv_signature = sig, iv_kem_public = kem,
          iv_pq_signing_public = pqp, iv_pq_signature = pqs, iv_rendezvous_tls = tls\<rparr>)))))))))))))))"

definition invite_supports_hybrid :: "invite_bundle \<Rightarrow> bool" where
  "invite_supports_hybrid b \<longleftrightarrow> HYBRID_PQ_CAPABILITY \<in> set (iv_capabilities b) \<and> iv_kem_public b \<noteq> []"

section \<open>Creating and verifying\<close>

text \<open>
  Both branches of \<open>create_invite\<close> sign a dictionary they write out themselves: \<open>signed\<close> is
  the bundle whose dictionary that is. Without a post-quantum signing key the hybrid branch
  falls through to the classical dictionary, which has no \<open>kem_public\<close>, while the bundle
  returned has one.
\<close>

definition invite_base ::
    "prims \<Rightarrow> identity \<Rightarrow> bytes \<Rightarrow> str \<Rightarrow> bytes option \<Rightarrow> int \<Rightarrow> bool \<Rightarrow> int \<Rightarrow> invite_bundle" where
  "invite_base P i secret hint tls ttl_ms hybrid now =
     \<lparr>iv_protocol = (if hybrid then PROTOCOL_V6 else PROTOCOL_V4),
      iv_inviter_name = id_name i, iv_signing_public = signing_public_bytes P i,
      iv_agreement_public = agreement_public_bytes P i, iv_secret = secret,
      iv_rendezvous_hint = hint, iv_expires_at = now + ttl_ms,
      iv_capabilities = [''direct_p2p'', ''friend_relay'', ''store_forward''] @
        (if hybrid then [HYBRID_PQ_CAPABILITY] else []),
      iv_signature = [], iv_kem_public = [], iv_pq_signing_public = [],
      iv_pq_signature = [], iv_rendezvous_tls = (case tls of Some t \<Rightarrow> t | None \<Rightarrow> [])\<rparr>"

definition sign_invite :: "prims \<Rightarrow> identity \<Rightarrow> invite_bundle \<Rightarrow> invite_bundle" where
  "sign_invite P i b =
     b\<lparr>iv_signature := p_ed_sign P (signing_private i) (invite_unsigned_payload P b)\<rparr>"

definition create_invite ::
    "prims \<Rightarrow> identity \<Rightarrow> bytes \<Rightarrow> str \<Rightarrow> bytes option \<Rightarrow> int \<Rightarrow> bool \<Rightarrow> int \<Rightarrow> invite_bundle res" where
  "create_invite P i secret hint tls ttl_ms hybrid now =
     (let classical = invite_base P i secret hint tls ttl_ms hybrid now
      in if hybrid \<and> kem_public i = []
         then Inl (ValueError ''identity missing ML-KEM keypair for hybrid invite'')
         else if hybrid \<and> pq_signing_private i \<noteq> [] then
           let signed = classical\<lparr>iv_kem_public := kem_public i,
                                  iv_pq_signing_public := pq_signing_public i\<rparr>
           in Inr ((sign_invite P i signed)\<lparr>iv_pq_signature :=
                p_pq_sign P (pq_signing_private i) (invite_unsigned_payload P signed)\<rparr>)
         else Inr ((sign_invite P i classical)
                \<lparr>iv_kem_public := (if hybrid then kem_public i else [])\<rparr>))"

definition verify_invite :: "prims \<Rightarrow> invite_bundle \<Rightarrow> int \<Rightarrow> unit res" where
  "verify_invite P b now =
     (if iv_protocol b \<notin> {PROTOCOL_V4, PROTOCOL_V6}
      then Inl (ValueError ''unsupported invite protocol'')
      else if iv_expires_at b \<le> now then Inl (ValueError ''invite expired'')
      else and_then (ed_verify P (iv_signing_public b) (iv_signature b) (invite_unsigned_payload P b))
        (\<lambda>_. if iv_pq_signature b = [] then Inr ()
             else if iv_pq_signing_public b = []
             then Inl (ValueError ''invite missing PQ signing public key'')
             else require (p_pq_verify P (iv_pq_signing_public b) (invite_unsigned_payload P b)
                             (iv_pq_signature b)) (ValueError ''invalid PQ invite signature'')))"

definition INVITE_PREFIX :: str where "INVITE_PREFIX = ''yakr://invite/''"

definition invite_to_url :: "prims \<Rightarrow> invite_bundle \<Rightarrow> str" where
  "invite_to_url P b = INVITE_PREFIX @ b64encode (invite_to_bytes P b)"

definition invite_from_url :: "prims \<Rightarrow> str \<Rightarrow> invite_bundle res" where
  "invite_from_url P url =
     (if \<not> starts_with INVITE_PREFIX url then Inl (ValueError ''invalid invite url'')
      else and_then (b64decode (drop (length INVITE_PREFIX) url)) (invite_from_bytes P))"

definition safety_code :: "prims \<Rightarrow> invite_bundle \<Rightarrow> str" where
  "safety_code P b =
     (let digest = p_sha256 P (iv_signing_public b @ iv_agreement_public b);
          digits = concat (map (\<lambda>x. str_of_nat (unat x mod 10)) (take 10 digest))
      in take 4 digits @ '' '' @ take 4 (drop 4 digits) @ '' '' @ take 2 (drop 8 digits))"

section \<open>Properties\<close>

lemma invite_from_to_bytes [codec_simps]:
  assumes "cbor_correct P"
  shows "invite_from_bytes P (invite_to_bytes P b) = Inr b"
proof -
  have "map_res c_str (map CStr xs) = Inr (map id xs)" for xs
    by (rule map_res_map) simp
  then show ?thesis
    using assms
    by (simp add: invite_from_bytes_def invite_to_bytes_def invite_unsigned_dict_def cget_def
        cget_default_def opt_cbytes_def)
qed

lemma invite_url_roundtrip [codec_simps]:
  "cbor_correct P \<Longrightarrow> invite_from_url P (invite_to_url P b) = Inr b"
  by (simp add: invite_from_url_def invite_to_url_def invite_from_to_bytes)

lemma invite_payload_signatures [simp]:
  "invite_unsigned_payload P (b\<lparr>iv_signature := s\<rparr>) = invite_unsigned_payload P b"
  "invite_unsigned_payload P (b\<lparr>iv_pq_signature := t\<rparr>) = invite_unsigned_payload P b"
  by (simp_all add: invite_unsigned_payload_def invite_unsigned_dict_def)

definition pq_correct :: "prims \<Rightarrow> bytes \<Rightarrow> bytes \<Rightarrow> bool" where
  "pq_correct P pk sk \<longleftrightarrow> (\<forall>m. p_pq_verify P pk m (p_pq_sign P sk m))"

text \<open>
  An invite verifies until it expires, when it is classical, or hybrid with a post-quantum
  signing key.
\<close>

lemma created_invite_verifies:
  assumes laws: "ed25519_correct P" "length (signing_private i) = 32"
    and pq: "hybrid \<Longrightarrow> pq_signing_private i \<noteq> [] \<and> pq_signing_public i \<noteq> [] \<and>
        pq_correct P (pq_signing_public i) (pq_signing_private i)"
    and b: "create_invite P i secret hint tls ttl_ms hybrid now = Inr b"
    and time: "now' < now + ttl_ms"
  shows "verify_invite P b now' = Inr ()" "iv_secret b = secret" "invite_supports_hybrid b = hybrid"
proof -
  show "iv_secret b = secret" "invite_supports_hybrid b = hybrid"
    using b pq by (auto simp: create_invite_def sign_invite_def invite_base_def Let_def
        invite_supports_hybrid_def HYBRID_PQ_CAPABILITY_def split: if_splits)
  show "verify_invite P b now' = Inr ()"
  proof (cases hybrid)
    case True
    define u where "u = (invite_base P i secret hint tls ttl_ms hybrid now)
      \<lparr>iv_kem_public := kem_public i, iv_pq_signing_public := pq_signing_public i\<rparr>"
    have "b = (sign_invite P i u)\<lparr>iv_pq_signature :=
        p_pq_sign P (pq_signing_private i) (invite_unsigned_payload P u)\<rparr>"
      using b pq True by (simp add: create_invite_def u_def Let_def split: if_splits)
    moreover have "iv_protocol u = PROTOCOL_V6" "iv_expires_at u = now + ttl_ms"
      "iv_signing_public u = p_ed_pub P (signing_private i)" "iv_pq_signing_public u = pq_signing_public i"
      using True by (simp_all add: u_def invite_base_def signing_public_bytes_def)
    ultimately show ?thesis
      using laws pq True time by (simp add: verify_invite_def sign_invite_def pq_correct_def)
  next
    case False
    define u where "u = invite_base P i secret hint tls ttl_ms hybrid now"
    have b': "b = (sign_invite P i u)\<lparr>iv_kem_public := []\<rparr>"
      using b False by (simp add: create_invite_def u_def Let_def split: if_splits)
    have u: "iv_protocol u = PROTOCOL_V4" "iv_expires_at u = now + ttl_ms"
      "iv_signing_public u = p_ed_pub P (signing_private i)" "iv_kem_public u = []" "iv_pq_signature u = []"
      using False by (simp_all add: u_def invite_base_def signing_public_bytes_def)
    then have "invite_unsigned_payload P b = invite_unsigned_payload P u"
      unfolding b' by (simp add: invite_unsigned_payload_def invite_unsigned_dict_def sign_invite_def)
    with u show ?thesis
      unfolding verify_invite_def using laws time by (simp add: b' sign_invite_def)
  qed
qed

text \<open>
  Without a post-quantum signing key the hybrid invite is signed without its \<open>kem_public\<close>
  and verified with it: the two payloads differ.
\<close>

lemma hybrid_invite_without_pq_key:
  assumes "cbor_correct P" "kem_public i \<noteq> []" "pq_signing_private i = []"
    and "create_invite P i secret hint tls ttl_ms True now = Inr b"
  shows "\<exists>signed. iv_signature b = p_ed_sign P (signing_private i) signed \<and>
    signed \<noteq> invite_unsigned_payload P b \<and>
    (verify_invite P b now' = Inr () \<longrightarrow>
       p_ed_verify P (signing_public_bytes P i) (p_ed_sign P (signing_private i) signed)
         (invite_unsigned_payload P b))"
proof -
  define u where "u = invite_base P i secret hint tls ttl_ms True now"
  have b: "b = (sign_invite P i u)\<lparr>iv_kem_public := kem_public i\<rparr>"
    using assms(2-4) by (simp add: create_invite_def u_def Let_def split: if_splits)
  have u: "iv_kem_public u = []" "iv_signing_public u = signing_public_bytes P i"
    by (simp_all add: u_def invite_base_def)
  have "map_of (invite_unsigned_dict u) ''kem_public'' = None"
    using u by (simp add: invite_unsigned_dict_def)
  moreover have "map_of (invite_unsigned_dict b) ''kem_public'' = Some (CBytes (kem_public i))"
    using assms(2) by (simp add: b invite_unsigned_dict_def)
  ultimately have "invite_unsigned_payload P u \<noteq> invite_unsigned_payload P b"
    using assms(1) by (auto simp: invite_unsigned_payload_def cbor_dumps_inject)
  then show ?thesis
    using u by (intro exI [of _ "invite_unsigned_payload P u"])
      (auto simp: b sign_invite_def verify_invite_def split: if_splits)
qed

end
