(* ===== verification/Authorization.thy ===== *)
theory Authorization
  imports Identity
begin

text \<open>
  Making and applying delivery profiles (the operations of \<open>delivery_profile.py\<close> that take an
  identity or change a contact), which relays a profile may advertise
  (\<open>relay_authorization.py\<close>), and which version of our profile a peer has acknowledged
  (\<open>profile_ack.py\<close>).
\<close>

section \<open>Making a profile\<close>

definition create_delivery_profile ::
    "prims \<Rightarrow> bytes \<Rightarrow> identity \<Rightarrow> relay_descriptor list \<Rightarrow> str list \<Rightarrow> int \<Rightarrow> bytes \<Rightarrow> int list \<Rightarrow>
     str \<Rightarrow> int \<Rightarrow> int option \<Rightarrow> int \<Rightarrow> delivery_profile \<times> identity" where
  "create_delivery_profile P fresh i relays hints epoch_secs salt classes policy ttl_ms version now =
     (let (tls, i') = endpoint_tls_spki_sha256 P fresh i;
          unsigned = \<lparr>dp_protocol = PROTOCOL_V5,
            dp_version = (case version of Some v \<Rightarrow> if v = 0 then 1 else v | None \<Rightarrow> 1),
            dp_valid_from = now, dp_valid_until = now + ttl_ms, dp_direct_hints = hints,
            dp_relays = relays, dp_epoch_secs = epoch_secs, dp_direction_salt = salt,
            dp_blob_classes = (if classes = [] then [4096] else classes),
            dp_receipt_policy = policy, dp_signature = [], dp_endpoint_tls = tls\<rparr>
      in (unsigned\<lparr>dp_signature :=
            p_ed_sign P (signing_private i') (profile_unsigned_payload P unsigned)\<rparr>, i'))"

definition relay_descriptor_for_operator ::
    "prims \<Rightarrow> bytes \<Rightarrow> identity \<Rightarrow> str \<Rightarrow> str \<Rightarrow> bytes \<Rightarrow> str option \<Rightarrow> relay_descriptor \<times> identity" where
  "relay_descriptor_for_operator P fresh i role url wrap_secret name =
     (let (tls, i') = endpoint_tls_spki_sha256 P fresh i in
      (\<lparr>rd_name = (case name of Some n \<Rightarrow> if n = [] then id_name i else n | None \<Rightarrow> id_name i),
        rd_role = role, rd_url = rstrip_slash url, rd_wrap_secret = wrap_secret,
        rd_tls_spki = tls, rd_capability_generation = 0, rd_issuance_salt = []\<rparr>, i'))"

section \<open>Applying a peer's profile\<close>

definition apply_delivery_profile_update ::
    "prims \<Rightarrow> delivery_profile \<Rightarrow> bytes \<Rightarrow> int \<Rightarrow> (contact, unit) meth" where
  "apply_delivery_profile_update P profile signing_public now =
     m_bind (m_of (verify_delivery_profile P profile signing_public)) (\<lambda>_.
     m_get (\<lambda>c. m_bind (m_of (accept_delivery_profile_update P (c_profile c) profile now)) (\<lambda>_.
     m_modify (\<lambda>c. c\<lparr>c_profile := Some profile\<rparr>))))"

section \<open>\<open>relay_authorization.py\<close>\<close>

definition with_operator_tls :: "relay_descriptor \<Rightarrow> contact \<Rightarrow> relay_descriptor" where
  "with_operator_tls d c =
     (if rd_tls_spki d \<noteq> [] then d else
      case c_profile c of None \<Rightarrow> d
      | Some p \<Rightarrow>
          if dp_endpoint_tls p = [] then d
          else \<lparr>rd_name = rd_name d, rd_role = rd_role d, rd_url = rd_url d,
                rd_wrap_secret = rd_wrap_secret d, rd_tls_spki = dp_endpoint_tls p,
                rd_capability_generation = 0, rd_issuance_salt = []\<rparr>)"

definition relays_operated_by_contact :: "contact \<Rightarrow> relay_descriptor list" where
  "relays_operated_by_contact c =
     (case c_profile c of None \<Rightarrow> []
      | Some p \<Rightarrow> map (\<lambda>d. with_operator_tls d c) (filter (\<lambda>d. rd_name d = c_name c) (dp_relays p)))"

text \<open>The loop over all descriptors, with the set of URLs seen.\<close>

fun add_new_urls :: "str list \<Rightarrow> relay_descriptor list \<Rightarrow> relay_descriptor list" where
  "add_new_urls seen [] = []"
| "add_new_urls seen (d # ds) =
     (let url = rstrip_slash (rd_url d) in
      if url \<in> set seen then add_new_urls seen ds else d # add_new_urls (url # seen) ds)"

definition authorized_publish_relays ::
    "str \<Rightarrow> contact list \<Rightarrow> relay_descriptor option \<Rightarrow> relay_descriptor list res" where
  "authorized_publish_relays identity_name contacts self_relay =
     (let operated = concat (map relays_operated_by_contact contacts) in
      case self_relay of
        None \<Rightarrow> Inr (add_new_urls [] operated)
      | Some s \<Rightarrow>
          if rd_name s \<noteq> identity_name
          then Inl (ValueError ''self-operated relay name must match identity name'')
          else Inr (s # add_new_urls [rstrip_slash (rd_url s)] operated))"

definition assert_publish_relays_allowed ::
    "relay_descriptor list \<Rightarrow> relay_descriptor list \<Rightarrow> unit res" where
  "assert_publish_relays_allowed relays authorized =
     (let authorized_urls = map (\<lambda>d. rstrip_slash (rd_url d)) authorized in
      case find (\<lambda>d. rstrip_slash (rd_url d) \<notin> set authorized_urls) relays of
        Some d \<Rightarrow> Inl (ValueError (''cannot advertise relay '' @ rd_name d))
      | None \<Rightarrow> Inr ())"

definition self_relay_descriptor ::
    "prims \<Rightarrow> bytes \<Rightarrow> identity \<Rightarrow> str \<Rightarrow> str \<Rightarrow> bytes \<Rightarrow> relay_descriptor option \<times> identity" where
  "self_relay_descriptor P fresh i relay_url relay_name wrap_secret =
     (if relay_name \<noteq> id_name i then (None, i) else
      let (tls, i') = endpoint_tls_spki_sha256 P fresh i in
      (Some \<lparr>rd_name = id_name i, rd_role = ''both'', rd_url = rstrip_slash relay_url,
        rd_wrap_secret = wrap_secret, rd_tls_spki = tls, rd_capability_generation = 0,
        rd_issuance_salt = []\<rparr>, i'))"

section \<open>\<open>profile_ack.py\<close>\<close>

definition apply_peer_profile_ack :: "delivery_profile \<Rightarrow> contact \<Rightarrow> contact" where
  "apply_peer_profile_ack profile c =
     c\<lparr>acked_version := dp_version profile, acked_relays := relay_names_from_profile profile\<rparr>"

definition apply_peer_profile_ack_from_bytes ::
    "prims \<Rightarrow> bytes \<Rightarrow> bytes \<Rightarrow> contact \<Rightarrow> contact res" where
  "apply_peer_profile_ack_from_bytes P profile_bytes signing_public c =
     (if profile_bytes = [] then Inr c else
      and_then (profile_from_bytes P profile_bytes) (\<lambda>profile.
      and_then (verify_delivery_profile P profile signing_public) (\<lambda>_.
      Inr (apply_peer_profile_ack profile c))))"

definition apply_peer_profile_ack_pending :: "int \<Rightarrow> str list \<Rightarrow> contact \<Rightarrow> contact" where
  "apply_peer_profile_ack_pending profile_version relay_names c =
     (if profile_version > acked_version c
      then c\<lparr>acked_version := profile_version, acked_relays := relay_names\<rparr> else c)"

section \<open>Properties\<close>

lemma endpoint_tls_frame:
  "endpoint_tls_spki_sha256 P fresh i = (tls, i') \<Longrightarrow>
   signing_private i' = signing_private i \<and> agreement_private i' = agreement_private i \<and>
   id_name i' = id_name i \<and> tls_ecdsa_private i' \<noteq> None \<and>
   endpoint_tls_spki_sha256 P fresh' i' = (tls, i')"
  by (auto simp: endpoint_tls_spki_sha256_def ensure_identity_tls_key_def split: option.splits)

lemma created_profile_verifies:
  assumes "ed25519_correct P" "length (signing_private i) = 32"
    and "create_delivery_profile P fresh i relays hints epoch_secs salt classes policy ttl_ms version now
      = (p, i')"
  shows "verify_delivery_profile P p (signing_public_bytes P i) = Inr ()"
    and "dp_valid_until p = now + ttl_ms" "dp_relays p = relays"
proof -
  obtain tls j where t: "endpoint_tls_spki_sha256 P fresh i = (tls, j)" by (cases "endpoint_tls_spki_sha256 P fresh i")
  have "signing_private j = signing_private i" using endpoint_tls_frame [OF t] by simp
  moreover have "profile_unsigned_payload P (q\<lparr>dp_signature := sig\<rparr>) = profile_unsigned_payload P q"
    for q :: delivery_profile and sig
    by (simp add: profile_unsigned_payload_def profile_fields_def)
  moreover have "\<exists>u. dp_protocol u = PROTOCOL_V5 \<and>
      p = u\<lparr>dp_signature := p_ed_sign P (signing_private j) (profile_unsigned_payload P u)\<rparr>"
    using assms(3) t unfolding create_delivery_profile_def Let_def
    by (auto intro!: exI simp del: delivery_profile.update_convs)
  ultimately show "verify_delivery_profile P p (signing_public_bytes P i) = Inr ()"
    using assms(1,2)
    by (auto simp: verify_delivery_profile_Inr signing_public_bytes_def ed25519_correct_def)
  show "dp_valid_until p = now + ttl_ms" "dp_relays p = relays"
    using assms(3) t by (auto simp: create_delivery_profile_def Let_def)
qed

text \<open>The stored profile only moves forward.\<close>

definition profile_leq :: "prims \<Rightarrow> delivery_profile option \<Rightarrow> delivery_profile option \<Rightarrow> bool" where
  "profile_leq P a b \<longleftrightarrow> (case a of None \<Rightarrow> True
     | Some x \<Rightarrow> (case b of None \<Rightarrow> False
         | Some y \<Rightarrow> dp_version x < dp_version y \<or>
             dp_version x = dp_version y \<and> profile_to_bytes P x = profile_to_bytes P y))"

lemma profile_leq_refl [simp]: "profile_leq P a a"
  by (simp add: profile_leq_def split: option.splits)

lemma profile_leq_trans: "profile_leq P a b \<Longrightarrow> profile_leq P b c \<Longrightarrow> profile_leq P a c"
  by (auto simp: profile_leq_def split: option.splits)

lemma apply_delivery_profile_update_cases:
  assumes "apply_delivery_profile_update P profile pk now c = (res, c')"
  shows "(case res of
      Inl e \<Rightarrow> c' = c
    | Inr _ \<Rightarrow> c' = c\<lparr>c_profile := Some profile\<rparr> \<and> now \<le> dp_valid_until profile \<and>
        verify_delivery_profile P profile pk = Inr () \<and> profile_leq P (c_profile c) (Some profile))"
  using assms accept_delivery_profile_update_Inr [of P "c_profile c" profile now "()"]
  unfolding apply_delivery_profile_update_def
  by (auto simp: m_bind_def m_of_def m_get_def m_modify_def profile_leq_def
      split: sum.splits option.splits)

text \<open>A peer that replays old signed profiles in any order cannot roll the stored one back.\<close>

fun apply_updates :: "prims \<Rightarrow> bytes \<Rightarrow> (delivery_profile \<times> int) list \<Rightarrow> contact \<Rightarrow> contact" where
  "apply_updates P pk [] c = c"
| "apply_updates P pk ((p, now) # us) c =
     apply_updates P pk us (snd (apply_delivery_profile_update P p pk now c))"

lemma apply_updates_monotone:
  "profile_leq P (c_profile c) (c_profile (apply_updates P pk us c)) \<and>
   (apply_updates P pk us c)\<lparr>c_profile := c_profile c\<rparr> = c"
proof (induction P pk us c rule: apply_updates.induct)
  case (2 P pk p now us c)
  obtain res c' where r: "apply_delivery_profile_update P p pk now c = (res, c')" by fastforce
  have "profile_leq P (c_profile c) (c_profile c') \<and> c'\<lparr>c_profile := c_profile c\<rparr> = c"
    using apply_delivery_profile_update_cases [OF r] by (cases res) auto
  moreover obtain d where d: "apply_updates P pk us c' = d" by blast
  ultimately show ?case using 2 r
    by (auto intro: profile_leq_trans) (metis contact.surjective contact.update_convs(11))
qed simp

section \<open>Advertised relays\<close>

lemma add_new_urls_urls:
  "rstrip_slash (rd_url d) \<in> set seen \<union> (\<lambda>d. rstrip_slash (rd_url d)) ` set (add_new_urls seen ds)"
  if "d \<in> set ds"
  using that by (induction seen ds rule: add_new_urls.induct) (auto simp: Let_def)

lemma add_new_urls_subset: "set (add_new_urls seen ds) \<subseteq> set ds"
  by (induction seen ds rule: add_new_urls.induct) (auto simp: Let_def)

lemma add_new_urls_distinct:
  "distinct (map (\<lambda>d. rstrip_slash (rd_url d)) (add_new_urls seen ds)) \<and>
   (\<lambda>d. rstrip_slash (rd_url d)) ` set (add_new_urls seen ds) \<inter> set seen = {}"
  by (induction seen ds rule: add_new_urls.induct) (auto simp: Let_def)

lemma with_operator_tls_same [simp]:
  "rd_name (with_operator_tls d c) = rd_name d" "rd_url (with_operator_tls d c) = rd_url d"
  "rd_role (with_operator_tls d c) = rd_role d"
  "rd_wrap_secret (with_operator_tls d c) = rd_wrap_secret d"
  by (auto simp: with_operator_tls_def split: option.splits)

text \<open>
  Every relay that may be advertised is our own or one that a contact advertises under its
  own name in its profile; no URL is listed twice; and a URL in the list can be advertised.
\<close>

lemma authorized_publish_relays_spec:
  assumes "authorized_publish_relays me contacts self = Inr ds"
  shows "distinct (map (\<lambda>d. rstrip_slash (rd_url d)) ds)"
    and "d \<in> set ds \<Longrightarrow> (self = Some d \<and> rd_name d = me) \<or>
      (\<exists>c \<in> set contacts. rd_name d = c_name c \<and>
         (\<exists>p d'. c_profile c = Some p \<and> d' \<in> set (dp_relays p) \<and> rd_url d' = rd_url d))"
    and "c \<in> set contacts \<Longrightarrow> c_profile c = Some p \<Longrightarrow> d' \<in> set (dp_relays p) \<Longrightarrow>
      rd_name d' = c_name c \<Longrightarrow> rstrip_slash (rd_url d') \<in> (\<lambda>d. rstrip_slash (rd_url d)) ` set ds"
proof -
  let ?op = "concat (map relays_operated_by_contact contacts)"
  let ?u = "\<lambda>d. rstrip_slash (rd_url d)"
  have op: "x \<in> set ?op \<Longrightarrow> \<exists>c \<in> set contacts. rd_name x = c_name c \<and>
         (\<exists>p d'. c_profile c = Some p \<and> d' \<in> set (dp_relays p) \<and> rd_url d' = rd_url x)" for x
  proof -
    assume "x \<in> set ?op"
    then obtain c where c: "c \<in> set contacts" "x \<in> set (relays_operated_by_contact c)" by auto
    then obtain p d' where "c_profile c = Some p" "d' \<in> set (dp_relays p)" "rd_name d' = c_name c"
      "x = with_operator_tls d' c"
      by (cases "c_profile c") (auto simp: relays_operated_by_contact_def)
    with c show ?thesis by (intro bexI [of _ c]) auto
  qed
  from assms consider "self = None" "ds = add_new_urls [] ?op"
    | s where "self = Some s" "rd_name s = me" "ds = s # add_new_urls [?u s] ?op"
    by (auto simp: authorized_publish_relays_def Let_def split: option.splits if_splits)
  note cases = this
  show "distinct (map ?u ds)"
    using cases add_new_urls_distinct by cases fastforce+
  show "d \<in> set ds \<Longrightarrow> (self = Some d \<and> rd_name d = me) \<or>
      (\<exists>c \<in> set contacts. rd_name d = c_name c \<and>
         (\<exists>p d'. c_profile c = Some p \<and> d' \<in> set (dp_relays p) \<and> rd_url d' = rd_url d))"
  proof -
    assume d: "d \<in> set ds"
    have "self = Some d \<and> rd_name d = me \<or> d \<in> set ?op"
      using cases d by cases (auto dest!: subsetD [OF add_new_urls_subset] simp del: set_concat)
    with op show ?thesis by blast
  qed
  assume c: "c \<in> set contacts" "c_profile c = Some p" "d' \<in> set (dp_relays p)" "rd_name d' = c_name c"
  then have "with_operator_tls d' c \<in> set ?op"
    by (auto simp: relays_operated_by_contact_def intro!: bexI [of _ c])
  then have m: "?u d' \<in> set seen \<union> ?u ` set (add_new_urls seen ?op)" for seen
    using add_new_urls_urls [of "with_operator_tls d' c" ?op seen] by (simp del: set_concat)
  from cases show "?u d' \<in> ?u ` set ds"
    by cases (use m [of "[]"] m [of "[?u (hd ds)]"] in \<open>auto simp del: set_concat\<close>)
qed

lemma assert_publish_relays_allowed_Inr:
  "assert_publish_relays_allowed relays authorized = Inr u \<longleftrightarrow>
     (\<lambda>d. rstrip_slash (rd_url d)) ` set relays \<subseteq> (\<lambda>d. rstrip_slash (rd_url d)) ` set authorized"
proof -
  have "assert_publish_relays_allowed relays authorized = Inr u \<longleftrightarrow>
     find (\<lambda>d. rstrip_slash (rd_url d) \<notin> set (map (\<lambda>d. rstrip_slash (rd_url d)) authorized)) relays = None"
    by (auto simp: assert_publish_relays_allowed_def Let_def split: option.splits)
  then show ?thesis by (auto simp: find_None_iff)
qed

lemma acked_version_monotone:
  "acked_version c \<le> acked_version (apply_peer_profile_ack_pending v names c)"
  by (simp add: apply_peer_profile_ack_pending_def)

end
