(* ===== verification/Duplex.thy ===== *)
theory Duplex
  imports RatchetProofs
begin

text \<open>
  Two ratchets that talk over two ordered wires: the system that starts with the pairing of
  \<open>yakr_core/pairing.py\<close> and in which both parties send and receive at any time. The wires
  neither lose nor reorder (reordering on one chain is \<open>any_order_delivery\<close>); a fresh ratchet
  key differs from the one it replaces.
\<close>

section \<open>The system\<close>

datatype side = Inviter | Joiner

fun other :: "side \<Rightarrow> side" where
  "other Inviter = Joiner"
| "other Joiner = Inviter"

lemma other_other [simp]: "other (other x) = x" and other_neq [simp]: "other x \<noteq> x" "x \<noteq> other x"
  by (cases x; simp)+

text \<open>\<open>wire x\<close>, \<open>sent x\<close> and \<open>got x\<close>: packets on the way to \<open>x\<close>, texts sent to it, and what
  its \<open>decrypt\<close> calls returned.\<close>

record duplex =
  party :: "side \<Rightarrow> ratchet"
  wire :: "side \<Rightarrow> bytes list"
  sent :: "side \<Rightarrow> bytes list"
  got :: "side \<Rightarrow> bytes res list"

inductive duplex_step :: "prims \<Rightarrow> duplex \<Rightarrow> duplex \<Rightarrow> bool" for P where
  send: "length np = 32 \<Longrightarrow> p_x25519_pub P np \<noteq> dh_self_public (party s x) \<Longrightarrow> length nonce = 24 \<Longrightarrow>
    ratchet_encrypt P np nonce m (party s x) = (Inr p, r) \<Longrightarrow>
    duplex_step P s
      (s\<lparr>party := (party s)(x := r), wire := (wire s)(other x := wire s (other x) @ [p]),
         sent := (sent s)(other x := sent s (other x) @ [m])\<rparr>)"
| recv: "length np = 32 \<Longrightarrow> p_x25519_pub P np \<noteq> dh_self_public (party s x) \<Longrightarrow>
    wire s x = p # ps \<Longrightarrow> ratchet_decrypt P np p (party s x) = (res, r) \<Longrightarrow>
    duplex_step P s
      (s\<lparr>party := (party s)(x := r), wire := (wire s)(x := ps), got := (got s)(x := got s x @ [res])\<rparr>)"

inductive_cases duplex_stepE: "duplex_step P s t"

inductive duplex_reach :: "prims \<Rightarrow> duplex \<Rightarrow> duplex \<Rightarrow> bool" for P s0 where
  start: "duplex_reach P s0 s0"
| step: "duplex_reach P s0 s \<Longrightarrow> duplex_step P s t \<Longrightarrow> duplex_reach P s0 t"

text \<open>
  The ratchets that \<open>inviter_complete_pairing\<close> and \<open>joiner_complete_pairing\<close> make from one
  master secret and the two ratchet keys of the handshake.
\<close>

definition inviter_ratchet :: "prims \<Rightarrow> bytes \<Rightarrow> bool \<Rightarrow> bytes \<Rightarrow> bytes \<Rightarrow> ratchet" where
  "inviter_ratchet P master hybrid ratchet_private joiner_ratchet_public =
     (from_master P master True hybrid ratchet_private)
       \<lparr>pending_pairing_dh_ratchet_peer := Some joiner_ratchet_public\<rparr>"

definition joiner_ratchet :: "prims \<Rightarrow> bytes \<Rightarrow> bool \<Rightarrow> bytes \<Rightarrow> (bytes \<Rightarrow> ratchet res)" where
  "joiner_ratchet P master hybrid ratchet_private inviter_ratchet_public =
     (case pairing_recv_init P inviter_ratchet_public
             (from_master P master False hybrid ratchet_private) of
        (Inl e, r) \<Rightarrow> Inl e | (Inr u, r) \<Rightarrow> Inr r)"

definition paired :: "ratchet \<Rightarrow> ratchet \<Rightarrow> duplex" where
  "paired a j = \<lparr>party = (\<lambda>x. case x of Inviter \<Rightarrow> a | Joiner \<Rightarrow> j),
     wire = (\<lambda>_. []), sent = (\<lambda>_. []), got = (\<lambda>_. [])\<rparr>"

section \<open>The invariant, for two ratchets\<close>

definition key_ok :: "prims \<Rightarrow> ratchet \<Rightarrow> bool" where
  "key_ok P r \<longleftrightarrow> length (dh_self_private r) = 32 \<and> length (dh_self_public r) = 32 \<and>
     dh_self_public r = p_x25519_pub P (dh_self_private r) \<and> skipped_keys r = []"

type_synonym flight = "(bytes \<times> bytes) list"

text \<open>Everything on the way belongs to the sender's current key, which the receiver knows.\<close>

definition same_chain :: "prims \<Rightarrow> ratchet \<Rightarrow> ratchet \<Rightarrow> bytes list \<Rightarrow> flight \<Rightarrow> bool" where
  "same_chain P S R q ms \<longleftrightarrow> (\<exists>n ck pn.
     expects (dh_self_public S) n ck R \<and> q = chain_packets P (dh_self_public S) pn n ck ms \<and>
     send_chain_key S = Some (chain_key P (length ms) ck) \<and> send_n S = int (n + length ms) \<and>
     prev_send_n S = int pn \<and> n + length ms \<le> 2 ^ 32 \<and> (ms = [] \<or> pn < 2 ^ 32))"

text \<open>\<open>X\<close> has a key that \<open>Y\<close> has not heard of: first the rest of the old chain, then the new one.\<close>

definition ahead :: "prims \<Rightarrow> ratchet \<Rightarrow> ratchet \<Rightarrow> bytes list \<Rightarrow> flight \<Rightarrow> bool" where
  "ahead P X Y q ms \<longleftrightarrow> dh_peer_public X = Some (dh_self_public Y) \<and> (\<exists>old n0 ck0 pn0 ms0 ms1 pn1 dh.
     expects old n0 ck0 Y \<and> dh_peer_public Y = Some old \<and> old \<noteq> dh_self_public X \<and>
     length old = 32 \<and> n0 + length ms0 \<le> 2 ^ 32 \<and> (ms0 = [] \<or> pn0 < 2 ^ 32) \<and>
     p_x25519 P (dh_self_private Y) (dh_self_public X) = Inr dh \<and>
     root_key X = fst (kdf_rk P (root_key Y) dh) \<and>
     q = chain_packets P old pn0 n0 ck0 ms0 @
         chain_packets P (dh_self_public X) pn1 0 (snd (kdf_rk P (root_key Y) dh)) ms1 \<and>
     ms = ms0 @ ms1 \<and>
     send_chain_key X = Some (chain_key P (length ms1) (snd (kdf_rk P (root_key Y) dh))) \<and>
     send_n X = int (length ms1) \<and> prev_send_n X = int pn1 \<and> length ms1 \<le> 2 ^ 32 \<and>
     (ms1 = [] \<or> pn1 < 2 ^ 32))"

definition linked ::
    "prims \<Rightarrow> ratchet \<Rightarrow> ratchet \<Rightarrow> bytes list \<Rightarrow> flight \<Rightarrow> bytes list \<Rightarrow> flight \<Rightarrow> bool" where
  "linked P X Y qY msY qX msX \<longleftrightarrow> key_ok P X \<and> key_ok P Y \<and>
     pending_pairing_dh_ratchet_peer X = None \<and> pending_pairing_dh_ratchet_peer Y = None \<and>
     ahead P X Y qY msY \<and> same_chain P Y X qX msX"

text \<open>Before the inviter's first message: nothing is on the way to the joiner.\<close>

definition unopened :: "prims \<Rightarrow> ratchet \<Rightarrow> ratchet \<Rightarrow> bytes list \<Rightarrow> flight \<Rightarrow> bool" where
  "unopened P A J qA msA \<longleftrightarrow> key_ok P A \<and> key_ok P J \<and>
     pending_pairing_dh_ratchet_peer A = Some (dh_self_public J) \<and>
     pending_pairing_dh_ratchet_peer J = None \<and> send_n A = 0 \<and>
     (\<exists>dh ck. p_x25519 P (dh_self_private A) (dh_self_public J) = Inr dh \<and>
        root_key J = fst (kdf_rk P (root_key A) dh) \<and>
        expects (dh_self_public A) 0 ck J \<and> dh_peer_public J = Some (dh_self_public A)) \<and>
     same_chain P J A qA msA"

section \<open>Every step keeps it\<close>

lemma ratchet_encrypt_Inr:
  assumes "seals pn n ck r" "ratchet_encrypt P np nonce m r = (Inr p, r')"
  shows "n < 2 ^ 32" "pn < 2 ^ 32" "p = packet P (dh_self_public r) pn n ck nonce m"
    "r' = r\<lparr>send_chain_key := Some (snd (kdf_ck P ck)), send_n := int (Suc n)\<rparr>"
proof -
  from assms show range: "n < 2 ^ 32" "pn < 2 ^ 32"
    by (auto simp: ratchet_encrypt_def seals_def m_bind_def header_aad_def pack_II_def m_get_def
        m_return_def m_modify_def m_of_def split: if_splits)
  from assms range show "p = packet P (dh_self_public r) pn n ck nonce m"
    "r' = r\<lparr>send_chain_key := Some (snd (kdf_ck P ck)), send_n := int (Suc n)\<rparr>"
    by (simp_all add: ratchet_encrypt_packet seals_def)
qed

text \<open>What the send chain does not touch.\<close>

lemma send_chain_frame [simp]:
  fixes X :: ratchet
  defines "X' a b \<equiv> X\<lparr>send_chain_key := a, send_n := b\<rparr>"
  shows "same_chain P Y (X' a b) q ms = same_chain P Y X q ms"
    "ahead P Y (X' a b) q ms = ahead P Y X q ms" "key_ok P (X' a b) = key_ok P X"
  by (simp_all add: X'_def same_chain_def ahead_def key_ok_def expects_def)

lemma same_chain_send:
  assumes "same_chain P S R q ms" "pending_pairing_dh_ratchet_peer S = None"
    and "ratchet_encrypt P np nonce m S = (Inr p, S')"
  shows "same_chain P S' R (q @ [p]) (ms @ [(nonce, m)])"
    and "S' = S\<lparr>send_chain_key := send_chain_key S', send_n := send_n S'\<rparr>"
proof -
  from assms(1) obtain n ck pn where c: "expects (dh_self_public S) n ck R"
    "q = chain_packets P (dh_self_public S) pn n ck ms"
    "send_chain_key S = Some (chain_key P (length ms) ck)" "send_n S = int (n + length ms)"
    "prev_send_n S = int pn" "n + length ms \<le> 2 ^ 32"
    unfolding same_chain_def by blast
  then have "seals pn (n + length ms) (chain_key P (length ms) ck) S"
    using assms(2) by (simp add: seals_def)
  note e = ratchet_encrypt_Inr [OF this assms(3)]
  show "S' = S\<lparr>send_chain_key := send_chain_key S', send_n := send_n S'\<rparr>"
    using e(4) by simp
  show "same_chain P S' R (q @ [p]) (ms @ [(nonce, m)])"
    unfolding same_chain_def
    by (rule exI [of _ n], rule exI [of _ ck], rule exI [of _ pn])
      (use c e in \<open>simp add: chain_packets_append chain_key_Suc del: chain_key.simps\<close>)
qed

lemma ahead_send:
  assumes "ahead P X Y q ms" "pending_pairing_dh_ratchet_peer X = None"
    and "ratchet_encrypt P np nonce m X = (Inr p, X')"
  shows "ahead P X' Y (q @ [p]) (ms @ [(nonce, m)])"
    and "X' = X\<lparr>send_chain_key := send_chain_key X', send_n := send_n X'\<rparr>"
proof -
  from assms(1) obtain old n0 ck0 pn0 ms0 ms1 pn1 dh where c:
    "expects old n0 ck0 Y" "dh_peer_public Y = Some old" "old \<noteq> dh_self_public X"
    "length old = 32" "n0 + length ms0 \<le> 2 ^ 32" "ms0 = [] \<or> pn0 < 2 ^ 32"
    "dh_peer_public X = Some (dh_self_public Y)"
    "p_x25519 P (dh_self_private Y) (dh_self_public X) = Inr dh"
    "root_key X = fst (kdf_rk P (root_key Y) dh)"
    "q = chain_packets P old pn0 n0 ck0 ms0 @
         chain_packets P (dh_self_public X) pn1 0 (snd (kdf_rk P (root_key Y) dh)) ms1"
    "ms = ms0 @ ms1"
    "send_chain_key X = Some (chain_key P (length ms1) (snd (kdf_rk P (root_key Y) dh)))"
    "send_n X = int (length ms1)" "prev_send_n X = int pn1" "length ms1 \<le> 2 ^ 32"
    unfolding ahead_def by metis
  have "seals pn1 (length ms1) (chain_key P (length ms1) (snd (kdf_rk P (root_key Y) dh))) X"
    using c assms(2) by (simp add: seals_def)
  note e = ratchet_encrypt_Inr [OF this assms(3)]
  show "X' = X\<lparr>send_chain_key := send_chain_key X', send_n := send_n X'\<rparr>"
    using e(4) by simp
  show "ahead P X' Y (q @ [p]) (ms @ [(nonce, m)])"
    unfolding ahead_def
    by (rule conjI, use c e in simp, rule exI [of _ old], rule exI [of _ n0], rule exI [of _ ck0], rule exI [of _ pn0],
        rule exI [of _ ms0], rule exI [of _ "ms1 @ [(nonce, m)]"], rule exI [of _ pn1],
        rule exI [of _ dh])
      (use c e in \<open>simp add: chain_packets_append chain_key_Suc del: chain_key.simps\<close>)
qed

lemma linked_send_ahead:
  assumes "linked P X Y qY msY qX msX" "ratchet_encrypt P np nonce m X = (Inr p, X')"
  shows "linked P X' Y (qY @ [p]) (msY @ [(nonce, m)]) qX msX"
proof -
  from assms(1) have l: "key_ok P X" "key_ok P Y" "pending_pairing_dh_ratchet_peer X = None"
    "pending_pairing_dh_ratchet_peer Y = None" "ahead P X Y qY msY" "same_chain P Y X qX msX"
    unfolding linked_def by blast+
  note s = ahead_send [OF l(5) l(3) assms(2)]
  obtain a b where X': "X' = X\<lparr>send_chain_key := a, send_n := b\<rparr>" using s(2) by blast
  show ?thesis using s(1) l unfolding linked_def X' by simp
qed

lemma linked_send_behind:
  assumes "linked P X Y qY msY qX msX" "ratchet_encrypt P np nonce m Y = (Inr p, Y')"
  shows "linked P X Y' qY msY (qX @ [p]) (msX @ [(nonce, m)])"
proof -
  from assms(1) have l: "key_ok P X" "key_ok P Y" "pending_pairing_dh_ratchet_peer X = None"
    "pending_pairing_dh_ratchet_peer Y = None" "ahead P X Y qY msY" "same_chain P Y X qX msX"
    unfolding linked_def by blast+
  note s = same_chain_send [OF l(6) l(4) assms(2)]
  obtain a b where Y': "Y' = Y\<lparr>send_chain_key := a, send_n := b\<rparr>" using s(2) by blast
  show ?thesis using s(1) l unfolding linked_def Y' by simp
qed

text \<open>Receiving the next packet of a chain already known.\<close>

lemma same_chain_recv:
  assumes law: "aead_correct P" and c: "same_chain P S R (p # q) ms" "key_ok P S" "key_ok P R"
    and nonces: "\<forall>x \<in> set ms. length (fst x) = 24"
  obtains nonce m ms' a b where "ms = (nonce, m) # ms'"
    "ratchet_decrypt P np p R = (Inr m, R\<lparr>dh_peer_public := Some (dh_self_public S),
        recv_chain_key := a, recv_n := b\<rparr>)"
    "same_chain P S (R\<lparr>dh_peer_public := Some (dh_self_public S),
        recv_chain_key := a, recv_n := b\<rparr>) q ms'"
proof -
  from c(1) obtain n ck pn where n: "expects (dh_self_public S) n ck R"
    "p # q = chain_packets P (dh_self_public S) pn n ck ms"
    "send_chain_key S = Some (chain_key P (length ms) ck)" "send_n S = int (n + length ms)"
    "prev_send_n S = int pn" "n + length ms \<le> 2 ^ 32" "ms = [] \<or> pn < 2 ^ 32"
    unfolding same_chain_def by blast
  then obtain nonce m ms' where ms: "ms = (nonce, m) # ms'" by (cases ms) auto
  let ?R = "R\<lparr>dh_peer_public := Some (dh_self_public S),
     recv_chain_key := Some (chain_key P 1 ck), recv_n := int (Suc n)\<rparr>"
  have d: "ratchet_decrypt P np (packet P (dh_self_public S) pn (n + 0) (chain_key P 0 ck) nonce m) R
      = (Inr m, R\<lparr>dh_peer_public := Some (dh_self_public S),
           recv_chain_key := Some (chain_key P (Suc 0) ck), recv_n := int (Suc (n + 0)),
           skipped_keys := stored_keys P (dh_self_public S) n 0 ck (skipped_keys R)\<rparr>)"
    by (rule ratchet_decrypt_packet [OF law _ _ n(1)]) (use n c nonces ms in \<open>auto simp: key_ok_def\<close>)
  have "ratchet_decrypt P np p R = (Inr m, ?R)" using d n(2) ms by simp
  moreover have "same_chain P S ?R q ms'"
    unfolding same_chain_def
    by (rule exI [of _ "Suc n"], rule exI [of _ "chain_key P 1 ck"], rule exI [of _ pn])
      (use n ms in \<open>auto simp: expects_def\<close>)
  ultimately show thesis using that ms by blast
qed

lemma recv_chain_frame [simp]:
  fixes X :: ratchet
  defines "X' d a b \<equiv> X\<lparr>dh_peer_public := d, recv_chain_key := a, recv_n := b\<rparr>"
  shows "same_chain P (X' d a b) Y q ms = same_chain P X Y q ms" "key_ok P (X' d a b) = key_ok P X"
  by (simp_all add: X'_def same_chain_def key_ok_def)

lemma ahead_recv_frame:
  "ahead P X Y q ms \<Longrightarrow>
   ahead P (X\<lparr>dh_peer_public := Some (dh_self_public Y), recv_chain_key := a, recv_n := b\<rparr>) Y q ms"
  by (simp add: ahead_def)

lemma linked_recv_ahead:
  assumes law: "aead_correct P" and l: "linked P X Y qY msY (p # q) msX"
    and nonces: "\<forall>x \<in> set msX. length (fst x) = 24"
  obtains nonce m ms' X' where "msX = (nonce, m) # ms'" "ratchet_decrypt P np p X = (Inr m, X')"
    "linked P X' Y qY msY q ms'"
proof -
  from l have l': "key_ok P X" "key_ok P Y" "pending_pairing_dh_ratchet_peer X = None"
    "pending_pairing_dh_ratchet_peer Y = None" "ahead P X Y qY msY" "same_chain P Y X (p # q) msX"
    unfolding linked_def by blast+
  from same_chain_recv [OF law l'(6) l'(2) l'(1) nonces, of np] obtain nonce m ms' a b where r:
    "msX = (nonce, m) # ms'"
    "ratchet_decrypt P np p X = (Inr m, X\<lparr>dh_peer_public := Some (dh_self_public Y),
        recv_chain_key := a, recv_n := b\<rparr>)"
    "same_chain P Y (X\<lparr>dh_peer_public := Some (dh_self_public Y), recv_chain_key := a, recv_n := b\<rparr>) q ms'" .
  have "linked P (X\<lparr>dh_peer_public := Some (dh_self_public Y), recv_chain_key := a, recv_n := b\<rparr>)
      Y qY msY q ms'"
    using l' r(3) ahead_recv_frame [OF l'(5)] unfolding linked_def by simp
  with r show thesis using that by blast
qed

text \<open>The party that is behind: the rest of the old chain, or its own ratchet step.\<close>

lemma ratchet_decrypt_advance:
  assumes "advance_peer P np pub r = (Inr (), r1)" "dh_peer_public r1 = Some pub" "length pub = 32"
    and "n < 2 ^ 32" "pn < 2 ^ 32"
    and "ratchet_decrypt P np (packet P pub pn n ck nonce m) r1 = (Inr m, r2)"
  shows "ratchet_decrypt P np (packet P pub pn n ck nonce m) r = (Inr m, r2)"
proof -
  let ?b = "\<lambda>ct. decrypt_body P np pub (int pn) (int n) ct"
  have eq: "?b ct r = ?b ct r1" for ct
    using assms(1,2) by (simp add: decrypt_body_def m_bind_def advance_peer_def)
  have "decrypt_result (ratchet_to_dict r1) (?b ct r1) = (Inr m, r2) \<Longrightarrow>
        decrypt_result (ratchet_to_dict r) (?b ct r1) = (Inr m, r2)" for ct
    by (cases "?b ct r1") (auto simp: decrypt_result_def split: sum.splits)
  with assms show ?thesis by (simp add: packet_def ratchet_decrypt_header eq)
qed

lemma dh_shared:
  assumes "x25519_commutes P" "length a = 32" "length b = 32"
  obtains s where "p_x25519 P a (p_x25519_pub P b) = Inr s" "p_x25519 P b (p_x25519_pub P a) = Inr s"
  using assms unfolding x25519_commutes_def by blast

lemma pub_length: "x25519_commutes P \<Longrightarrow> length a = 32 \<Longrightarrow> length (p_x25519_pub P a) = 32"
  unfolding x25519_commutes_def by blast

definition ratcheted :: "prims \<Rightarrow> bytes \<Rightarrow> bytes \<Rightarrow> bytes \<Rightarrow> bytes \<Rightarrow> ratchet \<Rightarrow> ratchet" where
  "ratcheted P np pub dh1 dh2 r = (let (root, recv) = kdf_rk P (root_key r) dh1;
       (root', send) = kdf_rk P root dh2 in
     r\<lparr>skipped_keys := [], dh_peer_public := Some pub, root_key := root', recv_chain_key := Some recv,
       recv_n := 0, dh_self_private := np, dh_self_public := p_x25519_pub P np,
       send_chain_key := Some send, prev_send_n := send_n r, send_n := 0\<rparr>)"

lemma advance_peer_new:
  assumes "dh_peer_public r = Some old" "old \<noteq> pub"
    and "p_x25519 P (dh_self_private r) pub = Inr dh1" "p_x25519 P np pub = Inr dh2"
  shows "advance_peer P np pub r = (Inr (), ratcheted P np pub dh1 dh2 r)"
  using assms
  by (simp add: advance_peer_def dh_ratchet_def x25519_shared_secret_def ratcheted_def split_beta)

lemma linked_turn:
  assumes laws: "aead_correct P" "x25519_commutes P"
    and l: "linked P X Y qY ((nonce, m) # ms1) qX msX" and np: "length np = 32"
      "p_x25519_pub P np \<noteq> dh_self_public Y" and nonce: "length nonce = 24"
    and c: "dh_peer_public Y = Some old" "old \<noteq> dh_self_public X"
      "p_x25519 P (dh_self_private Y) (dh_self_public X) = Inr dh"
      "root_key X = fst (kdf_rk P (root_key Y) dh)"
      "p # q = chain_packets P (dh_self_public X) pn1 0 (snd (kdf_rk P (root_key Y) dh)) ((nonce, m) # ms1)"
      "send_chain_key X = Some (chain_key P (Suc (length ms1)) (snd (kdf_rk P (root_key Y) dh)))"
      "send_n X = int (Suc (length ms1))" "prev_send_n X = int pn1" "Suc (length ms1) \<le> 2 ^ 32"
      "pn1 < 2 ^ 32"
  obtains Y' where "ratchet_decrypt P np p Y = (Inr m, Y')" "linked P Y' X qX msX q ms1"
proof -
  from l have l': "key_ok P X" "key_ok P Y" "pending_pairing_dh_ratchet_peer X = None"
    "pending_pairing_dh_ratchet_peer Y = None" "same_chain P Y X qX msX"
    "dh_peer_public X = Some (dh_self_public Y)"
    unfolding linked_def ahead_def by blast+
  then have X: "dh_self_public X = p_x25519_pub P (dh_self_private X)" "length (dh_self_private X) = 32"
    "length (dh_self_public X) = 32" "length (dh_self_public Y) = 32"
    unfolding key_ok_def by blast+
  obtain dh2 where dh2: "p_x25519 P np (dh_self_public X) = Inr dh2"
    "p_x25519 P (dh_self_private X) (p_x25519_pub P np) = Inr dh2"
    using dh_shared [OF laws(2) np(1) X(2)] X(1) by metis
  define ck where "ck = snd (kdf_rk P (root_key Y) dh)"
  let ?R = "ratcheted P np (dh_self_public X) dh dh2 Y"
  let ?Y = "?R\<lparr>recv_chain_key := Some (chain_key P 1 ck), recv_n := 1\<rparr>"
  have R: "expects (dh_self_public X) 0 ck ?R" "skipped_keys ?R = []"
    "dh_peer_public ?R = Some (dh_self_public X)"
    by (simp_all add: ratcheted_def split_beta expects_def ck_def)
  have d: "ratchet_decrypt P np (packet P (dh_self_public X) pn1 (0 + 0) (chain_key P 0 ck) nonce m) ?R
      = (Inr m, ?R\<lparr>dh_peer_public := Some (dh_self_public X),
           recv_chain_key := Some (chain_key P (Suc 0) ck), recv_n := int (Suc (0 + 0)),
           skipped_keys := stored_keys P (dh_self_public X) 0 0 ck (skipped_keys ?R)\<rparr>)"
    by (rule ratchet_decrypt_packet [OF laws(1) _ _ R(1)]) (use nonce X c R in simp_all)
  have "ratchet_decrypt P np (packet P (dh_self_public X) pn1 0 ck nonce m) Y = (Inr m, ?Y)"
    by (rule ratchet_decrypt_advance [OF advance_peer_new [OF c(1,2,3) dh2(1)]])
      (use d X c R in \<open>simp_all add: ratcheted_def split_beta\<close>)
  moreover have p: "p = packet P (dh_self_public X) pn1 0 ck nonce m"
    "q = chain_packets P (dh_self_public X) pn1 1 (chain_key P 1 ck) ms1"
    using c(5) by (simp_all add: ck_def)
  moreover have "linked P ?Y X qX msX q ms1"
  proof -
    have Y': "root_key ?Y = fst (kdf_rk P (root_key X) dh2)"
      "send_chain_key ?Y = Some (snd (kdf_rk P (root_key X) dh2))"
      "send_n ?Y = 0" "prev_send_n ?Y = send_n Y" "dh_self_public ?Y = p_x25519_pub P np"
      "dh_self_private ?Y = np" "skipped_keys ?Y = []" "dh_peer_public ?Y = Some (dh_self_public X)"
      "pending_pairing_dh_ratchet_peer ?Y = None"
      using c(4) l' by (simp_all add: ratcheted_def split_beta)
    from l'(5) obtain n cky pny where s: "expects (dh_self_public Y) n cky X"
      "qX = chain_packets P (dh_self_public Y) pny n cky msX" "send_n Y = int (n + length msX)"
      "n + length msX \<le> 2 ^ 32" "msX = [] \<or> pny < 2 ^ 32"
      unfolding same_chain_def by blast
    have "ahead P ?Y X qX msX"
      unfolding ahead_def
      by (rule conjI, use Y' in simp, rule exI [of _ "dh_self_public Y"], rule exI [of _ n],
          rule exI [of _ cky], rule exI [of _ pny], rule exI [of _ msX], rule exI [of _ "[]"],
          rule exI [of _ "n + length msX"], rule exI [of _ dh2])
        (use Y' s dh2 np l'(6) X(4) in auto)
    moreover have "same_chain P X ?Y q ms1"
      unfolding same_chain_def
      by (rule exI [of _ 1], rule exI [of _ "chain_key P 1 ck"], rule exI [of _ pn1])
        (use p c Y' in \<open>auto simp: expects_def ck_def\<close>)
    moreover have "key_ok P ?Y"
      using Y' np pub_length [OF laws(2) np(1)] by (simp add: key_ok_def)
    ultimately show ?thesis using l' Y'(9) unfolding linked_def by simp
  qed
  ultimately show thesis using that by blast
qed

lemma linked_old_chain:
  assumes law: "aead_correct P" and keys: "key_ok P X" "key_ok P Y"
    and Y: "expects old n0 ck0 Y" "dh_peer_public Y = Some old" "length old = 32"
      "n0 + Suc (length ms0) \<le> 2 ^ 32" "pn0 < 2 ^ 32"
    and nonce: "length nonce = 24"
  obtains Y' where
    "ratchet_decrypt P np (packet P old pn0 n0 ck0 nonce m) Y = (Inr m, Y')"
    "Y' = Y\<lparr>dh_peer_public := Some old, recv_chain_key := Some (chain_key P 1 ck0), recv_n := int (Suc n0)\<rparr>"
    "expects old (Suc n0) (chain_key P 1 ck0) Y'"
proof -
  let ?Y = "Y\<lparr>dh_peer_public := Some old, recv_chain_key := Some (chain_key P 1 ck0), recv_n := int (Suc n0)\<rparr>"
  have d: "ratchet_decrypt P np (packet P old pn0 (n0 + 0) (chain_key P 0 ck0) nonce m) Y
      = (Inr m, Y\<lparr>dh_peer_public := Some old,
           recv_chain_key := Some (chain_key P (Suc 0) ck0), recv_n := int (Suc (n0 + 0)),
           skipped_keys := stored_keys P old n0 0 ck0 (skipped_keys Y)\<rparr>)"
    by (rule ratchet_decrypt_packet [OF law _ _ Y(1)]) (use nonce Y keys in \<open>simp_all add: key_ok_def\<close>)
  moreover have "expects old (Suc n0) (chain_key P 1 ck0) ?Y" by (simp add: expects_def)
  ultimately show thesis using that by simp
qed

lemma linked_recv_behind:
  assumes laws: "aead_correct P" "x25519_commutes P"
    and l: "linked P X Y (p # q) msY qX msX" and np: "length np = 32"
      "p_x25519_pub P np \<noteq> dh_self_public Y" and nonces: "\<forall>x \<in> set msY. length (fst x) = 24"
  obtains nonce m ms' Y' where "msY = (nonce, m) # ms'" "ratchet_decrypt P np p Y = (Inr m, Y')"
    "linked P X Y' q ms' qX msX \<or> linked P Y' X qX msX q ms'"
proof -
  from l have l': "key_ok P X" "key_ok P Y" "pending_pairing_dh_ratchet_peer X = None"
    "pending_pairing_dh_ratchet_peer Y = None" "ahead P X Y (p # q) msY" "same_chain P Y X qX msX"
    unfolding linked_def by blast+
  from l'(5) obtain old n0 ck0 pn0 ms0 ms1 pn1 dh where peer: "dh_peer_public X = Some (dh_self_public Y)" and c:
    "expects old n0 ck0 Y" "dh_peer_public Y = Some old" "old \<noteq> dh_self_public X"
    "length old = 32" "n0 + length ms0 \<le> 2 ^ 32" "ms0 = [] \<or> pn0 < 2 ^ 32"
    "p_x25519 P (dh_self_private Y) (dh_self_public X) = Inr dh"
    "root_key X = fst (kdf_rk P (root_key Y) dh)"
    "p # q = chain_packets P old pn0 n0 ck0 ms0 @
         chain_packets P (dh_self_public X) pn1 0 (snd (kdf_rk P (root_key Y) dh)) ms1"
    "msY = ms0 @ ms1"
    "send_chain_key X = Some (chain_key P (length ms1) (snd (kdf_rk P (root_key Y) dh)))"
    "send_n X = int (length ms1)" "prev_send_n X = int pn1" "length ms1 \<le> 2 ^ 32"
    "ms1 = [] \<or> pn1 < 2 ^ 32"
    unfolding ahead_def by metis
  show thesis
  proof (cases ms0)
    case Nil
    then obtain nonce m ms' where ms1: "ms1 = (nonce, m) # ms'" using c(9) by (cases ms1) auto
    with Nil c nonces have "length nonce = 24" "linked P X Y (p # q) ((nonce, m) # ms') qX msX"
      using l by auto
    then obtain Y' where "ratchet_decrypt P np p Y = (Inr m, Y')" "linked P Y' X qX msX q ms'"
      using linked_turn [OF laws _ np _ c(2,3,7,8), of "p # q" nonce m ms' qX msX p q pn1] c ms1 Nil
      by auto
    with that ms1 c(10) Nil show thesis by simp
  next
    case (Cons x ms')
    then obtain nonce m where ms0: "ms0 = (nonce, m) # ms'" by (cases x) auto
    with c nonces have "length nonce = 24" "n0 + Suc (length ms') \<le> 2 ^ 32" "pn0 < 2 ^ 32" by auto
    with linked_old_chain [OF laws(1) l'(1,2) c(1,2,4), of ms' pn0 nonce np m] obtain Y' where Y':
      "ratchet_decrypt P np (packet P old pn0 n0 ck0 nonce m) Y = (Inr m, Y')"
      "Y' = Y\<lparr>dh_peer_public := Some old, recv_chain_key := Some (chain_key P 1 ck0), recv_n := int (Suc n0)\<rparr>"
      "expects old (Suc n0) (chain_key P 1 ck0) Y'" by blast
    have p: "p = packet P old pn0 n0 ck0 nonce m" "q = chain_packets P old pn0 (Suc n0) (chain_key P 1 ck0) ms' @
         chain_packets P (dh_self_public X) pn1 0 (snd (kdf_rk P (root_key Y) dh)) ms1"
      using c(9) ms0 by simp_all
    have same: "root_key Y' = root_key Y" "dh_self_private Y' = dh_self_private Y"
      "dh_self_public Y' = dh_self_public Y" "dh_peer_public Y' = Some old"
      "pending_pairing_dh_ratchet_peer Y' = None"
      using Y'(2) l'(4) by simp_all
    have "ahead P X Y' q (ms' @ ms1)"
      unfolding ahead_def
      by (rule conjI, use peer same in simp, rule exI [of _ old], rule exI [of _ "Suc n0"],
          rule exI [of _ "chain_key P 1 ck0"], rule exI [of _ pn0], rule exI [of _ ms'],
          rule exI [of _ ms1], rule exI [of _ pn1], rule exI [of _ dh])
        (use c ms0 p Y'(3) same in auto)
    then have "linked P X Y' q (ms' @ ms1) qX msX"
      using l' same unfolding linked_def Y'(2) by simp
    with that Y'(1) p(1) c(10) ms0 show thesis by simp
  qed
qed

section \<open>The start after pairing\<close>

lemma unopened_first_send:
  assumes laws: "x25519_commutes P" and u: "unopened P A J qA msA"
    and np: "length np = 32" "p_x25519_pub P np \<noteq> dh_self_public A"
    and enc: "ratchet_encrypt P np nonce m A = (Inr p, A')"
  shows "linked P A' J [p] [(nonce, m)] qA msA"
proof -
  from u obtain dh ck where k: "key_ok P A" "key_ok P J"
    "pending_pairing_dh_ratchet_peer A = Some (dh_self_public J)"
    "pending_pairing_dh_ratchet_peer J = None" "send_n A = 0"
    "p_x25519 P (dh_self_private A) (dh_self_public J) = Inr dh"
    "root_key J = fst (kdf_rk P (root_key A) dh)" "expects (dh_self_public A) 0 ck J"
    "dh_peer_public J = Some (dh_self_public A)" "same_chain P J A qA msA"
    unfolding unopened_def by blast
  have J: "dh_self_public J = p_x25519_pub P (dh_self_private J)" "length (dh_self_private J) = 32"
    "length (dh_self_public J) = 32" "length (dh_self_public A) = 32"
    using k(1,2) unfolding key_ok_def by blast+
  obtain dh2 where dh2: "p_x25519 P np (dh_self_public J) = Inr dh2"
    "p_x25519 P (dh_self_private J) (p_x25519_pub P np) = Inr dh2"
    using dh_shared [OF laws np(1) J(2)] J(1) by metis
  define A1 where "A1 = A\<lparr>pending_pairing_dh_ratchet_peer := None, dh_peer_public := Some (dh_self_public J),
      dh_self_private := np, dh_self_public := p_x25519_pub P np,
      root_key := fst (kdf_rk P (root_key J) dh2),
      send_chain_key := Some (snd (kdf_rk P (root_key J) dh2)), prev_send_n := 0, send_n := 0\<rparr>"
  have "ratchet_encrypt P np nonce m A = ratchet_encrypt P np nonce m A1"
    using k J dh2
    by (simp add: ratchet_encrypt_def pairing_send_init_def x25519_shared_secret_def m_bind_def A1_def
        m_modify_def m_get_def m_of_def)
  with enc have enc1: "ratchet_encrypt P np nonce m A1 = (Inr p, A')" by simp
  have "same_chain P J A1 qA msA"
    using k(10) by (auto simp: same_chain_def expects_def A1_def)
  moreover have "ahead P A1 J [] []"
    unfolding ahead_def
    by (rule conjI, simp add: A1_def, rule exI [of _ "dh_self_public A"], rule exI [of _ 0],
        rule exI [of _ ck], rule exI [of _ 0], rule exI [of _ "[]"], rule exI [of _ "[]"],
        rule exI [of _ 0], rule exI [of _ dh2])
      (use k J dh2 np in \<open>auto simp: A1_def\<close>)
  moreover have "key_ok P A1"
    using k(1) np pub_length [OF laws np(1)] by (simp add: key_ok_def A1_def)
  ultimately have "linked P A1 J [] [] qA msA"
    using k by (simp add: linked_def A1_def)
  from linked_send_ahead [OF this enc1] show ?thesis by simp
qed

lemma unopened_joiner_send:
  assumes u: "unopened P A J qA msA" and enc: "ratchet_encrypt P np nonce m J = (Inr p, J')"
  shows "unopened P A J' (qA @ [p]) (msA @ [(nonce, m)])"
proof -
  from u have k: "same_chain P J A qA msA" "pending_pairing_dh_ratchet_peer J = None"
    unfolding unopened_def by blast+
  note s = same_chain_send [OF k enc]
  obtain a b where J': "J' = J\<lparr>send_chain_key := a, send_n := b\<rparr>" using s(2) by blast
  show ?thesis using u s(1) unfolding unopened_def J' by (simp add: expects_def)
qed

lemma unopened_inviter_recv:
  assumes law: "aead_correct P" and u: "unopened P A J (p # q) msA"
    and nonces: "\<forall>x \<in> set msA. length (fst x) = 24"
  obtains nonce m ms' A' where "msA = (nonce, m) # ms'" "ratchet_decrypt P np p A = (Inr m, A')"
    "unopened P A' J q ms'"
proof -
  from u have k: "same_chain P J A (p # q) msA" "key_ok P J" "key_ok P A"
    unfolding unopened_def by blast+
  from same_chain_recv [OF law k nonces, of np] obtain nonce m ms' a b where r:
    "msA = (nonce, m) # ms'"
    "ratchet_decrypt P np p A = (Inr m, A\<lparr>dh_peer_public := Some (dh_self_public J),
        recv_chain_key := a, recv_n := b\<rparr>)"
    "same_chain P J (A\<lparr>dh_peer_public := Some (dh_self_public J), recv_chain_key := a, recv_n := b\<rparr>) q ms'" .
  have "unopened P (A\<lparr>dh_peer_public := Some (dh_self_public J), recv_chain_key := a, recv_n := b\<rparr>) J q ms'"
    using u r(3) unfolding unopened_def by simp
  with that r show thesis by blast
qed

section \<open>All runs\<close>

definition flight_ok :: "flight \<Rightarrow> bool" where
  "flight_ok ms \<longleftrightarrow> (\<forall>x \<in> set ms. length (fst x) = 24)"

text \<open>\<open>ms x\<close> is the cleartext of what is on the way to \<open>x\<close>.\<close>

definition duplex_inv :: "prims \<Rightarrow> duplex \<Rightarrow> (side \<Rightarrow> flight) \<Rightarrow> bool" where
  "duplex_inv P s ms \<longleftrightarrow>
     (\<forall>x. flight_ok (ms x) \<and> got s x @ map (Inr \<circ> snd) (ms x) = map Inr (sent s x)) \<and>
     ((\<exists>x. linked P (party s x) (party s (other x)) (wire s (other x)) (ms (other x)) (wire s x) (ms x)) \<or>
      unopened P (party s Inviter) (party s Joiner) (wire s Inviter) (ms Inviter) \<and>
      wire s Joiner = [] \<and> ms Joiner = [])"

lemma duplex_inv_send:
  assumes laws: "x25519_commutes P" and inv: "duplex_inv P s ms"
    and np: "length np = 32" "p_x25519_pub P np \<noteq> dh_self_public (party s x)" "length nonce = 24"
    and enc: "ratchet_encrypt P np nonce m (party s x) = (Inr p, r)"
  shows "duplex_inv P (s\<lparr>party := (party s)(x := r), wire := (wire s)(other x := wire s (other x) @ [p]),
           sent := (sent s)(other x := sent s (other x) @ [m])\<rparr>)
         (ms(other x := ms (other x) @ [(nonce, m)]))" (is "duplex_inv P ?t ?ms")
proof -
  have logs: "flight_ok (?ms y) \<and> got ?t y @ map (Inr \<circ> snd) (?ms y) = map Inr (sent ?t y)" for y
    using inv np by (auto simp: duplex_inv_def flight_ok_def)
  consider z where "linked P (party s z) (party s (other z)) (wire s (other z)) (ms (other z)) (wire s z) (ms z)"
    | "unopened P (party s Inviter) (party s Joiner) (wire s Inviter) (ms Inviter)"
      "wire s Joiner = []" "ms Joiner = []"
    using inv unfolding duplex_inv_def by blast
  then have "(\<exists>z. linked P (party ?t z) (party ?t (other z)) (wire ?t (other z)) (?ms (other z)) (wire ?t z) (?ms z)) \<or>
      unopened P (party ?t Inviter) (party ?t Joiner) (wire ?t Inviter) (?ms Inviter) \<and>
      wire ?t Joiner = [] \<and> ?ms Joiner = []"
  proof cases
    case (1 z)
    show ?thesis
    proof (cases "x = z")
      case True
      with linked_send_ahead [OF 1] enc show ?thesis by (intro disjI1 exI [of _ z]) simp
    next
      case False
      then have x: "x = other z" by (cases x; cases z) auto
      with linked_send_behind [OF 1] enc show ?thesis by (intro disjI1 exI [of _ z]) simp
    qed
  next
    case 2
    show ?thesis
    proof (cases x)
      case Inviter
      with unopened_first_send [OF laws 2(1)] np enc 2 show ?thesis
        by (intro disjI1 exI [of _ Inviter]) simp
    next
      case Joiner
      with unopened_joiner_send [OF 2(1)] enc 2 show ?thesis by simp
    qed
  qed
  with logs show ?thesis unfolding duplex_inv_def by blast
qed

lemma duplex_inv_recv:
  assumes laws: "aead_correct P" "x25519_commutes P" and inv: "duplex_inv P s ms"
    and np: "length np = 32" "p_x25519_pub P np \<noteq> dh_self_public (party s x)"
    and wire: "wire s x = p # ps" and dec: "ratchet_decrypt P np p (party s x) = (res, r)"
  shows "duplex_inv P (s\<lparr>party := (party s)(x := r), wire := (wire s)(x := ps),
           got := (got s)(x := got s x @ [res])\<rparr>) (ms(x := tl (ms x)))" (is "duplex_inv P ?t ?ms")
proof -
  have fl: "\<forall>y \<in> set (ms x). length (fst y) = 24" and
    logs: "flight_ok (ms y)" "got s y @ map (Inr \<circ> snd) (ms y) = map Inr (sent s y)" for y
    using inv by (auto simp: duplex_inv_def flight_ok_def)
  consider z where "linked P (party s z) (party s (other z)) (wire s (other z)) (ms (other z)) (wire s z) (ms z)"
    | "unopened P (party s Inviter) (party s Joiner) (wire s Inviter) (ms Inviter)"
      "wire s Joiner = []" "ms Joiner = []"
    using inv unfolding duplex_inv_def by blast
  then obtain nonce m ms' where m: "ms x = (nonce, m) # ms'" "res = Inr m" and
    "(\<exists>z. linked P (party ?t z) (party ?t (other z)) (wire ?t (other z)) (?ms (other z)) (wire ?t z) (?ms z)) \<or>
      unopened P (party ?t Inviter) (party ?t Joiner) (wire ?t Inviter) (?ms Inviter) \<and>
      wire ?t Joiner = [] \<and> ?ms Joiner = []"
  proof cases
    case (1 z)
    show thesis
    proof (cases "x = z")
      case True
      obtain nonce m ms' X' where "ms x = (nonce, m) # ms'" "ratchet_decrypt P np p (party s x) = (Inr m, X')"
        "linked P X' (party s (other x)) (wire s (other x)) (ms (other x)) ps ms'"
        using linked_recv_ahead [OF laws(1), of "party s x" "party s (other x)"] 1 True wire fl by metis
      with dec True show thesis by (intro that [of nonce m ms'] disjI1 exI [of _ x]) auto
    next
      case False
      then have x: "z = other x" by (cases x; cases z) auto
      obtain nonce m ms' Y' where y: "ms x = (nonce, m) # ms'" "ratchet_decrypt P np p (party s x) = (Inr m, Y')"
        and lk: "linked P (party s z) Y' ps ms' (wire s z) (ms z) \<or> linked P Y' (party s z) (wire s z) (ms z) ps ms'"
        using linked_recv_behind [OF laws, of "party s z" "party s x"] 1 x wire fl np by (metis other_other)
      from lk have "\<exists>z. linked P (party ?t z) (party ?t (other z)) (wire ?t (other z)) (?ms (other z))
          (wire ?t z) (?ms z)"
      proof
        assume "linked P (party s z) Y' ps ms' (wire s z) (ms z)"
        with dec x y show ?thesis by (intro exI [of _ z]) simp
      next
        assume "linked P Y' (party s z) (wire s z) (ms z) ps ms'"
        with dec x y show ?thesis by (intro exI [of _ x]) simp
      qed
      with dec y show thesis by (intro that [of nonce m ms'] disjI1) auto
    qed
  next
    case 2
    then have x: "x = Inviter" using wire by (cases x) auto
    obtain nonce m ms' A' where "ms x = (nonce, m) # ms'" "ratchet_decrypt P np p (party s x) = (Inr m, A')"
        "unopened P A' (party s Joiner) ps ms'"
      using unopened_inviter_recv [OF laws(1), of "party s Inviter" "party s Joiner"] 2 x wire fl by metis
    with dec x 2 show thesis by (intro that [of nonce m ms'] disjI2) auto
  qed
  moreover have "flight_ok (?ms y) \<and> got ?t y @ map (Inr \<circ> snd) (?ms y) = map Inr (sent ?t y)" for y
    using logs [of y] m by (auto simp: flight_ok_def)
  ultimately show ?thesis unfolding duplex_inv_def by blast
qed

lemma duplex_inv_reach:
  assumes laws: "aead_correct P" "x25519_commutes P"
  shows "duplex_reach P s0 s \<Longrightarrow> \<exists>ms. duplex_inv P s0 ms \<Longrightarrow> \<exists>ms. duplex_inv P s ms"
proof (induction rule: duplex_reach.induct)
  case (step s t)
  then obtain ms where inv: "duplex_inv P s ms" by blast
  from step.hyps(2) show ?case
    by (cases rule: duplex_stepE)
      (blast intro: duplex_inv_send [OF laws(2) inv] duplex_inv_recv [OF laws inv])+
qed

lemma paired_inv:
  assumes laws: "x25519_commutes P" and keys: "length a = 32" "length j = 32"
    and joiner: "joiner_ratchet P master hybrid j (p_x25519_pub P a) = Inr J"
  shows "duplex_inv P (paired (inviter_ratchet P master hybrid a (p_x25519_pub P j)) J) (\<lambda>_. [])"
proof -
  let ?A = "inviter_ratchet P master hybrid a (p_x25519_pub P j)"
  let ?j = "from_master P master False hybrid j"
  obtain dh where dh: "p_x25519 P a (p_x25519_pub P j) = Inr dh" "p_x25519 P j (p_x25519_pub P a) = Inr dh"
    using dh_shared [OF laws keys] .
  note len = pub_length [OF laws keys(1)] pub_length [OF laws keys(2)]
  have J: "J = ?j\<lparr>dh_peer_public := Some (p_x25519_pub P a),
      root_key := fst (kdf_rk P (root_key ?j) dh),
      recv_chain_key := Some (snd (kdf_rk P (root_key ?j) dh)), recv_n := 0\<rparr>"
    using joiner dh len
    by (auto simp: joiner_ratchet_def pairing_recv_init_def x25519_shared_secret_def from_master_def
        Let_def)
  have "same_chain P J ?A [] []"
    unfolding same_chain_def J
    by (rule exI [of _ 0], rule exI [of _ "hkdf_derive P (root_key ?j) RECV_CHAIN_INFO 32 []"],
        rule exI [of _ 0])
      (simp add: inviter_ratchet_def from_master_def Let_def expects_def)
  moreover have "key_ok P ?A" "key_ok P J"
    using keys len unfolding J
    by (simp_all add: key_ok_def inviter_ratchet_def from_master_def Let_def)
  ultimately have "unopened P ?A J [] []"
    using dh unfolding unopened_def J
    by (simp add: inviter_ratchet_def from_master_def Let_def expects_def)
  then show ?thesis by (simp add: duplex_inv_def paired_def flight_ok_def)
qed

lemma paired_joiner_total:
  assumes laws: "x25519_commutes P" and keys: "length a = 32" "length j = 32"
  obtains J where "joiner_ratchet P master hybrid j (p_x25519_pub P a) = Inr J"
proof -
  obtain dh where dh: "p_x25519 P j (p_x25519_pub P a) = Inr dh"
    using dh_shared [OF laws keys] by metis
  then show thesis using that pub_length [OF laws keys(1)]
    by (simp add: joiner_ratchet_def pairing_recv_init_def x25519_shared_secret_def from_master_def
        Let_def)
qed

text \<open>
  The property of the ratchet as a whole: along every run after pairing, each party's
  \<open>decrypt\<close> calls return exactly the texts sent to it, in order and without a refusal.
\<close>

lemma duplex_delivery:
  assumes laws: "aead_correct P" "x25519_commutes P" and keys: "length a = 32" "length j = 32"
    and joiner: "joiner_ratchet P master hybrid j (p_x25519_pub P a) = Inr J"
    and run: "duplex_reach P (paired (inviter_ratchet P master hybrid a (p_x25519_pub P j)) J) s"
  shows "got s x = map Inr (take (length (got s x)) (sent s x))
    \<and> length (sent s x) = length (got s x) + length (wire s x)"
proof -
  obtain ms where inv: "duplex_inv P s ms"
    using duplex_inv_reach [OF laws run] paired_inv [OF laws(2) keys joiner] by blast
  then have log: "got s x @ map (Inr \<circ> snd) (ms x) = map Inr (sent s x)"
    unfolding duplex_inv_def by blast
  have "length (wire s x) = length (ms x)"
  proof -
    have same: "same_chain P S R q m \<Longrightarrow> length q = length m" for S R q m
      by (auto simp: same_chain_def)
    have ahead: "ahead P S R q m \<Longrightarrow> length q = length m" for S R q m
      by (auto simp: ahead_def)
    have linked: "linked P X Y qY mY qX mX \<Longrightarrow> length qY = length mY \<and> length qX = length mX"
      for X Y qY mY qX mX
      unfolding linked_def using same ahead by blast
    have unopened: "unopened P A J q m \<Longrightarrow> length q = length m" for A J q m
      unfolding unopened_def using same by blast
    from inv consider z where "linked P (party s z) (party s (other z)) (wire s (other z)) (ms (other z))
        (wire s z) (ms z)"
      | "unopened P (party s Inviter) (party s Joiner) (wire s Inviter) (ms Inviter)"
        "wire s Joiner = []" "ms Joiner = []"
      unfolding duplex_inv_def by blast
    then show ?thesis
    proof cases
      case (1 z)
      have "x = z \<or> x = other z" by (cases x; cases z) auto
      with linked [OF 1] show ?thesis by auto
    next
      case 2
      with unopened [OF 2(1)] show ?thesis by (cases x) auto
    qed
  qed
  moreover have "got s x = take (length (got s x)) (map Inr (sent s x))"
    by (metis log append_eq_conv_conj)
  moreover have "length (got s x) + length (ms x) = length (sent s x)"
    using arg_cong [OF log, of length] by simp
  ultimately show ?thesis by (simp add: take_map)
qed

end
