(* ===== verification/Pairing.thy ===== *)
theory Pairing
  imports Invite Authorization Duplex
begin

text \<open>
  The pairing handshake of \<open>pairing.py\<close>: request and response with their encodings, the
  transcript, the master secret of either side, the contacts that result, and the offline
  variant over URLs with the session a joiner keeps meanwhile.
\<close>

section \<open>Messages\<close>

definition PAIR_MASTER_INFO :: bytes where "PAIR_MASTER_INFO = utf8 ''yakr/v0.4/pair-master''"
definition PAIR_REQUEST_PREFIX :: str where "PAIR_REQUEST_PREFIX = ''yakr://pair-request/''"
definition PAIR_RESPONSE_PREFIX :: str where "PAIR_RESPONSE_PREFIX = ''yakr://pair-response/''"

definition invite_tag_for_secret :: "prims \<Rightarrow> bytes \<Rightarrow> str res" where
  "invite_tag_for_secret P invite_secret =
     (if length invite_secret \<noteq> 32 then Inl (ValueError ''invite_secret must be 32 bytes'')
      else Inr (b64encode (p_sha256 P invite_secret)))"

record pairing_request =
  pq_invite_secret :: bytes
  pq_joiner_name :: str
  pq_joiner_signing :: bytes
  pq_agreement_public :: bytes
  pq_ephemeral_public :: bytes
  pq_ratchet_public :: bytes
  pq_profile :: bytes
  pq_kem_ciphertext :: bytes

definition request_to_bytes :: "prims \<Rightarrow> pairing_request \<Rightarrow> bytes" where
  "request_to_bytes P r = p_cbor_dumps P (CMap
     ([(''invite_secret'', CBytes (pq_invite_secret r)), (''joiner_name'', CStr (pq_joiner_name r)),
       (''joiner_signing_public'', CBytes (pq_joiner_signing r)),
       (''joiner_agreement_public'', CBytes (pq_agreement_public r)),
       (''joiner_ephemeral_public'', CBytes (pq_ephemeral_public r)),
       (''joiner_ratchet_public'', CBytes (pq_ratchet_public r)),
       (''joiner_profile'', CBytes (pq_profile r))] @
      when_item (pq_kem_ciphertext r \<noteq> []) ''kem_ciphertext'' (CBytes (pq_kem_ciphertext r))))"

definition request_from_bytes :: "prims \<Rightarrow> bytes \<Rightarrow> pairing_request res" where
  "request_from_bytes P data =
     and_then (p_cbor_loads P data) (\<lambda>v.
     and_then (c_map ''invalid pairing request'' v) (\<lambda>payload.
     and_then (and_then (cget payload ''invite_secret'') c_bytes) (\<lambda>secret.
     and_then (and_then (cget payload ''joiner_name'') c_str) (\<lambda>name.
     and_then (and_then (cget payload ''joiner_signing_public'') c_bytes) (\<lambda>sp.
     and_then (and_then (cget payload ''joiner_agreement_public'') c_bytes) (\<lambda>ap.
     and_then (and_then (cget payload ''joiner_ephemeral_public'') c_bytes) (\<lambda>ep.
     and_then (opt_cbytes payload ''joiner_ratchet_public'') (\<lambda>rp.
     and_then (opt_cbytes payload ''joiner_profile'') (\<lambda>profile.
     and_then (opt_cbytes payload ''kem_ciphertext'') (\<lambda>kem.
     Inr \<lparr>pq_invite_secret = secret, pq_joiner_name = name, pq_joiner_signing = sp,
          pq_agreement_public = ap, pq_ephemeral_public = ep, pq_ratchet_public = rp,
          pq_profile = profile, pq_kem_ciphertext = kem\<rparr>))))))))))"

record pairing_response =
  ps_ephemeral_public :: bytes
  ps_ratchet_public :: bytes
  ps_transcript_hash :: bytes
  ps_profile :: bytes

definition response_to_bytes :: "prims \<Rightarrow> pairing_response \<Rightarrow> bytes" where
  "response_to_bytes P r = p_cbor_dumps P (CMap
     [(''inviter_ephemeral_public'', CBytes (ps_ephemeral_public r)),
      (''inviter_ratchet_public'', CBytes (ps_ratchet_public r)),
      (''transcript_hash'', CBytes (ps_transcript_hash r)),
      (''inviter_profile'', CBytes (ps_profile r))])"

definition response_from_bytes :: "prims \<Rightarrow> bytes \<Rightarrow> pairing_response res" where
  "response_from_bytes P data =
     and_then (p_cbor_loads P data) (\<lambda>v.
     and_then (c_map ''invalid pairing response'' v) (\<lambda>payload.
     and_then (and_then (cget payload ''inviter_ephemeral_public'') c_bytes) (\<lambda>ep.
     and_then (opt_cbytes payload ''inviter_ratchet_public'') (\<lambda>rp.
     and_then (and_then (cget payload ''transcript_hash'') c_bytes) (\<lambda>th.
     and_then (opt_cbytes payload ''inviter_profile'') (\<lambda>profile.
     Inr \<lparr>ps_ephemeral_public = ep, ps_ratchet_public = rp, ps_transcript_hash = th,
          ps_profile = profile\<rparr>))))))"

record pairing_secrets =
  sec_ephemeral :: bytes
  sec_ratchet :: bytes
  sec_pq :: "bytes option"

text \<open>\<open>e\<close>, \<open>r\<close> and \<open>rnd\<close>: the fresh ephemeral and ratchet keys and the KEM randomness.\<close>

definition build_pairing_request ::
    "prims \<Rightarrow> bytes \<Rightarrow> bytes \<Rightarrow> bytes \<Rightarrow> identity \<Rightarrow> invite_bundle \<Rightarrow> str \<Rightarrow> bytes \<Rightarrow>
     (pairing_request \<times> pairing_secrets) res" where
  "build_pairing_request P e r rnd i invite joiner_name joiner_profile =
     and_then (if invite_supports_hybrid invite
               then and_then (kem_encapsulate P rnd (iv_kem_public invite)) (\<lambda>(ct, ss). Inr (ct, Some ss))
               else Inr ([], None)) (\<lambda>(kem_ciphertext, pq_secret).
     Inr (\<lparr>pq_invite_secret = iv_secret invite, pq_joiner_name = joiner_name,
           pq_joiner_signing = signing_public_bytes P i,
           pq_agreement_public = agreement_public_bytes P i,
           pq_ephemeral_public = p_x25519_pub P e, pq_ratchet_public = p_x25519_pub P r,
           pq_profile = joiner_profile, pq_kem_ciphertext = kem_ciphertext\<rparr>,
          \<lparr>sec_ephemeral = e, sec_ratchet = r, sec_pq = pq_secret\<rparr>))"

section \<open>Transcript and master secret\<close>

definition validate_pairing_request_for_invite :: "invite_bundle \<Rightarrow> pairing_request \<Rightarrow> unit res" where
  "validate_pairing_request_for_invite invite request =
     (if pq_invite_secret request \<noteq> iv_secret invite
      then Inl (ValueError ''pairing invite secret mismatch'')
      else if length (pq_ratchet_public request) \<noteq> 32
      then Inl (ValueError ''pairing request missing joiner ratchet public key'')
      else if invite_supports_hybrid invite
      then require (pq_kem_ciphertext request \<noteq> []) (ValueError ''hybrid invite requires kem ciphertext'')
      else require (pq_kem_ciphertext request = [])
             (ValueError ''unexpected kem ciphertext on classical invite''))"

definition PIPE :: byte where "PIPE = 124"

definition pairing_transcript ::
    "prims \<Rightarrow> invite_bundle \<Rightarrow> pairing_request \<Rightarrow> bytes \<Rightarrow> bytes \<Rightarrow> bytes res" where
  "pairing_transcript P invite request inviter_ephemeral inviter_ratchet_pub =
     and_then (validate_pairing_request_for_invite invite request) (\<lambda>_.
     Inr (p_sha256 P (py_join [PIPE]
       ([utf8 (iv_protocol invite), iv_secret invite, iv_signing_public invite,
         iv_agreement_public invite, pq_joiner_signing request, pq_agreement_public request,
         pq_ephemeral_public request, inviter_ephemeral, pq_ratchet_public request,
         inviter_ratchet_pub] @
        (if invite_supports_hybrid invite then [pq_kem_ciphertext request] else [])))))"

text \<open>\<open>derive_pair_master\<close>, and \<open>derive_pair_master_joiner\<close> which has the same body.\<close>

definition derive_pair_master ::
    "prims \<Rightarrow> bytes \<Rightarrow> bytes \<Rightarrow> bytes \<Rightarrow> bytes \<Rightarrow> bytes \<Rightarrow> bytes option \<Rightarrow> bytes res" where
  "derive_pair_master P agreement_priv peer_agreement ephemeral_priv peer_ephemeral th pq_secret =
     and_then (x25519_shared_secret P agreement_priv peer_agreement) (\<lambda>identity_shared.
     and_then (x25519_shared_secret P ephemeral_priv peer_ephemeral) (\<lambda>ephemeral_shared.
     case pq_secret of
       Some s \<Rightarrow> derive_hybrid_master P identity_shared ephemeral_shared s th
     | None \<Rightarrow> Inr (hkdf_derive P (identity_shared @ ephemeral_shared) PAIR_MASTER_INFO 32 th)))"

definition contact_id_for :: "prims \<Rightarrow> bytes \<Rightarrow> bytes \<Rightarrow> bytes" where
  "contact_id_for P signing agreement = p_sha256 P (signing @ agreement)"

definition profile_from_pairing_bytes :: "prims \<Rightarrow> bytes \<Rightarrow> bytes \<Rightarrow> delivery_profile option res" where
  "profile_from_pairing_bytes P data signing =
     (if data = [] then Inr None
      else and_then (profile_from_bytes P data) (\<lambda>p.
           and_then (verify_delivery_profile P p signing) (\<lambda>_. Inr (Some p))))"

section \<open>The two sides\<close>

definition inviter_complete_pairing ::
    "prims \<Rightarrow> identity \<Rightarrow> invite_bundle \<Rightarrow> pairing_request \<Rightarrow> bytes \<Rightarrow> bytes \<Rightarrow> bytes \<Rightarrow> int \<Rightarrow>
     (pairing_response \<times> contact) res" where
  "inviter_complete_pairing P i invite request e inviter_profile r now =
     and_then (validate_pairing_request_for_invite invite request) (\<lambda>_.
     let e_pub = p_x25519_pub P e; r_pub = p_x25519_pub P r in
     and_then (pairing_transcript P invite request e_pub r_pub) (\<lambda>th.
     let hybrid = invite_supports_hybrid invite in
     and_then (if hybrid then
                 if pq_kem_ciphertext request = []
                 then Inl (ValueError ''hybrid invite requires kem ciphertext'')
                 else if kem_private i = [] then Inl (ValueError ''inviter missing ML-KEM secret key'')
                 else and_then (kem_decapsulate P (kem_private i) (pq_kem_ciphertext request))
                        (\<lambda>s. Inr (Some s))
               else Inr None) (\<lambda>pq_secret.
     and_then (derive_pair_master P (agreement_private i) (pq_agreement_public request) e
                 (pq_ephemeral_public request) th pq_secret) (\<lambda>master.
     let ratchet = inviter_ratchet P master hybrid r (pq_ratchet_public request) in
     and_then (profile_from_pairing_bytes P (pq_profile request) (pq_joiner_signing request)) (\<lambda>p.
     let c = \<lparr>c_name = pq_joiner_name request, c_signing_public = pq_joiner_signing request,
              c_agreement_public = pq_agreement_public request, master_secret = master,
              c_conversation_id = conversation_id_for (id_name i) (pq_joiner_name request),
              next_send_seq = 1, last_recv_seq = 0,
              contact_id = Some (contact_id_for P (pq_joiner_signing request) (pq_agreement_public request)),
              transcript_hash = Some th, c_ratchet = Some ratchet, c_profile = p, acked_version = 0,
              acked_relays = [], hybrid_pq = hybrid, session_started_at = now, privacy_mode = ''fast''\<rparr> in
     and_then (apply_peer_profile_ack_from_bytes P inviter_profile (signing_public_bytes P i) c) (\<lambda>c'.
     Inr (\<lparr>ps_ephemeral_public = e_pub, ps_ratchet_public = r_pub, ps_transcript_hash = th,
           ps_profile = inviter_profile\<rparr>, c')))))))"

definition joiner_complete_pairing ::
    "prims \<Rightarrow> identity \<Rightarrow> invite_bundle \<Rightarrow> pairing_request \<Rightarrow> pairing_secrets \<Rightarrow> pairing_response \<Rightarrow>
     int \<Rightarrow> contact res" where
  "joiner_complete_pairing P i invite request secrets response now =
     and_then (pairing_transcript P invite request (ps_ephemeral_public response)
                 (ps_ratchet_public response)) (\<lambda>th.
     if ps_transcript_hash response \<noteq> th then Inl (ValueError ''pairing transcript mismatch'')
     else if length (ps_ratchet_public response) \<noteq> 32
     then Inl (ValueError ''pairing response missing inviter ratchet public key'')
     else and_then (validate_pairing_request_for_invite invite request) (\<lambda>_.
     let hybrid = invite_supports_hybrid invite;
         pq_secret = (if hybrid then sec_pq secrets else None) in
     if hybrid \<and> pq_secret = None then Inl (ValueError ''missing PQ shared secret for hybrid pairing'') else
     and_then (derive_pair_master P (agreement_private i) (iv_agreement_public invite)
                 (sec_ephemeral secrets) (ps_ephemeral_public response) (ps_transcript_hash response)
                 pq_secret) (\<lambda>master.
     and_then (joiner_ratchet P master hybrid (sec_ratchet secrets) (ps_ratchet_public response)) (\<lambda>ratchet.
     and_then (profile_from_pairing_bytes P (ps_profile response) (iv_signing_public invite)) (\<lambda>p.
     let c = \<lparr>c_name = iv_inviter_name invite, c_signing_public = iv_signing_public invite,
              c_agreement_public = iv_agreement_public invite, master_secret = master,
              c_conversation_id = conversation_id_for (iv_inviter_name invite) (id_name i),
              next_send_seq = 1, last_recv_seq = 0,
              contact_id = Some (contact_id_for P (iv_signing_public invite) (iv_agreement_public invite)),
              transcript_hash = Some (ps_transcript_hash response), c_ratchet = Some ratchet,
              c_profile = p, acked_version = 0, acked_relays = [], hybrid_pq = hybrid,
              session_started_at = now, privacy_mode = ''fast''\<rparr> in
     apply_peer_profile_ack_from_bytes P (pq_profile request) (signing_public_bytes P i) c)))))"

definition respond_to_pair_request ::
    "prims \<Rightarrow> identity \<Rightarrow> invite_bundle \<Rightarrow> pairing_request \<Rightarrow> bytes \<Rightarrow> bytes \<Rightarrow> bytes \<Rightarrow> int \<Rightarrow>
     (pairing_response \<times> contact \<times> str) res" where
  "respond_to_pair_request P i invite request e inviter_profile r now =
     and_then (verify_invite P invite now) (\<lambda>_.
     if pq_invite_secret request \<noteq> iv_secret invite
     then Inl (ValueError ''pairing request invite secret mismatch'') else
     and_then (inviter_complete_pairing P i invite request e inviter_profile r now) (\<lambda>(response, c).
     Inr (response, c, PAIR_RESPONSE_PREFIX @ b64encode (response_to_bytes P response))))"

section \<open>URLs and the joiner's pending session\<close>

definition pair_request_to_url :: "prims \<Rightarrow> pairing_request \<Rightarrow> str" where
  "pair_request_to_url P request = PAIR_REQUEST_PREFIX @ b64encode (request_to_bytes P request)"

definition pair_request_from_url :: "prims \<Rightarrow> str \<Rightarrow> pairing_request res" where
  "pair_request_from_url P url =
     (if \<not> starts_with PAIR_REQUEST_PREFIX url then Inl (ValueError ''invalid pair request url'')
      else and_then (b64decode (drop (length PAIR_REQUEST_PREFIX) url)) (request_from_bytes P))"

definition pair_response_to_url :: "prims \<Rightarrow> pairing_response \<Rightarrow> str" where
  "pair_response_to_url P response = PAIR_RESPONSE_PREFIX @ b64encode (response_to_bytes P response)"

definition pair_response_from_url :: "prims \<Rightarrow> str \<Rightarrow> pairing_response res" where
  "pair_response_from_url P url =
     (if \<not> starts_with PAIR_RESPONSE_PREFIX url then Inl (ValueError ''invalid pair response url'')
      else and_then (b64decode (drop (length PAIR_RESPONSE_PREFIX) url)) (response_from_bytes P))"

record pending_pairing =
  pp_invite_url :: str
  pp_request_url :: str
  pp_ephemeral_hex :: str
  pp_ratchet_hex :: str
  pp_pq_hex :: "str option"

definition pending_to_dict :: "pending_pairing \<Rightarrow> json" where
  "pending_to_dict s = JObj
     [(''invite_url'', JStr (pp_invite_url s)), (''request_url'', JStr (pp_request_url s)),
      (''ephemeral_private_hex'', JStr (pp_ephemeral_hex s)),
      (''ratchet_private_hex'', JStr (pp_ratchet_hex s)),
      (''pq_secret_hex'', (case pp_pq_hex s of None \<Rightarrow> JNull | Some h \<Rightarrow> JStr h))]"

definition pending_from_dict :: "json \<Rightarrow> pending_pairing res" where
  "pending_from_dict j =
     and_then (jobj j) (\<lambda>payload.
     let ratchet_hex = jget_default payload ''ratchet_private_hex'' JNull in
     if \<not> jtruthy ratchet_hex
     then Inl (ValueError ''pending pairing session missing ratchet private key'') else
     and_then (and_then (jget payload ''invite_url'') jstr) (\<lambda>iu.
     and_then (and_then (jget payload ''request_url'') jstr) (\<lambda>ru.
     and_then (and_then (jget payload ''ephemeral_private_hex'') jstr) (\<lambda>eh.
     and_then (jstr ratchet_hex) (\<lambda>rh.
     and_then (case jget_default payload ''pq_secret_hex'' JNull of JNull \<Rightarrow> Inr None
               | v \<Rightarrow> and_then (jtext v) (\<lambda>h. Inr (Some h))) (\<lambda>ph.
     Inr \<lparr>pp_invite_url = iu, pp_request_url = ru, pp_ephemeral_hex = eh, pp_ratchet_hex = rh,
          pp_pq_hex = ph\<rparr>))))))"

definition pending_secrets :: "pending_pairing \<Rightarrow> pairing_secrets res" where
  "pending_secrets s =
     and_then (and_then (from_hex (pp_ephemeral_hex s)) key32) (\<lambda>e.
     and_then (and_then (from_hex (pp_ratchet_hex s)) key32) (\<lambda>r.
     and_then (case pp_pq_hex s of None \<Rightarrow> Inr None
               | Some h \<Rightarrow> if h = [] then Inr None else and_then (from_hex h) (\<lambda>b. Inr (Some b))) (\<lambda>p.
     Inr \<lparr>sec_ephemeral = e, sec_ratchet = r, sec_pq = p\<rparr>)))"

definition pending_session_from_request ::
    "prims \<Rightarrow> str \<Rightarrow> pairing_request \<Rightarrow> pairing_secrets \<Rightarrow> pending_pairing" where
  "pending_session_from_request P invite_url request secrets =
     \<lparr>pp_invite_url = invite_url, pp_request_url = pair_request_to_url P request,
      pp_ephemeral_hex = to_hex (sec_ephemeral secrets), pp_ratchet_hex = to_hex (sec_ratchet secrets),
      pp_pq_hex = (case sec_pq secrets of None \<Rightarrow> None | Some s \<Rightarrow> if s = [] then None else Some (to_hex s))\<rparr>"

definition build_offline_pairing_request ::
    "prims \<Rightarrow> bytes \<Rightarrow> bytes \<Rightarrow> bytes \<Rightarrow> identity \<Rightarrow> invite_bundle \<Rightarrow> str option \<Rightarrow> bytes \<Rightarrow>
     (pairing_request \<times> pairing_secrets \<times> str) res" where
  "build_offline_pairing_request P e r rnd i invite joiner_name joiner_profile =
     (let name = (case joiner_name of None \<Rightarrow> id_name i | Some n \<Rightarrow> if n = [] then id_name i else n) in
      and_then (build_pairing_request P e r rnd i invite name joiner_profile) (\<lambda>(request, secrets).
      Inr (request, secrets, pair_request_to_url P request)))"

definition finish_offline_pairing ::
    "prims \<Rightarrow> identity \<Rightarrow> invite_bundle \<Rightarrow> pairing_request \<Rightarrow> pairing_secrets \<Rightarrow> str \<Rightarrow> str option \<Rightarrow>
     int \<Rightarrow> contact res" where
  "finish_offline_pairing P i invite request secrets response_url contact_name now =
     and_then (pair_response_from_url P response_url) (\<lambda>response.
     and_then (joiner_complete_pairing P i invite request secrets response now) (\<lambda>c.
     Inr (c\<lparr>c_name := (case contact_name of None \<Rightarrow> iv_inviter_name invite
            | Some n \<Rightarrow> if n = [] then iv_inviter_name invite else n)\<rparr>)))"

section \<open>Round trips\<close>

lemma request_from_to_bytes [codec_simps]:
  "cbor_correct P \<Longrightarrow> request_from_bytes P (request_to_bytes P r) = Inr r"
  by (simp add: request_from_bytes_def request_to_bytes_def cget_def cget_default_def opt_cbytes_def)

lemma response_from_to_bytes [codec_simps]:
  "cbor_correct P \<Longrightarrow> response_from_bytes P (response_to_bytes P r) = Inr r"
  by (simp add: response_from_bytes_def response_to_bytes_def cget_def cget_default_def opt_cbytes_def)

lemma request_url_roundtrip [codec_simps]:
  "cbor_correct P \<Longrightarrow> pair_request_from_url P (pair_request_to_url P r) = Inr r"
  by (simp add: pair_request_from_url_def pair_request_to_url_def request_from_to_bytes)

lemma response_url_roundtrip [codec_simps]:
  "cbor_correct P \<Longrightarrow> pair_response_from_url P (pair_response_to_url P r) = Inr r"
  by (simp add: pair_response_from_url_def pair_response_to_url_def response_from_to_bytes)

lemma pending_from_to_dict [codec_simps]:
  "pp_ratchet_hex s \<noteq> [] \<Longrightarrow> pending_from_dict (pending_to_dict s) = Inr s"
  by (cases s; cases "pp_pq_hex s")
    (simp_all add: pending_from_dict_def pending_to_dict_def jget_def jget_default_def Let_def)

lemma to_hex_eq_Nil [simp]: "to_hex b = [] \<longleftrightarrow> b = []"
  by (cases b) auto

text \<open>A joiner that stops and starts again has the same secrets.\<close>

lemma pending_session_roundtrip [codec_simps]:
  assumes "length (sec_ephemeral secrets) = 32" "length (sec_ratchet secrets) = 32" "sec_pq secrets \<noteq> Some []"
  shows "and_then (pending_from_dict (pending_to_dict (pending_session_from_request P url request secrets)))
     pending_secrets = Inr secrets"
proof -
  have "pp_ratchet_hex (pending_session_from_request P url request secrets) \<noteq> []"
    using assms by (auto simp: pending_session_from_request_def)
  then show ?thesis
    using assms
    by (simp add: pending_from_to_dict)
      (cases secrets; auto simp: pending_session_from_request_def pending_secrets_def key32_def split: option.splits)
qed

section \<open>Downgrade and uplift\<close>

lemma validate_pairing_request_Inr:
  "validate_pairing_request_for_invite invite request = Inr u \<longleftrightarrow>
     pq_invite_secret request = iv_secret invite \<and> length (pq_ratchet_public request) = 32 \<and>
     (invite_supports_hybrid invite \<longleftrightarrow> pq_kem_ciphertext request \<noteq> [])"
  by (auto simp: validate_pairing_request_for_invite_def)

lemma apply_ack_frame:
  "apply_peer_profile_ack_from_bytes P b pk c = Inr c' \<Longrightarrow>
   c' = c\<lparr>acked_version := acked_version c', acked_relays := acked_relays c'\<rparr>"
  by (cases c) (auto simp: apply_peer_profile_ack_from_bytes_def apply_peer_profile_ack_def split: if_splits)

lemma inviter_complete_pairing_Inr:
  assumes "inviter_complete_pairing P i invite request e inviter_profile r now = Inr (response, c)"
  obtains th pq_secret where
    "pairing_transcript P invite request (p_x25519_pub P e) (p_x25519_pub P r) = Inr th"
    "derive_pair_master P (agreement_private i) (pq_agreement_public request) e (pq_ephemeral_public request)
       th pq_secret = Inr (master_secret c)"
    "if invite_supports_hybrid invite
     then \<exists>s. pq_secret = Some s \<and> kem_decapsulate P (kem_private i) (pq_kem_ciphertext request) = Inr s
     else pq_secret = None"
    "c_ratchet c = Some (inviter_ratchet P (master_secret c) (invite_supports_hybrid invite) r (pq_ratchet_public request))"
    "hybrid_pq c = invite_supports_hybrid invite" "c_name c = pq_joiner_name request"
    "c_conversation_id c = conversation_id_for (id_name i) (pq_joiner_name request)"
    "transcript_hash c = Some th" "next_send_seq c = 1" "last_recv_seq c = 0" "privacy_mode c = ''fast''"
    "response = \<lparr>ps_ephemeral_public = p_x25519_pub P e, ps_ratchet_public = p_x25519_pub P r,
       ps_transcript_hash = th, ps_profile = inviter_profile\<rparr>"
    "pq_invite_secret request = iv_secret invite"
    "c_signing_public c = pq_joiner_signing request"
    "profile_from_pairing_bytes P (pq_profile request) (pq_joiner_signing request) = Inr (c_profile c)"
proof -
  from assms obtain u th pq_secret master p c0 where v: "validate_pairing_request_for_invite invite request = Inr u"
    "pairing_transcript P invite request (p_x25519_pub P e) (p_x25519_pub P r) = Inr th"
    "(if invite_supports_hybrid invite then
                 if pq_kem_ciphertext request = []
                 then Inl (ValueError ''hybrid invite requires kem ciphertext'')
                 else if kem_private i = [] then Inl (ValueError ''inviter missing ML-KEM secret key'')
                 else and_then (kem_decapsulate P (kem_private i) (pq_kem_ciphertext request))
                        (\<lambda>s. Inr (Some s))
               else Inr None) = Inr pq_secret"
    "derive_pair_master P (agreement_private i) (pq_agreement_public request) e
                 (pq_ephemeral_public request) th pq_secret = Inr master"
    "profile_from_pairing_bytes P (pq_profile request) (pq_joiner_signing request) = Inr p"
    and c0: "c0 = \<lparr>c_name = pq_joiner_name request, c_signing_public = pq_joiner_signing request,
              c_agreement_public = pq_agreement_public request, master_secret = master,
              c_conversation_id = conversation_id_for (id_name i) (pq_joiner_name request),
              next_send_seq = 1, last_recv_seq = 0,
              contact_id = Some (contact_id_for P (pq_joiner_signing request) (pq_agreement_public request)),
              transcript_hash = Some th,
              c_ratchet = Some (inviter_ratchet P master (invite_supports_hybrid invite) r (pq_ratchet_public request)),
              c_profile = p, acked_version = 0,
              acked_relays = [], hybrid_pq = invite_supports_hybrid invite, session_started_at = now,
              privacy_mode = ''fast''\<rparr>"
    and ack: "apply_peer_profile_ack_from_bytes P inviter_profile (signing_public_bytes P i) c0 = Inr c"
    and resp: "response = \<lparr>ps_ephemeral_public = p_x25519_pub P e, ps_ratchet_public = p_x25519_pub P r,
       ps_transcript_hash = th, ps_profile = inviter_profile\<rparr>"
    unfolding inviter_complete_pairing_def Let_def by (elim and_then_InrE) auto
  have c: "c = c0\<lparr>acked_version := acked_version c, acked_relays := acked_relays c\<rparr>"
    by (rule apply_ack_frame [OF ack])
  have f: "master_secret c = master" "c_ratchet c = c_ratchet c0" "hybrid_pq c = hybrid_pq c0"
    "c_name c = c_name c0" "c_conversation_id c = c_conversation_id c0" "transcript_hash c = Some th"
    "next_send_seq c = 1" "last_recv_seq c = 0" "privacy_mode c = ''fast''"
    "c_signing_public c = c_signing_public c0" "c_profile c = p"
    by (subst c, simp add: c0)+
  show thesis
    by (rule that [of th pq_secret])
      (use v resp f c0 in \<open>auto simp: validate_pairing_request_Inr split: if_splits\<close>)
qed

lemma joiner_complete_pairing_Inr:
  assumes "joiner_complete_pairing P j invite request secrets response now = Inr c"
  obtains pq_secret where
    "pairing_transcript P invite request (ps_ephemeral_public response) (ps_ratchet_public response)
       = Inr (ps_transcript_hash response)"
    "pq_secret = (if invite_supports_hybrid invite then sec_pq secrets else None)"
    "invite_supports_hybrid invite \<Longrightarrow> pq_secret \<noteq> None"
    "derive_pair_master P (agreement_private j) (iv_agreement_public invite) (sec_ephemeral secrets)
       (ps_ephemeral_public response) (ps_transcript_hash response) pq_secret = Inr (master_secret c)"
    "joiner_ratchet P (master_secret c) (invite_supports_hybrid invite) (sec_ratchet secrets)
       (ps_ratchet_public response) = Inr (the (c_ratchet c))" "c_ratchet c \<noteq> None"
    "hybrid_pq c = invite_supports_hybrid invite" "c_name c = iv_inviter_name invite"
    "c_conversation_id c = conversation_id_for (iv_inviter_name invite) (id_name j)"
    "transcript_hash c = Some (ps_transcript_hash response)" "next_send_seq c = 1"
    "last_recv_seq c = 0" "privacy_mode c = ''fast''"
proof -
  from assms obtain th where th: "pairing_transcript P invite request (ps_ephemeral_public response)
      (ps_ratchet_public response) = Inr th" "ps_transcript_hash response = th"
    unfolding joiner_complete_pairing_def by (elim and_then_InrE) (auto split: if_splits)
  let ?pq = "if invite_supports_hybrid invite then sec_pq secrets else None"
  from assms th have nn: "\<not> (invite_supports_hybrid invite \<and> ?pq = None)"
    unfolding joiner_complete_pairing_def Let_def by (auto split: if_splits)
  from assms th nn obtain master ratchet p c0 where v:
    "derive_pair_master P (agreement_private j) (iv_agreement_public invite) (sec_ephemeral secrets)
       (ps_ephemeral_public response) th ?pq = Inr master"
    "joiner_ratchet P master (invite_supports_hybrid invite) (sec_ratchet secrets)
       (ps_ratchet_public response) = Inr ratchet"
    and c0: "c0 = \<lparr>c_name = iv_inviter_name invite, c_signing_public = iv_signing_public invite,
              c_agreement_public = iv_agreement_public invite, master_secret = master,
              c_conversation_id = conversation_id_for (iv_inviter_name invite) (id_name j),
              next_send_seq = 1, last_recv_seq = 0,
              contact_id = Some (contact_id_for P (iv_signing_public invite) (iv_agreement_public invite)),
              transcript_hash = Some th, c_ratchet = Some ratchet,
              c_profile = p, acked_version = 0, acked_relays = [], hybrid_pq = invite_supports_hybrid invite,
              session_started_at = now, privacy_mode = ''fast''\<rparr>"
    and ack: "apply_peer_profile_ack_from_bytes P (pq_profile request) (signing_public_bytes P j) c0 = Inr c"
    unfolding joiner_complete_pairing_def Let_def by (auto split: if_splits)
  have c: "c = c0\<lparr>acked_version := acked_version c, acked_relays := acked_relays c\<rparr>"
    by (rule apply_ack_frame [OF ack])
  have f: "master_secret c = master" "c_ratchet c = Some ratchet" "hybrid_pq c = hybrid_pq c0"
    "c_name c = c_name c0" "c_conversation_id c = c_conversation_id c0" "transcript_hash c = Some th"
    "next_send_seq c = 1" "last_recv_seq c = 0" "privacy_mode c = ''fast''"
    by (subst c, simp add: c0)+
  show thesis
    by (rule that [of ?pq]) (use v th f c0 nn in auto)
qed

section \<open>Agreement\<close>

text \<open>The keys of the two identities and of the handshake.\<close>

definition handshake_ok ::
    "prims \<Rightarrow> identity \<Rightarrow> identity \<Rightarrow> invite_bundle \<Rightarrow> bytes list \<Rightarrow> bool" where
  "handshake_ok P i j invite ks \<longleftrightarrow> x25519_commutes P \<and> aead_correct P \<and>
     (\<forall>k \<in> set ks. length k = 32) \<and> length (agreement_private i) = 32 \<and>
     length (agreement_private j) = 32 \<and>
     iv_agreement_public invite = agreement_public_bytes P i \<and>
     (invite_supports_hybrid invite \<longrightarrow>
        iv_kem_public invite = kem_public i \<and> kem_pair P (kem_public i) (kem_private i))"

lemma derive_pair_master_agree:
  assumes "x25519_commutes P" "length a = 32" "length b = 32" "length c = 32" "length d = 32"
  shows "derive_pair_master P a (p_x25519_pub P b) c (p_x25519_pub P d) th s
       = derive_pair_master P b (p_x25519_pub P a) d (p_x25519_pub P c) th s"
proof -
  obtain x where "p_x25519 P a (p_x25519_pub P b) = Inr x" "p_x25519 P b (p_x25519_pub P a) = Inr x"
    using dh_shared [OF assms(1-3)] .
  moreover obtain y where "p_x25519 P c (p_x25519_pub P d) = Inr y" "p_x25519 P d (p_x25519_pub P c) = Inr y"
    using dh_shared [OF assms(1,4,5)] .
  ultimately show ?thesis by (simp add: derive_pair_master_def x25519_shared_secret_def)
qed

lemma build_pairing_request_Inr:
  assumes "build_pairing_request P e r rnd j invite name profile = Inr (request, secrets)"
  shows "pq_agreement_public request = agreement_public_bytes P j"
    "pq_ephemeral_public request = p_x25519_pub P e" "pq_ratchet_public request = p_x25519_pub P r"
    "pq_joiner_name request = name" "sec_ephemeral secrets = e" "sec_ratchet secrets = r"
    "invite_supports_hybrid invite \<Longrightarrow> \<exists>s. sec_pq secrets = Some s \<and>
       kem_encapsulate P rnd (iv_kem_public invite) = Inr (pq_kem_ciphertext request, s)"
  using assms by (auto simp: build_pairing_request_def split: if_splits prod.splits)

lemma pairing_agreement:
  assumes ok: "handshake_ok P i j invite [e, r, e', r']"
    and req: "build_pairing_request P e' r' rnd j invite name profile = Inr (request, secrets)"
    and inv: "inviter_complete_pairing P i invite request e inviter_profile r now = Inr (response, ci)"
    and join: "joiner_complete_pairing P j invite request secrets response now' = Inr cj"
  shows "master_secret ci = master_secret cj" "transcript_hash ci = transcript_hash cj"
    "hybrid_pq ci = hybrid_pq cj"
    "c_ratchet ci = Some (inviter_ratchet P (master_secret ci) (hybrid_pq ci) r (p_x25519_pub P r'))"
    "\<exists>J. c_ratchet cj = Some J \<and> joiner_ratchet P (master_secret ci) (hybrid_pq ci) r' (p_x25519_pub P r) = Inr J"
    "next_send_seq ci = last_recv_seq cj + 1" "next_send_seq cj = last_recv_seq ci + 1"
    "name = id_name j \<Longrightarrow> iv_inviter_name invite = id_name i \<Longrightarrow> c_conversation_id ci = c_conversation_id cj"
    "name = id_name j \<Longrightarrow> c_name ci = id_name j"
proof -
  note q = build_pairing_request_Inr [OF req]
  from inv obtain th pqi where I:
    "pairing_transcript P invite request (p_x25519_pub P e) (p_x25519_pub P r) = Inr th"
    "derive_pair_master P (agreement_private i) (pq_agreement_public request) e (pq_ephemeral_public request)
       th pqi = Inr (master_secret ci)"
    "if invite_supports_hybrid invite
     then \<exists>s. pqi = Some s \<and> kem_decapsulate P (kem_private i) (pq_kem_ciphertext request) = Inr s
     else pqi = None"
    "c_ratchet ci = Some (inviter_ratchet P (master_secret ci) (invite_supports_hybrid invite) r (pq_ratchet_public request))"
    "hybrid_pq ci = invite_supports_hybrid invite" "c_name ci = pq_joiner_name request"
    "c_conversation_id ci = conversation_id_for (id_name i) (pq_joiner_name request)"
    "transcript_hash ci = Some th" "next_send_seq ci = 1" "last_recv_seq ci = 0"
    "response = \<lparr>ps_ephemeral_public = p_x25519_pub P e, ps_ratchet_public = p_x25519_pub P r,
       ps_transcript_hash = th, ps_profile = inviter_profile\<rparr>"
    by (elim inviter_complete_pairing_Inr) blast
  from join obtain pqj where J:
    "pqj = (if invite_supports_hybrid invite then sec_pq secrets else None)"
    "derive_pair_master P (agreement_private j) (iv_agreement_public invite) (sec_ephemeral secrets)
       (ps_ephemeral_public response) (ps_transcript_hash response) pqj = Inr (master_secret cj)"
    "joiner_ratchet P (master_secret cj) (invite_supports_hybrid invite) (sec_ratchet secrets)
       (ps_ratchet_public response) = Inr (the (c_ratchet cj))" "c_ratchet cj \<noteq> None"
    "hybrid_pq cj = invite_supports_hybrid invite"
    "c_conversation_id cj = conversation_id_for (iv_inviter_name invite) (id_name j)"
    "transcript_hash cj = Some (ps_transcript_hash response)" "next_send_seq cj = 1" "last_recv_seq cj = 0"
    by (elim joiner_complete_pairing_Inr) blast
  have pq: "pqi = pqj"
  proof (cases "invite_supports_hybrid invite")
    case True
    with q(7) obtain s where s: "sec_pq secrets = Some s"
      "kem_encapsulate P rnd (iv_kem_public invite) = Inr (pq_kem_ciphertext request, s)" by blast
    have "kem_decapsulate P (kem_private i) (pq_kem_ciphertext request) = Inr s"
      using ok True s(2) kem_roundtrip(1) by (auto simp: handshake_ok_def)
    with I(3) J(1) s(1) True show ?thesis by auto
  qed (use I(3) J(1) in auto)
  have "derive_pair_master P (agreement_private i) (p_x25519_pub P (agreement_private j)) e (p_x25519_pub P e') th pqi
      = derive_pair_master P (agreement_private j) (p_x25519_pub P (agreement_private i)) e' (p_x25519_pub P e) th pqi"
    using ok by (intro derive_pair_master_agree) (auto simp: handshake_ok_def)
  then show m: "master_secret ci = master_secret cj"
    using I(2,11) J(2) q ok pq by (simp add: handshake_ok_def agreement_public_bytes_def)
  show "transcript_hash ci = transcript_hash cj" "hybrid_pq ci = hybrid_pq cj"
    "c_ratchet ci = Some (inviter_ratchet P (master_secret ci) (hybrid_pq ci) r (p_x25519_pub P r'))"
    "\<exists>J. c_ratchet cj = Some J \<and> joiner_ratchet P (master_secret ci) (hybrid_pq ci) r' (p_x25519_pub P r) = Inr J"
    "next_send_seq ci = last_recv_seq cj + 1" "next_send_seq cj = last_recv_seq ci + 1"
    using I J q m by auto
  show "name = id_name j \<Longrightarrow> iv_inviter_name invite = id_name i \<Longrightarrow> c_conversation_id ci = c_conversation_id cj"
    "name = id_name j \<Longrightarrow> c_name ci = id_name j"
    using I(6,7) J(6) q(4) by simp_all
qed

lemma derive_pair_master_total:
  assumes "x25519_commutes P" "length a = 32" "length b = 32" "length c = 32" "length d = 32"
    and "case s of None \<Rightarrow> True | Some x \<Rightarrow> length x = p_kem_pt_size P"
  shows "\<exists>m. derive_pair_master P a (p_x25519_pub P b) c (p_x25519_pub P d) th s = Inr m"
proof -
  obtain x where "p_x25519 P a (p_x25519_pub P b) = Inr x" using dh_shared [OF assms(1-3)] by blast
  moreover obtain y where "p_x25519 P c (p_x25519_pub P d) = Inr y"
    using dh_shared [OF assms(1,4,5)] by blast
  ultimately show ?thesis using assms(6)
    by (cases s) (simp_all add: derive_pair_master_def x25519_shared_secret_def derive_hybrid_master_def)
qed

lemma pairing_completes:
  assumes ok: "handshake_ok P i j invite [e, r, e', r']"
    and sizes: "invite_supports_hybrid invite \<Longrightarrow> 0 < p_kem_ct_size P \<and> 0 < p_kem_sk_size P"
  shows "\<exists>request secrets response ci cj.
    build_pairing_request P e' r' rnd j invite name [] = Inr (request, secrets) \<and>
    inviter_complete_pairing P i invite request e [] r now = Inr (response, ci) \<and>
    joiner_complete_pairing P j invite request secrets response now' = Inr cj"
proof -
  have laws: "x25519_commutes P" and len: "length e = 32" "length r = 32" "length e' = 32" "length r' = 32"
    "length (agreement_private i) = 32" "length (agreement_private j) = 32"
    using ok by (auto simp: handshake_ok_def)
  have "\<exists>request secrets. build_pairing_request P e' r' rnd j invite name [] = Inr (request, secrets) \<and>
      pq_profile request = [] \<and> pq_invite_secret request = iv_secret invite \<and>
      (invite_supports_hybrid invite \<longleftrightarrow> pq_kem_ciphertext request \<noteq> []) \<and>
      (invite_supports_hybrid invite \<longrightarrow> (\<exists>s. sec_pq secrets = Some s \<and> length s = p_kem_pt_size P \<and>
         kem_decapsulate P (kem_private i) (pq_kem_ciphertext request) = Inr s \<and> kem_private i \<noteq> []))"
  proof (cases "invite_supports_hybrid invite")
    case True
    then have kp: "iv_kem_public invite = kem_public i" "kem_pair P (kem_public i) (kem_private i)"
      using ok by (simp_all add: handshake_ok_def)
    obtain ct ss where enc: "kem_encapsulate P rnd (iv_kem_public invite) = Inr (ct, ss)" "length ct = p_kem_ct_size P"
      using kp by (cases "p_kem_enc P (kem_public i) rnd") (auto simp: kem_encapsulate_def kem_pair_def, metis fst_conv)
    have "kem_private i \<noteq> []" "ct \<noteq> []" using kp sizes True enc by (auto simp: kem_pair_def)
    moreover have "kem_decapsulate P (kem_private i) ct = Inr ss" "length ss = p_kem_pt_size P"
      using kem_roundtrip [OF kp(2)] enc(1) kp(1) by auto
    ultimately show ?thesis using True enc by (simp add: build_pairing_request_def)
  qed (simp add: build_pairing_request_def)
  then obtain request secrets where b: "build_pairing_request P e' r' rnd j invite name [] = Inr (request, secrets)"
    "pq_profile request = []" "pq_invite_secret request = iv_secret invite"
    "invite_supports_hybrid invite \<longleftrightarrow> pq_kem_ciphertext request \<noteq> []"
    "invite_supports_hybrid invite \<longrightarrow> (\<exists>s. sec_pq secrets = Some s \<and> length s = p_kem_pt_size P \<and>
         kem_decapsulate P (kem_private i) (pq_kem_ciphertext request) = Inr s \<and> kem_private i \<noteq> [])"
    by blast
  note q = build_pairing_request_Inr [OF b(1)]
  have v: "validate_pairing_request_for_invite invite request = Inr ()"
    using b q pub_length [OF laws len(4)] by (simp add: validate_pairing_request_Inr)
  then obtain th where th: "pairing_transcript P invite request (p_x25519_pub P e) (p_x25519_pub P r) = Inr th"
    by (simp add: pairing_transcript_def)
  define s where "s = (if invite_supports_hybrid invite then sec_pq secrets else None)"
  have s: "case s of None \<Rightarrow> True | Some x \<Rightarrow> length x = p_kem_pt_size P" using b(5) by (auto simp: s_def)
  obtain m where m: "derive_pair_master P (agreement_private i) (p_x25519_pub P (agreement_private j)) e
      (p_x25519_pub P e') th s = Inr m"
    using derive_pair_master_total [OF laws len(5,6,1,3) s] by blast
  then have m': "derive_pair_master P (agreement_private j) (p_x25519_pub P (agreement_private i)) e'
      (p_x25519_pub P e) th s = Inr m"
    using derive_pair_master_agree [OF laws len(5,6,1,3)] by simp
  obtain ci where ci: "inviter_complete_pairing P i invite request e [] r now =
      Inr (\<lparr>ps_ephemeral_public = p_x25519_pub P e, ps_ratchet_public = p_x25519_pub P r,
            ps_transcript_hash = th, ps_profile = []\<rparr>, ci)"
    using v th b m q
    by (auto simp: inviter_complete_pairing_def Let_def agreement_public_bytes_def s_def
        profile_from_pairing_bytes_def apply_peer_profile_ack_from_bytes_def split: if_splits)
  obtain J where J: "joiner_ratchet P m (invite_supports_hybrid invite) r' (p_x25519_pub P r) = Inr J"
    using paired_joiner_total [OF laws len(2,4)] .
  have "\<exists>cj. joiner_complete_pairing P j invite request secrets
      \<lparr>ps_ephemeral_public = p_x25519_pub P e, ps_ratchet_public = p_x25519_pub P r,
       ps_transcript_hash = th, ps_profile = []\<rparr> now' = Inr cj"
    using v th b m' q J ok pub_length [OF laws len(2)]
    by (auto simp: joiner_complete_pairing_def Let_def agreement_public_bytes_def s_def handshake_ok_def
        profile_from_pairing_bytes_def apply_peer_profile_ack_from_bytes_def)
  with b(1) ci show ?thesis by blast
qed

end
