(* ===== verification/RelayStore.thy ===== *)
theory RelayStore
  imports Grants Pairing "HOL-Library.Multiset"
begin

text \<open>
  What a relay keeps: the blobs of the mailboxes (\<open>yakr_relay/store.py\<close>), the pairing
  sessions it hosts (\<open>pairing_store.py\<close>) and the registered capability grants with the
  nonces seen (\<open>capability_store.py\<close>). Every method runs under the lock of its store and
  reads the clock once, here the argument \<open>now\<close>. Rows are in the order of their row ids; the
  capability file is kept as the JSON value it holds.
\<close>

section \<open>Blobs\<close>

record stored_blob =
  sb_id :: int
  sb_tag :: bytes
  sb_expires_at :: int
  sb_ciphertext :: bytes
  sb_stored_at :: int
  sb_token :: "bytes option"

record blob_store =
  bs_rows :: "stored_blob list"
  bs_next_id :: int
  max_blob_size :: nat
  max_blobs_per_tag :: int

definition new_blob_store :: blob_store where
  "new_blob_store = \<lparr>bs_rows = [], bs_next_id = 1, max_blob_size = 64 * 1024, max_blobs_per_tag = 256\<rparr>"

definition live :: "bytes \<Rightarrow> int \<Rightarrow> stored_blob \<Rightarrow> bool" where
  "live t now r \<longleftrightarrow> sb_tag r = t \<and> sb_expires_at r > now"

definition blob_put ::
    "bytes \<Rightarrow> int \<Rightarrow> bytes \<Rightarrow> bytes option \<Rightarrow> int \<Rightarrow> (blob_store, unit) meth" where
  "blob_put t expires_at ciphertext token now = m_get (\<lambda>s.
     if length t \<noteq> 32 then m_raise (ValueError ''mailbox_tag must be 32 bytes'')
     else if length ciphertext > max_blob_size s then m_raise (ValueError ''blob too large'')
     else if expires_at \<le> now then m_raise (ValueError ''blob already expired'')
     else if expires_at > now + MAX_RELAY_BLOB_TTL_MS
     then m_raise (ValueError ''blob TTL exceeds 24 hour relay maximum'')
     else if tbl_count (live t now) (bs_rows s) \<ge> max_blobs_per_tag s
     then m_raise (ValueError ''mailbox tag blob limit exceeded'')
     else m_modify (\<lambda>s. s\<lparr>bs_rows := bs_rows s @ [\<lparr>sb_id = bs_next_id s, sb_tag = t,
            sb_expires_at = expires_at, sb_ciphertext = ciphertext, sb_stored_at = now,
            sb_token = token\<rparr>], bs_next_id := bs_next_id s + 1\<rparr>))"

definition blob_consume :: "bytes \<Rightarrow> int \<Rightarrow> bytes \<Rightarrow> (blob_store, bool) meth" where
  "blob_consume t stored_at token = m_get (\<lambda>s.
     if length t \<noteq> 32 then m_raise (ValueError ''mailbox_tag must be 32 bytes'')
     else if token = [] then m_raise (ValueError ''consume_token required'')
     else case find (\<lambda>r. sb_tag r = t \<and> sb_stored_at r = stored_at) (bs_rows s) of
       None \<Rightarrow> m_return False
     | Some r \<Rightarrow>
         if sb_token r \<noteq> Some token then m_raise (ValueError ''consume_token mismatch'')
         else m_bind (m_modify (\<lambda>s. s\<lparr>bs_rows := tbl_delete (\<lambda>x. sb_id x = sb_id r) (bs_rows s)\<rparr>))
                (\<lambda>_. m_return True))"

definition blob_fetch :: "bytes \<Rightarrow> int \<Rightarrow> blob_store \<Rightarrow> stored_blob list" where
  "blob_fetch t now s = sort_key sb_stored_at (filter (live t now) (bs_rows s))"

definition blob_sweep :: "int \<Rightarrow> (blob_store, int) meth" where
  "blob_sweep now = m_get (\<lambda>s.
     m_bind (m_modify (\<lambda>s. s\<lparr>bs_rows := tbl_delete (\<lambda>r. sb_expires_at r \<le> now) (bs_rows s)\<rparr>)) (\<lambda>_.
     m_return (tbl_count (\<lambda>r. sb_expires_at r \<le> now) (bs_rows s))))"

section \<open>Pairing sessions\<close>

record pair_row =
  pr_tag :: str
  pr_secret :: bytes
  pr_registered_at :: int
  pr_request :: "bytes option"
  pr_response :: "bytes option"
  pr_consumed :: bool

record pairing_store =
  ps_rows :: "pair_row list"
  ps_ttl_ms :: int

definition new_pairing_store :: pairing_store where
  "new_pairing_store = \<lparr>ps_rows = [], ps_ttl_ms = 30 * 60 * 1000\<rparr>"

text \<open>\<open>UPDATE \<dots> WHERE invite_tag = k\<close>.\<close>

definition update_rows :: "str \<Rightarrow> (pair_row \<Rightarrow> pair_row) \<Rightarrow> pairing_store \<Rightarrow> pairing_store" where
  "update_rows k f s = s\<lparr>ps_rows := map (\<lambda>r. if pr_tag r = k then f r else r) (ps_rows s)\<rparr>"

definition insert_row :: "pair_row \<Rightarrow> pairing_store \<Rightarrow> pairing_store" where
  "insert_row r s = s\<lparr>ps_rows := ps_rows s @ [r]\<rparr>"

definition pair_row_of :: "str \<Rightarrow> pairing_store \<Rightarrow> pair_row option" where
  "pair_row_of t s = tbl_get pr_tag t (ps_rows s)"

definition pair_sweep :: "int \<Rightarrow> (pairing_store, int) meth" where
  "pair_sweep now = m_get (\<lambda>s. let dead = (\<lambda>r. pr_registered_at r < now - ps_ttl_ms s) in
     m_bind (m_modify (\<lambda>s. s\<lparr>ps_rows := tbl_delete dead (ps_rows s)\<rparr>)) (\<lambda>_.
     m_return (tbl_count dead (ps_rows s))))"

definition pair_register :: "prims \<Rightarrow> bytes \<Rightarrow> int \<Rightarrow> (pairing_store, str) meth" where
  "pair_register P secret now =
     (if length secret \<noteq> 32 then m_raise (ValueError ''invite_secret must be 32 bytes'') else
      m_bind (m_of (invite_tag_for_secret P secret)) (\<lambda>t.
      m_bind (m_get (\<lambda>s. case pair_row_of t s of
          None \<Rightarrow> m_modify (insert_row \<lparr>pr_tag = t, pr_secret = secret, pr_registered_at = now,
                    pr_request = None, pr_response = None, pr_consumed = False\<rparr>)
        | Some r \<Rightarrow>
            if pr_consumed r then m_raise (ValueError ''invite already consumed'')
            else m_modify (update_rows t (\<lambda>r. r\<lparr>pr_secret := secret, pr_registered_at := now,
                   pr_request := None, pr_response := None, pr_consumed := False\<rparr>)))) (\<lambda>_.
      m_return t)))"

definition pair_store_request :: "prims \<Rightarrow> bytes \<Rightarrow> bytes \<Rightarrow> int \<Rightarrow> (pairing_store, str) meth" where
  "pair_store_request P secret request now =
     m_bind (m_of (invite_tag_for_secret P secret)) (\<lambda>t.
     m_bind (m_get (\<lambda>s. case pair_row_of t s of
         None \<Rightarrow> m_modify (insert_row \<lparr>pr_tag = t, pr_secret = secret, pr_registered_at = now,
                   pr_request = Some request, pr_response = None, pr_consumed = False\<rparr>)
       | Some r \<Rightarrow>
           if pr_consumed r then m_raise (ValueError ''invite already consumed'')
           else m_modify (update_rows t (\<lambda>r. r\<lparr>pr_request := Some request\<rparr>)))) (\<lambda>_.
     m_return t))"

definition get_pending_request :: "str \<Rightarrow> pairing_store \<Rightarrow> bytes option" where
  "get_pending_request t s = (case pair_row_of t s of
     None \<Rightarrow> None | Some r \<Rightarrow> if pr_consumed r then None else pr_request r)"

definition pair_store_response :: "prims \<Rightarrow> bytes \<Rightarrow> bytes \<Rightarrow> (pairing_store, str) meth" where
  "pair_store_response P secret response =
     m_bind (m_of (invite_tag_for_secret P secret)) (\<lambda>t.
     m_bind (m_get (\<lambda>s. case pair_row_of t s of
         None \<Rightarrow> m_raise (ValueError ''unknown invite session'')
       | Some r \<Rightarrow>
           if pr_consumed r then m_raise (ValueError ''invite already consumed'')
           else m_modify (update_rows t (\<lambda>r. r\<lparr>pr_response := Some response, pr_consumed := True\<rparr>)))) (\<lambda>_.
     m_return t))"

definition get_response :: "str \<Rightarrow> pairing_store \<Rightarrow> bytes option" where
  "get_response t s = (case pair_row_of t s of
     None \<Rightarrow> None | Some r \<Rightarrow> if \<not> pr_consumed r then None else pr_response r)"

definition verify_secret :: "str \<Rightarrow> bytes \<Rightarrow> pairing_store \<Rightarrow> unit res" where
  "verify_secret t secret s = (case pair_row_of t s of
     None \<Rightarrow> Inl (ValueError ''unknown invite session'')
   | Some r \<Rightarrow> require (pr_secret r = secret) (ValueError ''invite secret mismatch''))"

section \<open>Capability grants\<close>

definition DEFAULT_CAPABILITY_OVERLAP_MS :: int where
  "DEFAULT_CAPABILITY_OVERLAP_MS = 48 * 60 * 60 * 1000"

definition NONCE_TTL_MS :: int where "NONCE_TTL_MS = 10 * 60 * 1000"

record cap_store =
  cs_active :: "(str \<times> json) list"
  cs_nonces :: "(str \<times> json) list"
  cs_overlap_ms :: int
  cs_file :: "json option"

text \<open>A number in an arithmetic expression.\<close>

fun jnum :: "json \<Rightarrow> int res" where
  "jnum (JInt i) = Inr i"
| "jnum (JBool b) = Inr (if b then 1 else 0)"
| "jnum _ = Inl (TypeError ''unsupported operand type'')"

text \<open>A store opened on the file left by an earlier one; \<open>overlap\<close> is the constructor's value.\<close>

definition cap_load :: "int \<Rightarrow> json option \<Rightarrow> cap_store res" where
  "cap_load overlap file = (case file of
     None \<Rightarrow> Inr \<lparr>cs_active = [], cs_nonces = [], cs_overlap_ms = overlap, cs_file = None\<rparr>
   | Some j \<Rightarrow>
       and_then (jobj j) (\<lambda>payload.
       and_then (jobj (jget_default payload ''active'' (JObj []))) (\<lambda>active.
       and_then (jobj (jget_default payload ''seen_nonces'' (JObj []))) (\<lambda>nonces.
       and_then (case jget_default payload ''overlap_window_ms'' JNull of
           JNull \<Rightarrow> Inr overlap | v \<Rightarrow> jint v) (\<lambda>window.
       Inr \<lparr>cs_active = active, cs_nonces = nonces, cs_overlap_ms = window, cs_file = Some j\<rparr>)))))"

definition cap_save :: "(cap_store, unit) meth" where
  "cap_save = m_modify (\<lambda>s. s\<lparr>cs_file := Some (JObj
     [(''active'', JObj (cs_active s)), (''seen_nonces'', JObj (cs_nonces s)),
      (''overlap_window_ms'', JInt (cs_overlap_ms s))])\<rparr>)"

fun filter_recent :: "int \<Rightarrow> (str \<times> json) list \<Rightarrow> (str \<times> json) list res" where
  "filter_recent now [] = Inr []"
| "filter_recent now ((key, seen_at) # ps) =
     and_then (jnum seen_at) (\<lambda>t. and_then (filter_recent now ps) (\<lambda>qs.
     Inr (if now - t \<le> NONCE_TTL_MS then (key, seen_at) # qs else qs)))"

definition prune_nonces :: "int \<Rightarrow> (cap_store, unit) meth" where
  "prune_nonces now = m_get (\<lambda>s. m_bind (m_of (filter_recent now (cs_nonces s))) (\<lambda>ns.
     m_modify (\<lambda>s. s\<lparr>cs_nonces := ns\<rparr>)))"

definition stored_grant :: "prims \<Rightarrow> json \<Rightarrow> capability_grant res" where
  "stored_grant P entry = and_then (jobj entry) (\<lambda>d. and_then (jget d ''grant_b64'') (\<lambda>v.
     and_then (jtext v) (\<lambda>t. and_then (b64decode t) (grant_from_bytes P))))"

definition grant_entry :: "prims \<Rightarrow> capability_grant \<Rightarrow> int \<Rightarrow> json" where
  "grant_entry P g now = JObj [(''grant_b64'', JStr (grant_to_b64 P g)), (''registered_at'', JInt now),
     (''revoked_at'', JNull), (''overlap_until_ms'', JNull)]"

definition cap_register ::
    "prims \<Rightarrow> capability_grant \<Rightarrow> bytes \<Rightarrow> str \<Rightarrow> bytes \<Rightarrow> int \<Rightarrow> (cap_store, unit) meth" where
  "cap_register P g relay_signing_public relay_name tls now =
     m_bind (m_of (verify_capability_grant P g relay_signing_public relay_name tls now)) (\<lambda>_.
     m_get (\<lambda>s. let key = b64encode (cg_id g) in
     m_bind (case map_of (cs_active s) key of
         None \<Rightarrow> m_return ()
       | Some existing \<Rightarrow> m_bind (m_of (stored_grant P existing)) (\<lambda>prev.
           if cg_generation g < cg_generation prev
           then m_raise (ValueError ''capability generation rollback rejected'') else m_return ())) (\<lambda>_.
     m_bind (m_modify (\<lambda>s. s\<lparr>cs_active := dict_put key (grant_entry P g now) (cs_active s)\<rparr>)) (\<lambda>_.
     cap_save))))"

definition revoke_with_overlap :: "bytes \<Rightarrow> int \<Rightarrow> int option \<Rightarrow> (cap_store, unit) meth" where
  "revoke_with_overlap cid now window = m_get (\<lambda>s. let key = b64encode cid in
     case map_of (cs_active s) key of
       None \<Rightarrow> m_return ()
     | Some record \<Rightarrow> m_bind (m_of (jobj record)) (\<lambda>d.
         m_bind (m_modify (\<lambda>s. s\<lparr>cs_active := dict_put key
           (JObj (dict_put ''overlap_until_ms''
                    (JInt (now + (case window of None \<Rightarrow> cs_overlap_ms s | Some w \<Rightarrow> w)))
                    (dict_put ''revoked_at'' (JInt now) d))) (cs_active s)\<rparr>)) (\<lambda>_.
         cap_save)))"

definition revoke_immediately :: "bytes \<Rightarrow> int \<Rightarrow> (cap_store, unit) meth" where
  "revoke_immediately cid now = revoke_with_overlap cid now (Some 0)"

definition is_registered :: "prims \<Rightarrow> capability_grant \<Rightarrow> int \<Rightarrow> cap_store \<Rightarrow> bool res" where
  "is_registered P g now s = (case map_of (cs_active s) (b64encode (cg_id g)) of
     None \<Rightarrow> Inr False
   | Some record \<Rightarrow>
       and_then (stored_grant P record) (\<lambda>stored.
       if cg_generation stored \<noteq> cg_generation g then Inr False else
       and_then (jobj record) (\<lambda>d. case jget_default d ''overlap_until_ms'' JNull of
         JNull \<Rightarrow> Inr True
       | v \<Rightarrow> and_then (jint v) (\<lambda>until. Inr (\<not> now \<ge> until)))))"

definition consume_nonce :: "str \<Rightarrow> int \<Rightarrow> (cap_store, unit) meth" where
  "consume_nonce nonce_b64 now = m_bind (prune_nonces now) (\<lambda>_. m_get (\<lambda>s.
     if map_of (cs_nonces s) nonce_b64 \<noteq> None then m_raise (ValueError ''capability nonce replay'')
     else m_bind (m_modify (\<lambda>s. s\<lparr>cs_nonces := dict_put nonce_b64 (JInt now) (cs_nonces s)\<rparr>)) (\<lambda>_.
          cap_save)))"

section \<open>The blob store keeps its limits\<close>

lemma sort_key_snoc_max:
  assumes "\<And>y. y \<in> set xs \<Longrightarrow> f y \<le> f x"
  shows "sort_key f (xs @ [x]) = sort_key f xs @ [x]"
proof (rule properties_for_sort_key)
  show "mset (sort_key f xs @ [x]) = mset (xs @ [x])" by simp
  show "filter (\<lambda>y. f k = f y) (sort_key f xs @ [x]) = filter (\<lambda>y. f k = f y) (xs @ [x])"
    if "k \<in> set (sort_key f xs @ [x])" for k
    using sort_key_stable [of f "f k" xs] by (simp add: eq_commute)
  show "sorted (map f (sort_key f xs @ [x]))"
    using assms by (auto simp: sorted_append)
qed

text \<open>What every stored blob satisfies, and how many live ones a tag has at a time.\<close>

definition blob_ok :: "blob_store \<Rightarrow> stored_blob \<Rightarrow> bool" where
  "blob_ok s r \<longleftrightarrow> length (sb_tag r) = 32 \<and> length (sb_ciphertext r) \<le> max_blob_size s \<and>
     sb_stored_at r < sb_expires_at r \<and> sb_expires_at r \<le> sb_stored_at r + MAX_RELAY_BLOB_TTL_MS \<and>
     sb_id r < bs_next_id s"

definition blobs_ok :: "int \<Rightarrow> blob_store \<Rightarrow> bool" where
  "blobs_ok now s \<longleftrightarrow> (\<forall>r \<in> set (bs_rows s). blob_ok s r \<and> sb_stored_at r \<le> now) \<and>
     distinct (map sb_id (bs_rows s)) \<and> 0 \<le> max_blobs_per_tag s \<and>
     (\<forall>t. tbl_count (live t now) (bs_rows s) \<le> max_blobs_per_tag s)"

lemma tbl_count_append [simp]: "tbl_count P (xs @ ys) = tbl_count P xs + tbl_count P ys"
  by (simp add: tbl_count_def)

lemma tbl_count_mono:
  assumes "\<And>x. x \<in> set xs \<Longrightarrow> P x \<Longrightarrow> Q x"
  shows "tbl_count P xs \<le> tbl_count Q xs"
proof -
  have "length (filter P xs) \<le> length (filter Q xs)"
    using assms by (induction xs) (auto simp: le_SucI)
  then show ?thesis by (simp add: tbl_count_def)
qed

lemma tbl_count_delete: "tbl_count P (tbl_delete Q xs) \<le> tbl_count P xs"
proof -
  have "length (filter P (filter (\<lambda>r. \<not> Q r) xs)) \<le> length (filter P xs)"
    by (induction xs) auto
  then show ?thesis by (simp add: tbl_count_def tbl_delete_def)
qed

lemma blobs_ok_later: "blobs_ok now s \<Longrightarrow> now \<le> now' \<Longrightarrow> blobs_ok now' s"
proof -
  assume ok: "blobs_ok now s" and le: "now \<le> now'"
  have "tbl_count (live t now') (bs_rows s) \<le> tbl_count (live t now) (bs_rows s)" for t
    using le by (intro tbl_count_mono) (auto simp: live_def)
  with ok le show ?thesis unfolding blobs_ok_def by (meson order_trans)
qed

lemma blobs_ok_delete:
  assumes "blobs_ok now s"
  shows "blobs_ok now (s\<lparr>bs_rows := tbl_delete Q (bs_rows s)\<rparr>)"
proof -
  have "tbl_count (live t now) (tbl_delete Q (bs_rows s)) \<le> max_blobs_per_tag s" for t
    using assms tbl_count_delete [of "live t now" Q "bs_rows s"] unfolding blobs_ok_def
    by (meson order_trans)
  with assms show ?thesis
    by (auto simp: blobs_ok_def blob_ok_def tbl_delete_def distinct_map_filter)
qed

lemma blob_put_result:
  assumes "blob_put t e c token now s = (Inr u, s')"
  shows "length t = 32" "length c \<le> max_blob_size s" "now < e" "e \<le> now + MAX_RELAY_BLOB_TTL_MS"
    "tbl_count (live t now) (bs_rows s) < max_blobs_per_tag s"
    "s' = s\<lparr>bs_rows := bs_rows s @ [\<lparr>sb_id = bs_next_id s, sb_tag = t, sb_expires_at = e,
       sb_ciphertext = c, sb_stored_at = now, sb_token = token\<rparr>], bs_next_id := bs_next_id s + 1\<rparr>"
  using assms by (auto simp: blob_put_def split: if_splits)

lemma blob_put_refused: "blob_put t e c token now s = (Inl err, s') \<Longrightarrow> s' = s"
  by (auto simp: blob_put_def split: if_splits)

lemma blob_put_ok:
  assumes "blobs_ok now s" "blob_put t e c token now s = (res, s')"
  shows "blobs_ok now s'"
proof (cases res)
  case (Inl err)
  with assms blob_put_refused show ?thesis by metis
next
  case (Inr u)
  note r = blob_put_result [OF assms(2) [unfolded Inr]]
  have "tbl_count (live x now) (bs_rows s') \<le> max_blobs_per_tag s" for x
    using r assms(1) by (cases "x = t") (auto simp: tbl_count_def live_def blobs_ok_def)
  moreover have "\<forall>x \<in> set (bs_rows s'). blob_ok s' x \<and> sb_stored_at x \<le> now"
    using assms(1) r unfolding blobs_ok_def blob_ok_def by auto
  moreover have "distinct (map sb_id (bs_rows s'))"
    using assms(1) r unfolding blobs_ok_def blob_ok_def by auto
  ultimately show ?thesis using r(6) assms(1) by (simp add: blobs_ok_def)
qed

lemma blob_consume_ok:
  "blobs_ok now s \<Longrightarrow> blob_consume t st token s = (res, s') \<Longrightarrow> blobs_ok now s'"
  by (auto simp: blob_consume_def blobs_ok_delete split: if_splits option.splits)

lemma blob_sweep_ok: "blobs_ok now s \<Longrightarrow> blob_sweep now' s = (res, s') \<Longrightarrow> blobs_ok now s'"
  by (auto simp: blob_sweep_def blobs_ok_delete)

text \<open>Any sequence of operations under a clock that does not go back.\<close>

inductive blob_step :: "int \<times> blob_store \<Rightarrow> int \<times> blob_store \<Rightarrow> bool" where
  put: "now \<le> now' \<Longrightarrow> blob_put t e c token now' s = (res, s') \<Longrightarrow> blob_step (now, s) (now', s')"
| consume: "blob_consume t st token s = (res, s') \<Longrightarrow> blob_step (now, s) (now, s')"
| sweep: "now \<le> now' \<Longrightarrow> blob_sweep now' s = (res, s') \<Longrightarrow> blob_step (now, s) (now', s')"

inductive_simps blob_step_iff: "blob_step (now, s) (now', s')"

definition blob_reach :: "int \<times> blob_store \<Rightarrow> int \<times> blob_store \<Rightarrow> bool" where
  "blob_reach = blob_step\<^sup>*\<^sup>*"

lemma blob_step_frame:
  "blob_step x y \<Longrightarrow> max_blob_size (snd y) = max_blob_size (snd x) \<and>
     max_blobs_per_tag (snd y) = max_blobs_per_tag (snd x)"
  by (induction rule: blob_step.induct)
    (auto simp: blob_put_def blob_consume_def blob_sweep_def split: if_splits option.splits)

lemma blob_step_ok: "blob_step x y \<Longrightarrow> blobs_ok (fst x) (snd x) \<Longrightarrow> blobs_ok (fst y) (snd y)"
  by (induction rule: blob_step.induct)
    (auto intro: blob_put_ok blob_consume_ok blob_sweep_ok dest: blobs_ok_later)

lemma blob_reach_ok:
  "blob_reach x y \<Longrightarrow> blobs_ok (fst x) (snd x) \<Longrightarrow> blobs_ok (fst y) (snd y) \<and>
     max_blob_size (snd y) = max_blob_size (snd x) \<and> max_blobs_per_tag (snd y) = max_blobs_per_tag (snd x)"
  unfolding blob_reach_def
  by (induction rule: rtranclp_induct) (auto simp: blob_step_ok dest: blob_step_frame)

lemma new_blob_store_ok: "blobs_ok now new_blob_store"
  by (simp add: blobs_ok_def new_blob_store_def tbl_count_def)

text \<open>A stored blob is fetched under its tag until it expires, after the older ones.\<close>

lemma blob_put_fetch:
  assumes ok: "blobs_ok now s" and put: "blob_put t e c token now s = (Inr u, s')"
  shows "blob_fetch x now' s' = blob_fetch x now' s @
    (if x = t \<and> now' < e then [\<lparr>sb_id = bs_next_id s, sb_tag = t, sb_expires_at = e,
       sb_ciphertext = c, sb_stored_at = now, sb_token = token\<rparr>] else [])"
proof -
  let ?b = "\<lparr>sb_id = bs_next_id s, sb_tag = t, sb_expires_at = e, sb_ciphertext = c,
      sb_stored_at = now, sb_token = token\<rparr>"
  have "sort_key sb_stored_at (filter (live x now') (bs_rows s) @ [?b])
      = sort_key sb_stored_at (filter (live x now') (bs_rows s)) @ [?b]"
    using ok by (intro sort_key_snoc_max) (auto simp: blobs_ok_def)
  then show ?thesis
    using blob_put_result(6) [OF put] by (auto simp: blob_fetch_def live_def)
qed

lemma blob_fetch_set: "r \<in> set (blob_fetch t now s) \<longleftrightarrow> r \<in> set (bs_rows s) \<and> sb_tag r = t \<and> now < sb_expires_at r"
  by (auto simp: blob_fetch_def live_def)

lemma blob_fetch_sorted: "sorted (map sb_stored_at (blob_fetch t now s))"
  by (simp add: blob_fetch_def)

lemma blob_sweep_fetch:
  assumes "now \<le> now'" "blob_sweep now s = (res, s')"
  shows "blob_fetch t now' s' = blob_fetch t now' s"
proof -
  have "filter (live t now') (tbl_delete (\<lambda>r. sb_expires_at r \<le> now) (bs_rows s)) = filter (live t now') (bs_rows s)"
    using assms(1) by (auto simp: tbl_delete_def live_def intro: filter_cong)
  with assms(2) show ?thesis by (auto simp: blob_sweep_def blob_fetch_def)
qed

section \<open>The life of a pairing session\<close>

interpretation pair_tbl: keyed_table pr_tag "tbl_get pr_tag" "tbl_replace pr_tag"
  "tbl_ignore pr_tag" "\<lambda>k. tbl_delete (\<lambda>r. pr_tag r = k)" "tbl_unique pr_tag"
  by (rule keyed_table_tbl)

lemma tbl_get_map:
  assumes "\<And>r. key (f r) = key r"
  shows "tbl_get key k (map f t) = map_option f (tbl_get key k t)"
  using assms by (induction t) auto

lemma tbl_get_delete_other:
  assumes "tbl_unique key t" "tbl_get key k t = Some r"
  shows "tbl_get key k (tbl_delete P t) = (if P r then None else Some r)"
proof (cases "P r")
  case False
  then have "r \<in> set (tbl_delete P t)" "key r = k"
    using tbl_get_Some [OF assms(2)] by (auto simp: tbl_delete_def)
  with tbl_get_unique [OF tbl_unique_delete [OF assms(1)]] False show ?thesis by auto
next
  case True
  have "k \<notin> key ` set (tbl_delete P t)"
  proof
    assume "k \<in> key ` set (tbl_delete P t)"
    then obtain x where x: "x \<in> set t" "\<not> P x" "key x = k" by (auto simp: tbl_delete_def)
    with tbl_get_unique [OF assms(1)] assms(2) have "x = r" by fastforce
    with True x show False by simp
  qed
  with True show ?thesis by (simp add: tbl_get_None)
qed

lemma pair_row_simps [simp]:
  "pair_row_of k (insert_row r s) = (case pair_row_of k s of Some x \<Rightarrow> Some x
     | None \<Rightarrow> if pr_tag r = k then Some r else None)"
  "(\<And>r. pr_tag (f r) = pr_tag r) \<Longrightarrow> pair_row_of k (update_rows t f s) =
     map_option (\<lambda>r. if pr_tag r = t then f r else r) (pair_row_of k s)"
  by (simp_all add: pair_row_of_def insert_row_def update_rows_def tbl_get_append tbl_get_map split: option.split)

lemma pair_row_tag: "pair_row_of k s = Some r \<Longrightarrow> pr_tag r = k"
  by (simp add: pair_row_of_def pair_tbl.get_key)

definition pairs_ok :: "pairing_store \<Rightarrow> bool" where
  "pairs_ok s \<longleftrightarrow> tbl_unique pr_tag (ps_rows s)"

lemma pairs_ok_insert: "pairs_ok s \<Longrightarrow> pair_row_of (pr_tag r) s = None \<Longrightarrow> pairs_ok (insert_row r s)"
  by (auto simp: pairs_ok_def insert_row_def pair_row_of_def tbl_unique_def tbl_get_None)

lemma pairs_ok_update: "pairs_ok s \<Longrightarrow> (\<And>r. pr_tag (f r) = pr_tag r) \<Longrightarrow> pairs_ok (update_rows t f s)"
proof -
  assume ok: "pairs_ok s" and f: "\<And>r. pr_tag (f r) = pr_tag r"
  have "pr_tag \<circ> (\<lambda>r. if pr_tag r = t then f r else r) = pr_tag"
    using f by (auto simp: fun_eq_iff)
  with ok show ?thesis by (simp add: pairs_ok_def update_rows_def tbl_unique_def)
qed

text \<open>The operations a relay performs on the store, and a sequence of them, each at its time.\<close>

datatype pair_op = Register bytes | Request bytes bytes | Respond bytes bytes | Sweep

fun pair_do :: "prims \<Rightarrow> pair_op \<times> int \<Rightarrow> pairing_store \<Rightarrow> pairing_store" where
  "pair_do P (Register secret, now) s = snd (pair_register P secret now s)"
| "pair_do P (Request secret request, now) s = snd (pair_store_request P secret request now s)"
| "pair_do P (Respond secret response, now) s = snd (pair_store_response P secret response s)"
| "pair_do P (Sweep, now) s = snd (pair_sweep now s)"

fun pair_run :: "prims \<Rightarrow> (pair_op \<times> int) list \<Rightarrow> pairing_store \<Rightarrow> pairing_store" where
  "pair_run P [] s = s"
| "pair_run P (x # xs) s = pair_run P xs (pair_do P x s)"

lemmas pair_ops = pair_register_def pair_store_request_def pair_store_response_def pair_sweep_def

lemma pair_sweep_eq: "pair_sweep now s =
    (Inr (tbl_count (\<lambda>r. pr_registered_at r < now - ps_ttl_ms s) (ps_rows s)),
     s\<lparr>ps_rows := tbl_delete (\<lambda>r. pr_registered_at r < now - ps_ttl_ms s) (ps_rows s)\<rparr>)"
  by (simp add: pair_sweep_def Let_def)

lemma pair_do_ok: "pairs_ok s \<Longrightarrow> pairs_ok (pair_do P x s)"
  by (induction P x s rule: pair_do.induct)
    (auto simp: pair_ops m_bind_def Let_def pairs_ok_insert pairs_ok_update split: sum.splits option.splits
      simp: pairs_ok_def [of "_\<lparr>ps_rows := _\<rparr>"] pairs_ok_def [symmetric] tbl_unique_delete)

lemma pair_do_ttl [simp]: "ps_ttl_ms (pair_do P x s) = ps_ttl_ms s"
  by (induction P x s rule: pair_do.induct)
    (auto simp: pair_ops m_bind_def Let_def insert_row_def update_rows_def split: sum.splits option.splits)

text \<open>A session with its response stays as it is until it is swept.\<close>

lemma pair_do_consumed:
  assumes "pairs_ok s" "pair_row_of t s = Some r" "pr_consumed r"
    "snd x \<le> pr_registered_at r + ps_ttl_ms s"
  shows "pair_row_of t (pair_do P x s) = Some r"
  using assms
proof (induction P x s rule: pair_do.induct)
  case (4 P now s)
  then show ?case
    using tbl_get_delete_other [of pr_tag "ps_rows s" t r "\<lambda>r. pr_registered_at r < now - ps_ttl_ms s"]
    by (simp add: pair_sweep_eq pairs_ok_def pair_row_of_def)
next
  case (1 P secret now s)
  then show ?case using pair_row_tag [of t s r]
    by (cases "invite_tag_for_secret P secret") (auto simp: pair_register_def m_bind_def split: option.splits)
next
  case (2 P secret request now s)
  then show ?case using pair_row_tag [of t s r]
    by (cases "invite_tag_for_secret P secret") (auto simp: pair_store_request_def m_bind_def split: option.splits)
next
  case (3 P secret response now s)
  then show ?case using pair_row_tag [of t s r]
    by (cases "invite_tag_for_secret P secret") (auto simp: pair_store_response_def m_bind_def split: option.splits)
qed

lemma pair_run_consumed:
  assumes "pairs_ok s" "pair_row_of t s = Some r" "pr_consumed r"
    "\<And>x. x \<in> set xs \<Longrightarrow> snd x \<le> pr_registered_at r + ps_ttl_ms s"
  shows "pair_row_of t (pair_run P xs s) = Some r"
  using assms
proof (induction xs arbitrary: s)
  case (Cons x xs)
  have "pair_row_of t (pair_run P xs (pair_do P x s)) = Some r"
    using Cons.prems pair_do_consumed [OF Cons.prems(1-3)] by (intro Cons.IH) (auto simp: pair_do_ok)
  then show ?case by simp
qed simp

lemma get_response_row: "get_response t s = Some x \<longleftrightarrow>
    (\<exists>r. pair_row_of t s = Some r \<and> pr_consumed r \<and> pr_response r = Some x)"
  by (auto simp: get_response_def split: option.splits)

text \<open>Where a response comes from.\<close>

definition responses_from :: "prims \<Rightarrow> (pair_op \<times> int) set \<Rightarrow> pairing_store \<Rightarrow> bool" where
  "responses_from P ops s \<longleftrightarrow> (\<forall>t x. get_response t s = Some x \<longrightarrow>
     (\<exists>secret now. (Respond secret x, now) \<in> ops \<and> invite_tag_for_secret P secret = Inr t))"

lemma pair_do_response:
  assumes "get_response t (pair_do P x s) = Some y" "pairs_ok s"
  shows "get_response t s = Some y \<or>
    (\<exists>secret now. x = (Respond secret y, now) \<and> invite_tag_for_secret P secret = Inr t)"
  using assms
proof (induction P x s rule: pair_do.induct)
  case (4 P now s)
  then obtain r where r: "tbl_get pr_tag t (tbl_delete (\<lambda>r. pr_registered_at r < now - ps_ttl_ms s) (ps_rows s)) = Some r"
    "pr_consumed r" "pr_response r = Some y"
    by (auto simp: get_response_row pair_sweep_eq pair_row_of_def)
  then have "r \<in> set (ps_rows s)" "pr_tag r = t" by (auto dest!: tbl_get_Some simp: tbl_delete_def)
  then have "pair_row_of t s = Some r"
    using 4 tbl_get_unique by (fastforce simp: pairs_ok_def pair_row_of_def)
  with r show ?case by (simp add: get_response_row)
qed (auto simp: pair_ops m_bind_def get_response_def split: sum.splits option.splits if_splits
      dest: pair_row_tag)

lemma pair_run_responses:
  assumes "responses_from P ops s" "pairs_ok s"
  shows "responses_from P (ops \<union> set xs) (pair_run P xs s)"
  using assms
proof (induction xs arbitrary: s ops)
  case (Cons x xs)
  have "responses_from P (insert x ops) (pair_do P x s)"
    using Cons.prems pair_do_response [of _ P x s] unfolding responses_from_def by blast
  from Cons.IH [OF this pair_do_ok [OF Cons.prems(2)]] show ?case by simp
qed simp

section \<open>The contract of a replay guard\<close>

text \<open>
  A server that answers operations under a clock and remembers the key of each accepted one
  for \<open>ttl\<close>: \<open>seen s k\<close> is when \<open>k\<close> was accepted.
\<close>

locale replay_guard =
  fixes step :: "'op \<Rightarrow> int \<Rightarrow> 's \<Rightarrow> bool \<times> 's"
    and key :: "'op \<Rightarrow> 'k"
    and seen :: "'s \<Rightarrow> 'k \<Rightarrow> int option"
    and ok :: "'s \<Rightarrow> bool"
    and ttl :: int
  assumes step_ok: "ok s \<Longrightarrow> step q now s = (b, s') \<Longrightarrow> ok s'"
    and accepted_fresh: "ok s \<Longrightarrow> step q now s = (True, s') \<Longrightarrow>
      seen s' (key q) = Some now \<and> (\<forall>t. seen s (key q) = Some t \<longrightarrow> ttl < now - t)"
    and remembered: "ok s \<Longrightarrow> seen s k = Some t \<Longrightarrow> now - t \<le> ttl \<Longrightarrow> step q now s = (b, s') \<Longrightarrow>
      \<not> b \<or> key q \<noteq> k \<Longrightarrow> seen s' k = Some t"
begin

fun verdicts :: "('op \<times> int) list \<Rightarrow> 's \<Rightarrow> bool list" where
  "verdicts [] s = []"
| "verdicts ((q, now) # qs) s = (case step q now s of (b, s') \<Rightarrow> b # verdicts qs s')"

lemma length_verdicts [simp]: "length (verdicts qs s) = length qs"
  by (induction qs s rule: verdicts.induct) (auto split: prod.splits)

lemma seen_blocks:
  "ok s \<Longrightarrow> seen s k = Some t \<Longrightarrow> sorted (map snd qs) \<Longrightarrow> j < length qs \<Longrightarrow> verdicts qs s ! j \<Longrightarrow>
   key (fst (qs ! j)) = k \<Longrightarrow> ttl < snd (qs ! j) - t"
proof (induction qs arbitrary: s j)
  case (Cons q qs)
  obtain op n where q: "q = (op, n)" by fastforce
  obtain b s' where st: "step op n s = (b, s')" by fastforce
  have later: "n \<le> snd ((q # qs) ! j)"
    using Cons.prems(3,4) q by (cases j) auto
  show ?case
  proof (cases "n - t \<le> ttl")
    case True
    have nb: "\<not> b \<or> key op \<noteq> k"
      using accepted_fresh [OF Cons.prems(1), of op n s'] st Cons.prems(2) True by auto
    then have s': "seen s' k = Some t" "ok s'"
      using remembered [OF Cons.prems(1,2) True st] step_ok [OF Cons.prems(1) st] by auto
    show ?thesis
    proof (cases j)
      case 0
      with Cons.prems(5,6) nb q st show ?thesis by simp
    next
      case (Suc i)
      then show ?thesis using Cons.IH [OF s'(2,1), of i] Cons.prems(3-6) q st by simp
    qed
  next
    case False
    with later show ?thesis by simp
  qed
qed simp

text \<open>Two accepted operations with one key are more than \<open>ttl\<close> apart.\<close>

lemma accepted_apart:
  "ok s \<Longrightarrow> sorted (map snd qs) \<Longrightarrow> i < j \<Longrightarrow> j < length qs \<Longrightarrow> verdicts qs s ! i \<Longrightarrow> verdicts qs s ! j \<Longrightarrow>
   key (fst (qs ! i)) = key (fst (qs ! j)) \<Longrightarrow> ttl < snd (qs ! j) - snd (qs ! i)"
proof (induction qs arbitrary: s i j)
  case (Cons q qs)
  obtain op n where q: "q = (op, n)" by fastforce
  obtain b s' where st: "step op n s = (b, s')" by fastforce
  have ok': "ok s'" using step_ok [OF Cons.prems(1) st] .
  obtain j' where j: "j = Suc j'" using Cons.prems(3) by (cases j) auto
  show ?case
  proof (cases i)
    case 0
    then have b: "b" using Cons.prems(5) q st by simp
    then have "seen s' (key op) = Some n" using accepted_fresh [OF Cons.prems(1), of op n s'] st by simp
    from seen_blocks [OF ok' this, of qs j'] show ?thesis
      using Cons.prems 0 j q st by simp
  next
    case (Suc i')
    then show ?thesis using Cons.IH [OF ok', of i' j'] Cons.prems j q st by simp
  qed
qed simp

end

text \<open>Operations that carry a time stamp, accepted only near it: accepted at most once.\<close>

locale stamped_guard = replay_guard +
  fixes stamp :: "'a \<Rightarrow> int" and skew :: int
  assumes near: "ok s \<Longrightarrow> step q now s = (True, s') \<Longrightarrow> \<bar>stamp q - now\<bar> \<le> skew"
    and covers: "2 * skew \<le> ttl"
begin

lemma verdict_near:
  "ok s \<Longrightarrow> j < length qs \<Longrightarrow> verdicts qs s ! j \<Longrightarrow> \<bar>stamp (fst (qs ! j)) - snd (qs ! j)\<bar> \<le> skew"
proof (induction qs arbitrary: s j)
  case (Cons q qs)
  obtain op n where q: "q = (op, n)" by fastforce
  obtain b s' where st: "step op n s = (b, s')" by fastforce
  show ?case
  proof (cases j)
    case 0
    with Cons.prems near [of s op n s'] q st show ?thesis by simp
  next
    case (Suc i)
    with Cons.IH [OF step_ok [OF Cons.prems(1) st], of i] Cons.prems q st show ?thesis by simp
  qed
qed simp

lemma accepted_once:
  assumes "ok s" "sorted (map snd qs)" "i < length qs" "j < length qs" "verdicts qs s ! i" "verdicts qs s ! j"
    and "key (fst (qs ! i)) = key (fst (qs ! j))" "stamp (fst (qs ! i)) = stamp (fst (qs ! j))"
  shows "i = j"
proof (rule ccontr)
  have one: False if "a < b" "b < length qs" "verdicts qs s ! a" "verdicts qs s ! b"
    "key (fst (qs ! a)) = key (fst (qs ! b))" "stamp (fst (qs ! a)) = stamp (fst (qs ! b))" for a b
    using accepted_apart [OF assms(1,2) that(1-5)] verdict_near [OF assms(1) _ that(3)]
      verdict_near [OF assms(1) _ that(4)] that covers by simp
  assume "i \<noteq> j"
  then show False using one [of i j] one [of j i] assms by (cases "i < j") auto
qed

end

section \<open>Nonces and grants\<close>

definition nonces_ok :: "cap_store \<Rightarrow> bool" where
  "nonces_ok s \<longleftrightarrow> distinct (map fst (cs_nonces s)) \<and> (\<forall>p \<in> set (cs_nonces s). \<exists>t. snd p = JInt t)"

definition nonce_seen :: "cap_store \<Rightarrow> str \<Rightarrow> int option" where
  "nonce_seen s k = (case map_of (cs_nonces s) k of Some (JInt t) \<Rightarrow> Some t | _ \<Rightarrow> None)"

lemma filter_recent_filter:
  "\<forall>p \<in> set ns. \<exists>t. snd p = JInt t \<Longrightarrow>
   filter_recent now ns = Inr (filter (\<lambda>p. case snd p of JInt t \<Rightarrow> now - t \<le> NONCE_TTL_MS | _ \<Rightarrow> False) ns)"
  by (induction now ns rule: filter_recent.induct) auto

lemma map_of_filter_value:
  "distinct (map fst ps) \<Longrightarrow> map_of (filter (\<lambda>p. Q (snd p)) ps) k =
     (case map_of ps k of Some v \<Rightarrow> if Q v then Some v else None | None \<Rightarrow> None)"
  by (induction ps) (auto split: option.splits simp: map_of_eq_None_iff rev_image_eqI)

definition pruned :: "int \<Rightarrow> cap_store \<Rightarrow> cap_store" where
  "pruned now s = s\<lparr>cs_nonces :=
     filter (\<lambda>p. case snd p of JInt t \<Rightarrow> now - t \<le> NONCE_TTL_MS | _ \<Rightarrow> False) (cs_nonces s)\<rparr>"

lemma pruned_ok: "nonces_ok s \<Longrightarrow> nonces_ok (pruned now s)"
  by (auto simp: nonces_ok_def pruned_def distinct_map_filter)

lemma pruned_seen:
  assumes "nonces_ok s"
  shows "nonce_seen (pruned now s) k = (case nonce_seen s k of
    Some t \<Rightarrow> if now - t \<le> NONCE_TTL_MS then Some t else None | None \<Rightarrow> None)"
    and "map_of (cs_nonces (pruned now s)) k = map_option JInt (nonce_seen (pruned now s) k)"
proof -
  have m: "map_of (cs_nonces (pruned now s)) k = (case map_of (cs_nonces s) k of
      Some v \<Rightarrow> if (case v of JInt t \<Rightarrow> now - t \<le> NONCE_TTL_MS | _ \<Rightarrow> False) then Some v else None | None \<Rightarrow> None)"
    using assms by (simp add: pruned_def nonces_ok_def map_of_filter_value)
  have v: "map_of (cs_nonces s) k = None \<or> (\<exists>t. map_of (cs_nonces s) k = Some (JInt t))"
    using assms by (cases "map_of (cs_nonces s) k") (auto simp: nonces_ok_def dest!: map_of_SomeD)
  show "nonce_seen (pruned now s) k = (case nonce_seen s k of
    Some t \<Rightarrow> if now - t \<le> NONCE_TTL_MS then Some t else None | None \<Rightarrow> None)"
    using v by (auto simp: nonce_seen_def m)
  show "map_of (cs_nonces (pruned now s)) k = map_option JInt (nonce_seen (pruned now s) k)"
    using v by (auto simp: nonce_seen_def m)
qed

lemma prune_nonces_eq: "nonces_ok s \<Longrightarrow> prune_nonces now s = (Inr (), pruned now s)"
  by (simp add: prune_nonces_def nonces_ok_def filter_recent_filter pruned_def)

lemma consume_nonce_result:
  assumes "nonces_ok s"
  shows "consume_nonce v now s =
    (case nonce_seen (pruned now s) v of
       Some t \<Rightarrow> (Inl (ValueError ''capability nonce replay''), pruned now s)
     | None \<Rightarrow> (Inr (), snd (cap_save ((pruned now s)\<lparr>cs_nonces :=
         dict_put v (JInt now) (cs_nonces (pruned now s))\<rparr>))))"
  using assms pruned_seen(2) [OF assms, of now v]
  by (cases "nonce_seen (pruned now s) v")
    (simp_all add: consume_nonce_def m_bind_def prune_nonces_eq cap_save_def)

lemma cap_save_simps [simp]:
  "cs_nonces (snd (cap_save s)) = cs_nonces s" "cs_active (snd (cap_save s)) = cs_active s"
  "nonces_ok (snd (cap_save s)) = nonces_ok s" "nonce_seen (snd (cap_save s)) = nonce_seen s"
  "fst (cap_save s) = Inr ()"
  by (simp_all add: cap_save_def nonces_ok_def nonce_seen_def fun_eq_iff)

lemma nonces_ok_put: "nonces_ok s \<Longrightarrow> nonces_ok (s\<lparr>cs_nonces := dict_put v (JInt now) (cs_nonces s)\<rparr>)"
proof -
  have "p \<in> set (dict_put v x d) \<Longrightarrow> p = (v, x) \<or> p \<in> set d" for p and x :: json and d
    by (induction v x d rule: dict_put.induct) (auto split: if_splits)
  then show "nonces_ok s \<Longrightarrow> ?thesis" by (fastforce simp: nonces_ok_def distinct_dict_put)
qed

lemma nonce_seen_put:
  "nonce_seen (s\<lparr>cs_nonces := dict_put v (JInt now) (cs_nonces s)\<rparr>) k = (if k = v then Some now else nonce_seen s k)"
  by (simp add: nonce_seen_def)

lemma consume_nonce_spec:
  assumes ok: "nonces_ok s" and r: "consume_nonce v now s = (res, s')"
  shows "nonces_ok s'" "cs_active s' = cs_active s" "cs_overlap_ms s' = cs_overlap_ms s"
    "res = Inr () \<longleftrightarrow> (\<forall>t. nonce_seen s v = Some t \<longrightarrow> NONCE_TTL_MS < now - t)"
    "nonce_seen s' k = (if res = Inr () \<and> k = v then Some now else nonce_seen (pruned now s) k)"
    "res = Inr () \<Longrightarrow> cs_file s' = Some (JObj [(''active'', JObj (cs_active s')),
       (''seen_nonces'', JObj (cs_nonces s')), (''overlap_window_ms'', JInt (cs_overlap_ms s'))])"
proof -
  let ?q = "pruned now s"
  let ?s = "snd (cap_save (?q\<lparr>cs_nonces := dict_put v (JInt now) (cs_nonces ?q)\<rparr>))"
  have fields: "cs_active ?q = cs_active s" "cs_overlap_ms ?q = cs_overlap_ms s"
    by (simp_all add: pruned_def)
  consider t where "nonce_seen ?q v = Some t" "res = Inl (ValueError ''capability nonce replay'')" "s' = ?q"
    | "nonce_seen ?q v = None" "res = Inr ()" "s' = ?s"
    using r by (auto simp: consume_nonce_result [OF ok] split: option.splits)
  note c = this
  have p: "nonce_seen ?q v = None \<longleftrightarrow> (\<forall>t. nonce_seen s v = Some t \<longrightarrow> NONCE_TTL_MS < now - t)"
    by (auto simp: pruned_seen(1) [OF ok] split: option.splits)
  show "nonces_ok s'" using c by cases (auto simp: pruned_ok [OF ok] nonces_ok_put)
  show "cs_active s' = cs_active s" using c by cases (auto simp: fields)
  show "cs_overlap_ms s' = cs_overlap_ms s" using c by cases (auto simp: fields cap_save_def)
  show "res = Inr () \<longleftrightarrow> (\<forall>t. nonce_seen s v = Some t \<longrightarrow> NONCE_TTL_MS < now - t)"
    using c by cases (auto simp: p [symmetric])
  show "nonce_seen s' k = (if res = Inr () \<and> k = v then Some now else nonce_seen ?q k)"
    using c by cases (auto simp: nonce_seen_put)
  show "res = Inr () \<Longrightarrow> cs_file s' = Some (JObj [(''active'', JObj (cs_active s')),
       (''seen_nonces'', JObj (cs_nonces s')), (''overlap_window_ms'', JInt (cs_overlap_ms s'))])"
    using c by cases (auto simp: cap_save_def)
qed

text \<open>The nonces of the grant store are a replay guard.\<close>

definition nonce_step :: "str \<Rightarrow> int \<Rightarrow> cap_store \<Rightarrow> bool \<times> cap_store" where
  "nonce_step v now s = (case consume_nonce v now s of (res, s') \<Rightarrow> (res = Inr (), s'))"

interpretation nonce_guard: replay_guard nonce_step "\<lambda>v. v" nonce_seen nonces_ok NONCE_TTL_MS
proof
  fix s s' :: cap_store and q k :: str and now t :: int and b :: bool
  obtain res s1 where c: "consume_nonce q now s = (res, s1)" by fastforce
  show "nonces_ok s \<Longrightarrow> nonce_step q now s = (b, s') \<Longrightarrow> nonces_ok s'"
    using c consume_nonce_spec(1) [OF _ c] by (simp add: nonce_step_def)
  show "nonces_ok s \<Longrightarrow> nonce_step q now s = (True, s') \<Longrightarrow>
      nonce_seen s' q = Some now \<and> (\<forall>t. nonce_seen s q = Some t \<longrightarrow> NONCE_TTL_MS < now - t)"
    using c consume_nonce_spec(4,5) [OF _ c] by (simp add: nonce_step_def)
  show "nonces_ok s \<Longrightarrow> nonce_seen s k = Some t \<Longrightarrow> now - t \<le> NONCE_TTL_MS \<Longrightarrow>
      nonce_step q now s = (b, s') \<Longrightarrow> \<not> b \<or> q \<noteq> k \<Longrightarrow> nonce_seen s' k = Some t"
    using c consume_nonce_spec(5) [OF _ c, of k] pruned_seen(1) [of s now k] by (auto simp: nonce_step_def)
qed

text \<open>Saving and loading: a restarted relay has the grants and nonces of the last save.\<close>

lemma cap_load_file:
  "cs_file s = Some (JObj [(''active'', JObj (cs_active s)), (''seen_nonces'', JObj (cs_nonces s)),
     (''overlap_window_ms'', JInt (cs_overlap_ms s))]) \<Longrightarrow> cap_load overlap (cs_file s) = Inr s"
  by (simp add: cap_load_def jget_default_def)

lemma cap_load_saved: "cap_load overlap (cs_file (snd (cap_save s))) = Inr (snd (cap_save s))"
  by (rule cap_load_file) (simp add: cap_save_def)

lemma stored_grant_entry [simp]:
  "cbor_correct P \<Longrightarrow> stored_grant P (grant_entry P g now) = Inr g"
  by (simp add: stored_grant_def grant_entry_def jget_def grant_to_b64_def grant_from_to_bytes)

lemma cap_register_Inr:
  "cap_register P g pk name tls now s = (Inr u, s') \<longleftrightarrow>
     verify_capability_grant P g pk name tls now = Inr () \<and>
     (case map_of (cs_active s) (b64encode (cg_id g)) of None \<Rightarrow> True
      | Some existing \<Rightarrow> \<exists>prev. stored_grant P existing = Inr prev \<and> cg_generation prev \<le> cg_generation g) \<and>
     s' = snd (cap_save (s\<lparr>cs_active := dict_put (b64encode (cg_id g)) (grant_entry P g now) (cs_active s)\<rparr>))"
proof (cases "verify_capability_grant P g pk name tls now")
  case (Inr v)
  show ?thesis
  proof (cases "map_of (cs_active s) (b64encode (cg_id g))")
    case (Some existing)
    with Inr show ?thesis
      by (cases "stored_grant P existing")
        (auto simp: cap_register_def m_bind_def Let_def cap_save_def)
  qed (auto simp: Inr cap_register_def m_bind_def Let_def cap_save_def)
qed (simp add: cap_register_def)

lemma registered_grant:
  assumes "cbor_correct P" "cap_register P g pk name tls now s = (Inr u, s')"
  shows "is_registered P g now' s' = Inr True"
  using assms by (simp add: cap_register_Inr is_registered_def) (simp add: grant_entry_def jget_default_def)

lemma registered_other:
  assumes "cap_register P g pk name tls now s = (Inr u, s')" "cg_id h \<noteq> cg_id g"
  shows "is_registered P h now' s' = is_registered P h now' s"
  using assms by (simp add: cap_register_Inr is_registered_def)

text \<open>A revoked grant is refused from the end of the overlap on.\<close>

lemma revoked_grant:
  assumes "is_registered P g t0 s = Inr True" "revoke_with_overlap (cg_id g) now window s = (Inr u, s')"
  shows "is_registered P g now' s' =
    Inr (now' < now + (case window of None \<Rightarrow> cs_overlap_ms s | Some w \<Rightarrow> w))"
proof -
  obtain entry stored d where r: "map_of (cs_active s) (b64encode (cg_id g)) = Some entry"
    "stored_grant P entry = Inr stored" "cg_generation stored = cg_generation g" "entry = JObj d"
    using assms(1) by (auto simp: is_registered_def stored_grant_def split: option.splits if_splits elim: jobj.elims)
  then have s': "map_of (cs_active s') (b64encode (cg_id g)) = Some (JObj (dict_put ''overlap_until_ms''
      (JInt (now + (case window of None \<Rightarrow> cs_overlap_ms s | Some w \<Rightarrow> w)))
      (dict_put ''revoked_at'' (JInt now) d)))"
    using assms(2) by (auto simp: revoke_with_overlap_def m_bind_def cap_save_def Let_def)
  show ?thesis
    using r by (auto simp: is_registered_def s' stored_grant_def jget_def jget_default_def)
qed

text \<open>Registering the same grant again lifts its revocation.\<close>

lemma reregistered_grant:
  assumes cbor: "cbor_correct P" and g: "cap_register P g pk name tls now s = (Inr u, s1)"
    and rev: "revoke_immediately (cg_id g) now' s1 = (Inr v, s2)" and time: "now2 < cg_expires_at g"
  shows "is_registered P g now' s2 = Inr False \<and>
    (\<exists>s3. cap_register P g pk name tls now2 s2 = (Inr (), s3) \<and> is_registered P g now3 s3 = Inr True)"
proof -
  have reg: "is_registered P g now' s1 = Inr True" by (rule registered_grant [OF cbor g])
  then have off: "is_registered P g now' s2 = Inr False"
    using revoked_grant [OF reg rev [unfolded revoke_immediately_def], of now'] by simp
  obtain entry stored where r: "map_of (cs_active s2) (b64encode (cg_id g)) = Some entry"
    "stored_grant P entry = Inr stored" "cg_generation stored = cg_generation g"
  proof -
    have m: "map_of (cs_active s1) (b64encode (cg_id g)) = Some (grant_entry P g now)"
      using g by (simp add: cap_register_Inr)
    obtain d where d: "grant_entry P g now = JObj d" "map_of d ''grant_b64'' = Some (JStr (grant_to_b64 P g))"
      by (simp add: grant_entry_def)
    have "map_of (cs_active s2) (b64encode (cg_id g)) = Some (JObj (dict_put ''overlap_until_ms'' (JInt (now' + 0))
      (dict_put ''revoked_at'' (JInt now') d)))"
      using rev m d by (auto simp: revoke_immediately_def revoke_with_overlap_def m_bind_def cap_save_def Let_def)
    moreover have "stored_grant P (JObj (dict_put ''overlap_until_ms'' (JInt (now' + 0))
      (dict_put ''revoked_at'' (JInt now') d))) = Inr g"
      using d(2) cbor by (simp add: stored_grant_def jget_def grant_to_b64_def grant_from_to_bytes)
    ultimately show thesis using that by blast
  qed
  have "verify_capability_grant P g pk name tls now2 = Inr ()"
    using g time by (simp add: cap_register_Inr verify_capability_grant_Inr)
  with r have "\<exists>s3. cap_register P g pk name tls now2 s2 = (Inr (), s3)"
    by (auto simp: cap_register_Inr)
  with registered_grant [OF cbor] off show ?thesis by blast
qed

end
