(* ===== verification/Onion.thy ===== *)
theory Onion
  imports Message DemoPrims
begin

text \<open>
  Two-hop onion packets (\<open>onion.py\<close>): the entry relay opens the outer layer and learns where
  to forward, the mailbox relay opens the inner one and learns the blob to store.
\<close>

definition encrypt_layer :: "prims \<Rightarrow> bytes \<Rightarrow> bytes \<Rightarrow> bytes \<Rightarrow> bytes" where
  "encrypt_layer P nonce wrap_secret plaintext = xchacha_encrypt P nonce wrap_secret plaintext []"

definition decrypt_layer :: "prims \<Rightarrow> bytes \<Rightarrow> bytes \<Rightarrow> bytes res" where
  "decrypt_layer P wrap_secret payload = xchacha_decrypt P wrap_secret payload []"

definition encode_mailbox_instruction :: "prims \<Rightarrow> outer_blob \<Rightarrow> bytes" where
  "encode_mailbox_instruction P outer = p_cbor_dumps P (CMap
     [(''mailbox_tag'', CBytes (ob_tag outer)), (''expires_at'', CInt (ob_expires_at outer)),
      (''ciphertext'', CBytes (ob_ciphertext outer))])"

definition decode_mailbox_instruction :: "prims \<Rightarrow> bytes \<Rightarrow> outer_blob res" where
  "decode_mailbox_instruction P payload =
     and_then (and_then (p_cbor_loads P payload) c_dict) (\<lambda>d.
     and_then (and_then (cget d ''mailbox_tag'') c_bytes) (\<lambda>t.
     and_then (and_then (cget d ''expires_at'') c_int) (\<lambda>e.
     and_then (and_then (cget d ''ciphertext'') c_bytes) (\<lambda>c.
     Inr \<lparr>ob_version = 1, ob_tag = t, ob_expires_at = e, ob_ciphertext = c\<rparr>))))"

definition encode_forward_instruction :: "prims \<Rightarrow> str \<Rightarrow> bytes \<Rightarrow> bytes" where
  "encode_forward_instruction P next_relay inner = p_cbor_dumps P (CMap
     [(''next_relay'', CStr next_relay), (''inner'', CBytes inner)])"

definition decode_forward_instruction :: "prims \<Rightarrow> bytes \<Rightarrow> (str \<times> bytes) res" where
  "decode_forward_instruction P payload =
     and_then (and_then (p_cbor_loads P payload) c_dict) (\<lambda>d.
     and_then (and_then (cget d ''next_relay'') c_str) (\<lambda>n.
     and_then (and_then (cget d ''inner'') c_bytes) (\<lambda>i. Inr (n, i))))"

definition build_onion_packet ::
    "prims \<Rightarrow> bytes \<Rightarrow> bytes \<Rightarrow> bytes \<Rightarrow> bytes \<Rightarrow> str \<Rightarrow> outer_blob \<Rightarrow> bytes" where
  "build_onion_packet P n1 n2 entry_secret mailbox_secret mailbox_url outer =
     (let mailbox_cipher = encrypt_layer P n1 mailbox_secret (encode_mailbox_instruction P outer);
          forward_plain = encode_forward_instruction P (mailbox_url @ ''/v1/ingest'') mailbox_cipher
      in p_cbor_dumps P (CMap [(''version'', CInt 1),
           (''entry_ciphertext'', CBytes (encrypt_layer P n2 entry_secret forward_plain))]))"

definition decode_entry_packet :: "prims \<Rightarrow> bytes \<Rightarrow> bytes \<Rightarrow> (str \<times> bytes) res" where
  "decode_entry_packet P packet entry_secret =
     and_then (and_then (p_cbor_loads P packet) c_dict) (\<lambda>d.
     and_then (and_then (cget d ''entry_ciphertext'') c_bytes) (\<lambda>c.
     and_then (decrypt_layer P entry_secret c) (decode_forward_instruction P)))"

definition decode_mailbox_packet :: "prims \<Rightarrow> bytes \<Rightarrow> bytes \<Rightarrow> outer_blob res" where
  "decode_mailbox_packet P inner mailbox_secret =
     and_then (decrypt_layer P mailbox_secret inner) (decode_mailbox_instruction P)"

lemma decrypt_encrypt_layer [codec_simps]:
  "aead_correct P \<Longrightarrow> length nonce = 24 \<Longrightarrow>
   decrypt_layer P k (encrypt_layer P nonce k m) = Inr m"
  by (simp add: decrypt_layer_def encrypt_layer_def xchacha_roundtrip)

lemma decode_encode_mailbox [codec_simps]:
  "cbor_correct P \<Longrightarrow>
   decode_mailbox_instruction P (encode_mailbox_instruction P b) = Inr (b\<lparr>ob_version := 1\<rparr>)"
  by (simp add: decode_mailbox_instruction_def encode_mailbox_instruction_def cget_def)

lemma decode_encode_forward [codec_simps]:
  "cbor_correct P \<Longrightarrow>
   decode_forward_instruction P (encode_forward_instruction P n i) = Inr (n, i)"
  by (simp add: decode_forward_instruction_def encode_forward_instruction_def cget_def)

text \<open>The packet goes through both relays, and each opens just its own layer.\<close>

lemma onion_route:
  assumes laws: "aead_correct P" "cbor_correct P" and n: "length n1 = 24" "length n2 = 24"
  shows "\<exists>inner. decode_entry_packet P (build_onion_packet P n1 n2 ek mk url outer) ek
      = Inr (url @ ''/v1/ingest'', inner) \<and>
    decode_mailbox_packet P inner mk = Inr (outer\<lparr>ob_version := 1\<rparr>)"
  using assms
  by (simp add: decode_entry_packet_def build_onion_packet_def Let_def cget_def
      decode_mailbox_packet_def codec_simps)

end
