(* ===== verification/RelayApp.thy ===== *)
theory RelayApp
  imports RelayStore Onion
begin

text \<open>
  The HTTP handlers of a relay (\<open>yakr_relay/app.py\<close>). A handler runs on the relay's three
  stores and either answers or raises \<open>HTTPException\<close>; the framework has already parsed the
  body, so a handler takes the fields of the parsed request, and the raw body where the code
  asks for it. \<open>now\<close> is the clock during the handler. The random forward delay is left out, as
  it changes nothing but time.
\<close>

record relay_runtime =
  rr_role :: str
  rr_wrap_secret :: "bytes option"
  rr_name :: str
  require_tickets :: bool
  require_capabilities :: bool
  rr_issuance_public :: bytes
  rr_issuance_private :: bytes
  rr_tls_spki :: bytes

text \<open>The part of a request a handler reads besides the body's fields.\<close>

record http_request =
  hq_method :: str
  hq_path :: str
  hq_headers :: "(str \<times> str) list"
  hq_body :: bytes

record relay =
  rl_blobs :: blob_store
  rl_pairs :: pairing_store
  rl_caps :: cap_store

definition header :: "http_request \<Rightarrow> str \<Rightarrow> str option" where
  "header q name = map_of (hq_headers q) name"

text \<open>A method of one of the stores, run on the relay.\<close>

definition on_blobs :: "(blob_store, 'a) meth \<Rightarrow> (relay, 'a) meth" where
  "on_blobs m r = (case m (rl_blobs r) of (x, b) \<Rightarrow> (x, r\<lparr>rl_blobs := b\<rparr>))"

definition on_pairs :: "(pairing_store, 'a) meth \<Rightarrow> (relay, 'a) meth" where
  "on_pairs m r = (case m (rl_pairs r) of (x, p) \<Rightarrow> (x, r\<lparr>rl_pairs := p\<rparr>))"

definition on_caps :: "(cap_store, 'a) meth \<Rightarrow> (relay, 'a) meth" where
  "on_caps m r = (case m (rl_caps r) of (x, c) \<Rightarrow> (x, r\<lparr>rl_caps := c\<rparr>))"

text \<open>\<open>try: \<dots> except\<close>: the handler's translation of exceptions.\<close>

definition catching :: "(exn \<Rightarrow> exn) \<Rightarrow> ('s, 'a) meth \<Rightarrow> ('s, 'a) meth" where
  "catching f m s = (case m s of (Inl e, s') \<Rightarrow> (Inl (f e), s') | (Inr x, s') \<Rightarrow> (Inr x, s'))"

definition http :: "int \<Rightarrow> str \<Rightarrow> exn \<Rightarrow> exn" where
  "http status prefix e = HTTPException status (prefix @ exn_text e)"

text \<open>\<open>except ValueError\<close> clauses: another exception passes.\<close>

definition blob_error :: "exn \<Rightarrow> exn" where
  "blob_error e = (if is_value_error e
     then HTTPException (if substr ''blob limit exceeded'' (exn_text e) then 429 else 400) (exn_text e) else e)"

definition pair_error :: "exn \<Rightarrow> exn" where
  "pair_error e = (if is_value_error e
     then HTTPException (if substr ''consumed'' (exn_text e) then 409 else 400) (exn_text e) else e)"

section \<open>Authorization\<close>

fun first_permission :: "prims \<Rightarrow> relay_ticket \<Rightarrow> str \<Rightarrow> int \<Rightarrow> str list \<Rightarrow> unit res" where
  "first_permission P t name now [] = Inl (ValueError ''relay ticket missing store or fetch permission'')"
| "first_permission P t name now (p # ps) =
     (case verify_relay_ticket P t name p now of
        Inr _ \<Rightarrow> Inr ()
      | Inl e \<Rightarrow> if is_value_error e then first_permission P t name now ps else Inl e)"

definition check_bootstrap_ticket ::
    "prims \<Rightarrow> relay_runtime \<Rightarrow> str option \<Rightarrow> int \<Rightarrow> unit res" where
  "check_bootstrap_ticket P rt ticket_b64 now = (case ticket_b64 of
     None \<Rightarrow> Inl (HTTPException 401 ''relay ticket required for capability issue'')
   | Some b \<Rightarrow> (case and_then (ticket_from_b64 P b) (\<lambda>t.
         first_permission P t (rr_name rt) now [''store'', ''fetch'']) of
       Inl e \<Rightarrow> Inl (http 401 ''invalid relay ticket: '' e) | Inr _ \<Rightarrow> Inr ()))"

definition check_ticket ::
    "prims \<Rightarrow> relay_runtime \<Rightarrow> str option \<Rightarrow> str \<Rightarrow> int \<Rightarrow> unit res" where
  "check_ticket P rt ticket_b64 permission now =
     (if \<not> require_tickets rt then Inr () else case ticket_b64 of
        None \<Rightarrow> Inl (HTTPException 401 ''relay ticket required'')
      | Some b \<Rightarrow> (case and_then (ticket_from_b64 P b) (\<lambda>t.
            verify_relay_ticket P t (rr_name rt) permission now) of
          Inl e \<Rightarrow> Inl (http 401 ''invalid relay ticket: '' e) | Inr _ \<Rightarrow> Inr ()))"

definition nonempty :: "str option \<Rightarrow> str option" where
  "nonempty x = (case x of Some (c # cs) \<Rightarrow> Some (c # cs) | _ \<Rightarrow> None)"

definition capability_headers :: "http_request \<Rightarrow> (str \<times> str \<times> str \<times> str) option" where
  "capability_headers q =
     (case (nonempty (header q ''Yakr-Capability-Grant''), nonempty (header q ''Yakr-Capability-Timestamp''),
            nonempty (header q ''Yakr-Capability-Nonce''), nonempty (header q ''Yakr-Capability-Signature'')) of
        (Some g, Some t, Some n, Some s) \<Rightarrow> Some (g, t, n, s) | _ \<Rightarrow> None)"

text \<open>The checks of the \<open>try\<close> block, which change nothing; \<open>consume_nonce\<close> comes after them.\<close>

definition vet_capability ::
    "prims \<Rightarrow> relay_runtime \<Rightarrow> http_request \<Rightarrow> str \<Rightarrow> int \<Rightarrow> cap_store \<Rightarrow> str \<times> str \<times> str \<times> str \<Rightarrow> unit res" where
  "vet_capability P rt q permission now s hs = (case hs of (grant_b64, timestamp_raw, nonce_b64, signature_b64) \<Rightarrow>
     and_then (grant_from_b64 P grant_b64) (\<lambda>g.
     and_then (verify_capability_grant P g (rr_issuance_public rt) (rr_name rt) (rr_tls_spki rt) now) (\<lambda>_.
     and_then (is_registered P g now s) (\<lambda>known.
     if \<not> known then Inl (ValueError ''capability grant not registered'')
     else if \<not> grant_allows_permission g permission
     then Inl (ValueError (''capability missing permission: '' @ permission)) else
     and_then (b64decode signature_b64) (\<lambda>sig.
     and_then (int_of_str timestamp_raw) (\<lambda>ts.
     and_then (b64decode nonce_b64) (\<lambda>nonce.
     verify_capability_request P g (cg_auth_public g) sig (hq_method q) (hq_path q) (hq_body q) ts nonce now)))))))"

definition check_capability ::
    "prims \<Rightarrow> relay_runtime \<Rightarrow> http_request \<Rightarrow> str \<Rightarrow> int \<Rightarrow> (relay, unit) meth" where
  "check_capability P rt q permission now =
     (if \<not> require_capabilities rt then m_return ()
      else if rr_issuance_public rt = [] then m_raise (HTTPException 500 ''relay missing issuance public key'')
      else case capability_headers q of
        None \<Rightarrow> m_raise (HTTPException 401 ''capability headers required'')
      | Some hs \<Rightarrow>
          catching (http 401 ''invalid capability: '') (m_get (\<lambda>r.
            m_bind (m_of (vet_capability P rt q permission now (rl_caps r) hs)) (\<lambda>_.
            on_caps (consume_nonce (fst (snd (snd hs))) now)))))"

definition authorize_request ::
    "prims \<Rightarrow> relay_runtime \<Rightarrow> http_request \<Rightarrow> str \<Rightarrow> str option \<Rightarrow> int \<Rightarrow> (relay, unit) meth" where
  "authorize_request P rt q permission ticket_b64 now =
     (if require_capabilities rt then check_capability P rt q permission now
      else m_of (check_ticket P rt ticket_b64 permission now))"

section \<open>Capabilities\<close>

record issue_request =
  is_auth_public :: str
  is_capability_id :: str
  is_generation :: int
  is_salt :: str
  is_permissions :: "str list"
  is_ticket :: "str option"
  is_supersedes :: "str option"

definition issue_capability :: "prims \<Rightarrow> relay_runtime \<Rightarrow> issue_request \<Rightarrow> int \<Rightarrow> (relay, str) meth" where
  "issue_capability P rt q now =
     (if rr_issuance_private rt = [] then m_raise (HTTPException 500 ''relay missing issuance private key'') else
      m_bind (m_of (check_bootstrap_ticket P rt (is_ticket q) now)) (\<lambda>_.
      m_bind (catching (http 400 []) (
        m_bind (m_of (b64decode (is_auth_public q))) (\<lambda>auth.
        m_bind (m_of (b64decode (is_capability_id q))) (\<lambda>cid.
        m_bind (m_of (b64decode (is_salt q))) (\<lambda>salt.
        if length cid \<noteq> 16 then m_raise (ValueError ''capability_id must be 16 bytes'')
        else if length salt \<noteq> 16 then m_raise (ValueError ''issuance_salt must be 16 bytes'')
        else if length (rr_issuance_private rt) \<noteq> 32
        then m_raise (ValueError ''An Ed25519 private key is 32 bytes long'')
        else
        m_bind (m_of (issue_capability_grant P (rr_issuance_private rt) cid (is_generation q) (rr_name rt)
                        (rr_tls_spki rt) (is_permissions q) auth DEFAULT_CAPABILITY_TTL_MS now)) (\<lambda>g.
        m_bind (case is_supersedes q of
            Some (c # cs) \<Rightarrow> m_bind (m_of (b64decode (c # cs))) (\<lambda>old. on_caps (revoke_with_overlap old now None))
          | _ \<Rightarrow> m_return ()) (\<lambda>_.
        m_bind (on_caps (cap_register P g (rr_issuance_public rt) (rr_name rt) (rr_tls_spki rt) now)) (\<lambda>_.
        m_return g)))))))) (\<lambda>g.
      m_return (grant_to_b64 P g))))"

definition register_capability :: "prims \<Rightarrow> relay_runtime \<Rightarrow> str \<Rightarrow> int \<Rightarrow> (relay, str) meth" where
  "register_capability P rt grant_b64 now =
     (if rr_issuance_public rt = [] then m_raise (HTTPException 500 ''relay missing issuance public key'') else
      m_bind (catching (http 400 []) (
        m_bind (m_of (grant_from_b64 P grant_b64)) (\<lambda>g.
        m_bind (on_caps (cap_register P g (rr_issuance_public rt) (rr_name rt) (rr_tls_spki rt) now)) (\<lambda>_.
        m_return g)))) (\<lambda>g. m_return (b64encode (cg_id g))))"

definition revoke_capability :: "prims \<Rightarrow> relay_runtime \<Rightarrow> str \<Rightarrow> str \<Rightarrow> int \<Rightarrow> (relay, str) meth" where
  "revoke_capability P rt capability_id ticket now =
     m_bind (m_of (check_bootstrap_ticket P rt (Some ticket) now)) (\<lambda>_.
     m_bind (catching (http 400 []) (
       m_bind (m_of (b64decode capability_id)) (\<lambda>cid.
       if length cid \<noteq> 16 then m_raise (ValueError ''capability_id must be 16 bytes'')
       else on_caps (revoke_immediately cid now)))) (\<lambda>_.
     m_return capability_id))"

section \<open>Blobs\<close>

record blob_response =
  br_tag :: str
  br_expires_at :: int
  br_ciphertext :: str
  br_stored_at :: int

definition to_response :: "stored_blob \<Rightarrow> blob_response" where
  "to_response b = \<lparr>br_tag = b64encode (sb_tag b), br_expires_at = sb_expires_at b,
     br_ciphertext = b64encode (sb_ciphertext b), br_stored_at = sb_stored_at b\<rparr>"

definition store_blob ::
    "prims \<Rightarrow> relay_runtime \<Rightarrow> http_request \<Rightarrow> str \<Rightarrow> int \<Rightarrow> str \<Rightarrow> str option \<Rightarrow> int \<Rightarrow> (relay, unit) meth" where
  "store_blob P rt q mailbox_tag expires_at ciphertext ticket now =
     (if rr_role rt = ''entry''
      then m_raise (HTTPException 405 ''entry relay does not store blobs directly'') else
      m_bind (authorize_request P rt q ''store'' ticket now) (\<lambda>_.
      catching blob_error (
        m_bind (m_of (b64decode mailbox_tag)) (\<lambda>t.
        m_bind (m_of (b64decode ciphertext)) (\<lambda>c.
        on_blobs (blob_put t expires_at c None now))))))"

text \<open>The two loops of \<open>fetch_blobs_post\<close>: over the tags, and over the blobs of a tag.\<close>

fun add_unseen ::
    "stored_blob list \<Rightarrow> (str \<times> int) list \<times> blob_response list \<Rightarrow> (str \<times> int) list \<times> blob_response list" where
  "add_unseen [] (seen, items) = (seen, items)"
| "add_unseen (b # bs) (seen, items) =
     (let k = (b64encode (sb_ciphertext b), sb_stored_at b) in
      if k \<in> set seen then add_unseen bs (seen, items)
      else add_unseen bs (k # seen, items @ [to_response b]))"

fun collect_tags ::
    "blob_store \<Rightarrow> int \<Rightarrow> str list \<Rightarrow> (str \<times> int) list \<times> blob_response list \<Rightarrow> blob_response list res" where
  "collect_tags s now [] acc = Inr (snd acc)"
| "collect_tags s now (t # ts) acc = (case b64decode t of
     Inl e \<Rightarrow> Inl (HTTPException 400 ''invalid mailbox_tag'')
   | Inr tag_bytes \<Rightarrow> collect_tags s now ts (add_unseen (blob_fetch tag_bytes now s) acc))"

definition fetch_blobs_post ::
    "prims \<Rightarrow> relay_runtime \<Rightarrow> http_request \<Rightarrow> str list \<Rightarrow> str option \<Rightarrow> int \<Rightarrow> (relay, blob_response list) meth" where
  "fetch_blobs_post P rt q mailbox_tags ticket now =
     (if rr_role rt = ''entry'' then m_raise (HTTPException 405 ''entry relay does not fetch blobs'') else
      m_bind (authorize_request P rt q ''fetch'' ticket now) (\<lambda>_.
      if mailbox_tags = [] then m_raise (HTTPException 400 ''mailbox_tags required'')
      else m_get (\<lambda>r. m_of (collect_tags (rl_blobs r) now mailbox_tags ([], [])))))"

definition fetch_blobs_legacy :: "str \<Rightarrow> int \<Rightarrow> relay \<Rightarrow> blob_response list res" where
  "fetch_blobs_legacy mailbox_tag now r = (case b64decode mailbox_tag of
     Inl e \<Rightarrow> Inl (HTTPException 400 ''invalid mailbox_tag'')
   | Inr t \<Rightarrow> Inr (map to_response (blob_fetch t now (rl_blobs r))))"

section \<open>Onion packets\<close>

text \<open>\<open>post url inner ticket\<close> is the answer of the next relay: its status code and text.\<close>

definition relay_packet ::
    "prims \<Rightarrow> relay_runtime \<Rightarrow> (str \<Rightarrow> str \<Rightarrow> str option \<Rightarrow> (int \<times> str) res) \<Rightarrow> str \<Rightarrow> str option \<Rightarrow> int \<Rightarrow> str res" where
  "relay_packet P rt post pkt ticket now =
     (if rr_role rt \<notin> {''entry'', ''both''} then Inl (HTTPException 405 ''not an entry relay'') else
      and_then (check_ticket P rt ticket ''forward'' now) (\<lambda>_.
      case rr_wrap_secret rt of
        None \<Rightarrow> Inl (HTTPException 500 ''entry relay missing wrap secret'')
      | Some secret \<Rightarrow>
          (case and_then (b64decode pkt) (\<lambda>p. decode_entry_packet P p secret) of
             Inl e \<Rightarrow> Inl (HTTPException 400 ''invalid relay packet'')
           | Inr (next_url, inner_cipher) \<Rightarrow>
               and_then (post next_url (b64encode inner_cipher) ticket) (\<lambda>(status, body).
               if status \<notin> {201, 202} then Inl (HTTPException 502 (''forward failed: '' @ body))
               else Inr next_url))))"

definition ingest_packet ::
    "prims \<Rightarrow> relay_runtime \<Rightarrow> str \<Rightarrow> str option \<Rightarrow> int \<Rightarrow> (relay, unit) meth" where
  "ingest_packet P rt inner ticket now =
     (if rr_role rt \<notin> {''mailbox'', ''both''} then m_raise (HTTPException 405 ''not a mailbox relay'') else
      m_bind (m_of (check_ticket P rt ticket ''store'' now)) (\<lambda>_.
      case rr_wrap_secret rt of
        None \<Rightarrow> m_raise (HTTPException 500 ''mailbox relay missing wrap secret'')
      | Some secret \<Rightarrow>
          catching (\<lambda>e. if is_value_error e then blob_error e else HTTPException 400 ''invalid ingest packet'') (
            m_bind (m_of (and_then (b64decode inner) (\<lambda>i. decode_mailbox_packet P i secret))) (\<lambda>outer.
            on_blobs (blob_put (ob_tag outer) (ob_expires_at outer) (ob_ciphertext outer) None now)))))"

section \<open>Pairing\<close>

definition pair_register_post :: "prims \<Rightarrow> str \<Rightarrow> int \<Rightarrow> (relay, str) meth" where
  "pair_register_post P invite_secret now = catching pair_error (
     m_bind (m_of (b64decode invite_secret)) (\<lambda>secret. on_pairs (pair_register P secret now)))"

definition pair_request_post :: "prims \<Rightarrow> str \<Rightarrow> int \<Rightarrow> (relay, str) meth" where
  "pair_request_post P request now =
     catching (\<lambda>e. if is_value_error e then pair_error e else HTTPException 400 ''invalid pairing request'') (
     m_bind (m_of (b64decode request)) (\<lambda>b.
     m_bind (m_of (request_from_bytes P b)) (\<lambda>parsed.
     on_pairs (pair_store_request P (pq_invite_secret parsed) b now))))"

definition pair_pending :: "str \<Rightarrow> relay \<Rightarrow> str res" where
  "pair_pending invite_tag r = (case get_pending_request invite_tag (rl_pairs r) of
     None \<Rightarrow> Inl (HTTPException 404 ''no pending request'') | Some b \<Rightarrow> Inr (b64encode b))"

definition pair_response_post :: "prims \<Rightarrow> str \<Rightarrow> str \<Rightarrow> (relay, str) meth" where
  "pair_response_post P invite_secret response = catching pair_error (
     m_bind (m_of (b64decode invite_secret)) (\<lambda>secret.
     m_bind (m_of (b64decode response)) (\<lambda>b. on_pairs (pair_store_response P secret b))))"

definition pair_fetch_response :: "str \<Rightarrow> relay \<Rightarrow> str res" where
  "pair_fetch_response invite_tag r = (case get_response invite_tag (rl_pairs r) of
     None \<Rightarrow> Inl (HTTPException 404 ''response not ready'') | Some b \<Rightarrow> Inr (b64encode b))"

definition relay_sweep :: "int \<Rightarrow> (relay, unit) meth" where
  "relay_sweep now = m_bind (on_blobs (blob_sweep now)) (\<lambda>_.
     m_bind (on_pairs (pair_sweep now)) (\<lambda>_. m_return ()))"

section \<open>Authorized requests\<close>

lemma catching_Inr [simp]: "catching f m s = (Inr x, s') \<longleftrightarrow> m s = (Inr x, s')"
  by (auto simp: catching_def split: prod.splits sum.splits)

lemma catching_Inl: "catching f m s = (Inl e, s') \<longleftrightarrow> (\<exists>e0. m s = (Inl e0, s') \<and> e = f e0)"
  by (auto simp: catching_def split: prod.splits sum.splits)

lemma snd_catching [simp]: "snd (catching f m s) = snd (m s)"
  by (auto simp: catching_def split: prod.splits sum.splits)

lemma m_bind_of_Inr: "m_bind (m_of x) f s = (Inr y, s') \<longleftrightarrow> (\<exists>z. x = Inr z \<and> f z s = (Inr y, s'))"
  by (cases x) auto

lemma snd_m_bind_of: "snd (m_bind (m_of x) f s) = (case x of Inl e \<Rightarrow> s | Inr y \<Rightarrow> snd (f y s))"
  by (cases x) auto

text \<open>What a request must carry to be let through, on a relay that requires capabilities.\<close>

definition vouched ::
    "prims \<Rightarrow> relay_runtime \<Rightarrow> http_request \<Rightarrow> str \<Rightarrow> int \<Rightarrow> cap_store \<Rightarrow> capability_grant \<Rightarrow> str \<Rightarrow> int \<Rightarrow> bool" where
  "vouched P rt q permission now s g nonce_b64 ts \<longleftrightarrow> rr_issuance_public rt \<noteq> [] \<and>
     (\<exists>gb tb sb sig nonce. capability_headers q = Some (gb, tb, nonce_b64, sb) \<and>
        grant_from_b64 P gb = Inr g \<and> int_of_str tb = Inr ts \<and> b64decode sb = Inr sig \<and>
        b64decode nonce_b64 = Inr nonce \<and>
        verify_capability_grant P g (rr_issuance_public rt) (rr_name rt) (rr_tls_spki rt) now = Inr () \<and>
        is_registered P g now s = Inr True \<and> grant_allows_permission g permission \<and>
        verify_capability_request P g (cg_auth_public g) sig (hq_method q) (hq_path q) (hq_body q) ts nonce now
          = Inr ())"

lemma check_capability_Inr:
  assumes "require_capabilities rt"
  shows "check_capability P rt q permission now r = (Inr u, r') \<longleftrightarrow>
    (\<exists>g n ts. vouched P rt q permission now (rl_caps r) g n ts \<and> on_caps (consume_nonce n now) r = (Inr u, r'))"
proof (cases "rr_issuance_public rt = [] \<or> capability_headers q = None")
  case True
  with assms show ?thesis by (auto simp: check_capability_def vouched_def)
next
  case False
  then obtain gb tb nb sb where h: "capability_headers q = Some (gb, tb, nb, sb)" "rr_issuance_public rt \<noteq> []"
    by auto
  show ?thesis
  proof
    assume "check_capability P rt q permission now r = (Inr u, r')"
    then show "\<exists>g n ts. vouched P rt q permission now (rl_caps r) g n ts \<and> on_caps (consume_nonce n now) r = (Inr u, r')"
      by (auto simp: check_capability_def vet_capability_def assms h vouched_def m_bind_of_Inr split: if_splits)
  next
    assume "\<exists>g n ts. vouched P rt q permission now (rl_caps r) g n ts \<and> on_caps (consume_nonce n now) r = (Inr u, r')"
    then show "check_capability P rt q permission now r = (Inr u, r')"
      by (elim exE conjE) (auto simp: vouched_def h check_capability_def vet_capability_def assms)
  qed
qed

text \<open>Whatever the verdict, at most the nonce store changes, by one \<open>consume_nonce\<close>.\<close>

lemma check_capability_state:
  assumes "check_capability P rt q permission now r = (res, r')"
  shows "r' = r \<or> (\<exists>gb tb nb sb. capability_headers q = Some (gb, tb, nb, sb) \<and>
    r' = snd (on_caps (consume_nonce nb now) r))"
proof -
  have "r' = snd (check_capability P rt q permission now r)" using assms by simp
  then show ?thesis
    by (auto simp: check_capability_def snd_m_bind_of split: option.splits if_splits sum.splits)
qed

lemma on_store_frames [simp]:
  "rl_blobs (snd (on_caps m r)) = rl_blobs r" "rl_pairs (snd (on_caps m r)) = rl_pairs r"
  "rl_caps (snd (on_blobs m' r)) = rl_caps r" "rl_pairs (snd (on_blobs m' r)) = rl_pairs r"
  "rl_caps (snd (on_pairs m'' r)) = rl_caps r" "rl_blobs (snd (on_pairs m'' r)) = rl_blobs r"
  by (simp_all add: on_caps_def on_blobs_def on_pairs_def split: prod.splits)

lemma check_capability_keeps:
  assumes "check_capability P rt q permission now r = (res, r')"
  shows "rl_blobs r' = rl_blobs r" "rl_pairs r' = rl_pairs r"
  using check_capability_state [OF assms] by auto

lemma authorize_request_keeps:
  assumes "authorize_request P rt q permission ticket now r = (res, r')"
  shows "rl_blobs r' = rl_blobs r" "rl_pairs r' = rl_pairs r"
  using assms check_capability_keeps [of P rt q permission now r res r']
  by (auto simp: authorize_request_def split: if_splits)

text \<open>A request made by \<open>capability_request_headers\<close> for a registered grant is let through.\<close>

lemma int_of_str_of_int [simp]: "0 \<le> i \<Longrightarrow> int_of_str (str_of_int i) = Inr i"
proof -
  assume i: "0 \<le> i"
  let ?s = "str_of_nat (nat i)"
  have d: "c \<in> set ?s \<Longrightarrow> is_digit c" for c by (rule str_of_nat_digits)
  have sp: "\<not> is_space c" if "is_digit c" for c
    using that by (auto simp: is_digit_def is_space_def Let_def)
  have "stripped ?s" using d sp by (auto simp: stripped_def)
  then have st: "py_strip ?s = ?s" by (rule py_strip_stripped)
  obtain c cs where c: "?s = c # cs" by (cases ?s) auto
  have "is_digit c" using d [of c] c by simp
  then have ne: "c \<noteq> CHR ''-''" "c \<noteq> CHR ''+''" by (auto simp: is_digit_def)
  have "list_all is_digit (c # cs)" using d c by (auto simp: list_all_iff)
  moreover have "nat_of_str (c # cs) = nat i" using c nat_of_str_of_nat [of "nat i"] by simp
  ultimately show ?thesis
    using i c st ne by (simp add: int_of_str_def str_of_int_def Let_def)
qed

lemma nonempty_Some: "x \<noteq> [] \<Longrightarrow> nonempty (Some x) = Some x"
  by (cases x) (simp_all add: nonempty_def)

lemma on_caps_result: "on_caps m r = (x, r') \<longleftrightarrow> (\<exists>c. m (rl_caps r) = (x, c) \<and> r' = r\<lparr>rl_caps := c\<rparr>)"
  by (auto simp: on_caps_def split: prod.splits)

definition signed_request :: "prims \<Rightarrow> capability_grant \<Rightarrow> bytes \<Rightarrow> int \<Rightarrow> bytes \<Rightarrow> http_request \<Rightarrow> bool" where
  "signed_request P g auth_private ts nonce q \<longleftrightarrow>
     capability_request_headers P g auth_private (hq_method q) (hq_path q) (hq_body q) ts nonce = Inr (hq_headers q)"

lemma signed_request_headers:
  assumes "cbor_correct P" "signed_request P g auth_private ts nonce q" "grant_to_bytes P g \<noteq> []" "p_ed_sign P auth_private
       (capability_request_signing_input P (hq_method q) (hq_path q) (hq_body q) ts nonce) \<noteq> []"
  shows "length nonce = 16" "capability_headers q = Some (grant_to_b64 P g, str_of_int ts, b64encode nonce,
    b64encode (p_ed_sign P auth_private
       (capability_request_signing_input P (hq_method q) (hq_path q) (hq_body q) ts nonce)))"
proof -
  from assms(2) show n: "length nonce = 16"
    by (auto simp: signed_request_def capability_request_headers_def sign_capability_request_def split: if_splits)
  let ?sig = "p_ed_sign P auth_private
       (capability_request_signing_input P (hq_method q) (hq_path q) (hq_body q) ts nonce)"
  have h: "hq_headers q = [(''Yakr-Capability-Grant'', grant_to_b64 P g), (''Yakr-Capability-Timestamp'', str_of_int ts),
      (''Yakr-Capability-Nonce'', b64encode nonce), (''Yakr-Capability-Signature'', b64encode ?sig)]"
    using assms(2) n by (simp add: signed_request_def capability_request_headers_def sign_capability_request_def)
  have ne: "grant_to_b64 P g \<noteq> []" "str_of_int ts \<noteq> []" "nonce \<noteq> []" "?sig \<noteq> []"
    using n assms by (auto simp: grant_to_b64_def str_of_int_def)
  show "capability_headers q = Some (grant_to_b64 P g, str_of_int ts, b64encode nonce, b64encode ?sig)"
    by (simp add: capability_headers_def header_def h nonempty_Some ne)
qed

lemma signed_request_passes:
  assumes laws: "cbor_correct P" "ed25519_correct P"
    and caps: "require_capabilities rt" "rr_issuance_public rt \<noteq> []"
    and g: "verify_capability_grant P g (rr_issuance_public rt) (rr_name rt) (rr_tls_spki rt) now = Inr ()"
      "is_registered P g now (rl_caps r) = Inr True" "grant_allows_permission g permission"
      "cg_auth_public g = p_ed_pub P auth_private" "length auth_private = 32"
    and q: "signed_request P g auth_private ts nonce q" "0 \<le> ts" "\<bar>ts - now\<bar> \<le> TIMESTAMP_SKEW_MS"
      "grant_to_bytes P g \<noteq> []" "\<And>m. p_ed_sign P auth_private m \<noteq> []"
    and fresh: "nonces_ok (rl_caps r)" "nonce_seen (rl_caps r) (b64encode nonce) = None"
  shows "\<exists>r'. authorize_request P rt q permission ticket now r = (Inr (), r')"
proof -
  note h = signed_request_headers [OF laws(1) q(1) q(4,5)]
  have "verify_capability_request P g (cg_auth_public g) (p_ed_sign P auth_private
       (capability_request_signing_input P (hq_method q) (hq_path q) (hq_body q) ts nonce))
       (hq_method q) (hq_path q) (hq_body q) ts nonce now = Inr ()"
    using h(1) g(4,5) laws(2) q(3) by (simp add: verify_capability_request_Inr ed25519_correct_def)
  then have v: "vouched P rt q permission now (rl_caps r) g (b64encode nonce) ts"
    using caps(2) h(2) g q(2) laws(1) by (simp add: vouched_def grant_from_to_b64)
  obtain res c where c: "consume_nonce (b64encode nonce) now (rl_caps r) = (res, c)" by fastforce
  with consume_nonce_spec(4) [OF fresh(1) c] fresh(2) have "res = Inr ()" by simp
  with c have "on_caps (consume_nonce (b64encode nonce) now) r = (Inr (), r\<lparr>rl_caps := c\<rparr>)"
    by (simp add: on_caps_result)
  with v caps(1) have "check_capability P rt q permission now r = (Inr (), r\<lparr>rl_caps := c\<rparr>)"
    by (auto simp: check_capability_Inr)
  with caps(1) show ?thesis by (auto simp: authorize_request_def)
qed

section \<open>The relay as a whole\<close>

text \<open>The requests that can change a relay's stores, and the sweeper.\<close>

datatype relay_op =
    StoreBlob http_request str int str "str option"
  | FetchBlobs http_request "str list" "str option"
  | IssueCapability issue_request
  | RegisterCapability str
  | RevokeCapability str str
  | IngestPacket str "str option"
  | PairRegister str
  | PairRequest str
  | PairResponse str str
  | SweepStores

text \<open>Whether the relay answered an authorized store or fetch, and the relay afterwards.\<close>

fun served :: "'a res \<times> relay \<Rightarrow> bool \<times> relay" where
  "served (Inr x, r) = (True, r)"
| "served (Inl e, r) = (False, r)"

fun serve :: "prims \<Rightarrow> relay_runtime \<Rightarrow> relay_op \<Rightarrow> int \<Rightarrow> relay \<Rightarrow> bool \<times> relay" where
  "serve P rt (StoreBlob q t e c ticket) now r = served (store_blob P rt q t e c ticket now r)"
| "serve P rt (FetchBlobs q ts ticket) now r = served (fetch_blobs_post P rt q ts ticket now r)"
| "serve P rt (IssueCapability q) now r = (False, snd (issue_capability P rt q now r))"
| "serve P rt (RegisterCapability g) now r = (False, snd (register_capability P rt g now r))"
| "serve P rt (RevokeCapability c t) now r = (False, snd (revoke_capability P rt c t now r))"
| "serve P rt (IngestPacket i t) now r = (False, snd (ingest_packet P rt i t now r))"
| "serve P rt (PairRegister x) now r = (False, snd (pair_register_post P x now r))"
| "serve P rt (PairRequest x) now r = (False, snd (pair_request_post P x now r))"
| "serve P rt (PairResponse x y) now r = (False, snd (pair_response_post P x y r))"
| "serve P rt SweepStores now r = (False, snd (relay_sweep now r))"

fun op_headers :: "relay_op \<Rightarrow> (str \<times> str \<times> str \<times> str) option" where
  "op_headers (StoreBlob q t e c ticket) = capability_headers q"
| "op_headers (FetchBlobs q ts ticket) = capability_headers q"
| "op_headers _ = None"

definition op_nonce :: "relay_op \<Rightarrow> str" where
  "op_nonce op = (case op_headers op of Some (g, t, n, s) \<Rightarrow> n | None \<Rightarrow> [])"

definition op_stamp :: "relay_op \<Rightarrow> int" where
  "op_stamp op = (case op_headers op of Some (g, t, n, s) \<Rightarrow> (case int_of_str t of Inr i \<Rightarrow> i | Inl e \<Rightarrow> 0) | None \<Rightarrow> 0)"

definition caps_relay :: "relay_runtime \<Rightarrow> relay \<Rightarrow> bool" where
  "caps_relay rt r \<longleftrightarrow> require_capabilities rt \<and> nonces_ok (rl_caps r)"

text \<open>Only \<open>consume_nonce\<close> touches the nonces.\<close>

lemma nonces_frame:
  assumes "cs_nonces c' = cs_nonces c"
  shows "nonces_ok c' = nonces_ok c" "nonce_seen c' = nonce_seen c"
  using assms by (simp_all add: nonces_ok_def nonce_seen_def fun_eq_iff)

definition relay_nonces :: "relay \<Rightarrow> (str \<times> json) list" where
  "relay_nonces r = cs_nonces (rl_caps r)"

lemma keeps_catching [keeps_rules]: "keeps f m \<Longrightarrow> keeps f (catching g m)"
  by (simp add: keeps_def)

lemma keeps_cap_save [keeps_rules]: "keeps cs_nonces cap_save"
  by (simp add: keeps_def)

lemma keeps_cap_ops [keeps_rules]:
  "keeps cs_nonces (cap_register P g pk name tls now)"
  "keeps cs_nonces (revoke_with_overlap cid now w)"
  "keeps cs_nonces (revoke_immediately cid now)"
  unfolding cap_register_def revoke_with_overlap_def revoke_immediately_def
  by (auto intro!: keeps_rules)

lemma keeps_on_store [keeps_rules]:
  "keeps cs_nonces m \<Longrightarrow> keeps relay_nonces (on_caps m)"
  "keeps relay_nonces (on_blobs m')" "keeps relay_nonces (on_pairs m'')"
  "keeps rl_blobs (on_caps m)" "keeps rl_blobs (on_pairs m'')" "keeps rl_pairs (on_caps m)"
  "keeps rl_pairs (on_blobs m')" "keeps rl_caps (on_blobs m')" "keeps rl_caps (on_pairs m'')"
  by (auto simp: keeps_def relay_nonces_def on_caps_def on_blobs_def on_pairs_def split: prod.splits)
    (metis snd_conv)

lemma other_ops_nonces:
  "keeps relay_nonces (issue_capability P rt iq now)"
  "keeps relay_nonces (register_capability P rt g now)"
  "keeps relay_nonces (revoke_capability P rt c t now)"
  "keeps relay_nonces (ingest_packet P rt i tk now)"
  "keeps relay_nonces (pair_register_post P x now)"
  "keeps relay_nonces (pair_request_post P x now)"
  "keeps relay_nonces (pair_response_post P x y)"
  "keeps relay_nonces (relay_sweep now)"
  unfolding issue_capability_def register_capability_def revoke_capability_def ingest_packet_def
    pair_register_post_def pair_request_post_def pair_response_post_def relay_sweep_def
  by (intro keeps_rules)+

text \<open>The nonce store over one capability check.\<close>

lemma check_capability_guard:
  assumes ok: "caps_relay rt r" and y: "check_capability P rt q perm now r = (y, r')"
    and h: "n = (case capability_headers q of Some (g, t, n, s) \<Rightarrow> n | None \<Rightarrow> [])"
  shows "caps_relay rt r'"
    "y = Inr () \<Longrightarrow> (\<exists>g ts. vouched P rt q perm now (rl_caps r) g n ts) \<and> nonce_seen (rl_caps r') n = Some now \<and>
       (\<forall>t. nonce_seen (rl_caps r) n = Some t \<longrightarrow> NONCE_TTL_MS < now - t)"
    "nonce_seen (rl_caps r) k = Some t \<Longrightarrow> now - t \<le> NONCE_TTL_MS \<Longrightarrow> y \<noteq> Inr () \<or> n \<noteq> k \<Longrightarrow>
       nonce_seen (rl_caps r') k = Some t"
proof -
  have nok: "nonces_ok (rl_caps r)" and req: "require_capabilities rt" using ok by (auto simp: caps_relay_def)
  obtain res c where c: "consume_nonce n now (rl_caps r) = (res, c)" by fastforce
  note spec = consume_nonce_spec [OF nok c]
  have r': "r' = r \<and> y \<noteq> Inr () \<or> r' = r\<lparr>rl_caps := c\<rparr> \<and> (y = Inr () \<longleftrightarrow> res = Inr ())"
  proof (cases "rr_issuance_public rt = [] \<or> capability_headers q = None")
    case True
    with y req show ?thesis by (auto simp: check_capability_def split: if_splits)
  next
    case False
    then obtain gb tb sb where hs: "capability_headers q = Some (gb, tb, n, sb)" "rr_issuance_public rt \<noteq> []"
      using h by auto
    with y req c show ?thesis
      by (cases "vet_capability P rt q perm now (rl_caps r) (gb, tb, n, sb)"; cases res)
        (auto simp: check_capability_def catching_def on_caps_def split: prod.splits)
  qed
  show "caps_relay rt r'" using r' spec(1) ok by (auto simp: caps_relay_def)
  show "nonce_seen (rl_caps r) k = Some t \<Longrightarrow> now - t \<le> NONCE_TTL_MS \<Longrightarrow> y \<noteq> Inr () \<or> n \<noteq> k \<Longrightarrow>
       nonce_seen (rl_caps r') k = Some t"
    using r' spec(5) [of k] pruned_seen(1) [OF nok, of now k] by auto
  assume acc: "y = Inr ()"
  then obtain g n' ts where v: "vouched P rt q perm now (rl_caps r) g n' ts"
    using y check_capability_Inr [OF req, of P q perm now r "()" r'] by auto
  moreover have "n' = n" using v h by (auto simp: vouched_def)
  ultimately show "(\<exists>g ts. vouched P rt q perm now (rl_caps r) g n ts) \<and> nonce_seen (rl_caps r') n = Some now \<and>
       (\<forall>t. nonce_seen (rl_caps r) n = Some t \<longrightarrow> NONCE_TTL_MS < now - t)"
    using acc r' spec(4) spec(5) [of n] by auto
qed

lemma vouched_stamp:
  assumes "vouched P rt q perm now s g n ts"
  shows "\<bar>ts - now\<bar> \<le> TIMESTAMP_SKEW_MS" "\<exists>gb tb sb. capability_headers q = Some (gb, tb, n, sb) \<and> int_of_str tb = Inr ts"
  using assms by (auto simp: vouched_def verify_capability_request_Inr)

text \<open>A store or fetch is the check followed by steps that leave the nonces alone.\<close>

lemma served_bind:
  assumes "m r = (y, r1)" "keeps relay_nonces rest" "served (m_bind m (\<lambda>_. rest) r) = (b, r')"
  shows "relay_nonces r' = relay_nonces r1 \<and> (b \<longrightarrow> (\<exists>x. y = Inr x))"
proof (cases y)
  case (Inl e)
  with assms show ?thesis by (simp add: m_bind_def)
next
  case (Inr x)
  obtain z r2 where z: "rest r1 = (z, r2)" by fastforce
  with keepsD [OF assms(2) z] assms Inr show ?thesis by (cases z) (auto simp: m_bind_def)
qed

definition data_op :: "prims \<Rightarrow> relay_runtime \<Rightarrow> relay_op \<Rightarrow> int \<Rightarrow> bool" where
  "data_op P rt op now \<longleftrightarrow> (\<exists>q perm. op_headers op = capability_headers q \<and>
     (\<forall>r b r'. caps_relay rt r \<longrightarrow> serve P rt op now r = (b, r') \<longrightarrow>
        (\<exists>y r1. check_capability P rt q perm now r = (y, r1) \<and> relay_nonces r' = relay_nonces r1 \<and>
           (b \<longrightarrow> y = Inr ())) \<or> (\<not> b \<and> r' = r)))"

lemma data_ops:
  "data_op P rt (StoreBlob q t e c ticket) now"
  "data_op P rt (FetchBlobs q ts ticket) now"
proof -
  have k: "keeps relay_nonces (catching blob_error (m_bind (m_of (b64decode t)) (\<lambda>t.
        m_bind (m_of (b64decode c)) (\<lambda>c. on_blobs (blob_put t e c None now)))))"
    "keeps relay_nonces (if ts = [] then m_raise (HTTPException 400 ''mailbox_tags required'')
      else m_get (\<lambda>r. m_of (collect_tags (rl_blobs r) now ts ([], []))))"
    by (intro keeps_rules)+
  have step: "(\<exists>y r1. check_capability P rt q perm now r = (y, r1) \<and> relay_nonces r' = relay_nonces r1 \<and> (b \<longrightarrow> y = Inr ()))"
    if "keeps relay_nonces rest" "caps_relay rt r"
      "served (m_bind (authorize_request P rt q perm ticket now) (\<lambda>_. rest) r) = (b, r')"
    for rest :: "(relay, 'a) meth" and perm r b r'
  proof -
    obtain y r1 where y: "check_capability P rt q perm now r = (y, r1)" by fastforce
    then have "authorize_request P rt q perm ticket now r = (y, r1)"
      using that(2) by (simp add: authorize_request_def caps_relay_def)
    from served_bind [OF this that(1,3)] y show ?thesis by auto
  qed
  show "data_op P rt (StoreBlob q t e c ticket) now"
    unfolding data_op_def using step [OF k(1)]
    by (intro exI [of _ q] exI [of _ "''store''"])
      (cases "rr_role rt = ''entry''"; auto simp: store_blob_def)
  show "data_op P rt (FetchBlobs q ts ticket) now"
    unfolding data_op_def using step [OF k(2)]
    by (intro exI [of _ q] exI [of _ "''fetch''"])
      (cases "rr_role rt = ''entry''"; auto simp: fetch_blobs_post_def)
qed

lemma serve_cases:
  obtains (data) "data_op P rt op now"
  | (other) "\<And>r. fst (serve P rt op now r) = False" "keeps relay_nonces (\<lambda>r. (Inr (), snd (serve P rt op now r)))"
proof (cases op)
  case (StoreBlob q t e c ticket)
  with data_ops(1) data show thesis by blast
next
  case (FetchBlobs q ts ticket)
  with data_ops(2) data show thesis by blast
qed (use other other_ops_nonces in \<open>auto simp: keeps_def\<close>)

lemma serve_guard:
  assumes ok: "caps_relay rt r" and st: "serve P rt op now r = (b, r')"
  shows "caps_relay rt r'"
    "b \<Longrightarrow> nonce_seen (rl_caps r') (op_nonce op) = Some now \<and> \<bar>op_stamp op - now\<bar> \<le> TIMESTAMP_SKEW_MS \<and>
       (\<forall>t. nonce_seen (rl_caps r) (op_nonce op) = Some t \<longrightarrow> NONCE_TTL_MS < now - t)"
    "nonce_seen (rl_caps r) k = Some t \<Longrightarrow> now - t \<le> NONCE_TTL_MS \<Longrightarrow> \<not> b \<or> op_nonce op \<noteq> k \<Longrightarrow>
       nonce_seen (rl_caps r') k = Some t"
proof -
  have "caps_relay rt r' \<and>
    (b \<longrightarrow> nonce_seen (rl_caps r') (op_nonce op) = Some now \<and> \<bar>op_stamp op - now\<bar> \<le> TIMESTAMP_SKEW_MS \<and>
       (\<forall>t. nonce_seen (rl_caps r) (op_nonce op) = Some t \<longrightarrow> NONCE_TTL_MS < now - t)) \<and>
    (nonce_seen (rl_caps r) k = Some t \<longrightarrow> now - t \<le> NONCE_TTL_MS \<longrightarrow> \<not> b \<or> op_nonce op \<noteq> k \<longrightarrow>
       nonce_seen (rl_caps r') k = Some t)" for k t
  proof (cases rule: serve_cases [of P rt op now])
    case data
    then obtain q perm where q: "op_headers op = capability_headers q"
      "(\<exists>y r1. check_capability P rt q perm now r = (y, r1) \<and> relay_nonces r' = relay_nonces r1 \<and>
           (b \<longrightarrow> y = Inr ())) \<or> (\<not> b \<and> r' = r)"
      using ok st unfolding data_op_def by blast
    from q(2) show ?thesis
    proof (elim disjE exE conjE)
      fix y r1 assume y: "check_capability P rt q perm now r = (y, r1)" "relay_nonces r' = relay_nonces r1" "b \<longrightarrow> y = Inr ()"
      have n: "op_nonce op = (case capability_headers q of Some (g, t, n, s) \<Rightarrow> n | None \<Rightarrow> [])"
        by (simp add: op_nonce_def q(1))
      note g = check_capability_guard [OF ok y(1) n]
      have "\<bar>op_stamp op - now\<bar> \<le> TIMESTAMP_SKEW_MS" if b
      proof -
        from g(2) y(3) that obtain gr ts where v: "vouched P rt q perm now (rl_caps r) gr (op_nonce op) ts" by blast
        from vouched_stamp [OF v] show ?thesis by (auto simp: op_stamp_def q(1))
      qed
      moreover have "caps_relay rt r'" "nonce_seen (rl_caps r') = nonce_seen (rl_caps r1)"
        using g(1) nonces_frame [OF y(2) [unfolded relay_nonces_def]] by (auto simp: caps_relay_def)
      moreover have "nonce_seen (rl_caps r1) k = Some t"
        if "nonce_seen (rl_caps r) k = Some t" "now - t \<le> NONCE_TTL_MS" "\<not> b \<or> op_nonce op \<noteq> k"
      proof -
        have "y \<noteq> Inr () \<or> op_nonce op \<noteq> k" using g(2) that by force
        with g(3) that show ?thesis by blast
      qed
      ultimately show ?thesis using g(2) y(3) by auto
    qed (use ok in auto)
  next
    case other
    then have "relay_nonces r' = relay_nonces r" "\<not> b"
      using st other(1) [of r] by (auto simp: keeps_def dest: spec [of _ r])
    with nonces_frame [of "rl_caps r'" "rl_caps r"] ok show ?thesis
      by (auto simp: relay_nonces_def caps_relay_def)
  qed
  then show "caps_relay rt r'"
    "b \<Longrightarrow> nonce_seen (rl_caps r') (op_nonce op) = Some now \<and> \<bar>op_stamp op - now\<bar> \<le> TIMESTAMP_SKEW_MS \<and>
       (\<forall>t. nonce_seen (rl_caps r) (op_nonce op) = Some t \<longrightarrow> NONCE_TTL_MS < now - t)"
    "nonce_seen (rl_caps r) k = Some t \<Longrightarrow> now - t \<le> NONCE_TTL_MS \<Longrightarrow> \<not> b \<or> op_nonce op \<noteq> k \<Longrightarrow>
       nonce_seen (rl_caps r') k = Some t"
    by blast+
qed

interpretation relay_guard: stamped_guard "serve P rt" op_nonce "\<lambda>r. nonce_seen (rl_caps r)"
    "caps_relay rt" NONCE_TTL_MS op_stamp TIMESTAMP_SKEW_MS for P rt
proof
  fix op now r b r' k t
  assume ok: "caps_relay rt r"
  show "serve P rt op now r = (b, r') \<Longrightarrow> caps_relay rt r'" by (rule serve_guard(1) [OF ok])
  show "serve P rt op now r = (True, r') \<Longrightarrow> nonce_seen (rl_caps r') (op_nonce op) = Some now \<and>
      (\<forall>t. nonce_seen (rl_caps r) (op_nonce op) = Some t \<longrightarrow> NONCE_TTL_MS < now - t)"
    using serve_guard(2) [OF ok] by blast
  show "serve P rt op now r = (True, r') \<Longrightarrow> \<bar>op_stamp op - now\<bar> \<le> TIMESTAMP_SKEW_MS"
    using serve_guard(2) [OF ok] by blast
  show "nonce_seen (rl_caps r) k = Some t \<Longrightarrow> now - t \<le> NONCE_TTL_MS \<Longrightarrow> serve P rt op now r = (b, r') \<Longrightarrow>
      \<not> b \<or> op_nonce op \<noteq> k \<Longrightarrow> nonce_seen (rl_caps r') k = Some t"
    using serve_guard(3) [OF ok] by blast
qed (simp add: TIMESTAMP_SKEW_MS_def NONCE_TTL_MS_def)

section \<open>Blobs over HTTP\<close>

lemma on_blobs_result: "on_blobs m r = (x, r') \<longleftrightarrow> (\<exists>b. m (rl_blobs r) = (x, b) \<and> r' = r\<lparr>rl_blobs := b\<rparr>)"
  by (auto simp: on_blobs_def split: prod.splits)

text \<open>What the two loops of \<open>fetch_blobs_post\<close> collect: every live blob of the tags, each once.\<close>

definition response_key :: "blob_response \<Rightarrow> str \<times> int" where
  "response_key b = (br_ciphertext b, br_stored_at b)"

definition collected :: "(str \<times> int) list \<times> blob_response list \<Rightarrow> bool" where
  "collected acc \<longleftrightarrow> set (fst acc) = response_key ` set (snd acc) \<and> distinct (map response_key (snd acc))"

lemma response_key_to [simp]: "response_key (to_response b) = (b64encode (sb_ciphertext b), sb_stored_at b)"
  by (simp add: response_key_def to_response_def)

lemma add_unseen_spec:
  assumes "collected acc"
  shows "collected (add_unseen bs acc) \<and>
    response_key ` set (snd (add_unseen bs acc)) = response_key ` (set (snd acc) \<union> to_response ` set bs) \<and>
    set (snd (add_unseen bs acc)) \<subseteq> set (snd acc) \<union> to_response ` set bs"
  using assms
proof (induction bs acc rule: add_unseen.induct)
  case (2 b bs seen items)
  show ?case
  proof (cases "(b64encode (sb_ciphertext b), sb_stored_at b) \<in> set seen")
    case True
    moreover from this have "response_key (to_response b) \<in> response_key ` set items"
      using 2(3) by (simp add: collected_def)
    ultimately show ?thesis using 2 by (auto simp: Let_def)
  next
    case False
    have c: "collected ((b64encode (sb_ciphertext b), sb_stored_at b) # seen, items @ [to_response b])"
      using 2(3) False by (auto simp: collected_def)
    show ?thesis using 2(2) [OF refl False c] False by (auto simp: Let_def)
  qed
qed simp

lemma collect_tags_spec:
  "collected acc \<Longrightarrow> collect_tags s now ts acc = Inr items \<Longrightarrow>
   distinct (map response_key items) \<and>
   response_key ` set items = response_key ` (set (snd acc) \<union>
     to_response ` {r \<in> set (bs_rows s). now < sb_expires_at r \<and> (\<exists>t \<in> set ts. b64decode t = Inr (sb_tag r))}) \<and>
   set items \<subseteq> set (snd acc) \<union>
     to_response ` {r \<in> set (bs_rows s). now < sb_expires_at r \<and> (\<exists>t \<in> set ts. b64decode t = Inr (sb_tag r))}"
proof (induction s now ts acc rule: collect_tags.induct)
  case (1 s now acc)
  then show ?case by (auto simp: collected_def)
next
  case (2 s now t ts acc)
  then obtain tb where tb: "b64decode t = Inr tb" by (cases "b64decode t") auto
  let ?acc = "add_unseen (blob_fetch tb now s) acc"
  let ?L = "\<lambda>ts. {r \<in> set (bs_rows s). now < sb_expires_at r \<and> (\<exists>t \<in> set ts. b64decode t = Inr (sb_tag r))}"
  note a = add_unseen_spec [OF 2(2), of "blob_fetch tb now s"]
  have f: "set (blob_fetch tb now s) = {r \<in> set (bs_rows s). now < sb_expires_at r \<and> sb_tag r = tb}"
    by (auto simp: blob_fetch_set)
  have split: "?L (t # ts) = set (blob_fetch tb now s) \<union> ?L ts" using tb by (auto simp: f)
  have ih: "distinct (map response_key items) \<and>
      response_key ` set items = response_key ` (set (snd ?acc) \<union> to_response ` ?L ts) \<and>
      set items \<subseteq> set (snd ?acc) \<union> to_response ` ?L ts"
    using 2(1) [OF tb] a 2(3) tb by simp
  then have "response_key ` set items = response_key ` (set (snd acc) \<union> to_response ` set (blob_fetch tb now s) \<union> to_response ` ?L ts)"
    using a by (simp add: image_Un)
  moreover have "set items \<subseteq> set (snd acc) \<union> to_response ` set (blob_fetch tb now s) \<union> to_response ` ?L ts"
    using a ih by blast
  ultimately show ?case using ih unfolding split by (simp add: image_Un Un_assoc)
qed

lemma collect_tags_total:
  "(\<And>t. t \<in> set ts \<Longrightarrow> \<exists>b. b64decode t = Inr b) \<Longrightarrow> \<exists>items. collect_tags s now ts acc = Inr items"
proof (induction s now ts acc rule: collect_tags.induct)
  case (2 s now t ts acc)
  then obtain tb where "b64decode t = Inr tb" by fastforce
  with 2 show ?case by simp
qed simp

text \<open>A refused upload leaves the blobs as they are, and says why by its status.\<close>

lemma store_blob_refused:
  assumes "store_blob P rt q t e c ticket now r = (Inl x, r')"
  shows "rl_blobs r' = rl_blobs r"
proof -
  obtain y r1 where y: "authorize_request P rt q ''store'' ticket now r = (y, r1)" by fastforce
  note k = authorize_request_keeps [OF y]
  show ?thesis
  proof (cases "rr_role rt = ''entry''")
    case False
    note body = assms [unfolded store_blob_def, simplified False, simplified]
    show ?thesis
    proof (cases y)
      case (Inr u)
      have "catching blob_error (m_bind (m_of (b64decode t)) (\<lambda>t.
        m_bind (m_of (b64decode c)) (\<lambda>c. on_blobs (blob_put t e c None now)))) r1 = (Inl x, r')"
        using body y Inr by (simp add: m_bind_def [of "authorize_request P rt q ''store'' ticket now"])
      then show ?thesis using k
        by (cases "b64decode t"; cases "b64decode c") (auto simp: catching_Inl on_blobs_result dest: blob_put_refused)
    qed (use body y k in \<open>auto simp: m_bind_def\<close>)
  qed (use assms in \<open>simp add: store_blob_def\<close>)
qed

lemma store_blob_Inr:
  assumes "store_blob P rt q t e c ticket now r = (Inr u, r')"
  obtains tb cb b where "b64decode t = Inr tb" "b64decode c = Inr cb"
    "blob_put tb e cb None now (rl_blobs r) = (Inr (), b)" "rl_blobs r' = b" "rl_pairs r' = rl_pairs r"
    "rr_role rt \<noteq> ''entry''"
proof -
  obtain y r1 where y: "authorize_request P rt q ''store'' ticket now r = (y, r1)" by fastforce
  note k = authorize_request_keeps [OF y]
  have role: "rr_role rt \<noteq> ''entry''" using assms by (auto simp: store_blob_def)
  with assms y have Y: "\<exists>v. y = Inr v"
    by (cases y) (auto simp: store_blob_def m_bind_def [of "authorize_request P rt q ''store'' ticket now"])
  with assms y role have "m_bind (m_of (b64decode t)) (\<lambda>t.
        m_bind (m_of (b64decode c)) (\<lambda>c. on_blobs (blob_put t e c None now))) r1 = (Inr u, r')"
    by (auto simp: store_blob_def m_bind_def [of "authorize_request P rt q ''store'' ticket now"])
  then show thesis using that k role by (auto simp: m_bind_of_Inr on_blobs_result)
qed

lemma fetch_post_Inr:
  assumes "fetch_blobs_post P rt q ts ticket now r = (Inr items, r')"
  shows "collect_tags (rl_blobs r) now ts ([], []) = Inr items" "rl_blobs r' = rl_blobs r" "ts \<noteq> []"
proof -
  obtain y r1 where y: "authorize_request P rt q ''fetch'' ticket now r = (y, r1)" by fastforce
  note k = authorize_request_keeps [OF y]
  have role: "rr_role rt \<noteq> ''entry''" using assms by (auto simp: fetch_blobs_post_def)
  with assms y have "\<exists>v. y = Inr v"
    by (cases y) (auto simp: fetch_blobs_post_def m_bind_def [of "authorize_request P rt q ''fetch'' ticket now"])
  with assms y role k show "collect_tags (rl_blobs r) now ts ([], []) = Inr items" "rl_blobs r' = rl_blobs r" "ts \<noteq> []"
    by (auto simp: fetch_blobs_post_def m_bind_def [of "authorize_request P rt q ''fetch'' ticket now"]
      split: if_splits sum.splits)
qed

lemma fetch_post_items:
  assumes "fetch_blobs_post P rt q ts ticket now r = (Inr items, r')"
  shows "distinct (map response_key items)"
    "response_key ` set items = (\<lambda>b. (b64encode (sb_ciphertext b), sb_stored_at b)) `
      {b \<in> set (bs_rows (rl_blobs r)). now < sb_expires_at b \<and> (\<exists>t \<in> set ts. b64decode t = Inr (sb_tag b))}"
    "set items \<subseteq> to_response `
      {b \<in> set (bs_rows (rl_blobs r)). now < sb_expires_at b \<and> (\<exists>t \<in> set ts. b64decode t = Inr (sb_tag b))}"
  using collect_tags_spec [OF _ fetch_post_Inr(1) [OF assms]]
  by (simp_all add: collected_def image_image)

end
