(* ===== verification/RelayProps.thy ===== *)
theory RelayProps
  imports RelayApp
begin

text \<open>
  What the relay guarantees, over its handlers: storing and fetching, the limits of the blob
  store, the two-hop path, requests let through at most once, and the life of a pairing
  session; and what it does not: tickets and nonces that prove less than they seem to.
\<close>

section \<open>A concrete relay\<close>

definition demo_runtime :: relay_runtime where
  "demo_runtime = \<lparr>rr_role = ''both'', rr_wrap_secret = Some [8, 8], rr_name = ''relay'',
     require_tickets = False, require_capabilities = True, rr_issuance_public = replicate 32 5,
     rr_issuance_private = replicate 32 5, rr_tls_spki = replicate 32 6\<rparr>"

definition demo_unsigned_grant :: capability_grant where
  "demo_unsigned_grant = \<lparr>cg_id = replicate 16 1, cg_generation = 1, cg_relay_name = ''relay'',
     cg_tls_spki = replicate 32 6, cg_permissions = [''store'', ''fetch''], cg_expires_at = 100000000,
     cg_auth_public = replicate 32 7, cg_signature = []\<rparr>"

definition demo_grant :: capability_grant where
  "demo_grant = demo_unsigned_grant\<lparr>cg_signature :=
     p_ed_sign demo_prims (replicate 32 5) (grant_unsigned_payload demo_prims demo_unsigned_grant)\<rparr>"

definition demo_relay :: relay where
  "demo_relay = \<lparr>rl_blobs = new_blob_store, rl_pairs = new_pairing_store,
     rl_caps = \<lparr>cs_active = [(b64encode (cg_id demo_grant), grant_entry demo_prims demo_grant 0)],
       cs_nonces = [], cs_overlap_ms = 0, cs_file = None\<rparr>\<rparr>"

definition demo_request :: "str \<Rightarrow> int \<Rightarrow> bytes \<Rightarrow> http_request" where
  "demo_request path ts nonce = \<lparr>hq_method = ''POST'', hq_path = path,
     hq_headers = (case capability_request_headers demo_prims demo_grant (replicate 32 7) ''POST'' path [] ts nonce of
       Inr hs \<Rightarrow> hs | Inl e \<Rightarrow> []), hq_body = []\<rparr>"

definition demo_tag_bytes :: bytes where "demo_tag_bytes = replicate 32 4"

lemma demo_request_signed:
  "length nonce = 16 \<Longrightarrow> signed_request demo_prims demo_grant (replicate 32 7) ts nonce (demo_request path ts nonce)"
  by (simp add: signed_request_def demo_request_def capability_request_headers_def sign_capability_request_def)

lemma demo_grant_fields:
  "cg_id demo_grant = replicate 16 1" "cg_relay_name demo_grant = ''relay''" "cg_tls_spki demo_grant = replicate 32 6"
  "cg_permissions demo_grant = [''store'', ''fetch'']" "cg_expires_at demo_grant = 100000000"
  "cg_auth_public demo_grant = replicate 32 7"
  by (simp_all add: demo_grant_def demo_unsigned_grant_def)

lemma demo_grant_valid:
  "now < 100000000 \<Longrightarrow> verify_capability_grant demo_prims demo_grant (rr_issuance_public demo_runtime)
     (rr_name demo_runtime) (rr_tls_spki demo_runtime) now = Inr ()"
  "is_registered demo_prims demo_grant now (rl_caps demo_relay) = Inr True"
  "cg_auth_public demo_grant = p_ed_pub demo_prims (replicate 32 7)"
proof -
  have pk: "p_ed_pub demo_prims (replicate 32 5) = replicate 32 5"
    "cg_auth_public demo_grant = p_ed_pub demo_prims (replicate 32 7)"
    by (simp_all add: demo_prims_def demo_grant_fields)
  have sig: "p_ed_verify demo_prims (replicate 32 5) (cg_signature demo_grant) (grant_unsigned_payload demo_prims demo_grant)"
    using demo_ed25519 pk(1) unfolding ed25519_correct_def demo_grant_def
    by (metis capability_grant.select_convs(8) capability_grant.surjective capability_grant.update_convs(8)
        grant_payload_signature length_replicate)
  show "now < 100000000 \<Longrightarrow> verify_capability_grant demo_prims demo_grant (rr_issuance_public demo_runtime)
     (rr_name demo_runtime) (rr_tls_spki demo_runtime) now = Inr ()"
    using sig by (simp add: verify_capability_grant_Inr demo_grant_fields demo_runtime_def)
  show "is_registered demo_prims demo_grant now (rl_caps demo_relay) = Inr True"
    by (simp add: is_registered_def demo_relay_def demo_cbor) (simp add: grant_entry_def jget_default_def)
  show "cg_auth_public demo_grant = p_ed_pub demo_prims (replicate 32 7)" by (rule pk(2))
qed

lemma demo_nonempty:
  "grant_to_bytes demo_prims g \<noteq> []" "p_ed_sign demo_prims k m \<noteq> []"
proof -
  have "utf8 (json_compact (JObj ps)) \<noteq> []" for ps by (simp add: json_dumps.simps)
  then show "grant_to_bytes demo_prims g \<noteq> []"
    by (simp add: grant_to_bytes_def demo_prims_def demo_cbor_dumps_def)
  show "p_ed_sign demo_prims k m \<noteq> []" by (simp add: demo_prims_def demo_expand_def Let_def)
qed

lemma demo_passes:
  assumes "0 \<le> ts" "ts < 100000000" "permission \<in> {''store'', ''fetch''}" "length nonce = 16"
  shows "\<exists>r'. authorize_request demo_prims demo_runtime (demo_request path ts nonce) permission ticket ts demo_relay
    = (Inr (), r')"
proof (rule signed_request_passes [OF demo_cbor demo_ed25519 _ _ demo_grant_valid(1,2) _ demo_grant_valid(3) _
      demo_request_signed [OF assms(4)] assms(1)])
  show "grant_allows_permission demo_grant permission"
    using assms(3) by (auto simp: grant_allows_permission_def demo_grant_fields)
qed (use assms demo_nonempty in \<open>simp_all add: demo_runtime_def TIMESTAMP_SKEW_MS_def demo_relay_def nonces_ok_def
    nonce_seen_def\<close>)

lemma demo_store:
  assumes "0 \<le> ts" "ts < 50000000" "length nonce = 16"
  shows "\<exists>r'. store_blob demo_prims demo_runtime (demo_request path ts nonce) (b64encode demo_tag_bytes)
    (ts + 1000) (b64encode [1, 2, 3]) None ts demo_relay = (Inr (), r')"
proof -
  obtain r1 where a: "authorize_request demo_prims demo_runtime (demo_request path ts nonce) ''store'' None ts demo_relay
      = (Inr (), r1)" using demo_passes [of ts "''store''" nonce path None] assms by auto
  have b: "rl_blobs r1 = new_blob_store" using authorize_request_keeps(1) [OF a] by (simp add: demo_relay_def)
  have "\<exists>b. blob_put demo_tag_bytes (ts + 1000) [1, 2, 3] None ts new_blob_store = (Inr (), b)"
    by (simp add: blob_put_def new_blob_store_def demo_tag_bytes_def MAX_RELAY_BLOB_TTL_MS_def MESSAGE_TTL_MS_def
        tbl_count_def)
  with a b show ?thesis
    by (auto simp: store_blob_def demo_runtime_def [THEN arg_cong, of rr_role, simplified] m_bind_def
        on_blobs_def catching_def)
qed

section \<open>What an operation does to the blobs\<close>

lemma keeps_blobs:
  "keeps rl_blobs (authorize_request P rt q perm ticket now)"
  "keeps rl_blobs (fetch_blobs_post P rt q ts ticket now)"
  "keeps rl_blobs (issue_capability P rt iq now)"
  "keeps rl_blobs (register_capability P rt g now)"
  "keeps rl_blobs (revoke_capability P rt c tk now)"
  "keeps rl_blobs (pair_register_post P x now)"
  "keeps rl_blobs (pair_request_post P x now)"
  "keeps rl_blobs (pair_response_post P x y)"
proof -
  show auth: "keeps rl_blobs (authorize_request P rt q perm ticket now)" for perm
    unfolding authorize_request_def check_capability_def by (intro keeps_rules)+
  show "keeps rl_blobs (fetch_blobs_post P rt q ts ticket now)"
    unfolding fetch_blobs_post_def by (intro keeps_rules auth)+
qed (unfold issue_capability_def register_capability_def revoke_capability_def pair_register_post_def
      pair_request_post_def pair_response_post_def, (intro keeps_rules)+)

lemma snd_served [simp]: "snd (served x) = snd x"
  by (cases x; cases "fst x") auto

lemma ingest_blobs:
  "rl_blobs (snd (ingest_packet P rt i tk now r)) = rl_blobs r \<or>
   (\<exists>t e c x. blob_put t e c None now (rl_blobs r) = (x, rl_blobs (snd (ingest_packet P rt i tk now r))))"
  by (auto simp: ingest_packet_def snd_m_bind_of on_blobs_def split: option.splits sum.splits prod.splits)

lemma store_blobs:
  "rl_blobs (snd (store_blob P rt q t e c tk now r)) = rl_blobs r \<or>
   (\<exists>tb e' cb x. blob_put tb e' cb None now (rl_blobs r) = (x, rl_blobs (snd (store_blob P rt q t e c tk now r))))"
proof (cases "store_blob P rt q t e c tk now r")
  case (Pair y r')
  then show ?thesis
    by (cases y) (auto dest: store_blob_refused elim: store_blob_Inr)
qed

lemma serve_blobs:
  "rl_blobs (snd (serve P rt op now r)) = rl_blobs r \<or>
   (\<exists>t e c x. blob_put t e c None now (rl_blobs r) = (x, rl_blobs (snd (serve P rt op now r)))) \<or>
   (\<exists>x. blob_sweep now (rl_blobs r) = (x, rl_blobs (snd (serve P rt op now r))))"
proof (cases op)
  case SweepStores
  then show ?thesis
    by (auto simp: relay_sweep_def m_bind_def on_blobs_def on_pairs_def split: prod.splits sum.splits)
next
  case (StoreBlob q t e c ticket)
  then show ?thesis using store_blobs [of P rt q t e c ticket now r] by auto
next
  case (IngestPacket i t)
  then show ?thesis using ingest_blobs [of P rt i t now r] by auto
qed (use keeps_blobs [unfolded keeps_def] in simp_all)

text \<open>A sequence of requests, each at its time.\<close>

fun serve_all :: "prims \<Rightarrow> relay_runtime \<Rightarrow> (relay_op \<times> int) list \<Rightarrow> relay \<Rightarrow> relay" where
  "serve_all P rt [] r = r"
| "serve_all P rt ((op, now) # qs) r = serve_all P rt qs (snd (serve P rt op now r))"

lemma put_keeps: "blob_put t e c k now s = (x, s') \<Longrightarrow> b \<in> set (bs_rows s) \<Longrightarrow> b \<in> set (bs_rows s')"
  by (auto simp: blob_put_def split: if_splits)

lemma sweep_keeps: "blob_sweep now s = (x, s') \<Longrightarrow> b \<in> set (bs_rows s) \<Longrightarrow> now < sb_expires_at b \<Longrightarrow>
   b \<in> set (bs_rows s')"
  by (auto simp: blob_sweep_def tbl_delete_def)

lemma serve_keeps_blob:
  assumes "b \<in> set (bs_rows (rl_blobs r))" "now < sb_expires_at b"
  shows "b \<in> set (bs_rows (rl_blobs (snd (serve P rt op now r))))"
  using serve_blobs [of P rt op now r] assms by (auto dest: put_keeps sweep_keeps)

lemma serve_all_keeps_blob:
  "b \<in> set (bs_rows (rl_blobs r)) \<Longrightarrow> \<forall>x \<in> set qs. snd x < sb_expires_at b \<Longrightarrow>
   b \<in> set (bs_rows (rl_blobs (serve_all P rt qs r)))"
  by (induction P rt qs r rule: serve_all.induct) (auto intro: serve_keeps_blob)

lemma serve_all_blobs_ok:
  "blobs_ok t0 (rl_blobs r) \<Longrightarrow> sorted (t0 # map snd qs) \<Longrightarrow>
   blobs_ok (last (t0 # map snd qs)) (rl_blobs (serve_all P rt qs r)) \<and>
   max_blob_size (rl_blobs (serve_all P rt qs r)) = max_blob_size (rl_blobs r) \<and>
   max_blobs_per_tag (rl_blobs (serve_all P rt qs r)) = max_blobs_per_tag (rl_blobs r)"
proof (induction P rt qs r arbitrary: t0 rule: serve_all.induct)
  case (2 P rt op now qs r)
  let ?r = "snd (serve P rt op now r)"
  have le: "t0 \<le> now" using 2(3) by simp
  have later: "blobs_ok now (rl_blobs r)" using blobs_ok_later [OF 2(2) le] .
  have "blobs_ok now (rl_blobs ?r) \<and> max_blob_size (rl_blobs ?r) = max_blob_size (rl_blobs r) \<and>
      max_blobs_per_tag (rl_blobs ?r) = max_blobs_per_tag (rl_blobs r)"
    using serve_blobs [of P rt op now r]
  proof (elim disjE exE)
    fix t e c x assume p: "blob_put t e c None now (rl_blobs r) = (x, rl_blobs ?r)"
    then show ?thesis using blob_put_ok [OF later p] blob_step_frame [OF blob_step.put [OF order_refl p]] by simp
  next
    fix x assume p: "blob_sweep now (rl_blobs r) = (x, rl_blobs ?r)"
    then show ?thesis using blob_sweep_ok [OF later p] blob_step_frame [OF blob_step.sweep [OF order_refl p]] by simp
  qed (use later in simp)
  with 2(1) [of now] 2(3) show ?case by (cases qs) auto
qed simp

section \<open>Storing and fetching\<close>

text \<open>
  C4. A blob the relay has accepted is in every fetch of its tag until it expires, whatever
  other requests and sweeps the relay serves in between.
\<close>

theorem stored_blob_fetched:
  assumes store: "store_blob P rt q t e c ticket now r = (Inr (), r1)" and bytes: "b64decode c = Inr cb"
    and between: "\<forall>x \<in> set ops. snd x < e"
    and fetch: "fetch_blobs_post P rt q' ts ticket' now' (serve_all P rt ops r1) = (Inr items, r2)"
      "t \<in> set ts" "now' < e"
  shows "\<exists>b \<in> set items. br_ciphertext b = b64encode cb \<and> br_stored_at b = now"
proof -
  obtain tb where tb: "b64decode t = Inr tb"
    and put: "blob_put tb e cb None now (rl_blobs r) = (Inr (), rl_blobs r1)"
    using store bytes by (auto elim: store_blob_Inr)
  let ?b = "\<lparr>sb_id = bs_next_id (rl_blobs r), sb_tag = tb, sb_expires_at = e, sb_ciphertext = cb,
      sb_stored_at = now, sb_token = None\<rparr>"
  have "?b \<in> set (bs_rows (rl_blobs r1))" using blob_put_result(6) [OF put] by simp
  from serve_all_keeps_blob [OF this, of ops P rt] between
  have "?b \<in> set (bs_rows (rl_blobs (serve_all P rt ops r1)))" by simp
  then have "(b64encode cb, now) \<in> (\<lambda>b. (b64encode (sb_ciphertext b), sb_stored_at b)) `
      {b \<in> set (bs_rows (rl_blobs (serve_all P rt ops r1))). now' < sb_expires_at b \<and>
        (\<exists>t \<in> set ts. b64decode t = Inr (sb_tag b))}"
    using fetch(2,3) tb by (intro image_eqI [of _ _ ?b]) auto
  then have "(b64encode cb, now) \<in> response_key ` set items"
    using fetch_post_items(2) [OF fetch(1)] by simp
  then show ?thesis by (auto simp: response_key_def)
qed

definition open_runtime :: relay_runtime where
  "open_runtime = demo_runtime\<lparr>require_capabilities := False\<rparr>"

lemma open_authorize: "authorize_request P open_runtime q perm ticket now r = (Inr (), r)"
  by (simp add: authorize_request_def open_runtime_def demo_runtime_def check_ticket_def)

lemma open_store:
  "store_blob P open_runtime q (b64encode demo_tag_bytes) 2000 (b64encode [1, 2, 3]) None 1000 demo_relay =
   (Inr (), demo_relay\<lparr>rl_blobs := snd (blob_put demo_tag_bytes 2000 [1, 2, 3] None 1000 new_blob_store)\<rparr>)"
  by (simp add: store_blob_def m_bind_def open_authorize catching_def on_blobs_def demo_relay_def blob_put_def
      new_blob_store_def demo_tag_bytes_def tbl_count_def MAX_RELAY_BLOB_TTL_MS_def MESSAGE_TTL_MS_def)
    (simp add: open_runtime_def demo_runtime_def)

lemma open_fetch:
  "\<exists>items. fetch_blobs_post P open_runtime q [b64encode x] ticket now r = (Inr items, r)"
proof -
  obtain items where "collect_tags (rl_blobs r) now [b64encode x] ([], []) = Inr items"
    using collect_tags_total [of "[b64encode x]" "rl_blobs r" now "([], [])"] by auto
  then show ?thesis
    by (simp add: fetch_blobs_post_def m_bind_def open_authorize del: collect_tags.simps)
      (simp add: open_runtime_def demo_runtime_def)
qed

theorem stored_blob_fetched_witness:
  "\<exists>r1 items r2. store_blob demo_prims open_runtime (demo_request [] 0 []) (b64encode demo_tag_bytes) 2000
      (b64encode [1, 2, 3]) None 1000 demo_relay = (Inr (), r1) \<and>
    fetch_blobs_post demo_prims open_runtime (demo_request [] 0 []) [b64encode demo_tag_bytes] None 1500
      (serve_all demo_prims open_runtime [(SweepStores, 1200)] r1) = (Inr items, r2) \<and>
    (\<exists>b \<in> set items. br_ciphertext b = b64encode [1, 2, 3] \<and> br_stored_at b = 1000)"
proof -
  obtain r1 where s: "store_blob demo_prims open_runtime (demo_request [] 0 []) (b64encode demo_tag_bytes) 2000
      (b64encode [1, 2, 3]) None 1000 demo_relay = (Inr (), r1)"
    using open_store by metis
  obtain items where f: "fetch_blobs_post demo_prims open_runtime (demo_request [] 0 []) [b64encode demo_tag_bytes] None 1500
      (serve_all demo_prims open_runtime [(SweepStores, 1200)] r1)
      = (Inr items, serve_all demo_prims open_runtime [(SweepStores, 1200)] r1)"
    using open_fetch by metis
  from stored_blob_fetched [OF s b64decode_encode _ f] s f show ?thesis by (auto simp del: serve_all.simps)
qed

text \<open>
  C8. The limits of the blob store hold over every sequence of requests under a clock that
  does not go back: 32-byte tags, at most 64 KiB a blob, at most 24 hours of life, and at
  most 256 live blobs under one tag at the time of the last request.
\<close>

theorem relay_blob_limits:
  assumes "sorted (map snd qs)" "rl_blobs r = new_blob_store" "qs \<noteq> []"
    and "s = rl_blobs (serve_all P rt qs r)" "now = snd (last qs)"
  shows "(\<forall>b \<in> set (bs_rows s). length (sb_tag b) = 32 \<and> length (sb_ciphertext b) \<le> 65536 \<and>
      sb_expires_at b \<le> sb_stored_at b + 24 * 60 * 60 * 1000 \<and> sb_stored_at b \<le> now) \<and>
    (\<forall>t. length (blob_fetch t now s) \<le> 256)"
proof -
  obtain q qs' where q: "qs = q # qs'" using assms(3) by (cases qs) auto
  have "blobs_ok (snd q) (rl_blobs r)" using assms(2) by (simp add: new_blob_store_ok)
  from serve_all_blobs_ok [OF this, of qs P rt] assms q
  have ok: "blobs_ok now s" "max_blob_size s = 64 * 1024" "max_blobs_per_tag s = 256"
    by (auto simp: new_blob_store_def last_map)
  have "int (length (blob_fetch t now s)) = tbl_count (live t now) (bs_rows s)" for t
    by (simp add: blob_fetch_def tbl_count_def)
  then have "length (blob_fetch t now s) \<le> 256" for t
    using ok unfolding blobs_ok_def by (metis of_nat_le_iff of_nat_numeral)
  with ok show ?thesis
    by (auto simp: blobs_ok_def blob_ok_def MAX_RELAY_BLOB_TTL_MS_def MESSAGE_TTL_MS_def)
qed

theorem relay_blob_limits_witness:
  "length (blob_fetch demo_tag_bytes 1000 (rl_blobs (serve_all demo_prims open_runtime
      [(StoreBlob (demo_request [] 0 []) (b64encode demo_tag_bytes) 2000 (b64encode [1, 2, 3]) None, 1000)] demo_relay)))
    \<le> 256"
  using relay_blob_limits [of "[(StoreBlob (demo_request [] 0 []) (b64encode demo_tag_bytes) 2000
      (b64encode [1, 2, 3]) None, 1000)]" demo_relay, OF _ _ _ refl refl, of demo_prims open_runtime]
  by (simp add: demo_relay_def)




section \<open>Replays\<close>

text \<open>Whether the relay acted on request \<open>j\<close> of a sequence.\<close>

definition acted_on :: "prims \<Rightarrow> relay_runtime \<Rightarrow> (relay_op \<times> int) list \<Rightarrow> relay \<Rightarrow> nat \<Rightarrow> bool" where
  "acted_on P rt qs r j = fst (serve P rt (fst (qs ! j)) (snd (qs ! j)) (serve_all P rt (take j qs) r))"

lemma acted_on_verdict: "j < length qs \<Longrightarrow> acted_on P rt qs r j = relay_guard.verdicts P rt qs r ! j"
proof (induction qs arbitrary: r j)
  case (Cons q qs)
  obtain op now where q: "q = (op, now)" by fastforce
  from Cons show ?case
    by (cases j; cases "serve P rt op now r") (auto simp: acted_on_def q)
qed simp

text \<open>
  C6. On a relay that requires capabilities, a store or fetch is acted on at most once: in any
  sequence of requests under a clock that does not go back, of two store or fetch requests
  with the same nonce text and time stamp the later one is refused. The ten minutes a nonce
  is remembered cover the five minutes either way a time stamp may be off.
\<close>

theorem served_at_most_once:
  assumes "require_capabilities rt" "nonces_ok (rl_caps r)" "sorted (map snd qs)" "i < j" "j < length qs"
    and "op_nonce (fst (qs ! i)) = op_nonce (fst (qs ! j))" "op_stamp (fst (qs ! i)) = op_stamp (fst (qs ! j))"
    and "acted_on P rt qs r i"
  shows "\<not> acted_on P rt qs r j"
proof
  assume "acted_on P rt qs r j"
  then have "i = j"
    using assms relay_guard.accepted_once [of rt r qs i j P]
    by (simp add: acted_on_verdict caps_relay_def)
  with assms(4) show False by simp
qed

definition demo_upload :: relay_op where
  "demo_upload = StoreBlob (demo_request ''/v1/blobs'' 1000 (replicate 16 9)) (b64encode demo_tag_bytes) 2000
     (b64encode [1, 2, 3]) None"

theorem served_at_most_once_witness:
  "acted_on demo_prims demo_runtime [(demo_upload, 1000), (demo_upload, 1500)] demo_relay 0 \<and>
   \<not> acted_on demo_prims demo_runtime [(demo_upload, 1000), (demo_upload, 1500)] demo_relay 1"
proof -
  obtain r' where "store_blob demo_prims demo_runtime (demo_request ''/v1/blobs'' 1000 (replicate 16 9))
      (b64encode demo_tag_bytes) 2000 (b64encode [1, 2, 3]) None 1000 demo_relay = (Inr (), r')"
    using demo_store [of 1000 "replicate 16 9" "''/v1/blobs''"] by auto
  then have a: "acted_on demo_prims demo_runtime [(demo_upload, 1000), (demo_upload, 1500)] demo_relay 0"
    by (simp add: acted_on_def demo_upload_def)
  from served_at_most_once [OF _ _ _ _ _ _ _ a, of 1] a show ?thesis
    by (simp add: demo_runtime_def demo_relay_def nonces_ok_def)
qed

text \<open>
  C15. The nonce is remembered by the text of its header, not by its bytes: a request that was
  let through is let through again, at the same time, when the nonce text is sent with a
  trailing equals sign.
\<close>

theorem padded_nonce_replays:
  assumes relay: "require_capabilities rt" "nonces_ok (rl_caps r)"
    and first: "check_capability P rt q perm now r = (Inr (), r')"
      "capability_headers q = Some (gb, tb, b64encode nonce, sb)" "length nonce = 16"
    and again: "capability_headers q' = Some (gb, tb, b64encode nonce @ ''='', sb)"
      "hq_method q' = hq_method q" "hq_path q' = hq_path q" "hq_body q' = hq_body q"
    and unseen: "nonce_seen (rl_caps r) (b64encode nonce @ ''='') = None"
  shows "\<exists>r''. check_capability P rt q' perm now r' = (Inr (), r'')"
proof -
  have len: "length (b64encode nonce) mod 4 \<in> {2, 3}" using first(3) by (simp add: length_b64encode)
  from first(1) obtain g n ts where v: "vouched P rt q perm now (rl_caps r) g n ts"
    and c: "on_caps (consume_nonce n now) r = (Inr (), r')"
    unfolding check_capability_Inr [OF relay(1)] by blast
  have n: "n = b64encode nonce" using v first(2) by (auto simp: vouched_def)
  obtain c' where c': "consume_nonce n now (rl_caps r) = (Inr (), c')" "rl_caps r' = c'"
    using c by (auto simp: on_caps_result)
  note spec = consume_nonce_spec [OF relay(2) c'(1)]
  have reg: "is_registered P g now c' = is_registered P g now (rl_caps r)"
    using spec(2) by (simp add: is_registered_def)
  have v': "vouched P rt q' perm now (rl_caps r') g (b64encode nonce @ ''='') ts"
    using v first(2) again reg c'(2) b64decode_extra_pad [OF len] n by (auto simp: vouched_def)
  have "nonce_seen c' (b64encode nonce @ ''='') = None"
    using spec(5) n unseen pruned_seen(1) [OF relay(2)] by simp
  then obtain c'' where "consume_nonce (b64encode nonce @ ''='') now c' = (Inr (), c'')"
    using consume_nonce_spec(4) [OF spec(1)] by (metis option.distinct(1) prod.exhaust_sel)
  with v' c'(2) show ?thesis
    unfolding check_capability_Inr [OF relay(1)] by (auto simp: on_caps_result)
qed


theorem padded_nonce_replays_witness:
  "\<exists>q q' r' r''. hq_headers q' \<noteq> hq_headers q \<and> hq_body q' = hq_body q \<and>
    check_capability demo_prims demo_runtime q ''store'' 1000 demo_relay = (Inr (), r') \<and>
    check_capability demo_prims demo_runtime q' ''store'' 1000 r' = (Inr (), r'')"
proof -
  let ?n = "replicate 16 9 :: bytes"
  let ?q = "demo_request ''/v1/blobs'' 1000 ?n"
  have sg: "signed_request demo_prims demo_grant (replicate 32 7) 1000 ?n ?q" by (rule demo_request_signed) simp
  obtain sb where sb: "sb \<noteq> []" and h: "capability_headers ?q = Some (grant_to_b64 demo_prims demo_grant, str_of_int 1000, b64encode ?n, sb)"
    using signed_request_headers(2) [OF demo_cbor sg demo_nonempty] demo_nonempty(2) by (metis b64encode_eq_Nil)
  define q' where "q' = ?q\<lparr>hq_headers := [(''Yakr-Capability-Grant'', grant_to_b64 demo_prims demo_grant),
    (''Yakr-Capability-Timestamp'', str_of_int 1000), (''Yakr-Capability-Nonce'', b64encode ?n @ ''=''),
    (''Yakr-Capability-Signature'', sb)]\<rparr>"
  have ne: "grant_to_b64 demo_prims demo_grant \<noteq> []" "str_of_int 1000 \<noteq> []"
    using demo_nonempty(1) by (auto simp: grant_to_b64_def str_of_int_def)
  have h': "capability_headers q' = Some (grant_to_b64 demo_prims demo_grant, str_of_int 1000, b64encode ?n @ ''='', sb)"
    using ne sb by (simp add: capability_headers_def header_def q'_def nonempty_Some)
  obtain r' where a: "authorize_request demo_prims demo_runtime ?q ''store'' None 1000 demo_relay = (Inr (), r')"
    using demo_passes [of 1000 "''store''" ?n "''/v1/blobs''" None] by auto
  then have c: "check_capability demo_prims demo_runtime ?q ''store'' 1000 demo_relay = (Inr (), r')"
    by (simp add: authorize_request_def demo_runtime_def)
  obtain r'' where "check_capability demo_prims demo_runtime q' ''store'' 1000 r' = (Inr (), r'')"
    using padded_nonce_replays [OF _ _ c h _ h'] by (auto simp: demo_runtime_def demo_relay_def nonces_ok_def
        nonce_seen_def q'_def)
  moreover have "hq_headers q' \<noteq> hq_headers ?q"
  proof
    assume "hq_headers q' = hq_headers ?q"
    then have "capability_headers q' = capability_headers ?q" by (simp add: capability_headers_def header_def)
    with h h' show False by simp
  qed
  ultimately show ?thesis using c by (intro exI [of _ ?q] exI [of _ q']) (auto simp: q'_def)
qed

section \<open>Self-issued tickets\<close>

text \<open>
  C14. A relay ticket proves nothing but that its own issuer signed it. Whoever holds any
  signing key can make a ticket that names the relay, and with it is issued a registered
  capability grant for every permission asked for, bound to a key of one's own.
\<close>

theorem self_issued_ticket_gets_grant:
  assumes laws: "cbor_correct P" "ed25519_correct P"
    and rt: "length (rr_issuance_private rt) = 32" "rr_issuance_public rt = p_ed_pub P (rr_issuance_private rt)"
      "length (rr_tls_spki rt) = 32"
    and anyone: "length (signing_private i) = 32" "0 < ttl"
    and sizes: "length cid = 16" "length salt = 16"
    and free: "map_of (cs_active (rl_caps r)) (b64encode cid) = None"
  shows "\<exists>g r'. issue_capability P rt \<lparr>is_auth_public = b64encode auth, is_capability_id = b64encode cid,
      is_generation = gen, is_salt = b64encode salt, is_permissions = permissions,
      is_ticket = Some (ticket_to_b64 P (issue_relay_ticket P i (rr_name rt) [''store''] x ttl now)),
      is_supersedes = None\<rparr> now r = (Inr (grant_to_b64 P g), r') \<and>
    cg_permissions g = permissions \<and> cg_auth_public g = auth \<and> is_registered P g now (rl_caps r') = Inr True \<and>
    verify_capability_grant P g (rr_issuance_public rt) (rr_name rt) (rr_tls_spki rt) now = Inr ()"
proof -
  let ?t = "issue_relay_ticket P i (rr_name rt) [''store''] x ttl now"
  have ticket: "check_bootstrap_ticket P rt (Some (ticket_to_b64 P ?t)) now = Inr ()"
    using issued_ticket_verifies [OF laws(2) anyone, of "''store''" "[''store'']"] laws(1)
    by (simp add: check_bootstrap_ticket_def ticket_from_to_b64)
  obtain g where g: "issue_capability_grant P (rr_issuance_private rt) cid gen (rr_name rt) (rr_tls_spki rt)
      permissions auth DEFAULT_CAPABILITY_TTL_MS now = Inr g"
    using sizes rt(3) by (simp add: issue_capability_grant_def Let_def)
  have ttl: "0 < DEFAULT_CAPABILITY_TTL_MS" by (simp add: DEFAULT_CAPABILITY_TTL_MS_def)
  note v = issued_grant_verifies [OF laws(2) rt(1) ttl g]
  obtain c where reg: "cap_register P g (rr_issuance_public rt) (rr_name rt) (rr_tls_spki rt) now (rl_caps r) = (Inr (), c)"
    using v free rt(2) by (simp add: cap_register_Inr)
  have "rr_issuance_private rt \<noteq> []" using rt(1) by auto
  then have "issue_capability P rt \<lparr>is_auth_public = b64encode auth, is_capability_id = b64encode cid,
      is_generation = gen, is_salt = b64encode salt, is_permissions = permissions,
      is_ticket = Some (ticket_to_b64 P ?t), is_supersedes = None\<rparr> now r = (Inr (grant_to_b64 P g), r\<lparr>rl_caps := c\<rparr>)"
    using ticket sizes rt(1) g reg
    by (simp add: issue_capability_def m_bind_def catching_def on_caps_def)
  moreover have "is_registered P g now c = Inr True" by (rule registered_grant [OF laws(1) reg])
  ultimately show ?thesis using v rt(2) by auto
qed

theorem self_issued_ticket_gets_grant_witness:
  "\<exists>q g r'. issue_capability demo_prims demo_runtime q 1000 demo_relay = (Inr (grant_to_b64 demo_prims g), r') \<and>
    cg_permissions g = [''store'', ''fetch'', ''forward''] \<and> is_registered demo_prims g 1000 (rl_caps r') = Inr True"
proof -
  define mallory where "mallory = \<lparr>id_name = ''mallory'', signing_private = replicate 32 66, agreement_private = [],
    kem_public = [], kem_private = [], pq_signing_public = [], pq_signing_private = [], tls_ecdsa_private = None\<rparr>"
  have "b64encode (replicate 16 1 :: bytes) \<noteq> b64encode (replicate 16 2)" by simp
  then show ?thesis
    using self_issued_ticket_gets_grant [OF demo_cbor demo_ed25519, of demo_runtime mallory 1000 "replicate 16 2"
      "replicate 16 3" demo_relay "[]" 1 "[''store'', ''fetch'', ''forward'']" "[]" 1000]
    by (force simp: demo_runtime_def demo_relay_def demo_grant_fields demo_prims_def mallory_def)
qed


text \<open>
  C16. A revoked capability comes back when the same grant is registered again: \<open>register\<close>
  rejects only an older generation and writes a fresh entry, without the revocation.
\<close>

theorem revocation_undone:
  assumes "cbor_correct P" "cap_register P g pk name tls now s = (Inr (), s1)"
    and "revoke_immediately (cg_id g) now' s1 = (Inr (), s2)" "now2 < cg_expires_at g"
  shows "is_registered P g now' s2 = Inr False \<and>
    (\<exists>s3. cap_register P g pk name tls now2 s2 = (Inr (), s3) \<and> is_registered P g now3 s3 = Inr True)"
  using reregistered_grant [OF assms] .

theorem revocation_undone_witness:
  "\<exists>s1 s2 s3. cap_register demo_prims demo_grant (replicate 32 5) ''relay'' (replicate 32 6) 0
      \<lparr>cs_active = [], cs_nonces = [], cs_overlap_ms = 0, cs_file = None\<rparr> = (Inr (), s1) \<and>
    revoke_immediately (cg_id demo_grant) 10 s1 = (Inr (), s2) \<and> is_registered demo_prims demo_grant 10 s2 = Inr False \<and>
    cap_register demo_prims demo_grant (replicate 32 5) ''relay'' (replicate 32 6) 20 s2 = (Inr (), s3) \<and>
    is_registered demo_prims demo_grant 30 s3 = Inr True"
proof -
  let ?s = "\<lparr>cs_active = [], cs_nonces = [], cs_overlap_ms = 0, cs_file = None\<rparr>"
  obtain s1 where s1: "cap_register demo_prims demo_grant (replicate 32 5) ''relay'' (replicate 32 6) 0 ?s = (Inr (), s1)"
    using demo_grant_valid(1) [of 0] by (simp add: cap_register_Inr demo_runtime_def)
  then have m: "map_of (cs_active s1) (b64encode (cg_id demo_grant)) = Some (grant_entry demo_prims demo_grant 0)"
    by (simp add: cap_register_Inr)
  then obtain s2 where s2: "revoke_immediately (cg_id demo_grant) 10 s1 = (Inr (), s2)"
    by (simp add: revoke_immediately_def revoke_with_overlap_def grant_entry_def cap_save_def Let_def)
  from revocation_undone [OF demo_cbor s1 s2, of 20 30] s1 s2 show ?thesis
    by (auto simp: demo_grant_fields)
qed

section \<open>Two hops\<close>

text \<open>
  C9. An onion packet posted to the entry relay ends as a blob of the mailbox relay: the entry
  relay forwards, to the mailbox's address and nowhere else, an inner packet which the mailbox
  opens and stores under the tag, with the expiry and the ciphertext the client sealed.
\<close>

theorem onion_reaches_mailbox:
  assumes laws: "aead_correct P" "cbor_correct P" and nonces: "length n1 = 24" "length n2 = 24"
    and entry: "rr_role entry \<in> {''entry'', ''both''}" "rr_wrap_secret entry = Some ek" "\<not> require_tickets entry"
    and mailbox: "rr_role mbox \<in> {''mailbox'', ''both''}" "rr_wrap_secret mbox = Some mk" "\<not> require_tickets mbox"
    and put: "blob_put (ob_tag outer) (ob_expires_at outer) (ob_ciphertext outer) None now (rl_blobs r) = (Inr (), b)"
  shows "\<exists>inner. ingest_packet P mbox inner None now r = (Inr (), r\<lparr>rl_blobs := b\<rparr>) \<and>
    (\<forall>post. relay_packet P entry post (b64encode (build_onion_packet P n1 n2 ek mk url outer)) None now' =
       and_then (post (url @ ''/v1/ingest'') inner None) (\<lambda>(status, body).
         if status \<notin> {201, 202} then Inl (HTTPException 502 (''forward failed: '' @ body))
         else Inr (url @ ''/v1/ingest'')))"
proof -
  obtain inner where i: "decode_entry_packet P (build_onion_packet P n1 n2 ek mk url outer) ek
      = Inr (url @ ''/v1/ingest'', inner)" "decode_mailbox_packet P inner mk = Inr (outer\<lparr>ob_version := 1\<rparr>)"
    using onion_route [OF laws nonces] by blast
  have "ingest_packet P mbox (b64encode inner) None now r = (Inr (), r\<lparr>rl_blobs := b\<rparr>)"
    using mailbox put i(2) by (auto simp: ingest_packet_def check_ticket_def catching_def on_blobs_def)
  moreover have "relay_packet P entry post (b64encode (build_onion_packet P n1 n2 ek mk url outer)) None now' =
       and_then (post (url @ ''/v1/ingest'') (b64encode inner) None) (\<lambda>(status, body).
         if status \<notin> {201, 202} then Inl (HTTPException 502 (''forward failed: '' @ body))
         else Inr (url @ ''/v1/ingest''))" for post
    using entry i(1) by (auto simp: relay_packet_def check_ticket_def)
  ultimately show ?thesis by blast
qed

theorem onion_reaches_mailbox_witness:
  "\<exists>inner r'. ingest_packet demo_prims demo_runtime inner None 1000 demo_relay = (Inr (), r') \<and>
    relay_packet demo_prims demo_runtime (\<lambda>url i t. Inr (201, [])) (b64encode (build_onion_packet demo_prims
      (replicate 24 1) (replicate 24 2) [8, 8] [8, 8] ''https://mailbox''
      \<lparr>ob_version = 1, ob_tag = demo_tag_bytes, ob_expires_at = 2000, ob_ciphertext = [1]\<rparr>)) None 1000
    = Inr ''https://mailbox/v1/ingest''"
proof -
  obtain b where put: "blob_put demo_tag_bytes 2000 [1] None 1000 new_blob_store = (Inr (), b)"
    by (simp add: blob_put_def new_blob_store_def demo_tag_bytes_def tbl_count_def
      MAX_RELAY_BLOB_TTL_MS_def MESSAGE_TTL_MS_def)
  show ?thesis
    using onion_reaches_mailbox [OF demo_aead demo_cbor, of "replicate 24 1" "replicate 24 2" demo_runtime "[8, 8]"
      demo_runtime "[8, 8]" "\<lparr>ob_version = 1, ob_tag = demo_tag_bytes, ob_expires_at = 2000, ob_ciphertext = [1]\<rparr>"
      1000 demo_relay b "''https://mailbox''" 1000] put
    by (fastforce simp: demo_runtime_def demo_relay_def)
qed

section \<open>Pairing sessions\<close>



end
