(* ===== verification/Session.thy ===== *)
theory Session
  imports Authorization
begin

text \<open>
  The messaging session of \<open>session.py\<close>: an identity and a contact, the four \<open>encrypt_*\<close>
  methods, \<open>decrypt_outer\<close> and \<open>decrypt_inbound\<close>, and the wrapping of ciphertexts for local
  storage. Methods change the contact; \<open>np\<close> and \<open>nonce\<close> are the random ratchet key and nonce
  a call draws, \<open>now\<close> the clock. A snapshot taken by \<open>to_dict\<close> shares the dictionary of
  skipped keys with the ratchet, as in \<open>Ratchet\<close>.
\<close>

section \<open>The session\<close>

definition session_new :: "contact \<Rightarrow> unit res" where
  "session_new c = (case c_ratchet c of
     None \<Rightarrow> Inl (ValueError ''contact missing double ratchet state; re-pair required'')
   | Some _ \<Rightarrow> Inr ())"

definition direction :: "str \<Rightarrow> str \<Rightarrow> str" where
  "direction sender recipient = sender @ ''->'' @ recipient"

definition send_direction :: "identity \<Rightarrow> contact \<Rightarrow> str" where
  "send_direction i c = direction (id_name i) (c_name c)"

definition recv_direction :: "identity \<Rightarrow> contact \<Rightarrow> str" where
  "recv_direction i c = direction (c_name c) (id_name i)"

definition mailbox_deriver :: "prims \<Rightarrow> identity \<Rightarrow> contact \<Rightarrow> bool \<Rightarrow> tag_deriver" where
  "mailbox_deriver P i c outbound =
     \<lparr>td_secret = derive_mailbox_secret P (master_secret c)
        (if outbound then send_direction i c else recv_direction i c),
      td_epoch_secs = (case c_profile c of Some p \<Rightarrow> dp_epoch_secs p | None \<Rightarrow> 3600)\<rparr>"

definition on_ratchet :: "(ratchet, 'a) meth \<Rightarrow> (contact, 'a) meth" where
  "on_ratchet m c = (case c_ratchet c of
     None \<Rightarrow> (Inl (TypeError ''ratchet is None''), c)
   | Some r \<Rightarrow> (case m r of (x, r') \<Rightarrow> (x, c\<lparr>c_ratchet := Some r'\<rparr>)))"

definition encrypt_inner ::
    "prims \<Rightarrow> bytes \<Rightarrow> bytes \<Rightarrow> inner_message \<Rightarrow> (contact, bytes \<times> int) meth" where
  "encrypt_inner P np nonce inner =
     m_get (\<lambda>c. m_bind (m_of (pad_plaintext (inner_to_bytes inner) (privacy_mode c))) (\<lambda>(padded, n).
     m_bind (on_ratchet (ratchet_encrypt P np nonce padded)) (\<lambda>payload. m_return (payload, n))))"

definition session_outer_blob :: "bytes \<Rightarrow> mailbox_tag \<Rightarrow> int \<Rightarrow> outer_blob" where
  "session_outer_blob ciphertext t now =
     \<lparr>ob_version = 1, ob_tag = tag t, ob_expires_at = now + DEFAULT_BLOB_TTL_MS,
      ob_ciphertext = ciphertext\<rparr>"

definition require_fresh_session :: "int \<Rightarrow> (contact, unit) meth" where
  "require_fresh_session now = m_get (\<lambda>c.
     if needs_pq_rekey (hybrid_pq c) (session_started_at c) (next_send_seq c) now
     then m_raise (RekeyRequiredError ''PQ session rekey required'') else m_return ())"

record encrypted_message =
  em_outer :: outer_blob
  em_inner :: inner_message
  em_msg_id :: str
  em_tag :: mailbox_tag
  em_padding :: int

text \<open>The common body of the \<open>encrypt_*\<close> methods; \<open>mk\<close> builds the inner message.\<close>

definition encrypt_with ::
    "prims \<Rightarrow> identity \<Rightarrow> bytes \<Rightarrow> bytes \<Rightarrow> int \<Rightarrow> (contact \<Rightarrow> inner_message) \<Rightarrow>
     (contact, encrypted_message) meth" where
  "encrypt_with P i np nonce now mk =
     m_bind (require_fresh_session now) (\<lambda>_.
     m_get (\<lambda>c0. let inner = mk c0 in
     m_bind (encrypt_inner P np nonce inner) (\<lambda>(ciphertext, n).
     m_get (\<lambda>c.
     m_bind (m_of (derive P (mailbox_deriver P i c True) (send_direction i c) None now)) (\<lambda>t.
     let outer = session_outer_blob ciphertext t now in
     m_bind (m_modify (\<lambda>c. c\<lparr>next_send_seq := next_send_seq c + 1\<rparr>)) (\<lambda>_.
     m_return \<lparr>em_outer = outer, em_inner = inner, em_msg_id = message_id P (ob_ciphertext outer),
               em_tag = t, em_padding = n\<rparr>))))))"

definition encrypt_text ::
    "prims \<Rightarrow> identity \<Rightarrow> bytes \<Rightarrow> bytes \<Rightarrow> int \<Rightarrow> str \<Rightarrow> (contact, encrypted_message) meth" where
  "encrypt_text P i np nonce now body = encrypt_with P i np nonce now
     (\<lambda>c. inner_text (c_conversation_id c) (device_id P i) (next_send_seq c) body now)"

definition encrypt_receipt ::
    "prims \<Rightarrow> identity \<Rightarrow> bytes \<Rightarrow> bytes \<Rightarrow> int \<Rightarrow> str \<Rightarrow> (contact, encrypted_message) meth" where
  "encrypt_receipt P i np nonce now delivered = encrypt_with P i np nonce now
     (\<lambda>c. inner_receipt (c_conversation_id c) (device_id P i) (next_send_seq c) delivered now)"

definition encrypt_profile ::
    "prims \<Rightarrow> identity \<Rightarrow> bytes \<Rightarrow> bytes \<Rightarrow> int \<Rightarrow> delivery_profile \<Rightarrow>
     (contact, encrypted_message) meth" where
  "encrypt_profile P i np nonce now profile = encrypt_with P i np nonce now
     (\<lambda>c. inner_profile (c_conversation_id c) (device_id P i) (next_send_seq c)
            (profile_to_b64 P profile) now)"

definition encrypt_presence ::
    "prims \<Rightarrow> identity \<Rightarrow> bytes \<Rightarrow> bytes \<Rightarrow> int \<Rightarrow> presence_payload \<Rightarrow>
     (contact, encrypted_message) meth" where
  "encrypt_presence P i np nonce now payload = encrypt_with P i np nonce now
     (\<lambda>c. inner_presence (c_conversation_id c) (device_id P i) (next_send_seq c)
            (presence_to_b64 payload) (Some (pr_valid_until payload)) now)"

text \<open>\<open>RatchetState.from_dict(ratchet_before)\<close> put in place of the ratchet as it is now.\<close>

definition rollback :: "json \<Rightarrow> (contact, unit) meth" where
  "rollback ratchet_before = m_get (\<lambda>c. case c_ratchet c of
     None \<Rightarrow> m_return ()
   | Some r \<Rightarrow> m_bind (m_of (restore_snapshot ratchet_before r)) (\<lambda>r'.
       m_modify (\<lambda>c. c\<lparr>c_ratchet := Some r'\<rparr>)))"

text \<open>How \<open>decrypt_outer\<close> reports a failure of the ratchet.\<close>

definition ratchet_failure :: "exn \<Rightarrow> exn" where
  "ratchet_failure e =
     (if is_value_error e \<and> substr ''already received'' (exn_text e)
      then DuplicateSeqError ''duplicate message'' else DecryptError ''unable to decrypt blob'')"

definition catch_ratchet :: "(contact, bytes) meth \<Rightarrow> (contact, bytes) meth" where
  "catch_ratchet m c = (case m c of (Inl e, c') \<Rightarrow> (Inl (ratchet_failure e), c') | (Inr x, c') \<Rightarrow> (Inr x, c'))"

definition decrypt_outer :: "prims \<Rightarrow> bytes \<Rightarrow> int \<Rightarrow> outer_blob \<Rightarrow> (contact, inner_message) meth" where
  "decrypt_outer P np now outer = m_get (\<lambda>c. case c_ratchet c of
     None \<Rightarrow> m_raise (TypeError ''ratchet is None'')
   | Some r0 \<Rightarrow>
     let mode = privacy_mode c; before = ratchet_to_dict r0; last_before = last_recv_seq c;
         fail = (\<lambda>e. m_bind (rollback before) (\<lambda>_. m_raise e))
     in m_bind (catch_ratchet (on_ratchet (ratchet_decrypt P np (ob_ciphertext outer)))) (\<lambda>padded.
     case decode_padded_plaintext padded mode of
       Inl e \<Rightarrow> fail (DecryptError ''invalid padded plaintext'')
     | Inr plaintext \<Rightarrow>
       m_bind (m_of (inner_from_bytes plaintext)) (\<lambda>inner.
       if conversation_id inner \<noteq> c_conversation_id c then fail (DecryptError ''conversation mismatch'')
       else if seq inner \<le> last_before
       then fail (DuplicateSeqError (''duplicate seq '' @ str_of_int (seq inner)))
       else if seq inner \<noteq> last_before + 1
       then fail (DuplicateSeqError (''out-of-order seq '' @ str_of_int (seq inner) @ '', expected ''
                    @ str_of_int (last_before + 1)))
       else case enforce_message_ttl (valid_until inner) now of
         Inl e \<Rightarrow> fail e
       | Inr _ \<Rightarrow> m_bind (m_modify (\<lambda>c. c\<lparr>last_recv_seq := seq inner\<rparr>)) (\<lambda>_. m_return inner))))"

definition decrypt_inbound :: "prims \<Rightarrow> bytes \<Rightarrow> int \<Rightarrow> outer_blob \<Rightarrow> (contact, inner_message) meth" where
  "decrypt_inbound P np now outer = m_get (\<lambda>c. case c_ratchet c of
     None \<Rightarrow> m_raise (TypeError ''ratchet is None'')
   | Some r0 \<Rightarrow>
     m_bind (decrypt_outer P np now outer) (\<lambda>inner.
     m_bind (if im_type inner \<noteq> JStr ''text'' then rollback (ratchet_to_dict r0) else m_return ()) (\<lambda>_.
     m_return inner)))"

section \<open>Local storage\<close>

definition device_storage_key :: "prims \<Rightarrow> identity \<Rightarrow> bytes" where
  "device_storage_key P i = hkdf_derive P (signing_private i) (utf8 ''yakr/v1.0/local-message-store'') 32 []"

definition wrap_local_ciphertext :: "prims \<Rightarrow> bytes \<Rightarrow> identity \<Rightarrow> bytes \<Rightarrow> bytes" where
  "wrap_local_ciphertext P nonce i outer_ciphertext =
     xchacha_encrypt P nonce (device_storage_key P i) outer_ciphertext []"

definition unwrap_local_ciphertext :: "prims \<Rightarrow> identity \<Rightarrow> bytes \<Rightarrow> bytes res" where
  "unwrap_local_ciphertext P i payload = xchacha_decrypt P (device_storage_key P i) payload []"

lemma unwrap_wrap_local [codec_simps]:
  "aead_correct P \<Longrightarrow> length nonce = 24 \<Longrightarrow>
   unwrap_local_ciphertext P i (wrap_local_ciphertext P nonce i x) = Inr x"
  by (simp add: unwrap_local_ciphertext_def wrap_local_ciphertext_def xchacha_roundtrip)

section \<open>The contract of a sequenced receiver\<close>

text \<open>
  A receiver that takes items one by one: an accepted item carries the next number, a
  refused one leaves the position alone.
\<close>

locale sequenced_receiver =
  fixes step :: "'m \<Rightarrow> 's \<Rightarrow> 'r res \<times> 's"
    and position :: "'s \<Rightarrow> int"
    and number :: "'r \<Rightarrow> int"
  assumes accepted: "step m s = (Inr r, s') \<Longrightarrow> number r = position s + 1 \<and> position s' = number r"
    and refused: "step m s = (Inl e, s') \<Longrightarrow> position s' = position s"
begin

fun drain :: "'m list \<Rightarrow> 's \<Rightarrow> 'r list \<times> 's" where
  "drain [] s = ([], s)"
| "drain (m # ms) s =
     (case step m s of
        (Inl e, s') \<Rightarrow> drain ms s'
      | (Inr r, s') \<Rightarrow> (case drain ms s' of (rs, s'') \<Rightarrow> (r # rs, s'')))"

lemma drain_numbers:
  "drain ms s = (rs, s') \<Longrightarrow>
     map number rs = map (\<lambda>k. position s + 1 + int k) [0..<length rs] \<and>
     position s' = position s + int (length rs)"
proof (induction ms arbitrary: s rs)
  case (Cons m ms)
  obtain x s1 where st: "step m s = (x, s1)" by fastforce
  show ?case
  proof (cases x)
    case (Inl e)
    with st Cons refused [of m s e s1] show ?thesis by auto
  next
    case (Inr r)
    then obtain rs' where rs': "drain ms s1 = (rs', s')" "rs = r # rs'"
      using st Cons.prems by (auto split: prod.splits)
    have p: "number r = position s + 1" "position s1 = position s + 1"
      using accepted [of m s r s1] st Inr by auto
    have "map number rs' = map (\<lambda>k. position s + 1 + int (Suc k)) [0..<length rs']"
      using Cons.IH [OF rs'(1)] p by (simp add: add.assoc)
    moreover have "[0..<Suc (length rs')] = 0 # map Suc [0..<length rs']"
      by (simp add: map_Suc_upt upt_conv_Cons del: upt_Suc)
    ultimately show ?thesis using Cons.IH [OF rs'(1)] p rs'
      by (simp add: comp_def del: upt_Suc)
  qed
qed simp

lemma drain_once: "drain ms s = (rs, s') \<Longrightarrow> distinct (map number rs)"
  using drain_numbers by (auto simp: distinct_map inj_on_def)

lemma drain_blocked:
  assumes "\<And>m t r t'. m \<in> set ms \<Longrightarrow> step m t = (Inr r, t') \<Longrightarrow> number r \<noteq> position s + 1"
  shows "fst (drain ms s) = [] \<and> position (snd (drain ms s)) = position s"
  using assms
proof (induction ms arbitrary: s)
  case (Cons m ms)
  obtain x s1 where st: "step m s = (x, s1)" by fastforce
  then obtain e where "x = Inl e"
    using accepted [of m s _ s1] Cons.prems [of m s] by (cases x) auto
  with st refused [of m s e s1] Cons.IH [of s1] Cons.prems show ?case by auto
qed simp

end

section \<open>What decryption changes\<close>

definition ratchet_only :: "contact \<Rightarrow> contact \<Rightarrow> bool" where
  "ratchet_only c c' \<longleftrightarrow> c' = c\<lparr>c_ratchet := c_ratchet c'\<rparr>"

lemma ratchet_only_refl [simp]: "ratchet_only c c"
  by (simp add: ratchet_only_def)

lemma ratchet_only_trans: "ratchet_only a b \<Longrightarrow> ratchet_only b c \<Longrightarrow> ratchet_only a c"
  by (cases a; cases b; cases c) (simp add: ratchet_only_def)

lemma ratchet_only_update [simp]: "ratchet_only c (c\<lparr>c_ratchet := r\<rparr>)"
  by (simp add: ratchet_only_def)

lemma ratchet_only_fields:
  assumes "ratchet_only c c'"
  shows "last_recv_seq c' = last_recv_seq c" "next_send_seq c' = next_send_seq c"
    "c_conversation_id c' = c_conversation_id c" "privacy_mode c' = privacy_mode c"
    "c_profile c' = c_profile c" "c_name c' = c_name c" "master_secret c' = master_secret c"
    "hybrid_pq c' = hybrid_pq c" "session_started_at c' = session_started_at c"
  using assms by (cases c; cases c'; simp add: ratchet_only_def)+

lemma on_ratchet_frame: "on_ratchet m c = (x, c') \<Longrightarrow> ratchet_only c c'"
  by (auto simp: on_ratchet_def split: option.splits prod.splits)

lemma catch_ratchet_frame: "catch_ratchet (on_ratchet m) c = (x, c') \<Longrightarrow> ratchet_only c c'"
  by (auto simp: catch_ratchet_def split: prod.splits sum.splits dest: on_ratchet_frame)

lemma rollback_frame: "rollback b c = (x, c') \<Longrightarrow> ratchet_only c c'"
  by (auto simp: rollback_def m_get_def m_bind_def m_of_def m_modify_def m_return_def
      split: option.splits sum.splits)

lemma rollback_fail:
  "m_bind (rollback b) (\<lambda>_. m_raise e) c = (x, c') \<Longrightarrow> ratchet_only c c' \<and> (\<exists>e'. x = Inl e')"
  by (auto simp: m_bind_def m_raise_def split: prod.splits sum.splits dest: rollback_frame)

definition accepted_inner :: "int \<Rightarrow> contact \<Rightarrow> inner_message \<Rightarrow> contact \<Rightarrow> bool" where
  "accepted_inner now c inner c' \<longleftrightarrow>
     conversation_id inner = c_conversation_id c \<and> seq inner = last_recv_seq c + 1 \<and>
     now \<le> valid_until inner \<and>
     ratchet_only (c\<lparr>last_recv_seq := seq inner\<rparr>) c'"

lemma accepted_inner_seq:
  "accepted_inner now c inner c' \<Longrightarrow> seq inner = last_recv_seq c + 1 \<and> last_recv_seq c' = seq inner"
  by (auto simp: accepted_inner_def dest: ratchet_only_fields(1))

lemma decrypt_outer_cases:
  assumes "decrypt_outer P np now outer c = (x, c')"
  shows "case x of Inl e \<Rightarrow> ratchet_only c c' | Inr inner \<Rightarrow> accepted_inner now c inner c'"
proof (cases "c_ratchet c")
  case None
  with assms show ?thesis by (auto simp: decrypt_outer_def)
next
  case (Some r0)
  obtain y c1 where y: "catch_ratchet (on_ratchet (ratchet_decrypt P np (ob_ciphertext outer))) c = (y, c1)"
    by fastforce
  note c1 = catch_ratchet_frame [OF y]
  show ?thesis
  proof (cases y)
    case (Inl e)
    with assms Some y c1 show ?thesis by (auto simp: decrypt_outer_def m_bind_def Let_def)
  next
    case (Inr padded)
    show ?thesis
    proof (cases "decode_padded_plaintext padded (privacy_mode c)")
      case (Inl e)
      with assms Some y Inr have "m_bind (rollback (ratchet_to_dict r0))
          (\<lambda>_. m_raise (DecryptError ''invalid padded plaintext'')) c1 = (x, c')"
        by (simp add: decrypt_outer_def m_bind_def [of "catch_ratchet _"] Let_def)
      from rollback_fail [OF this] c1 show ?thesis by (auto intro: ratchet_only_trans)
    next
      case (Inr plaintext)
      note dec = Inr
      show ?thesis
      proof (cases "inner_from_bytes plaintext")
        case (Inl e)
        with assms Some y dec \<open>y = Inr padded\<close> have "x = Inl e \<and> c' = c1"
          by (simp add: decrypt_outer_def m_bind_def Let_def)
        with c1 show ?thesis by simp
      next
        case (Inr inner)
        note body = assms [unfolded decrypt_outer_def, simplified, unfolded Some, simplified, unfolded Let_def]
        have "(\<exists>e. m_bind (rollback (ratchet_to_dict r0)) (\<lambda>_. m_raise e) c1 = (x, c')) \<or>
          x = Inr inner \<and> c' = c1\<lparr>last_recv_seq := seq inner\<rparr> \<and>
          conversation_id inner = c_conversation_id c \<and> seq inner = last_recv_seq c + 1 \<and> now \<le> valid_until inner"
          using body y dec Inr \<open>y = Inr padded\<close>
          by (cases "conversation_id inner = c_conversation_id c"; cases "seq inner \<le> last_recv_seq c";
              cases "seq inner = last_recv_seq c + 1"; cases "now \<le> valid_until inner")
            (auto simp: m_bind_def [of "catch_ratchet _"] enforce_message_ttl_def is_message_expired_def)
        then show ?thesis
        proof
          assume "\<exists>e. m_bind (rollback (ratchet_to_dict r0)) (\<lambda>_. m_raise e) c1 = (x, c')"
          with rollback_fail c1 show ?thesis by (fastforce intro: ratchet_only_trans)
        next
          assume "x = Inr inner \<and> c' = c1\<lparr>last_recv_seq := seq inner\<rparr> \<and>
            conversation_id inner = c_conversation_id c \<and> seq inner = last_recv_seq c + 1 \<and> now \<le> valid_until inner"
          moreover have "ratchet_only (c\<lparr>last_recv_seq := k\<rparr>) (c1\<lparr>last_recv_seq := k\<rparr>)" for k
            using c1 by (cases c; cases c1) (simp add: ratchet_only_def)
          ultimately show ?thesis by (simp add: accepted_inner_def)
        qed
      qed
    qed
  qed
qed

lemma restore_snapshot_total: "\<exists>r. restore_snapshot (ratchet_to_dict r0) r' = Inr r"
proof -
  have "map_res (\<lambda>p. and_then (jstr (snd p)) (\<lambda>v. Inr (fst p, v)))
          (map (\<lambda>(k, v). (k, JStr v)) sk) = Inr sk" for sk :: "(str \<times> str) list"
    by (induction sk) auto
  then have "\<exists>qs. skipped_of (JObj (map (\<lambda>(k, v). (k, JStr v)) sk)) = Inr qs" for sk :: "(str \<times> str) list"
    by simp
  then obtain qs where "skipped_of (JObj (map (\<lambda>(k, v). (k, JStr v)) (skipped_keys r'))) = Inr qs" by blast
  then show ?thesis
    by (simp add: restore_snapshot_def alias_to_dict ratchet_from_dict_def ratchet_to_dict_def jget_def
        jget_default_def del: skipped_of.simps)
qed

lemma rollback_total: "fst (rollback (ratchet_to_dict r0) c) = Inr ()"
proof (cases "c_ratchet c")
  case (Some r)
  then obtain r' where "restore_snapshot (ratchet_to_dict r0) r = Inr r'"
    using restore_snapshot_total by blast
  with Some show ?thesis by (simp add: rollback_def)
qed (simp add: rollback_def)

lemma decrypt_inbound_cases:
  assumes "decrypt_inbound P np now outer c = (x, c')"
  shows "case x of Inl e \<Rightarrow> ratchet_only c c' | Inr inner \<Rightarrow> accepted_inner now c inner c'"
proof (cases "c_ratchet c")
  case None
  with assms show ?thesis by (auto simp: decrypt_inbound_def)
next
  case (Some r0)
  obtain y c1 where y: "decrypt_outer P np now outer c = (y, c1)" by fastforce
  note o = decrypt_outer_cases [OF y]
  show ?thesis
  proof (cases y)
    case (Inl e)
    with assms Some y have "x = Inl e \<and> c' = c1" by (simp add: decrypt_inbound_def m_bind_def)
    with o Inl show ?thesis by simp
  next
    case (Inr inner)
    obtain c2 where z: "rollback (ratchet_to_dict r0) c1 = (Inr (), c2)"
      using rollback_total [of r0 c1] by (metis prod.collapse)
    have acc: "accepted_inner now c inner c2"
      using o Inr rollback_frame [OF z] by (auto simp: accepted_inner_def intro: ratchet_only_trans)
    have "x = Inr inner \<and> (c' = c1 \<or> c' = c2)"
      using assms Some y z Inr by (simp add: decrypt_inbound_def m_bind_def m_return_def split: if_splits)
    with o Inr acc show ?thesis by auto
  qed
qed

text \<open>Both receiving methods are sequenced receivers over the contact.\<close>

interpretation outer_rx: sequenced_receiver "\<lambda>(np, now, outer). decrypt_outer P np now outer"
    last_recv_seq seq for P
proof
  show "(case m of (np, now, outer) \<Rightarrow> decrypt_outer P np now outer) s = (Inr r, s') \<Longrightarrow>
      seq r = last_recv_seq s + 1 \<and> last_recv_seq s' = seq r" for m s r s'
    by (cases m) (auto dest!: decrypt_outer_cases accepted_inner_seq)
  show "(case m of (np, now, outer) \<Rightarrow> decrypt_outer P np now outer) s = (Inl e, s') \<Longrightarrow>
      last_recv_seq s' = last_recv_seq s" for m s e s'
    by (cases m) (auto dest!: decrypt_outer_cases dest: ratchet_only_fields)
qed

interpretation inbound_rx: sequenced_receiver "\<lambda>(np, now, outer). decrypt_inbound P np now outer"
    last_recv_seq seq for P
proof
  show "(case m of (np, now, outer) \<Rightarrow> decrypt_inbound P np now outer) s = (Inr r, s') \<Longrightarrow>
      seq r = last_recv_seq s + 1 \<and> last_recv_seq s' = seq r" for m s r s'
    by (cases m) (auto dest!: decrypt_inbound_cases accepted_inner_seq)
  show "(case m of (np, now, outer) \<Rightarrow> decrypt_inbound P np now outer) s = (Inl e, s') \<Longrightarrow>
      last_recv_seq s' = last_recv_seq s" for m s e s'
    by (cases m) (auto dest!: decrypt_inbound_cases dest: ratchet_only_fields)
qed

section \<open>From one session to the other\<close>

lemma encrypt_with_Inr:
  assumes "encrypt_with P i np nonce now mk c = (Inr em, c')"
  obtains s padded payload s' where "c_ratchet c = Some s"
    "pad_plaintext (inner_to_bytes (mk c)) (privacy_mode c) = Inr (padded, em_padding em)"
    "ratchet_encrypt P np nonce padded s = (Inr payload, s')"
    "c' = c\<lparr>c_ratchet := Some s', next_send_seq := next_send_seq c + 1\<rparr>"
    "em_inner em = mk c" "ob_ciphertext (em_outer em) = payload"
    "em_msg_id em = message_id P payload" "tag (em_tag em) = ob_tag (em_outer em)"
    "derive P (mailbox_deriver P i c True) (send_direction i c) None now = Inr (em_tag em)"
    "\<not> needs_pq_rekey (hybrid_pq c) (session_started_at c) (next_send_seq c) now"
    "ob_expires_at (em_outer em) = now + DEFAULT_BLOB_TTL_MS"
proof -
  have fresh: "\<not> needs_pq_rekey (hybrid_pq c) (session_started_at c) (next_send_seq c) now"
    using assms by (auto simp: encrypt_with_def require_fresh_session_def m_bind_def split: if_splits)
  with assms obtain padded n where pad: "pad_plaintext (inner_to_bytes (mk c)) (privacy_mode c) = Inr (padded, n)"
    by (auto simp: encrypt_with_def require_fresh_session_def encrypt_inner_def m_bind_def Let_def m_of_def
        m_get_def m_return_def split: sum.splits prod.splits)
  with assms fresh obtain s where s: "c_ratchet c = Some s"
    by (cases "c_ratchet c") (auto simp: encrypt_with_def require_fresh_session_def encrypt_inner_def
        m_bind_def Let_def on_ratchet_def)
  obtain x s' where enc: "ratchet_encrypt P np nonce padded s = (x, s')" by fastforce
  with assms fresh pad s obtain payload where x: "x = Inr payload"
    by (cases x) (auto simp: encrypt_with_def require_fresh_session_def encrypt_inner_def
        m_bind_def Let_def on_ratchet_def)
  have same: "derive P (mailbox_deriver P i (c\<lparr>c_ratchet := r\<rparr>) True) (send_direction i (c\<lparr>c_ratchet := r\<rparr>)) None now
      = derive P (mailbox_deriver P i c True) (send_direction i c) None now" for r
    by (simp add: mailbox_deriver_def send_direction_def)
  show thesis
  proof (cases "derive P (mailbox_deriver P i c True) (send_direction i c) None now")
    case (Inl e)
    with assms fresh pad s enc x show thesis
      by (simp add: encrypt_with_def require_fresh_session_def encrypt_inner_def
        m_bind_def Let_def on_ratchet_def same)
  next
    case (Inr t)
    with assms fresh pad s enc x have
      "c' = c\<lparr>c_ratchet := Some s', next_send_seq := next_send_seq c + 1\<rparr>"
      "em = \<lparr>em_outer = session_outer_blob payload t now, em_inner = mk c,
         em_msg_id = message_id P payload, em_tag = t, em_padding = n\<rparr>"
      by (simp_all add: encrypt_with_def require_fresh_session_def encrypt_inner_def
        m_bind_def Let_def on_ratchet_def same session_outer_blob_def)
    then show thesis
      by (intro that [of s padded payload s'])
        (use s pad enc x Inr fresh in \<open>simp_all add: session_outer_blob_def\<close>)
  qed
qed

lemma encrypt_with_seq:
  "encrypt_with P i np nonce now mk c = (Inr em, c') \<Longrightarrow> next_send_seq c' = next_send_seq c + 1"
  by (elim encrypt_with_Inr) simp

text \<open>The receiving contact is in step with the sending one.\<close>

definition in_step :: "nat \<Rightarrow> nat \<Rightarrow> bytes \<Rightarrow> contact \<Rightarrow> contact \<Rightarrow> bool" where
  "in_step pn n ck cs cr \<longleftrightarrow>
     (\<exists>s r. c_ratchet cs = Some s \<and> c_ratchet cr = Some r \<and> seals pn n ck s \<and>
        expects (dh_self_public s) n ck r \<and> length (dh_self_public s) = 32 \<and>
        length (skipped_keys r) \<le> 256) \<and>
     c_conversation_id cs = c_conversation_id cr \<and> privacy_mode cs = privacy_mode cr \<and>
     known_mode (privacy_mode cr) \<and> next_send_seq cs = last_recv_seq cr + 1"

lemma decrypt_outer_sent:
  assumes law: "aead_correct P" and step: "in_step pn n ck cs cr" and nonce: "length nonce = 24"
    and enc: "encrypt_with P i np nonce now mk cs = (Inr em, cs')"
    and inner: "conversation_id (mk cs) = c_conversation_id cs" "seq (mk cs) = next_send_seq cs"
      "json_ok (im_type (mk cs))" "json_ok (im_message_id (mk cs))" "now' \<le> valid_until (mk cs)"
  shows "\<exists>cr'. decrypt_outer P np' now' (em_outer em) cr = (Inr (mk cs), cr') \<and>
    cr' = cr\<lparr>c_ratchet := c_ratchet cr', last_recv_seq := seq (mk cs)\<rparr> \<and>
    in_step pn (Suc n) (snd (kdf_ck P ck)) cs' cr'"
proof -
  from step obtain s r where sr: "c_ratchet cs = Some s" "c_ratchet cr = Some r" "seals pn n ck s"
    "expects (dh_self_public s) n ck r" "length (dh_self_public s) = 32" "length (skipped_keys r) \<le> 256"
    and same: "c_conversation_id cs = c_conversation_id cr" "privacy_mode cs = privacy_mode cr"
      "known_mode (privacy_mode cr)" "next_send_seq cs = last_recv_seq cr + 1"
    unfolding in_step_def by blast
  from enc obtain padded payload s' where e:
    "pad_plaintext (inner_to_bytes (mk cs)) (privacy_mode cs) = Inr (padded, em_padding em)"
    "ratchet_encrypt P np nonce padded s = (Inr payload, s')"
    "cs' = cs\<lparr>c_ratchet := Some s', next_send_seq := next_send_seq cs + 1\<rparr>"
    "ob_ciphertext (em_outer em) = payload"
    using sr(1) by (elim encrypt_with_Inr) auto
  have range: "n < 2 ^ 32" "pn < 2 ^ 32" and payload: "payload = packet P (dh_self_public s) pn n ck nonce padded"
    and s': "s' = s\<lparr>send_chain_key := Some (snd (kdf_ck P ck)), send_n := int (Suc n)\<rparr>"
    using e(2) sr(3) by (auto simp: ratchet_encrypt_def seals_def m_bind_def header_aad_def pack_II_def
        m_get_def m_return_def m_modify_def m_of_def packet_def packet_header_def split: if_splits)
  let ?r = "r\<lparr>dh_peer_public := Some (dh_self_public s), recv_chain_key := Some (snd (kdf_ck P ck)),
      recv_n := int (Suc n)\<rparr>"
  have dec: "ratchet_decrypt P np' payload r = (Inr padded, ?r)"
    using ratchet_decrypt_packet [OF law nonce sr(5,4), of 0 pn np' padded] sr(6) range payload by simp
  let ?cr = "cr\<lparr>c_ratchet := Some ?r, last_recv_seq := seq (mk cs)\<rparr>"
  have "decode_padded_plaintext padded (privacy_mode cr) = Inr (inner_to_bytes (mk cs))"
    using e(1) same decode_pad_roundtrip by simp
  then have "decrypt_outer P np' now' (em_outer em) cr = (Inr (mk cs), ?cr)"
    using sr dec e(4) inner same
    by (simp add: decrypt_outer_def Let_def on_ratchet_def catch_ratchet_def
        m_bind_def [of "catch_ratchet _"] inner_from_to_bytes enforce_message_ttl_def is_message_expired_def)
  moreover have "in_step pn (Suc n) (snd (kdf_ck P ck)) cs' ?cr"
    using sr same inner(2) e(3) s' by (simp add: in_step_def seals_def expects_def)
  ultimately show ?thesis by (intro exI [of _ ?cr]) simp
qed

text \<open>A text arrives as sent, and the two sides are in step for the next one.\<close>

lemma text_delivered:
  assumes law: "aead_correct P" and step: "in_step pn n ck cs cr" and nonce: "length nonce = 24"
    and enc: "encrypt_text P i np nonce now body cs = (Inr em, cs')"
    and time: "now' \<le> now + MESSAGE_TTL_MS"
  shows "\<exists>inner cr'. decrypt_inbound P np' now' (em_outer em) cr = (Inr inner, cr') \<and>
    im_type inner = JStr ''text'' \<and> im_body inner = body \<and> sender_device_id inner = device_id P i \<and>
    seq inner = next_send_seq cs \<and> in_step pn (Suc n) (snd (kdf_ck P ck)) cs' cr'"
proof -
  let ?mk = "\<lambda>c. inner_text (c_conversation_id c) (device_id P i) (next_send_seq c) body now"
  obtain cr' where d: "decrypt_outer P np' now' (em_outer em) cr = (Inr (?mk cs), cr')"
    "in_step pn (Suc n) (snd (kdf_ck P ck)) cs' cr'"
    using decrypt_outer_sent [OF law step nonce enc [unfolded encrypt_text_def], of now' np'] time
    by (auto simp: inner_text_def message_valid_until_def)
  from step obtain r where "c_ratchet cr = Some r" unfolding in_step_def by blast
  with d show ?thesis
    by (intro exI [of _ "?mk cs"] exI [of _ cr'])
      (simp add: decrypt_inbound_def m_bind_def inner_text_def m_return_def)
qed

lemma decrypt_outer_Inr:
  assumes "decrypt_outer P np now outer c = (Inr inner, c')"
  obtains r0 padded r1 plaintext where "c_ratchet c = Some r0"
    "ratchet_decrypt P np (ob_ciphertext outer) r0 = (Inr padded, r1)"
    "decode_padded_plaintext padded (privacy_mode c) = Inr plaintext"
    "inner_from_bytes plaintext = Inr inner"
    "c' = c\<lparr>c_ratchet := Some r1, last_recv_seq := seq inner\<rparr>"
proof -
  from assms obtain r0 where r0: "c_ratchet c = Some r0"
    by (cases "c_ratchet c") (auto simp: decrypt_outer_def)
  obtain x r1 where x: "ratchet_decrypt P np (ob_ciphertext outer) r0 = (x, r1)" by fastforce
  with assms r0 obtain padded where padded: "x = Inr padded"
    by (cases x) (auto simp: decrypt_outer_def on_ratchet_def catch_ratchet_def m_bind_def Let_def)
  have fail: "m_bind (rollback b) (\<lambda>_. m_raise e) c1 \<noteq> (Inr y, c2)" for b e c1 y c2
    using rollback_fail by fastforce
  from assms r0 x padded obtain plaintext where pl:
    "decode_padded_plaintext padded (privacy_mode c) = Inr plaintext"
    by (cases "decode_padded_plaintext padded (privacy_mode c)")
      (auto simp: decrypt_outer_def on_ratchet_def catch_ratchet_def m_bind_def [of "catch_ratchet _"]
        Let_def fail)
  from assms r0 x padded pl obtain inner' where inner': "inner_from_bytes plaintext = Inr inner'"
    by (cases "inner_from_bytes plaintext")
      (auto simp: decrypt_outer_def on_ratchet_def catch_ratchet_def m_bind_def [of "catch_ratchet _"]
        Let_def)
  from assms r0 x padded pl inner' have "inner' = inner \<and> c' = c\<lparr>c_ratchet := Some r1, last_recv_seq := seq inner\<rparr>"
    by (cases "conversation_id inner' = c_conversation_id c"; cases "seq inner' \<le> last_recv_seq c";
        cases "seq inner' = last_recv_seq c + 1"; cases "now \<le> valid_until inner'")
      (auto simp: decrypt_outer_def on_ratchet_def catch_ratchet_def m_bind_def [of "catch_ratchet _"]
        Let_def fail enforce_message_ttl_def is_message_expired_def)
  with that r0 x padded pl inner' show thesis by blast
qed

text \<open>The receiver takes an auxiliary message without moving its ratchet.\<close>

lemma auxiliary_keeps_ratchet:
  assumes P: "hkdf_lengths P" and c: "c_ratchet c = Some r" "ratchet_inv r"
    and dec: "decrypt_inbound P np now outer c = (Inr inner, c')" "im_type inner \<noteq> JStr ''text''"
  shows "\<exists>sk. c' = c\<lparr>last_recv_seq := last_recv_seq c + 1, c_ratchet := Some (r\<lparr>skipped_keys := sk\<rparr>)\<rparr>"
proof -
  obtain y c1 where y: "decrypt_outer P np now outer c = (y, c1)" by fastforce
  have rb: "y = Inr inner \<and> rollback (ratchet_to_dict r) c1 = (Inr (), c')"
    using y c dec rollback_total [of r c1]
    by (cases y) (auto simp: decrypt_inbound_def m_bind_def m_return_def split: prod.splits sum.splits if_splits)
  with y obtain padded r1 where o: "ratchet_decrypt P np (ob_ciphertext outer) r = (Inr padded, r1)"
    "c1 = c\<lparr>c_ratchet := Some r1, last_recv_seq := seq inner\<rparr>"
    using c(1) by (auto elim!: decrypt_outer_Inr)
  have "ratchet_inv r1" using ratchet_decrypt_inv [OF P c(2), of np "ob_ciphertext outer"] o(1) by simp
  then have "restore_snapshot (ratchet_to_dict r) r1 = Inr (r\<lparr>skipped_keys := skipped_keys r1\<rparr>)"
    using c(2) by (intro restore_skipped) (simp_all add: ratchet_inv_def ratchet_wf_def)
  with rb o(2) have "c' = c1\<lparr>c_ratchet := Some (r\<lparr>skipped_keys := skipped_keys r1\<rparr>)\<rparr>"
    by (simp add: rollback_def)
  moreover have "seq inner = last_recv_seq c + 1"
    using decrypt_inbound_cases [OF dec(1)] by (simp add: accepted_inner_def)
  ultimately show ?thesis using o(2) by auto
qed

text \<open>Whatever arrives, the ratchet stays fit for saving.\<close>

lemma decrypt_inbound_inv:
  assumes P: "hkdf_lengths P" and c: "c_ratchet c = Some r" "ratchet_inv r"
  shows "\<exists>r'. c_ratchet (snd (decrypt_inbound P np now outer c)) = Some r' \<and> ratchet_inv r'"
proof -
  define Q where "Q d \<longleftrightarrow> (\<exists>r'. c_ratchet d = Some r' \<and> ratchet_inv r')" for d :: contact
  have rb: "Q (snd (rollback (ratchet_to_dict r) d))" if "Q d" for d
  proof -
    from that obtain r' where r': "c_ratchet d = Some r'" "ratchet_inv r'" unfolding Q_def by blast
    then have "restore_snapshot (ratchet_to_dict r) r' = Inr (r\<lparr>skipped_keys := skipped_keys r'\<rparr>)"
      using c(2) by (intro restore_skipped) (simp_all add: ratchet_inv_def ratchet_wf_def)
    with r' c show ?thesis
      by (auto simp: rollback_def Q_def ratchet_inv_def ratchet_wf_def)
  qed
  have d: "Q (snd (catch_ratchet (on_ratchet (ratchet_decrypt P np x)) c))" for x
    using c ratchet_decrypt_inv [OF P c(2), of np x]
    by (auto simp: Q_def catch_ratchet_def on_ratchet_def split: prod.splits sum.splits)
  have fail: "Q (snd (m_bind (rollback (ratchet_to_dict r)) (\<lambda>_. m_raise e) d))" if "Q d" for d e
    using rb [OF that] by (intro m_bind_snd_induct [where Q = Q]) (auto simp: m_raise_def)
  have up: "Q (d\<lparr>last_recv_seq := k\<rparr>)" if "Q d" for d k
    using that by (simp add: Q_def)
  have o: "Q (snd (decrypt_outer P np now outer c))"
    using c(1) unfolding decrypt_outer_def m_get_def Let_def
    by simp (intro m_bind_snd_induct [where Q = Q] d,
        auto simp: fail up m_bind_def [of "m_of _"] m_of_def enforce_message_ttl_def
        split: sum.splits if_splits)
  have "Q (snd (decrypt_inbound P np now outer c))"
    using c(1) unfolding decrypt_inbound_def m_get_def
    by simp (intro m_bind_snd_induct [where Q = Q] o, auto simp: m_return_def intro: rb)
  then show ?thesis by (simp add: Q_def)
qed

end
