(* ===== verification/Store.thy ===== *)
theory Store
  imports Session Grants Pairing
begin

text \<open>
  The client's store (\<open>store.py\<close>, with the route state of \<open>routing.py\<close>): the tables of
  \<open>messages.db\<close>, the contact files beside them and the small JSON files. A JSON file is kept
  as the value it holds. A transaction works on a copy of the database and is dropped as a
  whole when a statement raises; \<open>test_fault\<close> is the fault the code can be told to inject.
  The schema is taken as current (no migration of old database files), and an integer
  column as unbounded.
\<close>

section \<open>Tables\<close>

record contact_row =
  cr_name :: str
  cr_payload :: str

record inbound_row =
  ib_contact :: str
  ib_seq :: int
  ib_valid_until :: int
  ib_received_at :: int
  ib_ciphertext :: bytes

record outbound_row =
  ot_contact :: str
  ot_msg_id :: str
  ot_seq :: int
  ot_body :: str
  ot_created_at :: int
  ot_valid_until :: int
  ot_outer :: "(str \<times> str \<times> int) option"  \<comment> \<open>the three \<open>outer\<close> columns, all set or all null\<close>

record sent_row =
  sr_contact :: str
  sr_seq :: int
  sr_body :: str
  sr_created_at :: int
  sr_valid_until :: int

record presence_row =
  pw_operator :: str
  pw_url :: str
  pw_active :: bool
  pw_valid_until :: int
  pw_source :: str
  pw_updated_at :: int

record receipt_row =
  rr_contact :: str
  rr_delivered_id :: str
  rr_route :: "str option"
  rr_created_at :: int

record ack_row =
  ak_contact :: str
  ak_msg_id :: str
  ak_version :: int
  ak_relay_names :: str

record grant_row =
  gr_relay :: str
  gr_generation :: int
  gr_grant :: str
  gr_auth_private :: str
  gr_salt :: str
  gr_tls_spki :: bytes
  gr_expires_at :: int

record database =
  contacts :: "contact_row list"
  inbound :: "inbound_row list"
  outbound :: "outbound_row list"
  sent_messages :: "sent_row list"
  presences :: "presence_row list"
  receipts :: "receipt_row list"
  acks :: "ack_row list"
  grants :: "grant_row list"

record store =
  db :: database
  identity_file :: "json option"
  bundle_file :: "(str \<times> str) list option"
  contact_files :: "(str \<times> json) list"
  route_file :: "(str \<times> json) list option"
  profile_file :: "str option"
  pending_file :: "json option"
  metrics_file :: "json option"
  test_fault :: "str option"

definition inbound_key :: "inbound_row \<Rightarrow> str \<times> int" where
  "inbound_key r = (ib_contact r, ib_seq r)"
definition outbound_key :: "outbound_row \<Rightarrow> str \<times> str" where
  "outbound_key r = (ot_contact r, ot_msg_id r)"
definition sent_key :: "sent_row \<Rightarrow> str \<times> int" where
  "sent_key r = (sr_contact r, sr_seq r)"
definition receipt_key :: "receipt_row \<Rightarrow> str \<times> str" where
  "receipt_key r = (rr_contact r, rr_delivered_id r)"
definition ack_key :: "ack_row \<Rightarrow> str \<times> str" where
  "ack_key r = (ak_contact r, ak_msg_id r)"
definition grant_key :: "grant_row \<Rightarrow> str \<times> int" where
  "grant_key r = (gr_relay r, gr_generation r)"

definition empty_db :: database where
  "empty_db = \<lparr>contacts = [], inbound = [], outbound = [], sent_messages = [], presences = [],
     receipts = [], acks = [], grants = []\<rparr>"

definition empty_store :: store where
  "empty_store = \<lparr>db = empty_db, identity_file = None, bundle_file = None, contact_files = [],
     route_file = None, profile_file = None, pending_file = None, metrics_file = None,
     test_fault = None\<rparr>"

text \<open>The lookups of each table obey the contract of a keyed table.\<close>

interpretation contact_tbl: keyed_table cr_name "tbl_get cr_name" "tbl_replace cr_name"
  "tbl_ignore cr_name" "\<lambda>k. tbl_delete (\<lambda>r. cr_name r = k)" "tbl_unique cr_name"
  by (rule keyed_table_tbl)

interpretation inbound_tbl: keyed_table inbound_key "tbl_get inbound_key" "tbl_replace inbound_key"
  "tbl_ignore inbound_key" "\<lambda>k. tbl_delete (\<lambda>r. inbound_key r = k)" "tbl_unique inbound_key"
  by (rule keyed_table_tbl)

interpretation outbound_tbl: keyed_table outbound_key "tbl_get outbound_key" "tbl_replace outbound_key"
  "tbl_ignore outbound_key" "\<lambda>k. tbl_delete (\<lambda>r. outbound_key r = k)" "tbl_unique outbound_key"
  by (rule keyed_table_tbl)

interpretation receipt_tbl: keyed_table receipt_key "tbl_get receipt_key" "tbl_replace receipt_key"
  "tbl_ignore receipt_key" "\<lambda>k. tbl_delete (\<lambda>r. receipt_key r = k)" "tbl_unique receipt_key"
  by (rule keyed_table_tbl)

interpretation ack_tbl: keyed_table ack_key "tbl_get ack_key" "tbl_replace ack_key"
  "tbl_ignore ack_key" "\<lambda>k. tbl_delete (\<lambda>r. ack_key r = k)" "tbl_unique ack_key"
  by (rule keyed_table_tbl)

interpretation grant_tbl: keyed_table grant_key "tbl_get grant_key" "tbl_replace grant_key"
  "tbl_ignore grant_key" "\<lambda>k. tbl_delete (\<lambda>r. grant_key r = k)" "tbl_unique grant_key"
  by (rule keyed_table_tbl)

text \<open>
  A transaction: the statements run on the database, \<open>commit\<close> keeps their effect and an
  exception rolls it back.
\<close>

definition transaction :: "(database, 'a) meth \<Rightarrow> (store, 'a) meth" where
  "transaction body s = (case body (db s) of
     (Inr x, d) \<Rightarrow> (Inr x, s\<lparr>db := d\<rparr>) | (Inl e, d) \<Rightarrow> (Inl e, s))"

section \<open>Identity and contacts\<close>

definition load_identity :: "(store, identity option) meth" where
  "load_identity s = (case identity_file s of
     None \<Rightarrow> (Inr None, s)
   | Some j \<Rightarrow> (and_then (identity_from_dict j) (\<lambda>i. Inr (Some i)), s))"

definition save_identity :: "prims \<Rightarrow> identity \<Rightarrow> (store, unit) meth" where
  "save_identity P i = m_modify (\<lambda>s. s\<lparr>identity_file := Some (identity_to_dict i),
     bundle_file := Some (export_public_bundle P i)\<rparr>)"

definition save_contact_conn :: "prims \<Rightarrow> contact \<Rightarrow> (database, unit) meth" where
  "save_contact_conn P c = m_modify (\<lambda>d. d\<lparr>contacts :=
     tbl_replace cr_name \<lparr>cr_name = c_name c, cr_payload = json_default (contact_to_dict P c)\<rparr>
       (contacts d)\<rparr>)"

definition sync_contact_json :: "prims \<Rightarrow> contact \<Rightarrow> (store, unit) meth" where
  "sync_contact_json P c = m_modify (\<lambda>s. s\<lparr>contact_files :=
     dict_put (c_name c) (contact_to_dict P c) (contact_files s)\<rparr>)"

definition save_contact :: "prims \<Rightarrow> contact \<Rightarrow> (store, unit) meth" where
  "save_contact P c = m_bind (transaction (save_contact_conn P c)) (\<lambda>_. sync_contact_json P c)"

definition get_contact :: "prims \<Rightarrow> str \<Rightarrow> (store, contact option) meth" where
  "get_contact P name = m_get (\<lambda>s. case tbl_get cr_name name (contacts (db s)) of
     Some row \<Rightarrow> m_of (and_then (json_loads (cr_payload row)) (\<lambda>j.
                   and_then (contact_from_dict P j) (\<lambda>c. Inr (Some c))))
   | None \<Rightarrow> (case map_of (contact_files s) name of
       None \<Rightarrow> m_return None
     | Some j \<Rightarrow> m_bind (m_of (contact_from_dict P j)) (\<lambda>c.
                 m_bind (save_contact P c) (\<lambda>_. m_return (Some c)))))"

definition list_contacts :: "store \<Rightarrow> str list" where
  "list_contacts s = sort (map fst (contact_files s))"

section \<open>Messages\<close>

definition save_inbound_message ::
    "prims \<Rightarrow> bytes \<Rightarrow> identity \<Rightarrow> int \<Rightarrow> str \<Rightarrow> inner_message \<Rightarrow> (store, unit) meth" where
  "save_inbound_message P nonce i now contact_name inner = transaction (m_modify (\<lambda>d.
     d\<lparr>inbound := tbl_ignore inbound_key \<lparr>ib_contact = contact_name, ib_seq = seq inner,
        ib_valid_until = valid_until inner, ib_received_at = now,
        ib_ciphertext = wrap_local_ciphertext P nonce i (inner_to_bytes inner)\<rparr> (inbound d)\<rparr>))"

definition list_inbound_messages_timed ::
    "prims \<Rightarrow> identity \<Rightarrow> int \<Rightarrow> str \<Rightarrow> store \<Rightarrow> (int \<times> str \<times> int) list" where
  "list_inbound_messages_timed P i now contact_name s =
     concat (map (\<lambda>row.
         case and_then (unwrap_local_ciphertext P i (ib_ciphertext row)) (\<lambda>b.
              and_then (inner_from_bytes b) (\<lambda>inner.
              and_then (enforce_message_ttl (valid_until inner) now) (\<lambda>_. Inr inner))) of
           Inl e \<Rightarrow> []
         | Inr inner \<Rightarrow> if im_type inner = JStr ''text''
                       then [(seq inner, im_body inner, ib_received_at row)] else [])
       (sort_key ib_received_at (sort_key ib_seq
          (filter (\<lambda>r. ib_contact r = contact_name \<and> ib_valid_until r > now) (inbound (db s))))))"

definition list_inbound_messages ::
    "prims \<Rightarrow> identity \<Rightarrow> int \<Rightarrow> str \<Rightarrow> store \<Rightarrow> (int \<times> str) list" where
  "list_inbound_messages P i now contact_name s =
     map (\<lambda>(n, body, at). (n, body)) (list_inbound_messages_timed P i now contact_name s)"

definition sweep_expired_messages :: "int \<Rightarrow> (store, int) meth" where
  "sweep_expired_messages now = transaction (m_get (\<lambda>d.
     let dead = (\<lambda>r. ib_valid_until r \<le> now \<or> ib_received_at r \<le> now - MESSAGE_TTL_MS) in
     m_bind (m_modify (\<lambda>d. d\<lparr>inbound := tbl_delete dead (inbound d)\<rparr>)) (\<lambda>_.
     m_return (tbl_count dead (inbound d)))))"

definition record_sent :: "str \<Rightarrow> int \<Rightarrow> str \<Rightarrow> int \<Rightarrow> database \<Rightarrow> database" where
  "record_sent contact_name n body now d = d\<lparr>sent_messages := tbl_ignore sent_key
     \<lparr>sr_contact = contact_name, sr_seq = n, sr_body = body, sr_created_at = now,
      sr_valid_until = message_valid_until now\<rparr> (sent_messages d)\<rparr>"

definition record_outbound ::
    "str \<Rightarrow> str \<Rightarrow> int \<Rightarrow> str \<Rightarrow> int \<Rightarrow> (str \<times> str \<times> int) option \<Rightarrow> database \<Rightarrow> database" where
  "record_outbound contact_name msg_id n body now outer d = d\<lparr>outbound := tbl_replace outbound_key
     \<lparr>ot_contact = contact_name, ot_msg_id = msg_id, ot_seq = n, ot_body = body,
      ot_created_at = now, ot_valid_until = message_valid_until now, ot_outer = outer\<rparr> (outbound d)\<rparr>"

definition save_outbound_pending :: "int \<Rightarrow> str \<Rightarrow> str \<Rightarrow> int \<Rightarrow> str \<Rightarrow> (store, unit) meth" where
  "save_outbound_pending now contact_name msg_id n body = transaction (m_modify (\<lambda>d.
     record_sent contact_name n body now (record_outbound contact_name msg_id n body now None d)))"

definition fault :: "str \<Rightarrow> str option \<Rightarrow> str \<Rightarrow> (database, unit) meth" where
  "fault name injected msg = (if injected = Some name then m_raise (OperationalError msg) else m_return ())"

definition atomic_commit_send ::
    "prims \<Rightarrow> int \<Rightarrow> contact \<Rightarrow> str \<Rightarrow> int \<Rightarrow> str \<Rightarrow> outer_blob \<Rightarrow> (store, unit) meth" where
  "atomic_commit_send P now c msg_id n body outer = m_get (\<lambda>s.
     m_bind (transaction (
       m_bind (save_contact_conn P c) (\<lambda>_.
       m_bind (fault ''outbound_pending'' (test_fault s) ''injected outbound fault'') (\<lambda>_.
       m_bind (m_modify (record_outbound (c_name c) msg_id n body now
         (Some (b64encode (ob_ciphertext outer), b64encode (ob_tag outer), ob_expires_at outer)))) (\<lambda>_.
       m_modify (record_sent (c_name c) n body now)))))) (\<lambda>_.
     sync_contact_json P c))"

definition atomic_commit_receive_text ::
    "prims \<Rightarrow> bytes \<Rightarrow> identity \<Rightarrow> int \<Rightarrow> contact \<Rightarrow> inner_message \<Rightarrow> str option \<Rightarrow> str option \<Rightarrow>
     (store, unit) meth" where
  "atomic_commit_receive_text P nonce i now c inner delivered_id receipt_route = m_get (\<lambda>s.
     let wrapped = wrap_local_ciphertext P nonce i (inner_to_bytes inner) in
     m_bind (transaction (
       m_bind (save_contact_conn P c) (\<lambda>_.
       m_bind (fault ''inbound_message'' (test_fault s) ''injected inbound fault'') (\<lambda>_.
       m_bind (m_modify (\<lambda>d. d\<lparr>inbound := tbl_ignore inbound_key \<lparr>ib_contact = c_name c,
          ib_seq = seq inner, ib_valid_until = valid_until inner, ib_received_at = now,
          ib_ciphertext = wrapped\<rparr> (inbound d)\<rparr>)) (\<lambda>_.
       case delivered_id of None \<Rightarrow> m_return ()
       | Some did \<Rightarrow>
           m_bind (fault ''pending_receipt'' (test_fault s) ''injected pending receipt fault'') (\<lambda>_.
           m_modify (\<lambda>d. d\<lparr>receipts := tbl_replace receipt_key \<lparr>rr_contact = c_name c,
             rr_delivered_id = did, rr_route = receipt_route, rr_created_at = now\<rparr> (receipts d)\<rparr>))))))) (\<lambda>_.
     sync_contact_json P c))"

definition atomic_persist_contact :: "prims \<Rightarrow> contact \<Rightarrow> (store, unit) meth" where
  "atomic_persist_contact P c =
     m_bind (transaction (save_contact_conn P c)) (\<lambda>_. sync_contact_json P c)"

definition load_outbound_outer :: "str \<Rightarrow> str \<Rightarrow> store \<Rightarrow> outer_blob option res" where
  "load_outbound_outer contact_name msg_id s =
     (case tbl_get outbound_key (contact_name, msg_id) (outbound (db s)) of
        None \<Rightarrow> Inr None
      | Some row \<Rightarrow> (case ot_outer row of
          None \<Rightarrow> Inr None
        | Some (ct, t, e) \<Rightarrow>
            if ct = [] \<or> t = [] then Inr None
            else and_then (b64decode t) (\<lambda>tb. and_then (b64decode ct) (\<lambda>cb.
                 Inr (Some \<lparr>ob_version = 1, ob_tag = tb, ob_expires_at = e, ob_ciphertext = cb\<rparr>)))))"

definition list_sent_messages_timed :: "int \<Rightarrow> str \<Rightarrow> store \<Rightarrow> (int \<times> str \<times> int) list" where
  "list_sent_messages_timed now contact_name s =
     map (\<lambda>r. (sr_seq r, sr_body r, sr_created_at r))
       (sort_key sr_created_at (sort_key sr_seq
          (filter (\<lambda>r. sr_contact r = contact_name \<and> sr_valid_until r > now) (sent_messages (db s)))))"

definition list_sent_messages :: "int \<Rightarrow> str \<Rightarrow> store \<Rightarrow> (int \<times> str) list" where
  "list_sent_messages now contact_name s =
     map (\<lambda>(n, body, at). (n, body)) (list_sent_messages_timed now contact_name s)"

definition mark_outbound_delivered :: "str \<Rightarrow> str \<Rightarrow> (store, bool) meth" where
  "mark_outbound_delivered contact_name msg_id = transaction (m_get (\<lambda>d.
     let hit = (\<lambda>r. outbound_key r = (contact_name, msg_id)) in
     m_bind (m_modify (\<lambda>d. d\<lparr>outbound := tbl_delete hit (outbound d)\<rparr>)) (\<lambda>_.
     m_return (tbl_count hit (outbound d) > 0))))"

definition list_outbound_pending :: "int \<Rightarrow> str \<Rightarrow> store \<Rightarrow> (str \<times> int \<times> str) list" where
  "list_outbound_pending now contact_name s =
     map (\<lambda>r. (ot_msg_id r, ot_seq r, ot_body r))
       (sort_key ot_seq (filter (\<lambda>r. ot_contact r = contact_name \<and> ot_valid_until r > now)
          (outbound (db s))))"

definition sweep_expired_outbound :: "int \<Rightarrow> (store, int) meth" where
  "sweep_expired_outbound now = transaction (m_get (\<lambda>d.
     let dead = (\<lambda>r. ot_valid_until r \<le> now \<or> ot_created_at r \<le> now - MESSAGE_TTL_MS);
         old = (\<lambda>r. sr_valid_until r \<le> now \<or> sr_created_at r \<le> now - MESSAGE_TTL_MS) in
     m_bind (m_modify (\<lambda>d. d\<lparr>outbound := tbl_delete dead (outbound d),
                              sent_messages := tbl_delete old (sent_messages d)\<rparr>)) (\<lambda>_.
     m_return (tbl_count dead (outbound d)))))"

section \<open>Small files\<close>

record route_state =
  last_entry :: "str option"
  last_mailbox :: "str option"

fun json_opt :: "str option \<Rightarrow> json" where
  "json_opt None = JNull"
| "json_opt (Some s) = JStr s"

fun opt_json :: "json \<Rightarrow> str option res" where
  "opt_json JNull = Inr None"
| "opt_json (JStr s) = Inr (Some s)"
| "opt_json _ = Inl (TypeError ''not a str'')"

definition route_to_dict :: "route_state \<Rightarrow> json" where
  "route_to_dict r = JObj [(''last_entry'', json_opt (last_entry r)),
     (''last_mailbox'', json_opt (last_mailbox r))]"

definition route_from_dict :: "json \<Rightarrow> route_state res" where
  "route_from_dict j = and_then (jobj j) (\<lambda>d.
     and_then (opt_json (jget_default d ''last_entry'' JNull)) (\<lambda>e.
     and_then (opt_json (jget_default d ''last_mailbox'' JNull)) (\<lambda>m.
     Inr \<lparr>last_entry = e, last_mailbox = m\<rparr>)))"

definition load_route_state :: "str \<Rightarrow> store \<Rightarrow> route_state res" where
  "load_route_state contact_name s = (case route_file s of
     None \<Rightarrow> Inr \<lparr>last_entry = None, last_mailbox = None\<rparr>
   | Some d \<Rightarrow> route_from_dict (jget_default d contact_name (JObj [])))"

definition save_route_state :: "str \<Rightarrow> route_state \<Rightarrow> (store, unit) meth" where
  "save_route_state contact_name r = m_modify (\<lambda>s. s\<lparr>route_file :=
     Some (dict_put contact_name (route_to_dict r) (case route_file s of None \<Rightarrow> [] | Some d \<Rightarrow> d))\<rparr>)"

definition load_local_profile :: "prims \<Rightarrow> store \<Rightarrow> delivery_profile option res" where
  "load_local_profile P s = (case profile_file s of
     None \<Rightarrow> Inr None
   | Some t \<Rightarrow> and_then (profile_from_b64 P (py_strip t)) (\<lambda>p. Inr (Some p)))"

definition save_local_profile :: "prims \<Rightarrow> delivery_profile \<Rightarrow> (store, unit) meth" where
  "save_local_profile P p = m_modify (\<lambda>s. s\<lparr>profile_file := Some (profile_to_b64 P p)\<rparr>)"

definition save_pending_pairing :: "pending_pairing \<Rightarrow> (store, unit) meth" where
  "save_pending_pairing p = m_modify (\<lambda>s. s\<lparr>pending_file := Some (pending_to_dict p)\<rparr>)"

definition load_pending_pairing :: "store \<Rightarrow> pending_pairing option res" where
  "load_pending_pairing s = (case pending_file s of
     None \<Rightarrow> Inr None | Some j \<Rightarrow> and_then (pending_from_dict j) (\<lambda>p. Inr (Some p)))"

definition clear_pending_pairing :: "(store, unit) meth" where
  "clear_pending_pairing = m_modify (\<lambda>s. s\<lparr>pending_file := None\<rparr>)"

definition zero_metrics :: privacy_metrics where
  "zero_metrics = \<lparr>bytes_sent = 0, bytes_fetched = 0, decoy_fetches = 0, padding_bytes = 0,
     dummy_blobs_sent = 0, send_count = 0, fetch_count = 0\<rparr>"

definition load_privacy_metrics :: "store \<Rightarrow> privacy_metrics res" where
  "load_privacy_metrics s = (case metrics_file s of
     None \<Rightarrow> Inr zero_metrics | Some j \<Rightarrow> metrics_from_dict j)"

definition save_privacy_metrics :: "privacy_metrics \<Rightarrow> (store, unit) meth" where
  "save_privacy_metrics m = m_modify (\<lambda>s. s\<lparr>metrics_file := Some (metrics_to_dict m)\<rparr>)"

section \<open>Presence, receipts, acknowledgements and grants\<close>

definition save_presence :: "int \<Rightarrow> presence_payload \<Rightarrow> str \<Rightarrow> (store, unit) meth" where
  "save_presence now p source_contact = transaction (m_modify (\<lambda>d.
     d\<lparr>presences := tbl_replace pw_operator \<lparr>pw_operator = operator_name p,
        pw_url = rstrip_slash (reachable_url p), pw_active = relay_active p,
        pw_valid_until = pr_valid_until p, pw_source = source_contact, pw_updated_at = now\<rparr>
        (presences d)\<rparr>))"

definition presence_of_row :: "presence_row \<Rightarrow> presence_payload" where
  "presence_of_row r = \<lparr>operator_name = pw_operator r, reachable_url = pw_url r,
     relay_active = pw_active r, pr_valid_until = pw_valid_until r\<rparr>"

definition load_presence :: "str \<Rightarrow> store \<Rightarrow> presence_payload option" where
  "load_presence name s = map_option presence_of_row (tbl_get pw_operator name (presences (db s)))"

definition list_presences :: "store \<Rightarrow> presence_payload list" where
  "list_presences s = map presence_of_row (sort_key pw_operator (presences (db s)))"

definition save_pending_receipt :: "int \<Rightarrow> str \<Rightarrow> str \<Rightarrow> str option \<Rightarrow> (store, unit) meth" where
  "save_pending_receipt now contact_name delivered_id route = transaction (m_modify (\<lambda>d.
     d\<lparr>receipts := tbl_replace receipt_key \<lparr>rr_contact = contact_name,
        rr_delivered_id = delivered_id, rr_route = route, rr_created_at = now\<rparr> (receipts d)\<rparr>))"

definition list_pending_receipts :: "str option \<Rightarrow> store \<Rightarrow> (str \<times> str \<times> str option) list" where
  "list_pending_receipts contact_name s =
     map (\<lambda>r. (rr_contact r, rr_delivered_id r, rr_route r))
       (sort_key rr_created_at (filter (\<lambda>r. contact_name = None \<or> contact_name = Some (rr_contact r))
          (receipts (db s))))"

definition delete_pending_receipt :: "str \<Rightarrow> str \<Rightarrow> (store, bool) meth" where
  "delete_pending_receipt contact_name delivered_id = transaction (m_get (\<lambda>d.
     let hit = (\<lambda>r. receipt_key r = (contact_name, delivered_id)) in
     m_bind (m_modify (\<lambda>d. d\<lparr>receipts := tbl_delete hit (receipts d)\<rparr>)) (\<lambda>_.
     m_return (tbl_count hit (receipts d) > 0))))"

definition save_profile_ack_pending :: "str \<Rightarrow> str \<Rightarrow> int \<Rightarrow> str list \<Rightarrow> (store, unit) meth" where
  "save_profile_ack_pending contact_name msg_id version relay_names = transaction (m_modify (\<lambda>d.
     d\<lparr>acks := tbl_replace ack_key \<lparr>ak_contact = contact_name, ak_msg_id = msg_id,
        ak_version = version, ak_relay_names = py_join '','' relay_names\<rparr> (acks d)\<rparr>))"

definition split_comma :: "str \<Rightarrow> str list" where
  "split_comma raw = map py_strip (filter (\<lambda>part. py_strip part \<noteq> []) (py_split CHR '','' raw))"

definition take_profile_ack_pending :: "str \<Rightarrow> str \<Rightarrow> (store, (int \<times> str list) option) meth" where
  "take_profile_ack_pending contact_name msg_id = transaction (m_get (\<lambda>d.
     case tbl_get ack_key (contact_name, msg_id) (acks d) of
       None \<Rightarrow> m_return None
     | Some row \<Rightarrow>
         m_bind (m_modify (\<lambda>d. d\<lparr>acks := tbl_delete (\<lambda>r. ack_key r = (contact_name, msg_id)) (acks d)\<rparr>)) (\<lambda>_.
         m_return (Some (ak_version row, split_comma (ak_relay_names row))))))"

definition load_capability_grant :: "str \<Rightarrow> store \<Rightarrow> grant_row option" where
  "load_capability_grant relay_name s =
     (case sort_key (\<lambda>r. - gr_generation r) (filter (\<lambda>r. gr_relay r = relay_name) (grants (db s))) of
        [] \<Rightarrow> None | row # _ \<Rightarrow> Some row)"

definition save_capability_grant ::
    "prims \<Rightarrow> str \<Rightarrow> capability_grant \<Rightarrow> bytes \<Rightarrow> bytes \<Rightarrow> bytes \<Rightarrow> (store, unit) meth" where
  "save_capability_grant P relay_name g auth_private issuance_salt relay_tls = transaction (m_modify (\<lambda>d.
     d\<lparr>grants := tbl_replace grant_key \<lparr>gr_relay = relay_name, gr_generation = cg_generation g,
        gr_grant = grant_to_b64 P g, gr_auth_private = b64encode auth_private,
        gr_salt = b64encode issuance_salt, gr_tls_spki = relay_tls, gr_expires_at = cg_expires_at g\<rparr>
        (grants d)\<rparr>))"

section \<open>Uses of the store: \<open>presence.py\<close> and \<open>profile_ack.py\<close>\<close>

definition apply_presence_message ::
    "int \<Rightarrow> contact \<Rightarrow> inner_message \<Rightarrow> (store, presence_payload option) meth" where
  "apply_presence_message now c inner =
     (if im_type inner \<noteq> JStr ''presence'' then m_return None else
      m_bind (m_of (presence_from_b64 (im_body inner))) (\<lambda>p.
      if operator_name p \<noteq> c_name c
      then m_raise (YakrError ''YAKR_ERR_PRESENCE_INVALID'' ''presence operator does not match contact'')
      else if \<not> is_presence_fresh p now then m_return None
      else m_bind (save_presence now p (c_name c)) (\<lambda>_. m_return (Some p))))"

definition resolve_operator_url :: "store option \<Rightarrow> str \<Rightarrow> str \<Rightarrow> int \<Rightarrow> str" where
  "resolve_operator_url s name profile_url now = (case s of
     None \<Rightarrow> rstrip_slash profile_url
   | Some st \<Rightarrow> (case load_presence name st of
       Some p \<Rightarrow> if is_presence_fresh p now then rstrip_slash (reachable_url p)
                 else rstrip_slash profile_url
     | None \<Rightarrow> rstrip_slash profile_url))"

fun fresh_urls :: "int \<Rightarrow> str list \<Rightarrow> presence_payload list \<Rightarrow> str list" where
  "fresh_urls now seen [] = []"
| "fresh_urls now seen (p # ps) =
     (if \<not> is_presence_fresh p now then fresh_urls now seen ps
      else let n = rstrip_slash (reachable_url p) in
        if n \<in> set seen then fresh_urls now seen ps else n # fresh_urls now (n # seen) ps)"

definition fresh_group_relay_urls :: "store \<Rightarrow> int \<Rightarrow> str list" where
  "fresh_group_relay_urls s now = fresh_urls now [] (list_presences s)"

text \<open>The contact is changed in place: it is returned.\<close>

definition record_profile_ack_on_receipt ::
    "contact \<Rightarrow> str \<Rightarrow> str \<Rightarrow> (store, contact) meth" where
  "record_profile_ack_on_receipt c contact_name delivered_id =
     m_bind (take_profile_ack_pending contact_name delivered_id) (\<lambda>pending.
     m_return (case pending of None \<Rightarrow> c
       | Some (version, names) \<Rightarrow> apply_peer_profile_ack_pending version names c))"

section \<open>Properties of the store\<close>

lemma transaction_Inr: "transaction body s = (Inr x, s') \<longleftrightarrow> (\<exists>d. body (db s) = (Inr x, d) \<and> s' = s\<lparr>db := d\<rparr>)"
  by (auto simp: transaction_def split: prod.splits sum.splits)

lemma transaction_Inl: "transaction body s = (Inl e, s') \<longleftrightarrow> (\<exists>d. body (db s) = (Inl e, d) \<and> s' = s)"
  by (auto simp: transaction_def split: prod.splits sum.splits)

lemma transaction_modify [simp]: "transaction (m_modify f) s = (Inr (), s\<lparr>db := f (db s)\<rparr>)"
  by (simp add: transaction_def)

text \<open>What was saved is what is read, for a contact fit for saving.\<close>

lemma save_contact_eq:
  "save_contact P c s = (Inr (),
     s\<lparr>db := (db s)\<lparr>contacts := tbl_replace cr_name
          \<lparr>cr_name = c_name c, cr_payload = json_default (contact_to_dict P c)\<rparr> (contacts (db s))\<rparr>,
       contact_files := dict_put (c_name c) (contact_to_dict P c) (contact_files s)\<rparr>)"
  by (simp add: save_contact_def save_contact_conn_def sync_contact_json_def m_bind_def)

lemma contact_text_roundtrip:
  assumes "cbor_correct P" "contact_ok c"
  shows "and_then (json_loads (json_default (contact_to_dict P c))) (\<lambda>j.
           and_then (contact_from_dict P j) (\<lambda>c. Inr (Some c))) = Inr (Some c)"
  using assms by (simp add: json_default_roundtrip contact_dict_json_ok contact_from_to_dict)

definition holds_contact :: "prims \<Rightarrow> contact \<Rightarrow> database \<Rightarrow> bool" where
  "holds_contact P c d \<longleftrightarrow> tbl_get cr_name (c_name c) (contacts d) =
     Some \<lparr>cr_name = c_name c, cr_payload = json_default (contact_to_dict P c)\<rparr>"

lemma get_contact_held:
  assumes "cbor_correct P" "contact_ok c" "holds_contact P c (db s)"
  shows "get_contact P (c_name c) s = (Inr (Some c), s)"
  using assms contact_text_roundtrip [OF assms(1,2)]
  by (simp add: get_contact_def holds_contact_def)

lemma holds_contact_saved: "holds_contact P c (snd (save_contact_conn P c d))"
  by (simp add: holds_contact_def save_contact_conn_def contact_tbl.get_replace)

lemma save_contact_conn_frame:
  "save_contact_conn P c d = (Inr (), d\<lparr>contacts := contacts (snd (save_contact_conn P c d))\<rparr>)"
  by (simp add: save_contact_conn_def)

lemma get_contact_other:
  assumes "name \<noteq> c_name c" "get_contact P name s = (Inr (Some c'), s)"
    "tbl_get cr_name name (contacts (db s)) \<noteq> None"
  shows "get_contact P name (snd (save_contact P c s)) = (Inr (Some c'), snd (save_contact P c s))"
  using assms
  by (auto simp: get_contact_def save_contact_eq contact_tbl.other_keys_untouched)

section \<open>All or nothing\<close>

lemma fault_simps [simp]:
  "fault n None msg d = (Inr (), d)"
  "fault n (Some m) msg d = (if m = n then (Inl (OperationalError msg), d) else (Inr (), d))"
  by (simp_all add: fault_def)

lemma atomic_commit_send_result:
  "atomic_commit_send P now c msg_id n body outer s =
     (if test_fault s = Some ''outbound_pending''
      then (Inl (OperationalError ''injected outbound fault''), s)
      else (Inr (), s\<lparr>db := record_sent (c_name c) n body now (record_outbound (c_name c) msg_id n body now
               (Some (b64encode (ob_ciphertext outer), b64encode (ob_tag outer), ob_expires_at outer))
               (snd (save_contact_conn P c (db s)))),
             contact_files := dict_put (c_name c) (contact_to_dict P c) (contact_files s)\<rparr>))"
  by (cases "test_fault s")
    (simp_all add: atomic_commit_send_def transaction_def m_bind_def save_contact_conn_def
      sync_contact_json_def)

definition receive_row :: "prims \<Rightarrow> bytes \<Rightarrow> identity \<Rightarrow> int \<Rightarrow> str \<Rightarrow> inner_message \<Rightarrow> inbound_row" where
  "receive_row P nonce i now contact_name inner = \<lparr>ib_contact = contact_name, ib_seq = seq inner,
     ib_valid_until = valid_until inner, ib_received_at = now,
     ib_ciphertext = wrap_local_ciphertext P nonce i (inner_to_bytes inner)\<rparr>"

lemma atomic_commit_receive_result:
  "atomic_commit_receive_text P nonce i now c inner delivered route s =
     (if test_fault s = Some ''inbound_message''
      then (Inl (OperationalError ''injected inbound fault''), s)
      else if test_fault s = Some ''pending_receipt'' \<and> delivered \<noteq> None
      then (Inl (OperationalError ''injected pending receipt fault''), s)
      else (Inr (), s\<lparr>db := (db s)\<lparr>contacts := contacts (snd (save_contact_conn P c (db s))),
               inbound := tbl_ignore inbound_key (receive_row P nonce i now (c_name c) inner) (inbound (db s)),
               receipts := (case delivered of None \<Rightarrow> receipts (db s)
                 | Some did \<Rightarrow> tbl_replace receipt_key \<lparr>rr_contact = c_name c, rr_delivered_id = did,
                     rr_route = route, rr_created_at = now\<rparr> (receipts (db s)))\<rparr>,
             contact_files := dict_put (c_name c) (contact_to_dict P c) (contact_files s)\<rparr>))"
  by (cases "test_fault s"; cases delivered)
    (auto simp: atomic_commit_receive_text_def Let_def transaction_def m_bind_def save_contact_conn_def
      sync_contact_json_def receive_row_def)

text \<open>The database after a commit, as the relation between what it held and what it holds.\<close>

definition send_committed ::
    "prims \<Rightarrow> int \<Rightarrow> contact \<Rightarrow> str \<Rightarrow> int \<Rightarrow> str \<Rightarrow> outer_blob \<Rightarrow> database \<Rightarrow> bool" where
  "send_committed P now c msg_id n body outer d \<longleftrightarrow> holds_contact P c d \<and>
     tbl_get outbound_key (c_name c, msg_id) (outbound d) = Some \<lparr>ot_contact = c_name c,
       ot_msg_id = msg_id, ot_seq = n, ot_body = body, ot_created_at = now,
       ot_valid_until = message_valid_until now,
       ot_outer = Some (b64encode (ob_ciphertext outer), b64encode (ob_tag outer), ob_expires_at outer)\<rparr> \<and>
     tbl_get sent_key (c_name c, n) (sent_messages d) \<noteq> None"

lemma atomic_commit_send_spec:
  assumes "atomic_commit_send P now c msg_id n body outer s = (res, s')"
  shows "case res of Inl e \<Rightarrow> s' = s
    | Inr _ \<Rightarrow> send_committed P now c msg_id n body outer (db s') \<and>
        inbound (db s') = inbound (db s) \<and> receipts (db s') = receipts (db s)"
proof -
  have k: "outbound_key \<lparr>ot_contact = x, ot_msg_id = y, ot_seq = n, ot_body = b, ot_created_at = t,
      ot_valid_until = v, ot_outer = w\<rparr> = (x, y)" for x y b t v w n
    by (simp add: outbound_key_def)
  have sk: "tbl_get sent_key (sent_key r) (tbl_ignore sent_key r t) \<noteq> None" for r t
    using keyed_table.get_insert [OF keyed_table_tbl [of sent_key], of "sent_key r" r t] by auto
  show ?thesis
    using assms sk [of "\<lparr>sr_contact = c_name c, sr_seq = n, sr_body = body, sr_created_at = now,
      sr_valid_until = message_valid_until now\<rparr>" "sent_messages (db s)"]
    by (auto simp: atomic_commit_send_result send_committed_def record_sent_def record_outbound_def
        holds_contact_def save_contact_conn_def contact_tbl.get_replace outbound_tbl.get_replace k
        sent_key_def split: if_splits)
qed

lemma atomic_commit_receive_spec:
  assumes "atomic_commit_receive_text P nonce i now c inner delivered route s = (res, s')"
  shows "case res of Inl e \<Rightarrow> s' = s
    | Inr _ \<Rightarrow> holds_contact P c (db s') \<and>
        tbl_get inbound_key (c_name c, seq inner) (inbound (db s')) =
          (case tbl_get inbound_key (c_name c, seq inner) (inbound (db s)) of
             None \<Rightarrow> Some (receive_row P nonce i now (c_name c) inner) | Some old \<Rightarrow> Some old) \<and>
        (\<forall>did. delivered = Some did \<longrightarrow> tbl_get receipt_key (c_name c, did) (receipts (db s')) =
           Some \<lparr>rr_contact = c_name c, rr_delivered_id = did, rr_route = route, rr_created_at = now\<rparr>) \<and>
        outbound (db s') = outbound (db s)"
proof -
  have k: "inbound_key (receive_row P nonce i now (c_name c) inner) = (c_name c, seq inner)"
    by (simp add: inbound_key_def receive_row_def)
  have rk: "receipt_key \<lparr>rr_contact = x, rr_delivered_id = y, rr_route = z, rr_created_at = t\<rparr> = (x, y)" for x y z t
    by (simp add: receipt_key_def)
  show ?thesis
    using assms
    by (auto simp: atomic_commit_receive_result holds_contact_def save_contact_conn_def
        contact_tbl.get_replace inbound_tbl.get_insert receipt_tbl.get_replace k rk
        split: if_splits option.splits)
qed

text \<open>Primary keys stay unique.\<close>

definition db_ok :: "database \<Rightarrow> bool" where
  "db_ok d \<longleftrightarrow> tbl_unique cr_name (contacts d) \<and> tbl_unique inbound_key (inbound d) \<and>
     tbl_unique outbound_key (outbound d) \<and> tbl_unique receipt_key (receipts d) \<and>
     tbl_unique ack_key (acks d) \<and> tbl_unique grant_key (grants d) \<and>
     tbl_unique sent_key (sent_messages d) \<and> tbl_unique pw_operator (presences d)"

lemmas table_ok = contact_tbl.ok_replace inbound_tbl.ok_insert outbound_tbl.ok_replace
  receipt_tbl.ok_replace ack_tbl.ok_replace grant_tbl.ok_replace tbl_unique_delete
  keyed_table.ok_insert [OF keyed_table_tbl] keyed_table.ok_replace [OF keyed_table_tbl]

lemma store_steps_ok:
  assumes "db_ok (db s)"
  shows "db_ok (db (snd (save_contact P c s)))"
    "db_ok (db (snd (atomic_commit_send P now c msg_id n body outer s)))"
    "db_ok (db (snd (atomic_commit_receive_text P nonce i now c inner delivered route s)))"
    "db_ok (db (snd (save_inbound_message P nonce i now name inner s)))"
    "db_ok (db (snd (save_outbound_pending now name msg_id n body s)))"
    "db_ok (db (snd (sweep_expired_messages now s)))"
    "db_ok (db (snd (sweep_expired_outbound now s)))"
    "db_ok (db (snd (mark_outbound_delivered name msg_id s)))"
    "db_ok (db (snd (save_pending_receipt now name did r s)))"
    "db_ok (db (snd (delete_pending_receipt name did s)))"
    "db_ok (db (snd (save_presence now p name s)))"
    "db_ok (db (snd (save_profile_ack_pending name msg_id v names s)))"
    "db_ok (db (snd (save_capability_grant P name g k salt tls s)))"
  using assms
  by (auto simp: db_ok_def table_ok save_contact_eq atomic_commit_send_result atomic_commit_receive_result
      save_contact_conn_def record_sent_def record_outbound_def save_inbound_message_def
      save_outbound_pending_def sweep_expired_messages_def sweep_expired_outbound_def
      mark_outbound_delivered_def save_pending_receipt_def delete_pending_receipt_def
      save_presence_def save_profile_ack_pending_def save_capability_grant_def transaction_def m_bind_def
      Let_def split: option.splits)

text \<open>An outbound message can be reloaded until it is marked as delivered.\<close>

lemma load_outbound_committed:
  assumes "send_committed P now c msg_id n body outer (db s)" "ob_ciphertext outer \<noteq> []" "ob_tag outer \<noteq> []"
  shows "load_outbound_outer (c_name c) msg_id s = Inr (Some (outer\<lparr>ob_version := 1\<rparr>))"
  using assms by (simp add: send_committed_def load_outbound_outer_def)

lemma mark_outbound_delivered_spec:
  assumes "mark_outbound_delivered name msg_id s = (res, s')"
  shows "res = Inr (tbl_get outbound_key (name, msg_id) (outbound (db s)) \<noteq> None)"
    "tbl_get outbound_key k (outbound (db s')) =
       (if k = (name, msg_id) then None else tbl_get outbound_key k (outbound (db s)))"
proof -
  have count: "tbl_count (\<lambda>r. outbound_key r = (name, msg_id)) t > 0 \<longleftrightarrow>
      tbl_get outbound_key (name, msg_id) t \<noteq> None" for t
    by (induction t) (auto simp: tbl_count_def)
  show "res = Inr (tbl_get outbound_key (name, msg_id) (outbound (db s)) \<noteq> None)"
    using assms count by (auto simp: mark_outbound_delivered_def transaction_def m_bind_def Let_def)
  have s': "outbound (db s') = tbl_delete (\<lambda>r. outbound_key r = (name, msg_id)) (outbound (db s))"
    using assms by (auto simp: mark_outbound_delivered_def transaction_def m_bind_def Let_def)
  then show "tbl_get outbound_key k (outbound (db s')) =
       (if k = (name, msg_id) then None else tbl_get outbound_key k (outbound (db s)))"
    using outbound_tbl.get_delete [of k "(name, msg_id)" "outbound (db s)"] by simp
qed

end
