(* ===== verification/Effects.thy ===== *)
theory Effects
  imports Prelude
begin

text \<open>
  Larger methods from smaller ones: loops, \<open>try\<close>, methods of a component run on the object that
  holds it, and the rules by which an invariant of the object is kept through all of them.
\<close>

section \<open>Combinators\<close>

definition m_read :: "('s \<Rightarrow> 'a res) \<Rightarrow> ('s, 'a) meth" where
  "m_read f s = (f s, s)"

text \<open>The \<open>except\<close> clauses of the clients name these classes.\<close>

fun is_os_error :: "exn \<Rightarrow> bool" where
  "is_os_error (OSError _) = True"
| "is_os_error _ = False"

fun is_key_error :: "exn \<Rightarrow> bool" where
  "is_key_error (KeyError _) = True"
| "is_key_error _ = False"

fun is_http_error :: "exn \<Rightarrow> bool" where
  "is_http_error (HttpError _) = True"
| "is_http_error _ = False"

fun is_runtime_error :: "exn \<Rightarrow> bool" where
  "is_runtime_error (RuntimeError _) = True"
| "is_runtime_error _ = False"

text \<open>\<open>try: m except E: handler\<close>, where \<open>E\<close> is the set of exceptions the clause names.\<close>

definition m_catch :: "('s, 'a) meth \<Rightarrow> (exn \<Rightarrow> bool) \<Rightarrow> (exn \<Rightarrow> ('s, 'a) meth) \<Rightarrow> ('s, 'a) meth" where
  "m_catch m caught handler s = (case m s of
     (Inl e, s') \<Rightarrow> if caught e then handler e s' else (Inl e, s') | (Inr x, s') \<Rightarrow> (Inr x, s'))"

fun m_fold :: "('a \<Rightarrow> 'b \<Rightarrow> ('s, 'b) meth) \<Rightarrow> 'a list \<Rightarrow> 'b \<Rightarrow> ('s, 'b) meth" where
  "m_fold f [] b = m_return b"
| "m_fold f (x # xs) b = m_bind (f x b) (\<lambda>b'. m_fold f xs b')"

fun fold_res :: "('a \<Rightarrow> 'b \<Rightarrow> 'b res) \<Rightarrow> 'a list \<Rightarrow> 'b \<Rightarrow> 'b res" where
  "fold_res f [] b = Inr b"
| "fold_res f (x # xs) b = and_then (f x b) (fold_res f xs)"

text \<open>The first element that a fallible search accepts.\<close>

fun find_res :: "('a \<Rightarrow> 'b option res) \<Rightarrow> 'a list \<Rightarrow> 'b option res" where
  "find_res f [] = Inr None"
| "find_res f (x # xs) = and_then (f x) (\<lambda>y. case y of None \<Rightarrow> find_res f xs | Some z \<Rightarrow> Inr (Some z))"

text \<open>A method of the part that \<open>get\<close> reads and \<open>put\<close> writes back.\<close>

definition m_zoom :: "('s \<Rightarrow> 't) \<Rightarrow> ('t \<Rightarrow> 's \<Rightarrow> 's) \<Rightarrow> ('t, 'a) meth \<Rightarrow> ('s, 'a) meth" where
  "m_zoom get put m s = (case m (get s) of (x, t) \<Rightarrow> (x, put t s))"

lemma m_read_simps [simp]: "m_read f s = (f s, s)"
  by (simp add: m_read_def)

lemma m_bind_read [simp]: "m_bind (m_read f) g s = (case f s of Inl e \<Rightarrow> (Inl e, s) | Inr x \<Rightarrow> g x s)"
  by (simp add: m_bind_def)

lemma m_bind_assoc: "m_bind (m_bind m f) g = m_bind m (\<lambda>x. m_bind (f x) g)"
  by (rule ext) (simp add: m_bind_def split: prod.splits sum.splits)

lemma m_bind_eq: "m s = (Inr x, s') \<Longrightarrow> m_bind m f s = f x s'"
  by (simp add: m_bind_def)

lemma m_bind_Inl_eq: "m s = (Inl e, s') \<Longrightarrow> m_bind m f s = (Inl e, s')"
  by (simp add: m_bind_def)

lemma m_catch_Inr: "m s = (Inr x, s') \<Longrightarrow> m_catch m caught h s = (Inr x, s')"
  by (simp add: m_catch_def)

lemma m_catch_Inl: "m s = (Inl e, s') \<Longrightarrow> m_catch m caught h s = (if caught e then h e s' else (Inl e, s'))"
  by (simp add: m_catch_def)

section \<open>Invariants of methods\<close>

text \<open>\<open>preserves I m\<close>: the invariant \<open>I\<close> holds after \<open>m\<close>, whether it returns or raises.\<close>

definition preserves :: "('s \<Rightarrow> bool) \<Rightarrow> ('s, 'a) meth \<Rightarrow> bool" where
  "preserves I m \<longleftrightarrow> (\<forall>s. I s \<longrightarrow> I (snd (m s)))"

named_theorems preserves_rules \<open>introduction rules for methods that keep an invariant\<close>

lemma preservesD: "preserves I m \<Longrightarrow> m s = (x, s') \<Longrightarrow> I s \<Longrightarrow> I s'"
  by (metis preserves_def snd_conv)

lemma preservesI: "(\<And>s x s'. m s = (x, s') \<Longrightarrow> I s \<Longrightarrow> I s') \<Longrightarrow> preserves I m"
  by (metis preserves_def prod.collapse)

lemma keeps_preserves: "keeps f m \<Longrightarrow> (\<And>s t. f s = f t \<Longrightarrow> I s = I t) \<Longrightarrow> preserves I m"
  by (metis keeps_def preserves_def)

lemma preserves_basic [preserves_rules, simp]:
  "preserves I (m_return x)" "preserves I (m_raise e)" "preserves I (m_of y)" "preserves I (m_read g)"
  by (simp_all add: preserves_def)

lemma preserves_bind [preserves_rules]:
  "preserves I m \<Longrightarrow> (\<And>x. preserves I (g x)) \<Longrightarrow> preserves I (m_bind m g)"
  by (auto simp: preserves_def m_bind_def split: prod.splits sum.splits)

lemma preserves_get [preserves_rules]: "(\<And>s. preserves I (g s)) \<Longrightarrow> preserves I (m_get g)"
  by (simp add: preserves_def)

lemma preserves_modify [preserves_rules]: "(\<And>s. I s \<Longrightarrow> I (h s)) \<Longrightarrow> preserves I (m_modify h)"
  by (simp add: preserves_def)

lemma preserves_catch [preserves_rules]:
  "preserves I m \<Longrightarrow> (\<And>e. preserves I (h e)) \<Longrightarrow> preserves I (m_catch m caught h)"
  by (auto simp: preserves_def m_catch_def split: prod.splits sum.splits)

lemma preserves_fold [preserves_rules]:
  "(\<And>x b. preserves I (f x b)) \<Longrightarrow> preserves I (m_fold f xs b)"
  by (induction xs arbitrary: b) (auto intro: preserves_bind)

lemma preserves_zoom [preserves_rules]:
  "(\<And>s t x. I s \<Longrightarrow> m (get s) = (x, t) \<Longrightarrow> I (put t s)) \<Longrightarrow> preserves I (m_zoom get put m)"
  by (auto simp: preserves_def m_zoom_def split: prod.splits)

lemma preserves_if [preserves_rules]:
  "(b \<Longrightarrow> preserves I m) \<Longrightarrow> (\<not> b \<Longrightarrow> preserves I m') \<Longrightarrow> preserves I (if b then m else m')"
  by simp

lemma preserves_option [preserves_rules]:
  "preserves I m \<Longrightarrow> (\<And>x. preserves I (g x)) \<Longrightarrow> preserves I (case y of None \<Rightarrow> m | Some x \<Rightarrow> g x)"
  by (cases y) simp_all

lemma preserves_sum [preserves_rules]:
  "(\<And>x. preserves I (g x)) \<Longrightarrow> (\<And>x. preserves I (h x)) \<Longrightarrow> preserves I (case y of Inl x \<Rightarrow> g x | Inr x \<Rightarrow> h x)"
  by (cases y) simp_all

lemma preserves_prod [preserves_rules]:
  "(\<And>a b. preserves I (g a b)) \<Longrightarrow> preserves I (case y of (a, b) \<Rightarrow> g a b)"
  by (cases y) simp

lemma preserves_prod_app [preserves_rules]:
  "(\<And>a b. preserves I (g a b x)) \<Longrightarrow> preserves I ((case y of (a, b) \<Rightarrow> g a b) x)"
  by (cases y) simp

lemma preserves_list [preserves_rules]:
  "preserves I m \<Longrightarrow> (\<And>x xs. preserves I (g x xs)) \<Longrightarrow> preserves I (case y of [] \<Rightarrow> m | x # xs \<Rightarrow> g x xs)"
  by (cases y) simp_all

lemma preserves_let [preserves_rules]: "(\<And>x. preserves I (f x)) \<Longrightarrow> preserves I (let x = y in f x)"
  by simp

lemma keeps_read [keeps_rules, simp]: "keeps f (m_read g)"
  by (simp add: keeps_def)

lemma keeps_catch [keeps_rules]:
  "keeps f m \<Longrightarrow> (\<And>e. keeps f (h e)) \<Longrightarrow> keeps f (m_catch m caught h)"
  by (auto simp: keeps_def m_catch_def split: prod.splits sum.splits) (metis snd_conv)+

lemma keeps_fold [keeps_rules]: "(\<And>x b. keeps f (g x b)) \<Longrightarrow> keeps f (m_fold g xs b)"
  by (induction xs arbitrary: b) (auto intro: keeps_bind)

lemma keeps_zoom [keeps_rules]: "(\<And>s t. f (put t s) = f s) \<Longrightarrow> keeps f (m_zoom get put m)"
  by (auto simp: keeps_def m_zoom_def split: prod.splits)

lemma keeps_prod_app [keeps_rules]:
  "(\<And>a b. keeps f (g a b x)) \<Longrightarrow> keeps f ((case y of (a, b) \<Rightarrow> g a b) x)"
  by (cases y) simp

lemma keeps_zoom_part:
  "keeps g m \<Longrightarrow> (\<And>s t. g t = g (get s) \<Longrightarrow> f (put t s) = f s) \<Longrightarrow> keeps f (m_zoom get put m)"
  by (auto simp: keeps_def m_zoom_def split: prod.splits) (metis snd_conv)

end
