(* ===== verification/Http.thy ===== *)
theory Http
  imports Store Effects
begin

text \<open>
  The HTTP layer of the clients (\<open>http_client.py\<close>): URL normalisation, the TLS pins that signed
  profiles give, and the request every client operation goes through. What a server answers is
  the parameter \<open>H\<close>: a function from the request, and the state of the world outside the client,
  to the response or the exception of \<open>httpx\<close>. Every modelled caller passes its store, so the
  branches for a missing store are left out.
\<close>

section \<open>The client\<close>

datatype tls_check = SystemTrust | NoCheck | PinnedTo bytes

record http_call =
  hc_method :: str
  hc_url :: str
  hc_check :: tls_check
  hc_headers :: "(str \<times> str) list"
  hc_body :: bytes

record http_reply =
  hs_status :: int
  hs_text :: str

text \<open>
  A running client: its store, the contact object the operation at hand holds, the process
  environment, the text of \<open>relays.json\<close> if there is one, the cache of capability probes, the random bytes still to come and how many
  are used up, and the world outside. The clock is read once an operation, as \<open>now\<close>.
\<close>

record 'n client =
  cl_store :: store
  cl_contact :: contact
  cl_env :: "(str \<times> str) list"
  cl_relays :: "str option"
  cl_probes :: "(str \<times> int \<times> bytes option) list"
  cl_tape :: "nat \<Rightarrow> byte"
  cl_drawn :: nat
  cl_net :: 'n

type_synonym 'n http = "http_call \<Rightarrow> ('n, http_reply) meth"

definition on_store :: "(store, 'a) meth \<Rightarrow> ('n client, 'a) meth" where
  "on_store = m_zoom cl_store (\<lambda>t s. s\<lparr>cl_store := t\<rparr>)"

definition on_contact :: "(contact, 'a) meth \<Rightarrow> ('n client, 'a) meth" where
  "on_contact = m_zoom cl_contact (\<lambda>t s. s\<lparr>cl_contact := t\<rparr>)"

definition on_net :: "('n, 'a) meth \<Rightarrow> ('n client, 'a) meth" where
  "on_net = m_zoom cl_net (\<lambda>t s. s\<lparr>cl_net := t\<rparr>)"

text \<open>\<open>os.urandom(n)\<close> and its wrappers.\<close>

definition draw :: "nat \<Rightarrow> ('n client, bytes) meth" where
  "draw n s = (Inr (map (cl_tape s) [cl_drawn s..<cl_drawn s + n]), s\<lparr>cl_drawn := cl_drawn s + n\<rparr>)"

text \<open>\<open>response.json()\<close>.\<close>

definition reply_json :: "http_reply \<Rightarrow> json res" where
  "reply_json r = json_loads (hs_text r)"

section \<open>The environment\<close>

definition getenv :: "(str \<times> str) list \<Rightarrow> str \<Rightarrow> str \<Rightarrow> str" where
  "getenv env name dflt = (case map_of env name of Some v \<Rightarrow> v | None \<Rightarrow> dflt)"

definition lower_char :: "char \<Rightarrow> char" where
  "lower_char c = (let n = of_char c :: nat in
     if (65 \<le> n \<and> n \<le> 90) \<or> (192 \<le> n \<and> n \<le> 222 \<and> n \<noteq> 215) then char_of (n + 32) else c)"

definition env_flag :: "(str \<times> str) list \<Rightarrow> str \<Rightarrow> bool" where
  "env_flag env name \<longleftrightarrow> map lower_char (getenv env name []) \<in> {''1'', ''true'', ''yes''}"

definition tls_required :: "(str \<times> str) list \<Rightarrow> bool" where
  "tls_required env \<longleftrightarrow> map lower_char (getenv env ''YAKR_REQUIRE_TLS'' ''1'') \<notin> {''0'', ''false'', ''no''}"

section \<open>\<open>urlparse\<close> and \<open>endpoint_base_url\<close>\<close>

text \<open>
  The parts of \<open>urllib.parse\<close> that the code uses: scheme, host name and port. A bracketed host
  is not checked to be an IPv6 address.
\<close>

definition is_alpha :: "char \<Rightarrow> bool" where
  "is_alpha c \<longleftrightarrow> (let n = of_char c :: nat in (65 \<le> n \<and> n \<le> 90) \<or> (97 \<le> n \<and> n \<le> 122))"

definition scheme_char :: "char \<Rightarrow> bool" where
  "scheme_char c \<longleftrightarrow> is_alpha c \<or> is_digit c \<or> c \<in> {CHR ''+'', CHR ''-'', CHR ''.''}"

definition clean_url :: "str \<Rightarrow> str" where
  "clean_url url = filter (\<lambda>c. (of_char c :: nat) \<notin> {9, 10, 13})
     (dropWhile (\<lambda>c. (of_char c :: nat) \<le> 32) url)"

definition split_scheme :: "str \<Rightarrow> str \<times> str" where
  "split_scheme url = (let w = takeWhile (\<lambda>c. c \<noteq> CHR '':'') url in
     if length w < length url \<and> w \<noteq> [] \<and> is_alpha (hd w) \<and> list_all scheme_char w
     then (map lower_char w, drop (length w + 1) url) else ([], url))"

definition url_netloc :: "str \<Rightarrow> str" where
  "url_netloc rest = (if starts_with ''//'' rest
     then takeWhile (\<lambda>c. c \<notin> {CHR ''/'', CHR ''?'', CHR ''#''}) (drop 2 rest) else [])"

definition after_char :: "char \<Rightarrow> str \<Rightarrow> str" where
  "after_char c s = drop 1 (dropWhile (\<lambda>d. d \<noteq> c) s)"

definition host_and_port :: "str \<Rightarrow> str \<times> str" where
  "host_and_port netloc =
     (let info = rev (takeWhile (\<lambda>c. c \<noteq> CHR ''@'') (rev netloc)) in
      if CHR ''['' \<in> set info
      then let b = after_char (CHR ''['') info in
        (takeWhile (\<lambda>c. c \<noteq> CHR '']'') b, after_char (CHR '':'') (after_char (CHR '']'') b))
      else (takeWhile (\<lambda>c. c \<noteq> CHR '':'') info, after_char (CHR '':'') info))"

definition host_name :: "str \<Rightarrow> str" where
  "host_name h = map lower_char (takeWhile (\<lambda>c. c \<noteq> CHR ''%'') h) @ dropWhile (\<lambda>c. c \<noteq> CHR ''%'') h"

definition port_number :: "str \<Rightarrow> nat option res" where
  "port_number p =
     (if p = [] then Inr None
      else if \<not> list_all is_digit p then Inl (ValueError ''Port could not be cast to integer value'')
      else if nat_of_str p > 65535 then Inl (ValueError ''Port out of range 0-65535'')
      else Inr (Some (nat_of_str p)))"

definition endpoint_base_url :: "str \<Rightarrow> str res" where
  "endpoint_base_url url =
     (let (scheme, rest) = split_scheme (clean_url (rstrip_slash url));
          netloc = url_netloc rest;
          (h, p) = host_and_port netloc;
          host = (if CHR '':'' \<in> set h \<and> \<not> starts_with ''['' h then ''['' @ host_name h @ '']'' else host_name h) in
      if (CHR ''['' \<in> set netloc) \<noteq> (CHR '']'' \<in> set netloc) then Inl (ValueError ''Invalid IPv6 URL'')
      else if scheme = [] \<or> h = [] then Inr (rstrip_slash url)
      else and_then (port_number p) (\<lambda>port. Inr (case port of
        Some n \<Rightarrow> scheme @ ''://'' @ host @ '':'' @ str_of_nat n
      | None \<Rightarrow> scheme @ ''://'' @ host)))"

section \<open>Pins from signed profiles\<close>

text \<open>\<open>for name in store.list_contacts(): contact = store.get_contact(name)\<close>.\<close>

definition each_contact :: "prims \<Rightarrow> (str \<Rightarrow> contact \<Rightarrow> 'b \<Rightarrow> 'b res) \<Rightarrow> 'b \<Rightarrow> (store, 'b) meth" where
  "each_contact P f b = m_get (\<lambda>s. m_fold (\<lambda>name b. m_bind (get_contact P name) (\<lambda>c.
     case c of None \<Rightarrow> m_return b | Some c \<Rightarrow> m_of (f name c b))) (list_contacts s) b)"

definition pin_from_profile :: "delivery_profile \<Rightarrow> str \<Rightarrow> bytes option res" where
  "pin_from_profile profile normalized = find_res (\<lambda>d.
     and_then (endpoint_base_url (rd_url d)) (\<lambda>u.
     Inr (if u = normalized \<and> rd_tls_spki d \<noteq> [] then Some (rd_tls_spki d) else None))) (dp_relays profile)"

definition add_relay_pins :: "delivery_profile \<Rightarrow> (str \<times> bytes) list \<Rightarrow> (str \<times> bytes) list res" where
  "add_relay_pins profile = fold_res (\<lambda>d pins.
     if rd_tls_spki d = [] then Inr pins
     else and_then (endpoint_base_url (rd_url d)) (\<lambda>u. Inr (dict_put u (rd_tls_spki d) pins)))
     (dp_relays profile)"

definition relay_tls_pins_from_store :: "prims \<Rightarrow> (store, (str \<times> bytes) list) meth" where
  "relay_tls_pins_from_store P = m_bind (m_read (load_local_profile P)) (\<lambda>local.
     m_bind (m_of (case local of None \<Rightarrow> Inr [] | Some p \<Rightarrow> add_relay_pins p [])) (\<lambda>pins.
     each_contact P (\<lambda>name c pins. case c_profile c of None \<Rightarrow> Inr pins | Some p \<Rightarrow> add_relay_pins p pins) pins))"

definition operator_tls_pins :: "prims \<Rightarrow> (store, (str \<times> bytes) list) meth" where
  "operator_tls_pins P = m_bind load_identity (\<lambda>identity.
     m_bind (case identity of None \<Rightarrow> m_return []
       | Some i \<Rightarrow> m_bind (m_read (load_local_profile P)) (\<lambda>local. m_return (case local of
           None \<Rightarrow> []
         | Some p \<Rightarrow> if dp_endpoint_tls p = [] then [] else [(id_name i, dp_endpoint_tls p)]))) (\<lambda>pins.
     each_contact P (\<lambda>name c pins. case c_profile c of None \<Rightarrow> Inr pins
       | Some p \<Rightarrow> Inr (if dp_endpoint_tls p = [] then pins else dict_put name (dp_endpoint_tls p) pins)) pins))"

definition add_descriptor_urls :: "relay_descriptor list \<Rightarrow> (str \<times> str) list \<Rightarrow> (str \<times> str) list res" where
  "add_descriptor_urls = fold_res (\<lambda>d m.
     and_then (endpoint_base_url (rd_url d)) (\<lambda>u. Inr (dict_put u (rd_name d) m)))"

definition add_hint_urls :: "str \<Rightarrow> str list \<Rightarrow> (str \<times> str) list \<Rightarrow> (str \<times> str) list res" where
  "add_hint_urls name = fold_res (\<lambda>hint m. and_then (endpoint_base_url hint) (\<lambda>u. Inr (dict_put u name m)))"

definition url_operator_map :: "prims \<Rightarrow> (store, (str \<times> str) list) meth" where
  "url_operator_map P = m_bind (m_read (load_local_profile P)) (\<lambda>local.
     m_bind (case local of None \<Rightarrow> m_return []
       | Some p \<Rightarrow> m_bind (m_of (add_descriptor_urls (dp_relays p) [])) (\<lambda>m.
           if dp_direct_hints p = [] then m_return m
           else m_bind load_identity (\<lambda>identity. case identity of None \<Rightarrow> m_return m
             | Some i \<Rightarrow> m_of (add_hint_urls (id_name i) (dp_direct_hints p) m)))) (\<lambda>m.
     each_contact P (\<lambda>name c m. case c_profile c of None \<Rightarrow> Inr m
       | Some p \<Rightarrow> and_then (add_descriptor_urls (dp_relays p) m) (add_hint_urls (c_name c) (dp_direct_hints p))) m))"

text \<open>The pin that the contact's own profile gives through the operators: the last lookups of \<open>resolve_tls_pin_for_url\<close>.\<close>

definition contact_operator_pin ::
    "(str \<times> bytes) list \<Rightarrow> contact \<Rightarrow> str \<Rightarrow> bytes option res" where
  "contact_operator_pin operators c normalized = (case c_profile c of None \<Rightarrow> Inr None
   | Some p \<Rightarrow>
       and_then (find_res (\<lambda>d. and_then (endpoint_base_url (rd_url d)) (\<lambda>u. Inr (
         if u \<noteq> normalized then None
         else case map_of operators (rd_name d) of Some pin \<Rightarrow> Some pin
         | None \<Rightarrow> if rd_name d = c_name c \<and> dp_endpoint_tls p \<noteq> [] then Some (dp_endpoint_tls p) else None)))
         (dp_relays p)) (\<lambda>pin. case pin of Some x \<Rightarrow> Inr (Some x)
       | None \<Rightarrow> find_res (\<lambda>hint. and_then (endpoint_base_url hint) (\<lambda>u. Inr (
           if u = normalized \<and> dp_endpoint_tls p \<noteq> [] then Some (dp_endpoint_tls p) else None)))
           (dp_direct_hints p)))"

definition resolve_tls_pin_for_url ::
    "prims \<Rightarrow> str \<Rightarrow> contact option \<Rightarrow> bytes option \<Rightarrow> (str \<times> bytes) list \<Rightarrow> (store, bytes option) meth" where
  "resolve_tls_pin_for_url P url contact explicit_pin extra_pins_by_url =
     (case explicit_pin of Some pin \<Rightarrow> m_return (Some pin) | None \<Rightarrow>
      m_bind (m_of (endpoint_base_url url)) (\<lambda>normalized.
      m_bind (m_of (find_res (\<lambda>(candidate, pin). and_then (endpoint_base_url candidate) (\<lambda>u.
        Inr (if u = normalized then Some pin else None))) extra_pins_by_url)) (\<lambda>extra.
      case extra of Some pin \<Rightarrow> m_return (Some pin) | None \<Rightarrow>
      m_bind (m_of (case contact of None \<Rightarrow> Inr None
        | Some c \<Rightarrow> (case c_profile c of None \<Rightarrow> Inr None | Some p \<Rightarrow> pin_from_profile p normalized))) (\<lambda>own.
      case own of Some pin \<Rightarrow> m_return (Some pin) | None \<Rightarrow>
      m_bind (relay_tls_pins_from_store P) (\<lambda>pins.
      case map_of pins normalized of Some pin \<Rightarrow> m_return (Some pin) | None \<Rightarrow>
      m_bind (operator_tls_pins P) (\<lambda>operators.
      m_bind (m_of (case contact of None \<Rightarrow> Inr None | Some c \<Rightarrow> contact_operator_pin operators c normalized)) (\<lambda>pin.
      case pin of Some x \<Rightarrow> m_return (Some x) | None \<Rightarrow>
      m_bind (url_operator_map P) (\<lambda>url_ops.
      m_return (case map_of url_ops normalized of None \<Rightarrow> None | Some op \<Rightarrow> map_of operators op)))))))))"

section \<open>Requests\<close>

definition pinning_ssl_context :: "bytes \<Rightarrow> tls_check res" where
  "pinning_ssl_context pin = (if length pin \<noteq> 32 then Inl (ValueError ''expected SPKI pin must be 32 bytes'')
     else Inr (PinnedTo pin))"

definition verify_param_for_url ::
    "prims \<Rightarrow> (str \<times> str) list \<Rightarrow> str \<Rightarrow> contact option \<Rightarrow> bytes option \<Rightarrow> (str \<times> bytes) list \<Rightarrow>
     (store, tls_check) meth" where
  "verify_param_for_url P env url contact explicit_pin extra_pins_by_url =
     (let normalized = rstrip_slash url in
      if starts_with ''http://'' normalized
      then (if tls_required env then m_raise (ValueError ''plain HTTP disabled (YAKR_REQUIRE_TLS)'')
            else m_return SystemTrust)
      else if \<not> starts_with ''https://'' normalized then m_return SystemTrust
      else m_bind (resolve_tls_pin_for_url P normalized contact explicit_pin extra_pins_by_url) (\<lambda>pin.
        case pin of
          None \<Rightarrow> if env_flag env ''YAKR_TLS_INSECURE'' then m_return NoCheck
                  else m_raise (ValueError (''no TLS SPKI pin for '' @ url))
        | Some p \<Rightarrow> m_of (pinning_ssl_context p)))"

definition yakr_request ::
    "prims \<Rightarrow> 'n http \<Rightarrow> str \<Rightarrow> str \<Rightarrow> contact option \<Rightarrow> bytes option \<Rightarrow> (str \<times> bytes) list \<Rightarrow>
     (str \<times> str) list \<Rightarrow> bytes \<Rightarrow> ('n client, http_reply) meth" where
  "yakr_request P H verb url contact explicit_pin extra_pins_by_url headers body = m_get (\<lambda>s.
     m_bind (m_of (if tls_required (cl_env s) \<and> starts_with ''http://'' url
                   then require_https_url url else Inr url)) (\<lambda>url.
     m_bind (on_store (verify_param_for_url P (cl_env s) url contact explicit_pin extra_pins_by_url)) (\<lambda>check.
     on_net (H \<lparr>hc_method = verb, hc_url = url, hc_check = check, hc_headers = headers, hc_body = body\<rparr>))))"

text \<open>\<open>contact=contact\<close> passes the contact object at hand.\<close>

definition yakr_get :: "prims \<Rightarrow> 'n http \<Rightarrow> str \<Rightarrow> contact option \<Rightarrow> ('n client, http_reply) meth" where
  "yakr_get P H url contact = yakr_request P H ''GET'' url contact None [] [] []"

definition yakr_post ::
    "prims \<Rightarrow> 'n http \<Rightarrow> str \<Rightarrow> contact option \<Rightarrow> (str \<times> str) list \<Rightarrow> bytes \<Rightarrow> ('n client, http_reply) meth" where
  "yakr_post P H url contact headers body = yakr_request P H ''POST'' url contact None [] headers body"

section \<open>What goes on the wire\<close>

text \<open>
  A call the code may make: TLS with a pin of 32 bytes, or what the environment asks for.
  The environment matters through two variables; the one that names the relay changes while
  a message is delivered.
\<close>

definition call_allowed :: "(str \<times> str) list \<Rightarrow> http_call \<Rightarrow> bool" where
  "call_allowed env call \<longleftrightarrow>
     (case hc_check call of
        PinnedTo pin \<Rightarrow> length pin = 32 \<and> starts_with ''https://'' (hc_url call)
      | NoCheck \<Rightarrow> env_flag env ''YAKR_TLS_INSECURE'' \<and> starts_with ''https://'' (hc_url call)
      | SystemTrust \<Rightarrow> \<not> starts_with ''https://'' (rstrip_slash (hc_url call)) \<and>
          (starts_with ''http://'' (hc_url call) \<longrightarrow> \<not> tls_required env))"

definition tls_env :: "(str \<times> str) list \<Rightarrow> str option \<times> str option" where
  "tls_env env = (map_of env ''YAKR_REQUIRE_TLS'', map_of env ''YAKR_TLS_INSECURE'')"

definition net_guard :: "(str \<times> str) list \<Rightarrow> ('n \<Rightarrow> bool) \<Rightarrow> 'n http \<Rightarrow> bool" where
  "net_guard env I H \<longleftrightarrow> (\<forall>call n. call_allowed env call \<longrightarrow> I n \<longrightarrow> I (snd (H call n)))"

definition on_wire :: "(str \<times> str) list \<Rightarrow> ('n \<Rightarrow> bool) \<Rightarrow> 'n client \<Rightarrow> bool" where
  "on_wire env I s \<longleftrightarrow> tls_env (cl_env s) = tls_env env \<and> I (cl_net s)"

lemma starts_with_rstrip: "starts_with p (rstrip_slash s) \<Longrightarrow> starts_with p s"
proof -
  assume a: "starts_with p (rstrip_slash s)"
  obtain t where "s = rstrip_slash s @ t"
    unfolding rstrip_slash_def by (metis rev_append rev_rev_ident takeWhile_dropWhile_id)
  with a show ?thesis by (metis append.assoc starts_with_append starts_with_take_drop)
qed

lemma http_not_https: "starts_with ''http://'' s \<Longrightarrow> \<not> starts_with ''https://'' s"
proof
  assume "starts_with ''http://'' s" "starts_with ''https://'' s"
  then obtain a b where s: "s = ''http://'' @ a" "s = ''https://'' @ b" by (metis starts_with_take_drop)
  from s(1) show False unfolding s(2) by simp
qed

lemma verify_param_allowed:
  assumes "verify_param_for_url P env url contact pin extra s = (Inr check, s')"
    and "\<not> (tls_required env \<and> starts_with ''http://'' url)"
  shows "call_allowed env \<lparr>hc_method = m, hc_url = url, hc_check = check, hc_headers = hs, hc_body = b\<rparr>"
  using assms
  by (auto simp: verify_param_for_url_def call_allowed_def pinning_ssl_context_def m_bind_Inr Let_def
      split: if_splits option.splits tls_check.splits dest: starts_with_rstrip http_not_https)

lemma tls_env_allowed: "tls_env env = tls_env env' \<Longrightarrow> call_allowed env call = call_allowed env' call"
  by (simp add: tls_env_def call_allowed_def tls_required_def env_flag_def getenv_def split: tls_check.splits)

lemma preserves_parts [preserves_rules]:
  "preserves (on_wire env I) (on_store m)" "preserves (on_wire env I) (on_contact m')"
  "preserves (on_wire env I) (draw n)"
  by (auto simp: on_store_def on_contact_def draw_def on_wire_def preserves_def m_zoom_def split: prod.splits)

lemma yakr_request_wire [preserves_rules]:
  assumes "net_guard env I H"
  shows "preserves (on_wire env I) (yakr_request P H verb url contact pin extra hs body)"
proof (rule preservesI)
  fix s x s' assume run: "yakr_request P H verb url contact pin extra hs body s = (x, s')" and s: "on_wire env I s"
  show "on_wire env I s'"
  proof (cases "tls_required (cl_env s) \<and> starts_with ''http://'' url \<and> (\<exists>e. require_https_url url = Inl e)")
    case True
    with run s show ?thesis by (auto simp: yakr_request_def)
  next
    case False
    have "\<exists>e. require_https_url u = Inl e" if "starts_with ''http://'' u" for u
      using that starts_with_rstrip [of "''https://''" u] http_not_https [of u]
      by (auto simp: require_https_url_def Let_def)
    with False have url: "\<not> (tls_required (cl_env s) \<and> starts_with ''http://'' url)" by blast
    obtain y t where v: "on_store (verify_param_for_url P (cl_env s) url contact pin extra) s = (y, t)" by fastforce
    then have t: "cl_env t = cl_env s" "cl_net t = cl_net s"
      "\<exists>w. verify_param_for_url P (cl_env s) url contact pin extra (cl_store s) = (y, w)"
      by (auto simp: on_store_def m_zoom_def split: prod.splits)
    show ?thesis
    proof (cases y)
      case (Inl e)
      with run url v s t show ?thesis by (auto simp: yakr_request_def m_bind_def [of "on_store _"] on_wire_def)
    next
      case (Inr check)
      let ?call = "\<lparr>hc_method = verb, hc_url = url, hc_check = check, hc_headers = hs, hc_body = body\<rparr>"
      obtain w where "verify_param_for_url P (cl_env s) url contact pin extra (cl_store s) = (Inr check, w)"
        using t(3) Inr by blast
      from verify_param_allowed [OF this url] have "call_allowed (cl_env s) ?call" .
      moreover have "tls_env (cl_env s) = tls_env env" using s by (simp add: on_wire_def)
      ultimately have "call_allowed env ?call" using tls_env_allowed by blast
      then have "I (snd (H ?call (cl_net s)))" using assms s by (simp add: net_guard_def on_wire_def)
      with run url v s t Inr show ?thesis
        by (auto simp: yakr_request_def m_bind_def [of "on_store _"] on_wire_def on_net_def m_zoom_def split: prod.splits)
    qed
  qed
qed

lemma yakr_wire [preserves_rules]:
  assumes "net_guard env I H"
  shows "preserves (on_wire env I) (yakr_get P H url contact)"
    "preserves (on_wire env I) (yakr_post P H url contact hs body)"
  unfolding yakr_get_def yakr_post_def by (rule yakr_request_wire [OF assms])+

end
