(* ===== verification/CapClient.thy ===== *)
theory CapClient
  imports Http
begin

text \<open>
  The client's side of relay capabilities (\<open>capability_client.py\<close>): probing a relay, the keys a
  grant is derived from, issuing, storing and reusing grants, and what a profile publishes
  about them.
\<close>

section \<open>Probing\<close>

definition CAPABILITY_PROBE_TTL_MS :: int where "CAPABILITY_PROBE_TTL_MS = 5 * 60 * 1000"

definition capabilities_forced :: "(str \<times> str) list \<Rightarrow> bool" where
  "capabilities_forced env \<longleftrightarrow> env_flag env ''YAKR_USE_CAPABILITIES''"

definition capabilities_disabled :: "(str \<times> str) list \<Rightarrow> bool" where
  "capabilities_disabled env \<longleftrightarrow> env_flag env ''YAKR_DISABLE_CAPABILITIES''"

text \<open>The key advertised in a health answer, if it is 32 bytes.\<close>

definition advertised_key :: "http_reply \<Rightarrow> bytes option res" where
  "advertised_key reply =
     (if hs_status reply \<noteq> 200 then Inr None else
      and_then (reply_json reply) (\<lambda>j. and_then (jobj j) (\<lambda>d.
      let raw = jget_default d ''capability_issuance_public'' JNull in
      if \<not> jtruthy raw then Inr None else
      and_then (and_then (jstr raw) b64decode) (\<lambda>k. Inr (if length k = 32 then Some k else None)))))"

definition probe_relay_issuance_public ::
    "prims \<Rightarrow> 'n http \<Rightarrow> int \<Rightarrow> str \<Rightarrow> contact option \<Rightarrow> ('n client, bytes option) meth" where
  "probe_relay_issuance_public P H now relay_url contact =
     m_bind (m_of (endpoint_base_url relay_url)) (\<lambda>normalized. m_get (\<lambda>s.
     case (case map_of (cl_probes s) normalized of
             Some (at, key) \<Rightarrow> if now - at \<le> CAPABILITY_PROBE_TTL_MS then Some key else None | None \<Rightarrow> None) of
       Some key \<Rightarrow> m_return key
     | None \<Rightarrow>
         m_bind (m_catch (m_bind (yakr_get P H (normalized @ ''/healthz'') contact) (\<lambda>reply. m_of (advertised_key reply)))
           (\<lambda>e. is_os_error e \<or> is_value_error e \<or> is_key_error e) (\<lambda>e. m_return None)) (\<lambda>key.
         m_bind (m_modify (\<lambda>s. s\<lparr>cl_probes := dict_put normalized (now, key) (cl_probes s)\<rparr>)) (\<lambda>_.
         m_return key))))"

definition relay_supports_capabilities ::
    "prims \<Rightarrow> 'n http \<Rightarrow> int \<Rightarrow> str \<Rightarrow> contact option \<Rightarrow> ('n client, bool) meth" where
  "relay_supports_capabilities P H now relay_url contact = m_get (\<lambda>s.
     if capabilities_disabled (cl_env s) then m_return False
     else if capabilities_forced (cl_env s) then m_return True
     else m_bind (probe_relay_issuance_public P H now relay_url contact) (\<lambda>key. m_return (key \<noteq> None)))"

section \<open>Which contact, which keys\<close>

definition resolve_capability_contact ::
    "prims \<Rightarrow> str \<Rightarrow> contact option \<Rightarrow> (str \<times> relay_node) list option \<Rightarrow> (store, contact option) meth" where
  "resolve_capability_contact P relay_url peer network =
     m_bind (m_of (endpoint_base_url relay_url)) (\<lambda>normalized.
     m_bind (url_operator_map P) (\<lambda>ops.
     m_bind (case (map_of ops normalized, network) of
         (None, Some nodes) \<Rightarrow> m_of (find_res (\<lambda>(_, n). and_then (endpoint_base_url (rn_url n)) (\<lambda>u.
             Inr (if u = normalized then Some (rn_name n) else None))) nodes)
       | (op, _) \<Rightarrow> m_return op) (\<lambda>operator_name.
     m_bind (case operator_name of
         Some name \<Rightarrow> if name = [] then m_return None else get_contact P name
       | None \<Rightarrow> m_return None) (\<lambda>operator_contact.
     case operator_contact of Some c \<Rightarrow> m_return (Some c)
     | None \<Rightarrow>
         m_bind (case peer of None \<Rightarrow> m_return None
           | Some p \<Rightarrow> (case c_profile p of None \<Rightarrow> m_return None
             | Some profile \<Rightarrow> m_fold (\<lambda>d found. case found of Some c \<Rightarrow> m_return (Some c)
                 | None \<Rightarrow> m_bind (m_of (endpoint_base_url (rd_url d))) (\<lambda>u.
                     if u = normalized then get_contact P (rd_name d) else m_return None))
                 (dp_relays profile) None)) (\<lambda>found.
         m_return (case found of Some c \<Rightarrow> Some c | None \<Rightarrow> peer))))))"

record capability_session =
  sn_grant :: capability_grant
  sn_auth_private :: bytes

definition relay_tls_pin :: "prims \<Rightarrow> str \<Rightarrow> contact option \<Rightarrow> (store, bytes) meth" where
  "relay_tls_pin P relay_url contact =
     m_bind (resolve_tls_pin_for_url P relay_url contact None []) (\<lambda>pin. case pin of
       Some p \<Rightarrow> if length p = 32 then m_return p
                 else m_raise (ValueError (''no TLS SPKI pin for relay '' @ relay_url))
     | None \<Rightarrow> m_raise (ValueError (''no TLS SPKI pin for relay '' @ relay_url)))"

definition TICKET_TTL_MS :: int where "TICKET_TTL_MS = 60 * 60 * 1000"

definition bootstrap_ticket :: "prims \<Rightarrow> int \<Rightarrow> identity \<Rightarrow> contact \<Rightarrow> str \<Rightarrow> str list \<Rightarrow> str res" where
  "bootstrap_ticket P now i c relay_name permissions = (case contact_id c of
     None \<Rightarrow> Inl (ValueError ''contact missing contact_id for capability bootstrap'')
   | Some cid \<Rightarrow> Inr (ticket_to_b64 P (issue_relay_ticket P i relay_name permissions cid TICKET_TTL_MS now)))"

definition descriptor_for_relay :: "delivery_profile option \<Rightarrow> str \<Rightarrow> relay_descriptor option" where
  "descriptor_for_relay profile relay_name = (case profile of None \<Rightarrow> None
     | Some p \<Rightarrow> find (\<lambda>d. rd_name d = relay_name) (dp_relays p))"

definition capability_material_params ::
    "str \<Rightarrow> delivery_profile option \<Rightarrow> ('n client, int \<times> bytes) meth" where
  "capability_material_params relay_name operator_profile = m_get (\<lambda>s.
     case (case descriptor_for_relay operator_profile relay_name of
             Some d \<Rightarrow> if rd_issuance_salt d = [] then None
                 else Some (if rd_capability_generation d = 0 then 1 else rd_capability_generation d, rd_issuance_salt d)
           | None \<Rightarrow> None) of
       Some params \<Rightarrow> m_return params
     | None \<Rightarrow> (case load_capability_grant relay_name (cl_store s) of
         Some row \<Rightarrow> m_of (and_then (b64decode (gr_salt row)) (\<lambda>salt. Inr (gr_generation row, salt)))
       | None \<Rightarrow> m_bind (draw 16) (\<lambda>salt. m_return (1, salt))))"

section \<open>What a profile publishes\<close>

definition enrich_descriptor_capabilities ::
    "prims \<Rightarrow> relay_descriptor \<Rightarrow> ('n client, relay_descriptor) meth" where
  "enrich_descriptor_capabilities P d =
     m_bind (on_store (get_contact P (rd_name d))) (\<lambda>c. case c of None \<Rightarrow> m_return d
     | Some _ \<Rightarrow> m_get (\<lambda>s.
         let generation = (case load_capability_grant (rd_name d) (cl_store s) of
               None \<Rightarrow> 1 | Some row \<Rightarrow> gr_generation row + 1);
             generation = (if rd_issuance_salt d \<noteq> [] \<and> rd_capability_generation d \<ge> generation
               then rd_capability_generation d + 1 else generation) in
         m_bind (draw 16) (\<lambda>salt.
         m_return (d\<lparr>rd_capability_generation := generation, rd_issuance_salt := salt\<rparr>))))"

definition attach_profile_capability_fields ::
    "prims \<Rightarrow> store \<Rightarrow> relay_descriptor list \<Rightarrow> relay_descriptor list res" where
  "attach_profile_capability_fields P s descriptors = and_then (load_local_profile P s) (\<lambda>current.
     Inr (case current of None \<Rightarrow> descriptors
     | Some p \<Rightarrow> map (\<lambda>d. case map_of (rev (map (\<lambda>x. (rd_name x, x)) (dp_relays p))) (rd_name d) of
           None \<Rightarrow> d
         | Some previous \<Rightarrow> if rd_issuance_salt previous = [] then d
             else d\<lparr>rd_tls_spki := (if rd_tls_spki d \<noteq> [] then rd_tls_spki d else rd_tls_spki previous),
                     rd_capability_generation := rd_capability_generation previous,
                     rd_issuance_salt := rd_issuance_salt previous\<rparr>) descriptors))"

definition enrich_profile_capability_descriptors ::
    "prims \<Rightarrow> relay_descriptor list \<Rightarrow> ('n client, relay_descriptor list) meth" where
  "enrich_profile_capability_descriptors P descriptors =
     m_fold (\<lambda>d done. m_bind (enrich_descriptor_capabilities P d) (\<lambda>d'. m_return (done @ [d']))) descriptors []"

section \<open>Issuing, keeping and using grants\<close>

definition json_headers :: "(str \<times> str) list" where
  "json_headers = [(''Content-Type'', ''application/json'')]"

definition issue_payload ::
    "prims \<Rightarrow> bytes \<Rightarrow> bytes \<Rightarrow> int \<Rightarrow> bytes \<Rightarrow> str list \<Rightarrow> str \<Rightarrow> str option \<Rightarrow> json" where
  "issue_payload P auth_private cid generation salt permissions ticket supersedes = JObj
     ([(''auth_public'', JStr (b64encode (p_ed_pub P auth_private))),
       (''capability_id'', JStr (b64encode cid)), (''capability_generation'', JInt generation),
       (''issuance_salt'', JStr (b64encode salt)), (''permissions'', JList (map JStr permissions)),
       (''ticket'', JStr ticket)] @ opt_item ''supersedes_capability_id'' (map_option JStr supersedes))"

definition superseded_id :: "prims \<Rightarrow> grant_row option \<Rightarrow> int \<Rightarrow> str option res" where
  "superseded_id P stored generation = (case stored of None \<Rightarrow> Inr None
   | Some row \<Rightarrow> if generation \<le> gr_generation row then Inr None
       else and_then (and_then (b64decode (gr_grant row)) (grant_from_bytes P)) (\<lambda>g. Inr (Some (b64encode (cg_id g)))))"

definition granted :: "prims \<Rightarrow> http_reply \<Rightarrow> capability_grant res" where
  "granted P reply = and_then (reply_json reply) (\<lambda>j. and_then (jobj j) (\<lambda>d.
     and_then (and_then (jget d ''grant'') jtext) (grant_from_b64 P)))"

definition issue_capability_from_relay ::
    "prims \<Rightarrow> 'n http \<Rightarrow> int \<Rightarrow> str \<Rightarrow> str \<Rightarrow> identity \<Rightarrow> contact \<Rightarrow> str list \<Rightarrow> bytes option \<Rightarrow>
     delivery_profile option \<Rightarrow> ('n client, capability_session) meth" where
  "issue_capability_from_relay P H now relay_url relay_name i c permissions relay_key operator_profile =
     m_bind (on_store (relay_tls_pin P relay_url (Some c))) (\<lambda>pin.
     m_bind (capability_material_params relay_name operator_profile) (\<lambda>(generation, salt).
     m_bind (m_of (derive_capability_material P (master_secret c) relay_name pin generation salt)) (\<lambda>(cid, auth_private).
     m_bind (m_of (bootstrap_ticket P now i c relay_name [''store'', ''fetch''])) (\<lambda>ticket. m_get (\<lambda>s.
     m_bind (m_of (superseded_id P (load_capability_grant relay_name (cl_store s)) generation)) (\<lambda>supersedes.
     m_bind (yakr_post P H (rstrip_slash relay_url @ ''/v1/capabilities/issue'') (Some c) json_headers
       (utf8 (json_default (issue_payload P auth_private cid generation salt permissions ticket supersedes)))) (\<lambda>reply.
     if hs_status reply \<noteq> 201
     then m_raise (RuntimeError (''capability issue failed: '' @ str_of_int (hs_status reply) @ '' '' @ hs_text reply)) else
     m_bind (m_of (granted P reply)) (\<lambda>g.
     m_bind (m_of (case relay_key of None \<Rightarrow> Inr ()
       | Some key \<Rightarrow> verify_capability_grant P g key relay_name pin now)) (\<lambda>_.
     m_bind (on_store (save_capability_grant P relay_name g auth_private salt pin)) (\<lambda>_.
     m_return \<lparr>sn_grant = g, sn_auth_private = auth_private\<rparr>))))))))))"

definition stored_session ::
    "prims \<Rightarrow> int \<Rightarrow> str list \<Rightarrow> grant_row option \<Rightarrow> capability_session option res" where
  "stored_session P now permissions stored = (case stored of None \<Rightarrow> Inr None
   | Some row \<Rightarrow>
       and_then (and_then (b64decode (gr_grant row)) (grant_from_bytes P)) (\<lambda>g.
       and_then (and_then (b64decode (gr_auth_private row)) key32) (\<lambda>auth_private.
       Inr (if cg_expires_at g > now + 60000 \<and> set permissions \<subseteq> set (cg_permissions g)
            then Some \<lparr>sn_grant = g, sn_auth_private = auth_private\<rparr> else None))))"

definition ensure_capability_session ::
    "prims \<Rightarrow> 'n http \<Rightarrow> int \<Rightarrow> str \<Rightarrow> str \<Rightarrow> identity \<Rightarrow> contact \<Rightarrow> str list \<Rightarrow> bytes option \<Rightarrow>
     ('n client, capability_session) meth" where
  "ensure_capability_session P H now relay_url relay_name i c permissions relay_key =
     m_bind (case relay_key of Some k \<Rightarrow> m_return (Some k)
       | None \<Rightarrow> probe_relay_issuance_public P H now relay_url (Some c)) (\<lambda>relay_key. m_get (\<lambda>s.
     m_bind (m_of (stored_session P now permissions (load_capability_grant relay_name (cl_store s)))) (\<lambda>session.
     case session of Some n \<Rightarrow> m_return n
     | None \<Rightarrow>
         m_bind (on_store (relay_tls_pin P relay_url (Some c))) (\<lambda>_.
         m_bind (on_store (m_read (load_local_profile P))) (\<lambda>operator_profile.
         issue_capability_from_relay P H now relay_url relay_name i c permissions relay_key operator_profile)))))"

definition capability_headers_for_request ::
    "prims \<Rightarrow> int \<Rightarrow> capability_session \<Rightarrow> str \<Rightarrow> str \<Rightarrow> bytes \<Rightarrow> ('n client, (str \<times> str) list) meth" where
  "capability_headers_for_request P now session verb path body = m_bind (draw 16) (\<lambda>nonce.
     m_of (capability_request_headers P (sn_grant session) (sn_auth_private session) verb path body now nonce))"

definition relay_name_for_url ::
    "prims \<Rightarrow> str \<Rightarrow> (str \<times> relay_node) list option \<Rightarrow> str \<Rightarrow> ('n client, str) meth" where
  "relay_name_for_url P relay_url network dflt =
     m_bind (m_of (endpoint_base_url relay_url)) (\<lambda>normalized.
     m_bind (m_of (case network of None \<Rightarrow> Inr None
       | Some nodes \<Rightarrow> find_res (\<lambda>(_, n). and_then (endpoint_base_url (rn_url n)) (\<lambda>u.
           Inr (if u = normalized then Some (rn_name n) else None))) nodes)) (\<lambda>known.
     case known of Some name \<Rightarrow> m_return name
     | None \<Rightarrow> m_bind (on_store (url_operator_map P)) (\<lambda>ops. m_get (\<lambda>s.
         m_return (case map_of ops normalized of Some name \<Rightarrow> name
           | None \<Rightarrow> getenv (cl_env s) ''YAKR_RELAY_NAME'' dflt)))))"

definition sync_profile_capability_grants ::
    "prims \<Rightarrow> 'n http \<Rightarrow> int \<Rightarrow> identity \<Rightarrow> delivery_profile \<Rightarrow> ('n client, capability_session list) meth" where
  "sync_profile_capability_grants P H now i profile = m_fold (\<lambda>d sessions.
     if rd_issuance_salt d = [] then m_return sessions else
     m_bind (on_store (get_contact P (rd_name d))) (\<lambda>c. case c of None \<Rightarrow> m_return sessions
     | Some c \<Rightarrow>
         m_bind (relay_supports_capabilities P H now (rd_url d) (Some c)) (\<lambda>yes.
         if \<not> yes then m_return sessions else
         m_bind (issue_capability_from_relay P H now (rd_url d) (rd_name d) i c [''post'', ''fetch''] None (Some profile))
           (\<lambda>session. m_return (sessions @ [session]))))) (dp_relays profile) []"

definition provision_contact_relay_capabilities ::
    "prims \<Rightarrow> 'n http \<Rightarrow> int \<Rightarrow> identity \<Rightarrow> contact \<Rightarrow> str option \<Rightarrow> str option \<Rightarrow>
     ('n client, capability_session option) meth" where
  "provision_contact_relay_capabilities P H now i c relay_url relay_name = (case c_profile c of
     None \<Rightarrow> m_return None
   | Some profile \<Rightarrow> (case mailbox_descriptors profile of [] \<Rightarrow> m_return None
     | d # _ \<Rightarrow>
         let url = rstrip_slash (case relay_url of Some u \<Rightarrow> if u = [] then rd_url d else u | None \<Rightarrow> rd_url d);
             name = (case relay_name of Some n \<Rightarrow> if n = [] then rd_name d else n | None \<Rightarrow> rd_name d) in
         m_catch (m_bind (issue_capability_from_relay P H now url name i c [''post'', ''fetch''] None None)
             (\<lambda>session. m_return (Some session)))
           (\<lambda>e. is_runtime_error e \<or> is_value_error e \<or> is_os_error e) (\<lambda>e. m_return None)))"

definition try_provision_pairing_capabilities ::
    "prims \<Rightarrow> 'n http \<Rightarrow> int \<Rightarrow> identity \<Rightarrow> contact \<Rightarrow> ('n client, capability_session list) meth" where
  "try_provision_pairing_capabilities P H now i c = (case c_profile c of None \<Rightarrow> m_return []
   | Some profile \<Rightarrow> m_fold (\<lambda>d sessions.
       m_bind (provision_contact_relay_capabilities P H now i c (Some (rd_url d)) (Some (rd_name d))) (\<lambda>session.
       m_return (sessions @ (case session of None \<Rightarrow> [] | Some n \<Rightarrow> [n])))) (mailbox_descriptors profile) [])"

definition bootstrap_operator_capabilities ::
    "prims \<Rightarrow> 'n http \<Rightarrow> int \<Rightarrow> identity \<Rightarrow> str \<Rightarrow> str \<Rightarrow> ('n client, capability_session option) meth" where
  "bootstrap_operator_capabilities P H now i op_name relay_url =
     m_bind (on_store (get_contact P op_name)) (\<lambda>c. case c of
       None \<Rightarrow> m_raise (ValueError (''unknown operator contact: '' @ op_name))
     | Some c \<Rightarrow> provision_contact_relay_capabilities P H now i c (Some relay_url) (Some op_name))"

section \<open>Nothing but allowed calls\<close>

lemma preserves_probe_cache [preserves_rules]:
  "preserves (on_wire env I) (m_modify (\<lambda>s. s\<lparr>cl_probes := f s\<rparr>))"
  by (rule preserves_modify) (simp add: on_wire_def)

lemma capability_wire [preserves_rules]:
  assumes H: "net_guard env I H"
  shows "preserves (on_wire env I) (probe_relay_issuance_public P H now relay_url contact)"
    "preserves (on_wire env I) (relay_supports_capabilities P H now relay_url contact)"
  unfolding probe_relay_issuance_public_def relay_supports_capabilities_def Let_def
  by (intro preserves_rules H)+

lemma local_wire [preserves_rules]:
  "preserves (on_wire env I) (capability_material_params relay_name operator_profile)"
  "preserves (on_wire env I) (capability_headers_for_request P now session verb path body)"
  "preserves (on_wire env I) (relay_name_for_url P relay_url network dflt)"
  unfolding capability_material_params_def capability_headers_for_request_def relay_name_for_url_def Let_def
  by (intro preserves_rules)+

lemma issue_wire [preserves_rules]:
  assumes H: "net_guard env I H"
  shows "preserves (on_wire env I)
    (issue_capability_from_relay P H now relay_url relay_name i c permissions relay_key operator_profile)"
  unfolding issue_capability_from_relay_def by (intro preserves_rules H)

lemma ensure_wire [preserves_rules]:
  assumes H: "net_guard env I H"
  shows "preserves (on_wire env I) (ensure_capability_session P H now relay_url relay_name i c permissions relay_key)"
  unfolding ensure_capability_session_def by (intro preserves_rules H)

lemma provisioning_wire [preserves_rules]:
  assumes H: "net_guard env I H"
  shows "preserves (on_wire env I) (sync_profile_capability_grants P H now i profile)"
    "preserves (on_wire env I) (provision_contact_relay_capabilities P H now i c url name)"
    "preserves (on_wire env I) (try_provision_pairing_capabilities P H now i c)"
    "preserves (on_wire env I) (bootstrap_operator_capabilities P H now i op_name relay_url)"
proof -
  show prov: "preserves (on_wire env I) (provision_contact_relay_capabilities P H now i c url name)" for c url name
    unfolding provision_contact_relay_capabilities_def Let_def by (intro preserves_rules H)
  show "preserves (on_wire env I) (sync_profile_capability_grants P H now i profile)"
    unfolding sync_profile_capability_grants_def by (intro preserves_rules H)
  show "preserves (on_wire env I) (try_provision_pairing_capabilities P H now i c)"
    unfolding try_provision_pairing_capabilities_def by (intro preserves_rules prov)
  show "preserves (on_wire env I) (bootstrap_operator_capabilities P H now i op_name relay_url)"
    unfolding bootstrap_operator_capabilities_def by (intro preserves_rules prov)
qed

lemma enrich_wire [preserves_rules]:
  "preserves (on_wire env I) (enrich_profile_capability_descriptors P ds)"
  unfolding enrich_profile_capability_descriptors_def enrich_descriptor_capabilities_def Let_def
  by (intro preserves_rules)

end
