(* ===== verification/Network.thy ===== *)
theory Network
  imports CapClient
begin

text \<open>
  Delivering and fetching blobs (\<open>network.py\<close>): which relay URLs serve a contact, one upload with
  a capability or a ticket, delivery with its fallbacks, and polling the relays. The contact
  object that \<open>deliver_encrypted\<close> refreshes is \<open>cl_contact\<close>.
\<close>

section \<open>Routes\<close>

definition route_parts :: "str \<Rightarrow> str list" where
  "route_parts route = filter (\<lambda>p. p \<noteq> []) (map py_strip (py_split (CHR '','') route))"

definition parse_route :: "str \<Rightarrow> (str \<times> str) res" where
  "parse_route route = (case route_parts route of
     [a, b] \<Rightarrow> Inr (a, b) | _ \<Rightarrow> Inl (ValueError ''route must be entry,mailbox''))"

definition mailbox_name_from_route :: "str \<Rightarrow> str res" where
  "mailbox_name_from_route route = (case route_parts route of
     [a] \<Rightarrow> Inr a | [a, b] \<Rightarrow> Inr b | _ \<Rightarrow> Inl (ValueError ''route must be mailbox or entry,mailbox''))"

definition contact_relay_network :: "contact \<Rightarrow> (str \<times> relay_node) list option" where
  "contact_relay_network c = map_option relay_network_from_profile (c_profile c)"

text \<open>\<open>setdefault\<close> for each item.\<close>

fun set_defaults :: "(str \<times> 'v) list \<Rightarrow> (str \<times> 'v) list \<Rightarrow> (str \<times> 'v) list" where
  "set_defaults [] d = d"
| "set_defaults ((k, v) # xs) d =
     set_defaults xs (case map_of d k of None \<Rightarrow> d @ [(k, v)] | Some _ \<Rightarrow> d)"

definition overlay_presence_urls :: "int \<Rightarrow> store \<Rightarrow> (str \<times> relay_node) list \<Rightarrow> (str \<times> relay_node) list" where
  "overlay_presence_urls now s network =
     map (\<lambda>(name, n). (name, n\<lparr>rn_url := resolve_operator_url (Some s) name (rn_url n) now\<rparr>)) network"

definition delivery_relay_network ::
    "prims \<Rightarrow> int \<Rightarrow> contact \<Rightarrow> store \<Rightarrow> (str \<times> relay_node) list option res" where
  "delivery_relay_network P now c s = and_then (load_local_profile P s) (\<lambda>local.
     let network = (case c_profile c of None \<Rightarrow> [] | Some p \<Rightarrow> relay_network_from_profile p);
         network = (case local of None \<Rightarrow> network
           | Some p \<Rightarrow> set_defaults (relay_network_from_profile p) network) in
     Inr (if network = [] then None else Some (overlay_presence_urls now s network)))"

section \<open>URLs to store on and to poll\<close>

definition profile_mailbox_urls :: "int \<Rightarrow> store \<Rightarrow> delivery_profile option \<Rightarrow> str list" where
  "profile_mailbox_urls now s profile = (case profile of None \<Rightarrow> []
   | Some p \<Rightarrow> map (\<lambda>d. resolve_operator_url (Some s) (rd_name d) (rd_url d) now) (mailbox_descriptors p))"

definition peer_acked_sender_fallback_urls :: "prims \<Rightarrow> int \<Rightarrow> store \<Rightarrow> contact \<Rightarrow> str list res" where
  "peer_acked_sender_fallback_urls P now s c =
     (if acked_version c \<le> 0 then Inr [] else
      and_then (load_local_profile P s) (\<lambda>local. Inr (case local of None \<Rightarrow> []
      | Some p \<Rightarrow> if acked_relays c = [] then profile_mailbox_urls now s (Some p)
          else map (\<lambda>d. resolve_operator_url (Some s) (rd_name d) (rd_url d) now)
                 (filter (\<lambda>d. rd_name d \<in> set (acked_relays c)) (mailbox_descriptors p)))))"

text \<open>\<open>urls\<close> and the set \<open>seen\<close> always hold the same URLs; the list stands for both.\<close>

fun append_unique_urls :: "str list \<Rightarrow> str list \<Rightarrow> str list" where
  "append_unique_urls urls [] = urls"
| "append_unique_urls urls (u # us) =
     (let n = rstrip_slash u in
      append_unique_urls (if n \<noteq> [] \<and> n \<notin> set urls then urls @ [n] else urls) us)"

definition local_mailbox_urls :: "prims \<Rightarrow> int \<Rightarrow> store \<Rightarrow> str list res" where
  "local_mailbox_urls P now s = and_then (load_local_profile P s) (\<lambda>local. Inr (profile_mailbox_urls now s local))"

definition contact_fetch_mailbox_urls :: "prims \<Rightarrow> int \<Rightarrow> contact \<Rightarrow> store \<Rightarrow> str list res" where
  "contact_fetch_mailbox_urls P now c s = and_then (local_mailbox_urls P now s) (\<lambda>own.
     Inr (append_unique_urls (append_unique_urls [] own) (profile_mailbox_urls now s (c_profile c))))"

definition trust_graph_mailbox_urls :: "prims \<Rightarrow> int \<Rightarrow> contact \<Rightarrow> (store, str list) meth" where
  "trust_graph_mailbox_urls P now c = m_bind (m_read (contact_fetch_mailbox_urls P now c)) (\<lambda>urls. m_get (\<lambda>s.
     m_bind (each_contact P (\<lambda>name paired urls.
       Inr (append_unique_urls urls (profile_mailbox_urls now s (c_profile paired)))) urls) (\<lambda>urls.
     let urls = append_unique_urls urls (fresh_group_relay_urls s now) in
     m_return (append_unique_urls urls
       (map reachable_url (filter (\<lambda>p. is_presence_fresh p now) (list_presences s)))))))"

definition env_relay_url :: "(str \<times> str) list \<Rightarrow> str option" where
  "env_relay_url env = (let u = rstrip_slash (getenv env ''YAKR_RELAY_URL'' []) in if u = [] then None else Some u)"

definition delivery_mailbox_urls ::
    "prims \<Rightarrow> int \<Rightarrow> contact \<Rightarrow> str option \<Rightarrow> 'n client \<Rightarrow> str list res" where
  "delivery_mailbox_urls P now c route s = (case route of
     Some r \<Rightarrow>
       and_then (case contact_relay_network c of
           Some (n # ns) \<Rightarrow> Inr (Some (n # ns))
         | _ \<Rightarrow> (case cl_relays s of None \<Rightarrow> Inr None
             | Some text \<Rightarrow> and_then (load_relay_network text) (\<lambda>n. Inr (Some n)))) (\<lambda>network.
       case network of None \<Rightarrow> Inl (ValueError ''route requires contact or relays.json network'')
       | Some nodes \<Rightarrow> and_then (mailbox_name_from_route r) (\<lambda>name.
           and_then (opt_res (KeyError name) (map_of nodes name)) (\<lambda>n. Inr [rn_url n])))
   | None \<Rightarrow>
       and_then (peer_acked_sender_fallback_urls P now (cl_store s) c) (\<lambda>fallbacks.
       let urls = append_unique_urls [] (profile_mailbox_urls now (cl_store s) (c_profile c));
           urls = append_unique_urls urls fallbacks;
           urls = append_unique_urls urls (fresh_group_relay_urls (cl_store s) now) in
       if urls \<noteq> [] then Inr urls else (case env_relay_url (cl_env s) of Some u \<Rightarrow> Inr [u]
       | None \<Rightarrow> Inl (ValueError (''no relay route to deliver to '' @ c_name c)))))"

definition fetch_mailbox_urls ::
    "prims \<Rightarrow> int \<Rightarrow> contact \<Rightarrow> str option \<Rightarrow> bool \<Rightarrow> ('n client, str list) meth" where
  "fetch_mailbox_urls P now c route wide = (case route of
     Some r \<Rightarrow> m_read (delivery_mailbox_urls P now c (Some r))
   | None \<Rightarrow>
       m_bind (on_store (if wide then trust_graph_mailbox_urls P now c
         else m_read (contact_fetch_mailbox_urls P now c))) (\<lambda>urls. m_get (\<lambda>s.
       if urls \<noteq> [] then m_return urls else (case env_relay_url (cl_env s) of Some u \<Rightarrow> m_return [u]
       | None \<Rightarrow> m_raise (ValueError (''no relay route to fetch messages for '' @ c_name c))))))"

section \<open>Direct delivery and profile refresh\<close>

definition tickets_required :: "(str \<times> str) list \<Rightarrow> bool" where
  "tickets_required env \<longleftrightarrow> env_flag env ''YAKR_REQUIRE_TICKETS''"

definition legacy_get_fetch :: "(str \<times> str) list \<Rightarrow> bool" where
  "legacy_get_fetch env \<longleftrightarrow> env_flag env ''YAKR_LEGACY_GET_FETCH''"

definition client_ticket :: "prims \<Rightarrow> int \<Rightarrow> (str \<times> str) list \<Rightarrow> identity \<Rightarrow> contact \<Rightarrow> str \<Rightarrow> str \<Rightarrow> str option" where
  "client_ticket P now env i c relay_name permission =
     (if \<not> tickets_required env then None else
      map_option (\<lambda>cid. ticket_to_b64 P (issue_relay_ticket P i relay_name [permission] cid TICKET_TTL_MS now))
        (contact_id c))"

fun try_direct_delivery :: "prims \<Rightarrow> 'n http \<Rightarrow> outer_blob \<Rightarrow> str list \<Rightarrow> ('n client, bool) meth" where
  "try_direct_delivery P H outer [] = m_return False"
| "try_direct_delivery P H outer (hint # hints) = m_get (\<lambda>s.
     m_bind (m_catch
         (m_bind (yakr_post P H (rstrip_slash hint @ ''/v1/direct/blobs'') (Some (cl_contact s)) json_headers
            (utf8 (json_compact (to_relay_json outer)))) (\<lambda>reply. m_return (hs_status reply \<in> {200, 201})))
         (\<lambda>e. is_http_error e \<or> is_value_error e) (\<lambda>e. m_return False)) (\<lambda>ok.
     if ok then m_return True else try_direct_delivery P H outer hints))"

definition served_profile :: "prims \<Rightarrow> bytes \<Rightarrow> http_reply \<Rightarrow> delivery_profile option res" where
  "served_profile P signing_public reply =
     (if hs_status reply \<noteq> 200 then Inr None else
      and_then (reply_json reply) (\<lambda>j. and_then (jobj j) (\<lambda>d.
      and_then (and_then (and_then (jget d ''profile'') jtext) (profile_from_b64 P)) (\<lambda>p.
      and_then (verify_delivery_profile P p signing_public) (\<lambda>_. Inr (Some p))))))"

fun fetch_remote_profile ::
    "prims \<Rightarrow> 'n http \<Rightarrow> str list \<Rightarrow> bytes \<Rightarrow> ('n client, delivery_profile option) meth" where
  "fetch_remote_profile P H [] signing_public = m_return None"
| "fetch_remote_profile P H (hint # hints) signing_public =
     m_bind (m_catch
         (m_bind (yakr_get P H (rstrip_slash hint @ ''/v1/profile'') None) (\<lambda>reply. m_of (served_profile P signing_public reply)))
         (\<lambda>e. is_http_error e \<or> is_value_error e \<or> is_key_error e) (\<lambda>e. m_return None)) (\<lambda>found.
     case found of Some p \<Rightarrow> m_return (Some p) | None \<Rightarrow> fetch_remote_profile P H hints signing_public)"

definition refresh_contact_profile :: "prims \<Rightarrow> 'n http \<Rightarrow> int \<Rightarrow> ('n client, bool) meth" where
  "refresh_contact_profile P H now = m_get (\<lambda>s. case c_profile (cl_contact s) of
     None \<Rightarrow> m_return False
   | Some profile \<Rightarrow>
       if \<not> profile_is_stale profile now then m_return False else
       m_bind (fetch_remote_profile P H (dp_direct_hints profile) (c_signing_public (cl_contact s))) (\<lambda>refreshed.
       case refreshed of None \<Rightarrow> m_return False
       | Some p \<Rightarrow>
           m_bind (m_modify (\<lambda>s. s\<lparr>cl_contact := (cl_contact s)\<lparr>c_profile := Some p\<rparr>\<rparr>)) (\<lambda>_. m_get (\<lambda>s.
           m_bind (on_store (save_contact P (cl_contact s))) (\<lambda>_. m_return True)))))"

section \<open>One upload\<close>

definition relay_capability_context ::
    "prims \<Rightarrow> 'n http \<Rightarrow> int \<Rightarrow> str \<Rightarrow> (str \<times> relay_node) list option \<Rightarrow> ('n client, contact option) meth" where
  "relay_capability_context P H now relay_url network = m_get (\<lambda>s.
     m_bind (relay_supports_capabilities P H now relay_url (Some (cl_contact s))) (\<lambda>yes.
     if \<not> yes then m_return None
     else on_store (resolve_capability_contact P relay_url (Some (cl_contact s)) network)))"

definition with_item :: "str \<Rightarrow> json \<Rightarrow> json \<Rightarrow> json" where
  "with_item k v payload = (case payload of JObj d \<Rightarrow> JObj (dict_put k v d) | j \<Rightarrow> j)"

definition send_encrypted ::
    "prims \<Rightarrow> 'n http \<Rightarrow> int \<Rightarrow> identity \<Rightarrow> outer_blob \<Rightarrow> str \<Rightarrow> (str \<times> relay_node) list option \<Rightarrow>
     ('n client, unit) meth" where
  "send_encrypted P H now i outer relay_url network =
     m_bind (relay_name_for_url P relay_url network ''relay'') (\<lambda>relay_name.
     m_bind (relay_capability_context P H now relay_url network) (\<lambda>auth. m_get (\<lambda>s.
     let payload = to_relay_json outer; url = rstrip_slash relay_url @ ''/v1/blobs''; c = cl_contact s in
     m_bind (case auth of
         Some a \<Rightarrow>
           m_bind (ensure_capability_session P H now relay_url relay_name i a [''post''] None) (\<lambda>session.
           let body = utf8 (json_default payload) in
           m_bind (capability_headers_for_request P now session ''POST'' ''/v1/blobs'' body) (\<lambda>headers.
           yakr_post P H url (Some c) (headers @ json_headers) body))
       | None \<Rightarrow>
           let payload = (case client_ticket P now (cl_env s) i c relay_name ''store'' of
               None \<Rightarrow> payload | Some t \<Rightarrow> with_item ''ticket'' (JStr t) payload) in
           yakr_post P H url (Some c) json_headers (utf8 (json_compact payload))) (\<lambda>reply.
     if hs_status reply \<noteq> 201
     then m_raise (RuntimeError (''relay store failed: '' @ str_of_int (hs_status reply) @ '' '' @ hs_text reply))
     else m_return ()))))"

section \<open>Delivery\<close>

definition relay_name_of :: "(str \<times> str) list \<Rightarrow> str \<Rightarrow> (str \<times> relay_node) list option \<Rightarrow> str" where
  "relay_name_of env relay_url network =
     (case (case network of None \<Rightarrow> None
        | Some nodes \<Rightarrow> find (\<lambda>(_, n). rstrip_slash (rn_url n) = rstrip_slash relay_url) nodes) of
        Some (_, n) \<Rightarrow> rn_name n | None \<Rightarrow> getenv env ''YAKR_RELAY_NAME'' ''relay'')"

text \<open>The loop sets \<open>YAKR_RELAY_NAME\<close> for one upload and puts it back in its \<open>finally\<close>.\<close>

definition with_relay_name :: "str \<Rightarrow> ('n client, 'a) meth \<Rightarrow> ('n client, 'a) meth" where
  "with_relay_name name m s =
     (case m (s\<lparr>cl_env := dict_put ''YAKR_RELAY_NAME'' name (cl_env s)\<rparr>) of (x, t) \<Rightarrow>
       (x, t\<lparr>cl_env := (case map_of (cl_env s) ''YAKR_RELAY_NAME'' of
           None \<Rightarrow> filter (\<lambda>(k, _). k \<noteq> ''YAKR_RELAY_NAME'') (cl_env t)
         | Some previous \<Rightarrow> dict_put ''YAKR_RELAY_NAME'' previous (cl_env t))\<rparr>))"

text \<open>The relays in turn: the label of the first that took the message, or the errors.\<close>

fun deliver_to_relays ::
    "prims \<Rightarrow> 'n http \<Rightarrow> int \<Rightarrow> identity \<Rightarrow> outer_blob \<Rightarrow> (str \<times> relay_node) list option \<Rightarrow> str list \<Rightarrow>
     str list \<Rightarrow> str list \<Rightarrow> ('n client, str list + str) meth" where
  "deliver_to_relays P H now i outer network urls [] errors = m_return (Inl errors)"
| "deliver_to_relays P H now i outer network urls (url # rest) errors = m_get (\<lambda>s.
     let name = relay_name_of (cl_env s) url network in
     m_bind (m_catch (m_bind (with_relay_name name (send_encrypted P H now i outer url network)) (\<lambda>_. m_return None))
       (\<lambda>e. is_runtime_error e \<or> is_http_error e \<or> is_value_error e) (\<lambda>e. m_return (Some e))) (\<lambda>failure.
     case failure of
       Some e \<Rightarrow> deliver_to_relays P H now i outer network urls rest (errors @ [url @ '': '' @ exn_text e])
     | None \<Rightarrow> m_return (Inr
         (if length urls > 1 \<and> url \<noteq> hd urls then ''relay-failover:'' @ name
          else if name \<in> {''relay'', []} then ''relay'' else ''relay:'' @ name))))"

text \<open>
  \<open>deliver_encrypted\<close> calls itself after a refresh; \<open>n\<close> is the depth the interpreter has left,
  at the end of which it raises \<open>RecursionError\<close>, a \<open>RuntimeError\<close>.
\<close>

fun deliver_encrypted ::
    "nat \<Rightarrow> prims \<Rightarrow> 'n http \<Rightarrow> int \<Rightarrow> identity \<Rightarrow> outer_blob \<Rightarrow> str option \<Rightarrow> bool \<Rightarrow> bool \<Rightarrow>
     ('n client, str) meth" where
  "deliver_encrypted 0 P H now i outer route allow_direct retry_on_stale =
     m_raise (RuntimeError ''maximum recursion depth exceeded'')"
| "deliver_encrypted (Suc n) P H now i outer route allow_direct retry_on_stale =
     m_bind (if retry_on_stale then m_bind (refresh_contact_profile P H now) (\<lambda>_. m_return ()) else m_return ()) (\<lambda>_.
     m_get (\<lambda>s. let hints = (case c_profile (cl_contact s) of None \<Rightarrow> [] | Some p \<Rightarrow> dp_direct_hints p) in
     m_bind (if allow_direct \<and> hints \<noteq> [] then try_direct_delivery P H outer hints else m_return False) (\<lambda>sent.
     if sent then m_return ''direct'' else m_get (\<lambda>s. let c = cl_contact s in
     m_bind (m_of (delivery_relay_network P now c (cl_store s))) (\<lambda>network.
     let resolved = (if route = Some ''auto'' then None else route) in
     m_bind (m_read (delivery_mailbox_urls P now c resolved)) (\<lambda>urls.
     if resolved \<noteq> None then
       m_catch (m_bind (send_encrypted P H now i outer (hd urls) network) (\<lambda>_. m_get (\<lambda>s.
           m_return (''relay:'' @ relay_name_of (cl_env s) (hd urls) network))))
         is_runtime_error (\<lambda>e. m_bind (refresh_contact_profile P H now) (\<lambda>again.
           if again then deliver_encrypted n P H now i outer route allow_direct False else m_raise e))
     else
       m_bind (deliver_to_relays P H now i outer network urls urls []) (\<lambda>outcome. case outcome of
         Inr label \<Rightarrow> m_return label
       | Inl errors \<Rightarrow>
           m_bind (if retry_on_stale then refresh_contact_profile P H now else m_return False) (\<lambda>again.
           if again then deliver_encrypted n P H now i outer route allow_direct False
           else m_raise (RuntimeError (''all relay delivery attempts failed for '' @ c_name c @ '': ''
             @ (if errors = [] then ''no relay URLs'' else py_join ''; '' errors)))))))))))"

text \<open>Run \<open>m\<close> with another contact object at hand; the caller's object is not touched.\<close>

definition with_contact :: "contact \<Rightarrow> ('n client, 'a) meth \<Rightarrow> ('n client, 'a) meth" where
  "with_contact c m s = (case m (s\<lparr>cl_contact := c\<rparr>) of (x, t) \<Rightarrow> (x, t\<lparr>cl_contact := cl_contact s\<rparr>))"

definition load_or_fail :: "prims \<Rightarrow> str \<Rightarrow> exn \<Rightarrow> ('n client, contact) meth" where
  "load_or_fail P name e = m_bind (on_store (get_contact P name)) (\<lambda>c. m_of (opt_res e c))"

text \<open>\<open>Session(identity, contact).encrypt_...\<close>: the session check, the random bytes, the method.\<close>

definition in_session ::
    "(bytes \<Rightarrow> bytes \<Rightarrow> (contact, encrypted_message) meth) \<Rightarrow> ('n client, encrypted_message) meth" where
  "in_session encrypt = m_get (\<lambda>s. m_bind (m_of (session_new (cl_contact s))) (\<lambda>_.
     m_bind (draw 32) (\<lambda>np. m_bind (draw 24) (\<lambda>nonce. on_contact (encrypt np nonce)))))"

text \<open>One row of \<open>outbound_pending\<close>; the count is 1 when it was delivered. \<open>n\<close> as above.\<close>

definition resend_one ::
    "nat \<Rightarrow> prims \<Rightarrow> 'n http \<Rightarrow> int \<Rightarrow> identity \<Rightarrow> str \<Rightarrow> str option \<Rightarrow> str \<times> int \<times> str \<Rightarrow> ('n client, int) meth" where
  "resend_one n P H now i contact_name route = (\<lambda>(msg_id, pending_seq, body).
     let deliver = (\<lambda>outer. m_catch (m_bind (deliver_encrypted n P H now i outer route True True) (\<lambda>_. m_return True))
           is_runtime_error (\<lambda>e. m_return False));
         settle = (\<lambda>mid. m_bind (on_store (mark_outbound_delivered contact_name mid)) (\<lambda>hit.
           m_return (if hit then 1 else 0))) in
     m_bind (on_store (m_read (load_outbound_outer contact_name msg_id))) (\<lambda>stored. case stored of
       Some outer \<Rightarrow> m_bind (deliver outer) (\<lambda>ok. if ok then settle msg_id else m_return 0)
     | None \<Rightarrow>
         m_bind (m_modify (\<lambda>s. s\<lparr>cl_contact := (cl_contact s)\<lparr>next_send_seq := pending_seq\<rparr>\<rparr>)) (\<lambda>_.
         m_bind (in_session (\<lambda>np nonce. encrypt_text P i np nonce now body)) (\<lambda>em. m_get (\<lambda>s.
         m_bind (on_store (atomic_commit_send P now (cl_contact s) (em_msg_id em) (seq (em_inner em)) body (em_outer em))) (\<lambda>_.
         m_bind (deliver (em_outer em)) (\<lambda>ok. if \<not> ok then m_return 0 else
         m_bind (if em_msg_id em \<noteq> msg_id
           then m_bind (on_store (mark_outbound_delivered contact_name msg_id)) (\<lambda>_. m_return ()) else m_return ()) (\<lambda>_.
         settle (em_msg_id em)))))))))"

definition resend_pending_for_contact ::
    "nat \<Rightarrow> prims \<Rightarrow> 'n http \<Rightarrow> int \<Rightarrow> identity \<Rightarrow> str \<Rightarrow> str option \<Rightarrow> ('n client, int) meth" where
  "resend_pending_for_contact n P H now i contact_name route =
     m_bind (load_or_fail P contact_name (ValueError (''unknown contact: '' @ contact_name))) (\<lambda>c.
     with_contact c (m_get (\<lambda>s.
       m_fold (\<lambda>row sent. m_bind (resend_one n P H now i contact_name route row) (\<lambda>k. m_return (sent + k)))
         (list_outbound_pending now contact_name (cl_store s)) 0)))"

section \<open>Fetching\<close>

text \<open>\<open>for item in response.json()\<close>; an item that is no dictionary has no \<open>get\<close>.\<close>

fun iter_json :: "json \<Rightarrow> json list res" where
  "iter_json (JList xs) = Inr xs"
| "iter_json (JObj d) = Inr (map (JStr \<circ> fst) d)"
| "iter_json (JStr s) = Inr (map (\<lambda>c. JStr [c]) s)"
| "iter_json _ = Inl (TypeError ''not iterable'')"

definition item_ciphertext :: "json \<Rightarrow> str res" where
  "item_ciphertext item = and_then (jobj item) (\<lambda>d. jstr (jget_default d ''ciphertext'' (JStr [])))"

fun fetch_direct_blobs :: "prims \<Rightarrow> 'n http \<Rightarrow> str \<Rightarrow> str list \<Rightarrow> ('n client, json) meth" where
  "fetch_direct_blobs P H tag_text [] = m_return (JList [])"
| "fetch_direct_blobs P H tag_text (hint # hints) = m_get (\<lambda>s.
     m_bind (m_catch
         (m_bind (yakr_get P H (rstrip_slash hint @ ''/v1/direct/blobs/'' @ tag_text) (Some (cl_contact s))) (\<lambda>reply.
           if hs_status reply = 200 then m_of (and_then (reply_json reply) (\<lambda>j. Inr (Some j))) else m_return None))
         (\<lambda>e. is_http_error e \<or> is_value_error e) (\<lambda>e. m_return None)) (\<lambda>found.
     case found of Some j \<Rightarrow> m_return j | None \<Rightarrow> fetch_direct_blobs P H tag_text hints))"

text \<open>The first item of each ciphertext.\<close>

definition merge_items :: "str list \<Rightarrow> json list \<Rightarrow> (str list \<times> json list) res" where
  "merge_items seen items = fold_res (\<lambda>item (seen, done). and_then (item_ciphertext item) (\<lambda>ct.
     Inr (if ct \<in> set seen then (seen, done) else (seen @ [ct], done @ [item])))) items (seen, [])"

definition poll_relay ::
    "prims \<Rightarrow> 'n http \<Rightarrow> int \<Rightarrow> identity \<Rightarrow> str \<Rightarrow> str \<Rightarrow> ('n client, http_reply) meth" where
  "poll_relay P H now i tag_text base =
     m_bind (relay_name_for_url P base None ''relay'') (\<lambda>relay_name.
     m_bind (relay_capability_context P H now base None) (\<lambda>auth. m_get (\<lambda>s. let c = cl_contact s in
     if legacy_get_fetch (cl_env s)
     then yakr_get P H (rstrip_slash base @ ''/v1/blobs/'' @ tag_text) (Some c)
     else
       let payload = JObj [(''mailbox_tags'', JList [JStr tag_text])];
           payload = (case (auth, client_ticket P now (cl_env s) i c relay_name ''fetch'') of
             (None, Some t) \<Rightarrow> with_item ''ticket'' (JStr t) payload | _ \<Rightarrow> payload);
           body = utf8 (json_default payload) in
       m_bind (case auth of None \<Rightarrow> m_return []
         | Some a \<Rightarrow> m_bind (ensure_capability_session P H now base relay_name i a [''fetch''] None) (\<lambda>session.
             capability_headers_for_request P now session ''POST'' ''/v1/fetch'' body)) (\<lambda>headers.
       yakr_post P H (rstrip_slash base @ ''/v1/fetch'') (Some c) (json_headers @ headers) body))))"

definition polled_items :: "str list \<Rightarrow> http_reply \<Rightarrow> (str list \<times> json list) res" where
  "polled_items seen reply =
     (if hs_status reply \<noteq> 200 then Inr (seen, []) else
      and_then (and_then (reply_json reply) iter_json) (merge_items seen))"

definition fetch_relay_blobs ::
    "prims \<Rightarrow> 'n http \<Rightarrow> int \<Rightarrow> identity \<Rightarrow> str \<Rightarrow> str list \<Rightarrow> ('n client, json list) meth" where
  "fetch_relay_blobs P H now i tag_text fetch_bases =
     m_bind (m_fold (\<lambda>base (seen, items).
       m_bind (m_catch (m_bind (poll_relay P H now i tag_text base) (\<lambda>reply. m_of (polled_items seen reply)))
         (\<lambda>e. is_http_error e \<or> is_value_error e) (\<lambda>e. m_return (seen, []))) (\<lambda>(seen, new).
       m_return (seen, items @ new))) fetch_bases ([], [])) (\<lambda>(seen, items). m_return items)"

end
