(* ===== verification/DrainLoop.thy ===== *)
theory DrainLoop
  imports Effects
begin

text \<open>
  The loop by which the three clients (command line, mobile, mesh participant) drain a mailbox:

    \<^verbatim>\<open>while pending: (one pass); if not progressed: break; pending = still_pending\<close>

  The model counts rounds. A pass that progressed leaves fewer items, so as many rounds as items are
  enough, and the counted loop satisfies the equation of the \<open>while\<close> loop.
\<close>

locale drain_loop =
  fixes pass :: "'i list \<Rightarrow> ('s, bool \<times> 'i list \<times> 'b) meth"
    and rounds :: "nat \<Rightarrow> 'i list \<Rightarrow> 'a \<Rightarrow> ('s, 'a) meth"
    and add :: "'a \<Rightarrow> 'b \<Rightarrow> 'a"
  assumes no_round: "rounds 0 pending x = m_return x"
    and one_round: "rounds (Suc k) pending x = (if pending = [] then m_return x else
      m_bind (pass pending) (\<lambda>(progressed, still, new).
        if progressed then rounds k still (add x new) else m_return (add x new)))"
    and pass_shrinks: "pass pending s = (Inr (True, still, new), t) \<Longrightarrow> length still < length pending"
begin

lemma nothing_pending: "rounds k [] x s = (Inr x, s)"
  by (cases k) (simp_all add: no_round one_round)

lemma fuel_enough:
  "length pending \<le> k \<Longrightarrow> length pending \<le> m \<Longrightarrow> rounds k pending x s = rounds m pending x s"
proof (induction k arbitrary: m pending x s)
  case 0
  then show ?case by (simp add: nothing_pending)
next
  case (Suc k)
  show ?case
  proof (cases "pending = []")
    case False
    with Suc.prems(2) obtain m' where m: "m = Suc m'" by (cases m) auto
    have "rounds k still y u = rounds m' still y u" if "pass pending s = (Inr (True, still, new), u)" for still new y u
      using pass_shrinks [OF that] Suc.prems m by (intro Suc.IH) simp_all
    with False show ?thesis by (auto simp: m one_round m_bind_def split: prod.splits sum.splits)
  qed (simp add: nothing_pending)
qed

lemma while_equation:
  "rounds (length pending) pending x s = (if pending = [] then (Inr x, s) else
     m_bind (pass pending) (\<lambda>(progressed, still, new).
       if progressed then rounds (length still) still (add x new) else m_return (add x new)) s)"
proof (cases pending)
  case (Cons i rest)
  have "rounds (length rest) still y u = rounds (length still) still y u"
    if "pass (i # rest) s = (Inr (True, still, new), u)" for still new y u
    using pass_shrinks [OF that] by (intro fuel_enough) simp_all
  with Cons show ?thesis by (auto simp: one_round m_bind_def split: prod.splits sum.splits)
qed (simp add: no_round)

end

end
