(* ===== verification/Inbox.thy ===== *)
theory Inbox
  imports Network DrainLoop
begin

text \<open>
  The commands of the CLI client that change its state: delivery receipts
  (\<open>receipt_cmds.py\<close>, \<open>receipt_apply.py\<close>), fetching and applying what a contact sent
  (\<open>fetch_cmds.py\<close>), presence (\<open>presence_cmds.py\<close>) and publishing a profile
  (\<open>profile_cmds.py\<close>). What they print is left out.
\<close>

section \<open>Receipts\<close>

definition has_outbound_pending :: "int \<Rightarrow> str \<Rightarrow> str \<Rightarrow> store \<Rightarrow> bool" where
  "has_outbound_pending now contact_name mid s \<longleftrightarrow>
     (\<exists>(m, n, body) \<in> set (list_outbound_pending now contact_name s). m = mid)"

definition apply_inbound_delivery_receipt :: "str \<Rightarrow> inner_message \<Rightarrow> (store, bool) meth" where
  "apply_inbound_delivery_receipt contact_name inner =
     (if im_type inner \<noteq> JStr ''receipt'' \<or> \<not> jtruthy (im_message_id inner) then m_return False
      else m_bind (m_of (jtext (im_message_id inner))) (mark_outbound_delivered contact_name))"

definition restore_ratchet_snapshot :: "json \<Rightarrow> ('n client, unit) meth" where
  "restore_ratchet_snapshot snapshot = m_bind (m_of (ratchet_from_dict snapshot)) (\<lambda>r.
     m_modify (\<lambda>s. s\<lparr>cl_contact := (cl_contact s)\<lparr>c_ratchet := Some r\<rparr>\<rparr>))"

definition persist_contact :: "prims \<Rightarrow> ('n client, unit) meth" where
  "persist_contact P = m_get (\<lambda>s. on_store (atomic_persist_contact P (cl_contact s)))"

text \<open>
  The receipt is sent over the path of a text, and its ratchet step is taken back: the
  snapshot of before is restored and only the next sequence number stays.
\<close>

definition send_delivery_receipt ::
    "nat \<Rightarrow> prims \<Rightarrow> 'n http \<Rightarrow> int \<Rightarrow> identity \<Rightarrow> str \<Rightarrow> str \<Rightarrow> str option \<Rightarrow> ('n client, bool) meth" where
  "send_delivery_receipt n P H now i contact_name delivered_id route =
     m_bind (load_or_fail P contact_name (ValueError (''unknown contact: '' @ contact_name))) (\<lambda>c.
     with_contact c (
       m_bind (m_of (session_new c)) (\<lambda>_.
       m_bind (m_of (case c_ratchet c of None \<Rightarrow> Inl (ValueError ''contact missing ratchet state'')
           | Some r \<Rightarrow> Inr (ratchet_to_dict r))) (\<lambda>snapshot.
       m_bind (in_session (\<lambda>np nonce. encrypt_receipt P i np nonce now delivered_id)) (\<lambda>receipt.
       m_bind (restore_ratchet_snapshot snapshot) (\<lambda>_.
       m_bind (persist_contact P) (\<lambda>_.
       m_catch
         (m_bind (deliver_encrypted n P H now i (em_outer receipt) None False True) (\<lambda>_.
          m_bind (on_store (delete_pending_receipt contact_name delivered_id)) (\<lambda>_. m_return True)))
         (\<lambda>e. is_runtime_error e \<or> is_http_error e \<or> is_value_error e)
         (\<lambda>e. m_bind (restore_ratchet_snapshot snapshot) (\<lambda>_.
           m_bind (m_modify (\<lambda>s. s\<lparr>cl_contact := (cl_contact s)\<lparr>next_send_seq := next_send_seq c\<rparr>\<rparr>)) (\<lambda>_.
           m_bind (persist_contact P) (\<lambda>_.
           m_bind (on_store (save_pending_receipt now contact_name delivered_id route)) (\<lambda>_.
           m_return False))))))))))))"

definition flush_pending_receipts ::
    "nat \<Rightarrow> prims \<Rightarrow> 'n http \<Rightarrow> int \<Rightarrow> identity \<Rightarrow> str option \<Rightarrow> str option \<Rightarrow> ('n client, int) meth" where
  "flush_pending_receipts n P H now i contact_name route = m_get (\<lambda>s.
     m_fold (\<lambda>(name, delivered_id, stored_route) sent.
       m_bind (send_delivery_receipt n P H now i name delivered_id (if route \<noteq> None then route else stored_route))
         (\<lambda>ok. m_return (if ok then sent + 1 else sent)))
       (list_pending_receipts contact_name (cl_store s)) 0)"

section \<open>Applying one inbound blob\<close>

definition save_cl_contact :: "prims \<Rightarrow> ('n client, unit) meth" where
  "save_cl_contact P = m_get (\<lambda>s. on_store (save_contact P (cl_contact s)))"

definition apply_profile_message :: "prims \<Rightarrow> int \<Rightarrow> inner_message \<Rightarrow> ('n client, unit) meth" where
  "apply_profile_message P now inner = m_bind (m_of (profile_from_b64 P (im_body inner))) (\<lambda>profile. m_get (\<lambda>s.
     m_bind (m_catch (on_contact (apply_delivery_profile_update P profile (c_signing_public (cl_contact s)) now))
       is_value_error (\<lambda>e. m_return ())) (\<lambda>_.
     save_cl_contact P)))"

definition apply_receipt_message :: "prims \<Rightarrow> str \<Rightarrow> inner_message \<Rightarrow> ('n client, unit) meth" where
  "apply_receipt_message P contact_name inner =
     m_bind (on_store (apply_inbound_delivery_receipt contact_name inner)) (\<lambda>_.
     m_bind (m_of (jtext (im_message_id inner))) (\<lambda>mid. m_get (\<lambda>s.
     m_bind (on_store (record_profile_ack_on_receipt (cl_contact s) contact_name mid)) (\<lambda>c.
     m_bind (m_modify (\<lambda>s. s\<lparr>cl_contact := c\<rparr>)) (\<lambda>_.
     save_cl_contact P)))))"

text \<open>\<open>_refresh_contact_send_state\<close>: the send side as the nested receipt left it on disk.\<close>

definition refresh_contact_send_state :: "prims \<Rightarrow> ('n client, unit) meth" where
  "refresh_contact_send_state P = m_get (\<lambda>s. m_bind (on_store (get_contact P (c_name (cl_contact s)))) (\<lambda>persisted.
     case persisted of None \<Rightarrow> m_return ()
     | Some p \<Rightarrow> m_modify (\<lambda>s. s\<lparr>cl_contact := (cl_contact s)
         \<lparr>next_send_seq := next_send_seq p, c_ratchet := c_ratchet p\<rparr>\<rparr>)))"

definition apply_text_message ::
    "nat \<Rightarrow> prims \<Rightarrow> 'n http \<Rightarrow> int \<Rightarrow> identity \<Rightarrow> str \<Rightarrow> outer_blob \<Rightarrow> inner_message \<Rightarrow> ('n client, unit) meth" where
  "apply_text_message n P H now i contact_name outer inner =
     (let delivered_id = message_id P (ob_ciphertext outer) in
     m_bind (draw 24) (\<lambda>nonce. m_get (\<lambda>s.
     m_bind (on_store (atomic_commit_receive_text P nonce i now (cl_contact s) inner (Some delivered_id) None)) (\<lambda>_.
     m_bind (send_delivery_receipt n P H now i contact_name delivered_id None) (\<lambda>_.
     m_bind (refresh_contact_send_state P) (\<lambda>_.
     save_cl_contact P))))))"

text \<open>What one pass does with an item: kept for the next pass, dropped, or applied.\<close>

datatype item_fate = Postponed | Dropped | Applied bool  \<comment> \<open>whether it was a text\<close>

fun is_duplicate_seq :: "exn \<Rightarrow> bool" where
  "is_duplicate_seq (DuplicateSeqError _) = True"
| "is_duplicate_seq _ = False"

definition decrypt_item :: "prims \<Rightarrow> int \<Rightarrow> outer_blob \<Rightarrow> ('n client, item_fate + inner_message) meth" where
  "decrypt_item P now outer = m_bind (draw 32) (\<lambda>np.
     m_catch (m_bind (on_contact (decrypt_inbound P np now outer)) (\<lambda>inner. m_return (Inr inner)))
       is_yakr_error (\<lambda>e. m_return (Inl (if is_duplicate_seq e then Postponed else Dropped))))"

definition process_item ::
    "nat \<Rightarrow> prims \<Rightarrow> 'n http \<Rightarrow> int \<Rightarrow> identity \<Rightarrow> str \<Rightarrow> json \<Rightarrow> ('n client, item_fate) meth" where
  "process_item n P H now i contact_name item =
     m_bind (m_of (from_relay_json item)) (\<lambda>outer.
     m_bind (decrypt_item P now outer) (\<lambda>r. case r of Inl fate \<Rightarrow> m_return fate
     | Inr inner \<Rightarrow>
       if im_type inner = JStr ''profile'' \<and> im_body inner \<noteq> []
       then m_bind (apply_profile_message P now inner) (\<lambda>_. m_return (Applied False)) else m_get (\<lambda>s.
       m_bind (m_catch (on_store (apply_presence_message now (cl_contact s) inner)) is_yakr_error (\<lambda>e. m_return None)) (\<lambda>presence.
       if presence \<noteq> None then m_bind (save_cl_contact P) (\<lambda>_. m_return (Applied False))
       else if im_type inner = JStr ''receipt'' \<and> jtruthy (im_message_id inner)
       then m_bind (apply_receipt_message P contact_name inner) (\<lambda>_. m_return (Applied False))
       else if im_type inner \<noteq> JStr ''text'' then m_return (Applied False)
       else m_bind (apply_text_message n P H now i contact_name outer inner) (\<lambda>_. m_return (Applied True))))))"

section \<open>Fetching from one contact\<close>

text \<open>One pass over the pending items: whether it progressed, what is left, how many texts.\<close>

fun drain_pass ::
    "nat \<Rightarrow> prims \<Rightarrow> 'n http \<Rightarrow> int \<Rightarrow> identity \<Rightarrow> str \<Rightarrow> json list \<Rightarrow> ('n client, bool \<times> json list \<times> int) meth" where
  "drain_pass n P H now i contact_name [] = m_return (False, [], 0)"
| "drain_pass n P H now i contact_name (item # items) =
     m_bind (process_item n P H now i contact_name item) (\<lambda>fate.
     m_bind (drain_pass n P H now i contact_name items) (\<lambda>(progressed, still, fetched).
     m_return (case fate of
       Postponed \<Rightarrow> (progressed, item # still, fetched)
     | Dropped \<Rightarrow> (progressed, still, fetched)
     | Applied is_text \<Rightarrow> (True, still, if is_text then fetched + 1 else fetched))))"

text \<open>\<open>while pending\<close>: every pass that goes on leaves fewer items, so their number is fuel enough.\<close>

fun drain_rounds ::
    "nat \<Rightarrow> nat \<Rightarrow> prims \<Rightarrow> 'n http \<Rightarrow> int \<Rightarrow> identity \<Rightarrow> str \<Rightarrow> json list \<Rightarrow> int \<Rightarrow> ('n client, int) meth" where
  "drain_rounds 0 n P H now i contact_name pending fetched = m_return fetched"
| "drain_rounds (Suc k) n P H now i contact_name pending fetched =
     (if pending = [] then m_return fetched else
      m_bind (drain_pass n P H now i contact_name pending) (\<lambda>(progressed, still, new).
      if progressed then drain_rounds k n P H now i contact_name still (fetched + new)
      else m_return (fetched + new)))"

lemma drain_pass_shrinks:
  "drain_pass n P H now i name items s = (Inr (progressed, still, k), t) \<Longrightarrow>
   length still + (if progressed then 1 else 0) \<le> length items"
proof (induction items arbitrary: s progressed still k)
  case (Cons item items)
  from Cons.prems obtain fate u p st j where pass: "drain_pass n P H now i name items u = (Inr (p, st, j), t)"
    and fate: "(case fate of
       Postponed \<Rightarrow> (p, item # st, j) | Dropped \<Rightarrow> (p, st, j)
     | Applied is_text \<Rightarrow> (True, st, if is_text then j + 1 else j)) = (progressed, still, k)"
    by (auto simp: m_bind_Inr)
  from Cons.IH [OF pass] fate show ?case by (auto split: item_fate.splits if_splits)
qed simp

interpretation inbox_loop: drain_loop "drain_pass n P H now i name" "\<lambda>k. drain_rounds k n P H now i name" "(+)"
  by unfold_locales (auto dest: drain_pass_shrinks)

definition stored_at_of :: "json \<Rightarrow> int res" where
  "stored_at_of item = and_then (jobj item) (\<lambda>d. jint (jget_default d ''stored_at'' (JInt 0)))"

definition fetch_queue :: "json list \<Rightarrow> json list res" where
  "fetch_queue items = and_then (merge_items [] items) (\<lambda>(_, queue).
     and_then (map_res stored_at_of queue) (\<lambda>ats. Inr (map snd (sort_key fst (zip ats queue)))))"

definition fetch_tag ::
    "nat \<Rightarrow> prims \<Rightarrow> 'n http \<Rightarrow> int \<Rightarrow> identity \<Rightarrow> str \<Rightarrow> str list \<Rightarrow> str list \<Rightarrow> str list \<Rightarrow> mailbox_tag \<Rightarrow>
     int \<times> privacy_metrics \<Rightarrow> ('n client, int \<times> privacy_metrics) meth" where
  "fetch_tag n P H now i contact_name real_tags hints bases t = (\<lambda>(fetched, metrics).
     let tag_text = b64encode (tag t) in
     m_bind (if hints = [] then m_return [] else
       m_bind (fetch_direct_blobs P H tag_text hints) (\<lambda>j. m_of (iter_json j))) (\<lambda>direct.
     m_bind (fetch_relay_blobs P H now i tag_text bases) (\<lambda>relayed.
     m_bind (m_of (map_res item_ciphertext relayed)) (\<lambda>cts.
     let metrics = fold (\<lambda>ct. record_fetch (int (length ct)) (tag_text \<notin> set real_tags)) cts metrics in
     m_bind (m_of (fetch_queue (direct @ relayed))) (\<lambda>queue.
     m_bind (drain_rounds (length queue) n P H now i contact_name queue 0) (\<lambda>new.
     m_return (fetched + new, metrics)))))))"

definition MAILBOX_LOOKBACK :: nat where "MAILBOX_LOOKBACK = 2"

definition fetch_contact_inbound ::
    "nat \<Rightarrow> prims \<Rightarrow> 'n http \<Rightarrow> int \<Rightarrow> identity \<Rightarrow> str \<Rightarrow> str option \<Rightarrow> bool \<Rightarrow> ('n client, int) meth" where
  "fetch_contact_inbound n P H now i contact_name route wide =
     m_bind (load_or_fail P contact_name (ContactNotFoundError (''unknown contact: '' @ contact_name))) (\<lambda>c.
     with_contact c (
       m_bind (m_of (session_new c)) (\<lambda>_.
       m_bind (flush_pending_receipts n P H now i (Some contact_name) route) (\<lambda>_.
       let deriver = mailbox_deriver P i c False; dir = recv_direction i c in
       m_bind (m_of (fetch_tags_for_mode P deriver dir (privacy_mode c)
         (derive_mailbox_secret P (master_secret c) dir) MAILBOX_LOOKBACK now)) (\<lambda>tags.
       m_bind (m_of (candidate_epochs P deriver dir MAILBOX_LOOKBACK now)) (\<lambda>real.
       let resolved = (if route = None \<or> route = Some ''auto'' then None else route);
           hints = (case c_profile c of None \<Rightarrow> [] | Some p \<Rightarrow> dp_direct_hints p) in
       m_bind (fetch_mailbox_urls P now c resolved wide) (\<lambda>bases.
       m_bind (on_store (m_read load_privacy_metrics)) (\<lambda>metrics.
       m_bind (m_fold (fetch_tag n P H now i contact_name (map (b64encode \<circ> tag) real) hints bases) tags (0, metrics))
         (\<lambda>(fetched, metrics).
       m_bind (on_store (save_privacy_metrics metrics)) (\<lambda>_. m_return fetched))))))))))"

definition fetch_all_contacts ::
    "nat \<Rightarrow> prims \<Rightarrow> 'n http \<Rightarrow> int \<Rightarrow> identity \<Rightarrow> str option \<Rightarrow> bool \<Rightarrow> ('n client, int \<times> int) meth" where
  "fetch_all_contacts n P H now i route wide =
     m_bind (on_store (sweep_expired_messages now)) (\<lambda>_.
     m_bind (on_store (sweep_expired_outbound now)) (\<lambda>_. m_get (\<lambda>s.
     m_fold (\<lambda>name (total, with_mail).
       m_bind (m_catch (m_bind (fetch_contact_inbound n P H now i name route wide) (\<lambda>k. m_return (Some k)))
         is_value_error (\<lambda>e. m_return None)) (\<lambda>r.
       m_return (case r of
         Some k \<Rightarrow> if k > 0 then (total + k, with_mail + 1) else (total, with_mail)
       | None \<Rightarrow> (total, with_mail)))) (list_contacts (cl_store s)) (0, 0))))"

end
