(* ===== verification/Publish.thy ===== *)
theory Publish
  imports Inbox
begin

text \<open>
  What a client tells its contacts about its relays: presence (\<open>presence_cmds.py\<close>) and its
  delivery profile (\<open>profile_cmds.py\<close>).
\<close>

section \<open>Presence\<close>

definition relay_urls_of :: "delivery_profile \<Rightarrow> (str \<times> str) list" where
  "relay_urls_of p = dict_of (map (\<lambda>d. (rd_name d, rd_url d)) (dp_relays p))"

definition relay_locations_changed :: "delivery_profile option \<Rightarrow> delivery_profile \<Rightarrow> bool" where
  "relay_locations_changed old new = (case old of None \<Rightarrow> dp_relays new \<noteq> []
     | Some p \<Rightarrow> set (relay_urls_of p) \<noteq> set (relay_urls_of new))"

definition own_presence_payloads :: "prims \<Rightarrow> int \<Rightarrow> identity \<Rightarrow> store \<Rightarrow> presence_payload list res" where
  "own_presence_payloads P now i s = and_then (load_local_profile P s) (\<lambda>local. Inr (case local of None \<Rightarrow> []
     | Some p \<Rightarrow> map (\<lambda>d. presence_for_operator (rd_name d) (rd_url d) True now)
         (filter (\<lambda>d. rd_name d = id_name i) (dp_relays p))))"

text \<open>One payload to one contact: \<open>cl_contact\<close> is saved before the delivery is tried.\<close>

definition push_presence ::
    "nat \<Rightarrow> prims \<Rightarrow> 'n http \<Rightarrow> int \<Rightarrow> identity \<Rightarrow> presence_payload \<Rightarrow> int \<Rightarrow> ('n client, int) meth" where
  "push_presence n P H now i payload delivered =
     m_bind (in_session (\<lambda>np nonce. encrypt_presence P i np nonce now payload)) (\<lambda>em.
     m_bind (save_cl_contact P) (\<lambda>_.
     m_catch (m_bind (deliver_encrypted n P H now i (em_outer em) None True True) (\<lambda>_. m_return (delivered + 1)))
       is_runtime_error (\<lambda>e. m_return delivered)))"

definition broadcast_presence ::
    "nat \<Rightarrow> prims \<Rightarrow> 'n http \<Rightarrow> int \<Rightarrow> identity \<Rightarrow> presence_payload list \<Rightarrow> str option \<Rightarrow> ('n client, int) meth" where
  "broadcast_presence n P H now i payloads contact_name =
     (if payloads = [] then m_return 0 else m_get (\<lambda>s.
     let targets = (case contact_name of Some (ch # name) \<Rightarrow> [ch # name] | _ \<Rightarrow> list_contacts (cl_store s)) in
     m_bind (m_fold (\<lambda>name delivered. m_bind (on_store (get_contact P name)) (\<lambda>c. case c of
         None \<Rightarrow> m_return delivered
       | Some c \<Rightarrow> with_contact c (m_bind (m_of (session_new c)) (\<lambda>_.
           m_fold (push_presence n P H now i) payloads delivered)))) targets 0) (\<lambda>delivered.
     m_bind (m_fold (\<lambda>payload _. on_store (save_presence now payload (id_name i))) payloads ()) (\<lambda>_.
     m_return delivered))))"

definition publish_own_presence ::
    "nat \<Rightarrow> prims \<Rightarrow> 'n http \<Rightarrow> int \<Rightarrow> identity \<Rightarrow> str option \<Rightarrow> bool \<Rightarrow> ('n client, int) meth" where
  "publish_own_presence n P H now i contact_name quiet =
     m_bind (on_store (m_read (own_presence_payloads P now i))) (\<lambda>payloads. m_get (\<lambda>s.
     let url = rstrip_slash (getenv (cl_env s) ''YAKR_RELAY_URL'' []);
         name = getenv (cl_env s) ''YAKR_RELAY_NAME'' (id_name i);
         payloads = (if payloads = [] \<and> \<not> quiet \<and> url \<noteq> []
           then [presence_for_operator name url True now] else payloads) in
     broadcast_presence n P H now i payloads contact_name))"

section \<open>Delivery profiles\<close>

text \<open>
  The identity may be given a TLS key on the way; it is returned. The key of a self-operated
  relay is drawn after its wrap secret.
\<close>

definition authorized_descriptors ::
    "prims \<Rightarrow> identity \<Rightarrow> ('n client, relay_descriptor list \<times> identity) meth" where
  "authorized_descriptors P i =
     m_bind (on_store (each_contact P (\<lambda>name c cs. Inr (cs @ [c])) [])) (\<lambda>contacts. m_get (\<lambda>s.
     let url = getenv (cl_env s) ''YAKR_RELAY_URL'' []; name = getenv (cl_env s) ''YAKR_RELAY_NAME'' (id_name i) in
     m_bind (if url = [] then m_return (None, i) else
       m_bind (draw 32) (\<lambda>wrap_secret. m_bind (draw 32) (\<lambda>fresh.
       m_return (self_relay_descriptor P fresh i url name wrap_secret)))) (\<lambda>(self_relay, i').
     m_bind (m_of (authorized_publish_relays (id_name i) contacts self_relay)) (\<lambda>ds. m_return (ds, i')))))"

definition make_profile ::
    "prims \<Rightarrow> int \<Rightarrow> identity \<Rightarrow> relay_descriptor list \<Rightarrow> str option \<Rightarrow> int option \<Rightarrow>
     ('n client, delivery_profile \<times> identity) meth" where
  "make_profile P now i ds direct_hint version =
     m_bind (m_of (assert_publish_relays_allowed ds ds)) (\<lambda>_. m_bind (draw 32) (\<lambda>fresh.
     m_return (create_delivery_profile P fresh i ds (case direct_hint of None \<Rightarrow> [] | Some h \<Rightarrow> if h = [] then [] else [h])
       3600 [] [] ''minimal'' DEFAULT_PROFILE_TTL_MS version now)))"

definition build_local_profile ::
    "prims \<Rightarrow> int \<Rightarrow> identity \<Rightarrow> str option \<Rightarrow> int option \<Rightarrow> ('n client, delivery_profile \<times> identity) meth" where
  "build_local_profile P now i direct_hint version =
     m_bind (authorized_descriptors P i) (\<lambda>(ds, i'). m_get (\<lambda>s.
     m_bind (m_of (attach_profile_capability_fields P (cl_store s) ds)) (\<lambda>ds.
     make_profile P now i' ds direct_hint version)))"

definition profile_publish ::
    "nat \<Rightarrow> prims \<Rightarrow> 'n http \<Rightarrow> int \<Rightarrow> identity \<Rightarrow> nat option \<Rightarrow> bool \<Rightarrow> ('n client, delivery_profile) meth" where
  "profile_publish n P H now i direct_port bump_version =
     m_bind (on_store (m_read (load_local_profile P))) (\<lambda>current.
     let version = (case current of None \<Rightarrow> 1
           | Some p \<Rightarrow> if bump_version then dp_version p + 1 else dp_version p);
         direct_hint = map_option (\<lambda>port. ''http://127.0.0.1:'' @ str_of_nat port) direct_port in
     m_bind (authorized_descriptors P i) (\<lambda>(ds, i').
     m_bind (if bump_version then enrich_profile_capability_descriptors P ds
       else on_store (m_read (\<lambda>s. attach_profile_capability_fields P s ds))) (\<lambda>ds.
     m_bind (make_profile P now i' ds direct_hint (Some version)) (\<lambda>(profile, i'').
     m_bind (on_store (save_local_profile P profile)) (\<lambda>_.
     m_bind (sync_profile_capability_grants P H now i'' profile) (\<lambda>_.
     m_bind (if relay_locations_changed current profile
       then m_bind (publish_own_presence n P H now i'' None True) (\<lambda>_. m_return ()) else m_return ()) (\<lambda>_.
     m_return profile)))))))"

text \<open>
  \<open>profile_push\<close> names \<open>Session\<close>, which its module does not import: past the checks it raises.
  \<open>Exit\<close> is the exit of the command with code 1.
\<close>

definition profile_push :: "prims \<Rightarrow> int \<Rightarrow> identity \<Rightarrow> str \<Rightarrow> ('n client, unit) meth" where
  "profile_push P now i contact_name =
     m_bind (load_or_fail P contact_name (RuntimeError ''Exit'')) (\<lambda>c.
     m_bind (on_store (m_read (load_local_profile P))) (\<lambda>profile.
     m_bind (case profile of Some _ \<Rightarrow> m_return ()
       | None \<Rightarrow> m_bind (build_local_profile P now i None None) (\<lambda>(p, i'). on_store (save_local_profile P p))) (\<lambda>_.
     m_raise (NameError ''name Session is not defined''))))"

end
