(* ===== verification/Rendezvous.thy ===== *)
theory Rendezvous
  imports Publish
begin

text \<open>
  The two small servers a client can run, the rendezvous of an invite (\<open>rendezvous.py\<close>) and
  direct delivery (\<open>direct_server.py\<close>), and pairing over a relay (\<open>relay_pairing.py\<close>). A handler
  holds its lock throughout, so requests are taken one after another.
\<close>

section \<open>The rendezvous server\<close>

record rendezvous =
  rv_invite :: invite_bundle
  rv_identity :: identity
  rv_profile :: bytes
  rv_consumed :: bool
  rv_pending_ephemeral :: "bytes option"
  rv_contact :: "contact option"

definition new_rendezvous :: "invite_bundle \<Rightarrow> identity \<Rightarrow> bytes \<Rightarrow> rendezvous" where
  "new_rendezvous invite i profile = \<lparr>rv_invite = invite, rv_identity = i, rv_profile = profile,
     rv_consumed = False, rv_pending_ephemeral = None, rv_contact = None\<rparr>"

text \<open>
  \<open>e\<close> and \<open>r\<close> are the fresh ephemeral and ratchet keys. An exception that the handler does not
  turn into an HTTP status is an internal error of the server, and \<open>consumed\<close> stays false.
\<close>

definition rendezvous_pair ::
    "prims \<Rightarrow> bytes \<Rightarrow> bytes \<Rightarrow> int \<Rightarrow> str \<Rightarrow> (rendezvous, str) meth" where
  "rendezvous_pair P e r now body = m_get (\<lambda>s.
     if rv_consumed s then m_raise (HTTPException 409 ''invite already consumed'') else
     case and_then (urlsafe_b64decode (body @ b64_padding body)) (request_from_bytes P) of
       Inl _ \<Rightarrow> m_raise (HTTPException 400 ''invalid pairing request'')
     | Inr request \<Rightarrow>
         if pq_invite_secret request \<noteq> iv_secret (rv_invite s)
         then m_raise (HTTPException 403 ''invalid invite secret'') else
         m_bind (m_of (case verify_invite P (rv_invite s) now of
             Inl x \<Rightarrow> Inl (if is_value_error x then HTTPException 410 (exn_text x) else x) | Inr _ \<Rightarrow> Inr ())) (\<lambda>_.
         let key = (case rv_pending_ephemeral s of None \<Rightarrow> e | Some k \<Rightarrow> k) in
         m_bind (m_modify (\<lambda>s. s\<lparr>rv_pending_ephemeral := Some key\<rparr>)) (\<lambda>_.
         m_bind (m_of (inviter_complete_pairing P (rv_identity s) (rv_invite s) request key (rv_profile s) r now)) (\<lambda>(response, c).
         m_bind (m_modify (\<lambda>s. s\<lparr>rv_consumed := True, rv_contact := Some c\<rparr>)) (\<lambda>_.
         m_return (b64encode (response_to_bytes P response)))))))"

section \<open>The direct delivery server\<close>

record direct_server =
  ds_profile :: "delivery_profile option"
  ds_blobs :: "(str \<times> json) list"

definition direct_get_profile :: "prims \<Rightarrow> direct_server \<Rightarrow> json res" where
  "direct_get_profile P s = (case ds_profile s of
     None \<Rightarrow> Inl (HTTPException 404 ''profile not published'')
   | Some p \<Rightarrow> Inr (JObj [(''profile'', JStr (profile_to_b64 P p))]))"

definition direct_store_blob :: "str \<Rightarrow> int \<Rightarrow> str \<Rightarrow> direct_server \<Rightarrow> direct_server" where
  "direct_store_blob mailbox_tag expires_at ciphertext s =
     s\<lparr>ds_blobs := dict_put mailbox_tag (JObj [(''mailbox_tag'', JStr mailbox_tag),
        (''expires_at'', JInt expires_at), (''ciphertext'', JStr ciphertext)]) (ds_blobs s)\<rparr>"

definition direct_fetch_blob :: "str \<Rightarrow> direct_server \<Rightarrow> json list" where
  "direct_fetch_blob mailbox_tag s = (case map_of (ds_blobs s) mailbox_tag of None \<Rightarrow> [] | Some item \<Rightarrow> [item])"

section \<open>Pairing over a relay\<close>

text \<open>\<open>response.raise_for_status()\<close>.\<close>

definition raise_for_status :: "http_reply \<Rightarrow> unit res" where
  "raise_for_status reply = (if 200 \<le> hs_status reply \<and> hs_status reply < 300 then Inr ()
     else Inl (HttpError (str_of_int (hs_status reply))))"

definition reply_field :: "str \<Rightarrow> http_reply \<Rightarrow> json res" where
  "reply_field k reply = and_then (reply_json reply) (\<lambda>j. and_then (jobj j) (\<lambda>d. jget d k))"

definition relay_pin :: "invite_bundle \<Rightarrow> bytes option" where
  "relay_pin invite = (if iv_rendezvous_tls invite = [] then None else Some (iv_rendezvous_tls invite))"

definition pair_post ::
    "prims \<Rightarrow> 'n http \<Rightarrow> str \<Rightarrow> bytes option \<Rightarrow> json \<Rightarrow> ('n client, http_reply) meth" where
  "pair_post P H url pin payload =
     m_bind (yakr_request P H ''POST'' url None pin [] json_headers (utf8 (json_compact payload))) (\<lambda>reply.
     m_bind (m_of (raise_for_status reply)) (\<lambda>_. m_return reply))"

definition register_relay_pairing ::
    "prims \<Rightarrow> 'n http \<Rightarrow> str \<Rightarrow> bytes \<Rightarrow> bytes option \<Rightarrow> ('n client, str) meth" where
  "register_relay_pairing P H relay_url invite_secret pin =
     m_bind (pair_post P H (rstrip_slash relay_url @ ''/v1/pair/register'') pin
       (JObj [(''invite_secret'', JStr (b64encode invite_secret))])) (\<lambda>reply.
     m_of (and_then (reply_field ''invite_tag'' reply) jtext))"

text \<open>
  The polling loops: \<open>n\<close> is how often the clock is before the deadline. An answer 404 means
  not yet.
\<close>

fun poll_relay_pair ::
    "nat \<Rightarrow> prims \<Rightarrow> 'n http \<Rightarrow> str \<Rightarrow> bytes option \<Rightarrow> (http_reply \<Rightarrow> 'a res) \<Rightarrow> ('n client, 'a) meth" where
  "poll_relay_pair 0 P H url pin decode = m_raise (OSError ''timed out waiting on relay'')"
| "poll_relay_pair (Suc n) P H url pin decode =
     m_bind (yakr_request P H ''GET'' url None pin [] [] []) (\<lambda>reply.
     if hs_status reply = 200 then m_of (decode reply)
     else m_bind (m_of (if hs_status reply \<noteq> 404 then raise_for_status reply else Inr ())) (\<lambda>_.
       poll_relay_pair n P H url pin decode))"

definition poll_relay_pair_request ::
    "nat \<Rightarrow> prims \<Rightarrow> 'n http \<Rightarrow> str \<Rightarrow> str \<Rightarrow> bytes option \<Rightarrow> ('n client, pairing_request) meth" where
  "poll_relay_pair_request n P H relay_url invite_tag pin =
     poll_relay_pair n P H (rstrip_slash relay_url @ ''/v1/pair/pending/'' @ invite_tag) pin (\<lambda>reply.
       and_then (and_then (and_then (reply_field ''request'' reply) jstr) b64decode) (request_from_bytes P))"

definition post_relay_pair_request ::
    "prims \<Rightarrow> 'n http \<Rightarrow> str \<Rightarrow> pairing_request \<Rightarrow> bytes option \<Rightarrow> ('n client, str) meth" where
  "post_relay_pair_request P H relay_url request pin =
     m_bind (pair_post P H (rstrip_slash relay_url @ ''/v1/pair'') pin
       (JObj [(''request'', JStr (b64encode (request_to_bytes P request)))])) (\<lambda>reply.
     m_of (and_then (reply_field ''invite_tag'' reply) jstr))"

definition post_relay_pair_response ::
    "prims \<Rightarrow> 'n http \<Rightarrow> str \<Rightarrow> bytes \<Rightarrow> pairing_response \<Rightarrow> bytes option \<Rightarrow> ('n client, unit) meth" where
  "post_relay_pair_response P H relay_url invite_secret response pin =
     m_bind (pair_post P H (rstrip_slash relay_url @ ''/v1/pair/response'') pin
       (JObj [(''invite_secret'', JStr (b64encode invite_secret)),
              (''response'', JStr (b64encode (response_to_bytes P response)))])) (\<lambda>_. m_return ())"

definition poll_relay_pair_response ::
    "nat \<Rightarrow> prims \<Rightarrow> 'n http \<Rightarrow> str \<Rightarrow> str \<Rightarrow> bytes option \<Rightarrow> ('n client, pairing_response) meth" where
  "poll_relay_pair_response n P H relay_url invite_tag pin =
     poll_relay_pair n P H (rstrip_slash relay_url @ ''/v1/pair/'' @ invite_tag) pin (\<lambda>reply.
       and_then (and_then (and_then (reply_field ''response'' reply) jstr) b64decode) (response_from_bytes P))"

definition inviter_wait_on_relay ::
    "nat \<Rightarrow> prims \<Rightarrow> 'n http \<Rightarrow> int \<Rightarrow> str \<Rightarrow> identity \<Rightarrow> invite_bundle \<Rightarrow> bytes \<Rightarrow>
     ('n client, pairing_response \<times> contact) meth" where
  "inviter_wait_on_relay n P H now relay_url i invite inviter_profile = (let pin = relay_pin invite in
     m_bind (register_relay_pairing P H relay_url (iv_secret invite) pin) (\<lambda>invite_tag.
     m_bind (poll_relay_pair_request n P H relay_url invite_tag pin) (\<lambda>request.
     if pq_invite_secret request \<noteq> iv_secret invite
     then m_raise (ValueError ''pairing request invite secret mismatch'') else
     m_bind (draw 32) (\<lambda>e. m_bind (draw 32) (\<lambda>r.
     m_bind (m_of (inviter_complete_pairing P i invite request e inviter_profile r now)) (\<lambda>(response, c).
     m_bind (post_relay_pair_response P H relay_url (iv_secret invite) response pin) (\<lambda>_.
     m_return (response, c))))))))"

section \<open>What the servers promise\<close>

lemma rendezvous_pair_Inr:
  assumes "rendezvous_pair P e r now body s = (Inr answer, t)"
  obtains request key response c where "\<not> rv_consumed s" "pq_invite_secret request = iv_secret (rv_invite s)"
    "inviter_complete_pairing P (rv_identity s) (rv_invite s) request key (rv_profile s) r now = Inr (response, c)"
    "answer = b64encode (response_to_bytes P response)"
    "t = s\<lparr>rv_pending_ephemeral := Some key, rv_consumed := True, rv_contact := Some c\<rparr>"
  using assms unfolding rendezvous_pair_def
  by (auto simp: m_bind_Inr Let_def split: if_splits sum.splits prod.splits intro!: that)

lemma rendezvous_pair_Inl:
  assumes "rendezvous_pair P e r now body s = (Inl x, t)"
  shows "rv_consumed t = rv_consumed s" "rv_contact t = rv_contact s" "rv_invite t = rv_invite s" "rv_identity t = rv_identity s"
  using assms unfolding rendezvous_pair_def
  by (auto simp: m_bind_def Let_def split: if_splits sum.splits prod.splits)

fun rendezvous_run :: "prims \<Rightarrow> (bytes \<times> bytes \<times> int \<times> str) list \<Rightarrow> (rendezvous, str res list) meth" where
  "rendezvous_run P [] = m_return []"
| "rendezvous_run P ((e, r, now, body) # qs) = (\<lambda>s. case rendezvous_pair P e r now body s of
     (x, t) \<Rightarrow> (case rendezvous_run P qs t of (Inr xs, u) \<Rightarrow> (Inr (x # xs), u) | (Inl y, u) \<Rightarrow> (Inl y, u)))"

lemma rendezvous_run_total: "\<exists>xs t. rendezvous_run P qs s = (Inr xs, t) \<and> length xs = length qs"
proof (induction qs arbitrary: s)
  case (Cons q qs)
  obtain e r now body where q: "q = (e, r, now, body)" by (cases q)
  obtain x t where "rendezvous_pair P e r now body s = (x, t)" by fastforce
  with Cons [of t] show ?case unfolding q by auto
qed simp

lemma consumed_refuses:
  assumes "rv_consumed s" "rendezvous_run P qs s = (Inr xs, t)"
  shows "t = s \<and> (\<forall>x \<in> set xs. x = Inl (HTTPException 409 ''invite already consumed''))"
  using assms(2)
proof (induction qs arbitrary: xs)
  case (Cons q qs)
  obtain e r now body where q: "q = (e, r, now, body)" by (cases q)
  have "rendezvous_pair P e r now body s = (Inl (HTTPException 409 ''invite already consumed''), s)"
    using assms(1) by (simp add: rendezvous_pair_def)
  with Cons show ?case unfolding q by (auto split: prod.splits sum.splits)
qed simp

end
