(* ===== verification/Commands.thy ===== *)
theory Commands
  imports Rendezvous
begin

text \<open>
  The commands of the CLI (\<open>main.py\<close>, \<open>privacy_cmds.py\<close>, \<open>offline_cmds.py\<close>, \<open>invite_cmds.py\<close>,
  \<open>relay_wait_cmds.py\<close>): what they change; what they print is left out. \<open>typer.Exit\<close> is a
  \<open>RuntimeError\<close>. The random keys of an invite, an identity and the KEM are drawn from the tape;
  the libraries that make ML-KEM and ML-DSA keys are not modelled, so \<open>init_cmd\<close> takes those keys.
\<close>

section \<open>Identity, contacts, privacy\<close>

definition exit_error :: exn where "exit_error = RuntimeError ''Exit''"

definition require_identity :: "('n client, identity) meth" where
  "require_identity = m_bind (on_store load_identity) (\<lambda>i. m_of (opt_res exit_error i))"

definition init_cmd ::
    "prims \<Rightarrow> str option \<Rightarrow> bool \<Rightarrow> bytes \<times> bytes \<Rightarrow> bytes \<times> bytes \<Rightarrow> ('n client, unit) meth" where
  "init_cmd P name force kem pq = m_get (\<lambda>s.
     let given = (case name of Some (ch # n) \<Rightarrow> Some (ch # n) | _ \<Rightarrow> map_of (cl_env s) ''YAKR_NAME'') in
     case given of None \<Rightarrow> m_raise exit_error | Some [] \<Rightarrow> m_raise exit_error
     | Some resolved \<Rightarrow>
         m_bind (m_modify (\<lambda>s. s\<lparr>cl_env := dict_put ''YAKR_NAME'' resolved (cl_env s)\<rparr>)) (\<lambda>_. m_get (\<lambda>s.
         if identity_file (cl_store s) \<noteq> None \<and> \<not> force then m_raise exit_error else
         m_bind (draw 32) (\<lambda>signing. m_bind (draw 32) (\<lambda>agreement. m_bind (draw 32) (\<lambda>tls.
         on_store (save_identity P \<lparr>id_name = resolved, signing_private = signing, agreement_private = agreement,
           kem_public = fst kem, kem_private = snd kem, pq_signing_public = fst pq, pq_signing_private = snd pq,
           tls_ecdsa_private = Some tls\<rparr>)))))))"

text \<open>\<open>bundle\<close> is the JSON file of the contact, read and parsed.\<close>

definition contact_add_cmd :: "prims \<Rightarrow> str \<Rightarrow> (str \<times> str) list \<Rightarrow> ('n client, unit) meth" where
  "contact_add_cmd P name bundle = m_bind require_identity (\<lambda>i. m_bind (draw 32) (\<lambda>ratchet_private.
     m_bind (m_of (establish P ratchet_private i name bundle)) (\<lambda>c. on_store (save_contact P c))))"

definition privacy_set :: "prims \<Rightarrow> str \<Rightarrow> str \<Rightarrow> ('n client, unit) meth" where
  "privacy_set P contact_name mode = m_bind (load_or_fail P contact_name exit_error) (\<lambda>c.
     on_store (save_contact P (c\<lparr>privacy_mode := mode\<rparr>)))"

section \<open>Sending\<close>

text \<open>
  The dummy goes to the first of the tags, with \<open>httpx.post\<close> itself and so with the system's
  trust store instead of the relay's pin.
\<close>

definition send_dummy_blob ::
    "prims \<Rightarrow> 'n http \<Rightarrow> int \<Rightarrow> identity \<Rightarrow> str option \<Rightarrow> ('n client, unit) meth" where
  "send_dummy_blob P H now i route = m_get (\<lambda>s. let c = cl_contact s; dir = send_direction i c in
     m_bind (m_of (and_then (fetch_tags_for_mode P (mailbox_deriver P i c True) dir ''high''
         (derive_mailbox_secret P (master_secret c) dir) 0 now) (\<lambda>tags. Inr (hd tags)))) (\<lambda>decoy.
     m_bind (draw 24) (\<lambda>a. m_bind (draw (SIZE_4K - 40)) (\<lambda>b. m_bind (draw 16) (\<lambda>d.
     let outer = \<lparr>ob_version = 1, ob_tag = tag decoy, ob_expires_at = now + DEFAULT_BLOB_TTL_MS,
           ob_ciphertext = generate_dummy_ciphertext (\<lambda>k. if k = 24 then a else if k = 16 then d else b) SIZE_4K\<rparr> in
     m_bind (m_read (delivery_mailbox_urls P now c route)) (\<lambda>urls.
     m_bind (on_net (H \<lparr>hc_method = ''POST'', hc_url = hd urls @ ''/v1/blobs'', hc_check = SystemTrust,
       hc_headers = json_headers, hc_body = utf8 (json_compact (to_relay_json outer))\<rparr>)) (\<lambda>_. m_return ())))))))"

definition send_cmd ::
    "nat \<Rightarrow> prims \<Rightarrow> 'n http \<Rightarrow> int \<Rightarrow> str \<Rightarrow> str \<Rightarrow> str option \<Rightarrow> ('n client, str) meth" where
  "send_cmd n P H now contact_name message route = m_bind require_identity (\<lambda>i.
     m_bind (load_or_fail P contact_name (ContactNotFoundError (''unknown contact: '' @ contact_name))) (\<lambda>c.
     with_contact c (
       m_bind (in_session (\<lambda>np nonce. encrypt_text P i np nonce now message)) (\<lambda>em. m_get (\<lambda>s.
       m_bind (on_store (atomic_commit_send P now (cl_contact s) (em_msg_id em) (seq (em_inner em)) message (em_outer em))) (\<lambda>_.
       m_bind (deliver_encrypted n P H now i (em_outer em) route True True) (\<lambda>mode.
       m_bind (on_store (m_read load_privacy_metrics)) (\<lambda>metrics. m_get (\<lambda>s.
       let metrics = record_send (int (length (ob_ciphertext (em_outer em)))) (em_padding em) metrics in
       m_bind (if privacy_mode (cl_contact s) = ''high''
         then m_bind (send_dummy_blob P H now i route) (\<lambda>_.
           m_return (metrics\<lparr>dummy_blobs_sent := dummy_blobs_sent metrics + 1\<rparr>))
         else m_return metrics) (\<lambda>metrics.
       m_bind (on_store (save_privacy_metrics metrics)) (\<lambda>_. m_return mode)))))))))))"

definition fetch_cmd ::
    "nat \<Rightarrow> prims \<Rightarrow> 'n http \<Rightarrow> int \<Rightarrow> str option \<Rightarrow> bool \<Rightarrow> bool \<Rightarrow> str option \<Rightarrow> ('n client, int) meth" where
  "fetch_cmd n P H now contact_name all_contacts wide route = m_bind require_identity (\<lambda>i.
     if all_contacts then m_bind (fetch_all_contacts n P H now i route wide) (\<lambda>(total, _). m_return total) else
     case contact_name of None \<Rightarrow> m_raise exit_error
     | Some name \<Rightarrow>
         m_bind (on_store (sweep_expired_messages now)) (\<lambda>_.
         m_bind (on_store (sweep_expired_outbound now)) (\<lambda>_.
         fetch_contact_inbound n P H now i name route wide)))"

definition resend_cmd ::
    "nat \<Rightarrow> prims \<Rightarrow> 'n http \<Rightarrow> int \<Rightarrow> str \<Rightarrow> str option \<Rightarrow> ('n client, int) meth" where
  "resend_cmd n P H now contact_name route = m_bind require_identity (\<lambda>i.
     m_bind (load_or_fail P contact_name (ContactNotFoundError (''unknown contact: '' @ contact_name))) (\<lambda>_.
     resend_pending_for_contact n P H now i contact_name route))"

section \<open>Pairing\<close>

text \<open>The profile that goes into a pairing message; one is made and saved when there is none.\<close>

definition pairing_profile_bytes ::
    "prims \<Rightarrow> int \<Rightarrow> identity \<Rightarrow> str option \<Rightarrow> ('n client, bytes \<times> identity) meth" where
  "pairing_profile_bytes P now i direct_hint = m_bind (on_store (m_read (load_local_profile P))) (\<lambda>local.
     case local of Some p \<Rightarrow> m_return (profile_to_bytes P p, i)
     | None \<Rightarrow> m_bind (build_local_profile P now i direct_hint None) (\<lambda>(p, i').
         m_bind (on_store (save_local_profile P p)) (\<lambda>_. m_return (profile_to_bytes P p, i'))))"

definition OFFLINE_RENDEZVOUS_HINT :: str where "OFFLINE_RENDEZVOUS_HINT = ''offline://qr''"

text \<open>\<open>joiner-start\<close>: the invite's URL is given or read from its file.\<close>

definition joiner_start :: "prims \<Rightarrow> int \<Rightarrow> str \<Rightarrow> ('n client, str) meth" where
  "joiner_start P now invite_url = m_bind require_identity (\<lambda>i.
     m_bind (m_of (invite_from_url P invite_url)) (\<lambda>bundle.
     m_bind (m_of (verify_invite P bundle now)) (\<lambda>_.
     m_bind (pairing_profile_bytes P now i None) (\<lambda>(profile, i').
     m_bind (draw 32) (\<lambda>e. m_bind (draw 32) (\<lambda>r. m_bind (draw 32) (\<lambda>rnd.
     m_bind (m_of (build_offline_pairing_request P e r rnd i' bundle (Some (id_name i')) profile)) (\<lambda>(request, secrets, url).
     m_bind (on_store (save_pending_pairing (pending_session_from_request P invite_url request secrets))) (\<lambda>_.
     m_return url)))))))))"

text \<open>\<open>invite_text\<close>: what the invite file holds, if it exists.\<close>

definition inviter_respond :: "prims \<Rightarrow> int \<Rightarrow> str \<Rightarrow> str option \<Rightarrow> ('n client, str) meth" where
  "inviter_respond P now request_url invite_text = m_bind require_identity (\<lambda>i. case invite_text of
     None \<Rightarrow> m_raise exit_error
   | Some t \<Rightarrow>
       m_bind (m_of (invite_from_url P (py_strip t))) (\<lambda>bundle.
       m_bind (m_of (pair_request_from_url P request_url)) (\<lambda>request.
       m_bind (pairing_profile_bytes P now i None) (\<lambda>(profile, i').
       m_bind (draw 32) (\<lambda>e. m_bind (draw 32) (\<lambda>r.
       m_bind (m_of (respond_to_pair_request P i' bundle request e profile r now)) (\<lambda>(response, c, url).
       m_bind (on_store (save_contact P c)) (\<lambda>_. m_return url))))))))"

definition joiner_finish :: "prims \<Rightarrow> int \<Rightarrow> str \<Rightarrow> str option \<Rightarrow> ('n client, contact) meth" where
  "joiner_finish P now response_url name = m_bind require_identity (\<lambda>i.
     m_bind (on_store (m_read load_pending_pairing)) (\<lambda>session. case session of
       None \<Rightarrow> m_raise exit_error
     | Some p \<Rightarrow>
         m_bind (m_of (invite_from_url P (pp_invite_url p))) (\<lambda>bundle.
         m_bind (m_of (pair_request_from_url P (pp_request_url p))) (\<lambda>request.
         m_bind (m_of (pending_secrets p)) (\<lambda>secrets.
         m_bind (m_of (finish_offline_pairing P i bundle request secrets response_url name now)) (\<lambda>c.
         m_bind (on_store (save_contact P c)) (\<lambda>_.
         m_bind (on_store clear_pending_pairing) (\<lambda>_. m_return c))))))))"

text \<open>\<open>invite accept\<close>: the first request is \<open>httpx.post\<close> itself, without a pin.\<close>

definition invite_accept ::
    "nat \<Rightarrow> prims \<Rightarrow> 'n http \<Rightarrow> int \<Rightarrow> str \<Rightarrow> str option \<Rightarrow> ('n client, contact) meth" where
  "invite_accept n P H now invite name = m_bind require_identity (\<lambda>i.
     m_bind (m_of (invite_from_url P invite)) (\<lambda>bundle.
     m_bind (m_of (verify_invite P bundle now)) (\<lambda>_.
     if iv_rendezvous_hint bundle = OFFLINE_RENDEZVOUS_HINT then m_raise exit_error else
     m_bind (pairing_profile_bytes P now i None) (\<lambda>(profile, i').
     m_bind (draw 32) (\<lambda>e. m_bind (draw 32) (\<lambda>r. m_bind (draw 32) (\<lambda>rnd.
     m_bind (m_of (build_pairing_request P e r rnd i' bundle (id_name i') profile)) (\<lambda>(request, secrets).
     let base = rstrip_slash (iv_rendezvous_hint bundle) in
     m_bind (on_net (H \<lparr>hc_method = ''POST'', hc_url = base @ ''/v1/pair'', hc_check = SystemTrust, hc_headers = json_headers,
         hc_body = utf8 (json_compact (JObj [(''request'', JStr (b64encode (request_to_bytes P request)))]))\<rparr>)) (\<lambda>reply.
     if hs_status reply \<notin> {200, 202} then m_raise exit_error else
     m_bind (m_of (and_then (reply_json reply) jobj)) (\<lambda>payload.
     m_bind (case map_of payload ''response'' of
         Some v \<Rightarrow> m_of (and_then (and_then (jstr v) (\<lambda>t. urlsafe_b64decode (t @ ''==''))) (response_from_bytes P))
       | None \<Rightarrow> m_bind (m_of (and_then (jget payload ''invite_tag'') jstr)) (\<lambda>invite_tag.
           poll_relay_pair_response n P H base invite_tag None)) (\<lambda>response.
     m_bind (m_of (joiner_complete_pairing P i' bundle request secrets response now)) (\<lambda>c.
     let c = c\<lparr>c_name := (case name of Some (ch # nm) \<Rightarrow> ch # nm | _ \<Rightarrow> iv_inviter_name bundle)\<rparr> in
     m_bind (on_store (save_contact P c)) (\<lambda>_.
     m_bind (try_provision_pairing_capabilities P H now i' c) (\<lambda>_. m_return c))))))))))))))"

definition relay_wait ::
    "nat \<Rightarrow> prims \<Rightarrow> 'n http \<Rightarrow> int \<Rightarrow> str option \<Rightarrow> ('n client, contact) meth" where
  "relay_wait n P H now invite_text = m_bind require_identity (\<lambda>i. case invite_text of
     None \<Rightarrow> m_raise exit_error
   | Some t \<Rightarrow>
       m_bind (m_of (invite_from_url P (py_strip t))) (\<lambda>bundle.
       m_bind (m_of (verify_invite P bundle now)) (\<lambda>_.
       m_bind (on_store (m_read (load_local_profile P))) (\<lambda>profile.
       let profile_bytes = (case profile of None \<Rightarrow> [] | Some p \<Rightarrow> profile_to_bytes P p) in
       m_bind (inviter_wait_on_relay n P H now (iv_rendezvous_hint bundle) i bundle profile_bytes) (\<lambda>(response, c).
       m_bind (on_store (save_contact P c)) (\<lambda>_. m_return c))))))"

text \<open>
  \<open>invite create\<close>: the URL, which also goes to \<open>invites/latest.url\<close>, and the contact paired
  with, if the command waits for one. \<open>joined\<close> is the \<open>paired_contact\<close> that the rendezvous server
  of this process holds when the wait ends.
\<close>

definition invite_create ::
    "nat \<Rightarrow> prims \<Rightarrow> 'n http \<Rightarrow> int \<Rightarrow> str \<Rightarrow> nat \<Rightarrow> str option \<Rightarrow> bool \<Rightarrow> bool \<Rightarrow> bool \<Rightarrow> contact option \<Rightarrow>
     ('n client, str \<times> contact option) meth" where
  "invite_create n P H now listen_host listen_port rendezvous wait offline hybrid joined = m_bind require_identity (\<lambda>i.
     let local_hint = ''http://'' @ listen_host @ '':'' @ str_of_nat listen_port;
         hint = (if offline then OFFLINE_RENDEZVOUS_HINT
           else case rendezvous of Some (ch # u) \<Rightarrow> ch # u | _ \<Rightarrow> local_hint) in
     m_bind (draw 32) (\<lambda>secret.
     m_bind (m_of (create_invite P i secret hint None DEFAULT_INVITE_TTL_MS hybrid now)) (\<lambda>bundle.
     let url = invite_to_url P bundle in
     m_bind (pairing_profile_bytes P now i (Some hint)) (\<lambda>(profile, i').
     if offline \<or> \<not> wait then m_return (url, None)
     else if rstrip_slash hint \<noteq> rstrip_slash local_hint then
       m_bind (inviter_wait_on_relay n P H now hint i' bundle profile) (\<lambda>(response, c).
       m_bind (on_store (save_contact P c)) (\<lambda>_. m_return (url, Some c)))
     else case joined of None \<Rightarrow> m_raise exit_error
       | Some c \<Rightarrow> m_bind (on_store (save_contact P c)) (\<lambda>_. m_return (url, Some c))))))"

section \<open>Receipts and presence\<close>

definition receipts_flush ::
    "nat \<Rightarrow> prims \<Rightarrow> 'n http \<Rightarrow> int \<Rightarrow> str option \<Rightarrow> str option \<Rightarrow> ('n client, int) meth" where
  "receipts_flush n P H now contact_name route = m_bind require_identity (\<lambda>i. m_get (\<lambda>s.
     if list_pending_receipts contact_name (cl_store s) = [] then m_return 0 else
     m_bind (flush_pending_receipts n P H now i contact_name route) (\<lambda>sent.
     if sent = 0 then m_raise exit_error else m_return sent)))"

definition presence_push :: "nat \<Rightarrow> prims \<Rightarrow> 'n http \<Rightarrow> int \<Rightarrow> str option \<Rightarrow> ('n client, int) meth" where
  "presence_push n P H now contact_name = m_bind require_identity (\<lambda>i.
     m_bind (publish_own_presence n P H now i contact_name False) (\<lambda>count.
     if count = 0 then m_raise exit_error else m_return count))"

end
