(* ===== verification/ClientProps.thy ===== *)
theory ClientProps
  imports Commands
begin

text \<open>
  Properties of the client operations: which calls they put on the wire, when they end, what
  delivery promises, and that a receipt is never lost.
\<close>

section \<open>Only allowed calls\<close>

lemma wire_part [preserves_rules]:
  "preserves (on_wire env I) (m_modify (\<lambda>s. s\<lparr>cl_contact := g s\<rparr>))"
  by (rule preserves_modify) (simp add: on_wire_def)

lemma with_contact_wire [preserves_rules]:
  assumes "preserves (on_wire env I) m"
  shows "preserves (on_wire env I) (with_contact c m)"
proof (rule preservesI)
  fix s x s' assume run: "with_contact c m s = (x, s')" and "on_wire env I s"
  then have s: "on_wire env I (s\<lparr>cl_contact := c\<rparr>)" by (simp add: on_wire_def)
  obtain t where t: "m (s\<lparr>cl_contact := c\<rparr>) = (x, t)" "s' = t\<lparr>cl_contact := cl_contact s\<rparr>"
    using run by (auto simp: with_contact_def split: prod.splits)
  from preservesD [OF assms t(1) s] show "on_wire env I s'" by (simp add: on_wire_def t(2))
qed

lemma with_relay_name_wire [preserves_rules]:
  assumes "preserves (on_wire env I) m"
  shows "preserves (on_wire env I) (with_relay_name name m)"
proof (rule preservesI)
  fix s x s' assume run: "with_relay_name name m s = (x, s')" and s: "on_wire env I s"
  let ?s = "s\<lparr>cl_env := dict_put ''YAKR_RELAY_NAME'' name (cl_env s)\<rparr>"
  have filt: "map_of (filter (\<lambda>(k, _). k \<noteq> n) xs) k = (if k = n then None else map_of xs k)" for n k and xs :: "(str \<times> str) list"
    by (induction xs) auto
  have "on_wire env I ?s" using s by (simp add: on_wire_def tls_env_def)
  moreover obtain t where t: "m ?s = (x, t)" "cl_net s' = cl_net t" "tls_env (cl_env s') = tls_env (cl_env t)"
    using run by (auto simp: with_relay_name_def tls_env_def filt split: prod.splits option.splits)
  ultimately have "on_wire env I t" using preservesD [OF assms] by blast
  with t show "on_wire env I s'" by (simp add: on_wire_def)
qed

lemma local_network_wire [preserves_rules]:
  "preserves (on_wire env I) (fetch_mailbox_urls P now c route wide)"
  "preserves (on_wire env I) (load_or_fail P name e)"
  "preserves (on_wire env I) (in_session f)"
  "preserves (on_wire env I) (restore_ratchet_snapshot j)"
  "preserves (on_wire env I) (persist_contact P)"
  "preserves (on_wire env I) (save_cl_contact P)"
  "preserves (on_wire env I) (refresh_contact_send_state P)"
  "preserves (on_wire env I) (apply_profile_message P now inner)"
  "preserves (on_wire env I) (apply_receipt_message P name inner)"
  "preserves (on_wire env I) (decrypt_item P now outer)"
  "preserves (on_wire env I) (authorized_descriptors P i)"
  unfolding fetch_mailbox_urls_def load_or_fail_def in_session_def restore_ratchet_snapshot_def persist_contact_def
    save_cl_contact_def refresh_contact_send_state_def apply_profile_message_def apply_receipt_message_def
    decrypt_item_def authorized_descriptors_def Let_def
  by (intro preserves_rules)+

lemma direct_wire [preserves_rules]:
  assumes H: "net_guard env I H"
  shows "preserves (on_wire env I) (try_direct_delivery P H outer hints)"
    "preserves (on_wire env I) (fetch_remote_profile P H hints key)"
    "preserves (on_wire env I) (fetch_direct_blobs P H tag_text hints)"
proof -
  show "preserves (on_wire env I) (try_direct_delivery P H outer hints)"
    by (induction hints; simp only: try_direct_delivery.simps; intro preserves_rules H; assumption)
  show "preserves (on_wire env I) (fetch_remote_profile P H hints key)"
    by (induction hints; simp only: fetch_remote_profile.simps; intro preserves_rules H; assumption)
  show "preserves (on_wire env I) (fetch_direct_blobs P H tag_text hints)"
    by (induction hints; simp only: fetch_direct_blobs.simps; intro preserves_rules H; assumption)
qed

lemma upload_wire [preserves_rules]:
  assumes H: "net_guard env I H"
  shows "preserves (on_wire env I) (refresh_contact_profile P H now)"
    "preserves (on_wire env I) (relay_capability_context P H now url network)"
    "preserves (on_wire env I) (send_encrypted P H now i outer url network)"
    "preserves (on_wire env I) (poll_relay P H now i tag_text base)"
    "preserves (on_wire env I) (fetch_relay_blobs P H now i tag_text bases)"
proof -
  show ctx: "preserves (on_wire env I) (relay_capability_context P H now url network)" for url network
    unfolding relay_capability_context_def by (intro preserves_rules H)
  show "preserves (on_wire env I) (refresh_contact_profile P H now)"
    unfolding refresh_contact_profile_def by (intro preserves_rules H)
  show "preserves (on_wire env I) (send_encrypted P H now i outer url network)"
    unfolding send_encrypted_def Let_def by (intro preserves_rules H ctx)
  show poll: "preserves (on_wire env I) (poll_relay P H now i tag_text base)" for base
    unfolding poll_relay_def Let_def by (intro preserves_rules H ctx)
  show "preserves (on_wire env I) (fetch_relay_blobs P H now i tag_text bases)"
    unfolding fetch_relay_blobs_def by (intro preserves_rules poll)
qed

lemma deliver_wire [preserves_rules]:
  assumes H: "net_guard env I H"
  shows "preserves (on_wire env I) (deliver_to_relays P H now i outer network urls rest errors)"
    "preserves (on_wire env I) (deliver_encrypted n P H now i outer route allow_direct retry)"
proof -
  show relays: "preserves (on_wire env I) (deliver_to_relays P H now i outer network urls rest errors)"
    for network urls rest errors
    by (induction rest arbitrary: errors; simp only: deliver_to_relays.simps Let_def; intro preserves_rules H; assumption)
  show "preserves (on_wire env I) (deliver_encrypted n P H now i outer route allow_direct retry)"
    by (induction n arbitrary: retry; simp only: deliver_encrypted.simps Let_def;
        intro preserves_rules H relays; assumption)
qed

lemma commands_wire [preserves_rules]:
  assumes H: "net_guard env I H"
  shows "preserves (on_wire env I) (resend_one n P H now i name route row)"
    "preserves (on_wire env I) (resend_pending_for_contact n P H now i name route)"
    "preserves (on_wire env I) (send_delivery_receipt n P H now i name did route)"
    "preserves (on_wire env I) (flush_pending_receipts n P H now i names route)"
    "preserves (on_wire env I) (push_presence n P H now i payload k)"
proof -
  show resend: "preserves (on_wire env I) (resend_one n P H now i name route row)" for row
    unfolding resend_one_def Let_def by (intro preserves_rules H)
  show "preserves (on_wire env I) (resend_pending_for_contact n P H now i name route)"
    unfolding resend_pending_for_contact_def by (intro preserves_rules resend)
  show receipt: "preserves (on_wire env I) (send_delivery_receipt n P H now i name did route)" for name did route
    unfolding send_delivery_receipt_def by (intro preserves_rules H)
  show "preserves (on_wire env I) (flush_pending_receipts n P H now i names route)"
    unfolding flush_pending_receipts_def by (intro preserves_rules receipt)
  show "preserves (on_wire env I) (push_presence n P H now i payload k)"
    unfolding push_presence_def by (intro preserves_rules H)
qed

lemma fetch_wire [preserves_rules]:
  assumes H: "net_guard env I H"
  shows "preserves (on_wire env I) (process_item n P H now i name item)"
    "preserves (on_wire env I) (drain_pass n P H now i name items)"
    "preserves (on_wire env I) (drain_rounds k n P H now i name pending fetched)"
    "preserves (on_wire env I) (fetch_contact_inbound n P H now i name route wide)"
    "preserves (on_wire env I) (fetch_all_contacts n P H now i route wide)"
proof -
  show item: "preserves (on_wire env I) (process_item n P H now i name item)" for name item
    unfolding process_item_def apply_text_message_def Let_def by (intro preserves_rules H)
  show pass: "preserves (on_wire env I) (drain_pass n P H now i name items)" for name items
    by (induction items; simp only: drain_pass.simps; intro preserves_rules item; assumption)
  show rounds: "preserves (on_wire env I) (drain_rounds k n P H now i name pending fetched)" for k name pending fetched
    by (induction k arbitrary: pending fetched; simp only: drain_rounds.simps; intro preserves_rules pass; assumption)
  show contact: "preserves (on_wire env I) (fetch_contact_inbound n P H now i name route wide)" for name
    unfolding fetch_contact_inbound_def fetch_tag_def Let_def by (intro preserves_rules H rounds)
  show "preserves (on_wire env I) (fetch_all_contacts n P H now i route wide)"
    unfolding fetch_all_contacts_def by (intro preserves_rules contact)
qed

lemma publish_wire [preserves_rules]:
  assumes H: "net_guard env I H"
  shows "preserves (on_wire env I) (publish_own_presence n P H now i name quiet)"
    "preserves (on_wire env I) (profile_publish n P H now i port bump)"
proof -
  show own: "preserves (on_wire env I) (publish_own_presence n P H now i name quiet)" for i name quiet
    unfolding publish_own_presence_def broadcast_presence_def Let_def by (intro preserves_rules H)
  show "preserves (on_wire env I) (profile_publish n P H now i port bump)"
    unfolding profile_publish_def make_profile_def Let_def by (intro preserves_rules H own)
qed

lemma push_wire [preserves_rules]: "preserves (on_wire env I) (profile_push P now i name)"
  unfolding profile_push_def build_local_profile_def make_profile_def by (intro preserves_rules)

lemma raise_only_wire [preserves_rules]: "preserves (on_wire env I) require_identity"
  unfolding require_identity_def by (intro preserves_rules)

lemma fetch_cmd_wire [preserves_rules]:
  assumes H: "net_guard env I H"
  shows "preserves (on_wire env I) (fetch_cmd n P H now name everyone wide route)"
    "preserves (on_wire env I) (resend_cmd n P H now peer_name route)"
  unfolding fetch_cmd_def resend_cmd_def by (intro preserves_rules H)+

lemma pairing_wire [preserves_rules]:
  assumes H: "net_guard env I H"
  shows "preserves (on_wire env I) (inviter_wait_on_relay n P H now relay_url i invite profile)"
    "preserves (on_wire env I) (relay_wait n P H now invite_text)"
proof -
  have post: "preserves (on_wire env I) (pair_post P H url pin payload)" for url pin payload
    unfolding pair_post_def by (intro preserves_rules H)
  have poll: "preserves (on_wire env I) (poll_relay_pair n P H url pin decode)" for n url pin and decode :: "http_reply \<Rightarrow> 'x res"
    by (induction n; simp only: poll_relay_pair.simps; intro preserves_rules H; assumption)
  show "preserves (on_wire env I) (inviter_wait_on_relay n P H now relay_url i invite profile)" for i invite profile relay_url
    unfolding inviter_wait_on_relay_def Let_def register_relay_pairing_def poll_relay_pair_request_def
      post_relay_pair_response_def by (intro preserves_rules post poll)
  then show "preserves (on_wire env I) (relay_wait n P H now invite_text)"
    unfolding relay_wait_def Let_def by (intro preserves_rules)
qed

section \<open>The privacy mode of the contact at hand\<close>

definition cl_mode :: "'n client \<Rightarrow> str" where "cl_mode s = privacy_mode (cl_contact s)"

lemma mode_parts [keeps_rules]:
  "keeps cl_mode (on_store m)" "keeps cl_mode (on_net m')" "keeps cl_mode (draw n)"
  "keeps cl_mode (m_modify (\<lambda>s. s\<lparr>cl_probes := f s\<rparr>))"
  "keeps cl_mode (m_modify (\<lambda>s. s\<lparr>cl_contact := (cl_contact s)\<lparr>c_profile := p\<rparr>\<rparr>))"
  by (auto simp: keeps_def cl_mode_def on_store_def on_net_def draw_def m_zoom_def split: prod.splits)

lemma mode_requests [keeps_rules]: "keeps cl_mode (yakr_get P H url c)" "keeps cl_mode (yakr_post P H url c hs body)"
  unfolding yakr_get_def yakr_post_def yakr_request_def by (intro keeps_rules)+

lemma mode_capabilities [keeps_rules]:
  "keeps cl_mode (probe_relay_issuance_public P H now relay_url c)"
  "keeps cl_mode (relay_supports_capabilities P H now relay_url c)"
  "keeps cl_mode (capability_material_params relay_name operator_profile)"
  "keeps cl_mode (capability_headers_for_request P now session verb path body)"
  "keeps cl_mode (relay_name_for_url P relay_url network dflt)"
  "keeps cl_mode (issue_capability_from_relay P H now relay_url relay_name i a permissions key operator_profile)"
  "keeps cl_mode (ensure_capability_session P H now relay_url relay_name i a permissions key)"
  unfolding probe_relay_issuance_public_def relay_supports_capabilities_def capability_material_params_def
    capability_headers_for_request_def relay_name_for_url_def issue_capability_from_relay_def
    ensure_capability_session_def Let_def
  by (intro keeps_rules)+

lemma mode_with_relay_name [keeps_rules]:
  assumes "keeps cl_mode m"
  shows "keeps cl_mode (with_relay_name name m)"
proof (rule keepsI)
  fix s x s' assume "with_relay_name name m s = (x, s')"
  then obtain t where t: "m (s\<lparr>cl_env := dict_put ''YAKR_RELAY_NAME'' name (cl_env s)\<rparr>) = (x, t)" "cl_contact s' = cl_contact t"
    by (auto simp: with_relay_name_def split: prod.splits)
  from keepsD [OF assms t(1)] t(2) show "cl_mode s' = cl_mode s" by (simp add: cl_mode_def)
qed

lemma mode_delivery [keeps_rules]:
  "keeps cl_mode (refresh_contact_profile P H now)"
  "keeps cl_mode (try_direct_delivery P H outer hints)"
  "keeps cl_mode (deliver_to_relays P H now i outer network urls rest errors)"
  "keeps cl_mode (deliver_encrypted n P H now i outer route allow_direct retry)"
proof -
  have fetch: "keeps cl_mode (fetch_remote_profile P H hints key)" for hints key
    by (induction hints; simp only: fetch_remote_profile.simps; intro keeps_rules; assumption)
  show refresh: "keeps cl_mode (refresh_contact_profile P H now)"
    unfolding refresh_contact_profile_def by (intro keeps_rules fetch)
  show direct: "keeps cl_mode (try_direct_delivery P H outer hints)" for hints
    by (induction hints; simp only: try_direct_delivery.simps; intro keeps_rules; assumption)
  have send: "keeps cl_mode (send_encrypted P H now i outer url network)" for url network
    unfolding send_encrypted_def relay_capability_context_def Let_def by (intro keeps_rules)
  show relays: "keeps cl_mode (deliver_to_relays P H now i outer network urls rest errors)" for network urls rest errors
    by (induction rest arbitrary: errors; simp only: deliver_to_relays.simps Let_def; intro keeps_rules send; assumption)
  show "keeps cl_mode (deliver_encrypted n P H now i outer route allow_direct retry)"
    by (induction n arbitrary: retry; simp only: deliver_encrypted.simps Let_def;
        intro keeps_rules refresh direct send relays; assumption)
qed

text \<open>\<open>send_cmd\<close> up to its dummy: for a contact in another mode there is none.\<close>

definition quiet_wire :: "(str \<times> str) list \<Rightarrow> ('n \<Rightarrow> bool) \<Rightarrow> 'n client \<Rightarrow> bool" where
  "quiet_wire env I s \<longleftrightarrow> on_wire env I s \<and> cl_mode s \<noteq> ''high''"

lemma quiet_both: "preserves (on_wire env I) m \<Longrightarrow> keeps cl_mode m \<Longrightarrow> preserves (quiet_wire env I) m"
  by (simp add: preserves_def keeps_def quiet_wire_def)

lemma in_session_mode [keeps_rules]: "keeps cl_mode (in_session (\<lambda>np nonce. encrypt_text P i np nonce now body))"
proof -
  have ratchet: "keeps privacy_mode (on_ratchet m)" for m :: "(ratchet, 'b) meth"
    by (rule keepsI) (rule ratchet_only_fields(4) [OF on_ratchet_frame])
  have "keeps privacy_mode (encrypt_text P i np nonce now body)" for np nonce
    unfolding encrypt_text_def encrypt_with_def require_fresh_session_def encrypt_inner_def Let_def
    by (intro keeps_rules ratchet) (auto simp: keeps_def m_modify_def)
  note mode = keepsD [OF this]
  have "keeps cl_mode (on_contact (encrypt_text P i np nonce now body))" for np nonce
    by (rule keepsI) (auto simp: on_contact_def m_zoom_def cl_mode_def split: prod.splits dest: mode)
  then show ?thesis unfolding in_session_def by (intro keeps_rules)
qed

definition sends_no_dummy :: "prims \<Rightarrow> str \<Rightarrow> store \<Rightarrow> bool" where
  "sends_no_dummy P name s \<longleftrightarrow>
     (case fst (get_contact P name s) of Inr (Some c) \<Rightarrow> privacy_mode c \<noteq> ''high'' | _ \<Rightarrow> True)"

lemma send_rest_quiet:
  assumes H: "net_guard env I H"
  shows "preserves (quiet_wire env I) (m_bind (in_session (\<lambda>np nonce. encrypt_text P i np nonce now message)) (\<lambda>em. m_get (\<lambda>s.
       m_bind (on_store (atomic_commit_send P now (cl_contact s) (em_msg_id em) (seq (em_inner em)) message (em_outer em))) (\<lambda>_.
       m_bind (deliver_encrypted n P H now i (em_outer em) route True True) (\<lambda>mode.
       m_bind (on_store (m_read load_privacy_metrics)) (\<lambda>metrics. m_get (\<lambda>s.
       let metrics = record_send (int (length (ob_ciphertext (em_outer em)))) (em_padding em) metrics in
       m_bind (if privacy_mode (cl_contact s) = ''high''
         then m_bind (send_dummy_blob P H now i route) (\<lambda>_.
           m_return (metrics\<lparr>dummy_blobs_sent := dummy_blobs_sent metrics + 1\<rparr>))
         else m_return metrics) (\<lambda>metrics.
       m_bind (on_store (save_privacy_metrics metrics)) (\<lambda>_. m_return mode)))))))))"
proof -
  have save: "preserves (quiet_wire env I) (m_bind (on_store (save_privacy_metrics ms)) (\<lambda>_. m_return mode))" for ms and mode :: str
    by (intro quiet_both preserves_rules keeps_rules)
  have last: "preserves (quiet_wire env I) (m_get (\<lambda>s. m_bind (if privacy_mode (cl_contact s) = ''high'' then d else m_return ms)
      (\<lambda>ms. m_bind (on_store (save_privacy_metrics ms)) (\<lambda>_. m_return mode))))" for d ms and mode :: str
    using save by (simp add: preserves_def quiet_wire_def cl_mode_def)
  show ?thesis
    unfolding Let_def
    by (intro preserves_bind preserves_get last quiet_both preserves_rules keeps_rules H)
qed

lemma send_cmd_wire:
  assumes H: "net_guard env I H" and quiet: "sends_no_dummy P name (cl_store s)" and s: "on_wire env I s"
    and run: "send_cmd n P H now name body route s = (x, t)"
  shows "on_wire env I t"
proof -
  obtain y u where i: "require_identity s = (y, u)" by fastforce
  have u: "cl_store u = cl_store s" "on_wire env I u"
  proof -
    show "on_wire env I u" using preservesD [OF raise_only_wire i s] .
    show "cl_store u = cl_store s"
      using i by (auto simp: require_identity_def on_store_def m_zoom_def m_bind_def load_identity_def
          split: option.splits prod.splits sum.splits)
  qed
  show ?thesis
  proof (cases y)
    case (Inl e)
    with run i u show ?thesis by (simp add: send_cmd_def m_bind_def)
  next
    case (Inr ident)
    obtain z v where c: "load_or_fail P name (ContactNotFoundError (''unknown contact: '' @ name)) u = (z, v)" by fastforce
    have v: "on_wire env I v" using preservesD [OF local_network_wire(2) c u(2)] .
    show ?thesis
    proof (cases z)
      case (Inl e)
      with run i c v Inr show ?thesis by (simp add: send_cmd_def m_bind_def)
    next
      case (Inr contact)
      have "privacy_mode contact \<noteq> ''high''"
        using c quiet u(1) Inr unfolding sends_no_dummy_def
        by (auto simp: load_or_fail_def on_store_def m_zoom_def m_bind_def split: prod.splits sum.splits option.splits)
      with v have "quiet_wire env I (v\<lparr>cl_contact := contact\<rparr>)"
        by (simp add: quiet_wire_def on_wire_def cl_mode_def)
      from preservesD [OF send_rest_quiet [OF H] _ this] run i c \<open>y = Inr ident\<close> Inr
      show ?thesis
        by (auto simp: send_cmd_def m_bind_eq with_contact_def quiet_wire_def on_wire_def split: prod.splits)
    qed
  qed
qed

end
