(* ===== verification/ClientRuns.thy ===== *)
theory ClientRuns
  imports ClientProps
begin

text \<open>
  The commands of the client as steps of one machine, over a network that keeps a log of its
  calls: which calls any sequence of commands makes.
\<close>

section \<open>A network with a log\<close>

record 'n wire =
  w_log :: "(http_call \<times> http_reply res) list"
  w_world :: 'n

definition logged :: "'n http \<Rightarrow> 'n wire http" where
  "logged H call w = (case H call (w_world w) of (x, n) \<Rightarrow> (x, \<lparr>w_log = w_log w @ [(call, x)], w_world = n\<rparr>))"

section \<open>The commands\<close>

datatype command =
    Init "str option" bool "bytes \<times> bytes" "bytes \<times> bytes"
  | AddContact str "(str \<times> str) list"
  | SetPrivacy str str
  | Send str str "str option"
  | Fetch "str option" bool bool "str option"
  | Resend str "str option"
  | FlushReceipts "str option" "str option"
  | PushPresence "str option"
  | PublishProfile "nat option" bool
  | PushProfile str
  | CreateInvite str nat "str option" bool bool bool "contact option"
  | AcceptInvite str "str option"
  | WaitOnRelay "str option"
  | JoinerStart str
  | InviterRespond str "str option"
  | JoinerFinish str "str option"

definition m_ignore :: "('s, 'a) meth \<Rightarrow> ('s, unit) meth" where
  "m_ignore m = m_bind m (\<lambda>_. m_return ())"

fun run_command :: "nat \<Rightarrow> prims \<Rightarrow> 'n http \<Rightarrow> int \<Rightarrow> command \<Rightarrow> ('n client, unit) meth" where
  "run_command n P H now (Init name force kem pq) = init_cmd P name force kem pq"
| "run_command n P H now (AddContact name bundle) = contact_add_cmd P name bundle"
| "run_command n P H now (SetPrivacy name mode) = privacy_set P name mode"
| "run_command n P H now (Send name body route) = m_ignore (send_cmd n P H now name body route)"
| "run_command n P H now (Fetch name everyone wide route) = m_ignore (fetch_cmd n P H now name everyone wide route)"
| "run_command n P H now (Resend name route) = m_ignore (resend_cmd n P H now name route)"
| "run_command n P H now (FlushReceipts name route) = m_ignore (receipts_flush n P H now name route)"
| "run_command n P H now (PushPresence name) = m_ignore (presence_push n P H now name)"
| "run_command n P H now (PublishProfile port bump) =
     m_ignore (m_bind require_identity (\<lambda>i. profile_publish n P H now i port bump))"
| "run_command n P H now (PushProfile name) = m_bind require_identity (\<lambda>i. profile_push P now i name)"
| "run_command n P H now (CreateInvite host port hint wait offline hybrid joined) =
     m_ignore (invite_create n P H now host port hint wait offline hybrid joined)"
| "run_command n P H now (AcceptInvite invite name) = m_ignore (invite_accept n P H now invite name)"
| "run_command n P H now (WaitOnRelay invite_text) = m_ignore (relay_wait n P H now invite_text)"
| "run_command n P H now (JoinerStart invite_url) = m_ignore (joiner_start P now invite_url)"
| "run_command n P H now (InviterRespond url invite_text) = m_ignore (inviter_respond P now url invite_text)"
| "run_command n P H now (JoinerFinish url name) = m_ignore (joiner_finish P now url name)"

text \<open>A command that raises ends with its exception; what it had done stays done.\<close>

fun run_commands :: "nat \<Rightarrow> prims \<Rightarrow> 'n http \<Rightarrow> (int \<times> command) list \<Rightarrow> 'n client \<Rightarrow> 'n client" where
  "run_commands n P H [] s = s"
| "run_commands n P H ((now, c) # cs) s = run_commands n P H cs (snd (run_command n P H now c s))"

section \<open>Bare calls\<close>

text \<open>Two commands post with \<open>httpx\<close> itself, to a relay's blobs or to a rendezvous.\<close>

definition ends_with :: "str \<Rightarrow> str \<Rightarrow> bool" where
  "ends_with p s \<longleftrightarrow> starts_with (rev p) (rev s)"

fun bare_command :: "command \<Rightarrow> bool" where
  "bare_command (Send name body route) \<longleftrightarrow> True"
| "bare_command (AcceptInvite invite name) \<longleftrightarrow> True"
| "bare_command _ \<longleftrightarrow> False"

definition bare_call :: "http_call \<Rightarrow> bool" where
  "bare_call call \<longleftrightarrow> hc_method call = ''POST'' \<and> hc_check call = SystemTrust \<and>
     (ends_with ''/v1/blobs'' (hc_url call) \<or> ends_with ''/v1/pair'' (hc_url call))"

definition calls_ok :: "(str \<times> str) list \<Rightarrow> bool \<Rightarrow> 'n wire \<Rightarrow> bool" where
  "calls_ok env bare w \<longleftrightarrow>
     list_all (\<lambda>(call, r). call_allowed env call \<or> bare \<and> bare_call call) (w_log w)"

lemma ends_with_append [simp]: "ends_with p (s @ p)"
  by (simp add: ends_with_def starts_with_append)

lemma calls_ok_logged:
  "calls_ok env bare w \<Longrightarrow> call_allowed env call \<or> bare \<and> bare_call call \<Longrightarrow> calls_ok env bare (snd (logged H call w))"
  by (auto simp: calls_ok_def logged_def split: prod.splits)

lemma logged_guard: "net_guard env (calls_ok env bare) (logged H)"
  by (simp add: net_guard_def calls_ok_logged)

lemma bare_post_wire:
  assumes "bare_call call"
  shows "preserves (on_wire env (calls_ok env True)) (on_net (logged H call))"
proof (rule preservesI)
  fix s x s' assume "on_net (logged H call) s = (x, s')" and s: "on_wire env (calls_ok env True) s"
  then have s': "cl_env s' = cl_env s" "cl_net s' = snd (logged H call (cl_net s))"
    by (auto simp: on_net_def m_zoom_def split: prod.splits)
  with s calls_ok_logged [of env True "cl_net s" call H] assms show "on_wire env (calls_ok env True) s'"
    by (simp add: on_wire_def)
qed

lemma ignore_wire [preserves_rules]: "preserves I m \<Longrightarrow> preserves I (m_ignore m)"
  unfolding m_ignore_def by (intro preserves_rules)

lemma local_commands_wire [preserves_rules]:
  "preserves (on_wire env I) (init_cmd P name force kem pq)"
  "preserves (on_wire env I) (contact_add_cmd P peer_name bundle)"
  "preserves (on_wire env I) (privacy_set P peer_name mode)"
  "preserves (on_wire env I) (pairing_profile_bytes P now i hint)"
proof -
  show "preserves (on_wire env I) (init_cmd P name force kem pq)"
    unfolding init_cmd_def Let_def
    by (intro preserves_rules) (simp add: on_wire_def tls_env_def)
  show "preserves (on_wire env I) (contact_add_cmd P peer_name bundle)"
    unfolding contact_add_cmd_def by (intro preserves_rules)
  show "preserves (on_wire env I) (privacy_set P peer_name mode)"
    unfolding privacy_set_def by (intro preserves_rules)
  show "preserves (on_wire env I) (pairing_profile_bytes P now i hint)"
    unfolding pairing_profile_bytes_def build_local_profile_def make_profile_def by (intro preserves_rules)
qed

lemma offline_commands_wire [preserves_rules]:
  "preserves (on_wire env I) (joiner_start P now invite_url)"
  "preserves (on_wire env I) (inviter_respond P now url invite_text)"
  "preserves (on_wire env I) (joiner_finish P now url peer_name)"
  unfolding joiner_start_def inviter_respond_def joiner_finish_def by (intro preserves_rules)+

lemma online_commands_wire [preserves_rules]:
  assumes H: "net_guard env I H"
  shows "preserves (on_wire env I) (receipts_flush n P H now name route)"
    "preserves (on_wire env I) (presence_push n P H now name)"
    "preserves (on_wire env I) (invite_create n P H now host port hint wait offline hybrid joined)"
  unfolding receipts_flush_def presence_push_def invite_create_def Let_def by (intro preserves_rules H)+

lemma bare_commands_wire:
  shows "preserves (on_wire env (calls_ok env True)) (send_cmd n P (logged H) now name body route)"
    "preserves (on_wire env (calls_ok env True)) (invite_accept n P (logged H) now invite peer_name)"
proof -
  have post: "preserves (on_wire env (calls_ok env True))
      (on_net (logged H \<lparr>hc_method = ''POST'', hc_url = u @ p, hc_check = SystemTrust, hc_headers = hs, hc_body = b\<rparr>))"
    if "p \<in> {''/v1/blobs'', ''/v1/pair''}" for u p hs b
    by (rule bare_post_wire) (use that in \<open>auto simp: bare_call_def\<close>)
  have dummy: "preserves (on_wire env (calls_ok env True)) (send_dummy_blob P (logged H) now i route)" for i
    unfolding send_dummy_blob_def Let_def by (intro preserves_rules post) simp
  show "preserves (on_wire env (calls_ok env True)) (send_cmd n P (logged H) now name body route)"
    unfolding send_cmd_def Let_def by (intro preserves_rules dummy logged_guard)
  have poll: "preserves (on_wire env (calls_ok env True)) (poll_relay_pair n P (logged H) url pin decode)"
    for n url pin and decode :: "http_reply \<Rightarrow> 'x res"
    by (induction n; simp only: poll_relay_pair.simps; intro preserves_rules logged_guard; assumption)
  show "preserves (on_wire env (calls_ok env True)) (invite_accept n P (logged H) now invite peer_name)"
    unfolding invite_accept_def poll_relay_pair_response_def Let_def
    by (intro preserves_rules post poll logged_guard) simp
qed

lemma command_wire:
  assumes "bare_command c \<Longrightarrow> bare"
  shows "preserves (on_wire env (calls_ok env bare)) (run_command n P (logged H) now c)"
proof (cases "bare_command c")
  case True
  with assms have bare by simp
  with True show ?thesis
    by (cases c) (simp_all, (intro preserves_rules bare_commands_wire)+)
next
  case False
  then show ?thesis
    by (cases c) (simp_all, (intro preserves_rules logged_guard)+)
qed

lemma commands_calls:
  assumes "\<exists>(now, c) \<in> set cs. bare_command c \<Longrightarrow> bare" and "on_wire env (calls_ok env bare) s"
  shows "on_wire env (calls_ok env bare) (run_commands n P (logged H) cs s)"
  using assms
proof (induction cs arbitrary: s)
  case (Cons step cs)
  obtain now c where step: "step = (now, c)" by fastforce
  have "preserves (on_wire env (calls_ok env bare)) (run_command n P (logged H) now c)"
    using Cons.prems(1) step by (intro command_wire) auto
  then have "on_wire env (calls_ok env bare) (snd (run_command n P (logged H) now c s))"
    using Cons.prems(2) by (simp add: preserves_def)
  with Cons.IH Cons.prems(1) step show ?case by auto
qed simp

section \<open>Properties\<close>


end
