(* ===== verification/Delivery.thy ===== *)
theory Delivery
  imports ClientRuns
begin

text \<open>
  What delivery promises: an operation that returns has put its blob on exactly one server, one
  that raises on none; and a receipt is either sent or queued.
\<close>

section \<open>Uploads in the log\<close>

definition blob_accepted :: "http_call \<times> http_reply res \<Rightarrow> bool" where
  "blob_accepted = (\<lambda>(call, r). hc_method call = ''POST'' \<and> (case r of Inl e \<Rightarrow> False
     | Inr reply \<Rightarrow>
         hs_status reply = 201 \<and> ends_with ''/v1/blobs'' (hc_url call) \<or>
         hs_status reply \<in> {200, 201} \<and> ends_with ''/v1/direct/blobs'' (hc_url call)))"

definition uploaded :: "'n wire client \<Rightarrow> bytes list" where
  "uploaded s = map (hc_body \<circ> fst) (filter blob_accepted (w_log (cl_net s)))"

text \<open>The bodies that hold a blob: as the relay reads it, with a ticket or without.\<close>

definition carries :: "outer_blob \<Rightarrow> bytes \<Rightarrow> bool" where
  "carries outer body \<longleftrightarrow> (\<exists>t. body \<in> {utf8 (json_default (to_relay_json outer)), utf8 (json_compact (to_relay_json outer)),
     utf8 (json_compact (with_item ''ticket'' (JStr t) (to_relay_json outer)))})"

lemma carriesI:
  "carries outer (utf8 (json_default (to_relay_json outer)))" "carries outer (utf8 (json_compact (to_relay_json outer)))"
  "carries outer (utf8 (json_compact (with_item ''ticket'' (JStr t) (to_relay_json outer))))"
  by (auto simp: carries_def)

lemma plain_http_refused:
  assumes "starts_with ''http://'' url"
  shows "\<exists>e. require_https_url url = Inl e"
  using assms starts_with_rstrip [of "''https://''" url] http_not_https [of url]
  by (auto simp: require_https_url_def Let_def)

lemma request_log:
  assumes "yakr_request P (logged H) verb url contact pin extra hs body s = (x, t)"
  shows "(\<exists>e. x = Inl e) \<and> cl_net t = cl_net s \<or>
    (\<exists>check. w_log (cl_net t) = w_log (cl_net s) @
       [(\<lparr>hc_method = verb, hc_url = url, hc_check = check, hc_headers = hs, hc_body = body\<rparr>, x)])"
proof (cases "tls_required (cl_env s) \<and> starts_with ''http://'' url")
  case True
  with assms plain_http_refused [of url] show ?thesis by (auto simp: yakr_request_def)
next
  case False
  obtain y u where v: "on_store (verify_param_for_url P (cl_env s) url contact pin extra) s = (y, u)" by fastforce
  then have u: "cl_net u = cl_net s" by (auto simp: on_store_def m_zoom_def split: prod.splits)
  show ?thesis
    using assms False v u
    by (cases y) (auto simp: yakr_request_def m_bind_def [of "on_store _"] on_net_def m_zoom_def logged_def split: prod.splits)
qed

lemma get_uploads [keeps_rules]: "keeps uploaded (yakr_get P (logged H) url contact)"
  by (rule keepsI) (auto simp: yakr_get_def uploaded_def blob_accepted_def dest!: request_log)

lemma post_uploads:
  assumes "yakr_post P (logged H) url contact hs body s = (x, t)"
  shows "uploaded t = uploaded s @
    (if blob_accepted (\<lparr>hc_method = ''POST'', hc_url = url, hc_check = NoCheck, hc_headers = hs, hc_body = body\<rparr>, x)
     then [body] else [])"
  using request_log [OF assms [unfolded yakr_post_def]]
  by (cases x) (auto simp: uploaded_def blob_accepted_def)

section \<open>Operations that upload nothing\<close>

lemma not_a_blob_post [keeps_rules]:
  "\<not> ends_with ''/v1/blobs'' url \<Longrightarrow> \<not> ends_with ''/v1/direct/blobs'' url \<Longrightarrow>
   keeps uploaded (yakr_post P (logged H) url contact hs body)"
  by (rule keepsI) (auto simp: blob_accepted_def dest!: post_uploads split: sum.splits)

lemma parts_uploads [keeps_rules]:
  "keeps uploaded (on_store m)" "keeps uploaded (on_contact m')" "keeps uploaded (draw n)"
  "keeps uploaded (m_modify (\<lambda>s. s\<lparr>cl_probes := f s\<rparr>))"
  "keeps uploaded (m_modify (\<lambda>s. s\<lparr>cl_contact := g s\<rparr>))"
  by (auto simp: keeps_def uploaded_def on_store_def on_contact_def draw_def m_zoom_def split: prod.splits)

lemma issue_url [simp]: "\<not> ends_with ''/v1/blobs'' (u @ ''/v1/capabilities/issue'')"
  "\<not> ends_with ''/v1/direct/blobs'' (u @ ''/v1/capabilities/issue'')"
  by (simp_all add: ends_with_def starts_with_def)

lemma capability_uploads [keeps_rules]:
  "keeps uploaded (probe_relay_issuance_public P (logged H) now relay_url c)"
  "keeps uploaded (relay_supports_capabilities P (logged H) now relay_url c)"
  "keeps uploaded (capability_material_params relay_name operator_profile)"
  "keeps uploaded (capability_headers_for_request P now session verb path body)"
  "keeps uploaded (relay_name_for_url P relay_url network dflt)"
  "keeps uploaded (issue_capability_from_relay P (logged H) now relay_url relay_name i a permissions key operator_profile)"
  "keeps uploaded (ensure_capability_session P (logged H) now relay_url relay_name i a permissions key)"
  "keeps uploaded (relay_capability_context P (logged H) now relay_url network)"
proof -
  show probe: "keeps uploaded (probe_relay_issuance_public P (logged H) now relay_url c)" for relay_url c
    unfolding probe_relay_issuance_public_def Let_def by (intro keeps_rules)
  show supports: "keeps uploaded (relay_supports_capabilities P (logged H) now relay_url c)" for relay_url c
    unfolding relay_supports_capabilities_def Let_def by (intro keeps_rules probe)
  show material: "keeps uploaded (capability_material_params relay_name operator_profile)" for relay_name operator_profile
    unfolding capability_material_params_def Let_def by (intro keeps_rules)
  show "keeps uploaded (capability_headers_for_request P now session verb path body)"
    unfolding capability_headers_for_request_def Let_def by (intro keeps_rules)
  show "keeps uploaded (relay_name_for_url P relay_url network dflt)"
    unfolding relay_name_for_url_def Let_def by (intro keeps_rules)
  show issue: "keeps uploaded (issue_capability_from_relay P (logged H) now relay_url relay_name i a permissions key operator_profile)"
    for relay_url relay_name i a permissions key operator_profile
    unfolding issue_capability_from_relay_def Let_def by (intro keeps_rules material) simp_all
  show "keeps uploaded (ensure_capability_session P (logged H) now relay_url relay_name i a permissions key)"
    unfolding ensure_capability_session_def by (intro keeps_rules probe issue)
  show "keeps uploaded (relay_capability_context P (logged H) now relay_url network)"
    unfolding relay_capability_context_def by (intro keeps_rules supports)
qed

lemma refresh_uploads [keeps_rules]: "keeps uploaded (refresh_contact_profile P (logged H) now)"
proof -
  have fetch: "keeps uploaded (fetch_remote_profile P (logged H) hints key)" for hints key
    by (induction hints; simp only: fetch_remote_profile.simps; intro keeps_rules; assumption)
  show ?thesis unfolding refresh_contact_profile_def by (intro keeps_rules fetch)
qed

section \<open>Operations that upload one blob\<close>

text \<open>\<open>gains outer ok m\<close>: a result \<open>ok\<close> comes with one new upload of the blob, any other with none.\<close>

definition gains :: "outer_blob \<Rightarrow> ('a \<Rightarrow> bool) \<Rightarrow> ('n wire client, 'a) meth \<Rightarrow> bool" where
  "gains outer ok m \<longleftrightarrow> (\<forall>s x t. m s = (x, t) \<longrightarrow>
     (if \<exists>y. x = Inr y \<and> ok y then \<exists>b. uploaded t = uploaded s @ [b] \<and> carries outer b
      else uploaded t = uploaded s))"

named_theorems gains_rules \<open>introduction rules for methods that upload one blob\<close>

lemma gainsI:
  assumes "\<And>s e t. m s = (Inl e, t) \<Longrightarrow> uploaded t = uploaded s"
    and "\<And>s y t. m s = (Inr y, t) \<Longrightarrow> \<not> ok y \<Longrightarrow> uploaded t = uploaded s"
    and "\<And>s y t. m s = (Inr y, t) \<Longrightarrow> ok y \<Longrightarrow> \<exists>b. uploaded t = uploaded s @ [b] \<and> carries outer b"
  shows "gains outer ok m"
  unfolding gains_def
proof (intro allI impI)
  fix s x t assume "m s = (x, t)"
  with assms show "if \<exists>y. x = Inr y \<and> ok y then \<exists>b. uploaded t = uploaded s @ [b] \<and> carries outer b
    else uploaded t = uploaded s" by (cases x) auto
qed

lemma gainsD:
  assumes "gains outer ok m"
  shows gains_Inl: "m s = (Inl e, t) \<Longrightarrow> uploaded t = uploaded s"
    and gains_none: "m s = (Inr y, t) \<Longrightarrow> \<not> ok y \<Longrightarrow> uploaded t = uploaded s"
    and gains_one: "m s = (Inr y, t) \<Longrightarrow> ok y \<Longrightarrow> \<exists>b. uploaded t = uploaded s @ [b] \<and> carries outer b"
  using assms unfolding gains_def by fastforce+

lemma gains_raise [gains_rules]: "gains outer ok (m_raise e)"
  by (rule gainsI) simp_all

lemma gains_return [gains_rules]: "\<not> ok y \<Longrightarrow> gains outer ok (m_return y)"
  by (rule gainsI) auto

lemma gains_bind [gains_rules]:
  assumes m: "keeps uploaded m" and f: "\<And>x. gains outer ok (f x)"
  shows "gains outer ok (m_bind m f)"
proof (rule gainsI)
  fix s e t assume "m_bind m f s = (Inl e, t)"
  then show "uploaded t = uploaded s"
    by (auto simp: m_bind_def split: prod.splits sum.splits dest!: keepsD [OF m] gains_Inl [OF f])
next
  fix s y t assume run: "m_bind m f s = (Inr y, t)" and "\<not> ok y"
  then obtain x u where "m s = (Inr x, u)" "f x u = (Inr y, t)" by (auto simp: m_bind_Inr)
  with \<open>\<not> ok y\<close> show "uploaded t = uploaded s" using keepsD [OF m] gains_none [OF f] by metis
next
  fix s y t assume run: "m_bind m f s = (Inr y, t)" and "ok y"
  then obtain x u where "m s = (Inr x, u)" "f x u = (Inr y, t)" by (auto simp: m_bind_Inr)
  with \<open>ok y\<close> show "\<exists>b. uploaded t = uploaded s @ [b] \<and> carries outer b"
    using keepsD [OF m] gains_one [OF f] by metis
qed

lemma gains_then:
  assumes m: "gains outer ok m" and finish: "\<And>x s. ok x \<Longrightarrow> \<exists>y t. f x s = (Inr y, t) \<and> ok' y \<and> uploaded t = uploaded s"
    and more: "\<And>x. \<not> ok x \<Longrightarrow> gains outer ok' (f x)"
  shows "gains outer ok' (m_bind m f)"
proof -
  have split: "\<exists>x u. m s = (x, u) \<and> m_bind m f s = (case x of Inl e \<Rightarrow> (Inl e, u) | Inr x \<Rightarrow> f x u)" for s
    by (cases "m s") (simp add: m_bind_def)
  show ?thesis
    unfolding gains_def
  proof (intro allI impI)
    fix s z t assume run: "m_bind m f s = (z, t)"
    from split [of s] obtain x u where x: "m s = (x, u)" "(case x of Inl e \<Rightarrow> (Inl e, u) | Inr x \<Rightarrow> f x u) = (z, t)"
      using run by auto
    show "if \<exists>y. z = Inr y \<and> ok' y then \<exists>b. uploaded t = uploaded s @ [b] \<and> carries outer b else uploaded t = uploaded s"
    proof (cases x)
      case (Inl e)
      with x gains_Inl [OF m] show ?thesis by auto
    next
      case (Inr v)
      show ?thesis
      proof (cases "ok v")
        case True
        with x Inr finish [OF True, of u] gains_one [OF m] show ?thesis by auto
      next
        case False
        with x Inr gains_none [OF m] have "uploaded u = uploaded s" "f v u = (z, t)" by auto
        with more [OF False, unfolded gains_def] show ?thesis by metis
      qed
    qed
  qed
qed

lemma gains_get [gains_rules]: "(\<And>s. gains outer ok (g s)) \<Longrightarrow> gains outer ok (m_get g)"
  by (simp add: gains_def)

lemma gains_catch [gains_rules]:
  assumes m: "gains outer ok m" and h: "\<And>e. gains outer ok (h e)"
  shows "gains outer ok (m_catch m caught h)"
  unfolding gains_def
proof (intro allI impI)
  fix s z t assume run: "m_catch m caught h s = (z, t)"
  obtain x u where x: "m s = (x, u)" by fastforce
  show "if \<exists>y. z = Inr y \<and> ok y then \<exists>b. uploaded t = uploaded s @ [b] \<and> carries outer b else uploaded t = uploaded s"
  proof (cases x)
    case (Inr v)
    with x run m [unfolded gains_def] show ?thesis by (metis m_catch_Inr)
  next
    case (Inl e)
    with x gains_Inl [OF m] have u: "uploaded u = uploaded s" by blast
    show ?thesis
    proof (cases "caught e")
      case True
      with run x Inl have "h e u = (z, t)" by (simp add: m_catch_Inl)
      with h [unfolded gains_def] u show ?thesis by metis
    next
      case False
      with run x Inl u show ?thesis by (auto simp: m_catch_Inl)
    qed
  qed
qed

lemma gains_if [gains_rules]:
  "(b \<Longrightarrow> gains outer ok m) \<Longrightarrow> (\<not> b \<Longrightarrow> gains outer ok m') \<Longrightarrow> gains outer ok (if b then m else m')"
  by simp

lemma gains_option [gains_rules]:
  "gains outer ok m \<Longrightarrow> (\<And>x. gains outer ok (g x)) \<Longrightarrow> gains outer ok (case y of None \<Rightarrow> m | Some x \<Rightarrow> g x)"
  by (cases y) simp_all

lemma gains_let [gains_rules]: "gains outer ok (f y) \<Longrightarrow> gains outer ok (let x = y in f x)"
  by simp

lemma gains_post:
  assumes "carries outer body"
  shows "ends_with ''/v1/blobs'' url \<Longrightarrow> \<not> ends_with ''/v1/direct/blobs'' url \<Longrightarrow>
      gains outer (\<lambda>reply. hs_status reply = 201) (yakr_post P (logged H) url contact hs body)"
    and "ends_with ''/v1/direct/blobs'' url \<Longrightarrow> \<not> ends_with ''/v1/blobs'' url \<Longrightarrow>
      gains outer (\<lambda>reply. hs_status reply \<in> {200, 201}) (yakr_post P (logged H) url contact hs body)"
  using assms by (auto intro!: gainsI simp: blob_accepted_def dest!: post_uploads split: if_splits)

lemma blob_urls [simp]:
  "ends_with ''/v1/blobs'' (u @ ''/v1/blobs'')" "\<not> ends_with ''/v1/blobs'' (u @ ''/v1/direct/blobs'')"
  "\<not> ends_with ''/v1/direct/blobs'' (u @ ''/v1/blobs'')"
  by (simp_all add: ends_with_def starts_with_def)

lemma gains_with_relay_name [gains_rules]:
  assumes m: "gains outer ok m"
  shows "gains outer ok (with_relay_name name m)"
proof -
  have run: "\<exists>u. m (s\<lparr>cl_env := dict_put ''YAKR_RELAY_NAME'' name (cl_env s)\<rparr>) = (x, u) \<and> uploaded t = uploaded u"
    if "with_relay_name name m s = (x, t)" for s x t
    using that by (auto simp: with_relay_name_def uploaded_def split: prod.splits)
  have same: "uploaded (s\<lparr>cl_env := e\<rparr>) = uploaded s" for s e by (simp add: uploaded_def)
  show ?thesis
    by (rule gainsI) (auto dest!: run dest: gains_Inl [OF m] gains_none [OF m] gains_one [OF m] simp: same)
qed

lemma gains_not [gains_rules]: "keeps uploaded m \<Longrightarrow> gains outer (\<lambda>x. False) m"
  by (rule gainsI) (auto dest: keepsD)

lemma send_gains [gains_rules]:
  "gains outer (\<lambda>_. True) (send_encrypted P (logged H) now i outer url network)"
proof -
  have post: "gains outer (\<lambda>reply. hs_status reply = 201)
      (yakr_post P (logged H) (rstrip_slash url @ ''/v1/blobs'') contact hs body)" if "carries outer body" for contact hs body
    using that by (intro gains_post) simp_all
  have upload: "gains outer (\<lambda>reply. hs_status reply = 201) (case auth of
      Some a \<Rightarrow> m_bind (ensure_capability_session P (logged H) now url name i a permissions None) (\<lambda>session.
        m_bind (capability_headers_for_request P now session ''POST'' ''/v1/blobs'' (utf8 (json_default (to_relay_json outer)))) (\<lambda>hs.
        yakr_post P (logged H) (rstrip_slash url @ ''/v1/blobs'') contact (hs @ json_headers) (utf8 (json_default (to_relay_json outer)))))
    | None \<Rightarrow> yakr_post P (logged H) (rstrip_slash url @ ''/v1/blobs'') contact json_headers
        (utf8 (json_compact (case ticket of None \<Rightarrow> to_relay_json outer | Some t \<Rightarrow> with_item ''ticket'' (JStr t) (to_relay_json outer)))))"
    for auth name permissions contact ticket
    by (cases ticket; simp only: option.case; intro gains_rules keeps_rules post carriesI)
  have status: "gains outer (\<lambda>_. True) (m_bind m (\<lambda>reply. if hs_status reply \<noteq> 201 then m_raise (err reply) else m_return ()))"
    if "gains outer (\<lambda>reply. hs_status reply = 201) m" for m and err :: "http_reply \<Rightarrow> exn"
    by (rule gains_then [OF that]) (simp_all add: gains_raise)
  show ?thesis
    unfolding send_encrypted_def Let_def by (intro gains_bind gains_get keeps_rules status upload)
qed

lemma direct_gains [gains_rules]: "gains outer (\<lambda>ok. ok) (try_direct_delivery P (logged H) outer hints)"
proof (induction hints)
  case (Cons hint hints)
  have post: "gains outer (\<lambda>reply. hs_status reply \<in> {200, 201})
      (yakr_post P (logged H) (rstrip_slash hint @ ''/v1/direct/blobs'') contact hs (utf8 (json_compact (to_relay_json outer))))"
    for contact hs by (intro gains_post carriesI) (simp_all add: ends_with_def starts_with_def)
  have "gains outer (\<lambda>ok. ok) (m_bind (yakr_post P (logged H) (rstrip_slash hint @ ''/v1/direct/blobs'') contact hs
      (utf8 (json_compact (to_relay_json outer)))) (\<lambda>reply. m_return (hs_status reply \<in> {200, 201})))" for contact hs
    by (rule gains_then [OF post]) (auto intro: gains_return)
  then show ?case
    unfolding try_direct_delivery.simps
    by (intro gains_get gains_then [where ok = "\<lambda>ok. ok"] gains_catch gains_return) (auto simp: Cons.IH)
qed (simp only: try_direct_delivery.simps gains_return not_False_eq_True)

lemma relays_gains [gains_rules]:
  "gains outer (\<lambda>r. \<not> isl r) (deliver_to_relays P (logged H) now i outer network urls rest errors)"
proof (induction rest arbitrary: errors)
  case (Cons url rest)
  have attempt: "gains outer (\<lambda>f. f = None) (m_bind (with_relay_name name (send_encrypted P (logged H) now i outer url network))
      (\<lambda>_. m_return None))" for name
    by (rule gains_then [OF gains_with_relay_name [OF send_gains]]) simp_all
  show ?case
    unfolding deliver_to_relays.simps Let_def
    by (intro gains_get gains_then [where ok = "\<lambda>f. f = None"] gains_catch gains_return attempt)
      (auto intro: Cons.IH)
qed (simp only: deliver_to_relays.simps, rule gains_return, simp)

lemma deliver_gains [gains_rules]:
  "gains outer (\<lambda>_. True) (deliver_encrypted n P (logged H) now i outer route allow_direct retry)"
proof (induction n arbitrary: retry)
  case (Suc n)
  have direct: "gains outer (\<lambda>ok. ok) (if b then try_direct_delivery P (logged H) outer hints else m_return False)" for b hints
    by (intro gains_if direct_gains gains_return) simp
  have labelled: "gains outer (\<lambda>_. True) (m_bind (send_encrypted P (logged H) now i outer url network) (\<lambda>_. m_get (\<lambda>s. m_return (f s))))"
    for url network and f :: "'a wire client \<Rightarrow> str"
    by (rule gains_then [OF send_gains]) simp_all
  have finish: "gains outer (\<lambda>_. True) (m_bind (deliver_to_relays P (logged H) now i outer network urls urls [])
      (\<lambda>outcome. case outcome of Inr label \<Rightarrow> m_return label | Inl errors \<Rightarrow> g errors))"
    if "\<And>errors. gains outer (\<lambda>_. True) (g errors)" for network urls and g :: "str list \<Rightarrow> ('a wire client, str) meth"
    by (rule gains_then [OF relays_gains]) (auto simp: that split: sum.splits)
  have start: "gains outer (\<lambda>_. True) (m_bind m (\<lambda>sent. if sent then m_return ''direct'' else rest))"
    if "gains outer (\<lambda>ok. ok) m" "gains outer (\<lambda>_. True) rest" for m and rest :: "('a wire client, str) meth"
    by (rule gains_then [OF that(1)]) (simp_all add: that(2))
  show ?case
    unfolding deliver_encrypted.simps Let_def
    by (intro gains_bind gains_get start direct finish gains_if gains_catch labelled gains_raise Suc.IH keeps_rules)
qed (simp only: deliver_encrypted.simps gains_raise)

section \<open>A receipt is sent or queued\<close>

lemma with_contact_uploads: "with_contact c m s = (x, t) \<Longrightarrow>
  \<exists>u. m (s\<lparr>cl_contact := c\<rparr>) = (x, u) \<and> cl_store t = cl_store u \<and> uploaded t = uploaded u"
  by (auto simp: with_contact_def uploaded_def split: prod.splits)

lemma uploaded_contact [simp]: "uploaded (s\<lparr>cl_contact := c\<rparr>) = uploaded s"
  by (simp add: uploaded_def)

lemma receipt_steps [keeps_rules]:
  "keeps uploaded (in_session f)" "keeps uploaded (restore_ratchet_snapshot j)" "keeps uploaded (persist_contact P)"
  "keeps uploaded (load_or_fail P name e)"
  unfolding in_session_def restore_ratchet_snapshot_def persist_contact_def load_or_fail_def by (intro keeps_rules)+

lemma receipt_gains:
  "gains (em_outer receipt) (\<lambda>ok. ok) (m_catch
     (m_bind (deliver_encrypted n P (logged H) now i (em_outer receipt) None False True) (\<lambda>_.
      m_bind (on_store (delete_pending_receipt name did)) (\<lambda>_. m_return True))) caught
     (\<lambda>e. m_bind (restore_ratchet_snapshot snapshot) (\<lambda>_.
       m_bind (m_modify (\<lambda>s. s\<lparr>cl_contact := (cl_contact s)\<lparr>next_send_seq := k\<rparr>\<rparr>)) (\<lambda>_.
       m_bind (persist_contact P) (\<lambda>_.
       m_bind (on_store (save_pending_receipt now name did route)) (\<lambda>_. m_return False))))))"
proof -
  have "\<exists>y t. m_bind (on_store (delete_pending_receipt name did)) (\<lambda>_. m_return True) s = (Inr y, t) \<and> y \<and>
      uploaded t = uploaded s" for s :: "'a wire client"
    by (rule exI [of _ True])
      (simp add: on_store_def m_zoom_def delete_pending_receipt_def transaction_def m_bind_def Let_def uploaded_def)
  then show ?thesis
    by (intro gains_catch [OF gains_then [OF deliver_gains]] gains_bind gains_return keeps_rules) auto
qed

lemma receipt_taken_back:
  assumes "m_bind (restore_ratchet_snapshot snapshot) (\<lambda>_.
       m_bind (m_modify (\<lambda>s. s\<lparr>cl_contact := (cl_contact s)\<lparr>next_send_seq := k\<rparr>\<rparr>)) (\<lambda>_.
       m_bind (persist_contact P) (\<lambda>_.
       m_bind (on_store (save_pending_receipt now name did route)) (\<lambda>_. m_return False)))) u = (Inr ok, t)"
  shows "\<not> ok \<and> tbl_get receipt_key (name, did) (receipts (db (cl_store t))) =
      Some \<lparr>rr_contact = name, rr_delivered_id = did, rr_route = route, rr_created_at = now\<rparr> \<and>
    (\<exists>c r. holds_contact P c (db (cl_store t)) \<and> next_send_seq c = k \<and> c_ratchet c = Some r \<and> ratchet_from_dict snapshot = Inr r)"
proof -
  have key: "receipt_key \<lparr>rr_contact = name, rr_delivered_id = did, rr_route = route, rr_created_at = now\<rparr> = (name, did)"
    by (simp add: receipt_key_def)
  obtain r where r: "ratchet_from_dict snapshot = Inr r"
    using assms by (cases "ratchet_from_dict snapshot") (auto simp: restore_ratchet_snapshot_def m_bind_def m_of_def)
  let ?c = "(cl_contact u)\<lparr>c_ratchet := Some r, next_send_seq := k\<rparr>"
  have "holds_contact P ?c (db (cl_store t)) \<and> \<not> ok \<and> tbl_get receipt_key (name, did) (receipts (db (cl_store t))) =
      Some \<lparr>rr_contact = name, rr_delivered_id = did, rr_route = route, rr_created_at = now\<rparr>"
    using assms r
    by (auto simp: restore_ratchet_snapshot_def persist_contact_def atomic_persist_contact_def save_contact_conn_def
        sync_contact_json_def on_store_def m_zoom_def save_pending_receipt_def transaction_def m_bind_def m_of_def
        holds_contact_def contact_tbl.get_replace receipt_tbl.get_replace key)
  with r show ?thesis by (auto intro!: exI [of _ ?c])
qed

lemma receipt_row:
  assumes "m_catch
     (m_bind deliver (\<lambda>_. m_bind (on_store (delete_pending_receipt name did)) (\<lambda>_. m_return True))) caught
     (\<lambda>e. m_bind (restore_ratchet_snapshot snapshot) (\<lambda>_.
       m_bind (m_modify (\<lambda>s. s\<lparr>cl_contact := (cl_contact s)\<lparr>next_send_seq := k\<rparr>\<rparr>)) (\<lambda>_.
       m_bind (persist_contact P) (\<lambda>_.
       m_bind (on_store (save_pending_receipt now name did route)) (\<lambda>_. m_return False))))) s = (Inr ok, t)"
  shows "if ok then tbl_get receipt_key (name, did) (receipts (db (cl_store t))) = None
    else tbl_get receipt_key (name, did) (receipts (db (cl_store t))) =
        Some \<lparr>rr_contact = name, rr_delivered_id = did, rr_route = route, rr_created_at = now\<rparr> \<and>
      (\<exists>c r. holds_contact P c (db (cl_store t)) \<and> next_send_seq c = k \<and> c_ratchet c = Some r \<and> ratchet_from_dict snapshot = Inr r)"
proof -
  obtain x u where x: "m_bind deliver (\<lambda>_. m_bind (on_store (delete_pending_receipt name did)) (\<lambda>_. m_return True)) s = (x, u)"
    by fastforce
  show ?thesis
  proof (cases x)
    case (Inr b)
    with x obtain v where "m_bind (on_store (delete_pending_receipt name did)) (\<lambda>_. m_return True) v = (Inr b, u)"
      by (auto simp: m_bind_Inr)
    then have "b \<and> tbl_get receipt_key (name, did) (receipts (db (cl_store u))) = None"
      using receipt_tbl.get_delete [of "(name, did)" "(name, did)"]
      by (auto simp: on_store_def m_zoom_def delete_pending_receipt_def transaction_def m_bind_def Let_def)
    with assms x Inr show ?thesis by (simp add: m_catch_Inr)
  next
    case (Inl e)
    with assms x show ?thesis by (auto simp: m_catch_Inl split: if_splits dest!: receipt_taken_back)
  qed
qed

lemma send_receipt_split:
  assumes "send_delivery_receipt n P (logged H) now i name did route s = (Inr ok, t)"
  obtains c r u v and receipt :: encrypted_message where "fst (get_contact P name (cl_store s)) = Inr (Some c)" "c_ratchet c = Some r"
    "uploaded u = uploaded s" "uploaded t = uploaded v" "cl_store t = cl_store v"
    "m_catch (m_bind (deliver_encrypted n P (logged H) now i (em_outer receipt) None False True) (\<lambda>_.
        m_bind (on_store (delete_pending_receipt name did)) (\<lambda>_. m_return True)))
      (\<lambda>e. is_runtime_error e \<or> is_http_error e \<or> is_value_error e)
      (\<lambda>e. m_bind (restore_ratchet_snapshot (ratchet_to_dict r)) (\<lambda>_.
        m_bind (m_modify (\<lambda>s. s\<lparr>cl_contact := (cl_contact s)\<lparr>next_send_seq := next_send_seq c\<rparr>\<rparr>)) (\<lambda>_.
        m_bind (persist_contact P) (\<lambda>_.
        m_bind (on_store (save_pending_receipt now name did route)) (\<lambda>_. m_return False))))) u = (Inr ok, v)"
    "seq (em_inner receipt) = next_send_seq c"
proof -
  obtain c s1 where load: "load_or_fail P name (ValueError (''unknown contact: '' @ name)) s = (Inr c, s1)"
    using assms by (auto simp: send_delivery_receipt_def m_bind_Inr)
  then have c: "fst (get_contact P name (cl_store s)) = Inr (Some c)"
    by (auto simp: load_or_fail_def m_bind_Inr on_store_def m_zoom_def m_of_def opt_res_def split: prod.splits option.splits)
  obtain w where w: "uploaded w = uploaded s1" "w = s1\<lparr>cl_contact := c\<rparr>" by simp
  from assms load obtain v snapshot where v: "uploaded t = uploaded v" "cl_store t = cl_store v"
    and body: "(case c_ratchet c of None \<Rightarrow> Inl (ValueError ''contact missing ratchet state'')
        | Some r \<Rightarrow> Inr (ratchet_to_dict r)) = Inr snapshot"
      "m_bind (in_session (\<lambda>np nonce. encrypt_receipt P i np nonce now did)) (\<lambda>receipt.
       m_bind (restore_ratchet_snapshot snapshot) (\<lambda>_.
       m_bind (persist_contact P) (\<lambda>_.
       m_catch
         (m_bind (deliver_encrypted n P (logged H) now i (em_outer receipt) None False True) (\<lambda>_.
          m_bind (on_store (delete_pending_receipt name did)) (\<lambda>_. m_return True)))
         (\<lambda>e. is_runtime_error e \<or> is_http_error e \<or> is_value_error e)
         (\<lambda>e. m_bind (restore_ratchet_snapshot snapshot) (\<lambda>_.
           m_bind (m_modify (\<lambda>s. s\<lparr>cl_contact := (cl_contact s)\<lparr>next_send_seq := next_send_seq c\<rparr>\<rparr>)) (\<lambda>_.
           m_bind (persist_contact P) (\<lambda>_.
           m_bind (on_store (save_pending_receipt now name did route)) (\<lambda>_.
           m_return False)))))))) w = (Inr ok, v)"
    unfolding send_delivery_receipt_def w(2)
    by (auto simp: m_bind_eq m_bind_Inr m_of_def dest!: with_contact_uploads split: sum.splits)
  from body(1) obtain r where r: "c_ratchet c = Some r" "snapshot = ratchet_to_dict r"
    by (auto split: option.splits)
  from body(2) obtain receipt u1 u2 u where u: "in_session (\<lambda>np nonce. encrypt_receipt P i np nonce now did) w = (Inr receipt, u1)"
      "restore_ratchet_snapshot snapshot u1 = (Inr (), u2)" "persist_contact P u2 = (Inr (), u)"
    and catch: "m_catch
         (m_bind (deliver_encrypted n P (logged H) now i (em_outer receipt) None False True) (\<lambda>_.
          m_bind (on_store (delete_pending_receipt name did)) (\<lambda>_. m_return True)))
         (\<lambda>e. is_runtime_error e \<or> is_http_error e \<or> is_value_error e)
         (\<lambda>e. m_bind (restore_ratchet_snapshot snapshot) (\<lambda>_.
           m_bind (m_modify (\<lambda>s. s\<lparr>cl_contact := (cl_contact s)\<lparr>next_send_seq := next_send_seq c\<rparr>\<rparr>)) (\<lambda>_.
           m_bind (persist_contact P) (\<lambda>_.
           m_bind (on_store (save_pending_receipt now name did route)) (\<lambda>_.
           m_return False))))) u = (Inr ok, v)"
    by (auto simp: m_bind_Inr)
  have "seq (em_inner receipt) = next_send_seq c"
    using u(1) w(2) by (auto simp: in_session_def m_bind_Inr draw_def on_contact_def m_zoom_def encrypt_receipt_def
        inner_receipt_def split: prod.splits elim!: encrypt_with_Inr)
  moreover have "uploaded u = uploaded s"
    using keepsD [OF receipt_steps(1) u(1)] keepsD [OF receipt_steps(2) u(2)] keepsD [OF receipt_steps(3) u(3)]
      keepsD [OF receipt_steps(4) load] w(1) by simp
  ultimately show thesis using that c r(1) v catch [unfolded r(2)] by blast
qed

section \<open>Properties\<close>



section \<open>Loops and recursion end\<close>

lemma m_bind_return: "m_bind (m_return x) f = f x"
  by (rule ext) simp

lemma stale_retry_once:
  "deliver_encrypted (Suc n) P H now i outer None allow_direct False =
   deliver_encrypted (Suc 0) P H now i outer None allow_direct False"
  unfolding deliver_encrypted.simps(2) Let_def
  by (simp add: m_bind_return cong del: if_weak_cong sum.case_cong_weak option.case_cong_weak)

text \<open>
  C39. Without an explicit route the recursion of \<open>deliver_encrypted\<close> is at most one call deep, so
  its result does not depend on the depth the interpreter allows.
\<close>

theorem delivery_depth:
  "deliver_encrypted (Suc (Suc n)) P H now i outer None allow_direct retry s =
   deliver_encrypted 2 P H now i outer None allow_direct retry s"
  unfolding numeral_2_eq_2 deliver_encrypted.simps(2) [of "Suc n"] deliver_encrypted.simps(2) [of "Suc 0"]
    stale_retry_once [of n] by (rule refl)

text \<open>
  C40. The \<open>while pending\<close> loop of a fetch ends: rounds beyond the number of items change nothing, since
  every round that goes on leaves fewer items, and with that many rounds the loop satisfies the equation of
  the \<open>while\<close> loop, in which no rounds are counted.
\<close>

theorem fetch_rounds_end:
  "drain_rounds (length pending + extra) n P H now i name pending fetched s =
     drain_rounds (length pending) n P H now i name pending fetched s \<and>
   drain_rounds (length pending) n P H now i name pending fetched s =
     (if pending = [] then (Inr fetched, s) else
      m_bind (drain_pass n P H now i name pending) (\<lambda>(progressed, still, new).
        if progressed then drain_rounds (length still) n P H now i name still (fetched + new)
        else m_return (fetched + new)) s)"
  by (rule conjI [OF inbox_loop.fuel_enough inbox_loop.while_equation]) simp_all

end
