(* ===== verification/Conversation.thy ===== *)
theory Conversation
  imports Session Pairing DemoPrims
begin

text \<open>
  Two paired contacts exchanging texts through their sessions, in any interleaving, over a
  network that delivers in order. The abstract specification is two logs of texts, one for
  each direction; the detailed one the run of two ratchets of \<open>Duplex\<close>. Every step of a
  conversation is a step of the ratchets below it, so what \<open>Duplex\<close> shows of packets carries
  over to texts: each \<open>decrypt_inbound\<close> returns the next text sent, and none is refused.
\<close>

section \<open>Conversations\<close>

text \<open>
  \<open>peer x\<close> is the contact that side \<open>x\<close> keeps; \<open>line x\<close> holds the blobs on the way to \<open>x\<close>,
  each with the time it was made; \<open>said x\<close> the texts sent to \<open>x\<close>, and \<open>heard x\<close> what its
  calls of \<open>decrypt_inbound\<close> returned.
\<close>

record conversation =
  self_id :: "side \<Rightarrow> identity"
  peer :: "side \<Rightarrow> contact"
  line :: "side \<Rightarrow> (outer_blob \<times> int) list"
  said :: "side \<Rightarrow> str list"
  heard :: "side \<Rightarrow> str res list"

definition ratchet_of :: "contact \<Rightarrow> ratchet" where
  "ratchet_of c = the (c_ratchet c)"

inductive conv_step :: "prims \<Rightarrow> conversation \<Rightarrow> conversation \<Rightarrow> bool" for P where
  say: "length np = 32 \<Longrightarrow> p_x25519_pub P np \<noteq> dh_self_public (ratchet_of (peer s x)) \<Longrightarrow> length nonce = 24 \<Longrightarrow>
    encrypt_text P (self_id s x) np nonce now body (peer s x) = (Inr em, c) \<Longrightarrow>
    conv_step P s
      (s\<lparr>peer := (peer s)(x := c), line := (line s)(other x := line s (other x) @ [(em_outer em, now)]),
         said := (said s)(other x := said s (other x) @ [body])\<rparr>)"
| hear: "length np = 32 \<Longrightarrow> p_x25519_pub P np \<noteq> dh_self_public (ratchet_of (peer s x)) \<Longrightarrow>
    line s x = (blob, sent_at) # rest \<Longrightarrow> now \<le> sent_at + MESSAGE_TTL_MS \<Longrightarrow>
    decrypt_inbound P np now blob (peer s x) = (res, c) \<Longrightarrow>
    conv_step P s
      (s\<lparr>peer := (peer s)(x := c), line := (line s)(x := rest),
         heard := (heard s)(x := heard s x @ [and_then res (\<lambda>inner. Inr (im_body inner))])\<rparr>)"

inductive conv_reach :: "prims \<Rightarrow> conversation \<Rightarrow> conversation \<Rightarrow> bool" for P s0 where
  start: "conv_reach P s0 s0"
| step: "conv_reach P s0 s \<Longrightarrow> conv_step P s t \<Longrightarrow> conv_reach P s0 t"

definition meeting :: "identity \<Rightarrow> identity \<Rightarrow> contact \<Rightarrow> contact \<Rightarrow> conversation" where
  "meeting i j ci cj = \<lparr>self_id = (\<lambda>x. case x of Inviter \<Rightarrow> i | Joiner \<Rightarrow> j),
     peer = (\<lambda>x. case x of Inviter \<Rightarrow> ci | Joiner \<Rightarrow> cj), line = (\<lambda>_. []), said = (\<lambda>_. []), heard = (\<lambda>_. [])\<rparr>"

section \<open>One text through the two methods\<close>

lemma encrypt_text_step:
  assumes "encrypt_text P i np nonce now body c = (Inr em, c')"
  obtains r padded n r' inner where "c_ratchet c = Some r"
    "inner = inner_text (c_conversation_id c) (device_id P i) (next_send_seq c) body now"
    "pad_plaintext (inner_to_bytes inner) (privacy_mode c) = Inr (padded, n)"
    "ratchet_encrypt P np nonce padded r = (Inr (ob_ciphertext (em_outer em)), r')"
    "c' = c\<lparr>c_ratchet := Some r', next_send_seq := next_send_seq c + 1\<rparr>"
  using assms unfolding encrypt_text_def by (elim encrypt_with_Inr) (rule that; simp)

lemma decrypt_inbound_step:
  assumes r: "c_ratchet c = Some r" "ratchet_decrypt P np (ob_ciphertext blob) r = (Inr padded, r')"
    and p: "decode_padded_plaintext padded (privacy_mode c) = Inr (inner_to_bytes inner)"
    and inner: "inner = inner_text (c_conversation_id c) d (last_recv_seq c + 1) body at" "now \<le> at + MESSAGE_TTL_MS"
  shows "decrypt_inbound P np now blob c =
    (Inr inner, c\<lparr>c_ratchet := Some r', last_recv_seq := last_recv_seq c + 1\<rparr>)"
proof -
  have round: "inner_from_bytes (inner_to_bytes inner) = Inr inner"
    using inner by (intro inner_from_to_bytes) (simp_all add: inner_text_def)
  have f: "conversation_id inner = c_conversation_id c" "seq inner = last_recv_seq c + 1" "im_type inner = JStr ''text''"
    "now \<le> valid_until inner"
    using inner by (simp_all add: inner_text_def message_valid_until_def)
  then have "decrypt_outer P np now blob c = (Inr inner, c\<lparr>c_ratchet := Some r', last_recv_seq := last_recv_seq c + 1\<rparr>)"
    using r p round
    by (simp add: decrypt_outer_def Let_def on_ratchet_def catch_ratchet_def m_bind_def [of "catch_ratchet _"]
        enforce_message_ttl_def is_message_expired_def)
  with r f show ?thesis by (simp add: decrypt_inbound_def m_bind_def)
qed

section \<open>The refinement\<close>

text \<open>
  The texts to \<open>x\<close> as they were sealed: the inner message and its padding. \<open>refines\<close> relates a
  conversation to a run of the two ratchets; \<open>inn x\<close> are the inner messages sent to \<open>x\<close>.
\<close>

definition sealed_text :: "contact \<Rightarrow> bytes \<Rightarrow> nat \<Rightarrow> str \<Rightarrow> int \<Rightarrow> bool" where
  "sealed_text c padded k body at \<longleftrightarrow>
     (\<exists>d n. pad_plaintext (inner_to_bytes (inner_text (c_conversation_id c) d (int k + 1) body at)) (privacy_mode c)
        = Inr (padded, n))"

definition refines :: "conversation \<Rightarrow> duplex \<Rightarrow> (side \<Rightarrow> int list) \<Rightarrow> bool" where
  "refines s t at \<longleftrightarrow> (\<forall>x.
     c_ratchet (peer s x) = Some (party t x) \<and> map (ob_ciphertext \<circ> fst) (line s x) = wire t x \<and>
     length (sent t x) = length (said s x) \<and> length (at x) = length (said s x) \<and>
     length (heard s x) = length (got t x) \<and> heard s x = map Inr (take (length (heard s x)) (said s x)) \<and>
     map snd (line s x) = drop (length (heard s x)) (at x) \<and>
     (\<forall>k < length (said s x). sealed_text (peer s x) (sent t x ! k) k (said s x ! k) (at x ! k)) \<and>
     last_recv_seq (peer s x) = int (length (heard s x)) \<and>
     next_send_seq (peer s x) = int (length (said s (other x))) + 1 \<and>
     c_conversation_id (peer s x) = c_conversation_id (peer s (other x)) \<and>
     privacy_mode (peer s x) = privacy_mode (peer s (other x)) \<and> known_mode (privacy_mode (peer s x)))"

text \<open>What the runs of \<open>Duplex\<close> guarantee, as the contract the refinement rests on.\<close>

definition faithful :: "duplex \<Rightarrow> bool" where
  "faithful t \<longleftrightarrow> (\<forall>x. got t x = map Inr (take (length (got t x)) (sent t x)) \<and>
     length (sent t x) = length (got t x) + length (wire t x))"

lemma map_take_length: "ys = map f (take k xs) \<Longrightarrow> ys = map f (take (length ys) xs)"
  by (simp add: min_def)

lemma refines_say:
  assumes rf: "refines s t at" and np: "length np = 32" "p_x25519_pub P np \<noteq> dh_self_public (ratchet_of (peer s x))"
      "length nonce = 24"
    and enc: "encrypt_text P (self_id s x) np nonce now body (peer s x) = (Inr em, c)"
  shows "\<exists>t' at'. duplex_step P t t' \<and> refines (s\<lparr>peer := (peer s)(x := c),
      line := (line s)(other x := line s (other x) @ [(em_outer em, now)]),
      said := (said s)(other x := said s (other x) @ [body])\<rparr>) t' at'"
proof -
  obtain r padded n r' inner where e: "c_ratchet (peer s x) = Some r"
    "inner = inner_text (c_conversation_id (peer s x)) (device_id P (self_id s x)) (next_send_seq (peer s x)) body now"
    "pad_plaintext (inner_to_bytes inner) (privacy_mode (peer s x)) = Inr (padded, n)"
    "ratchet_encrypt P np nonce padded r = (Inr (ob_ciphertext (em_outer em)), r')"
    "c = (peer s x)\<lparr>c_ratchet := Some r', next_send_seq := next_send_seq (peer s x) + 1\<rparr>"
    using enc by (rule encrypt_text_step)
  have r: "party t x = r" "ratchet_of (peer s x) = r"
    using rf e(1) by (auto simp: refines_def ratchet_of_def)
  let ?t = "t\<lparr>party := (party t)(x := r'), wire := (wire t)(other x := wire t (other x) @ [ob_ciphertext (em_outer em)]),
      sent := (sent t)(other x := sent t (other x) @ [padded])\<rparr>"
  let ?s = "s\<lparr>peer := (peer s)(x := c), line := (line s)(other x := line s (other x) @ [(em_outer em, now)]),
      said := (said s)(other x := said s (other x) @ [body])\<rparr>"
  let ?at = "at(other x := at (other x) @ [now])"
  have st: "duplex_step P t ?t"
    using np e(4) r by (intro duplex_step.send) simp_all
  have peer': "c_conversation_id (peer ?s y) = c_conversation_id (peer s y)" "privacy_mode (peer ?s y) = privacy_mode (peer s y)"
    "last_recv_seq (peer ?s y) = last_recv_seq (peer s y)" for y
    using e(5) by simp_all
  have seal: "sealed_text (peer ?s y) = sealed_text (peer s y)" for y
    using peer' by (simp add: sealed_text_def fun_eq_iff)
  have sealc: "sealed_text c = sealed_text (peer s x)"
    using e(5) by (simp add: sealed_text_def fun_eq_iff)
  have new: "sealed_text (peer s (other x)) padded (length (said s (other x))) body now"
    using rf e(2,3) unfolding refines_def sealed_text_def by (metis (no_types, opaque_lifting))
  have at: "length (at y) = length (said s y)" "length (heard s y) \<le> length (said s y)"
    "length (sent t y) = length (said s y)" for y
  proof -
    show "length (at y) = length (said s y)" "length (sent t y) = length (said s y)" using rf by (auto simp: refines_def)
    have "length (heard s y) = length (take (length (heard s y)) (said s y))"
      using rf unfolding refines_def by (metis length_map)
    then show "length (heard s y) \<le> length (said s y)" by simp
  qed
  have "refines ?s ?t ?at"
    unfolding refines_def
  proof (intro allI)
    fix y
    have y: "y = other x \<or> y = x" by (cases x; cases y) auto
    from rf have b: "c_ratchet (peer s y) = Some (party t y)" "map (ob_ciphertext \<circ> fst) (line s y) = wire t y"
      "length (heard s y) = length (got t y)" "heard s y = map Inr (take (length (heard s y)) (said s y))"
      "map snd (line s y) = drop (length (heard s y)) (at y)"
      "\<And>k. k < length (said s y) \<Longrightarrow> sealed_text (peer s y) (sent t y ! k) k (said s y ! k) (at y ! k)"
      "last_recv_seq (peer s y) = int (length (heard s y))" "next_send_seq (peer s y) = int (length (said s (other y))) + 1"
      "c_conversation_id (peer s y) = c_conversation_id (peer s (other y))"
      "privacy_mode (peer s y) = privacy_mode (peer s (other y))" "known_mode (privacy_mode (peer s y))"
      unfolding refines_def by blast+
    have nth: "\<forall>k < length (said ?s y). sealed_text (peer ?s y) (sent ?t y ! k) k (said ?s y ! k) (?at y ! k)"
      using b(6) new y at [of y] by (auto simp: seal sealc nth_append less_Suc_eq)
    have heard': "heard ?s y = map Inr (take (length (heard ?s y)) (said ?s y))"
    proof (cases "y = other x")
      case True
      then have "take (length (heard s y)) (said ?s y) = take (length (heard s y)) (said s y)"
        using at(2) [of y] by simp
      with b(4) show ?thesis by simp
    qed (use b(4) in simp)
    have conv: "c_conversation_id (peer ?s y) = c_conversation_id (peer ?s (other y))"
      "privacy_mode (peer ?s y) = privacy_mode (peer ?s (other y))" "known_mode (privacy_mode (peer ?s y))"
      "last_recv_seq (peer ?s y) = int (length (heard ?s y))"
      using b(7,9,10,11) peer' by simp_all
    show "c_ratchet (peer ?s y) = Some (party ?t y) \<and> map (ob_ciphertext \<circ> fst) (line ?s y) = wire ?t y \<and>
     length (sent ?t y) = length (said ?s y) \<and> length (?at y) = length (said ?s y) \<and>
     length (heard ?s y) = length (got ?t y) \<and> heard ?s y = map Inr (take (length (heard ?s y)) (said ?s y)) \<and>
     map snd (line ?s y) = drop (length (heard ?s y)) (?at y) \<and>
     (\<forall>k < length (said ?s y). sealed_text (peer ?s y) (sent ?t y ! k) k (said ?s y ! k) (?at y ! k)) \<and>
     last_recv_seq (peer ?s y) = int (length (heard ?s y)) \<and>
     next_send_seq (peer ?s y) = int (length (said ?s (other y))) + 1 \<and>
     c_conversation_id (peer ?s y) = c_conversation_id (peer ?s (other y)) \<and>
     privacy_mode (peer ?s y) = privacy_mode (peer ?s (other y)) \<and> known_mode (privacy_mode (peer ?s y))"
      using nth heard' conv b y at [of y] e(5) by auto
  qed
  with st show ?thesis by blast
qed

text \<open>What \<open>decrypt_inbound\<close> makes of the next blob, or of another one with its ciphertext.\<close>

lemma refines_next:
  assumes rf: "refines s t at" and all: "\<And>t'. duplex_step P t t' \<Longrightarrow> faithful t'" and t: "faithful t"
    and np: "length np = 32" "p_x25519_pub P np \<noteq> dh_self_public (ratchet_of (peer s x))"
    and line: "line s x = (blob, sent_at) # rest" "now \<le> sent_at + MESSAGE_TTL_MS" "ob_ciphertext b = ob_ciphertext blob"
  obtains y r' d where "y = Inr (sent t x ! length (heard s x))" "length (heard s x) < length (said s x)"
    "duplex_step P t (t\<lparr>party := (party t)(x := r'), wire := (wire t)(x := map (ob_ciphertext \<circ> fst) rest),
      got := (got t)(x := got t x @ [y])\<rparr>)"
    "decrypt_inbound P np now b (peer s x) =
      (Inr (inner_text (c_conversation_id (peer s x)) d (last_recv_seq (peer s x) + 1) (said s x ! length (heard s x)) sent_at),
       (peer s x)\<lparr>c_ratchet := Some r', last_recv_seq := last_recv_seq (peer s x) + 1\<rparr>)"
proof -
  from rf have f: "c_ratchet (peer s x) = Some (party t x)" "map (ob_ciphertext \<circ> fst) (line s x) = wire t x"
      "length (sent t x) = length (said s x)" "length (heard s x) = length (got t x)"
      "map snd (line s x) = drop (length (heard s x)) (at x)" "length (at x) = length (said s x)"
      "\<And>k. k < length (said s x) \<Longrightarrow> sealed_text (peer s x) (sent t x ! k) k (said s x ! k) (at x ! k)"
      "last_recv_seq (peer s x) = int (length (heard s x))" "known_mode (privacy_mode (peer s x))"
    unfolding refines_def by blast+
  let ?n = "length (heard s x)"
  obtain y r' where y: "ratchet_decrypt P np (ob_ciphertext b) (party t x) = (y, r')" by fastforce
  let ?t = "t\<lparr>party := (party t)(x := r'), wire := (wire t)(x := map (ob_ciphertext \<circ> fst) rest),
      got := (got t)(x := got t x @ [y])\<rparr>"
  have w: "wire t x = ob_ciphertext b # map (ob_ciphertext \<circ> fst) rest" using f(2) line(1,3) by simp
  have st: "duplex_step P t ?t"
    using np w y f(1) by (intro duplex_step.recv) (simp_all add: ratchet_of_def)
  from all [OF st] have g: "got t x @ [y] = map Inr (take (Suc ?n) (sent t x))" "Suc ?n \<le> length (sent t x)"
    using f(4) unfolding faithful_def by (auto dest: spec [of _ x])
  have n: "?n < length (said s x)" using g(2) f(3) by simp
  then have yv: "y = Inr (sent t x ! ?n)" using g f(3,4)
    by (simp add: take_Suc_conv_app_nth)
  have at: "at x ! ?n = sent_at"
  proof -
    have "sent_at = hd (drop ?n (at x))" using f(5) line(1) by (metis list.sel(1) list.simps(9) snd_conv)
    with n f(6) show ?thesis by (simp add: hd_drop_conv_nth)
  qed
  obtain d m where pad: "pad_plaintext (inner_to_bytes (inner_text (c_conversation_id (peer s x)) d (int ?n + 1)
      (said s x ! ?n) sent_at)) (privacy_mode (peer s x)) = Inr (sent t x ! ?n, m)"
    using f(7) [OF n] unfolding sealed_text_def at by blast
  have "decrypt_inbound P np now b (peer s x) =
    (Inr (inner_text (c_conversation_id (peer s x)) d (last_recv_seq (peer s x) + 1) (said s x ! ?n) sent_at),
     (peer s x)\<lparr>c_ratchet := Some r', last_recv_seq := last_recv_seq (peer s x) + 1\<rparr>)"
    using decode_pad_roundtrip [OF f(9) pad] f(8) line(2)
    by (intro decrypt_inbound_step [OF f(1) y [unfolded yv]]) simp_all
  with yv n st show thesis by (rule that)
qed

lemma refines_hear:
  assumes rf: "refines s t at" and all: "\<And>t'. duplex_step P t t' \<Longrightarrow> faithful t'" and t: "faithful t"
    and np: "length np = 32" "p_x25519_pub P np \<noteq> dh_self_public (ratchet_of (peer s x))"
    and line: "line s x = (blob, sent_at) # rest" "now \<le> sent_at + MESSAGE_TTL_MS"
    and dec: "decrypt_inbound P np now blob (peer s x) = (res, c)"
  shows "\<exists>t'. duplex_step P t t' \<and> refines (s\<lparr>peer := (peer s)(x := c), line := (line s)(x := rest),
      heard := (heard s)(x := heard s x @ [and_then res (\<lambda>inner. Inr (im_body inner))])\<rparr>) t' at"
proof -
  from rf have b: "length (heard s x) = length (got t x)" "map snd (line s x) = drop (length (heard s x)) (at x)"
      "map (ob_ciphertext \<circ> fst) (line s x) = wire t x" "last_recv_seq (peer s x) = int (length (heard s x))"
      "heard s x = map Inr (take (length (heard s x)) (said s x))"
    unfolding refines_def by blast+
  let ?n = "length (heard s x)"
  obtain y r' d where n: "?n < length (said s x)"
    and st: "duplex_step P t (t\<lparr>party := (party t)(x := r'), wire := (wire t)(x := map (ob_ciphertext \<circ> fst) rest),
      got := (got t)(x := got t x @ [y])\<rparr>)" (is "duplex_step P t ?t")
    and step: "decrypt_inbound P np now blob (peer s x) =
      (Inr (inner_text (c_conversation_id (peer s x)) d (last_recv_seq (peer s x) + 1) (said s x ! ?n) sent_at),
       (peer s x)\<lparr>c_ratchet := Some r', last_recv_seq := last_recv_seq (peer s x) + 1\<rparr>)"
    using refines_next [OF rf all t np line refl] by metis
  from step dec have c: "c = (peer s x)\<lparr>c_ratchet := Some r', last_recv_seq := last_recv_seq (peer s x) + 1\<rparr>"
    and res: "and_then res (\<lambda>inner. Inr (im_body inner)) = Inr (said s x ! ?n)"
    by (auto simp: inner_text_def)
  let ?s = "s\<lparr>peer := (peer s)(x := c), line := (line s)(x := rest),
      heard := (heard s)(x := heard s x @ [and_then res (\<lambda>inner. Inr (im_body inner))])\<rparr>"
  have sealc: "sealed_text c = sealed_text (peer s x)"
    using c by (simp add: sealed_text_def fun_eq_iff)
  have heard': "heard s x @ [Inr (said s x ! ?n)] = map Inr (take (Suc ?n) (said s x))"
    using n b(5) by (simp add: take_Suc_conv_app_nth)
  have snds: "map snd rest = drop (Suc ?n) (at x)"
    using b(2) line(1) by (metis drop_Suc list.sel(3) list.simps(9) tl_drop)
  have "refines ?s ?t at"
    unfolding refines_def
  proof (intro allI)
    fix z
    have z: "z = x \<or> z = other x" by (cases x; cases z) auto
    from rf have q: "c_ratchet (peer s z) = Some (party t z)" "map (ob_ciphertext \<circ> fst) (line s z) = wire t z"
      "length (sent t z) = length (said s z)" "length (at z) = length (said s z)" "length (heard s z) = length (got t z)"
      "heard s z = map Inr (take (length (heard s z)) (said s z))" "map snd (line s z) = drop (length (heard s z)) (at z)"
      "\<And>k. k < length (said s z) \<Longrightarrow> sealed_text (peer s z) (sent t z ! k) k (said s z ! k) (at z ! k)"
      "last_recv_seq (peer s z) = int (length (heard s z))" "next_send_seq (peer s z) = int (length (said s (other z))) + 1"
      "c_conversation_id (peer s z) = c_conversation_id (peer s (other z))"
      "privacy_mode (peer s z) = privacy_mode (peer s (other z))" "known_mode (privacy_mode (peer s z))"
      unfolding refines_def by blast+
    have h: "heard ?s z = map Inr (take (length (heard ?s z)) (said ?s z))"
    proof (cases "z = x")
      case True
      then have "heard ?s z = heard s x @ [Inr (said s x ! ?n)]" "said ?s z = said s x" using res by simp_all
      then show ?thesis using heard' map_take_length [of _ Inr "Suc ?n" "said s x"] by simp
    qed (use q(6) in simp)
    have sl: "\<forall>k < length (said ?s z). sealed_text (peer ?s z) (sent ?t z ! k) k (said ?s z ! k) (at z ! k)"
      using q(8) sealc by (cases "z = x") auto
    have cm: "c_conversation_id (peer ?s z) = c_conversation_id (peer ?s (other z))"
      "privacy_mode (peer ?s z) = privacy_mode (peer ?s (other z))" "known_mode (privacy_mode (peer ?s z))"
      "next_send_seq (peer ?s z) = int (length (said ?s (other z))) + 1"
      using q(10-13) c z by auto
    have "length (heard ?s z) = length (got ?t z)" "map snd (line ?s z) = drop (length (heard ?s z)) (at z)"
      "last_recv_seq (peer ?s z) = int (length (heard ?s z))" "c_ratchet (peer ?s z) = Some (party ?t z)"
      "map (ob_ciphertext \<circ> fst) (line ?s z) = wire ?t z"
      using q(1,2,5,7,9) c snds b(4) by auto
    with h sl cm q(3,4) show "c_ratchet (peer ?s z) = Some (party ?t z) \<and>
     map (ob_ciphertext \<circ> fst) (line ?s z) = wire ?t z \<and>
     length (sent ?t z) = length (said ?s z) \<and> length (at z) = length (said ?s z) \<and>
     length (heard ?s z) = length (got ?t z) \<and> heard ?s z = map Inr (take (length (heard ?s z)) (said ?s z)) \<and>
     map snd (line ?s z) = drop (length (heard ?s z)) (at z) \<and>
     (\<forall>k < length (said ?s z). sealed_text (peer ?s z) (sent ?t z ! k) k (said ?s z ! k) (at z ! k)) \<and>
     last_recv_seq (peer ?s z) = int (length (heard ?s z)) \<and>
     next_send_seq (peer ?s z) = int (length (said ?s (other z))) + 1 \<and>
     c_conversation_id (peer ?s z) = c_conversation_id (peer ?s (other z)) \<and>
     privacy_mode (peer ?s z) = privacy_mode (peer ?s (other z)) \<and> known_mode (privacy_mode (peer ?s z))"
      by simp
  qed
  with st show ?thesis by blast
qed

section \<open>From the handshake on\<close>

lemma conversation_refines:
  assumes start: "refines s0 t0 at0" and ok: "\<And>t. duplex_reach P t0 t \<Longrightarrow> faithful t" and run: "conv_reach P s0 s"
  shows "\<exists>t at. duplex_reach P t0 t \<and> refines s t at"
  using run
proof (induction rule: conv_reach.induct)
  case start
  show ?case using assms(1) duplex_reach.start by blast
next
  case (step s s')
  then obtain t at where t: "duplex_reach P t0 t" "refines s t at" by blast
  have next': "faithful t'" if "duplex_step P t t'" for t' using ok duplex_reach.step [OF t(1) that] .
  from step.hyps(2) show ?case
  proof cases
    case (say np x nonce now body em c)
    with refines_say [OF t(2) say(2-5)] t(1) show ?thesis by (metis duplex_reach.step)
  next
    case (hear np x blob sent_at rest now res c)
    with refines_hear [OF t(2) next' ok [OF t(1)] hear(2-6)] t(1) show ?thesis by (metis duplex_reach.step)
  qed
qed

lemma handshake_refines:
  assumes ok: "handshake_ok P i j invite [e, r, e', r']"
    and req: "build_pairing_request P e' r' rnd j invite (id_name j) profile = Inr (request, secrets)"
    and inv: "inviter_complete_pairing P i invite request e inviter_profile r now = Inr (response, ci)"
    and join: "joiner_complete_pairing P j invite request secrets response now' = Inr cj"
    and name: "iv_inviter_name invite = id_name i"
    and run: "conv_reach P (meeting i j ci cj) s"
  obtains t at where "refines s t at" "faithful t" "\<And>t'. duplex_step P t t' \<Longrightarrow> faithful t'"
proof -
  note agree = pairing_agreement [OF ok req inv join]
  obtain J where J: "c_ratchet cj = Some J" "joiner_ratchet P (master_secret ci) (hybrid_pq ci) r' (p_x25519_pub P r) = Inr J"
    using agree(5) by blast
  let ?t = "paired (inviter_ratchet P (master_secret ci) (hybrid_pq ci) r (p_x25519_pub P r')) J"
  have laws: "aead_correct P" "x25519_commutes P" "length r = 32" "length r' = 32"
    using ok by (auto simp: handshake_ok_def)
  have faithful: "faithful t" if "duplex_reach P ?t t" for t
    using duplex_delivery [OF laws J(2) that] by (simp add: faithful_def)
  have modes: "next_send_seq ci = 1" "last_recv_seq ci = 0" "privacy_mode ci = ''fast''"
    "next_send_seq cj = 1" "last_recv_seq cj = 0" "privacy_mode cj = ''fast''"
    using inv join by (auto elim!: inviter_complete_pairing_Inr joiner_complete_pairing_Inr)
  have conv: "c_conversation_id ci = c_conversation_id cj" using agree(8) name by simp
  have "refines (meeting i j ci cj) ?t (\<lambda>_. [])"
    using agree(4) J(1) modes conv
    by (auto simp: refines_def meeting_def paired_def known_mode_def split: side.splits)
  from conversation_refines [OF this faithful run] obtain t at where t: "duplex_reach P ?t t" "refines s t at" by blast
  from that [OF t(2) faithful [OF t(1)] faithful [OF duplex_reach.step [OF t(1)]]] show thesis .
qed

lemma conversation_log:
  assumes ok: "handshake_ok P i j invite [e, r, e', r']"
    and req: "build_pairing_request P e' r' rnd j invite (id_name j) profile = Inr (request, secrets)"
    and inv: "inviter_complete_pairing P i invite request e inviter_profile r now = Inr (response, ci)"
    and join: "joiner_complete_pairing P j invite request secrets response now' = Inr cj"
    and name: "iv_inviter_name invite = id_name i"
    and run: "conv_reach P (meeting i j ci cj) s"
  shows "heard s x = map Inr (take (length (heard s x)) (said s x)) \<and>
    length (said s x) = length (heard s x) + length (line s x)"
proof -
  obtain t at where "refines s t at" "faithful t" using handshake_refines [OF assms] by blast
  then show ?thesis unfolding refines_def faithful_def by (metis length_map)
qed

text \<open>
  C2. Two parties who have run the pairing handshake (\<open>build_pairing_request\<close>,
  \<open>inviter_complete_pairing\<close>, \<open>joiner_complete_pairing\<close>) then exchange texts, each calling
  \<open>encrypt_text\<close> and \<open>decrypt_inbound\<close> in any interleaving, over a network that delivers each
  direction in order within the lifetime of a message. Then whatever each side has heard is a
  prefix of what the other said, text for text and with no error, and nothing is lost: the
  rest is still on the line.
\<close>

theorem conversation_delivery:
  assumes ok: "handshake_ok P i j invite [e, r, e', r']"
    and req: "build_pairing_request P e' r' rnd j invite (id_name j) profile = Inr (request, secrets)"
    and inv: "inviter_complete_pairing P i invite request e inviter_profile r now = Inr (response, ci)"
    and join: "joiner_complete_pairing P j invite request secrets response now' = Inr cj"
    and name: "iv_inviter_name invite = id_name i"
    and run: "conv_reach P (meeting i j ci cj) s"
  shows "heard s x = map Inr (take (length (heard s x)) (said s x)) \<and>
    length (said s x) = length (heard s x) + length (line s x)"
  by (rule conversation_log [OF assms])

section \<open>One conversation\<close>

definition demo_inviter :: identity where
  "demo_inviter = \<lparr>id_name = ''ann'', signing_private = replicate 32 1, agreement_private = replicate 32 2,
     kem_public = [], kem_private = [], pq_signing_public = [], pq_signing_private = [], tls_ecdsa_private = None\<rparr>"

definition demo_joiner :: identity where
  "demo_joiner = demo_inviter\<lparr>id_name := ''bob'', signing_private := replicate 32 3, agreement_private := replicate 32 4\<rparr>"

definition demo_invite :: invite_bundle where
  "demo_invite = \<lparr>iv_protocol = [], iv_inviter_name = ''ann'', iv_signing_public = replicate 32 1,
     iv_agreement_public = replicate 32 2, iv_secret = [7], iv_rendezvous_hint = [], iv_expires_at = 0,
     iv_capabilities = [], iv_signature = [], iv_kem_public = [], iv_pq_signing_public = [], iv_pq_signature = [],
     iv_rendezvous_tls = []\<rparr>"

lemma demo_handshake_ok:
  "handshake_ok demo_prims demo_inviter demo_joiner demo_invite
     [replicate 32 5, replicate 32 6, replicate 32 7, replicate 32 8]"
  using demo_laws by (simp add: handshake_ok_def demo_inviter_def demo_joiner_def demo_invite_def
      agreement_public_bytes_def demo_prims_def invite_supports_hybrid_def HYBRID_PQ_CAPABILITY_def)

lemma demo_names: "iv_inviter_name demo_invite = id_name demo_inviter"
  by (simp add: demo_invite_def demo_inviter_def)

lemma inviter_speaks:
  assumes "c_ratchet c = Some (inviter_ratchet demo_prims master False r jp)" "length r = 32" "length np = 32"
    "length jp = 32" "hybrid_pq c = False" "privacy_mode c = ''fast''"
    "case c_profile c of None \<Rightarrow> True | Some p \<Rightarrow> dp_epoch_secs p \<noteq> 0"
  shows "\<exists>em c'. encrypt_text demo_prims i np nonce now body c = (Inr em, c')"
  using assms
  by (simp add: encrypt_text_def encrypt_with_def require_fresh_session_def needs_pq_rekey_def m_get_def m_bind_def
     encrypt_inner_def on_ratchet_def ratchet_encrypt_def inviter_ratchet_def from_master_def Let_def m_modify_def
     m_return_def m_raise_def pairing_send_init_def mailbox_deriver_def derive_def current_epoch_def m_of_def header_aad_def
     x25519_shared_secret_def demo_prims_def demo_x25519_def pack_II_def split: prod.splits option.splits)

definition demo_first_text ::
    "pairing_request \<Rightarrow> pairing_secrets \<Rightarrow> pairing_response \<Rightarrow> contact \<Rightarrow> contact \<Rightarrow> conversation \<Rightarrow> bool" where
  "demo_first_text request secrets response ci cj s \<longleftrightarrow>
     build_pairing_request demo_prims (replicate 32 7) (replicate 32 8) [] demo_joiner demo_invite (id_name demo_joiner) []
       = Inr (request, secrets) \<and>
     inviter_complete_pairing demo_prims demo_inviter demo_invite request (replicate 32 5) [] (replicate 32 6) 0
       = Inr (response, ci) \<and>
     joiner_complete_pairing demo_prims demo_joiner demo_invite request secrets response 0 = Inr cj \<and>
     conv_reach demo_prims (meeting demo_inviter demo_joiner ci cj) s \<and>
     said s = (\<lambda>_. [])(Joiner := [''hello'']) \<and> heard s = (\<lambda>_. []) \<and>
     peer s Joiner = cj \<and> self_id s Joiner = demo_joiner \<and> last_recv_seq cj = 0 \<and>
     dh_self_public (ratchet_of cj) = replicate 32 8 \<and>
     (\<exists>blob. line s Joiner = [(blob, 0)] \<and> length (ob_tag blob) = 32 \<and> ob_expires_at blob = MESSAGE_TTL_MS)"

lemma demo_first_text: "\<exists>request secrets response ci cj s. demo_first_text request secrets response ci cj s"
proof -
  let ?P = demo_prims and ?k = "\<lambda>n. replicate 32 (n :: 8 word)"
  obtain request secrets response ci cj where h:
    "build_pairing_request ?P (?k 7) (?k 8) [] demo_joiner demo_invite (id_name demo_joiner) [] = Inr (request, secrets)"
    "inviter_complete_pairing ?P demo_inviter demo_invite request (?k 5) [] (?k 6) 0 = Inr (response, ci)"
    "joiner_complete_pairing ?P demo_joiner demo_invite request secrets response 0 = Inr cj"
    using pairing_completes [OF demo_handshake_ok, of "[]" "id_name demo_joiner" 0 0]
    by (auto simp: demo_invite_def invite_supports_hybrid_def HYBRID_PQ_CAPABILITY_def)
  note agree = pairing_agreement [OF demo_handshake_ok h]
  have mode: "privacy_mode ci = ''fast''" "hybrid_pq ci = False" "c_profile ci = None"
  proof -
    have "pq_profile request = []" using h(1) by (auto simp: build_pairing_request_def split: if_splits prod.splits)
    moreover obtain th s where "privacy_mode ci = ''fast''" "hybrid_pq ci = invite_supports_hybrid demo_invite"
      "profile_from_pairing_bytes ?P (pq_profile request) (pq_joiner_signing request) = Inr (c_profile ci)"
      using h(2) by (elim inviter_complete_pairing_Inr) blast
    ultimately show "privacy_mode ci = ''fast''" "hybrid_pq ci = False" "c_profile ci = None"
      by (simp_all add: profile_from_pairing_bytes_def invite_supports_hybrid_def demo_invite_def HYBRID_PQ_CAPABILITY_def)
  qed
  let ?s0 = "meeting demo_inviter demo_joiner ci cj"
  have pub: "p_x25519_pub ?P k = k" for k by (simp add: demo_prims_def)
  obtain em c where e: "encrypt_text ?P demo_inviter (?k 9) (replicate 24 0) 0 ''hello'' ci = (Inr em, c)"
  proof -
    have "\<exists>em c. encrypt_text ?P demo_inviter (?k 9) (replicate 24 0) 0 ''hello'' ci = (Inr em, c)"
      using agree(4) mode by (intro inviter_speaks [of ci "master_secret ci" "?k 6" "?k 8"]) (simp_all add: pub)
    then show thesis using that by blast
  qed
  have keys: "dh_self_public (ratchet_of ci) = ?k 6"
    using agree(4) by (simp add: ratchet_of_def inviter_ratchet_def from_master_def pub Let_def)
  define s1 where "s1 = ?s0\<lparr>peer := (peer ?s0)(Inviter := c), line := (line ?s0)(other Inviter := line ?s0 (other Inviter) @ [(em_outer em, 0)]),
         said := (said ?s0)(other Inviter := said ?s0 (other Inviter) @ [''hello''])\<rparr>"
  have "conv_step ?P ?s0 s1"
    unfolding s1_def by (rule conv_step.say [of "?k 9" ?P ?s0 Inviter "replicate 24 0" 0 _ em c])
      (simp_all add: e meeting_def keys pub)
  then have "conv_reach ?P ?s0 s1" by (rule conv_reach.step [OF conv_reach.start])
  moreover have "length (ob_tag (em_outer em)) = 32" "ob_expires_at (em_outer em) = MESSAGE_TTL_MS"
  proof -
    obtain payload d dir where "tag (em_tag em) = ob_tag (em_outer em)" "derive ?P d dir None 0 = Inr (em_tag em)"
      "ob_expires_at (em_outer em) = 0 + DEFAULT_BLOB_TTL_MS"
      using e unfolding encrypt_text_def by (elim encrypt_with_Inr) blast
    moreover have "length (tag t) = 32" if "derive ?P d dir None 0 = Inr t" for t d dir
      using that demo_hashes by (auto simp: derive_def derive_at_def hash_lengths_def split: sum.splits)
    ultimately show "length (ob_tag (em_outer em)) = 32" "ob_expires_at (em_outer em) = MESSAGE_TTL_MS"
      by (force simp: DEFAULT_BLOB_TTL_MS_def)+
  qed
  moreover have "dh_self_public (ratchet_of cj) = ?k 8" "last_recv_seq cj = 0"
    using agree(5) h(3)
    by (auto simp: ratchet_of_def joiner_ratchet_def pairing_recv_init_def from_master_def pub m_bind_def Let_def m_of_def
        split: if_splits sum.splits elim!: joiner_complete_pairing_Inr)
  ultimately have "demo_first_text request secrets response ci cj s1"
    using h by (simp add: demo_first_text_def s1_def meeting_def)
  then show ?thesis by blast
qed

section \<open>Everything said can be heard\<close>

definition fresh_keys_exist :: "prims \<Rightarrow> bool" where
  "fresh_keys_exist P \<longleftrightarrow> (\<forall>pub. \<exists>np. length np = 32 \<and> p_x25519_pub P np \<noteq> pub)"

lemma demo_fresh_keys: "fresh_keys_exist demo_prims"
  unfolding fresh_keys_exist_def
proof
  fix pub
  have pub: "p_x25519_pub demo_prims np = np" for np by (simp add: demo_prims_def)
  have "replicate 32 0 \<noteq> (replicate 32 1 :: bytes)" by (simp add: numeral_eq_Suc)
  then obtain b :: "8 word" where "replicate 32 b \<noteq> pub" by metis
  then show "\<exists>np. length np = 32 \<and> p_x25519_pub demo_prims np \<noteq> pub"
    by (intro exI [of _ "replicate 32 b"]) (simp add: pub)
qed

lemma hear_one:
  assumes "fresh_keys_exist P" "line s x \<noteq> []"
  shows "\<exists>t. conv_step P s t \<and> said t = said s \<and> line t x = tl (line s x) \<and>
    (\<forall>y. y \<noteq> x \<longrightarrow> line t y = line s y)"
proof -
  obtain blob at rest where l: "line s x = (blob, at) # rest" using assms(2) by (cases "line s x") auto
  obtain np where np: "length np = 32" "p_x25519_pub P np \<noteq> dh_self_public (ratchet_of (peer s x))"
    using assms(1) unfolding fresh_keys_exist_def by blast
  obtain res c where d: "decrypt_inbound P np at blob (peer s x) = (res, c)" by fastforce
  have "at \<le> at + MESSAGE_TTL_MS" by (simp add: MESSAGE_TTL_MS_def)
  from conv_step.hear [OF np l this d] show ?thesis using l by (intro exI conjI) (assumption, simp_all)
qed

lemma hear_side:
  assumes "fresh_keys_exist P" "conv_reach P s0 s"
  shows "\<exists>t. conv_reach P s0 t \<and> said t = said s \<and> line t x = [] \<and> (\<forall>y. y \<noteq> x \<longrightarrow> line t y = line s y)"
  using assms(2)
proof (induction "length (line s x)" arbitrary: s)
  case (Suc n)
  from Suc.hyps(2) have "line s x \<noteq> []" by auto
  from hear_one [OF assms(1) this] obtain t where t: "conv_step P s t" "said t = said s" "line t x = tl (line s x)"
    "\<forall>y. y \<noteq> x \<longrightarrow> line t y = line s y" by blast
  with Suc have "n = length (line t x)" by simp
  from Suc.hyps(1) [OF this conv_reach.step [OF Suc.prems t(1)]] show ?case using t(2,4) by metis
qed auto

text \<open>
  C3. No text gets stuck: after the handshake, from every state of a conversation the two sides
  can receive what is on the line, whatever it is, and then each has heard all that the other
  has said.
\<close>

theorem conversation_drains:
  assumes ok: "handshake_ok P i j invite [e, r, e', r']"
    and req: "build_pairing_request P e' r' rnd j invite (id_name j) profile = Inr (request, secrets)"
    and inv: "inviter_complete_pairing P i invite request e inviter_profile r now = Inr (response, ci)"
    and join: "joiner_complete_pairing P j invite request secrets response now' = Inr cj"
    and name: "iv_inviter_name invite = id_name i"
    and keys: "fresh_keys_exist P"
    and run: "conv_reach P (meeting i j ci cj) s"
  shows "\<exists>t. conv_reach P (meeting i j ci cj) t \<and> said t = said s \<and>
    heard t Inviter = map Inr (said s Inviter) \<and> heard t Joiner = map Inr (said s Joiner)"
proof -
  obtain u where u: "conv_reach P (meeting i j ci cj) u" "said u = said s" "line u Inviter = []"
    using hear_side [OF keys run] by blast
  obtain t where t: "conv_reach P (meeting i j ci cj) t" "said t = said u" "line t Joiner = []"
    "\<forall>y. y \<noteq> Joiner \<longrightarrow> line t y = line u y"
    using hear_side [OF keys u(1)] by blast
  have "heard t y = map Inr (said s y)" if "line t y = []" for y
    using conversation_log [OF ok req inv join name t(1), of y] that t(2) u(2)
    by (metis add_0_right list.size(3) order_refl take_all)
  moreover have "line t Inviter = []" using t(4) u(3) by simp
  ultimately show ?thesis using t(1-3) u(2) by auto
qed

theorem conversation_delivery_witness:
  "\<exists>ci cj s. conv_reach demo_prims (meeting demo_inviter demo_joiner ci cj) s \<and>
     said s Joiner = [''hello''] \<and> heard s Joiner = [Inr ''hello'']"
proof -
  obtain request secrets response ci cj s where "demo_first_text request secrets response ci cj s"
    using demo_first_text by blast
  then have h: "build_pairing_request demo_prims (replicate 32 7) (replicate 32 8) [] demo_joiner demo_invite
      (id_name demo_joiner) [] = Inr (request, secrets)"
    "inviter_complete_pairing demo_prims demo_inviter demo_invite request (replicate 32 5) [] (replicate 32 6) 0
       = Inr (response, ci)"
    "joiner_complete_pairing demo_prims demo_joiner demo_invite request secrets response 0 = Inr cj"
    "conv_reach demo_prims (meeting demo_inviter demo_joiner ci cj) s" "said s = (\<lambda>_. [])(Joiner := [''hello''])"
    "heard s = (\<lambda>_. [])"
    by (simp_all add: demo_first_text_def)
  obtain t where t: "conv_reach demo_prims (meeting demo_inviter demo_joiner ci cj) t" "said t = said s" "line t Joiner = []"
    using hear_side [OF demo_fresh_keys] h(4) by blast
  note c = conversation_delivery [OF demo_handshake_ok h(1-3) demo_names t(1), of Joiner]
  have l: "length (heard t Joiner) = 1" using c [THEN conjunct2] t(2,3) h(5) by simp
  have "heard t Joiner = [Inr ''hello'']" using c [THEN conjunct1, unfolded l] t(2) h(5) by simp
  with t h(5) show ?thesis by (intro exI [of _ ci] exI [of _ cj] exI [of _ t]) simp
qed

theorem conversation_drains_witness:
  "\<exists>ci cj s t. conv_reach demo_prims (meeting demo_inviter demo_joiner ci cj) s \<and>
     said s Joiner = [''hello''] \<and> heard s Joiner = [] \<and>
     conv_reach demo_prims (meeting demo_inviter demo_joiner ci cj) t \<and> heard t Joiner = [Inr ''hello'']"
proof -
  obtain request secrets response ci cj s where "demo_first_text request secrets response ci cj s"
    using demo_first_text by blast
  then have h: "build_pairing_request demo_prims (replicate 32 7) (replicate 32 8) [] demo_joiner demo_invite
      (id_name demo_joiner) [] = Inr (request, secrets)"
    "inviter_complete_pairing demo_prims demo_inviter demo_invite request (replicate 32 5) [] (replicate 32 6) 0
       = Inr (response, ci)"
    "joiner_complete_pairing demo_prims demo_joiner demo_invite request secrets response 0 = Inr cj"
    "conv_reach demo_prims (meeting demo_inviter demo_joiner ci cj) s" "said s = (\<lambda>_. [])(Joiner := [''hello''])"
    "heard s = (\<lambda>_. [])"
    by (simp_all add: demo_first_text_def)
  obtain t where t: "conv_reach demo_prims (meeting demo_inviter demo_joiner ci cj) t"
    "heard t Joiner = map Inr (said s Joiner)"
    using conversation_drains [OF demo_handshake_ok h(1-3) demo_names demo_fresh_keys h(4)] by blast
  with h show ?thesis by (intro exI [of _ ci] exI [of _ cj] exI [of _ s] exI [of _ t]) simp
qed

end
