(* ===== verification/CoreProps.thy ===== *)
theory CoreProps
  imports Conversation Store RelayProps
begin

text \<open>
  Properties of the core package, one a component: ratchet, session, padding, mailbox tags,
  profiles, invites, pairing, request signatures, and the client's store.
\<close>

section \<open>The ratchet over any sequence of calls\<close>

datatype ratchet_call = Seal bytes bytes bytes | Open bytes bytes

fun run_ratchet :: "prims \<Rightarrow> ratchet_call list \<Rightarrow> ratchet \<Rightarrow> ratchet" where
  "run_ratchet P [] r = r"
| "run_ratchet P (Seal np nonce m # cs) r = run_ratchet P cs (snd (ratchet_encrypt P np nonce m r))"
| "run_ratchet P (Open np payload # cs) r = run_ratchet P cs (snd (ratchet_decrypt P np payload r))"

lemma run_ratchet_inv: "hkdf_lengths P \<Longrightarrow> ratchet_inv r \<Longrightarrow> ratchet_inv (run_ratchet P cs r)"
  by (induction P cs r rule: run_ratchet.induct) (simp_all add: ratchet_encrypt_inv ratchet_decrypt_inv)

lemma from_master_inv: "hkdf_lengths P \<Longrightarrow> ratchet_inv (from_master P master first hybrid k)"
  by (simp add: from_master_def ratchet_inv_def ratchet_wf_def hkdf_nonempty MAX_SKIPPED_KEYS_def opt_ok_def Let_def)

text \<open>
  C27. A ratchet made from a pairing secret never holds more than 256 skipped keys, whatever is
  encrypted and whatever packets, forged ones included, are fed to it; and it can always be saved:
  reading back its dictionary gives the same ratchet.
\<close>

theorem ratchet_stays_sound:
  assumes "hkdf_lengths P" and "r = run_ratchet P cs (from_master P master first hybrid k)"
  shows "length (skipped_keys r) \<le> 256 \<and> distinct (map fst (skipped_keys r)) \<and>
    ratchet_from_dict (ratchet_to_dict r) = Inr r"
proof -
  have "ratchet_inv r" using assms by (simp add: run_ratchet_inv from_master_inv)
  then show ?thesis by (simp add: ratchet_inv_def ratchet_wf_def MAX_SKIPPED_KEYS_def ratchet_from_to_dict)
qed

theorem ratchet_stays_sound_witness:
  "length (skipped_keys (run_ratchet demo_prims [Open [] (packet_header (replicate 32 9) 0 3), Seal [] (replicate 24 0) [1]]
      demo_sender)) \<le> 256"
  using ratchet_stays_sound [OF demo_hkdf refl, of "[Open [] (packet_header (replicate 32 9) 0 3), Seal [] (replicate 24 0) [1]]"
      "[1]" True False "replicate 32 1"]
  by (simp add: demo_sender_def)

section \<open>The session\<close>

definition demo_contact :: contact where
  "demo_contact = \<lparr>c_name = ''bob'', c_signing_public = replicate 32 3, c_agreement_public = replicate 32 4,
     master_secret = [1], c_conversation_id = ''ann:bob'', next_send_seq = 1, last_recv_seq = 0, contact_id = Some [2],
     transcript_hash = None, c_ratchet = Some demo_sender, c_profile = None, acked_version = 0, acked_relays = [],
     hybrid_pq = False, session_started_at = 0, privacy_mode = ''balanced''\<rparr>"

lemma demo_sender_inv: "ratchet_inv demo_sender"
  by (simp add: demo_sender_def from_master_inv demo_hkdf)

lemma demo_contact_ok: "contact_ok demo_contact"
  using demo_sender_inv by (simp add: contact_ok_def demo_contact_def ratchet_inv_def)



text \<open>A receiver that takes blobs one by one and drops those that \<open>decrypt_inbound\<close> refuses.\<close>

fun receive_all :: "prims \<Rightarrow> (bytes \<times> int \<times> outer_blob) list \<Rightarrow> contact \<Rightarrow> inner_message list \<times> contact" where
  "receive_all P [] c = ([], c)"
| "receive_all P ((np, now, outer) # bs) c = (case decrypt_inbound P np now outer c of
     (Inl e, c') \<Rightarrow> receive_all P bs c'
   | (Inr inner, c') \<Rightarrow> (case receive_all P bs c' of (ms, c'') \<Rightarrow> (inner # ms, c'')))"

lemma receive_all_drain: "receive_all P bs c = inbound_rx.drain P bs c"
  by (induction P bs c rule: receive_all.induct) (simp_all split: prod.split sum.split)

text \<open>
  Whatever blobs arrive, in whatever order and however often, the messages a session accepts are
  numbered consecutively from the last one it had: none twice, none left out.
\<close>

theorem inbound_numbers:
  "case receive_all P bs c of (ms, c') \<Rightarrow>
     map seq ms = map (\<lambda>k. last_recv_seq c + 1 + int k) [0..<length ms] \<and>
     last_recv_seq c' = last_recv_seq c + int (length ms)"
  using inbound_rx.drain_numbers [of P bs c] by (auto simp: receive_all_drain split: prod.split)

section \<open>Padding and mailbox tags\<close>

text \<open>
  C37. Padding succeeds exactly for the bodies that fit, the padded length is the smallest size class of
  the mode that holds the body, and the receiver gets the body back.
\<close>

theorem padding_hides_length:
  assumes "known_mode mode" "mode \<noteq> ''fast''"
  shows "case pad_plaintext m mode of
      Inl e \<Rightarrow> max_body mode < length m
    | Inr (p, n) \<Rightarrow> length m \<le> max_body mode \<and> decode_padded_plaintext p mode = Inr m \<and>
        length p \<in> set (size_classes mode) \<and> int (length p) = int (length m) + n \<and>
        list_all (\<lambda>c. c < length m + 4 \<or> length p \<le> c) (size_classes mode)"
  using pad_plaintext_spec [OF assms, of m] decode_pad_roundtrip [OF assms(1), of m]
  by (auto simp: list_all_iff not_less split: sum.split) (meson linorder_not_le)

theorem padding_hides_length_witness:
  "case pad_plaintext [1, 2, 3] ''balanced'' of
      Inl e \<Rightarrow> max_body ''balanced'' < length [1 :: byte, 2, 3]
    | Inr (p, n) \<Rightarrow> length [1 :: byte, 2, 3] \<le> max_body ''balanced'' \<and> decode_padded_plaintext p ''balanced'' = Inr [1, 2, 3] \<and>
        length p \<in> set (size_classes ''balanced'') \<and> int (length p) = int (length [1 :: byte, 2, 3]) + n \<and>
        list_all (\<lambda>c. c < length [1 :: byte, 2, 3] + 4 \<or> length p \<le> c) (size_classes ''balanced'')"
  by (rule padding_hides_length) (simp_all add: known_mode_def)

text \<open>
  C38. A receiver that polls with \<open>lookback\<close> epochs finds the tag of a message for as long as
  \<open>lookback\<close> epochs after it was sent, in every privacy mode.
\<close>

theorem sent_tag_polled_in_time:
  assumes "0 < td_epoch_secs d" "0 \<le> sent_at" "sent_at \<le> now"
    and "now < sent_at + int lookback * td_epoch_secs d * 1000"
  shows "\<exists>t tags. derive P d dir None sent_at = Inr t \<and>
    fetch_tags_for_mode P d dir mode secret lookback now = Inr tags \<and> t \<in> set tags"
proof -
  obtain t tags where t: "derive P d dir None sent_at = Inr t"
    "candidate_epochs P d dir lookback now = Inr tags" "t \<in> set tags"
    using sent_tag_polled [OF assms] by blast
  from fetch_tags_prefix [OF t(2), of mode secret] t show ?thesis by auto
qed

theorem sent_tag_polled_in_time_witness:
  "\<exists>t tags. derive demo_prims \<lparr>td_secret = [1], td_epoch_secs = 3600\<rparr> ''a'' None 5000 = Inr t \<and>
    fetch_tags_for_mode demo_prims \<lparr>td_secret = [1], td_epoch_secs = 3600\<rparr> ''a'' ''high'' [2] 2 7000000 = Inr tags \<and> t \<in> set tags"
  by (rule sent_tag_polled_in_time) simp_all

text \<open>
  With the lookback of two epochs that the client uses, a message sent three epochs ago is not
  polled any more, long before it expires: three hours against 24.
\<close>

theorem lookback_misses_mail:
  assumes "0 < td_epoch_secs d" "sent_at + int (Suc lookback) * td_epoch_secs d * 1000 \<le> now"
    and "derive P d dir None sent_at = Inr t"
  shows "case candidate_epochs P d dir lookback now of Inl e \<Rightarrow> False
    | Inr tags \<Rightarrow> list_all (\<lambda>t'. tag_epoch t < tag_epoch t') tags"
proof -
  obtain tags where tags: "candidate_epochs P d dir lookback now = Inr tags"
    using candidate_epochs_epochs [of d P dir lookback now] assms(1) by auto
  with sent_tag_not_polled [OF assms(1,2) tags _ assms(3)] show ?thesis by (simp add: list_all_iff)
qed

theorem lookback_misses_mail_witness:
  "case candidate_epochs demo_prims \<lparr>td_secret = [1], td_epoch_secs = 3600\<rparr> ''a'' 2 (3 * 60 * 60 * 1000) of
      Inl e \<Rightarrow> False | Inr tags \<Rightarrow> list_all (\<lambda>t'. 0 < tag_epoch t') tags"
proof -
  obtain t where t: "derive demo_prims \<lparr>td_secret = [1], td_epoch_secs = 3600\<rparr> ''a'' None 0 = Inr t" "tag_epoch t = 0"
    by (simp add: derive_def current_epoch_def derive_at_def)
  from lookback_misses_mail [OF _ _ t(1), of 2 "3 * 60 * 60 * 1000"] t(2) show ?thesis by (simp split: sum.splits)
qed

section \<open>Profiles and invites\<close>


text \<open>
  C33. A profile that a client creates is what a contact applies: sent as text, read back, it verifies
  under the creator's key and replaces any older version, until it expires.
\<close>

theorem published_profile_accepted:
  assumes laws: "ed25519_correct P" "cbor_correct P" "length (signing_private i) = 32" and relays: "\<forall>d \<in> set relays. desc_ok d"
    and p: "create_delivery_profile P fresh i relays hints epoch_secs salt classes policy ttl_ms version now = (p, i')"
    and newer: "case c_profile c of None \<Rightarrow> True | Some old \<Rightarrow> dp_version old < dp_version p" and time: "later \<le> now + ttl_ms"
  shows "\<exists>q. profile_from_b64 P (profile_to_b64 P p) = Inr q \<and>
    apply_delivery_profile_update P q (signing_public_bytes P i) later c = (Inr (), c\<lparr>c_profile := Some p\<rparr>)"
proof -
  note created = created_profile_verifies [OF laws(1,3) p]
  have "profile_from_b64 P (profile_to_b64 P p) = Inr p"
    using laws(2) relays created(3) by (intro profile_from_to_b64) (simp_all add: profile_ok_def)
  moreover have "accept_delivery_profile_update P (c_profile c) p later = Inr ()"
    using newer time created(2) by (auto simp: accept_delivery_profile_update_Inr split: option.splits)
  ultimately show ?thesis
    using created(1) by (simp add: apply_delivery_profile_update_def)
qed

theorem published_profile_accepted_witness:
  "\<exists>p i' q. create_delivery_profile demo_prims [5] demo_inviter [] [] 3600 [] [4096] ''any'' 1000 None 0 = (p, i') \<and>
     profile_from_b64 demo_prims (profile_to_b64 demo_prims p) = Inr q \<and>
     apply_delivery_profile_update demo_prims q (signing_public_bytes demo_prims demo_inviter) 500 demo_contact
       = (Inr (), demo_contact\<lparr>c_profile := Some p\<rparr>)"
proof -
  obtain p i' where p: "create_delivery_profile demo_prims [5] demo_inviter [] [] 3600 [] [4096] ''any'' 1000 None 0 = (p, i')"
    by fastforce
  from published_profile_accepted [OF demo_ed25519 demo_cbor _ _ p, of demo_contact 500] p show ?thesis
    by (auto simp: demo_inviter_def demo_contact_def)
qed

text \<open>
  The relays a client may advertise are its own and those that a contact advertises under the
  contact's own name; no URL is listed twice, and none of these is left out.
\<close>

theorem advertised_relays:
  "case authorized_publish_relays me people self of Inl e \<Rightarrow> True
   | Inr ds \<Rightarrow> distinct (map (\<lambda>d. rstrip_slash (rd_url d)) ds) \<and>
       list_all (\<lambda>d. self = Some d \<and> rd_name d = me \<or>
         list_ex (\<lambda>c. rd_name d = c_name c \<and> (case c_profile c of None \<Rightarrow> False
           | Some p \<Rightarrow> rd_url d \<in> rd_url ` set (dp_relays p))) people) ds \<and>
       list_all (\<lambda>c. case c_profile c of None \<Rightarrow> True
         | Some p \<Rightarrow> list_all (\<lambda>d. rstrip_slash (rd_url d) \<in> (\<lambda>d. rstrip_slash (rd_url d)) ` set ds)
             (filter (\<lambda>d. rd_name d = c_name c) (dp_relays p))) people"
proof (cases "authorized_publish_relays me people self")
  case (Inr ds)
  note spec = authorized_publish_relays_spec [OF Inr]
  have adv: "list_ex (\<lambda>c. rd_name d = c_name c \<and> (case c_profile c of None \<Rightarrow> False
      | Some p \<Rightarrow> rd_url d \<in> rd_url ` set (dp_relays p))) people" if "d \<in> set ds" "\<not> (self = Some d \<and> rd_name d = me)" for d
  proof -
    from spec(2) [OF that(1)] that(2) obtain c p d' where "c \<in> set people" "rd_name d = c_name c" "c_profile c = Some p"
      "d' \<in> set (dp_relays p)" "rd_url d' = rd_url d" by blast
    then show ?thesis unfolding list_ex_iff by (intro bexI [of _ c]) (auto intro: image_eqI [of _ _ d'])
  qed
  have all: "list_all (\<lambda>d. rstrip_slash (rd_url d) \<in> (\<lambda>d. rstrip_slash (rd_url d)) ` set ds)
      (filter (\<lambda>d. rd_name d = c_name c) (dp_relays p))" if "c \<in> set people" "c_profile c = Some p" for c p
    using spec(3) [OF that] by (simp add: list_all_iff)
  show ?thesis
    unfolding Inr sum.case list_all_iff [of _ ds] list_all_iff [of _ people]
    using adv by (intro conjI ballI spec(1)) (blast, simp add: all split: option.split)
qed simp

text \<open>
  C32. An invite goes from the inviter's URL to the joiner unchanged and verifies there until it
  expires: a classical one, and a hybrid one of an identity with a post-quantum signing key.
\<close>

theorem invite_accepted:
  assumes laws: "ed25519_correct P" "cbor_correct P" "length (signing_private i) = 32"
    and pq: "if hybrid then pq_signing_private i \<noteq> [] \<and> pq_signing_public i \<noteq> [] \<and>
        pq_correct P (pq_signing_public i) (pq_signing_private i) else True"
    and b: "create_invite P i secret hint tls ttl_ms hybrid now = Inr b" and time: "later < now + ttl_ms"
  shows "invite_from_url P (invite_to_url P b) = Inr b \<and> verify_invite P b later = Inr () \<and>
    iv_secret b = secret \<and> invite_supports_hybrid b = hybrid"
proof -
  have pq': "hybrid \<Longrightarrow> pq_signing_private i \<noteq> [] \<and> pq_signing_public i \<noteq> [] \<and>
      pq_correct P (pq_signing_public i) (pq_signing_private i)" using pq by simp
  note created = created_invite_verifies [OF laws(1,3) pq' b time]
  with invite_url_roundtrip [OF laws(2)] show ?thesis by simp
qed

theorem invite_accepted_witness:
  "\<exists>b. create_invite demo_prims demo_inviter [7] ''https://r.example'' None 1000 False 0 = Inr b \<and>
     invite_from_url demo_prims (invite_to_url demo_prims b) = Inr b \<and> verify_invite demo_prims b 500 = Inr ()"
proof -
  obtain b where b: "create_invite demo_prims demo_inviter [7] ''https://r.example'' None 1000 False 0 = Inr b"
    by (simp add: create_invite_def Let_def)
  from invite_accepted [OF demo_ed25519 demo_cbor _ _ b, of 500] b show ?thesis
    by (simp add: demo_inviter_def)
qed

text \<open>
  A hybrid invite of an identity without a post-quantum signing key is signed before its ML-KEM
  key is put in: where a signature is good for one text only, no joiner can verify it.
\<close>

theorem hybrid_invite_unverifiable:
  assumes "cbor_correct P" "kem_public i \<noteq> []" "pq_signing_private i = []"
    and "create_invite P i secret hint tls ttl_ms True now = Inr b"
    and "\<forall>x y. p_ed_verify P (signing_public_bytes P i) (p_ed_sign P (signing_private i) x) y = (x = y)"
  shows "verify_invite P b later \<noteq> Inr ()"
  using hybrid_invite_without_pq_key [OF assms(1-4), of later] assms(5) by auto

theorem hybrid_invite_unverifiable_witness:
  "\<exists>b. create_invite (demo_prims\<lparr>p_ed_sign := \<lambda>k m. m, p_ed_verify := \<lambda>pk s m. s = m\<rparr>) (demo_inviter\<lparr>kem_public := [1]\<rparr>)
       [7] [] None 1000 True 0 = Inr b \<and>
     verify_invite (demo_prims\<lparr>p_ed_sign := \<lambda>k m. m, p_ed_verify := \<lambda>pk s m. s = m\<rparr>) b 10 \<noteq> Inr ()"
proof -
  let ?P = "demo_prims\<lparr>p_ed_sign := \<lambda>k m. m, p_ed_verify := \<lambda>pk s m. s = m\<rparr>"
  have cbor: "cbor_correct ?P" using demo_cbor by (simp add: cbor_correct_def)
  obtain b where b: "create_invite ?P (demo_inviter\<lparr>kem_public := [1]\<rparr>) [7] [] None 1000 True 0 = Inr b"
    by (simp add: create_invite_def Let_def demo_inviter_def)
  from hybrid_invite_unverifiable [OF cbor _ _ b, of 10] b show ?thesis by (simp add: demo_inviter_def)
qed

section \<open>Pairing\<close>

text \<open>
  C18. When a pairing completes on both sides, the two contacts agree: one master secret, one
  transcript, ratchets made for each other, and sequence numbers that match.
\<close>

theorem pairing_agrees:
  assumes ok: "handshake_ok P i j invite [e, r, e', r']"
    and req: "build_pairing_request P e' r' rnd j invite name profile = Inr (request, secrets)"
    and inv: "inviter_complete_pairing P i invite request e inviter_profile r now = Inr (response, ci)"
    and join: "joiner_complete_pairing P j invite request secrets response now' = Inr cj"
  shows "master_secret ci = master_secret cj \<and> transcript_hash ci = transcript_hash cj \<and> hybrid_pq ci = hybrid_pq cj \<and>
    c_ratchet ci = Some (inviter_ratchet P (master_secret ci) (hybrid_pq ci) r (p_x25519_pub P r')) \<and>
    (\<exists>J. c_ratchet cj = Some J \<and> joiner_ratchet P (master_secret ci) (hybrid_pq ci) r' (p_x25519_pub P r) = Inr J) \<and>
    next_send_seq ci = last_recv_seq cj + 1 \<and> next_send_seq cj = last_recv_seq ci + 1"
  using pairing_agreement [OF assms] by blast

theorem pairing_agrees_witness:
  "\<exists>request secrets response ci cj.
     build_pairing_request demo_prims (replicate 32 7) (replicate 32 8) [] demo_joiner demo_invite (id_name demo_joiner) []
       = Inr (request, secrets) \<and>
     inviter_complete_pairing demo_prims demo_inviter demo_invite request (replicate 32 5) [] (replicate 32 6) 0
       = Inr (response, ci) \<and>
     joiner_complete_pairing demo_prims demo_joiner demo_invite request secrets response 0 = Inr cj \<and>
     master_secret ci = master_secret cj \<and> next_send_seq ci = last_recv_seq cj + 1"
proof -
  obtain request secrets response ci cj s where "demo_first_text request secrets response ci cj s"
    using demo_first_text by blast
  then have h: "build_pairing_request demo_prims (replicate 32 7) (replicate 32 8) [] demo_joiner demo_invite (id_name demo_joiner) []
       = Inr (request, secrets)"
     "inviter_complete_pairing demo_prims demo_inviter demo_invite request (replicate 32 5) [] (replicate 32 6) 0
       = Inr (response, ci)"
     "joiner_complete_pairing demo_prims demo_joiner demo_invite request secrets response 0 = Inr cj"
    by (simp_all add: demo_first_text_def)
  from pairing_agrees [OF demo_handshake_ok h] h show ?thesis by blast
qed

section \<open>Request signatures\<close>

text \<open>
  The text a capability request signs determines the request: two requests with the same text
  have the same method, path, body hash, timestamp and nonce, so no signature can be moved from one
  request to another.
\<close>

theorem signature_binds_request:
  assumes "hash_lengths P" "one_line m" "one_line m'" "one_line path" "one_line path'"
    and "capability_request_signing_input P m path body ts nonce = capability_request_signing_input P m' path' body' ts' nonce'"
  shows "upper_ascii m = upper_ascii m' \<and> path = path' \<and> p_sha256 P body = p_sha256 P body' \<and> ts = ts' \<and> nonce = nonce'"
  by (rule signing_input_injective [OF assms])

theorem signature_binds_request_witness:
  "upper_ascii ''post'' = upper_ascii ''POST''"
  using signature_binds_request [OF demo_hashes, of "''post''" "''POST''" "''/v1/fetch''" "''/v1/fetch''" "[]" 0 "[]" "[]" 0 "[]"]
  by (simp add: one_line_def upper_ascii_def capability_request_signing_input_def)

section \<open>The client's store\<close>

text \<open>
  What is saved is what is read: after \<open>save_contact\<close> the contact is read back as it was, and every
  other contact that is in the database reads as before.
\<close>

theorem contact_saved_and_read:
  assumes "cbor_correct P" "contact_ok c"
  shows "get_contact P (c_name c) (snd (save_contact P c s)) = (Inr (Some c), snd (save_contact P c s)) \<and>
    (name \<noteq> c_name c \<longrightarrow> tbl_get cr_name name (contacts (db s)) \<noteq> None \<longrightarrow>
       fst (get_contact P name (snd (save_contact P c s))) = fst (get_contact P name s))"
proof -
  have "holds_contact P c (db (snd (save_contact P c s)))"
    by (simp add: save_contact_eq holds_contact_def contact_tbl.get_replace)
  from get_contact_held [OF assms this] show ?thesis
    by (auto simp: get_contact_def save_contact_eq contact_tbl.get_replace)
qed

theorem contact_saved_and_read_witness:
  "get_contact demo_prims ''bob'' (snd (save_contact demo_prims demo_contact empty_store))
     = (Inr (Some demo_contact), snd (save_contact demo_prims demo_contact empty_store))"
  using contact_saved_and_read [OF demo_cbor demo_contact_ok, of empty_store] by (simp add: demo_contact_def)


text \<open>
  C29. Receiving a text is all or nothing: a commit that raises leaves the store as it was; one that
  returns holds the new state of the contact, the text under its number unless that number was
  taken, and the receipt to be sent.
\<close>

theorem receive_commit_atomic:
  "case atomic_commit_receive_text P nonce i now c inner (Some did) route s of
     (Inl e, s') \<Rightarrow> s' = s
   | (Inr _, s') \<Rightarrow> holds_contact P c (db s') \<and>
       tbl_get inbound_key (c_name c, seq inner) (inbound (db s')) =
         (case tbl_get inbound_key (c_name c, seq inner) (inbound (db s)) of
            None \<Rightarrow> Some (receive_row P nonce i now (c_name c) inner) | Some old \<Rightarrow> Some old) \<and>
       tbl_get receipt_key (c_name c, did) (receipts (db s')) =
         Some \<lparr>rr_contact = c_name c, rr_delivered_id = did, rr_route = route, rr_created_at = now\<rparr> \<and>
       outbound (db s') = outbound (db s)"
proof -
  obtain res s' where r: "atomic_commit_receive_text P nonce i now c inner (Some did) route s = (res, s')" by fastforce
  show ?thesis using atomic_commit_receive_spec [OF r] r by (cases res) auto
qed

text \<open>The writes of the store, as a step relation.\<close>

inductive store_step :: "prims \<Rightarrow> store \<Rightarrow> store \<Rightarrow> bool" for P where
  contact: "store_step P s (snd (save_contact P c s))"
| sent: "store_step P s (snd (atomic_commit_send P now c msg_id n body outer s))"
| received: "store_step P s (snd (atomic_commit_receive_text P nonce i now c inner delivered route s))"
| inbound: "store_step P s (snd (save_inbound_message P nonce i now name inner s))"
| pending: "store_step P s (snd (save_outbound_pending now name msg_id n body s))"
| expired: "store_step P s (snd (sweep_expired_messages now s))"
| expired_outbound: "store_step P s (snd (sweep_expired_outbound now s))"
| delivered: "store_step P s (snd (mark_outbound_delivered name msg_id s))"
| receipt: "store_step P s (snd (save_pending_receipt now name did route s))"
| receipt_sent: "store_step P s (snd (delete_pending_receipt name did s))"
| presence: "store_step P s (snd (save_presence now p name s))"
| profile_ack: "store_step P s (snd (save_profile_ack_pending name msg_id v names s))"
| grant: "store_step P s (snd (save_capability_grant P name g k salt tls s))"

lemma store_step_ok: "store_step P s t \<Longrightarrow> db_ok (db s) \<Longrightarrow> db_ok (db t)"
  by (induction rule: store_step.induct) (rule store_steps_ok; assumption)+



end
