(* ===== verification/RelayService.thy ===== *)
theory RelayService
  imports RelayProps Delivery CoreProps
begin

text \<open>
  A relay as its clients see it: the routes and request models of \<open>app.py\<close> over the handlers of
  theory \<open>RelayApp\<close>, as a function from a client's call to its reply. So a client and a relay can be
  put together: what a client uploads, another client finds when it polls.

  The web framework is a parameter where it decides something: \<open>fw_int\<close> says which other JSON values it
  takes for an integer. A request of no route gets 404 or 405. A body that does not fit its model gets 422; an exception that is no \<open>HTTPException\<close>
  gets 500; a call to another host is an error of the connection.
\<close>

section \<open>Request models\<close>

record framework =
  fw_int :: "json \<Rightarrow> int option"

definition unprocessable :: "str \<Rightarrow> 'a res" where
  "unprocessable k = Inl (HTTPException 422 k)"

definition body_fields :: "bytes \<Rightarrow> (str \<times> json) list res" where
  "body_fields body = (case and_then (and_then (decode_utf8 body) json_loads) jobj of
     Inl e \<Rightarrow> unprocessable ''body'' | Inr d \<Rightarrow> Inr d)"

definition field_str :: "(str \<times> json) list \<Rightarrow> str \<Rightarrow> str res" where
  "field_str d k = (case map_of d k of Some (JStr v) \<Rightarrow> Inr v | _ \<Rightarrow> unprocessable k)"

definition field_opt_str :: "(str \<times> json) list \<Rightarrow> str \<Rightarrow> str option res" where
  "field_opt_str d k = (case map_of d k of
     None \<Rightarrow> Inr None | Some JNull \<Rightarrow> Inr None | Some (JStr v) \<Rightarrow> Inr (Some v) | _ \<Rightarrow> unprocessable k)"

definition field_int :: "framework \<Rightarrow> (str \<times> json) list \<Rightarrow> str \<Rightarrow> int res" where
  "field_int W d k = (case map_of d k of
     None \<Rightarrow> unprocessable k
   | Some (JInt n) \<Rightarrow> Inr n
   | Some j \<Rightarrow> (case fw_int W j of None \<Rightarrow> unprocessable k | Some n \<Rightarrow> Inr n))"

definition json_string_of :: "json \<Rightarrow> str res" where
  "json_string_of j = (case j of JStr v \<Rightarrow> Inr v | _ \<Rightarrow> unprocessable ''item'')"

definition field_strs :: "(str \<times> json) list \<Rightarrow> str \<Rightarrow> str list res" where
  "field_strs d k = (case map_of d k of Some (JList xs) \<Rightarrow> map_res json_string_of xs | _ \<Rightarrow> unprocessable k)"

definition issue_request_of :: "framework \<Rightarrow> (str \<times> json) list \<Rightarrow> issue_request res" where
  "issue_request_of W d =
     and_then (field_str d ''auth_public'') (\<lambda>auth.
     and_then (field_str d ''capability_id'') (\<lambda>cid.
     and_then (field_int W d ''capability_generation'') (\<lambda>g.
     and_then (field_str d ''issuance_salt'') (\<lambda>salt.
     and_then (field_strs d ''permissions'') (\<lambda>ps.
     and_then (field_opt_str d ''ticket'') (\<lambda>tk.
     and_then (field_opt_str d ''supersedes_capability_id'') (\<lambda>old.
     Inr \<lparr>is_auth_public = auth, is_capability_id = cid, is_generation = g, is_salt = salt,
       is_permissions = ps, is_ticket = tk, is_supersedes = old\<rparr>)))))))"

section \<open>Routes\<close>

definition fields_json :: "(str \<times> str) list \<Rightarrow> json" where
  "fields_json xs = JObj (map (\<lambda>(k, v). (k, JStr v)) xs)"

definition blob_json :: "blob_response \<Rightarrow> json" where
  "blob_json b = JObj [(''mailbox_tag'', JStr (br_tag b)), (''expires_at'', JInt (br_expires_at b)),
     (''ciphertext'', JStr (br_ciphertext b)), (''stored_at'', JInt (br_stored_at b))]"

definition healthz :: "relay_runtime \<Rightarrow> json" where
  "healthz rt = fields_json ([(''status'', ''ok''), (''role'', rr_role rt), (''name'', rr_name rt)] @
     (if rr_issuance_public rt = [] then []
      else [(''capability_issuance_public'', b64encode (rr_issuance_public rt))]))"

type_synonym answer = "(int \<times> json) res"

text \<open>A handler's result with the status of its route.\<close>

definition answer :: "int \<Rightarrow> ('a \<Rightarrow> json) \<Rightarrow> 'a res \<times> relay \<Rightarrow> answer \<times> relay" where
  "answer status f = (\<lambda>(x, r). (case x of Inl e \<Rightarrow> Inl e | Inr y \<Rightarrow> Inr (status, f y), r))"

definition stored_json :: json where "stored_json = fields_json [(''status'', ''stored'')]"

text \<open>The routes of \<open>post_paths\<close>; the last branch is \<open>/v1/pair/response\<close>.\<close>

definition post_route ::
    "framework \<Rightarrow> prims \<Rightarrow> relay_runtime \<Rightarrow> (str \<Rightarrow> str \<Rightarrow> str option \<Rightarrow> (int \<times> str) res) \<Rightarrow> http_request \<Rightarrow> int \<Rightarrow>
     (str \<times> json) list \<Rightarrow> relay \<Rightarrow> answer \<times> relay" where
  "post_route W P rt post q now d =
     (if hq_path q = ''/v1/blobs'' then
        m_bind (m_of (field_str d ''mailbox_tag'')) (\<lambda>t. m_bind (m_of (field_int W d ''expires_at'')) (\<lambda>e.
        m_bind (m_of (field_str d ''ciphertext'')) (\<lambda>c. m_bind (m_of (field_opt_str d ''ticket'')) (\<lambda>tk.
        answer 201 (\<lambda>_. stored_json) \<circ> store_blob P rt q t e c tk now))))
      else if hq_path q = ''/v1/fetch'' then
        m_bind (m_of (field_strs d ''mailbox_tags'')) (\<lambda>ts. m_bind (m_of (field_opt_str d ''ticket'')) (\<lambda>tk.
        answer 200 (\<lambda>bs. JList (map blob_json bs)) \<circ> fetch_blobs_post P rt q ts tk now))
      else if hq_path q = ''/v1/relay'' then
        m_bind (m_of (field_str d ''packet'')) (\<lambda>p. m_bind (m_of (field_opt_str d ''ticket'')) (\<lambda>tk.
        answer 202 (\<lambda>url. fields_json [(''status'', ''forwarded''), (''next_relay'', url)]) \<circ>
          m_of (relay_packet P rt post p tk now)))
      else if hq_path q = ''/v1/ingest'' then
        m_bind (m_of (field_str d ''inner'')) (\<lambda>i. m_bind (m_of (field_opt_str d ''ticket'')) (\<lambda>tk.
        answer 201 (\<lambda>_. stored_json) \<circ> ingest_packet P rt i tk now))
      else if hq_path q = ''/v1/capabilities/issue'' then
        m_bind (m_of (issue_request_of W d)) (\<lambda>iq.
        answer 201 (\<lambda>g. fields_json [(''status'', ''issued''), (''grant'', g)]) \<circ> issue_capability P rt iq now)
      else if hq_path q = ''/v1/capabilities/register'' then
        m_bind (m_of (field_str d ''grant'')) (\<lambda>g.
        answer 201 (\<lambda>cid. fields_json [(''status'', ''registered''), (''capability_id'', cid)]) \<circ> register_capability P rt g now)
      else if hq_path q = ''/v1/capabilities/revoke'' then
        m_bind (m_of (field_str d ''capability_id'')) (\<lambda>cid. m_bind (m_of (field_str d ''ticket'')) (\<lambda>tk.
        answer 200 (\<lambda>c. fields_json [(''status'', ''revoked''), (''capability_id'', c)]) \<circ> revoke_capability P rt cid tk now))
      else if hq_path q = ''/v1/pair/register'' then
        m_bind (m_of (field_str d ''invite_secret'')) (\<lambda>x.
        answer 201 (\<lambda>t. fields_json [(''invite_tag'', t), (''status'', ''registered'')]) \<circ> pair_register_post P x now)
      else if hq_path q = ''/v1/pair'' then
        m_bind (m_of (field_str d ''request'')) (\<lambda>x.
        answer 202 (\<lambda>t. fields_json [(''invite_tag'', t), (''status'', ''stored'')]) \<circ> pair_request_post P x now)
      else
        m_bind (m_of (field_str d ''invite_secret'')) (\<lambda>x. m_bind (m_of (field_str d ''response'')) (\<lambda>y.
        answer 201 (\<lambda>t. fields_json [(''invite_tag'', t), (''status'', ''complete'')]) \<circ> pair_response_post P x y)))"

definition post_paths :: "str list" where
  "post_paths = [''/v1/capabilities/issue'', ''/v1/capabilities/register'', ''/v1/capabilities/revoke'', ''/v1/blobs'',
     ''/v1/fetch'', ''/v1/relay'', ''/v1/ingest'', ''/v1/pair/register'', ''/v1/pair'', ''/v1/pair/response'']"

text \<open>The routes that only read; the last part of the path is a parameter without slashes.\<close>

definition path_tail :: "str \<Rightarrow> str \<Rightarrow> str option" where
  "path_tail p s = (if starts_with p s \<and> drop (length p) s \<noteq> [] \<and> CHR ''/'' \<notin> set (drop (length p) s)
     then Some (drop (length p) s) else None)"

definition get_route :: "relay_runtime \<Rightarrow> str \<Rightarrow> int \<Rightarrow> relay \<Rightarrow> answer option" where
  "get_route rt path now r =
     (if path = ''/healthz'' then Some (Inr (200, healthz rt))
      else case path_tail ''/v1/blobs/'' path of
        Some t \<Rightarrow> Some (and_then (fetch_blobs_legacy t now r) (\<lambda>bs. Inr (200, JList (map blob_json bs))))
      | None \<Rightarrow> (case path_tail ''/v1/pair/pending/'' path of
        Some t \<Rightarrow> Some (and_then (pair_pending t r) (\<lambda>x. Inr (200, fields_json [(''request'', x)])))
      | None \<Rightarrow> (case path_tail ''/v1/pair/'' path of
        Some t \<Rightarrow> Some (and_then (pair_fetch_response t r) (\<lambda>x. Inr (200, fields_json [(''response'', x)])))
      | None \<Rightarrow> None)))"

definition no_route :: "bool \<Rightarrow> answer" where
  "no_route known = (if known then Inl (HTTPException 405 ''Method Not Allowed'') else Inl (HTTPException 404 ''Not Found''))"

definition app_route ::
    "framework \<Rightarrow> prims \<Rightarrow> relay_runtime \<Rightarrow> (str \<Rightarrow> str \<Rightarrow> str option \<Rightarrow> (int \<times> str) res) \<Rightarrow> http_request \<Rightarrow> int \<Rightarrow>
     relay \<Rightarrow> answer \<times> relay" where
  "app_route W P rt post q now r =
     (if hq_method q = ''POST'' \<and> hq_path q \<in> set post_paths
      then m_bind (m_of (body_fields (hq_body q))) (post_route W P rt post q now) r
      else case get_route rt (hq_path q) now r of
        Some x \<Rightarrow> (if hq_method q = ''GET'' then x else no_route True, r)
      | None \<Rightarrow> (no_route (hq_path q \<in> set post_paths), r))"

fun reply_of :: "answer \<Rightarrow> http_reply" where
  "reply_of (Inr (status, j)) = \<lparr>hs_status = status, hs_text = json_compact j\<rparr>"
| "reply_of (Inl (HTTPException status detail)) =
     \<lparr>hs_status = status, hs_text = json_compact (fields_json [(''detail'', detail)])\<rparr>"
| "reply_of (Inl _) = \<lparr>hs_status = 500, hs_text = ''Internal Server Error''\<rparr>"

section \<open>The relay on the network\<close>

text \<open>The relay, its clock, and the operator's sweeps between the requests.\<close>

record site =
  st_relay :: relay
  st_clock :: int

definition relay_service ::
    "framework \<Rightarrow> prims \<Rightarrow> relay_runtime \<Rightarrow> (str \<Rightarrow> str \<Rightarrow> str option \<Rightarrow> (int \<times> str) res) \<Rightarrow> str \<Rightarrow> site http" where
  "relay_service W P rt post base call w =
     (if \<not> starts_with base (hc_url call) then (Inl (HttpError ''connection refused''), w) else
      case app_route W P rt post \<lparr>hq_method = hc_method call, hq_path = drop (length base) (hc_url call),
          hq_headers = hc_headers call, hq_body = hc_body call\<rparr> (st_clock w) (st_relay w) of
        (x, r) \<Rightarrow> (Inr (reply_of x), w\<lparr>st_relay := r\<rparr>))"

datatype site_event = Request http_call | Sweep | Tick nat

fun site_step :: "framework \<Rightarrow> prims \<Rightarrow> relay_runtime \<Rightarrow> (str \<Rightarrow> str \<Rightarrow> str option \<Rightarrow> (int \<times> str) res) \<Rightarrow> str \<Rightarrow>
    site_event \<Rightarrow> site \<Rightarrow> site" where
  "site_step W P rt post base (Request call) w = snd (relay_service W P rt post base call w)"
| "site_step W P rt post base Sweep w = w\<lparr>st_relay := snd (relay_sweep (st_clock w) (st_relay w))\<rparr>"
| "site_step W P rt post base (Tick d) w = w\<lparr>st_clock := st_clock w + int d\<rparr>"

fun site_run :: "framework \<Rightarrow> prims \<Rightarrow> relay_runtime \<Rightarrow> (str \<Rightarrow> str \<Rightarrow> str option \<Rightarrow> (int \<times> str) res) \<Rightarrow> str \<Rightarrow>
    site_event list \<Rightarrow> site \<Rightarrow> site" where
  "site_run W P rt post base [] w = w"
| "site_run W P rt post base (e # es) w = site_run W P rt post base es (site_step W P rt post base e w)"

section \<open>Refusals\<close>

text \<open>Every error of a handler has a status of 400 or more, or is no \<open>HTTPException\<close> and gives 500.\<close>

fun is_refusal :: "exn \<Rightarrow> bool" where
  "is_refusal (HTTPException status _) = (400 \<le> status)"
| "is_refusal _ = True"

definition refuses :: "('s, 'a) meth \<Rightarrow> bool" where
  "refuses m \<longleftrightarrow> (\<forall>s e t. m s = (Inl e, t) \<longrightarrow> is_refusal e)"

named_theorems refuses_rules \<open>introduction rules for methods whose errors are refusals\<close>

lemma refusesI: "(\<And>s e t. m s = (Inl e, t) \<Longrightarrow> is_refusal e) \<Longrightarrow> refuses m"
  by (auto simp: refuses_def)

lemma refusesD: "refuses m \<Longrightarrow> m s = (Inl e, t) \<Longrightarrow> is_refusal e"
  by (auto simp: refuses_def)

lemma value_error_refusal: "is_value_error e \<Longrightarrow> is_refusal e"
  by (cases e) auto

lemma refuses_return [refuses_rules]: "refuses (m_return x)"
  by (auto simp: refuses_def)

lemma refuses_raise [refuses_rules]: "is_refusal e \<Longrightarrow> refuses (m_raise e)"
  by (auto simp: refuses_def)

lemma refuses_of [refuses_rules]: "(\<And>e. x = Inl e \<Longrightarrow> is_refusal e) \<Longrightarrow> refuses (m_of x)"
  by (cases x) (auto simp: refuses_def)

lemma refuses_get [refuses_rules]: "(\<And>s. refuses (g s)) \<Longrightarrow> refuses (m_get g)"
  by (auto simp: refuses_def)

lemma refuses_bind [refuses_rules]: "refuses m \<Longrightarrow> (\<And>x. refuses (g x)) \<Longrightarrow> refuses (m_bind m g)"
  by (auto simp: refuses_def m_bind_def split: prod.splits sum.splits)

lemma refuses_catching [refuses_rules]: "(\<And>e. is_refusal e \<Longrightarrow> is_refusal (f e)) \<Longrightarrow> refuses m \<Longrightarrow> refuses (catching f m)"
  by (auto simp: refuses_def catching_Inl)

lemma refuses_if [refuses_rules]: "(b \<Longrightarrow> refuses m) \<Longrightarrow> (\<not> b \<Longrightarrow> refuses m') \<Longrightarrow> refuses (if b then m else m')"
  by simp

lemma refuses_option [refuses_rules]:
  "refuses m \<Longrightarrow> (\<And>x. refuses (g x)) \<Longrightarrow> refuses (case y of None \<Rightarrow> m | Some x \<Rightarrow> g x)"
  by (cases y) simp_all

lemma a2b_refusal: "a2b s q l p = Inl e \<Longrightarrow> is_refusal e"
  by (induction s q l p rule: a2b.induct) (auto simp: Let_def and_then_def split: if_splits option.splits sum.splits)

lemma b64decode_refuses: "refuses (m_of (b64decode v))"
  by (intro refuses_of)
    (auto simp: b64decode_def urlsafe_b64decode_def split: option.splits if_splits dest: a2b_refusal)

lemma blob_error_refusal: "is_refusal e \<Longrightarrow> is_refusal (blob_error e)"
  by (simp add: blob_error_def)

lemma blob_put_refusal: "refuses (on_blobs (blob_put t e c k now))"
  by (rule refusesI) (auto simp: on_blobs_result blob_put_def split: if_splits)

lemma check_ticket_refusal: "check_ticket P rt tk perm now = Inl e \<Longrightarrow> is_refusal e"
  by (auto simp: check_ticket_def http_def split: if_splits option.splits sum.splits)

lemma authorize_refuses: "refuses (authorize_request P rt q perm tk now)"
proof -
  have http: "refuses (catching (http 401 p) m)" for p and m :: "(relay, unit) meth"
    by (rule refusesI) (auto simp: catching_Inl http_def)
  show ?thesis
    unfolding authorize_request_def check_capability_def
    by (intro refuses_rules http) (simp_all add: check_ticket_refusal)
qed

lemma store_blob_refuses: "refuses (store_blob P rt q t e c tk now)"
  unfolding store_blob_def
  by (intro b64decode_refuses refuses_rules authorize_refuses blob_put_refusal blob_error_refusal) simp_all

lemma collect_tags_refusal: "collect_tags s now ts acc = Inl e \<Longrightarrow> is_refusal e"
  by (induction s now ts acc rule: collect_tags.induct) (auto split: sum.splits)

lemma collect_refuses: "refuses (m_of (collect_tags s now ts acc))"
  by (intro refuses_of collect_tags_refusal)

lemma fetch_post_refuses: "refuses (fetch_blobs_post P rt q ts tk now)"
  unfolding fetch_blobs_post_def
  by (intro collect_refuses refuses_rules authorize_refuses) simp_all

lemma refused_reply: "is_refusal e \<Longrightarrow> 400 \<le> hs_status (reply_of (Inl e))"
  by (cases e) auto

section \<open>The blobs under every request\<close>

definition has_row :: "stored_blob \<Rightarrow> relay \<Rightarrow> bool" where
  "has_row b r \<longleftrightarrow> b \<in> set (bs_rows (rl_blobs r))"

lemma answer_preserves [preserves_rules]: "preserves I m \<Longrightarrow> preserves I (answer status f \<circ> m)"
  by (auto simp: preserves_def answer_def split: prod.splits)

lemma handlers_keep_row [preserves_rules]:
  "preserves (has_row b) (store_blob P rt q t e c tk now)" "preserves (has_row b) (fetch_blobs_post P rt q ts tk now)"
  "preserves (has_row b) (ingest_packet P rt i tk now)" "preserves (has_row b) (issue_capability P rt iq now)"
  "preserves (has_row b) (register_capability P rt g now)" "preserves (has_row b) (revoke_capability P rt c tk' now)"
  "preserves (has_row b) (pair_register_post P x now)" "preserves (has_row b) (pair_request_post P x now)"
  "preserves (has_row b) (pair_response_post P x y)"
proof -
  have "has_row b s \<Longrightarrow> has_row b (snd (store_blob P rt q t e c tk now s))" for s
    using store_blobs [of P rt q t e c tk now s] by (auto simp: has_row_def dest: put_keeps)
  then show "preserves (has_row b) (store_blob P rt q t e c tk now)" by (simp add: preserves_def)
  have "has_row b s \<Longrightarrow> has_row b (snd (ingest_packet P rt i tk now s))" for s
    using ingest_blobs [of P rt i tk now s] by (auto simp: has_row_def dest: put_keeps)
  then show "preserves (has_row b) (ingest_packet P rt i tk now)" by (simp add: preserves_def)
qed (auto simp: preserves_def has_row_def keeps_blobs [unfolded keeps_def])

lemma app_keeps_row: "preserves (has_row b) (app_route W P rt post q now)"
proof -
  have "preserves (has_row b) (post_route W P rt post q now d)" for d
    unfolding post_route_def by (intro preserves_rules)
  then have "preserves (has_row b) (m_bind (m_of (body_fields (hq_body q))) (post_route W P rt post q now))"
    by (intro preserves_rules)
  then show ?thesis by (auto simp: preserves_def app_route_def split: option.splits)
qed

lemma service_keeps_row:
  "has_row b (st_relay w) \<Longrightarrow> relay_service W P rt post base call w = (x, w') \<Longrightarrow>
   has_row b (st_relay w') \<and> st_clock w' = st_clock w"
  using preservesD [OF app_keeps_row [of b W P rt post]]
  by (fastforce simp: relay_service_def split: if_splits prod.splits)

lemma site_run_keeps_row:
  "has_row b (st_relay w) \<Longrightarrow> st_clock (site_run W P rt post base es w) < sb_expires_at b \<Longrightarrow>
   has_row b (st_relay (site_run W P rt post base es w))"
proof (induction es arbitrary: w)
  case (Cons e es)
  have later: "st_clock w \<le> st_clock (site_run W P rt post base es w)" for w
  proof (induction es arbitrary: w)
    case (Cons e es)
    have "st_clock w \<le> st_clock (site_step W P rt post base e w)"
      by (cases e) (auto simp: relay_service_def split: prod.splits)
    with Cons.IH [of "site_step W P rt post base e w"] show ?case by simp
  qed simp
  have "has_row b (st_relay (site_step W P rt post base e w))"
  proof (cases e)
    case (Request call)
    with Cons.prems(1) show ?thesis by (metis service_keeps_row prod.collapse site_step.simps(1))
  next
    case Sweep
    with Cons.prems(2) later [of "site_step W P rt post base Sweep w"] have "st_clock w < sb_expires_at b" by simp
    with Cons.prems(1) serve_keeps_blob [of b "st_relay w" "st_clock w" P rt SweepStores] Sweep
    show ?thesis by (simp add: has_row_def)
  qed (use Cons.prems(1) in simp)
  with Cons show ?case by simp
qed simp

section \<open>What a client may rely on\<close>

text \<open>A call that asks for the blobs of one mailbox tag, by the new route or the old one.\<close>

definition asks_for :: "str \<Rightarrow> str \<Rightarrow> http_call \<Rightarrow> bool" where
  "asks_for base t call \<longleftrightarrow>
     hc_method call = ''POST'' \<and> hc_url call = base @ ''/v1/fetch'' \<and>
       (\<exists>d. body_fields (hc_body call) = Inr d \<and> map_of d ''mailbox_tags'' = Some (JList [JStr t])) \<or>
     hc_method call = ''GET'' \<and> hc_url call = base @ ''/v1/blobs/'' @ t"

text \<open>
  The interface between a client and a mailbox: what is accepted is held, what is held stays through
  every call, and a fetch that succeeds shows it while it lives.
\<close>

locale mailbox_service =
  fixes H :: "'n http" and base :: str
    and held :: "outer_blob \<Rightarrow> 'n \<Rightarrow> bool" and live :: "outer_blob \<Rightarrow> 'n \<Rightarrow> bool"
  assumes posted: "\<lbrakk>H call w = (Inr reply, w'); hc_method call = ''POST''; hc_url call = base @ ''/v1/blobs'';
      carries b (hc_body call); hs_status reply = 201\<rbrakk> \<Longrightarrow> held b w'"
    and kept: "\<lbrakk>held b w; live b w; H call w = (x, w')\<rbrakk> \<Longrightarrow> held b w' \<and> live b w'"
    and fetched: "\<lbrakk>held b w; live b w; asks_for base (b64encode (ob_tag b)) call; H call w = (Inr reply, w');
      hs_status reply = 200\<rbrakk> \<Longrightarrow> \<exists>items. reply_json reply = Inr (JList (map blob_json items)) \<and>
        list_all (\<lambda>i. br_tag i = b64encode (ob_tag b)) items \<and>
        list_ex (\<lambda>i. br_ciphertext i = b64encode (ob_ciphertext b)) items"

text \<open>What a request hands to the network.\<close>

lemma yakr_request_Inr:
  assumes "yakr_request P H verb url contact pin extra hs body s = (Inr reply, t)"
  obtains check where "H \<lparr>hc_method = verb, hc_url = url, hc_check = check, hc_headers = hs, hc_body = body\<rparr> (cl_net s)
    = (Inr reply, cl_net t)"
proof (cases "tls_required (cl_env s) \<and> starts_with ''http://'' url")
  case True
  with assms plain_http_refused [of url] show thesis by (auto simp: yakr_request_def)
next
  case False
  obtain y u where v: "on_store (verify_param_for_url P (cl_env s) url contact pin extra) s = (y, u)" by fastforce
  then have "cl_net u = cl_net s" by (auto simp: on_store_def m_zoom_def split: prod.splits)
  with assms False v that show thesis
    by (cases y) (auto simp: yakr_request_def m_bind_def [of "on_store _"] on_net_def m_zoom_def split: prod.splits)
qed

lemma polled_json:
  assumes "reply_json reply = Inr (JList (map blob_json items))" "hs_status reply = 200"
    and tags: "list_all (\<lambda>i. br_tag i = b64encode tg) items" and hit: "list_ex (\<lambda>i. br_ciphertext i = b64encode ct) items"
  shows "\<exists>seen found item e. polled_items [] reply = Inr (seen, found) \<and> item \<in> set found \<and>
    from_relay_json item = Inr \<lparr>ob_version = 1, ob_tag = tg, ob_expires_at = e, ob_ciphertext = ct\<rparr>"
proof -
  have ct: "item_ciphertext (blob_json i) = Inr (br_ciphertext i)" for i
    by (simp add: item_ciphertext_def blob_json_def jget_default_def)
  have merge: "\<exists>seen found. fold_res (\<lambda>item (seen, done). and_then (item_ciphertext item) (\<lambda>ct.
      Inr (if ct \<in> set seen then (seen, done) else (seen @ [ct], done @ [item])))) (map blob_json items) (seen0, found0)
        = Inr (seen, found) \<and> set found0 \<subseteq> set found \<and> set found \<subseteq> set found0 \<union> blob_json ` set items \<and>
      (\<forall>i \<in> set items. br_ciphertext i \<in> set seen0 \<or> (\<exists>j \<in> set items. br_ciphertext j = br_ciphertext i \<and> blob_json j \<in> set found))"
    for seen0 found0
  proof (induction items arbitrary: seen0 found0)
    case (Cons i items)
    show ?case
    proof (cases "br_ciphertext i \<in> set seen0")
      case True
      with Cons.IH [of seen0 found0] show ?thesis by (fastforce simp: ct)
    next
      case False
      with Cons.IH [of "seen0 @ [br_ciphertext i]" "found0 @ [blob_json i]"] show ?thesis by (fastforce simp: ct)
    qed
  qed simp
  from merge [of "[]" "[]"] obtain seen found where f: "merge_items [] (map blob_json items) = Inr (seen, found)"
    "\<forall>i \<in> set items. \<exists>j \<in> set items. br_ciphertext j = br_ciphertext i \<and> blob_json j \<in> set found"
    by (auto simp: merge_items_def)
  with hit obtain j where j: "j \<in> set items" "br_ciphertext j = b64encode ct" "blob_json j \<in> set found"
    by (fastforce simp: list_ex_iff)
  with tags have "from_relay_json (blob_json j) = Inr \<lparr>ob_version = 1, ob_tag = tg, ob_expires_at = br_expires_at j, ob_ciphertext = ct\<rparr>"
    by (auto simp: list_all_iff from_relay_json_def blob_json_def jget_def)
  with f(1) j(3) assms(1,2) show ?thesis by (fastforce simp: polled_items_def)
qed

context mailbox_service begin

lemma guard: "net_guard env (\<lambda>w. held b w \<and> live b w) H"
  unfolding net_guard_def by (metis kept prod.collapse)

lemma post_held:
  assumes "yakr_post P H (base @ ''/v1/blobs'') c hs body s = (Inr reply, t)" "carries b body" "hs_status reply = 201"
  shows "held b (cl_net t)"
  using assms(1) unfolding yakr_post_def
  by (elim yakr_request_Inr) (use assms(2,3) in \<open>auto intro: posted\<close>)

lemma send_held:
  assumes run: "send_encrypted P H now i b url network s = (Inr (), t)" and url: "rstrip_slash url = base"
  shows "held b (cl_net t)"
proof -
  have body: "carries b (utf8 (json_compact (case tk of None \<Rightarrow> to_relay_json b | Some x \<Rightarrow> with_item ''ticket'' (JStr x) (to_relay_json b))))"
    for tk by (cases tk) (simp_all add: carriesI)
  obtain auth name s2 reply where status: "hs_status reply = 201" and
    post: "(case auth of
         Some a \<Rightarrow>
           m_bind (ensure_capability_session P H now url name i a [''post''] None) (\<lambda>session.
           m_bind (capability_headers_for_request P now session ''POST'' ''/v1/blobs'' (utf8 (json_default (to_relay_json b)))) (\<lambda>headers.
           yakr_post P H (base @ ''/v1/blobs'') (Some (cl_contact s2)) (headers @ json_headers) (utf8 (json_default (to_relay_json b)))))
       | None \<Rightarrow>
           yakr_post P H (base @ ''/v1/blobs'') (Some (cl_contact s2)) json_headers (utf8 (json_compact
             (case client_ticket P now (cl_env s2) i (cl_contact s2) name ''store'' of
               None \<Rightarrow> to_relay_json b | Some x \<Rightarrow> with_item ''ticket'' (JStr x) (to_relay_json b))))) s2 = (Inr reply, t)"
    using run unfolding send_encrypted_def Let_def url by (auto simp: m_bind_Inr split: if_splits)
  show ?thesis
  proof (cases auth)
    case None
    with post have "yakr_post P H (base @ ''/v1/blobs'') (Some (cl_contact s2)) json_headers (utf8 (json_compact
             (case client_ticket P now (cl_env s2) i (cl_contact s2) name ''store'' of
               None \<Rightarrow> to_relay_json b | Some x \<Rightarrow> with_item ''ticket'' (JStr x) (to_relay_json b)))) s2 = (Inr reply, t)" by simp
    from post_held [OF this body status] show ?thesis .
  next
    case (Some a)
    with post show ?thesis using post_held [OF _ carriesI(1) status] by (auto simp: m_bind_Inr)
  qed
qed

text \<open>What the poll asks, and that the calls before it leave the blob alone.\<close>

lemma poll_call:
  assumes run: "poll_relay P H now i tg url s = (Inr reply, t)" and url: "rstrip_slash url = base"
    and s: "held b (cl_net s)" "live b (cl_net s)"
  shows "\<exists>call w. asks_for base tg call \<and> H call w = (Inr reply, cl_net t) \<and> held b w \<and> live b w" (is ?asked)
proof -
  let ?W = "on_wire (cl_env s) (\<lambda>w. held b w \<and> live b w)"
  let ?pay = "JObj [(''mailbox_tags'', JList [JStr tg])]"
  have W: "?W s" using s by (simp add: on_wire_def)
  have asked: ?asked if "H \<lparr>hc_method = v, hc_url = u, hc_check = ck, hc_headers = hs, hc_body = body\<rparr> (cl_net w) = (Inr reply, cl_net t)"
    "asks_for base tg \<lparr>hc_method = v, hc_url = u, hc_check = ck, hc_headers = hs, hc_body = body\<rparr>" "?W w" for v u ck hs body w
    using that by (intro exI conjI) (auto simp: on_wire_def)
  have get: ?asked if "yakr_get P H (base @ ''/v1/blobs/'' @ tg) c u = (Inr reply, t)" "?W u" for c u
    using that(1) unfolding yakr_get_def
    by (elim yakr_request_Inr) (erule asked, simp_all add: asks_for_def that(2))
  have post: ?asked if "yakr_post P H (base @ ''/v1/fetch'') c hs (utf8 (json_default pay)) u = (Inr reply, t)"
    "pay = ?pay \<or> (\<exists>x. pay = with_item ''ticket'' (JStr x) ?pay)" "?W u" for c hs pay u
  proof -
    have "\<exists>d. body_fields (utf8 (json_default pay)) = Inr d \<and> map_of d ''mailbox_tags'' = Some (JList [JStr tg])"
      using that(2) by (auto simp: body_fields_def json_default_roundtrip with_item_def)
    with that show ?asked unfolding yakr_post_def
      by (elim yakr_request_Inr) (erule asked, simp_all add: asks_for_def)
  qed
  let ?auth = "relay_capability_context P H now url None"
  from run obtain name auth s1 s2 where n: "relay_name_for_url P url None ''relay'' s = (Inr name, s1)"
    and a: "?auth s1 = (Inr auth, s2)"
    and rest: "(\<lambda>s. let c = cl_contact s in
     if legacy_get_fetch (cl_env s)
     then yakr_get P H (rstrip_slash url @ ''/v1/blobs/'' @ tg) (Some c)
     else
       let payload = (case (auth, client_ticket P now (cl_env s) i c name ''fetch'') of
             (None, Some t) \<Rightarrow> with_item ''ticket'' (JStr t) ?pay | _ \<Rightarrow> ?pay);
           body = utf8 (json_default payload) in
       m_bind (case auth of None \<Rightarrow> m_return []
         | Some a \<Rightarrow> m_bind (ensure_capability_session P H now url name i a [''fetch''] None) (\<lambda>session.
             capability_headers_for_request P now session ''POST'' ''/v1/fetch'' body)) (\<lambda>headers.
       yakr_post P H (rstrip_slash url @ ''/v1/fetch'') (Some c) (json_headers @ headers) body)) s2 s2 = (Inr reply, t)"
    by (auto simp: poll_relay_def m_bind_Inr m_get_def Let_def cong del: if_weak_cong)
  have g: "net_guard (cl_env s) (\<lambda>w. held b w \<and> live b w) H" by (rule guard)
  have W2: "?W s2"
    using preservesD [OF upload_wire(2) [OF g] a] preservesD [OF local_wire(3) n W] by blast
  show ?asked
  proof (cases "legacy_get_fetch (cl_env s2)")
    case True
    with rest url have "yakr_get P H (base @ ''/v1/blobs/'' @ tg) (Some (cl_contact s2)) s2 = (Inr reply, t)"
      by (simp add: Let_def)
    from get [OF this W2] show ?asked .
  next
    case False
    define pay where "pay = (case (auth, client_ticket P now (cl_env s2) i (cl_contact s2) name ''fetch'') of
      (None, Some t) \<Rightarrow> with_item ''ticket'' (JStr t) ?pay | _ \<Rightarrow> ?pay)"
    define hdrs where "hdrs = (case auth of None \<Rightarrow> m_return []
      | Some a \<Rightarrow> m_bind (ensure_capability_session P H now url name i a [''fetch''] None) (\<lambda>session.
          capability_headers_for_request P now session ''POST'' ''/v1/fetch'' (utf8 (json_default pay))))"
    from rest False url obtain hs s3 where h: "hdrs s2 = (Inr hs, s3)"
      and p: "yakr_post P H (base @ ''/v1/fetch'') (Some (cl_contact s2)) (json_headers @ hs) (utf8 (json_default pay)) s3 = (Inr reply, t)"
      by (auto simp: m_bind_Inr Let_def hdrs_def pay_def cong del: option.case_cong_weak)
    have "preserves ?W hdrs" unfolding hdrs_def by (intro preserves_rules g)
    from preservesD [OF this h W2] have "?W s3" .
    moreover have "pay = ?pay \<or> (\<exists>x. pay = with_item ''ticket'' (JStr x) ?pay)"
      by (auto simp: pay_def split: option.splits)
    ultimately show ?asked using p by (intro post)
  qed
qed

text \<open>A poll that is answered shows every blob that is held.\<close>

lemma poll_found:
  assumes "poll_relay P H now i (b64encode (ob_tag b)) url s = (Inr reply, t)" "rstrip_slash url = base"
    "held b (cl_net s)" "live b (cl_net s)" "hs_status reply = 200"
  shows "\<exists>seen found item e. polled_items [] reply = Inr (seen, found) \<and> item \<in> set found \<and>
    from_relay_json item = Inr \<lparr>ob_version = 1, ob_tag = ob_tag b, ob_expires_at = e, ob_ciphertext = ob_ciphertext b\<rparr>"
proof -
  from poll_call [OF assms(1-4)] fetched assms(5) obtain items
    where "reply_json reply = Inr (JList (map blob_json items))"
      "list_all (\<lambda>i. br_tag i = b64encode (ob_tag b)) items"
      "list_ex (\<lambda>i. br_ciphertext i = b64encode (ob_ciphertext b)) items" by metis
  with polled_json assms(5) show ?thesis by blast
qed

end

section \<open>The relay keeps the contract\<close>

text \<open>What the relay holds of a client's blob: a row with its tag, ciphertext and expiry.\<close>

definition site_holds :: "outer_blob \<Rightarrow> site \<Rightarrow> bool" where
  "site_holds b w \<longleftrightarrow> (\<exists>row \<in> set (bs_rows (rl_blobs (st_relay w))).
     sb_tag row = ob_tag b \<and> sb_ciphertext row = ob_ciphertext b \<and> sb_expires_at row = ob_expires_at b)"

definition site_live :: "outer_blob \<Rightarrow> site \<Rightarrow> bool" where
  "site_live b w \<longleftrightarrow> st_clock w < ob_expires_at b"

text \<open>A reply below 400 is that of a handler that returned.\<close>

lemma service_answered:
  assumes "relay_service W P rt post base call w = (Inr reply, w')" "hc_url call = base @ path"
    "app_route W P rt post \<lparr>hq_method = hc_method call, hq_path = path, hq_headers = hc_headers call,
       hq_body = hc_body call\<rparr> (st_clock w) (st_relay w) = (x, r)"
  shows "reply = reply_of x" "w' = w\<lparr>st_relay := r\<rparr>"
  using assms by (auto simp: relay_service_def starts_with_def)

lemma answered:
  assumes "answer status f y = (x, r)" "refuses m" "y = m s" "hs_status (reply_of x) < 400"
  obtains v where "m s = (Inr v, r)" "x = Inr (status, f v)"
  using assms refusesD [OF assms(2), of s] refused_reply
  by (cases "m s"; cases "fst (m s)") (fastforce simp: answer_def)+

lemma relay_posted:
  assumes call: "relay_service W P rt post base call w = (Inr reply, w')" "hc_method call = ''POST''"
      "hc_url call = base @ ''/v1/blobs''" "carries b (hc_body call)" "hs_status reply = 201"
  shows "site_holds b w'"
proof -
  let ?q = "\<lparr>hq_method = hc_method call, hq_path = ''/v1/blobs'', hq_headers = hc_headers call, hq_body = hc_body call\<rparr>"
  obtain x r where run: "app_route W P rt post ?q (st_clock w) (st_relay w) = (x, r)" by fastforce
  note out = service_answered [OF call(1,3) run]
  from call(4) obtain d tk where d: "body_fields (hc_body call) = Inr d" "field_str d ''mailbox_tag'' = Inr (b64encode (ob_tag b))"
    "field_int W d ''expires_at'' = Inr (ob_expires_at b)" "field_str d ''ciphertext'' = Inr (b64encode (ob_ciphertext b))"
    "field_opt_str d ''ticket'' = Inr tk"
    by (fastforce simp: carries_def body_fields_def to_relay_json_def with_item_def json_default_roundtrip
        json_compact_roundtrip field_str_def field_int_def field_opt_str_def)
  have "answer 201 (\<lambda>_. stored_json) (store_blob P rt ?q (b64encode (ob_tag b)) (ob_expires_at b)
      (b64encode (ob_ciphertext b)) tk (st_clock w) (st_relay w)) = (x, r)"
    using run d call(2) by (simp add: app_route_def post_route_def post_paths_def)
  from answered [OF this store_blob_refuses refl] call(5) out(1)
  obtain v where "store_blob P rt ?q (b64encode (ob_tag b)) (ob_expires_at b) (b64encode (ob_ciphertext b)) tk
      (st_clock w) (st_relay w) = (Inr v, r)" by auto
  then show ?thesis
    by (elim store_blob_Inr) (auto simp: site_holds_def out(2) dest: blob_put_result(6))
qed

lemma responses_show:
  assumes "site_holds b w" "site_live b w"
    and "items = map to_response (blob_fetch (ob_tag b) (st_clock w) (rl_blobs (st_relay w))) \<or>
      fetch_blobs_post P rt q [b64encode (ob_tag b)] tk (st_clock w) (st_relay w) = (Inr items, r)"
  shows "list_all (\<lambda>i. br_tag i = b64encode (ob_tag b)) items \<and>
    list_ex (\<lambda>i. br_ciphertext i = b64encode (ob_ciphertext b)) items"
proof -
  let ?rows = "{row \<in> set (bs_rows (rl_blobs (st_relay w))). st_clock w < sb_expires_at row \<and>
    (\<exists>t \<in> set [b64encode (ob_tag b)]. b64decode t = Inr (sb_tag row))}"
  have rows: "?rows = {row \<in> set (bs_rows (rl_blobs (st_relay w))). st_clock w < sb_expires_at row \<and> sb_tag row = ob_tag b}" by auto
  from assms(3) have items: "set items \<subseteq> to_response ` ?rows"
    "\<forall>row \<in> ?rows. \<exists>i \<in> set items. br_ciphertext i = b64encode (sb_ciphertext row)"
  proof (rule_tac [!] disjE [OF assms(3)])
    assume items: "items = map to_response (blob_fetch (ob_tag b) (st_clock w) (rl_blobs (st_relay w)))"
    then show "set items \<subseteq> to_response ` ?rows" unfolding rows by (auto simp: blob_fetch_set)
    from items show "\<forall>row \<in> ?rows. \<exists>i \<in> set items. br_ciphertext i = b64encode (sb_ciphertext row)"
      unfolding rows by (auto simp: blob_fetch_set to_response_def)
  next
    assume f: "fetch_blobs_post P rt q [b64encode (ob_tag b)] tk (st_clock w) (st_relay w) = (Inr items, r)"
    from fetch_post_items(3) [OF f] show "set items \<subseteq> to_response ` ?rows" .
    show "\<forall>row \<in> ?rows. \<exists>i \<in> set items. br_ciphertext i = b64encode (sb_ciphertext row)"
    proof
      fix row assume "row \<in> ?rows"
      then have "(b64encode (sb_ciphertext row), sb_stored_at row) \<in> response_key ` set items"
        unfolding fetch_post_items(2) [OF f] by (rule image_eqI [rotated]) simp
      then show "\<exists>i \<in> set items. br_ciphertext i = b64encode (sb_ciphertext row)" by (auto simp: response_key_def)
    qed
  qed
  from assms(1,2) obtain row where "row \<in> ?rows" "sb_ciphertext row = ob_ciphertext b"
    unfolding rows site_holds_def site_live_def by (elim bexE conjE) (rule that, simp_all)
  with items rows show ?thesis
    by (fastforce simp: list_all_iff list_ex_iff to_response_def)
qed

lemma json_ok_blobs: "json_ok (JList (map blob_json items))"
  by (auto simp: blob_json_def)

lemma relay_fetched:
  assumes b: "site_holds b w" "site_live b w"
    and call: "asks_for base (b64encode (ob_tag b)) call" "relay_service W P rt post base call w = (Inr reply, w')"
      "hs_status reply = 200"
  shows "\<exists>items. reply_json reply = Inr (JList (map blob_json items)) \<and>
    list_all (\<lambda>i. br_tag i = b64encode (ob_tag b)) items \<and>
    list_ex (\<lambda>i. br_ciphertext i = b64encode (ob_ciphertext b)) items"
proof -
  define q where "q path = \<lparr>hq_method = hc_method call, hq_path = path, hq_headers = hc_headers call, hq_body = hc_body call\<rparr>" for path
  have shown: ?thesis if "reply = reply_of (Inr (200, JList (map blob_json items)))"
    "items = map to_response (blob_fetch (ob_tag b) (st_clock w) (rl_blobs (st_relay w))) \<or>
      fetch_blobs_post P rt qq [b64encode (ob_tag b)] tk (st_clock w) (st_relay w) = (Inr items, r)" for items qq tk r
  proof -
    have "reply_json reply = Inr (JList (map blob_json items))"
      by (simp add: that(1) reply_json_def json_compact_roundtrip [OF json_ok_blobs])
    with responses_show [OF b that(2)] show ?thesis by blast
  qed
  from call(1) consider
    (posts) d where "hc_method call = ''POST''" "hc_url call = base @ ''/v1/fetch''" "body_fields (hc_body call) = Inr d"
      "map_of d ''mailbox_tags'' = Some (JList [JStr (b64encode (ob_tag b))])"
  | (gets) "hc_method call = ''GET''" "hc_url call = base @ ''/v1/blobs/'' @ b64encode (ob_tag b)"
    unfolding asks_for_def by blast
  then show ?thesis
  proof cases
    case posts
    obtain x r where run: "app_route W P rt post (q ''/v1/fetch'') (st_clock w) (st_relay w) = (x, r)" by fastforce
    note out = service_answered [OF call(2) posts(2) run [unfolded q_def]]
    from posts(4) have tags: "field_strs d ''mailbox_tags'' = Inr [b64encode (ob_tag b)]"
      by (simp add: field_strs_def json_string_of_def)
    show ?thesis
    proof (cases "field_opt_str d ''ticket''")
      case (Inl e)
      then have "e = HTTPException 422 ''ticket''"
        by (auto simp: field_opt_str_def unprocessable_def split: option.splits json.splits)
      with run posts(1,3) tags Inl out(1) call(3) show ?thesis
        by (auto simp: app_route_def post_route_def post_paths_def q_def)
    next
      case (Inr tk)
      have "answer 200 (\<lambda>bs. JList (map blob_json bs)) (fetch_blobs_post P rt (q ''/v1/fetch'') [b64encode (ob_tag b)] tk
          (st_clock w) (st_relay w)) = (x, r)"
        using run posts(1,3) tags Inr by (simp add: app_route_def post_route_def post_paths_def q_def)
      from answered [OF this fetch_post_refuses refl] call(3) out(1) obtain items
        where f: "fetch_blobs_post P rt (q ''/v1/fetch'') [b64encode (ob_tag b)] tk (st_clock w) (st_relay w) = (Inr items, r)"
          "x = Inr (200, JList (map blob_json items))" by auto
      from shown [of items] out(1) f show ?thesis by blast
    qed
  next
    case gets
    let ?path = "''/v1/blobs/'' @ b64encode (ob_tag b)"
    obtain x r where run: "app_route W P rt post (q ?path) (st_clock w) (st_relay w) = (x, r)" by fastforce
    note out = service_answered [OF call(2) gets(2) run [unfolded q_def]]
    show ?thesis
    proof (cases "path_tail ''/v1/blobs/'' ?path")
      case None
      with run gets(1) have "hs_status (reply_of x) \<noteq> 200"
        by (auto simp: app_route_def get_route_def no_route_def post_paths_def q_def path_tail_def starts_with_def)
      with out(1) call(3) show ?thesis by simp
    next
      case (Some p)
      then have "p = b64encode (ob_tag b)" by (auto simp: path_tail_def split: if_splits)
      with run gets(1) Some have "x = Inr (200, JList (map blob_json
          (map to_response (blob_fetch (ob_tag b) (st_clock w) (rl_blobs (st_relay w))))))"
        by (auto simp: app_route_def get_route_def q_def fetch_blobs_legacy_def)
      from shown [OF out(1) [unfolded this]] show ?thesis by blast
    qed
  qed
qed

interpretation site: mailbox_service "relay_service W P rt post base" base site_holds site_live
  for W P rt post base
proof unfold_locales
  fix call w w' reply b
  show "relay_service W P rt post base call w = (Inr reply, w') \<Longrightarrow> hc_method call = ''POST'' \<Longrightarrow>
      hc_url call = base @ ''/v1/blobs'' \<Longrightarrow> carries b (hc_body call) \<Longrightarrow> hs_status reply = 201 \<Longrightarrow> site_holds b w'"
    by (rule relay_posted)
next
  fix call w w' x b
  show "site_holds b w \<Longrightarrow> site_live b w \<Longrightarrow> relay_service W P rt post base call w = (x, w') \<Longrightarrow>
      site_holds b w' \<and> site_live b w'"
    using service_keeps_row [of _ w W P rt post base call x w']
    unfolding site_holds_def site_live_def has_row_def by fastforce
next
  fix call w w' reply b
  show "site_holds b w \<Longrightarrow> site_live b w \<Longrightarrow> asks_for base (b64encode (ob_tag b)) call \<Longrightarrow>
      relay_service W P rt post base call w = (Inr reply, w') \<Longrightarrow> hs_status reply = 200 \<Longrightarrow>
      \<exists>items. reply_json reply = Inr (JList (map blob_json items)) \<and>
        list_all (\<lambda>i. br_tag i = b64encode (ob_tag b)) items \<and>
        list_ex (\<lambda>i. br_ciphertext i = b64encode (ob_ciphertext b)) items"
    by (rule relay_fetched)
qed

lemma site_run_holds:
  assumes "site_holds b w" "site_live b (site_run W P rt post base es w)"
  shows "site_holds b (site_run W P rt post base es w)"
proof -
  from assms(1) obtain row where row: "has_row row (st_relay w)" "sb_tag row = ob_tag b"
    "sb_ciphertext row = ob_ciphertext b" "sb_expires_at row = ob_expires_at b"
    by (auto simp: site_holds_def has_row_def)
  with site_run_keeps_row [OF row(1), of W P rt post base es] assms(2) show ?thesis
    by (auto simp: site_holds_def site_live_def has_row_def)
qed

section \<open>From one client to the other\<close>

lemma upload_arrives:
  assumes sent: "send_encrypted P (relay_service W P rt post base) now i b url network s = (Inr (), s')" "rstrip_slash url = base"
    and polled: "poll_relay P (relay_service W P rt post base) now' j (b64encode (ob_tag b)) url' r = (Inr reply, r')"
      "rstrip_slash url' = base"
    and between: "cl_net r = site_run W P rt post base es (cl_net s')" "st_clock (cl_net r) < ob_expires_at b"
    and ok: "hs_status reply = 200"
  shows "\<exists>seen found item e. polled_items [] reply = Inr (seen, found) \<and> item \<in> set found \<and>
    from_relay_json item = Inr \<lparr>ob_version = 1, ob_tag = ob_tag b, ob_expires_at = e, ob_ciphertext = ob_ciphertext b\<rparr>"
proof -
  have "site_holds b (cl_net s')" by (rule site.send_held [OF sent])
  with site_run_holds between have "site_holds b (cl_net r)" "site_live b (cl_net r)" by (auto simp: site_live_def)
  from site.poll_found [OF polled this ok] show ?thesis .
qed

text \<open>
  C5. A blob that \<open>send_encrypted\<close> uploaded without an error reaches the recipient: whatever other
  requests, sweeps and waiting follow at the relay, a later poll of the blob's mailbox tag that the relay
  answers with 200 before the blob's expiry lists an item that decodes to the same tag and ciphertext,
  by the new fetch route and by the old one, with tickets, capability sessions or neither.
\<close>

theorem upload_reaches_poll:
  assumes sent: "send_encrypted P (relay_service W P rt post base) now i b url network s = (Inr (), s')" "rstrip_slash url = base"
    and polled: "poll_relay P (relay_service W P rt post base) now' j (b64encode (ob_tag b)) url' r = (Inr reply, r')"
      "rstrip_slash url' = base"
    and between: "cl_net r = site_run W P rt post base es (cl_net s')" "st_clock (cl_net r) < ob_expires_at b"
    and ok: "hs_status reply = 200"
  shows "\<exists>seen found item e. polled_items [] reply = Inr (seen, found) \<and> item \<in> set found \<and>
    from_relay_json item = Inr \<lparr>ob_version = 1, ob_tag = ob_tag b, ob_expires_at = e, ob_ciphertext = ob_ciphertext b\<rparr>"
  by (rule upload_arrives [OF assms])

text \<open>Two clients of an open relay, one for each end.\<close>

definition demo_env :: "(str \<times> str) list" where
  "demo_env = [(''YAKR_REQUIRE_TLS'', ''0''), (''YAKR_DISABLE_CAPABILITIES'', ''1'')]"

abbreviation demo_site :: "site http" where
  "demo_site \<equiv> relay_service \<lparr>fw_int = (\<lambda>_. None)\<rparr> demo_prims open_runtime (\<lambda>_ _ _. Inr (202, [])) ''http://relay''"

definition demo_client :: "contact \<Rightarrow> site \<Rightarrow> site client" where
  "demo_client c w = \<lparr>cl_store = empty_store, cl_contact = c, cl_env = demo_env, cl_relays = None,
     cl_probes = [], cl_tape = (\<lambda>k. 0), cl_drawn = 0, cl_net = w\<rparr>"

abbreviation demo_end :: "site \<Rightarrow> site client" where
  "demo_end \<equiv> demo_client demo_contact"

definition demo_blob :: outer_blob where
  "demo_blob = \<lparr>ob_version = 1, ob_tag = demo_tag_bytes, ob_expires_at = 2000, ob_ciphertext = [1, 2, 3]\<rparr>"

lemma demo_env_flags: "tls_required demo_env = False" "capabilities_disabled demo_env = True"
  "legacy_get_fetch demo_env = False" "tickets_required demo_env = False" "getenv demo_env ''YAKR_RELAY_NAME'' ''relay'' = ''relay''"
  by code_simp+

lemma demo_base: "endpoint_base_url ''http://relay'' = Inr ''http://relay''" "rstrip_slash ''http://relay'' = ''http://relay''"
  by code_simp+

lemma demo_operators: "url_operator_map demo_prims empty_store = (Inr [], empty_store)"
  by (simp add: url_operator_map_def load_local_profile_def each_contact_def list_contacts_def empty_store_def empty_db_def m_bind_def)

lemma demo_request_passes:
  "starts_with ''http://'' (rstrip_slash url) \<Longrightarrow>
   yakr_request P H verb url c None [] hs body (demo_client e w) =
     (case H \<lparr>hc_method = verb, hc_url = url, hc_check = SystemTrust, hc_headers = hs, hc_body = body\<rparr> w of
       (x, w') \<Rightarrow> (x, demo_client e w'))"
  by (simp add: yakr_request_def verify_param_for_url_def demo_env_flags demo_client_def on_store_def on_net_def m_zoom_def
      m_bind_def split: prod.splits)

lemma demo_relay_name: "relay_name_for_url demo_prims ''http://relay'' None ''relay'' (demo_client e w) = (Inr ''relay'', demo_client e w)"
  by (simp add: relay_name_for_url_def demo_base demo_operators demo_env_flags m_bind_def on_store_def m_zoom_def demo_client_def)

lemma demo_no_session: "relay_capability_context demo_prims H now ''http://relay'' None (demo_client e w) = (Inr None, demo_client e w)"
  by (simp add: relay_capability_context_def relay_supports_capabilities_def demo_env_flags m_bind_def demo_client_def)

lemma open_service_fetch:
  "\<exists>reply. demo_site \<lparr>hc_method = ''POST'', hc_url = ''http://relay/v1/fetch'', hc_check = ck, hc_headers = hs,
     hc_body = utf8 (json_default (JObj [(''mailbox_tags'', JList [JStr (b64encode x)])]))\<rparr> w = (Inr reply, w) \<and>
     hs_status reply = 200"
proof -
  let ?q = "\<lparr>hq_method = ''POST'', hq_path = ''/v1/fetch'', hq_headers = hs, hq_body = utf8 (json_default (JObj
     [(''mailbox_tags'', JList [JStr (b64encode x)])]))\<rparr>"
  obtain items where "fetch_blobs_post demo_prims open_runtime ?q [b64encode x] None (st_clock w) (st_relay w) = (Inr items, st_relay w)"
    using open_fetch by blast
  then show ?thesis
    by (simp add: relay_service_def app_route_def post_route_def post_paths_def body_fields_def json_default_roundtrip field_strs_def
        field_opt_str_def json_string_of_def answer_def m_bind_def starts_with_def)
qed

lemma open_put:
  assumes "blob_put x e c None now (rl_blobs r) = (Inr (), bs)"
  shows "store_blob P open_runtime q (b64encode x) e (b64encode c) None now r = (Inr (), r\<lparr>rl_blobs := bs\<rparr>)"
proof -
  have "rr_role open_runtime \<noteq> ''entry''" by (simp add: open_runtime_def demo_runtime_def)
  with assms show ?thesis by (simp add: store_blob_def m_bind_def open_authorize catching_def on_blobs_def)
qed

lemma open_service_put:
  assumes "blob_put (ob_tag b) (ob_expires_at b) (ob_ciphertext b) None t (rl_blobs r0) = (Inr (), bs)"
  shows "\<exists>reply r. demo_site \<lparr>hc_method = ''POST'', hc_url = ''http://relay/v1/blobs'', hc_check = ck, hc_headers = hs,
     hc_body = utf8 (json_compact (to_relay_json b))\<rparr> \<lparr>st_relay = r0, st_clock = t\<rparr> =
     (Inr reply, \<lparr>st_relay = r, st_clock = t\<rparr>) \<and> hs_status reply = 201"
  using open_put [OF assms]
  by (simp add: relay_service_def app_route_def post_route_def post_paths_def body_fields_def json_compact_roundtrip field_str_def
      field_int_def field_opt_str_def to_relay_json_def answer_def m_bind_def starts_with_def)

lemma demo_fetch_answered:
  "\<exists>reply. poll_relay demo_prims demo_site now i (b64encode x) ''http://relay'' (demo_client e w) =
     (Inr reply, demo_client e w) \<and> hs_status reply = 200"
proof -
  have f: "legacy_get_fetch (cl_env (demo_client e w)) = False" "tickets_required (cl_env (demo_client e w)) = False"
    by (simp_all add: demo_client_def demo_env_flags)
  have u: "starts_with ''http://'' (rstrip_slash ''http://relay/v1/fetch'')" by code_simp
  show ?thesis
    using open_service_fetch [of SystemTrust json_headers x w]
    by (auto simp: poll_relay_def m_bind_def demo_relay_name demo_no_session f client_ticket_def yakr_post_def
        demo_request_passes [OF u] demo_base Let_def)
qed

lemma demo_uploaded:
  assumes "blob_put (ob_tag b) (ob_expires_at b) (ob_ciphertext b) None t (rl_blobs r0) = (Inr (), bs)"
  shows "\<exists>r. send_encrypted demo_prims demo_site now demo_inviter b ''http://relay'' None
     (demo_client c \<lparr>st_relay = r0, st_clock = t\<rparr>) = (Inr (), demo_client c \<lparr>st_relay = r, st_clock = t\<rparr>)"
proof -
  have f: "tickets_required (cl_env (demo_client c w)) = False" for w
    by (simp_all add: demo_client_def demo_env_flags)
  have u: "starts_with ''http://'' (rstrip_slash ''http://relay/v1/blobs'')" by code_simp
  show ?thesis
    using open_service_put [OF assms, of SystemTrust json_headers]
    by (auto simp: send_encrypted_def m_bind_def demo_relay_name demo_no_session f client_ticket_def yakr_post_def
        demo_request_passes [OF u] demo_base Let_def)
qed

lemma demo_put: "\<exists>bs. blob_put (ob_tag demo_blob) (ob_expires_at demo_blob) (ob_ciphertext demo_blob) None 1000 (rl_blobs demo_relay) = (Inr (), bs)"
  by (simp add: demo_blob_def blob_put_def demo_relay_def new_blob_store_def demo_tag_bytes_def tbl_count_def
      MAX_RELAY_BLOB_TTL_MS_def MESSAGE_TTL_MS_def)

theorem upload_reaches_poll_witness:
  "\<exists>w reply seen found item e.
     send_encrypted demo_prims demo_site 1000 demo_inviter demo_blob ''http://relay'' None
       (demo_end \<lparr>st_relay = demo_relay, st_clock = 1000\<rparr>) = (Inr (), demo_end w) \<and>
     poll_relay demo_prims demo_site 1500 demo_inviter (b64encode demo_tag_bytes) ''http://relay''
       (demo_end (site_run \<lparr>fw_int = (\<lambda>_. None)\<rparr> demo_prims open_runtime (\<lambda>_ _ _. Inr (202, [])) ''http://relay'' [Sweep, Tick 500] w)) =
       (Inr reply, demo_end (site_run \<lparr>fw_int = (\<lambda>_. None)\<rparr> demo_prims open_runtime (\<lambda>_ _ _. Inr (202, [])) ''http://relay'' [Sweep, Tick 500] w)) \<and>
     polled_items [] reply = Inr (seen, found) \<and> item \<in> set found \<and>
     from_relay_json item = Inr \<lparr>ob_version = 1, ob_tag = demo_tag_bytes, ob_expires_at = e, ob_ciphertext = [1, 2, 3]\<rparr>"
proof -
  obtain r where sent: "send_encrypted demo_prims demo_site 1000 demo_inviter demo_blob ''http://relay'' None
       (demo_end \<lparr>st_relay = demo_relay, st_clock = 1000\<rparr>) = (Inr (), demo_end \<lparr>st_relay = r, st_clock = 1000\<rparr>)"
    using demo_put demo_uploaded by blast
  define w where "w = site_run \<lparr>fw_int = (\<lambda>_. None)\<rparr> demo_prims open_runtime (\<lambda>_ _ _. Inr (202, [])) ''http://relay''
    [Sweep, Tick 500] \<lparr>st_relay = r, st_clock = 1000\<rparr>"
  obtain reply where polled: "poll_relay demo_prims demo_site 1500 demo_inviter (b64encode (ob_tag demo_blob)) ''http://relay'' (demo_end w) =
     (Inr reply, demo_end w)" "hs_status reply = 200"
    using demo_fetch_answered by meson
  have w: "cl_net (demo_end w) = site_run \<lparr>fw_int = (\<lambda>_. None)\<rparr> demo_prims open_runtime (\<lambda>_ _ _. Inr (202, [])) ''http://relay''
      [Sweep, Tick 500] (cl_net (demo_end \<lparr>st_relay = r, st_clock = 1000\<rparr>))"
    "st_clock (cl_net (demo_end w)) < ob_expires_at demo_blob"
    by (simp_all add: demo_client_def w_def demo_blob_def)
  have b: "ob_tag demo_blob = demo_tag_bytes" "ob_ciphertext demo_blob = [1, 2, 3]" by (simp_all add: demo_blob_def)
  obtain seen found item e where "polled_items [] reply = Inr (seen, found)" "item \<in> set found"
      "from_relay_json item = Inr \<lparr>ob_version = 1, ob_tag = demo_tag_bytes, ob_expires_at = e, ob_ciphertext = [1, 2, 3]\<rparr>"
    using upload_reaches_poll [OF sent demo_base(2) polled(1) demo_base(2) w polled(2)] unfolding b by blast
  with sent polled(1) show ?thesis unfolding b w_def by blast
qed

end
