(* ===== verification/ServerProps.thy ===== *)
theory ServerProps
  imports Delivery
begin

text \<open>
  The rendezvous server pairs once, and what the dummy of the high privacy mode looks like to the relay.
\<close>

lemma rendezvous_run_once:
  assumes "rendezvous_run P qs s = (Inr xs, t)" "\<not> rv_consumed s" "rv_contact s = None"
  shows "length (filter (\<lambda>x. \<not> isl x) xs) = (if rv_consumed t then 1 else 0) \<and>
    (rv_contact t = None \<longleftrightarrow> \<not> rv_consumed t) \<and>
    list_all (\<lambda>x. x = Inl (HTTPException 409 ''invite already consumed'')) (tl (dropWhile isl xs))"
  using assms
proof (induction qs arbitrary: s xs)
  case (Cons q qs)
  obtain e r now body where q: "q = (e, r, now, body)" by (cases q)
  obtain x u where x: "rendezvous_pair P e r now body s = (x, u)" by fastforce
  obtain ys where ys: "rendezvous_run P qs u = (Inr ys, t)" "xs = x # ys"
    using Cons.prems(1) x by (auto simp: q split: prod.splits sum.splits)
  show ?case
  proof (cases x)
    case (Inl f)
    from rendezvous_pair_Inl [OF x [unfolded Inl]] Cons.prems have "\<not> rv_consumed u" "rv_contact u = None" by simp_all
    from Cons.IH [OF ys(1) this] ys(2) Inl show ?thesis by simp
  next
    case (Inr answer)
    with x obtain c where u: "rv_consumed u" "rv_contact u = Some c" by (auto elim: rendezvous_pair_Inr)
    from consumed_refuses [OF u(1) ys(1)] have "t = u" and all: "\<And>y. y \<in> set ys \<Longrightarrow> isl y \<and> y = Inl (HTTPException 409 ''invite already consumed'')"
      by auto
    then have "filter (\<lambda>x. \<not> isl x) ys = []" by (auto simp: filter_empty_conv)
    with u \<open>t = u\<close> all ys(2) Inr show ?thesis by (auto simp: list_all_iff)
  qed
qed simp

text \<open>
  C36. The rendezvous server of an invite pairs at most once, whatever requests it gets: one request is
  answered with a response, every later one with 409, and the server holds a contact exactly when it has
  answered one.
\<close>

theorem invite_pairs_once:
  "case rendezvous_run P qs (new_rendezvous invite i profile) of (Inl e, t) \<Rightarrow> False
   | (Inr xs, t) \<Rightarrow> length xs = length qs \<and>
       length (filter (\<lambda>x. \<not> isl x) xs) = (if rv_consumed t then 1 else 0) \<and>
       (rv_contact t = None \<longleftrightarrow> \<not> rv_consumed t) \<and>
       list_all (\<lambda>x. x = Inl (HTTPException 409 ''invite already consumed'')) (tl (dropWhile isl xs))"
proof -
  obtain xs t where r: "rendezvous_run P qs (new_rendezvous invite i profile) = (Inr xs, t)" "length xs = length qs"
    using rendezvous_run_total [of P qs "new_rendezvous invite i profile"] by blast
  from rendezvous_run_once [OF r(1)] r show ?thesis by (simp add: new_rendezvous_def)
qed

text \<open>The first tag of a poll without lookback is the one a message is sent under.\<close>

lemma first_tag:
  assumes "fetch_tags_for_mode P d dir mode secret 0 now = Inr tags"
  shows "derive P d dir None now = Inr (hd tags)"
  using assms by (cases "current_epoch (td_epoch_secs d) now")
    (auto simp: fetch_tags_for_mode_def candidate_epochs_def derive_def split: if_splits)

text \<open>
  The dummy of the high privacy mode is no decoy: it is posted under the very tag that a text sent
  at that time gets, so the contact fetches it and fails to decrypt it; and it is posted with the system's
  trust store in place of the relay's pin, whatever the environment requires.
\<close>

theorem dummy_in_live_mailbox:
  "case send_dummy_blob P (logged H) now i route s of (Inl e, t) \<Rightarrow> length (w_log (cl_net t)) \<le> length (w_log (cl_net s)) + 1
   | (Inr _, t) \<Rightarrow> \<exists>call reply tg outer. w_log (cl_net t) = w_log (cl_net s) @ [(call, Inr reply)] \<and>
       hc_check call = SystemTrust \<and> hc_body call = utf8 (json_compact (to_relay_json outer)) \<and>
       derive P (mailbox_deriver P i (cl_contact s) True) (send_direction i (cl_contact s)) None now = Inr tg \<and>
       ob_tag outer = tag tg"
proof -
  let ?tags = "fetch_tags_for_mode P (mailbox_deriver P i (cl_contact s) True) (send_direction i (cl_contact s)) ''high''
    (derive_mailbox_secret P (master_secret (cl_contact s)) (send_direction i (cl_contact s))) 0 now"
  show ?thesis
  proof (cases ?tags)
    case (Inl e)
    then show ?thesis by (simp add: send_dummy_blob_def Let_def)
  next
    case (Inr tags)
    from first_tag [OF this] show ?thesis
      by (auto simp: send_dummy_blob_def Let_def Inr m_bind_def draw_def on_net_def m_zoom_def logged_def
          split: prod.split sum.split)
  qed
qed

end
