(* ===== verification/Mobile.thy ===== *)
theory Mobile
  imports Complex_Main Commands
begin

text \<open>
  The mobile client: its encrypted store (\<open>encrypted_store.py\<close>), the client itself (\<open>client.py\<close>),
  the invites it shows (\<open>invite_qr.py\<close>), the settings of the device (\<open>device_settings.py\<close>) and the
  two workers. The mobile store keeps every contact twice: in the file store that the command line
  uses as well, and encrypted in a database of its own, which wins when a contact is read. Fernet and
  the QR code library are parameters.
\<close>

section \<open>The encrypted store\<close>

record fernet =
  fn_pbkdf2 :: "bytes \<Rightarrow> bytes \<Rightarrow> bytes"  \<comment> \<open>passphrase and salt: PBKDF2 with SHA-256, 32 bytes, 200,000 rounds\<close>
  fn_encrypt :: "str \<Rightarrow> int \<Rightarrow> bytes \<Rightarrow> bytes \<Rightarrow> bytes"  \<comment> \<open>key, time, initial vector, data\<close>
  fn_decrypt :: "str \<Rightarrow> bytes \<Rightarrow> bytes option"  \<comment> \<open>\<open>None\<close> is \<open>InvalidToken\<close>\<close>

text \<open>What is encrypted is decrypted with the same key.\<close>

definition fernet_correct :: "fernet \<Rightarrow> bool" where
  "fernet_correct F \<longleftrightarrow> (\<forall>k t iv x. fn_decrypt F k (fn_encrypt F k t iv x) = Some x)"

text \<open>\<open>mb_client\<close> is the client over \<open>yakr_data\<close>; the rest is the database \<open>mobile.db\<close> and the object's fields.\<close>

record 'n mobile =
  mb_client :: "'n client"
  mb_crypto_meta :: "(bytes \<times> bytes) option"
  mb_kv :: "(str \<times> bytes) list"
  mb_worker :: "(str \<times> str) list"
  mb_fernet :: "str option"
  mb_relay_url :: str

definition on_client :: "('n client, 'a) meth \<Rightarrow> ('n mobile, 'a) meth" where
  "on_client = m_zoom mb_client (\<lambda>t s. s\<lparr>mb_client := t\<rparr>)"

definition on_files :: "(store, 'a) meth \<Rightarrow> ('n mobile, 'a) meth" where
  "on_files m = on_client (on_store m)"

definition derive_fernet :: "fernet \<Rightarrow> str \<Rightarrow> bytes \<Rightarrow> str" where
  "derive_fernet F passphrase salt = urlsafe_b64encode (fn_pbkdf2 F (utf8 passphrase) salt)"

definition load_or_create_fernet :: "fernet \<Rightarrow> int \<Rightarrow> str \<Rightarrow> ('n mobile, str) meth" where
  "load_or_create_fernet F now passphrase = m_get (\<lambda>m. case mb_crypto_meta m of
     None \<Rightarrow>
       let salt = utf8 ''yakr-mobile-salt-v1''; key = derive_fernet F passphrase salt in
       m_bind (on_client (draw 16)) (\<lambda>iv.
       m_bind (m_modify (\<lambda>m. m\<lparr>mb_crypto_meta := Some (salt, fn_encrypt F key now iv (utf8 ''ok''))\<rparr>)) (\<lambda>_.
       m_return key))
   | Some (salt, wrapped) \<Rightarrow>
       let key = derive_fernet F passphrase salt in
       case fn_decrypt F key wrapped of
         None \<Rightarrow> m_raise (ValueError ''invalid mobile store passphrase'')
       | Some _ \<Rightarrow> m_return key)"

definition open_mobile_store :: "fernet \<Rightarrow> int \<Rightarrow> str \<Rightarrow> ('n mobile, unit) meth" where
  "open_mobile_store F now passphrase = m_bind (load_or_create_fernet F now passphrase) (\<lambda>key.
     m_modify (\<lambda>m. m\<lparr>mb_fernet := Some key\<rparr>))"

text \<open>\<open>assert self._fernet is not None\<close>.\<close>

definition the_fernet :: "('n mobile, str) meth" where
  "the_fernet = m_get (\<lambda>m. m_of (opt_res (RuntimeError ''AssertionError'') (mb_fernet m)))"

definition put_blob :: "fernet \<Rightarrow> int \<Rightarrow> str \<Rightarrow> bytes \<Rightarrow> ('n mobile, unit) meth" where
  "put_blob F now key data = m_bind the_fernet (\<lambda>k. m_bind (on_client (draw 16)) (\<lambda>iv.
     m_modify (\<lambda>m. m\<lparr>mb_kv := dict_put key (fn_encrypt F k now iv data) (mb_kv m)\<rparr>)))"

definition get_blob :: "fernet \<Rightarrow> str \<Rightarrow> ('n mobile, bytes option) meth" where
  "get_blob F key = m_get (\<lambda>m. case map_of (mb_kv m) key of
     None \<Rightarrow> m_return None
   | Some token \<Rightarrow> m_bind the_fernet (\<lambda>k.
       m_of (opt_res (CryptoError ''InvalidToken'') (map_option Some (fn_decrypt F k token)))))"

definition mobile_save_identity :: "prims \<Rightarrow> fernet \<Rightarrow> int \<Rightarrow> identity \<Rightarrow> ('n mobile, unit) meth" where
  "mobile_save_identity P F now i = m_bind (on_files (save_identity P i)) (\<lambda>_.
     put_blob F now ''identity'' (utf8 (json_default (identity_to_dict i))))"

definition mobile_load_identity :: "fernet \<Rightarrow> ('n mobile, identity option) meth" where
  "mobile_load_identity F = m_bind (get_blob F ''identity'') (\<lambda>encrypted. case encrypted of
     None \<Rightarrow> on_files load_identity
   | Some b \<Rightarrow> m_of (and_then (and_then (decode_utf8 b) json_loads) (\<lambda>j.
       and_then (identity_from_dict j) (\<lambda>i. Inr (Some i)))))"

definition put_contact :: "prims \<Rightarrow> fernet \<Rightarrow> int \<Rightarrow> contact \<Rightarrow> ('n mobile, unit) meth" where
  "put_contact P F now c = put_blob F now (''contact:'' @ c_name c) (utf8 (json_default (contact_to_dict P c)))"

definition mobile_save_contact :: "prims \<Rightarrow> fernet \<Rightarrow> int \<Rightarrow> contact \<Rightarrow> ('n mobile, unit) meth" where
  "mobile_save_contact P F now c = m_bind (on_files (save_contact P c)) (\<lambda>_. put_contact P F now c)"

definition mobile_get_contact :: "prims \<Rightarrow> fernet \<Rightarrow> str \<Rightarrow> ('n mobile, contact option) meth" where
  "mobile_get_contact P F name = m_bind (get_blob F (''contact:'' @ name)) (\<lambda>encrypted. case encrypted of
     None \<Rightarrow> on_files (get_contact P name)
   | Some b \<Rightarrow> m_of (and_then (and_then (decode_utf8 b) json_loads) (\<lambda>j.
       and_then (contact_from_dict P j) (\<lambda>c. Inr (Some c)))))"

definition mobile_list_contacts :: "'n mobile \<Rightarrow> str list" where
  "mobile_list_contacts m = list_contacts (cl_store (mb_client m))"

definition save_worker_state :: "str \<Rightarrow> str \<Rightarrow> ('n mobile, unit) meth" where
  "save_worker_state key v = m_modify (\<lambda>m. m\<lparr>mb_worker := dict_put key v (mb_worker m)\<rparr>)"

definition load_worker_state :: "str \<Rightarrow> str \<Rightarrow> 'n mobile \<Rightarrow> str" where
  "load_worker_state key dflt m = (case map_of (mb_worker m) key of None \<Rightarrow> dflt | Some v \<Rightarrow> v)"

definition mobile_commit_send ::
    "prims \<Rightarrow> fernet \<Rightarrow> int \<Rightarrow> contact \<Rightarrow> str \<Rightarrow> int \<Rightarrow> str \<Rightarrow> outer_blob \<Rightarrow> ('n mobile, unit) meth" where
  "mobile_commit_send P F now c msg_id n body outer =
     m_bind (on_files (atomic_commit_send P now c msg_id n body outer)) (\<lambda>_. put_contact P F now c)"

definition mobile_commit_receive_text ::
    "prims \<Rightarrow> fernet \<Rightarrow> bytes \<Rightarrow> identity \<Rightarrow> int \<Rightarrow> contact \<Rightarrow> inner_message \<Rightarrow> str \<Rightarrow> ('n mobile, unit) meth" where
  "mobile_commit_receive_text P F nonce i now c inner delivered_id =
     m_bind (on_files (atomic_commit_receive_text P nonce i now c inner (Some delivered_id) None)) (\<lambda>_.
     put_contact P F now c)"

definition mobile_persist_contact :: "prims \<Rightarrow> fernet \<Rightarrow> int \<Rightarrow> contact \<Rightarrow> ('n mobile, unit) meth" where
  "mobile_persist_contact P F now c =
     m_bind (on_files (atomic_persist_contact P c)) (\<lambda>_. put_contact P F now c)"

section \<open>The client\<close>

text \<open>\<open>YAKR_RELAY_URL\<close> names the client's relay while \<open>m\<close> runs, and is put back after, whether it returns or raises.\<close>

definition put_env :: "str option \<Rightarrow> (str \<times> str) list \<Rightarrow> (str \<times> str) list" where
  "put_env previous env = (case previous of
     None \<Rightarrow> filter (\<lambda>kv. fst kv \<noteq> ''YAKR_RELAY_URL'') env | Some u \<Rightarrow> dict_put ''YAKR_RELAY_URL'' u env)"

definition with_relay_url :: "('n client, 'a) meth \<Rightarrow> ('n mobile, 'a) meth" where
  "with_relay_url m = m_get (\<lambda>s. let previous = map_of (cl_env (mb_client s)) ''YAKR_RELAY_URL'' in
     on_client (\<lambda>c. case m (c\<lparr>cl_env := dict_put ''YAKR_RELAY_URL'' (mb_relay_url s) (cl_env c)\<rparr>) of
       (x, c') \<Rightarrow> (x, c'\<lparr>cl_env := put_env previous (cl_env c')\<rparr>)))"

definition mobile_require_identity :: "fernet \<Rightarrow> ('n mobile, identity) meth" where
  "mobile_require_identity F = m_bind (mobile_load_identity F) (\<lambda>i.
     m_of (opt_res (YakrError ''YAKR_ERR_UNKNOWN'' ''identity not initialized'') i))"

definition mobile_require_contact :: "prims \<Rightarrow> fernet \<Rightarrow> str \<Rightarrow> ('n mobile, contact) meth" where
  "mobile_require_contact P F name = m_bind (mobile_get_contact P F name) (\<lambda>c.
     m_of (opt_res (YakrError ''YAKR_ERR_UNKNOWN'' (''unknown contact: '' @ name)) c))"

definition with_mobile_contact :: "contact \<Rightarrow> ('n mobile, 'a) meth \<Rightarrow> ('n mobile, 'a) meth" where
  "with_mobile_contact c m s = (case m (s\<lparr>mb_client := (mb_client s)\<lparr>cl_contact := c\<rparr>\<rparr>) of
     (x, t) \<Rightarrow> (x, t\<lparr>mb_client := (mb_client t)\<lparr>cl_contact := cl_contact (mb_client s)\<rparr>\<rparr>))"

text \<open>The object at hand is saved.\<close>

definition mobile_save_object :: "prims \<Rightarrow> fernet \<Rightarrow> int \<Rightarrow> ('n mobile, unit) meth" where
  "mobile_save_object P F now = m_get (\<lambda>m. mobile_save_contact P F now (cl_contact (mb_client m)))"

text \<open>\<open>Identity.generate\<close>: the keys of the post-quantum libraries are given, the others drawn.\<close>

definition init_identity ::
    "prims \<Rightarrow> fernet \<Rightarrow> int \<Rightarrow> str \<Rightarrow> bytes \<times> bytes \<Rightarrow> bytes \<times> bytes \<Rightarrow> ('n mobile, identity) meth" where
  "init_identity P F now name kem pq =
     m_bind (on_client (draw 32)) (\<lambda>signing. m_bind (on_client (draw 32)) (\<lambda>agreement. m_bind (on_client (draw 32)) (\<lambda>tls.
     let i = \<lparr>id_name = name, signing_private = signing, agreement_private = agreement,
       kem_public = fst kem, kem_private = snd kem, pq_signing_public = fst pq, pq_signing_private = snd pq,
       tls_ecdsa_private = Some tls\<rparr> in
     m_bind (mobile_save_identity P F now i) (\<lambda>_. m_return i))))"

section \<open>Invites and pairing\<close>

record qr_payload =
  qr_url :: str
  qr_png :: bytes

record invite_presentation =
  ip_bundle :: invite_bundle
  ip_url :: str
  ip_safety :: str
  ip_png :: bytes

text \<open>\<open>png\<close> is \<open>url_to_qr_png\<close>: the picture that the QR library makes of a URL.\<close>

definition build_qr_payload :: "(str \<Rightarrow> bytes) \<Rightarrow> str \<Rightarrow> qr_payload" where
  "build_qr_payload png url = \<lparr>qr_url = url, qr_png = png url\<rparr>"

definition build_invite_presentation ::
    "prims \<Rightarrow> (str \<Rightarrow> bytes) \<Rightarrow> identity \<Rightarrow> bytes \<Rightarrow> str \<Rightarrow> bool \<Rightarrow> int \<Rightarrow> invite_presentation res" where
  "build_invite_presentation P png i secret hint hybrid now =
     and_then (create_invite P i secret hint None DEFAULT_INVITE_TTL_MS hybrid now) (\<lambda>b.
     and_then (verify_invite P b now) (\<lambda>_.
     let url = invite_to_url P b in
     Inr \<lparr>ip_bundle = b, ip_url = url, ip_safety = safety_code P b, ip_png = png url\<rparr>))"

definition mobile_create_invite ::
    "prims \<Rightarrow> fernet \<Rightarrow> (str \<Rightarrow> bytes) \<Rightarrow> int \<Rightarrow> str option \<Rightarrow> bool \<Rightarrow> bool \<Rightarrow> ('n mobile, invite_presentation) meth" where
  "mobile_create_invite P F png now rendezvous hybrid offline = m_bind (mobile_require_identity F) (\<lambda>i.
     let hint = (if offline then OFFLINE_RENDEZVOUS_HINT
       else case rendezvous of Some (ch # u) \<Rightarrow> ch # u | _ \<Rightarrow> ''http://127.0.0.1:8090'') in
     m_bind (on_client (draw 32)) (\<lambda>secret.
     m_of (build_invite_presentation P png i secret hint hybrid now)))"

definition start_offline_pairing ::
    "prims \<Rightarrow> fernet \<Rightarrow> (str \<Rightarrow> bytes) \<Rightarrow> int \<Rightarrow> str \<Rightarrow> ('n mobile, qr_payload) meth" where
  "start_offline_pairing P F png now invite_url = m_bind (mobile_require_identity F) (\<lambda>i.
     m_bind (m_of (invite_from_url P invite_url)) (\<lambda>bundle.
     m_bind (m_of (verify_invite P bundle now)) (\<lambda>_.
     m_bind (on_client (pairing_profile_bytes P now i None)) (\<lambda>(profile, i').
     m_bind (on_client (draw 32)) (\<lambda>e. m_bind (on_client (draw 32)) (\<lambda>r. m_bind (on_client (draw 32)) (\<lambda>rnd.
     m_bind (m_of (build_offline_pairing_request P e r rnd i' bundle (Some (id_name i')) profile)) (\<lambda>(request, secrets, url).
     m_bind (on_files (save_pending_pairing (pending_session_from_request P invite_url request secrets))) (\<lambda>_.
     m_return (build_qr_payload png url))))))))))"

definition respond_offline_pairing ::
    "prims \<Rightarrow> fernet \<Rightarrow> (str \<Rightarrow> bytes) \<Rightarrow> int \<Rightarrow> str \<Rightarrow> str \<Rightarrow> ('n mobile, contact \<times> qr_payload) meth" where
  "respond_offline_pairing P F png now invite_url request_url = m_bind (mobile_require_identity F) (\<lambda>i.
     m_bind (m_of (invite_from_url P invite_url)) (\<lambda>bundle.
     m_bind (m_of (pair_request_from_url P request_url)) (\<lambda>request.
     m_bind (on_client (pairing_profile_bytes P now i None)) (\<lambda>(profile, i').
     m_bind (on_client (draw 32)) (\<lambda>e. m_bind (on_client (draw 32)) (\<lambda>r.
     m_bind (m_of (respond_to_pair_request P i' bundle request e profile r now)) (\<lambda>(response, c, url).
     m_bind (mobile_save_contact P F now c) (\<lambda>_. m_return (c, build_qr_payload png url)))))))))"

definition mobile_finish_pairing ::
    "prims \<Rightarrow> fernet \<Rightarrow> int \<Rightarrow> str \<Rightarrow> str option \<Rightarrow> ('n mobile, contact) meth" where
  "mobile_finish_pairing P F now response_url contact_name = m_bind (mobile_require_identity F) (\<lambda>i.
     m_bind (on_files (m_read load_pending_pairing)) (\<lambda>session. case session of
       None \<Rightarrow> m_raise (YakrError ''YAKR_ERR_UNKNOWN'' ''no pending offline pairing session'')
     | Some p \<Rightarrow>
         m_bind (m_of (invite_from_url P (pp_invite_url p))) (\<lambda>bundle.
         m_bind (m_of (pair_request_from_url P (pp_request_url p))) (\<lambda>request.
         m_bind (m_of (pending_secrets p)) (\<lambda>secrets.
         m_bind (m_of (finish_offline_pairing P i bundle request secrets response_url contact_name now)) (\<lambda>c.
         m_bind (mobile_save_contact P F now c) (\<lambda>_.
         m_bind (on_files clear_pending_pairing) (\<lambda>_. m_return c))))))))"

text \<open>The request is built a second time, with fresh keys, and only the first one's secrets are used.\<close>

definition complete_pairing_as_joiner ::
    "prims \<Rightarrow> fernet \<Rightarrow> int \<Rightarrow> str \<Rightarrow> pairing_response \<Rightarrow> pairing_secrets \<Rightarrow> str option \<Rightarrow> ('n mobile, contact) meth" where
  "complete_pairing_as_joiner P F now invite_url response secrets joiner_name = m_bind (mobile_require_identity F) (\<lambda>i.
     m_bind (m_of (invite_from_url P invite_url)) (\<lambda>bundle.
     m_bind (m_of (verify_invite P bundle now)) (\<lambda>_.
     m_bind (on_client (draw 32)) (\<lambda>e. m_bind (on_client (draw 32)) (\<lambda>r. m_bind (on_client (draw 32)) (\<lambda>rnd.
     let name = (case joiner_name of Some (ch # nm) \<Rightarrow> ch # nm | _ \<Rightarrow> id_name i) in
     m_bind (m_of (build_pairing_request P e r rnd i bundle name [])) (\<lambda>(request, _).
     m_bind (m_of (joiner_complete_pairing P i bundle request secrets response now)) (\<lambda>c.
     let c = c\<lparr>c_name := (case joiner_name of Some (ch # nm) \<Rightarrow> ch # nm | _ \<Rightarrow> iv_inviter_name bundle)\<rparr> in
     m_bind (mobile_save_contact P F now c) (\<lambda>_. m_return c)))))))))"

section \<open>Sending\<close>

record send_result =
  sr_mode :: str
  sr_number :: int

definition mobile_send_text ::
    "nat \<Rightarrow> prims \<Rightarrow> fernet \<Rightarrow> 'n http \<Rightarrow> int \<Rightarrow> str \<Rightarrow> str \<Rightarrow> ('n mobile, send_result) meth" where
  "mobile_send_text n P F H now contact_name body = m_bind (mobile_require_identity F) (\<lambda>i.
     m_bind (mobile_require_contact P F contact_name) (\<lambda>c.
     with_mobile_contact c (
       m_bind (on_client (in_session (\<lambda>np nonce. encrypt_text P i np nonce now body))) (\<lambda>em. m_get (\<lambda>m.
       m_bind (mobile_commit_send P F now (cl_contact (mb_client m)) (em_msg_id em) (seq (em_inner em)) body (em_outer em)) (\<lambda>_.
       m_bind (with_relay_url (deliver_encrypted n P H now i (em_outer em) None True True)) (\<lambda>mode.
       m_bind (on_files (m_read load_privacy_metrics)) (\<lambda>metrics.
       m_bind (on_files (save_privacy_metrics (record_send (int (length (ob_ciphertext (em_outer em)))) (em_padding em) metrics))) (\<lambda>_.
       m_return \<lparr>sr_mode = mode, sr_number = seq (em_inner em)\<rparr>)))))))))"

section \<open>Fetching\<close>

text \<open>
  \<open>fetch_direct_blobs\<close> is called without a store and a contact: there is no pin to find, so an HTTPS
  hint is asked only under \<open>YAKR_TLS_INSECURE\<close>.
\<close>

definition storeless_check :: "(str \<times> str) list \<Rightarrow> str \<Rightarrow> tls_check res" where
  "storeless_check env url =
     (let normalized = rstrip_slash url in
      if starts_with ''http://'' normalized
      then (if tls_required env then Inl (ValueError ''plain HTTP disabled (YAKR_REQUIRE_TLS)'') else Inr SystemTrust)
      else if \<not> starts_with ''https://'' normalized then Inr SystemTrust
      else if env_flag env ''YAKR_TLS_INSECURE'' then Inr NoCheck
      else Inl (ValueError (''no TLS SPKI pin for '' @ url)))"

definition storeless_get :: "'n http \<Rightarrow> str \<Rightarrow> ('n client, http_reply) meth" where
  "storeless_get H url = m_get (\<lambda>s.
     m_bind (m_of (if tls_required (cl_env s) \<and> starts_with ''http://'' url
                   then require_https_url url else Inr url)) (\<lambda>url.
     m_bind (m_of (storeless_check (cl_env s) url)) (\<lambda>check.
     on_net (H \<lparr>hc_method = ''GET'', hc_url = url, hc_check = check, hc_headers = [], hc_body = []\<rparr>))))"

fun storeless_direct_blobs :: "'n http \<Rightarrow> str \<Rightarrow> str list \<Rightarrow> ('n client, json) meth" where
  "storeless_direct_blobs H tag_text [] = m_return (JList [])"
| "storeless_direct_blobs H tag_text (hint # hints) =
     m_bind (m_catch
         (m_bind (storeless_get H (rstrip_slash hint @ ''/v1/direct/blobs/'' @ tag_text)) (\<lambda>reply.
           if hs_status reply = 200 then m_of (and_then (reply_json reply) (\<lambda>j. Inr (Some j))) else m_return None))
         (\<lambda>e. is_http_error e \<or> is_value_error e) (\<lambda>e. m_return None)) (\<lambda>found.
     case found of Some j \<Rightarrow> m_return j | None \<Rightarrow> storeless_direct_blobs H tag_text hints)"

text \<open>The mobile client decrypts with \<open>decrypt_outer\<close>, where the command line uses \<open>decrypt_inbound\<close>.\<close>

definition mobile_decrypt_item ::
    "prims \<Rightarrow> int \<Rightarrow> outer_blob \<Rightarrow> ('n mobile, item_fate + inner_message) meth" where
  "mobile_decrypt_item P now outer = m_bind (on_client (draw 32)) (\<lambda>np.
     m_catch (m_bind (on_client (on_contact (decrypt_outer P np now outer))) (\<lambda>inner. m_return (Inr inner)))
       is_yakr_error (\<lambda>e. m_return (Inl (if is_duplicate_seq e then Postponed else Dropped))))"

definition mobile_apply_profile :: "prims \<Rightarrow> fernet \<Rightarrow> int \<Rightarrow> inner_message \<Rightarrow> ('n mobile, unit) meth" where
  "mobile_apply_profile P F now inner = m_bind (m_of (profile_from_b64 P (im_body inner))) (\<lambda>profile. m_get (\<lambda>m.
     m_bind (m_catch (on_client (on_contact
         (apply_delivery_profile_update P profile (c_signing_public (cl_contact (mb_client m))) now)))
       is_value_error (\<lambda>e. m_return ())) (\<lambda>_.
     mobile_save_object P F now)))"

text \<open>After the receipt the send side is read back, from the encrypted copy.\<close>

definition refresh_send_side :: "prims \<Rightarrow> fernet \<Rightarrow> str \<Rightarrow> ('n mobile, unit) meth" where
  "refresh_send_side P F contact_name = m_bind (mobile_get_contact P F contact_name) (\<lambda>persisted. case persisted of
     None \<Rightarrow> m_return ()
   | Some p \<Rightarrow> on_client (m_modify (\<lambda>s. s\<lparr>cl_contact := (cl_contact s)
         \<lparr>next_send_seq := next_send_seq p, c_ratchet := c_ratchet p\<rparr>\<rparr>)))"

definition mobile_apply_text ::
    "nat \<Rightarrow> prims \<Rightarrow> fernet \<Rightarrow> 'n http \<Rightarrow> int \<Rightarrow> identity \<Rightarrow> str \<Rightarrow> outer_blob \<Rightarrow> inner_message \<Rightarrow> ('n mobile, str) meth" where
  "mobile_apply_text n P F H now i contact_name outer inner =
     (let delivered_id = message_id P (ob_ciphertext outer) in
     m_bind (on_client (draw 24)) (\<lambda>nonce. m_get (\<lambda>m.
     m_bind (mobile_commit_receive_text P F nonce i now (cl_contact (mb_client m)) inner delivered_id) (\<lambda>_.
     m_bind (with_relay_url (send_delivery_receipt n P H now i contact_name delivered_id None)) (\<lambda>_.
     m_bind (refresh_send_side P F contact_name) (\<lambda>_.
     m_bind (mobile_save_object P F now) (\<lambda>_. m_return (im_body inner))))))))"

definition mobile_process_item ::
    "nat \<Rightarrow> prims \<Rightarrow> fernet \<Rightarrow> 'n http \<Rightarrow> int \<Rightarrow> identity \<Rightarrow> str \<Rightarrow> json \<Rightarrow> ('n mobile, item_fate \<times> str list) meth" where
  "mobile_process_item n P F H now i contact_name item =
     m_bind (m_of (from_relay_json item)) (\<lambda>outer.
     m_bind (mobile_decrypt_item P now outer) (\<lambda>r. case r of Inl fate \<Rightarrow> m_return (fate, [])
     | Inr inner \<Rightarrow>
       if im_type inner = JStr ''profile'' \<and> im_body inner \<noteq> []
       then m_bind (mobile_apply_profile P F now inner) (\<lambda>_. m_return (Applied False, []))
       else if im_type inner = JStr ''receipt'' \<and> jtruthy (im_message_id inner)
       then m_bind (on_files (apply_inbound_delivery_receipt contact_name inner)) (\<lambda>_.
            m_bind (mobile_save_object P F now) (\<lambda>_. m_return (Applied False, [])))
       else if im_type inner \<noteq> JStr ''text'' then m_return (Applied False, [])
       else m_bind (mobile_apply_text n P F H now i contact_name outer inner) (\<lambda>body.
            m_return (Applied True, [body]))))"

fun mobile_drain_pass ::
    "nat \<Rightarrow> prims \<Rightarrow> fernet \<Rightarrow> 'n http \<Rightarrow> int \<Rightarrow> identity \<Rightarrow> str \<Rightarrow> json list \<Rightarrow>
     ('n mobile, bool \<times> json list \<times> str list) meth" where
  "mobile_drain_pass n P F H now i contact_name [] = m_return (False, [], [])"
| "mobile_drain_pass n P F H now i contact_name (item # items) =
     m_bind (mobile_process_item n P F H now i contact_name item) (\<lambda>(fate, new).
     m_bind (mobile_drain_pass n P F H now i contact_name items) (\<lambda>(progressed, still, texts).
     m_return (case fate of
       Postponed \<Rightarrow> (progressed, item # still, texts)
     | Dropped \<Rightarrow> (progressed, still, texts)
     | Applied is_text \<Rightarrow> (True, still, new @ texts))))"

fun mobile_drain_rounds ::
    "nat \<Rightarrow> nat \<Rightarrow> prims \<Rightarrow> fernet \<Rightarrow> 'n http \<Rightarrow> int \<Rightarrow> identity \<Rightarrow> str \<Rightarrow> json list \<Rightarrow> str list \<Rightarrow>
     ('n mobile, str list) meth" where
  "mobile_drain_rounds 0 n P F H now i contact_name pending texts = m_return texts"
| "mobile_drain_rounds (Suc k) n P F H now i contact_name pending texts =
     (if pending = [] then m_return texts else
      m_bind (mobile_drain_pass n P F H now i contact_name pending) (\<lambda>(progressed, still, new).
      if progressed then mobile_drain_rounds k n P F H now i contact_name still (texts @ new)
      else m_return (texts @ new)))"

lemma mobile_drain_pass_shrinks:
  "mobile_drain_pass n P F H now i name items s = (Inr (progressed, still, texts), t) \<Longrightarrow>
   length still + (if progressed then 1 else 0) \<le> length items"
proof (induction items arbitrary: s progressed still texts)
  case (Cons item items)
  from Cons.prems obtain fate new u p st ts where pass: "mobile_drain_pass n P F H now i name items u = (Inr (p, st, ts), t)"
    and fate: "(case fate of
       Postponed \<Rightarrow> (p, item # st, ts) | Dropped \<Rightarrow> (p, st, ts)
     | Applied is_text \<Rightarrow> (True, st, new @ ts)) = (progressed, still, texts)"
    by (auto simp: m_bind_Inr)
  from Cons.IH [OF pass] fate show ?case by (auto split: item_fate.splits if_splits)
qed simp

interpretation mobile_loop:
  drain_loop "mobile_drain_pass n P F H now i name" "\<lambda>k. mobile_drain_rounds k n P F H now i name" "(@)"
  by unfold_locales (auto dest: mobile_drain_pass_shrinks)

record fetch_result =
  ft_contact :: str
  ft_messages :: "str list"
  ft_count :: int

definition mobile_fetch_tag ::
    "nat \<Rightarrow> prims \<Rightarrow> fernet \<Rightarrow> 'n http \<Rightarrow> int \<Rightarrow> identity \<Rightarrow> str \<Rightarrow> str list \<Rightarrow> str list \<Rightarrow> str list \<Rightarrow> mailbox_tag \<Rightarrow>
     str list \<times> privacy_metrics \<Rightarrow> ('n mobile, str list \<times> privacy_metrics) meth" where
  "mobile_fetch_tag n P F H now i contact_name real_tags hints bases t = (\<lambda>(texts, metrics).
     let tag_text = b64encode (tag t); decoy = tag_text \<notin> set real_tags in
     m_bind (if hints = [] then m_return [] else
       m_bind (on_client (storeless_direct_blobs H tag_text hints)) (\<lambda>j. m_of (iter_json j))) (\<lambda>direct.
     m_bind (m_fold (\<lambda>base (items, metrics).
         m_bind (on_client (fetch_relay_blobs P H now i tag_text [base])) (\<lambda>polled.
         m_return (items @ polled, record_fetch 0 decoy metrics))) bases (direct, metrics)) (\<lambda>(items, metrics).
     m_bind (m_of (fetch_queue items)) (\<lambda>queue.
     m_bind (mobile_drain_rounds (length queue) n P F H now i contact_name queue []) (\<lambda>new.
     m_return (texts @ new, metrics))))))"

text \<open>\<open>last_fetch_contacts\<close>: the list is kept as JSON text.\<close>

definition last_contacts :: "'n mobile \<Rightarrow> json list res" where
  "last_contacts m = and_then (json_loads (load_worker_state ''last_fetch_contacts'' ''[]'' m)) (\<lambda>j. case j of
     JList xs \<Rightarrow> Inr xs | _ \<Rightarrow> Inl (TypeError ''not a list''))"

definition update_last_contacts :: "str \<Rightarrow> 'n mobile \<Rightarrow> json list res" where
  "update_last_contacts contact_name m = and_then (last_contacts m) (\<lambda>xs.
     Inr (if JStr contact_name \<in> set xs then xs else xs @ [JStr contact_name]))"

text \<open>
  The lock is taken on a store object of its own, which nobody else has, so it orders nothing and is
  left out. The route that \<open>resolve_contact_route\<close> gives is always \<open>None\<close>.
\<close>

definition mobile_fetch_contact ::
    "nat \<Rightarrow> prims \<Rightarrow> fernet \<Rightarrow> 'n http \<Rightarrow> int \<Rightarrow> str \<Rightarrow> ('n mobile, fetch_result) meth" where
  "mobile_fetch_contact n P F H now contact_name = m_bind (mobile_require_identity F) (\<lambda>i.
     m_bind (mobile_require_contact P F contact_name) (\<lambda>_.
     m_bind (m_bind (mobile_get_contact P F contact_name) (\<lambda>c.
       m_of (opt_res (ContactNotFoundError (''unknown contact: '' @ contact_name)) c))) (\<lambda>c.
     with_mobile_contact c (
       m_bind (m_of (session_new c)) (\<lambda>_.
       m_bind (on_files (sweep_expired_messages now)) (\<lambda>_.
       m_bind (on_files (sweep_expired_outbound now)) (\<lambda>_.
       let deriver = mailbox_deriver P i c False; dir = recv_direction i c in
       m_bind (m_of (fetch_tags_for_mode P deriver dir (privacy_mode c)
         (derive_mailbox_secret P (master_secret c) dir) MAILBOX_LOOKBACK now)) (\<lambda>tags.
       m_bind (m_of (candidate_epochs P deriver dir MAILBOX_LOOKBACK now)) (\<lambda>real.
       m_bind (with_relay_url (fetch_mailbox_urls P now c None False)) (\<lambda>bases.
       let hints = (case c_profile c of None \<Rightarrow> [] | Some p \<Rightarrow> dp_direct_hints p) in
       m_bind (on_files (m_read load_privacy_metrics)) (\<lambda>metrics.
       m_bind (m_fold (mobile_fetch_tag n P F H now i contact_name (map (b64encode \<circ> tag) real) hints bases) tags ([], metrics))
         (\<lambda>(texts, metrics).
       m_bind (on_files (save_privacy_metrics metrics)) (\<lambda>_.
       m_bind (save_worker_state ''last_fetch_at'' (str_of_int (now div 1000))) (\<lambda>_.
       m_bind (m_read (update_last_contacts contact_name)) (\<lambda>names.
       m_bind (save_worker_state ''last_fetch_contacts'' (json_default (JList names))) (\<lambda>_.
       m_return \<lparr>ft_contact = contact_name, ft_messages = texts, ft_count = int (length texts)\<rparr>))))))))))))))))"

definition resume_state :: "int \<Rightarrow> 'n mobile \<Rightarrow> (str \<times> json list \<times> str list) res" where
  "resume_state now m = and_then (last_contacts m) (\<lambda>names.
     Inr (load_worker_state ''last_fetch_at'' [] m, names,
       filter (\<lambda>c. list_outbound_pending now c (cl_store (mb_client m)) \<noteq> []) (mobile_list_contacts m)))"

section \<open>The workers\<close>

record device_settings =
  on_wifi :: bool
  charging :: bool
  battery_percent :: int
  relay_enabled :: bool
  relay_wifi_only :: bool
  relay_charging_only :: bool
  interval_battery :: int
  interval_charging :: int
  interval_low_battery :: int
  low_battery_threshold :: int

definition default_settings :: device_settings where
  "default_settings = \<lparr>on_wifi = True, charging = False, battery_percent = 100, relay_enabled = False,
     relay_wifi_only = True, relay_charging_only = True, interval_battery = 300, interval_charging = 30,
     interval_low_battery = 900, low_battery_threshold = 20\<rparr>"

definition fetch_poll_interval :: "device_settings \<Rightarrow> int" where
  "fetch_poll_interval d =
     (if charging d then interval_charging d
      else if battery_percent d \<le> low_battery_threshold d then interval_low_battery d
      else interval_battery d)"

definition relay_may_run :: "device_settings \<Rightarrow> bool" where
  "relay_may_run d =
     (if \<not> relay_enabled d then False
      else if relay_wifi_only d \<and> \<not> on_wifi d then False
      else if relay_charging_only d \<and> \<not> charging d then False
      else True)"

text \<open>The poll clock counts seconds, as a fraction; Python's floating point is taken as exact.\<close>

record 'n fetch_worker =
  fw_client :: "'n mobile"
  fw_settings :: device_settings
  fw_last_poll :: rat

definition should_poll :: "rat \<Rightarrow> 'n fetch_worker \<Rightarrow> bool" where
  "should_poll t w \<longleftrightarrow> t - fw_last_poll w \<ge> of_int (fetch_poll_interval (fw_settings w))"

definition poll_all ::
    "nat \<Rightarrow> prims \<Rightarrow> fernet \<Rightarrow> 'n http \<Rightarrow> int \<Rightarrow> rat \<Rightarrow> ('n fetch_worker, fetch_result list) meth" where
  "poll_all n P F H now t = m_get (\<lambda>w. if \<not> should_poll t w then m_return [] else
     m_bind (m_modify (\<lambda>w. w\<lparr>fw_last_poll := t\<rparr>)) (\<lambda>_.
     m_zoom fw_client (\<lambda>m w. w\<lparr>fw_client := m\<rparr>) (m_get (\<lambda>m.
       m_fold (\<lambda>name results. m_bind (mobile_fetch_contact n P F H now name) (\<lambda>r. m_return (results @ [r])))
         (mobile_list_contacts m) []))))"

record relay_worker =
  rw_settings :: device_settings
  rw_running :: bool

definition relay_worker_start :: "(relay_worker, bool) meth" where
  "relay_worker_start = m_get (\<lambda>w. let ok = relay_may_run (rw_settings w) in
     m_bind (m_modify (\<lambda>w. w\<lparr>rw_running := ok\<rparr>)) (\<lambda>_. m_return ok))"

definition relay_worker_stop :: "(relay_worker, unit) meth" where
  "relay_worker_stop = m_modify (\<lambda>w. w\<lparr>rw_running := False\<rparr>)"

end
