(* ===== verification/MobileProps.thy ===== *)
theory MobileProps
  imports Mobile Delivery CoreProps
begin

text \<open>
  What the two differences between the mobile client and the command line lead to: the send side that
  is read back after a receipt is the one of before, and the ratchet is not taken back after a receipt.
\<close>

section \<open>The encrypted copy\<close>

lemma on_client_eq: "on_client m s = (case m (mb_client s) of (x, c) \<Rightarrow> (x, s\<lparr>mb_client := c\<rparr>))"
  by (simp add: on_client_def m_zoom_def)

lemma on_client_Inr: "on_client m s = (Inr x, t) \<longleftrightarrow> (\<exists>c. m (mb_client s) = (Inr x, c) \<and> t = s\<lparr>mb_client := c\<rparr>)"
  by (auto simp: on_client_eq split: prod.splits)

lemma on_files_Inr: "on_files m s = (Inr x, t) \<longleftrightarrow> (\<exists>d. m (cl_store (mb_client s)) = (Inr x, d) \<and>
    t = s\<lparr>mb_client := (mb_client s)\<lparr>cl_store := d\<rparr>\<rparr>)"
  by (auto simp: on_files_def on_client_Inr on_store_def m_zoom_def split: prod.splits)

lemma draw_on_client: "on_client (draw n) s = (Inr x, t) \<longleftrightarrow>
    x = map (cl_tape (mb_client s)) [cl_drawn (mb_client s)..<cl_drawn (mb_client s) + n] \<and>
    t = s\<lparr>mb_client := (mb_client s)\<lparr>cl_drawn := cl_drawn (mb_client s) + n\<rparr>\<rparr>"
  by (auto simp: on_client_Inr draw_def)

text \<open>What \<open>put_blob\<close> leaves alone: the client but for its random bytes, and the key.\<close>

definition blob_of :: "fernet \<Rightarrow> str \<Rightarrow> 'n mobile \<Rightarrow> bytes option" where
  "blob_of F key m = (case mb_fernet m of None \<Rightarrow> None | Some k \<Rightarrow>
     (case map_of (mb_kv m) key of None \<Rightarrow> None | Some token \<Rightarrow> fn_decrypt F k token))"

lemma blob_of_client [simp]: "blob_of F key (m\<lparr>mb_client := c\<rparr>) = blob_of F key m"
  by (simp add: blob_of_def cong del: option.case_cong_weak)

lemma put_blob_Inr:
  assumes "fernet_correct F" "put_blob F now key data m = (Inr x, t)"
  shows "blob_of F key t = Some data" "mb_fernet t = mb_fernet m"
    "\<exists>d. mb_client t = (mb_client m)\<lparr>cl_drawn := d\<rparr>"
  using assms
  by (auto simp: put_blob_def the_fernet_def m_bind_Inr opt_res_def draw_on_client blob_of_def fernet_correct_def
      m_of_def split: option.splits)

lemma get_blob_known: "blob_of F key m = Some b \<Longrightarrow> get_blob F key m = (Inr (Some b), m)"
  by (auto simp: blob_of_def get_blob_def the_fernet_def m_bind_def opt_res_def split: option.splits)

lemma mobile_contact_known:
  assumes "cbor_correct P" "contact_ok c"
    and "blob_of F (''contact:'' @ c_name c) m = Some (utf8 (json_default (contact_to_dict P c)))"
  shows "mobile_get_contact P F (c_name c) m = (Inr (Some c), m)"
  using contact_text_roundtrip [OF assms(1,2)] get_blob_known [OF assms(3)]
  by (simp add: mobile_get_contact_def m_bind_def m_of_def)

text \<open>Commits and saves leave the encrypted copy, and the object at hand as it was.\<close>

definition same_object :: "'n mobile \<Rightarrow> 'n mobile \<Rightarrow> bool" where
  "same_object m t \<longleftrightarrow> cl_contact (mb_client t) = cl_contact (mb_client m) \<and>
     mb_fernet t = mb_fernet m \<and> mb_relay_url t = mb_relay_url m"

lemma put_contact_Inr:
  assumes "fernet_correct F" "put_contact P F now c m = (Inr x, t)"
  shows "blob_of F (''contact:'' @ c_name c) t = Some (utf8 (json_default (contact_to_dict P c)))"
    "same_object m t" "cl_store (mb_client t) = cl_store (mb_client m)" "cl_net (mb_client t) = cl_net (mb_client m)"
proof -
  from assms have p: "put_blob F now (''contact:'' @ c_name c) (utf8 (json_default (contact_to_dict P c))) m = (Inr x, t)"
    by (simp add: put_contact_def)
  show "blob_of F (''contact:'' @ c_name c) t = Some (utf8 (json_default (contact_to_dict P c)))"
    by (rule put_blob_Inr [OF assms(1) p])
  obtain d where d: "mb_client t = (mb_client m)\<lparr>cl_drawn := d\<rparr>"
    using put_blob_Inr [OF assms(1) p] by blast
  moreover have "mb_relay_url t = mb_relay_url m"
    using p by (auto simp: put_blob_def the_fernet_def m_bind_Inr opt_res_def draw_on_client m_of_def split: option.splits)
  ultimately show "same_object m t" "cl_store (mb_client t) = cl_store (mb_client m)" "cl_net (mb_client t) = cl_net (mb_client m)"
    using put_blob_Inr(2) [OF assms(1) p] by (simp_all add: same_object_def)
qed

lemma files_same: "on_files f m = (Inr x, t) \<Longrightarrow> same_object m t \<and> mb_kv t = mb_kv m \<and> cl_net (mb_client t) = cl_net (mb_client m)"
  by (auto simp: on_files_Inr same_object_def)

section \<open>The receipt's number is used again\<close>

lemma with_relay_url_Inr:
  assumes "with_relay_url f m = (Inr x, t)"
  obtains e e' c where "f ((mb_client m)\<lparr>cl_env := e\<rparr>) = (Inr x, c)" "t = m\<lparr>mb_client := c\<lparr>cl_env := e'\<rparr>\<rparr>"
  using assms by (auto simp: with_relay_url_def Let_def on_client_eq split: prod.splits)

lemma send_receipt_object:
  "send_delivery_receipt n P H now i name did route s = (x, t) \<Longrightarrow> cl_contact t = cl_contact s"
proof -
  have load: "keeps cl_contact (load_or_fail P name e)" for e
    unfolding load_or_fail_def on_store_def by (intro keeps_rules) simp
  assume "send_delivery_receipt n P H now i name did route s = (x, t)"
  then show ?thesis
    using keepsD [OF load]
    by (fastforce simp: send_delivery_receipt_def m_bind_def with_contact_def split: prod.splits sum.splits)
qed

lemma uploaded_env [simp]: "uploaded (s\<lparr>cl_env := e\<rparr>) = uploaded s"
  by (simp add: uploaded_def)

lemma uploaded_net: "cl_net s = cl_net t \<Longrightarrow> uploaded s = uploaded t"
  by (simp add: uploaded_def)

text \<open>The parts of a run of \<open>mobile_apply_text\<close>.\<close>

lemma apply_text_split:
  assumes F: "fernet_correct F" and run: "mobile_apply_text n P F (logged H) now i name outer inner m = (Inr body, t)"
    and c: "cl_contact (mb_client m) = c"
  obtains m2 u v ok m3 where "holds_contact P c (db (cl_store (mb_client m2)))"
    "blob_of F (''contact:'' @ c_name c) m2 = Some (utf8 (json_default (contact_to_dict P c)))"
    "same_object m m2" "cl_net (mb_client m2) = cl_net (mb_client m)"
    "cl_store u = cl_store (mb_client m2)" "uploaded u = uploaded (mb_client m2)" "cl_contact u = c"
    "send_delivery_receipt n P (logged H) now i name (message_id P (ob_ciphertext outer)) None u = (Inr ok, v)"
    "m3 = m2\<lparr>mb_client := mb_client m3\<rparr>" "cl_contact (mb_client m3) = c" "uploaded (mb_client m3) = uploaded v"
    "m_bind (refresh_send_side P F name) (\<lambda>_. m_bind (mobile_save_object P F now) (\<lambda>_. m_return (im_body inner))) m3 = (Inr body, t)"
proof -
  obtain nonce m1 where m1: "on_client (draw 24) m = (Inr nonce, m1)"
    by (simp add: on_client_eq draw_def)
  then have r: "same_object m m1" "cl_net (mb_client m1) = cl_net (mb_client m)" "cl_contact (mb_client m1) = c"
    using c by (auto simp: draw_on_client same_object_def)
  from run r(3) obtain m2 ok m3 where
    r4: "mobile_commit_receive_text P F nonce i now c inner (message_id P (ob_ciphertext outer)) m1 = (Inr (), m2)"
    and r5: "with_relay_url (send_delivery_receipt n P (logged H) now i name (message_id P (ob_ciphertext outer)) None) m2 = (Inr ok, m3)"
    and r6: "m_bind (refresh_send_side P F name) (\<lambda>_. m_bind (mobile_save_object P F now) (\<lambda>_. m_return (im_body inner))) m3 = (Inr body, t)"
    by (auto simp: mobile_apply_text_def Let_def m1 m_bind_eq [of "on_client (draw 24)" m nonce m1] m_bind_Inr
        [of "mobile_commit_receive_text P F nonce i now c inner (message_id P (ob_ciphertext outer))"]
        m_bind_Inr [of "with_relay_url (send_delivery_receipt n P (logged H) now i name (message_id P (ob_ciphertext outer)) None)"])
  from r4 obtain m1' where m1': "on_files (atomic_commit_receive_text P nonce i now c inner
       (Some (message_id P (ob_ciphertext outer))) None) m1 = (Inr (), m1')" "put_contact P F now c m1' = (Inr (), m2)"
    by (auto simp: mobile_commit_receive_text_def m_bind_Inr)
  from m1'(1) obtain d where d: "atomic_commit_receive_text P nonce i now c inner
       (Some (message_id P (ob_ciphertext outer))) None (cl_store (mb_client m1)) = (Inr (), d)" "cl_store (mb_client m1') = d"
    by (auto simp: on_files_Inr)
  note put = put_contact_Inr [OF F m1'(2)]
  have held: "holds_contact P c (db (cl_store (mb_client m2)))"
    using atomic_commit_receive_spec [OF d(1)] d(2) put(3) by simp
  have same: "same_object m m2" "cl_net (mb_client m2) = cl_net (mb_client m)"
    using r(1,2) files_same [OF m1'(1)] put(2,4) by (auto simp: same_object_def)
  from with_relay_url_Inr [OF r5] obtain e e' v where
    s: "send_delivery_receipt n P (logged H) now i name (message_id P (ob_ciphertext outer)) None ((mb_client m2)\<lparr>cl_env := e\<rparr>) = (Inr ok, v)"
      "m3 = m2\<lparr>mb_client := v\<lparr>cl_env := e'\<rparr>\<rparr>" by blast
  have "cl_contact (mb_client m2) = c" using same(1) c by (simp add: same_object_def)
  then show thesis
    using that [OF held put(1) same _ _ _ s(1), of m3] s(2) send_receipt_object [OF s(1)] r6 by simp
qed

lemma refresh_send_side_same:
  assumes laws: "cbor_correct P" "contact_ok c" and name: "c_name c = name" and c: "cl_contact (mb_client m) = c"
    and copy: "blob_of F (''contact:'' @ c_name c) m = Some (utf8 (json_default (contact_to_dict P c)))"
  shows "refresh_send_side P F name m = (Inr (), m)"
  using mobile_contact_known [OF laws copy] name c
  by (simp add: refresh_send_side_def m_bind_def on_client_eq)

lemma save_object_Inr:
  assumes F: "fernet_correct F" and run: "mobile_save_object P F now m = (Inr x, t)" and c: "cl_contact (mb_client m) = c"
  shows "blob_of F (''contact:'' @ c_name c) t = Some (utf8 (json_default (contact_to_dict P c)))"
    "holds_contact P c (db (cl_store (mb_client t)))" "cl_contact (mb_client t) = c" "uploaded (mb_client t) = uploaded (mb_client m)"
proof -
  from run c obtain u where u: "on_files (save_contact P c) m = (Inr (), u)" "put_contact P F now c u = (Inr x, t)"
    by (auto simp: mobile_save_object_def mobile_save_contact_def m_bind_Inr)
  note p = put_contact_Inr [OF F u(2)]
  show "blob_of F (''contact:'' @ c_name c) t = Some (utf8 (json_default (contact_to_dict P c)))" by (rule p)
  show "holds_contact P c (db (cl_store (mb_client t)))"
    using u(1) p(3) by (auto simp: on_files_Inr save_contact_eq holds_contact_def contact_tbl.get_replace)
  show "cl_contact (mb_client t) = c" "uploaded (mb_client t) = uploaded (mb_client m)"
    using files_same [OF u(1)] p(2,4) c by (auto simp: same_object_def uploaded_def)
qed


definition demo_fernet :: fernet where
  "demo_fernet = \<lparr>fn_pbkdf2 = (\<lambda>passphrase salt. replicate 32 0), fn_encrypt = (\<lambda>k t iv x. x), fn_decrypt = (\<lambda>k x. Some x)\<rparr>"

definition demo_mobile :: "unit wire mobile" where
  "demo_mobile = \<lparr>mb_client = \<lparr>cl_store = empty_store, cl_contact = demo_contact, cl_env = [], cl_relays = None,
       cl_probes = [], cl_tape = (\<lambda>k. 0), cl_drawn = 0, cl_net = \<lparr>w_log = [], w_world = ()\<rparr>\<rparr>,
     mb_crypto_meta = None, mb_kv = [], mb_worker = [], mb_fernet = Some [], mb_relay_url = ''https://relay''\<rparr>"


section \<open>The text after a receipt\<close>

text \<open>A packet behind the chain whose key is not stored.\<close>

lemma ratchet_decrypt_again:
  assumes "dh_peer_public r = Some pub" "recv_chain_key r = Some ck'" "int n < recv_n r"
    and "map_of (skipped_keys r) (key_id pub (int n)) = None" and len: "length pub = 32" "n < 2 ^ 32" "pn < 2 ^ 32"
  shows "fst (ratchet_decrypt P np (packet P pub pn n ck nonce x) r) = Inl (ValueError ''ratchet message already received'')"
proof -
  have "decrypt_body P np pub (int pn) (int n) (drop 0 ct) r = (Inl (ValueError ''ratchet message already received''), r)" for ct
    using assms by (simp add: decrypt_body_def m_bind_def advance_peer_same take_message_key_def skip_key_def)
  moreover obtain r' where "restore_snapshot (ratchet_to_dict r) r = Inr r'"
    using restore_snapshot_total by blast
  ultimately show ?thesis
    using len by (simp add: packet_def ratchet_decrypt_header decrypt_result_def)
qed

lemma sent_packet:
  assumes "in_step pn n ck cs cr" and "encrypt_with P i np nonce now mk cs = (Inr em, cs')"
  obtains s padded where "c_ratchet cs = Some s" "n < 2 ^ 32" "pn < 2 ^ 32"
    "ob_ciphertext (em_outer em) = packet P (dh_self_public s) pn n ck nonce padded"
proof -
  from assms(1) obtain s where s: "c_ratchet cs = Some s" "seals pn n ck s" unfolding in_step_def by blast
  from assms(2) s(1) obtain padded payload s' where "ratchet_encrypt P np nonce padded s = (Inr payload, s')"
    "ob_ciphertext (em_outer em) = payload" by (elim encrypt_with_Inr) auto
  with s that [of s padded] show thesis
    by (auto simp: ratchet_encrypt_def seals_def m_bind_def header_aad_def pack_II_def
        m_get_def m_return_def m_modify_def m_of_def packet_def packet_header_def split: if_splits)
qed

lemma decrypt_outer_duplicate:
  assumes "c_ratchet c = Some r" "fst (ratchet_decrypt P np (ob_ciphertext outer) r) = Inl (ValueError ''ratchet message already received'')"
  shows "\<exists>c'. decrypt_outer P np now outer c = (Inl (DuplicateSeqError ''duplicate message''), c') \<and>
    last_recv_seq c' = last_recv_seq c"
proof -
  obtain r' where r': "ratchet_decrypt P np (ob_ciphertext outer) r = (Inl (ValueError ''ratchet message already received''), r')"
    using assms(2) by (metis prod.collapse)
  have "substr ''already received'' ''ratchet message already received''" by code_simp
  with r' assms(1) show ?thesis
    by (simp add: decrypt_outer_def Let_def on_ratchet_def catch_ratchet_def m_bind_def [of "catch_ratchet _"] ratchet_failure_def)
qed

lemma mobile_decrypt_item_eq:
  assumes "decrypt_outer P (map (cl_tape (mb_client m)) [cl_drawn (mb_client m)..<cl_drawn (mb_client m) + 32]) now outer
      (cl_contact (mb_client m)) = (x, c)"
  shows "mobile_decrypt_item P now outer m =
    (case x of Inr inner \<Rightarrow> Inr (Inr inner)
       | Inl e \<Rightarrow> if is_yakr_error e then Inr (Inl (if is_duplicate_seq e then Postponed else Dropped)) else Inl e,
     m\<lparr>mb_client := (mb_client m)\<lparr>cl_drawn := cl_drawn (mb_client m) + 32, cl_contact := c\<rparr>\<rparr>)"
  using assms
  by (cases x) (simp_all add: mobile_decrypt_item_def m_bind_def on_client_eq draw_def on_contact_def m_zoom_def m_catch_def)

lemma decrypt_item_eq:
  assumes "decrypt_inbound P (map (cl_tape s) [cl_drawn s..<cl_drawn s + 32]) now outer (cl_contact s) = (Inr inner, c)"
  shows "decrypt_item P now outer s = (Inr (Inr inner), s\<lparr>cl_drawn := cl_drawn s + 32, cl_contact := c\<rparr>)"
  using assms by (simp add: decrypt_item_def m_bind_def draw_def on_contact_def m_zoom_def m_catch_def)

lemma opened_ratchet:
  assumes law: "aead_correct P" and step: "in_step pn n ck cs cr" "c_ratchet cs = Some s" "c_ratchet cr = Some r"
    and enc: "length nonce = 24" "encrypt_with P i nq nonce now mk cs = (Inr em, cs')"
    and dec: "decrypt_outer P np t (em_outer em) cr = (Inr inner, cr')"
  shows "c_ratchet cr' = Some (r\<lparr>dh_peer_public := Some (dh_self_public s), recv_chain_key := Some (snd (kdf_ck P ck)),
    recv_n := int (Suc n)\<rparr>)"
proof -
  from sent_packet [OF step(1) enc(2)] step(2) obtain padded where p: "n < 2 ^ 32" "pn < 2 ^ 32"
    "ob_ciphertext (em_outer em) = packet P (dh_self_public s) pn n ck nonce padded" by auto
  from step have e: "expects (dh_self_public s) n ck r" "length (dh_self_public s) = 32" "length (skipped_keys r) \<le> 256"
    by (auto simp: in_step_def)
  have "ratchet_decrypt P np (ob_ciphertext (em_outer em)) r = (Inr padded,
      r\<lparr>dh_peer_public := Some (dh_self_public s), recv_chain_key := Some (snd (kdf_ck P ck)), recv_n := int (Suc n)\<rparr>)"
    using ratchet_decrypt_packet [OF law enc(1) e(2,1), of 0 pn np padded] p e(3) by simp
  with dec step(3) show ?thesis by (elim decrypt_outer_Inr) simp
qed

lemma mobile_postpones:
  assumes r: "c_ratchet (cl_contact (mb_client m)) = Some r" "dh_peer_public r = Some pub" "recv_chain_key r = Some ck'"
      "int n < recv_n r" "map_of (skipped_keys r) (key_id pub (int n)) = None" "length pub = 32" "n < 2 ^ 32" "pn < 2 ^ 32"
    and p: "ob_ciphertext outer = packet P pub pn n ck nonce padded"
  shows "\<exists>m'. mobile_decrypt_item P t outer m = (Inr (Inl Postponed), m')"
proof -
  have "fst (ratchet_decrypt P np (ob_ciphertext outer) r) = Inl (ValueError ''ratchet message already received'')" for np
    using ratchet_decrypt_again [OF r(2-8), of P np ck nonce padded] p by simp
  from decrypt_outer_duplicate [OF r(1) this] mobile_decrypt_item_eq [of P m t outer] show ?thesis by fastforce
qed

lemma inbound_of_outer:
  assumes "decrypt_outer P np t outer c = (Inr inner, c1)"
  shows "\<exists>c2. decrypt_inbound P np t outer c = (Inr inner, c2)"
proof -
  from assms obtain r where r: "c_ratchet c = Some r" by (auto elim: decrypt_outer_Inr)
  obtain c2 where "rollback (ratchet_to_dict r) c1 = (Inr (), c2)"
    using rollback_total [of r c1] by (metis prod.collapse)
  with assms r show ?thesis by (simp add: decrypt_inbound_def m_bind_def m_return_def)
qed

lemma text_follows_receipt:
  assumes law: "aead_correct P" "hkdf_lengths P" and step: "in_step pn n ck cs cr" and r: "c_ratchet cr = Some r" "ratchet_inv r"
    and enc: "length nonce = 24" "encrypt_receipt P i nq nonce now did cs = (Inr em, cs1)"
    and dec: "decrypt_inbound P np t (em_outer em) cr = (Inr inner, cr1)" "im_type inner = JStr ''receipt''"
      "seq inner = next_send_seq cs"
  shows "in_step pn n ck (cs1\<lparr>c_ratchet := c_ratchet cs\<rparr>) cr1"
proof -
  obtain sk where c1: "cr1 = cr\<lparr>last_recv_seq := last_recv_seq cr + 1, c_ratchet := Some (r\<lparr>skipped_keys := sk\<rparr>)\<rparr>"
    using auxiliary_keeps_ratchet [OF law(2) r dec(1)] dec(2) by auto
  moreover have "length sk \<le> 256"
    using decrypt_inbound_inv [OF law(2) r, of np t "em_outer em"] dec(1) c1 by (auto simp: ratchet_inv_def MAX_SKIPPED_KEYS_def)
  moreover obtain s' where "cs1 = cs\<lparr>c_ratchet := Some s', next_send_seq := next_send_seq cs + 1\<rparr>"
    using enc(2) by (auto simp: encrypt_receipt_def elim!: encrypt_with_Inr)
  ultimately show ?thesis using step r(1) by (auto simp: in_step_def expects_def)
qed

text \<open>
  C23. A text that follows a receipt is lost on the mobile client. The sender takes its ratchet back after
  a receipt, so the next text is sealed with the same number of the chain. The command line takes back
  its ratchet too and reads the text; the mobile client does not, takes the text for a duplicate, and
  however often it fetches the text stays postponed.
\<close>

theorem text_lost_after_receipt:
  assumes law: "aead_correct P" "hkdf_lengths P"
    and step: "in_step pn n ck cs (cl_contact (mb_client m))" "c_ratchet cs = Some s"
    and r: "c_ratchet (cl_contact (mb_client m)) = Some r" "ratchet_inv r"
      "map_of (skipped_keys r) (key_id (dh_self_public s) (int n)) = None"
    and receipt: "length nonce = 24" "encrypt_receipt P i nq nonce now did cs = (Inr em, cs1)"
    and sent: "length nonce' = 24" "encrypt_text P i nq' nonce' now body (cs1\<lparr>c_ratchet := c_ratchet cs\<rparr>) = (Inr em', cs2)"
    and time: "t \<le> now + MESSAGE_TTL_MS" "t' \<le> now + MESSAGE_TTL_MS"
  shows "(\<exists>inner m1 m2. mobile_decrypt_item P t (em_outer em) m = (Inr (Inr inner), m1) \<and> im_type inner = JStr ''receipt'' \<and>
       mobile_decrypt_item P t' (em_outer em') m1 = (Inr (Inl Postponed), m2)) \<and>
    (\<exists>inner u1 inner' u2. decrypt_item P t (em_outer em) (mb_client m) = (Inr (Inr inner), u1) \<and>
       decrypt_item P t' (em_outer em') u1 = (Inr (Inr inner'), u2) \<and> im_type inner' = JStr ''text'' \<and> im_body inner' = body)"
proof -
  let ?cr = "cl_contact (mb_client m)" and ?cs = "cs1\<lparr>c_ratchet := c_ratchet cs\<rparr>"
  let ?inner = "inner_receipt (c_conversation_id cs) (device_id P i) (next_send_seq cs) did now"
  have outer: "\<exists>cr'. decrypt_outer P np t (em_outer em) ?cr = (Inr ?inner, cr')" for np
    using decrypt_outer_sent [OF law(1) step(1) receipt(1) receipt(2) [unfolded encrypt_receipt_def], of t np] time(1)
    by (auto simp: inner_receipt_def message_valid_until_def)
  have kind: "im_type ?inner = JStr ''receipt''" "seq ?inner = next_send_seq cs"
    by (simp_all add: inner_receipt_def inner_new_def)
  obtain m1 cr' where m1: "mobile_decrypt_item P t (em_outer em) m = (Inr (Inr ?inner), m1)" "cl_contact (mb_client m1) = cr'"
      "\<exists>np. decrypt_outer P np t (em_outer em) ?cr = (Inr ?inner, cr')"
    using outer mobile_decrypt_item_eq [of P m t "em_outer em"] by fastforce
  have r': "c_ratchet cr' = Some (r\<lparr>dh_peer_public := Some (dh_self_public s), recv_chain_key := Some (snd (kdf_ck P ck)),
      recv_n := int (Suc n)\<rparr>)"
    using m1(3) opened_ratchet [OF law(1) step r(1) receipt(1) receipt(2) [unfolded encrypt_receipt_def]] by blast
  define np where "np = map (cl_tape (mb_client m)) [cl_drawn (mb_client m)..<cl_drawn (mb_client m) + 32]"
  obtain cr1 where cr1: "decrypt_inbound P np t (em_outer em) ?cr = (Inr ?inner, cr1)"
    using outer [of np] inbound_of_outer by blast
  define u1 where "u1 = (mb_client m)\<lparr>cl_drawn := cl_drawn (mb_client m) + 32, cl_contact := cr1\<rparr>"
  have u1: "decrypt_item P t (em_outer em) (mb_client m) = (Inr (Inr ?inner), u1)" "cl_contact u1 = cr1"
    using decrypt_item_eq [OF cr1 [unfolded np_def]] by (simp_all add: u1_def)
  have step1: "in_step pn n ck ?cs cr1"
    by (rule text_follows_receipt [OF law step(1) r(1,2) receipt cr1 kind])
  have step2: "c_ratchet ?cs = Some s" using step(2) by simp
  from sent_packet [OF step1 sent(2) [unfolded encrypt_text_def]] step2 obtain padded where p: "n < 2 ^ 32" "pn < 2 ^ 32"
    "ob_ciphertext (em_outer em') = packet P (dh_self_public s) pn n ck nonce' padded" by auto
  have len: "length (dh_self_public s) = 32" using step by (auto simp: in_step_def)
  from mobile_postpones [of m1, OF _ _ _ _ _ len p, of _ _ t'] m1(2) r' r(3)
  have "\<exists>m2. mobile_decrypt_item P t' (em_outer em') m1 = (Inr (Inl Postponed), m2)" by simp
  moreover obtain inner' c2 where d: "decrypt_inbound P (map (cl_tape u1) [cl_drawn u1..<cl_drawn u1 + 32]) t' (em_outer em') (cl_contact u1)
      = (Inr inner', c2)" "im_type inner' = JStr ''text''" "im_body inner' = body"
    using text_delivered [OF law(1) step1 sent time(2)] u1(2) by blast
  note decrypt_item_eq [OF d(1)]
  ultimately show ?thesis using m1(1) u1(1) kind(1) d(2,3) by blast
qed

definition demo_talker :: contact where
  "demo_talker = demo_contact\<lparr>privacy_mode := ''fast''\<rparr>"

definition demo_listener :: "unit wire mobile" where
  "demo_listener = demo_mobile\<lparr>mb_client := (mb_client demo_mobile)\<lparr>cl_contact := demo_talker\<lparr>c_ratchet := Some demo_receiver\<rparr>\<rparr>\<rparr>"

lemma demo_talker_fields: "c_ratchet demo_talker = Some demo_sender" "hybrid_pq demo_talker = False"
    "privacy_mode demo_talker = ''fast''" "c_profile demo_talker = None"
  by (simp_all add: demo_talker_def demo_contact_def)

lemma demo_in_step: "in_step 0 0 (the (send_chain_key demo_sender)) demo_talker (cl_contact (mb_client demo_listener))"
  using demo_ratchets by (simp add: in_step_def demo_talker_def demo_listener_def demo_contact_def known_mode_def)

lemma demo_speaks:
  assumes "c_ratchet c = Some demo_sender" "hybrid_pq c = False" "privacy_mode c = ''fast''" "c_profile c = None"
  shows "\<exists>em c'. encrypt_with demo_prims i np nonce now mk c = (Inr em, c') \<and> c' = c\<lparr>c_ratchet := c_ratchet c', next_send_seq := next_send_seq c'\<rparr>"
  using assms
  by (simp add: encrypt_with_def require_fresh_session_def needs_pq_rekey_def m_get_def m_bind_def
     encrypt_inner_def on_ratchet_def ratchet_encrypt_def demo_sender_def from_master_def Let_def m_modify_def
     m_return_def m_raise_def mailbox_deriver_def derive_def current_epoch_def m_of_def header_aad_def
     demo_prims_def demo_x25519_def pack_II_def split: prod.splits option.splits)

theorem text_lost_after_receipt_witness:
  "\<exists>em em' inner m1 m2. mobile_decrypt_item demo_prims 0 (em_outer (em :: encrypted_message)) demo_listener = (Inr (Inr inner), m1) \<and>
     im_type inner = JStr ''receipt'' \<and>
     mobile_decrypt_item demo_prims 0 (em_outer (em' :: encrypted_message)) m1 = (Inr (Inl Postponed), m2)"
proof -
  obtain em cs1 where receipt: "encrypt_receipt demo_prims demo_inviter [] (replicate 24 0) 0 ''id'' demo_talker = (Inr em, cs1)"
    "cs1 = demo_talker\<lparr>c_ratchet := c_ratchet cs1, next_send_seq := next_send_seq cs1\<rparr>"
    using demo_speaks [OF demo_talker_fields, of demo_inviter "[]" "replicate 24 0" 0
        "\<lambda>c. inner_receipt (c_conversation_id c) (device_id demo_prims demo_inviter) (next_send_seq c) ''id'' 0"]
    unfolding encrypt_receipt_def by (elim exE conjE)
  let ?cs = "cs1\<lparr>c_ratchet := c_ratchet demo_talker\<rparr>"
  have fields: "c_ratchet ?cs = Some demo_sender" "hybrid_pq ?cs = False" "privacy_mode ?cs = ''fast''" "c_profile ?cs = None"
    by (subst receipt(2), simp add: demo_talker_fields)+
  obtain em' cs2 where sent: "encrypt_text demo_prims demo_inviter [] (replicate 24 1) 0 ''hello'' ?cs = (Inr em', cs2)"
    using demo_speaks [OF fields, of demo_inviter "[]" "replicate 24 1" 0
        "\<lambda>c. inner_text (c_conversation_id c) (device_id demo_prims demo_inviter) (next_send_seq c) ''hello'' 0"]
    unfolding encrypt_text_def by (elim exE conjE)
  have r: "c_ratchet (cl_contact (mb_client demo_listener)) = Some demo_receiver" "ratchet_inv demo_receiver"
      "map_of (skipped_keys demo_receiver) (key_id (dh_self_public demo_sender) (int 0)) = None" "c_ratchet demo_talker = Some demo_sender"
    using from_master_inv [OF demo_hkdf, of "[1]" False False "replicate 32 2"]
    by (simp_all add: demo_listener_def demo_ratchets demo_receiver_def [symmetric] demo_talker_def demo_contact_def)
  have time: "(0 :: int) \<le> 0 + MESSAGE_TTL_MS" by (simp add: MESSAGE_TTL_MS_def)
  have nonces: "length (replicate 24 (0 :: byte)) = 24" "length (replicate 24 (1 :: byte)) = 24" by simp_all
  from text_lost_after_receipt [OF demo_aead demo_hkdf demo_in_step r(4) r(1-3) nonces(1) receipt(1) nonces(2) sent time time]
  show ?thesis by blast
qed

end
