(* ===== verification/Operator.thy ===== *)
theory Operator
  imports Publish Commands RelayApp
begin

text \<open>
  Relay operators: \<open>relay_operator.py\<close>, \<open>relay_deploy.py\<close>, \<open>reachability.py\<close> and the commands
  \<open>yakr relay create/deploy/status/capability-bootstrap/embed\<close>.

  An operator is an identity of its own with its own store, kept in \<open>relays/<name>\<close> under the store of its
  owner. A directory is a record with a field for each file that the code writes there; JSON files are the
  values they hold, as in theory \<open>Store\<close>, and a certificate file is what the parameter \<open>pem\<close> makes of the
  identity. Paths are compared as texts, so an operator's name is taken for one component of a path.
\<close>

section \<open>The manifest\<close>

definition MANIFEST_VERSION :: int where "MANIFEST_VERSION = 1"

record operator_manifest =
  mf_version :: int
  mf_operator_name :: str
  mf_owner_name :: str
  mf_public_url :: str
  mf_host_port :: int
  mf_wrap_secret :: bytes
  mf_operator_home :: str
  mf_created_at :: int
  mf_issuance_public :: str
  mf_issuance_sha256 :: str

definition manifest_to_dict :: "operator_manifest \<Rightarrow> json" where
  "manifest_to_dict m = JObj
     ([(''version'', JInt (mf_version m)), (''operator_name'', JStr (mf_operator_name m)),
       (''owner_name'', JStr (mf_owner_name m)), (''public_url'', JStr (mf_public_url m)),
       (''host_port'', JInt (mf_host_port m)), (''wrap_secret'', JStr (b64encode (mf_wrap_secret m))),
       (''operator_home'', JStr (mf_operator_home m)), (''created_at'', JInt (mf_created_at m))] @
      when_item (mf_issuance_public m \<noteq> []) ''capability_issuance_public_b64'' (JStr (mf_issuance_public m)) @
      when_item (mf_issuance_public m \<noteq> []) ''capability_issuance_public_sha256'' (JStr (mf_issuance_sha256 m)))"

definition manifest_from_dict :: "json \<Rightarrow> operator_manifest res" where
  "manifest_from_dict j =
     and_then (jobj j) (\<lambda>payload.
     and_then (and_then (jget payload ''version'') jint) (\<lambda>version.
     and_then (and_then (jget payload ''operator_name'') jstr) (\<lambda>name.
     and_then (and_then (jget payload ''owner_name'') jstr) (\<lambda>owner.
     and_then (and_then (jget payload ''public_url'') jstr) (\<lambda>url.
     and_then (and_then (jget payload ''host_port'') jint) (\<lambda>port.
     and_then (and_then (and_then (jget payload ''wrap_secret'') jstr) b64decode) (\<lambda>wrap.
     and_then (and_then (jget payload ''operator_home'') jstr) (\<lambda>home.
     and_then (and_then (jget payload ''created_at'') jint) (\<lambda>created.
     and_then (jstr (jget_default payload ''capability_issuance_public_b64'' (JStr []))) (\<lambda>issuance.
     and_then (jstr (jget_default payload ''capability_issuance_public_sha256'' (JStr []))) (\<lambda>sha.
     Inr \<lparr>mf_version = version, mf_operator_name = name, mf_owner_name = owner, mf_public_url = rstrip_slash url,
       mf_host_port = port, mf_wrap_secret = wrap, mf_operator_home = home, mf_created_at = created,
       mf_issuance_public = issuance, mf_issuance_sha256 = sha\<rparr>)))))))))))"

section \<open>The operator's directory\<close>

record operator_dir =
  od_store :: store
  od_manifest :: "json option"
  od_issuance_key :: "bytes option"
  od_issuance_public :: "bytes option"
  od_tls :: "(str \<times> str) option"
  od_spki_hex :: "str option"
  od_relay_env :: "str option"
  od_compose :: "str option"
  od_deploy_env :: "str option"

definition new_operator_dir :: operator_dir where
  "new_operator_dir = \<lparr>od_store = empty_store, od_manifest = None, od_issuance_key = None, od_issuance_public = None,
     od_tls = None, od_spki_hex = None, od_relay_env = None, od_compose = None, od_deploy_env = None\<rparr>"

text \<open>The owner's process with the directories under its store.\<close>

record 'n owner_host =
  ow_client :: "'n client"
  ow_root :: str
  ow_dirs :: "(str \<times> operator_dir) list"

definition on_owner :: "('n client, 'a) meth \<Rightarrow> ('n owner_host, 'a) meth" where
  "on_owner = m_zoom ow_client (\<lambda>c m. m\<lparr>ow_client := c\<rparr>)"

definition relay_operator_home :: "str \<Rightarrow> str \<Rightarrow> str" where
  "relay_operator_home owner_root name = owner_root @ ''/relays/'' @ name"

text \<open>A directory that is not there holds no file.\<close>

definition dir_at :: "'n owner_host \<Rightarrow> str \<Rightarrow> operator_dir" where
  "dir_at w home = (case map_of (ow_dirs w) home of Some d \<Rightarrow> d | None \<Rightarrow> new_operator_dir)"

definition on_dir :: "str \<Rightarrow> (operator_dir, 'a) meth \<Rightarrow> ('n owner_host, 'a) meth" where
  "on_dir home m w = (case m (dir_at w home) of
     (x, d) \<Rightarrow> (x, w\<lparr>ow_dirs := dict_put home d (ow_dirs w)\<rparr>))"

definition on_dir_store :: "(store, 'a) meth \<Rightarrow> (operator_dir, 'a) meth" where
  "on_dir_store = m_zoom od_store (\<lambda>t d. d\<lparr>od_store := t\<rparr>)"

definition load_issuance_key :: "str \<Rightarrow> bytes option \<Rightarrow> bytes res" where
  "load_issuance_key kind raw = (case raw of
     None \<Rightarrow> Inl (OSError (''relay issuance '' @ kind @ '' key not found''))
   | Some k \<Rightarrow> if length k \<noteq> 32 then Inl (ValueError (''relay issuance '' @ kind @ '' key must be 32 bytes'')) else Inr k)"

definition load_relay_issuance_private :: "operator_dir \<Rightarrow> bytes res" where
  "load_relay_issuance_private d = load_issuance_key ''private'' (od_issuance_key d)"

definition load_relay_issuance_public :: "operator_dir \<Rightarrow> bytes res" where
  "load_relay_issuance_public d = load_issuance_key ''public'' (od_issuance_public d)"

definition load_relay_operator_manifest :: "operator_dir \<Rightarrow> operator_manifest res" where
  "load_relay_operator_manifest d = (case od_manifest d of
     None \<Rightarrow> Inl (OSError ''relay operator manifest not found'') | Some j \<Rightarrow> manifest_from_dict j)"

definition manifest_at :: "str \<Rightarrow> ('n owner_host, operator_manifest) meth" where
  "manifest_at home = m_get (\<lambda>w. m_of (load_relay_operator_manifest (dir_at w home)))"

section \<open>The files for the deployment\<close>

definition text_lines :: "str list \<Rightarrow> str" where
  "text_lines ls = concat (map (\<lambda>l. l @ [CHR 0x0A]) ls)"

definition relay_env_lines :: "operator_manifest \<Rightarrow> str list" where
  "relay_env_lines m =
     [''RELAY_NAME='' @ mf_operator_name m,
      ''YAKR_RELAY_NAME='' @ mf_operator_name m,
      ''PUBLIC_URL='' @ mf_public_url m,
      ''HOST_PORT='' @ str_of_int (mf_host_port m),
      ''WRAP_SECRET='' @ b64encode (mf_wrap_secret m),
      ''OWNER_NAME='' @ mf_owner_name m]"

definition write_relay_env :: "operator_manifest \<Rightarrow> (operator_dir, unit) meth" where
  "write_relay_env m = m_modify (\<lambda>d. d\<lparr>od_relay_env := Some (text_lines (relay_env_lines m))\<rparr>)"

definition compose_lines :: "operator_manifest \<Rightarrow> str list" where
  "compose_lines m =
     [''services:'',
      ''  relay:'',
      ''    image: yakr-relay:local'',
      ''    container_name: yakr-'' @ mf_operator_name m,
      ''    restart: unless-stopped'',
      ''    ports:'',
      ''      - '' @ [CHR 0x22] @ str_of_int (mf_host_port m) @ '':8080'' @ [CHR 0x22],
      ''    volumes:'',
      ''      - '' @ mf_operator_name m @ ''-data:/data'',
      ''      - ../relay-tls:/tls:ro'',
      ''      - ../relay-issuance:/relay-issuance:ro'',
      ''    command:'',
      ''      - yakr-relay'',
      ''      - serve'',
      ''      - --host=0.0.0.0'',
      ''      - --port=8080'',
      ''      - --data-dir=/data'',
      ''      - --role=both'',
      ''      - --name='' @ mf_operator_name m,
      ''      - --wrap-secret='' @ b64encode (mf_wrap_secret m),
      ''      - --require-capabilities'',
      ''      - --relay-issuance-private-key=/relay-issuance/issuance.key'',
      ''      - --relay-tls-spki-sha256=/tls/spki_sha256.hex'',
      ''      - --ssl-keyfile=/tls/endpoint.key.pem'',
      ''      - --ssl-certfile=/tls/endpoint.cert.pem'',
      [],
      ''volumes:'',
      ''  '' @ mf_operator_name m @ ''-data:'']"

text \<open>\<open>upper\<close> is that of ASCII letters.\<close>

definition export_name :: "operator_manifest \<Rightarrow> str" where
  "export_name m = map (\<lambda>c. if c = CHR ''-'' then CHR ''_'' else c) (upper_ascii (mf_operator_name m)) @ ''_URL''"

definition deploy_env_lines :: "str \<Rightarrow> operator_manifest \<Rightarrow> str list" where
  "deploy_env_lines home m =
     [''VPS_HOST='',
      ''CHARLIE_PORT='' @ str_of_int (mf_host_port m),
      ''CHARLIE_WRAP_SECRET='' @ b64encode (mf_wrap_secret m),
      ''CHARLIE_TLS_DIR='' @ home @ ''/relay-tls'',
      ''RELAY_NAME='' @ mf_operator_name m,
      ''RELAY_CONTAINER=yakr-'' @ mf_operator_name m,
      ''RELAY_DATA_VOLUME=yakr-'' @ mf_operator_name m @ ''-data'',
      ''URL_EXPORT_NAME='' @ export_name m,
      ''PUBLIC_URL='' @ mf_public_url m]"

definition write_deploy_compose :: "str \<Rightarrow> operator_manifest \<Rightarrow> (operator_dir, unit) meth" where
  "write_deploy_compose home m = m_modify (\<lambda>d. d\<lparr>od_compose := Some (text_lines (compose_lines m)),
     od_deploy_env := Some (text_lines (deploy_env_lines home m))\<rparr>)"

definition write_manifest :: "str \<Rightarrow> operator_manifest \<Rightarrow> (operator_dir, unit) meth" where
  "write_manifest home m =
     m_bind (m_modify (\<lambda>d. d\<lparr>od_manifest := Some (manifest_to_dict m)\<rparr>)) (\<lambda>_.
     m_bind (write_relay_env m) (\<lambda>_. write_deploy_compose home m))"

section \<open>Making an operator\<close>

text \<open>\<open>Identity.generate\<close>: the keys of the post-quantum libraries are given, the others drawn.\<close>

definition generate_identity :: "str \<Rightarrow> bytes \<times> bytes \<Rightarrow> bytes \<times> bytes \<Rightarrow> ('n client, identity) meth" where
  "generate_identity name kem pq =
     m_bind (draw 32) (\<lambda>signing. m_bind (draw 32) (\<lambda>agreement. m_bind (draw 32) (\<lambda>tls.
     m_return \<lparr>id_name = name, signing_private = signing, agreement_private = agreement,
       kem_public = fst kem, kem_private = snd kem, pq_signing_public = fst pq, pq_signing_private = snd pq,
       tls_ecdsa_private = Some tls\<rparr>)))"

definition write_issuance_keys :: "prims \<Rightarrow> str \<Rightarrow> ('n owner_host, bytes) meth" where
  "write_issuance_keys P home = m_bind (on_owner (draw 32)) (\<lambda>key. let pub = p_ed_pub P key in
     m_bind (on_dir home (m_modify (\<lambda>d. d\<lparr>od_issuance_key := Some key, od_issuance_public := Some pub\<rparr>))) (\<lambda>_.
     m_return pub))"

text \<open>A profile of one identity and the relays given, with the defaults of \<open>create_delivery_profile\<close>.\<close>

definition default_profile ::
    "prims \<Rightarrow> int \<Rightarrow> identity \<Rightarrow> relay_descriptor list \<Rightarrow> int option \<Rightarrow> ('n client, delivery_profile) meth" where
  "default_profile P now i relays version = m_bind (draw 32) (\<lambda>fresh.
     m_return (fst (create_delivery_profile P fresh i relays [] 3600 [] [] ''minimal'' DEFAULT_PROFILE_TTL_MS version now)))"

definition owner_local_profile :: "prims \<Rightarrow> int \<Rightarrow> identity \<Rightarrow> ('n client, delivery_profile) meth" where
  "owner_local_profile P now owner = m_bind (on_store (m_read (load_local_profile P))) (\<lambda>p. case p of
     Some profile \<Rightarrow> m_return profile | None \<Rightarrow> default_profile P now owner [] None)"

text \<open>The contact that one identity keeps of the other, with its profile and the acknowledgement.\<close>

definition paired_contact ::
    "prims \<Rightarrow> identity \<Rightarrow> identity \<Rightarrow> delivery_profile \<Rightarrow> ('n client, contact) meth" where
  "paired_contact P local remote profile = m_bind (draw 32) (\<lambda>ratchet_private.
     m_bind (m_of (establish P ratchet_private local (id_name remote) (export_public_bundle P remote))) (\<lambda>c.
     m_return (apply_peer_profile_ack profile (c\<lparr>c_profile := Some profile\<rparr>))))"

record operator_bundle =
  bu_manifest :: operator_manifest
  bu_descriptor :: relay_descriptor
  bu_owner_contact :: contact

text \<open>
  The new directory with the operator's identity, TLS files and issuance keys: the operator, the wrap
  secret and the public issuance key. \<open>pem\<close> gives the texts of \<open>endpoint.key.pem\<close> and \<open>endpoint.cert.pem\<close>.
\<close>

definition new_operator ::
    "prims \<Rightarrow> (identity \<Rightarrow> str \<times> str) \<Rightarrow> bytes \<times> bytes \<Rightarrow> bytes \<times> bytes \<Rightarrow> str \<Rightarrow> str \<Rightarrow>
     ('n owner_host, identity \<times> bytes \<times> bytes) meth" where
  "new_operator P pem kem pq home name =
     m_bind (m_modify (\<lambda>w. w\<lparr>ow_dirs := dict_put home new_operator_dir (ow_dirs w)\<rparr>)) (\<lambda>_.
     m_bind (on_owner (generate_identity name kem pq)) (\<lambda>operator.
     m_bind (on_dir home (on_dir_store (save_identity P operator))) (\<lambda>_.
     m_bind (on_owner (draw 32)) (\<lambda>wrap_secret.
     m_bind (on_dir home (m_modify (\<lambda>d. d\<lparr>od_tls := Some (pem operator),
       od_spki_hex := Some (to_hex (fst (endpoint_tls_spki_sha256 P [] operator)) @ [CHR 0x0A])\<rparr>))) (\<lambda>_.
     m_bind (write_issuance_keys P home) (\<lambda>issuance_public.
     m_return (operator, wrap_secret, issuance_public)))))))"

text \<open>The profiles of both sides and the contact each keeps of the other; the owner's is returned.\<close>

definition pair_operator ::
    "prims \<Rightarrow> int \<Rightarrow> str \<Rightarrow> identity \<Rightarrow> identity \<Rightarrow> relay_descriptor \<Rightarrow> ('n owner_host, contact) meth" where
  "pair_operator P now home owner operator descriptor =
     m_bind (on_owner (default_profile P now operator [descriptor] None)) (\<lambda>operator_profile.
     m_bind (on_dir home (on_dir_store (save_local_profile P operator_profile))) (\<lambda>_.
     m_bind (on_owner (owner_local_profile P now owner)) (\<lambda>owner_profile.
     m_bind (on_owner (paired_contact P owner operator operator_profile)) (\<lambda>owner_operator.
     m_bind (on_owner (on_store (save_contact P owner_operator))) (\<lambda>_.
     m_bind (on_owner (paired_contact P operator owner owner_profile)) (\<lambda>operator_owner.
     m_bind (on_dir home (on_dir_store (save_contact P operator_owner))) (\<lambda>_.
     m_return owner_operator)))))))"

definition create_relay_operator ::
    "prims \<Rightarrow> 'n http \<Rightarrow> (identity \<Rightarrow> str \<times> str) \<Rightarrow> bytes \<times> bytes \<Rightarrow> bytes \<times> bytes \<Rightarrow> int \<Rightarrow> str \<Rightarrow> str \<Rightarrow> int \<Rightarrow> bool \<Rightarrow>
     ('n owner_host, operator_bundle) meth" where
  "create_relay_operator P H pem kem pq now name public_url host_port force =
     m_bind (on_owner (on_store load_identity)) (\<lambda>owner. m_bind (m_of (opt_res (ValueError ''owner identity not initialized'') owner)) (\<lambda>owner.
     if name = id_name owner then m_raise (ValueError ''operator name must differ from owner identity name'') else
     m_bind (on_owner (on_store (get_contact P name))) (\<lambda>known.
     if known \<noteq> None \<and> \<not> force then m_raise (ValueError ''contact already exists'') else m_get (\<lambda>w.
     let home = relay_operator_home (ow_root w) name; url = rstrip_slash public_url in
     if map_of (ow_dirs w) home \<noteq> None \<and> \<not> force then m_raise (OSError ''relay operator home already exists'') else
     m_bind (new_operator P pem kem pq home name) (\<lambda>(operator, wrap_secret, issuance_public).
     let descriptor = fst (relay_descriptor_for_operator P [] operator ''both'' url wrap_secret None) in
     m_bind (pair_operator P now home owner operator descriptor) (\<lambda>owner_operator.
     let manifest = \<lparr>mf_version = MANIFEST_VERSION, mf_operator_name = name, mf_owner_name = id_name owner,
           mf_public_url = url, mf_host_port = host_port, mf_wrap_secret = wrap_secret,
           mf_operator_home = ''relays/'' @ name, mf_created_at = now,
           mf_issuance_public = b64encode issuance_public,
           mf_issuance_sha256 = to_hex (p_sha256 P issuance_public)\<rparr> in
     m_bind (on_dir home (write_manifest home manifest)) (\<lambda>_.
     m_bind (m_catch (m_bind (on_owner (bootstrap_operator_capabilities P H now owner name url)) (\<lambda>_. m_return ()))
       (\<lambda>e. is_runtime_error e \<or> is_value_error e \<or> is_os_error e) (\<lambda>e. m_return ())) (\<lambda>_.
     m_return \<lparr>bu_manifest = manifest, bu_descriptor = descriptor, bu_owner_contact = owner_operator\<rparr>))))))))"

text \<open>The new profile at the owner, and at the operator the acknowledgement of it.\<close>

definition refresh_contacts ::
    "prims \<Rightarrow> str \<Rightarrow> operator_manifest \<Rightarrow> delivery_profile \<Rightarrow> ('n owner_host, unit) meth" where
  "refresh_contacts P home manifest operator_profile =
     m_bind (on_owner (on_store (get_contact P (mf_operator_name manifest)))) (\<lambda>owner_contact.
     m_bind (case owner_contact of None \<Rightarrow> m_return ()
       | Some c \<Rightarrow> on_owner (on_store (save_contact P (c\<lparr>c_profile := Some operator_profile\<rparr>)))) (\<lambda>_.
     m_bind (on_dir home (on_dir_store (get_contact P (mf_owner_name manifest)))) (\<lambda>operator_owner.
     case operator_owner of None \<Rightarrow> m_return ()
       | Some c \<Rightarrow> on_dir home (on_dir_store (save_contact P (apply_peer_profile_ack operator_profile c))))))"

definition refresh_operator_public_url ::
    "prims \<Rightarrow> int \<Rightarrow> str \<Rightarrow> str \<Rightarrow> ('n owner_host, relay_descriptor) meth" where
  "refresh_operator_public_url P now home public_url =
     (let url = rstrip_slash public_url in
      m_bind (manifest_at home) (\<lambda>manifest.
      m_bind (on_dir home (on_dir_store load_identity)) (\<lambda>operator.
      m_bind (m_of (opt_res (ValueError ''operator identity missing'') operator)) (\<lambda>operator.
      m_bind (on_owner (draw 32)) (\<lambda>fresh.
      let (descriptor, operator) = relay_descriptor_for_operator P fresh operator ''both'' url (mf_wrap_secret manifest) None in
      m_bind (on_dir home (on_dir_store (m_read (load_local_profile P)))) (\<lambda>current.
      m_bind (on_owner (default_profile P now operator [descriptor]
        (Some (case current of None \<Rightarrow> 1 | Some p \<Rightarrow> dp_version p + 1)))) (\<lambda>operator_profile.
      m_bind (on_dir home (on_dir_store (save_local_profile P operator_profile))) (\<lambda>_.
      m_bind (refresh_contacts P home manifest operator_profile) (\<lambda>_.
      m_bind (on_dir home (write_manifest home (manifest\<lparr>mf_public_url := url\<rparr>))) (\<lambda>_.
      m_return descriptor))))))))))"

section \<open>Deployment\<close>

text \<open>
  The environment that \<open>scripts/deploy_charlie_vps.sh\<close> is run with; \<open>script\<close> is the script's path, if it is
  there. \<open>RELAY_DATA_VOLUME\<close> is not the volume name of \<open>compose_lines\<close>.
\<close>

definition env_update :: "(str \<times> str) list \<Rightarrow> (str \<times> str) list \<Rightarrow> (str \<times> str) list" where
  "env_update env xs = fold (\<lambda>(k, v). dict_put k v) xs env"

definition deploy_env :: "str \<Rightarrow> operator_manifest \<Rightarrow> str \<Rightarrow> int option \<Rightarrow> (str \<times> str) list" where
  "deploy_env home m vps_host host_port =
     [(''VPS_HOST'', vps_host),
      (''CHARLIE_PORT'', str_of_int (case host_port of Some p \<Rightarrow> p | None \<Rightarrow> mf_host_port m)),
      (''CHARLIE_WRAP_SECRET'', b64encode (mf_wrap_secret m)),
      (''CHARLIE_TLS_DIR'', home @ ''/relay-tls''),
      (''REMOTE_DIR'', ''~/yakr-relay-'' @ mf_operator_name m),
      (''RELAY_NAME'', mf_operator_name m),
      (''RELAY_CONTAINER'', ''yakr-'' @ mf_operator_name m),
      (''RELAY_DATA_VOLUME'', ''yakr-'' @ mf_operator_name m @ ''-data''),
      (''URL_EXPORT_NAME'', export_name m)]"

text \<open>\<open>run\<close> is the exit status of the script in an environment.\<close>

definition deploy_operator_bundle ::
    "((str \<times> str) list \<Rightarrow> int) \<Rightarrow> bool \<Rightarrow> str \<Rightarrow> str \<Rightarrow> int option \<Rightarrow> ('n owner_host, unit) meth" where
  "deploy_operator_bundle run script name vps_host host_port = m_get (\<lambda>w.
     let home = relay_operator_home (ow_root w) name in
     m_bind (manifest_at home) (\<lambda>m.
     if od_tls (dir_at w home) = None then m_raise (OSError ''missing TLS material'')
     else if \<not> script then m_raise (OSError ''deploy script not found'')
     else if run (env_update (cl_env (ow_client w)) (deploy_env home m vps_host host_port)) \<noteq> 0
     then m_raise (RuntimeError ''CalledProcessError'')
     else m_return ()))"

definition resolve_alice_ops_vps_host :: "(str \<times> str) list \<Rightarrow> str option" where
  "resolve_alice_ops_vps_host env =
     find (\<lambda>v. v \<noteq> []) (map (\<lambda>k. py_strip (getenv env k []))
       [''ALICE_OPS_VPS_HOST'', ''VPS_HOST'', ''CHARLIE_VPS_HOST'', ''DENNIS_VPS_HOST''])"

definition resolve_alice_ops_public_url :: "(str \<times> str) list \<Rightarrow> int option \<Rightarrow> str res" where
  "resolve_alice_ops_public_url env host_port =
     (let explicit = rstrip_slash (py_strip (getenv env ''ALICE_OPS_URL'' []));
          charlie = rstrip_slash (py_strip (getenv env ''CHARLIE_URL'' []));
          (scheme, rest) = split_scheme (clean_url charlie);
          netloc = url_netloc rest;
          host = host_name (fst (host_and_port netloc)) in
      if explicit \<noteq> [] then Inr explicit
      else if charlie = [] then Inl (ValueError ''set ALICE_OPS_URL or CHARLIE_URL to derive homelab host'')
      else if (CHR ''['' \<in> set netloc) \<noteq> (CHR '']'' \<in> set netloc) then Inl (ValueError ''Invalid IPv6 URL'')
      else if host = [] then Inl (ValueError ''cannot parse host from CHARLIE_URL'')
      else and_then (case host_port of Some p \<Rightarrow> Inr p | None \<Rightarrow> int_of_str (getenv env ''ALICE_OPS_PORT'' ''8092''))
        (\<lambda>port. Inr ((if scheme = [] then ''https'' else scheme) @ ''://'' @ host @ '':'' @ str_of_int port)))"

section \<open>The commands\<close>

definition owner_identity :: "('n owner_host, identity) meth" where
  "owner_identity = on_owner require_identity"

text \<open>\<open>FileExistsError\<close> and \<open>FileNotFoundError\<close> are the only OS errors raised here.\<close>

definition or_exit :: "(exn \<Rightarrow> bool) \<Rightarrow> ('s, 'a) meth \<Rightarrow> ('s, 'a) meth" where
  "or_exit caught m = m_catch m caught (\<lambda>e. m_raise exit_error)"

definition relay_create ::
    "prims \<Rightarrow> 'n http \<Rightarrow> (identity \<Rightarrow> str \<times> str) \<Rightarrow> bytes \<times> bytes \<Rightarrow> bytes \<times> bytes \<Rightarrow> int \<Rightarrow> str \<Rightarrow> str \<Rightarrow> int \<Rightarrow> bool \<Rightarrow>
     ('n owner_host, operator_bundle \<times> relay_descriptor list) meth" where
  "relay_create P H pem kem pq now name public_url host_port force = m_bind owner_identity (\<lambda>i.
     m_bind (or_exit (\<lambda>e. is_value_error e \<or> is_os_error e)
       (create_relay_operator P H pem kem pq now name public_url host_port force)) (\<lambda>bundle.
     m_bind (m_of (authorized_publish_relays (id_name i) [bu_owner_contact bundle] None)) (\<lambda>authorized.
     m_return (bundle, authorized))))"

definition relay_deploy ::
    "((str \<times> str) list \<Rightarrow> int) \<Rightarrow> bool \<Rightarrow> str \<Rightarrow> str \<Rightarrow> ('n owner_host, operator_manifest) meth" where
  "relay_deploy run script name vps_host = m_bind owner_identity (\<lambda>_. m_get (\<lambda>w.
     m_bind (or_exit (\<lambda>e. is_os_error e \<or> is_runtime_error e) (deploy_operator_bundle run script name vps_host None)) (\<lambda>_.
     manifest_at (relay_operator_home (ow_root w) name))))"

text \<open>The manifest and the identity that \<open>status\<close> and \<open>capability-bootstrap\<close> start from.\<close>

definition operator_at :: "str \<Rightarrow> ('n owner_host, operator_manifest \<times> identity) meth" where
  "operator_at home = m_bind (or_exit is_os_error (manifest_at home)) (\<lambda>m.
     m_bind (on_dir home (on_dir_store load_identity)) (\<lambda>operator. case operator of
       None \<Rightarrow> m_raise exit_error | Some operator \<Rightarrow> m_return (m, operator)))"

text \<open>The status of the health check and whether a capability grant is there, if the relay answered.\<close>

definition relay_status ::
    "prims \<Rightarrow> 'n http \<Rightarrow> int \<Rightarrow> str \<Rightarrow> ('n owner_host, (int \<times> bool) option) meth" where
  "relay_status P H now name = m_bind owner_identity (\<lambda>_. m_get (\<lambda>w.
     m_bind (operator_at (relay_operator_home (ow_root w) name)) (\<lambda>(m, operator).
     m_bind (on_owner (draw 32)) (\<lambda>fresh.
     let pin = fst (endpoint_tls_spki_sha256 P fresh operator) in
     m_catch (m_bind (on_owner (yakr_request P H ''GET'' (mf_public_url m @ ''/healthz'') None (Some pin) [] [] [])) (\<lambda>reply.
       if hs_status reply \<noteq> 200 then m_return (Some (hs_status reply, False)) else
       m_bind owner_identity (\<lambda>i.
       m_bind (on_owner (bootstrap_operator_capabilities P H now i name (mf_public_url m))) (\<lambda>session.
       m_return (Some (200, session \<noteq> None))))))
     (\<lambda>e. is_http_error e \<or> is_os_error e) (\<lambda>e. m_return None)))))"

definition relay_capability_bootstrap ::
    "prims \<Rightarrow> 'n http \<Rightarrow> int \<Rightarrow> str \<Rightarrow> ('n owner_host, capability_session) meth" where
  "relay_capability_bootstrap P H now name = m_bind owner_identity (\<lambda>i. m_get (\<lambda>w.
     m_bind (operator_at (relay_operator_home (ow_root w) name)) (\<lambda>(m, operator).
     m_bind (or_exit is_value_error (on_owner (bootstrap_operator_capabilities P H now i name (mf_public_url m)))) (\<lambda>session.
     m_of (opt_res exit_error session)))))"

section \<open>The embedded relay\<close>

text \<open>\<open>except Exception\<close> catches every error of the request.\<close>

definition verify_dialable_url :: "prims \<Rightarrow> 'n http \<Rightarrow> str \<Rightarrow> bytes option \<Rightarrow> ('n client, bool) meth" where
  "verify_dialable_url P H url tls_spki =
     m_catch (m_bind (yakr_request P H ''GET'' (rstrip_slash url @ ''/healthz'') None tls_spki [] [] [])
       (\<lambda>reply. m_return (hs_status reply = 200))) (\<lambda>e. True) (\<lambda>e. m_return False)"

definition local_lan_ip :: "str option \<Rightarrow> str option" where
  "local_lan_ip sockname = (case sockname of None \<Rightarrow> None
     | Some ip \<Rightarrow> if starts_with ''127.'' ip then None else Some ip)"

definition reachable_embed_url :: "str \<Rightarrow> int \<Rightarrow> str option \<Rightarrow> str \<times> bool" where
  "reachable_embed_url host port lan_ip =
     (let at = (\<lambda>h. ''https://'' @ h @ '':'' @ str_of_int port) in
      case (if host \<in> {''0.0.0.0'', ''::''} then lan_ip else None) of
        Some (ch # ip) \<Rightarrow> (at (ch # ip), True)
      | _ \<Rightarrow> if host \<notin> {''127.0.0.1'', ''localhost'', ''::1''} then (at host, True) else (at ''127.0.0.1'', False))"

text \<open>
  The runtime of the embedded relay, and what the command advertises once the server runs: its address,
  whether it counts as active, and how many presence messages went out. \<open>sockname\<close> is the address the
  operating system gives for a packet to a public host.
\<close>

definition embed_runtime :: "identity \<Rightarrow> bytes \<Rightarrow> relay_runtime" where
  "embed_runtime i wrap_secret = \<lparr>rr_role = ''both'', rr_wrap_secret = Some wrap_secret, rr_name = id_name i,
     require_tickets = False, require_capabilities = False, rr_issuance_public = [], rr_issuance_private = [], rr_tls_spki = []\<rparr>"

definition relay_embed ::
    "nat \<Rightarrow> prims \<Rightarrow> 'n http \<Rightarrow> int \<Rightarrow> str \<Rightarrow> int \<Rightarrow> str option \<Rightarrow> bool \<Rightarrow> bool \<Rightarrow>
     ('n client, relay_runtime \<times> str \<times> bool \<times> int) meth" where
  "relay_embed n P H now host port sockname started fan_out = m_bind require_identity (\<lambda>i.
     m_bind (draw 32) (\<lambda>wrap_secret. m_bind (draw 32) (\<lambda>fresh.
     let (tls_spki, i) = endpoint_tls_spki_sha256 P fresh i;
         (url, may_be_remote) = reachable_embed_url host port (local_lan_ip sockname) in
     if \<not> started then m_raise exit_error else
     m_bind (verify_dialable_url P H url (Some tls_spki)) (\<lambda>dialable.
     let active = dialable \<and> may_be_remote in
     m_bind (if fan_out then broadcast_presence n P H now i [presence_for_operator (id_name i) url active now] None
       else m_return 0) (\<lambda>pushed.
     m_return (embed_runtime i wrap_secret, url, active, pushed))))))"

end
