(* ===== verification/OperatorProps.thy ===== *)
theory OperatorProps
  imports Operator CoreProps
begin

text \<open>
  What a relay operator's bundle is good for: the manifest is read as it was written, and the two
  identities that \<open>create_relay_operator\<close> pairs start matching sessions.
\<close>

section \<open>The owner's process and a directory\<close>

lemma on_owner_Inr: "on_owner m w = (Inr x, w') \<longleftrightarrow> (\<exists>c. m (ow_client w) = (Inr x, c) \<and> w' = w\<lparr>ow_client := c\<rparr>)"
  by (auto simp: on_owner_def m_zoom_def split: prod.splits)

lemma on_dir_Inr: "on_dir home m w = (Inr x, w') \<longleftrightarrow>
    (\<exists>d. m (dir_at w home) = (Inr x, d) \<and> w' = w\<lparr>ow_dirs := dict_put home d (ow_dirs w)\<rparr>)"
  by (auto simp: on_dir_def split: prod.splits)

lemma dir_at_simps [simp]:
  "dir_at (w\<lparr>ow_client := c\<rparr>) home = dir_at w home"
  "dir_at (w\<lparr>ow_dirs := dict_put home d ds\<rparr>) home = d"
  by (simp_all add: dir_at_def)

lemma dir_store_Inr: "on_dir_store m d = (Inr x, d') \<longleftrightarrow> (\<exists>t. m (od_store d) = (Inr x, t) \<and> d' = d\<lparr>od_store := t\<rparr>)"
  by (auto simp: on_dir_store_def m_zoom_def split: prod.splits)

section \<open>The manifest\<close>

definition manifest_ok :: "operator_manifest \<Rightarrow> bool" where
  "manifest_ok m \<longleftrightarrow> rstrip_slash (mf_public_url m) = mf_public_url m \<and> (mf_issuance_public m = [] \<longrightarrow> mf_issuance_sha256 m = [])"

lemma manifest_roundtrip: "manifest_ok m \<Longrightarrow> manifest_from_dict (manifest_to_dict m) = Inr m"
  by (cases m) (auto simp: manifest_ok_def manifest_from_dict_def manifest_to_dict_def jget_def jget_default_def
      opt_res_def when_item_def)

lemma rstrip_slash_twice [simp]: "rstrip_slash (rstrip_slash u) = rstrip_slash u"
  by (simp add: rstrip_slash_def)

lemma write_manifest_Inr:
  assumes "write_manifest home m d = (Inr x, d')" "manifest_ok m"
  shows "load_relay_operator_manifest d' = Inr m" "od_store d' = od_store d"
    "od_issuance_key d' = od_issuance_key d" "od_issuance_public d' = od_issuance_public d"
  using assms manifest_roundtrip [OF assms(2)]
  by (auto simp: write_manifest_def write_relay_env_def write_deploy_compose_def m_bind_def load_relay_operator_manifest_def)

section \<open>The two contacts\<close>

text \<open>Two contacts over one secret, whose ratchets are each other's mirror image.\<close>

definition mirrored :: "contact \<Rightarrow> contact \<Rightarrow> bool" where
  "mirrored c c' \<longleftrightarrow> master_secret c = master_secret c' \<and> c_conversation_id c = c_conversation_id c' \<and>
     (case (c_ratchet c, c_ratchet c') of
        (Some r, Some r') \<Rightarrow> send_chain_key r = recv_chain_key r' \<and> recv_chain_key r = send_chain_key r' \<and> root_key r = root_key r'
      | _ \<Rightarrow> False)"

lemma establish_mirrored:
  assumes "x25519_commutes P" "length (agreement_private a) = 32" "length (agreement_private b) = 32" "id_name a \<noteq> id_name b"
    and "establish P r a (id_name b) (export_public_bundle P b) = Inr c"
    and "establish P r' b (id_name a) (export_public_bundle P a) = Inr c'"
  shows "mirrored c c'"
proof -
  from assms(1-3) obtain s where s: "x25519_shared_secret P (agreement_private a) (agreement_public_bytes P b) = Inr s"
    "x25519_shared_secret P (agreement_private b) (agreement_public_bytes P a) = Inr s"
    by (fastforce simp: x25519_commutes_def x25519_shared_secret_def agreement_public_bytes_def)
  have "id_name a < id_name b \<longleftrightarrow> \<not> id_name b < id_name a" using assms(4) by auto
  with assms(5,6) show ?thesis
    by (auto simp: establish_def export_public_bundle_def s opt_res_def mirrored_def from_master_def Let_def
        conversation_id_for_def)
qed

lemma establish_name: "establish P r a name bundle = Inr c \<Longrightarrow> c_name c = name"
  by (auto simp: establish_def and_then_def Let_def split: sum.splits)

lemma paired_contact_Inr:
  assumes "paired_contact P local remote profile s = (Inr c, t)"
  obtains r c0 where "establish P r local (id_name remote) (export_public_bundle P remote) = Inr c0"
    "c = apply_peer_profile_ack profile (c0\<lparr>c_profile := Some profile\<rparr>)" "cl_store t = cl_store s"
  using assms by (fastforce simp: paired_contact_def m_bind_Inr draw_def m_of_def)

section \<open>What is made\<close>

lemma draw_Inr: "draw n s = (Inr x, t) \<Longrightarrow> length x = n \<and> cl_store t = cl_store s"
  by (auto simp: draw_def)

lemma generate_Inr:
  assumes "generate_identity name kem pq s = (Inr i, t)"
  shows "id_name i = name" "length (signing_private i) = 32" "length (agreement_private i) = 32" "tls_ecdsa_private i \<noteq> None"
  using assms by (auto simp: generate_identity_def m_bind_Inr dest!: draw_Inr)

lemma generate_store: "generate_identity name kem pq s = (Inr i, t) \<Longrightarrow> cl_store t = cl_store s"
  by (auto simp: generate_identity_def m_bind_Inr dest!: draw_Inr)

lemma created_fields:
  "dp_relays (fst (create_delivery_profile P fresh i ds hints es salt classes policy ttl version now)) = ds"
  "dp_version (fst (create_delivery_profile P fresh i ds hints es salt classes policy ttl version now)) =
     (case version of Some v \<Rightarrow> if v = 0 then 1 else v | None \<Rightarrow> 1)"
  by (cases "endpoint_tls_spki_sha256 P fresh i", simp add: create_delivery_profile_def Let_def)+

lemma default_profile_Inr:
  assumes "default_profile P now i ds version s = (Inr p, t)"
  shows "dp_relays p = ds" "dp_version p = (case version of Some v \<Rightarrow> if v = 0 then 1 else v | None \<Rightarrow> 1)"
  using assms by (auto simp: default_profile_def m_bind_Inr created_fields)

lemma bootstrap_keeps_dirs:
  assumes "m_catch (m_bind (on_owner m) (\<lambda>_. m_return ())) caught (\<lambda>e. m_return ()) w = (x, w')"
  shows "dir_at w' home = dir_at w home"
  using assms
  by (auto simp: m_catch_def m_bind_def on_owner_def m_zoom_def split: prod.splits sum.splits if_splits)

lemma new_operator_Inr:
  assumes "new_operator P pem kem pq home name w = (Inr (operator, wrap, pub), w')"
  shows "id_name operator = name" "length (agreement_private operator) = 32" "tls_ecdsa_private operator \<noteq> None" "length wrap = 32"
    "ow_root w' = ow_root w" "cl_store (ow_client w') = cl_store (ow_client w)"
    "\<exists>key. length key = 32 \<and> pub = p_ed_pub P key \<and> od_issuance_key (dir_at w' home) = Some key"
    "od_issuance_public (dir_at w' home) = Some pub"
    "od_store (dir_at w' home) = snd (save_identity P operator empty_store)"
proof -
  from assms obtain c0 c1 c2 c3 c4 key where g: "generate_identity name kem pq c0 = (Inr operator, c1)" "c0 = ow_client w"
    and d: "draw 32 c1 = (Inr wrap, c2)" "draw 32 c2 = (Inr key, c3)" "pub = p_ed_pub P key"
    and w': "ow_client w' = c3" "ow_root w' = ow_root w" "od_issuance_key (dir_at w' home) = Some key"
      "od_issuance_public (dir_at w' home) = Some pub" "od_store (dir_at w' home) = snd (save_identity P operator empty_store)"
    by (auto simp: new_operator_def m_bind_Inr on_owner_Inr on_dir_Inr dir_store_Inr write_issuance_keys_def Let_def
      save_identity_def new_operator_dir_def)
  note draws = d(1,2) [THEN draw_Inr]
  show "id_name operator = name" "length (agreement_private operator) = 32" "tls_ecdsa_private operator \<noteq> None"
    using generate_Inr [OF g(1)] by simp_all
  show "length wrap = 32" "cl_store (ow_client w') = cl_store (ow_client w)"
    using draws generate_store [OF g(1)] g(2) w'(1) by simp_all
  show "\<exists>key. length key = 32 \<and> pub = p_ed_pub P key \<and> od_issuance_key (dir_at w' home) = Some key"
    using draws d(3) w'(3) by blast
  show "ow_root w' = ow_root w" "od_issuance_public (dir_at w' home) = Some pub"
    "od_store (dir_at w' home) = snd (save_identity P operator empty_store)"
    by (rule w')+
qed

lemma save_contact_holds: "save_contact P c s = (Inr u, t) \<Longrightarrow> holds_contact P c (db t)"
  by (auto simp: save_contact_eq holds_contact_def contact_tbl.get_replace)

lemma default_profile_store: "default_profile P now i ds version s = (x, t) \<Longrightarrow> cl_store t = cl_store s"
  by (auto simp: default_profile_def m_bind_def draw_def)

lemma owner_profile_store: "owner_local_profile P now i s = (x, t) \<Longrightarrow> cl_store t = cl_store s"
  by (auto simp: owner_local_profile_def m_bind_def on_store_def m_zoom_def split: sum.splits option.splits dest: default_profile_store)

lemma paired_contact_store: "paired_contact P i j p s = (x, t) \<Longrightarrow> cl_store t = cl_store s"
  by (auto simp: paired_contact_def m_bind_def draw_def m_of_def split: sum.splits)

lemma owner_contact_saved:
  "on_store (save_contact P c) s = (Inr u, t) \<longleftrightarrow> t = s\<lparr>cl_store := snd (save_contact P c (cl_store s))\<rparr>"
  by (auto simp: on_store_def m_zoom_def save_contact_eq)

lemma save_contact_rows: "holds_contact P c (db (snd (save_contact P c s)))" "grants (db (snd (save_contact P c s))) = grants (db s)"
  by (simp_all add: save_contact_eq holds_contact_def contact_tbl.get_replace)

lemma pair_operator_Inr:
  fixes w w' :: "'n owner_host"
  assumes "pair_operator P now home owner operator descriptor w = (Inr c, w')"
  obtains p p' c' and s t s' t' :: "'n client" where "dp_relays p = [descriptor]" "dp_version p = 1"
    "paired_contact P owner operator p s = (Inr c, t)" "paired_contact P operator owner p' s' = (Inr c', t')"
    "holds_contact P c' (db (od_store (dir_at w' home)))" "ow_root w' = ow_root w"
    "od_issuance_key (dir_at w' home) = od_issuance_key (dir_at w home)"
    "od_issuance_public (dir_at w' home) = od_issuance_public (dir_at w home)"
    "holds_contact P c (db (cl_store (ow_client w')))"
    "grants (db (cl_store (ow_client w'))) = grants (db (cl_store (ow_client w)))"
proof -
  from assms obtain p p' c' and s t s' t' u :: "'n client"
    where "default_profile P now operator [descriptor] None (ow_client w) = (Inr p, u)"
      "paired_contact P owner operator p s = (Inr c, t)" "paired_contact P operator owner p' s' = (Inr c', t')"
      "holds_contact P c' (db (od_store (dir_at w' home)))" "ow_root w' = ow_root w"
      "od_issuance_key (dir_at w' home) = od_issuance_key (dir_at w home)"
      "od_issuance_public (dir_at w' home) = od_issuance_public (dir_at w home)"
      "holds_contact P c (db (cl_store (ow_client w')))"
      "grants (db (cl_store (ow_client w'))) = grants (db (cl_store (ow_client w)))"
    by (auto simp: pair_operator_def m_bind_Inr on_owner_Inr on_dir_Inr dir_store_Inr save_local_profile_def
        owner_contact_saved save_contact_rows owner_profile_store default_profile_store paired_contact_store dest!: save_contact_holds)
  with default_profile_Inr [of P now operator "[descriptor]" None] that show thesis by fastforce
qed

lemma create_run:
  fixes w w' :: "'n owner_host"
  assumes "create_relay_operator P H pem kem pq now name public_url port force w = (Inr b, w')"
    and "home = relay_operator_home (ow_root w) name"
  obtains owner s operator wrap pub and w1 w2 w3 w4 :: "'n owner_host" where
    "load_identity (cl_store (ow_client w)) = (Inr (Some owner), s)" "name \<noteq> id_name owner"
    "new_operator P pem kem pq home name w1 = (Inr (operator, wrap, pub), w2)"
    "pair_operator P now home owner operator (bu_descriptor b) w2 = (Inr (bu_owner_contact b), w3)"
    "bu_descriptor b = fst (relay_descriptor_for_operator P [] operator ''both'' (rstrip_slash public_url) wrap None)"
    "bu_manifest b = \<lparr>mf_version = MANIFEST_VERSION, mf_operator_name = name, mf_owner_name = id_name owner,
       mf_public_url = rstrip_slash public_url, mf_host_port = port, mf_wrap_secret = wrap, mf_operator_home = ''relays/'' @ name,
       mf_created_at = now, mf_issuance_public = b64encode pub, mf_issuance_sha256 = to_hex (p_sha256 P pub)\<rparr>"
    "on_dir home (write_manifest home (bu_manifest b)) w3 = (Inr (), w4)"
    "m_catch (m_bind (on_owner (bootstrap_operator_capabilities P H now owner name (rstrip_slash public_url))) (\<lambda>_. m_return ()))
       (\<lambda>e. is_runtime_error e \<or> is_value_error e \<or> is_os_error e) (\<lambda>e. m_return ()) w4 = (Inr (), w')"
  using assms
  by (auto simp: create_relay_operator_def m_bind_Inr m_get_def Let_def on_owner_Inr opt_res_def m_of_def on_store_def m_zoom_def
      split: option.splits if_splits prod.splits)

lemma manifest_in_bundle:
  fixes w3 w4 w' :: "'n owner_host"
  assumes "manifest_ok m" "on_dir home (write_manifest home m) w3 = (Inr (), w4)"
    and boot: "m_catch (m_bind (on_owner k) (\<lambda>_. m_return ())) caught (\<lambda>e. m_return ()) w4 = (Inr (), w')"
  shows "load_relay_operator_manifest (dir_at w' home) = Inr m" "od_store (dir_at w' home) = od_store (dir_at w3 home)"
    "od_issuance_key (dir_at w' home) = od_issuance_key (dir_at w3 home)"
    "od_issuance_public (dir_at w' home) = od_issuance_public (dir_at w3 home)"
  using assms(1,2) by (auto simp: bootstrap_keeps_dirs [OF boot] on_dir_Inr write_manifest_Inr)

text \<open>The owner and its operator after \<open>pair_operator\<close>: the owner may publish the operator's descriptor.\<close>

lemma operator_paired:
  fixes w1 w2 w3 :: "'n owner_host"
  assumes P: "x25519_commutes P" "hash_lengths P"
    and owner: "length (agreement_private owner) = 32" "name \<noteq> id_name owner"
    and n: "new_operator P pem kem pq home name w1 = (Inr (operator, wrap, pub), w2)"
    and p: "pair_operator P now home owner operator r w2 = (Inr c, w3)"
    and r: "r = fst (relay_descriptor_for_operator P [] operator ''both'' (rstrip_slash url) wrap None)"
  shows "authorized_publish_relays (id_name owner) [c] None = Inr [r]" "acked_relays c = [name]" "acked_version c = 1"
    "rd_url r = rstrip_slash url" "rd_wrap_secret r = wrap"
    "\<exists>c'. holds_contact P c' (db (od_store (dir_at w3 home))) \<and> c_name c' = id_name owner \<and> mirrored c c'"
    "od_issuance_key (dir_at w3 home) = od_issuance_key (dir_at w2 home)"
    "od_issuance_public (dir_at w3 home) = od_issuance_public (dir_at w2 home)"
proof -
  note N = new_operator_Inr [OF n]
  obtain pr p' c' and u t u' t' :: "'n client" where
    pr: "dp_relays pr = [r]" "dp_version pr = 1" and
    pc: "paired_contact P owner operator pr u = (Inr c, t)" "paired_contact P operator owner p' u' = (Inr c', t')"
    and h: "holds_contact P c' (db (od_store (dir_at w3 home)))"
    and keys: "od_issuance_key (dir_at w3 home) = od_issuance_key (dir_at w2 home)"
      "od_issuance_public (dir_at w3 home) = od_issuance_public (dir_at w2 home)"
    by (rule pair_operator_Inr [OF p]) blast
  obtain q c0 where c0: "establish P q owner (id_name operator) (export_public_bundle P operator) = Inr c0"
      "c = apply_peer_profile_ack pr (c0\<lparr>c_profile := Some pr\<rparr>)" using pc(1) by (rule paired_contact_Inr)
  obtain q' c0' where c0': "establish P q' operator (id_name owner) (export_public_bundle P owner) = Inr c0'"
      "c' = apply_peer_profile_ack p' (c0'\<lparr>c_profile := Some p'\<rparr>)" using pc(2) by (rule paired_contact_Inr)
  have "mirrored c0 c0'"
    using establish_mirrored [OF P(1) owner(1) N(2) _ c0(1) c0'(1)] owner(2) N(1) by simp
  then have mir: "mirrored c c'" by (simp add: c0 c0' mirrored_def apply_peer_profile_ack_def)
  have names: "c_name c = name" "c_name c' = id_name owner"
    using c0 c0' N(1) by (auto simp: apply_peer_profile_ack_def establish_name)
  have rd: "rd_name r = name" "rd_role r = ''both''" "rd_url r = rstrip_slash url"
    "rd_wrap_secret r = wrap" "rd_tls_spki r \<noteq> []"
    using N(1,3) P(2)
    by (auto simp: r relay_descriptor_for_operator_def endpoint_tls_spki_sha256_def ensure_identity_tls_key_def hash_lengths_def
        split: prod.splits option.splits) (metis list.size(3) zero_neq_numeral)+
  have auth: "authorized_publish_relays (id_name owner) [c] None = Inr [r]"
    using rd names(1) pr(1)
    by (simp add: authorized_publish_relays_def relays_operated_by_contact_def c0(2) apply_peer_profile_ack_def with_operator_tls_def)
  have ack: "acked_relays c = [name]" "acked_version c = 1"
    using rd pr by (simp_all add: c0(2) apply_peer_profile_ack_def relay_names_from_profile_def mailbox_descriptors_def)
  show "authorized_publish_relays (id_name owner) [c] None = Inr [r]" "acked_relays c = [name]" "acked_version c = 1"
    "rd_url r = rstrip_slash url" "rd_wrap_secret r = wrap" by (fact auth ack rd)+
  show "\<exists>c'. holds_contact P c' (db (od_store (dir_at w3 home))) \<and> c_name c' = id_name owner \<and> mirrored c c'"
    using h names(2) mir by blast
  show "od_issuance_key (dir_at w3 home) = od_issuance_key (dir_at w2 home)"
    "od_issuance_public (dir_at w3 home) = od_issuance_public (dir_at w2 home)" by (fact keys)+
qed


section \<open>No grant for the owner\<close>

lemma store_keeps_net [keeps_rules]: "keeps cl_net (on_store m)"
  by (auto simp: keeps_def on_store_def m_zoom_def split: prod.splits)

lemma draw_keeps_net [keeps_rules]: "keeps cl_net (draw n)"
  by (auto simp: keeps_def draw_def)

lemma params_keep_net [keeps_rules]: "keeps cl_net (capability_material_params name profile)"
  unfolding capability_material_params_def by (intro keeps_rules)

text \<open>A contact without an id gets no ticket, so nothing is asked of the relay.\<close>

lemma no_id_no_issue:
  assumes "contact_id c = None" "issue_capability_from_relay P H now url name i c permissions key profile s = (x, t)"
  shows "isl x \<and> cl_net t = cl_net s"
proof -
  have stops: "m_bind (m_of (Inl e)) k = m_raise e" for e and k :: "'b \<Rightarrow> ('s, 'c) meth"
    by (rule ext) (simp add: m_bind_def)
  have "isl x" using assms
    by (auto simp: issue_capability_from_relay_def bootstrap_ticket_def m_bind_def split: prod.splits sum.splits)
  moreover have "keeps cl_net (issue_capability_from_relay P H now url name i c permissions key profile)"
    unfolding issue_capability_from_relay_def bootstrap_ticket_def assms(1) option.case stops by (intro keeps_rules)
  ultimately show ?thesis using assms(2) by (auto dest: keepsD)
qed

lemma no_id_no_grant:
  assumes "contact_id c = None" "provision_contact_relay_capabilities P H now i c url name s = (x, t)"
  shows "(\<forall>g. x \<noteq> Inr (Some g)) \<and> cl_net t = cl_net s"
proof -
  have "isl y \<and> cl_net u = cl_net s"
    if "issue_capability_from_relay P H now url' name' i c permissions key profile s = (y, u)" for url' name' permissions key profile y u
    by (rule no_id_no_issue [OF assms(1) that])
  with assms(2) show ?thesis
    by (fastforce simp: provision_contact_relay_capabilities_def m_catch_def m_bind_def Let_def
        split: option.splits list.splits prod.splits sum.splits if_splits)
qed

lemma bootstrap_no_grant:
  assumes "contact_id c = None" "fst (get_contact P name (cl_store s)) = Inr (Some c)"
    "bootstrap_operator_capabilities P H now i name url s = (x, t)"
  shows "(\<forall>g. x \<noteq> Inr (Some g)) \<and> cl_net t = cl_net s"
proof -
  obtain u where u: "on_store (get_contact P name) s = (Inr (Some c), u)" "cl_net u = cl_net s"
    using assms(2) by (cases "get_contact P name (cl_store s)") (auto simp: on_store_def m_zoom_def)
  with assms(3) have "provision_contact_relay_capabilities P H now i c (Some url) (Some name) u = (x, t)"
    by (simp add: bootstrap_operator_capabilities_def m_bind_def)
  with no_id_no_grant [OF assms(1)] u(2) show ?thesis by metis
qed

lemma owner_identity_state: "owner_identity w = (x, w') \<Longrightarrow> w' = w"
  by (auto simp: owner_identity_def on_owner_def m_zoom_def require_identity_def m_bind_def on_store_def load_identity_def
      split: prod.splits sum.splits option.splits)

lemma operator_at_state: "operator_at home w = (x, w') \<Longrightarrow> ow_client w' = ow_client w"
  by (auto simp: operator_at_def or_exit_def m_catch_def manifest_at_def m_bind_def on_dir_def
      split: prod.splits sum.splits option.splits if_splits)


section \<open>A new address\<close>

lemma profile_file_kept [keeps_rules]: "keeps profile_file (get_contact P n)" "keeps profile_file (save_contact P c)"
  by (auto simp: keeps_def get_contact_def save_contact_eq m_bind_def m_of_def split: option.splits sum.splits)

lemma dir_profile_kept [keeps_rules]:
  "keeps (\<lambda>w. profile_file (od_store (dir_at w home))) (on_owner m)"
  "keeps profile_file k \<Longrightarrow> keeps (\<lambda>w. profile_file (od_store (dir_at w home))) (on_dir home (on_dir_store k))"
  by (auto simp: keeps_def on_owner_def on_dir_def on_dir_store_def m_zoom_def split: prod.splits) (metis snd_conv)+

lemma descriptor_fields:
  "rd_url (fst (relay_descriptor_for_operator P fresh i role url wrap name)) = rstrip_slash url"
  "rd_wrap_secret (fst (relay_descriptor_for_operator P fresh i role url wrap name)) = wrap"
  by (simp_all add: relay_descriptor_for_operator_def case_prod_beta)

lemma refresh_contacts_keep: "keeps (\<lambda>w. profile_file (od_store (dir_at w home))) (refresh_contacts P home m p)"
  unfolding refresh_contacts_def by (intro keeps_rules)

text \<open>
  What \<open>refresh_operator_public_url\<close> leaves in the operator's directory: the old manifest with the new
  address, and a profile one version on that advertises just the relay returned.
\<close>

lemma operator_refreshed:
  fixes w w' :: "'n owner_host"
  assumes run: "refresh_operator_public_url P now home public_url w = (Inr r, w')"
    and m: "load_relay_operator_manifest (dir_at w home) = Inr m" "mf_issuance_public m \<noteq> []"
    and p: "load_local_profile P (od_store (dir_at w home)) = Inr (Some p)" "0 < dp_version p"
  shows "load_relay_operator_manifest (dir_at w' home) = Inr (m\<lparr>mf_public_url := rstrip_slash public_url\<rparr>)"
    "rd_url r = rstrip_slash public_url" "rd_wrap_secret r = mf_wrap_secret m"
    "\<exists>q. profile_file (od_store (dir_at w' home)) = Some (profile_to_b64 P q) \<and> dp_version q = dp_version p + 1 \<and> dp_relays q = [r]"
proof -
  let ?url = "rstrip_slash public_url"
  define m' where "m' = m\<lparr>mf_public_url := ?url\<rparr>"
  obtain q i' w2 w3 w4 and s t :: "'n client" where
    r: "rd_url r = ?url" "rd_wrap_secret r = mf_wrap_secret m"
    and q: "default_profile P now i' [r] (Some (dp_version p + 1)) s = (Inr q, t)"
    and mid: "refresh_contacts P home m q w2 = (Inr (), w3)"
    and d: "profile_file (od_store (dir_at w2 home)) = Some (profile_to_b64 P q)"
    and wr: "on_dir home (write_manifest home m') w3 = (Inr (), w4)" "w' = w4"
    using run m(1) p(1)
    by (auto simp: refresh_operator_public_url_def m_bind_Inr manifest_at_def m_get_def m_of_def on_owner_Inr
        on_dir_Inr [of _ "on_dir_store _"] dir_store_Inr load_identity_def Let_def save_local_profile_def m'_def
        opt_res_def case_prod_beta descriptor_fields split: option.splits sum.splits)
  note d = d [folded keepsD [OF refresh_contacts_keep mid]]
  have ok: "manifest_ok m'" using m(2) by (simp add: m'_def manifest_ok_def)
  from wr have "load_relay_operator_manifest (dir_at w' home) = Inr m'" "od_store (dir_at w' home) = od_store (dir_at w3 home)"
    using write_manifest_Inr [OF _ ok] by (auto simp: on_dir_Inr)
  then show "load_relay_operator_manifest (dir_at w' home) = Inr (m\<lparr>mf_public_url := ?url\<rparr>)"
    "\<exists>q. profile_file (od_store (dir_at w' home)) = Some (profile_to_b64 P q) \<and> dp_version q = dp_version p + 1 \<and> dp_relays q = [r]"
    using d default_profile_Inr [OF q] p(2) by (auto simp: m'_def)
  show "rd_url r = ?url" "rd_wrap_secret r = mf_wrap_secret m" by (rule r)+
qed

section \<open>One bundle\<close>

lemma new_operator_total: "\<exists>operator wrap pub w'. new_operator P pem kem pq home name w = (Inr (operator, wrap, pub), w')"
  by (simp add: new_operator_def generate_identity_def write_issuance_keys_def m_bind_def on_owner_def on_dir_def on_dir_store_def
      m_zoom_def draw_def save_identity_def Let_def)

lemma paired_contact_total:
  assumes "x25519_commutes P" "length (agreement_private i) = 32" "length (agreement_private j) = 32"
  shows "\<exists>c t. paired_contact P i j p s = (Inr c, t)"
proof -
  obtain z where "x25519_shared_secret P (agreement_private i) (agreement_public_bytes P j) = Inr z"
    using assms by (fastforce simp: x25519_commutes_def x25519_shared_secret_def agreement_public_bytes_def)
  then show ?thesis
    by (simp add: paired_contact_def m_bind_def draw_def establish_def export_public_bundle_def opt_res_def Let_def m_of_def)
qed

lemma pair_operator_total:
  assumes "x25519_commutes P" "length (agreement_private owner) = 32" "length (agreement_private operator) = 32"
    and "profile_file (cl_store (ow_client w)) = None"
  shows "\<exists>c w'. pair_operator P now home owner operator d w = (Inr c, w')"
proof -
  have fresh: "\<exists>p t. default_profile P now i ds v s = (Inr p, t)" for i ds v s
    by (simp add: default_profile_def m_bind_def draw_def)
  have own: "\<exists>p t. owner_local_profile P now i s = (Inr p, t)" if "profile_file (cl_store s) = None" for i and s :: "'b client"
    using that fresh by (simp add: owner_local_profile_def m_bind_def on_store_def m_zoom_def load_local_profile_def)
  obtain p s1 where 1: "default_profile P now operator [d] None (ow_client w) = (Inr p, s1)" using fresh by blast
  obtain p' s2 where 2: "owner_local_profile P now owner s1 = (Inr p', s2)"
    using own [of s1 owner] assms(4) default_profile_store [OF 1] by auto
  obtain c s3 where 3: "paired_contact P owner operator p s2 = (Inr c, s3)"
    using paired_contact_total assms(1-3) by blast
  obtain c' s4 where 4: "paired_contact P operator owner p' (s3\<lparr>cl_store := snd (save_contact P c (cl_store s3))\<rparr>) = (Inr c', s4)"
    using paired_contact_total assms(1-3) by blast
  show ?thesis
    using 1 2 3 4
    by (simp add: pair_operator_def m_bind_def on_owner_def on_dir_def on_dir_store_def m_zoom_def save_local_profile_def
        on_store_def save_contact_eq)
qed

definition demo_owner :: "unit owner_host" where
  "demo_owner = \<lparr>ow_client = \<lparr>cl_store = snd (save_identity demo_prims demo_inviter empty_store), cl_contact = demo_contact,
     cl_env = [], cl_relays = None, cl_probes = [], cl_tape = (\<lambda>k. 0), cl_drawn = 0, cl_net = ()\<rparr>,
     ow_root = ''/home/ann'', ow_dirs = []\<rparr>"

definition demo_url :: str where "demo_url = ''https://relay''"

definition demo_down :: "unit http" where
  "demo_down call = m_raise (HttpError ''connection refused'')"

lemma demo_inviter_loaded: "load_identity (cl_store (ow_client demo_owner)) = (Inr (Some demo_inviter), cl_store (ow_client demo_owner))"
  by (simp add: demo_owner_def load_identity_def save_identity_def demo_inviter_def identity_ok_def identity_from_to_dict)

lemma demo_url_base: "endpoint_base_url demo_url = Inr demo_url" "rstrip_slash demo_url = demo_url"
  by code_simp+

lemma created_contact_ok:
  assumes "hkdf_lengths P" "name_ok (id_name j)"
    and "paired_contact P i j p s = (Inr c, t)" "dp_relays p = [d]" "desc_ok d" "rd_role d = ''both''" "rd_name d = id_name j"
  shows "contact_ok c" "c_name c = id_name j" "c_profile c = Some p" "contact_id c = None"
proof -
  obtain r c0 where c0: "establish P r i (id_name j) (export_public_bundle P j) = Inr c0"
    "c = apply_peer_profile_ack p (c0\<lparr>c_profile := Some p\<rparr>)" using assms(3) by (rule paired_contact_Inr)
  then obtain m f k where "c_ratchet c0 = Some (from_master P m f False k)" "contact_id c0 = None"
    by (auto simp: establish_def and_then_def Let_def split: sum.splits)
  with c0 assms from_master_inv [OF assms(1), of m f False k] show "contact_ok c" "contact_id c = None"
    by (simp_all add: contact_ok_def apply_peer_profile_ack_def profile_ok_def ratchet_inv_def relay_names_from_profile_def
        mailbox_descriptors_def)
  from c0 show "c_name c = id_name j" "c_profile c = Some p"
    by (simp_all add: apply_peer_profile_ack_def establish_name)
qed

text \<open>Nothing that is raised before the ticket gets past the handler, if the address has a pin.\<close>

lemma bootstrap_gives_up:
  assumes "contact_id c = None" "get_contact P name (cl_store s) = (Inr (Some c), cl_store s)"
    and "c_profile c = Some p" "dp_relays p = [d]" "rd_role d = ''both''" "length (rd_tls_spki d) = 32"
    and "endpoint_base_url (rd_url d) = Inr u" "endpoint_base_url url = Inr u" "rstrip_slash url = url" "url \<noteq> []"
    and "load_capability_grant name (cl_store s) = None" "name \<noteq> []"
  shows "\<exists>t. bootstrap_operator_capabilities P H now i name url s = (Inr None, t)"
proof -
  have pin: "relay_tls_pin P url (Some c) (cl_store s) = (Inr (rd_tls_spki d), cl_store s)"
    using assms(3-8)
    by (auto simp: relay_tls_pin_def resolve_tls_pin_for_url_def m_bind_def pin_from_profile_def)
  have bytes: "\<exists>b. int_to_bytes 1 8 = Inr b" by (simp add: int_to_bytes_def)
  have "\<exists>t. issue_capability_from_relay P H now url name i c [''post'', ''fetch''] None None s =
      (Inl (ValueError ''contact missing contact_id for capability bootstrap''), t)"
    using bytes pin assms(1,11)
    by (auto simp: issue_capability_from_relay_def m_bind_def on_store_def m_zoom_def capability_material_params_def
        descriptor_for_relay_def draw_def derive_capability_material_def bootstrap_ticket_def Let_def)
  then show ?thesis
    using assms(2-5,9,10,12)
    by (auto simp: bootstrap_operator_capabilities_def provision_contact_relay_capabilities_def m_bind_def on_store_def m_zoom_def
        mailbox_descriptors_def m_catch_def Let_def split: list.splits)
qed

abbreviation demo_create :: "unit http \<Rightarrow> (unit owner_host, operator_bundle) meth" where
  "demo_create H \<equiv> create_relay_operator demo_prims H (\<lambda>i. ([], [])) ([], []) ([], []) 0 ''ops'' demo_url 8090 False"

lemma demo_created:
  "\<exists>b w' (v :: unit owner_host). demo_create H demo_owner = (Inr b, w') \<and>
     get_contact demo_prims ''ops'' (cl_store (ow_client v)) = (Inr (Some (bu_owner_contact b)), cl_store (ow_client v))"
proof -
  let ?home = "relay_operator_home ''/home/ann'' ''ops''"
  have root: "ow_root demo_owner = ''/home/ann''" "ow_dirs demo_owner = []" by (simp_all add: demo_owner_def)
  have unknown: "get_contact demo_prims ''ops'' (cl_store (ow_client demo_owner)) = (Inr None, cl_store (ow_client demo_owner))"
    by (simp add: get_contact_def demo_owner_def save_identity_def empty_store_def empty_db_def tbl_get_def)
  obtain operator wrap pub w2 where n: "new_operator demo_prims (\<lambda>i. ([], [])) ([], []) ([], []) ?home ''ops'' demo_owner =
      (Inr (operator, wrap, pub), w2)" using new_operator_total by blast
  note N = new_operator_Inr [OF n]
  have op: "id_name operator = ''ops''" "tls_ecdsa_private operator \<noteq> None" "length (agreement_private operator) = 32"
    by (rule N)+
  have inv: "length (agreement_private demo_inviter) = 32" "id_name demo_inviter = ''ann''"
    by (simp_all add: demo_inviter_def)
  define d where "d = fst (relay_descriptor_for_operator demo_prims [] operator ''both'' demo_url wrap None)"
  have d: "rd_name d = ''ops''" "rd_role d = ''both''" "rd_url d = demo_url" "length (rd_tls_spki d) = 32" "desc_ok d"
    using op(1,2) demo_hashes demo_url_base(2)
    by (auto simp: d_def relay_descriptor_for_operator_def endpoint_tls_spki_sha256_def ensure_identity_tls_key_def
        hash_lengths_def desc_ok_def split: option.splits)
  have "profile_file (cl_store (ow_client w2)) = None"
    using N(6) by (simp add: demo_owner_def save_identity_def empty_store_def)
  then obtain c w3 where p: "pair_operator demo_prims 0 ?home demo_inviter operator d w2 = (Inr c, w3)"
    using pair_operator_total [OF demo_x25519_commutes inv(1) op(3)] by blast
  obtain pr p' c' and u t u' t' :: "unit client" where pr: "dp_relays pr = [d]" "paired_contact demo_prims demo_inviter operator pr u = (Inr c, t)"
    and h: "holds_contact demo_prims c (db (cl_store (ow_client w3)))" "grants (db (cl_store (ow_client w3))) = grants (db (cl_store (ow_client w2)))"
    by (rule pair_operator_Inr [OF p]) blast
  have name: "name_ok (id_name operator)" unfolding op(1) by code_simp
  note C = created_contact_ok [OF demo_hkdf name pr(2,1) d(5,2)] 
  have c: "contact_ok c" "c_name c = ''ops''" "c_profile c = Some pr" "contact_id c = None"
    using C d(1) op(1) by simp_all
  define m where "m = \<lparr>mf_version = MANIFEST_VERSION, mf_operator_name = ''ops'', mf_owner_name = id_name demo_inviter,
    mf_public_url = demo_url, mf_host_port = 8090, mf_wrap_secret = wrap, mf_operator_home = ''relays/'' @ ''ops'',
    mf_created_at = 0, mf_issuance_public = b64encode pub, mf_issuance_sha256 = to_hex (p_sha256 demo_prims pub)\<rparr>"
  obtain w4 where w4: "on_dir ?home (write_manifest ?home m) w3 = (Inr (), w4)" "ow_client w4 = ow_client w3"
    by (auto simp: on_dir_def write_manifest_def write_relay_env_def write_deploy_compose_def m_bind_def)
  have known: "get_contact demo_prims ''ops'' (cl_store (ow_client w4)) = (Inr (Some c), cl_store (ow_client w4))"
    using get_contact_held [OF demo_cbor c(1), of "cl_store (ow_client w4)"] h(1) c(2) w4(2) by simp
  have "load_capability_grant ''ops'' (cl_store (ow_client w4)) = None"
    using h(2) N(6) w4(2) by (simp add: load_capability_grant_def demo_owner_def save_identity_def empty_store_def empty_db_def)
  from bootstrap_gives_up [OF c(4) known c(3) pr(1) d(2,4) _ demo_url_base(1,2) _ this] obtain t5
    where "bootstrap_operator_capabilities demo_prims H 0 demo_inviter ''ops'' demo_url (ow_client w4) = (Inr None, t5)"
    using d(3) demo_url_base(1) by (fastforce simp: demo_url_def)
  then have "demo_create H demo_owner = (Inr \<lparr>bu_manifest = m, bu_descriptor = d, bu_owner_contact = c\<rparr>, w4\<lparr>ow_client := t5\<rparr>)"
    using n p w4(1) unknown demo_inviter_loaded op(1) inv(2) root
    by (simp add: create_relay_operator_def m_bind_def m_get_def on_owner_def on_store_def m_zoom_def m_catch_def opt_res_def Let_def
        demo_url_base(2) d_def m_def)
  with known show ?thesis by (intro exI [of _ "\<lparr>bu_manifest = m, bu_descriptor = d, bu_owner_contact = c\<rparr>"]) auto
qed



end
