(* ===== verification/Interop.thy ===== *)
theory Interop
  imports Ratchet Http
begin

unbundle bit_operations_syntax

text \<open>
  The interoperability verifier of the test kit (\<open>yakr_testkit/interop_verifier.py\<close> and
  \<open>hybrid_verify.py\<close>): a second implementation of the protocol, which shares no code with the
  core and checks test vectors with it. A vector is a loaded JSON dictionary. The verifier's own
  helpers are defined from the primitives and not from the core's definitions; \<open>InteropProps\<close>
  compares the two. Random bytes that a check draws are an argument.
\<close>

section \<open>Fields of a vector\<close>

type_synonym vec = "(str \<times> json) list"

text \<open>\<open>str(vector[k])\<close>, \<open>bytes.fromhex(str(vector[k]))\<close>, \<open>int(vector[k])\<close>.\<close>

definition strf :: "vec \<Rightarrow> str \<Rightarrow> str res" where
  "strf v k = and_then (jget v k) jstr"

definition hexf :: "vec \<Rightarrow> str \<Rightarrow> bytes res" where
  "hexf v k = and_then (strf v k) from_hex"

definition intf :: "vec \<Rightarrow> str \<Rightarrow> int res" where
  "intf v k = and_then (jget v k) jint"

text \<open>\<open>vector.get(k)\<close> as a condition, and \<open>str(vector.get(k) or "")\<close>.\<close>

definition has_value :: "vec \<Rightarrow> str \<Rightarrow> bool" where
  "has_value v k = jtruthy (jget_default v k JNull)"

definition str_or_empty :: "vec \<Rightarrow> str \<Rightarrow> str res" where
  "str_or_empty v k = (if has_value v k then strf v k else Inr [])"

text \<open>\<open>==\<close> of two loaded values: \<open>True\<close> is \<open>1\<close>, and the order of a dictionary does not count.\<close>

fun jeq :: "json \<Rightarrow> json \<Rightarrow> bool" where
  "jeq (JBool a) (JInt i) = ((if a then 1 else 0) = i)"
| "jeq (JInt i) (JBool a) = ((if a then 1 else 0) = i)"
| "jeq (JList xs) (JList ys) = list_all2 jeq xs ys"
| "jeq (JObj ps) (JObj qs) = (length ps = length qs \<and>
     list_all (\<lambda>p. case map_of qs (fst p) of None \<Rightarrow> False | Some y \<Rightarrow> jeq (snd p) y) ps)"
| "jeq a b = (a = b)"

text \<open>The conditions of a check in order: the first that fails gives \<open>False\<close>, or raises.\<close>

fun all_hold :: "bool res list \<Rightarrow> bool res" where
  "all_hold [] = Inr True"
| "all_hold (c # cs) = and_then c (\<lambda>b. if b then all_hold cs else Inr False)"

text \<open>\<open>x.hex() == str(vector[k])\<close>.\<close>

definition hex_is :: "vec \<Rightarrow> str \<Rightarrow> bytes \<Rightarrow> bool res" where
  "hex_is v k x = and_then (strf v k) (\<lambda>s. Inr (to_hex x = s))"

definition int_is :: "vec \<Rightarrow> str \<Rightarrow> int \<Rightarrow> bool res" where
  "int_is v k x = and_then (intf v k) (\<lambda>i. Inr (x = i))"

section \<open>Primitives\<close>

definition v_b64decode :: "str \<Rightarrow> bytes res" where
  "v_b64decode value = urlsafe_b64decode (value @ replicate (nat ((- int (length value)) mod 4)) CHR ''='')"

definition v_hkdf_derive :: "prims \<Rightarrow> bytes \<Rightarrow> bytes \<Rightarrow> bytes \<Rightarrow> bytes" where
  "v_hkdf_derive P ikm info salt = p_hkdf P 32 salt info ikm"

definition v_hkdf64 :: "prims \<Rightarrow> bytes \<Rightarrow> bytes \<Rightarrow> bytes \<Rightarrow> bytes \<times> bytes" where
  "v_hkdf64 P ikm info salt =
     (let material = p_hkdf P 64 salt info ikm in (take 32 material, drop 32 material))"

definition v_x25519_shared :: "prims \<Rightarrow> bytes \<Rightarrow> bytes \<Rightarrow> bytes res" where
  "v_x25519_shared P private_bytes peer_public = p_x25519 P private_bytes peer_public"

definition v_x25519_public :: "prims \<Rightarrow> bytes \<Rightarrow> bytes res" where
  "v_x25519_public P private_bytes =
     (if length private_bytes \<noteq> 32 then Inl (ValueError ''An X25519 private key is 32 bytes long'')
      else Inr (p_x25519_pub P private_bytes))"

definition v_xchacha_encrypt :: "prims \<Rightarrow> bytes \<Rightarrow> bytes \<Rightarrow> bytes \<Rightarrow> bytes \<Rightarrow> bytes" where
  "v_xchacha_encrypt P nonce key plaintext associated_data =
     nonce @ p_aead_enc P key nonce associated_data plaintext"

definition v_xchacha_decrypt :: "prims \<Rightarrow> bytes \<Rightarrow> bytes \<Rightarrow> bytes \<Rightarrow> bytes res" where
  "v_xchacha_decrypt P key payload associated_data =
     (if length payload < 24 then Inl (ValueError ''ciphertext too short'') else
      case p_aead_dec P key (take 24 payload) associated_data (drop 24 payload) of
        None \<Rightarrow> Inl (CryptoError ''Decryption failed.'')
      | Some plaintext \<Rightarrow> Inr plaintext)"

definition V_RATCHET_MAGIC :: bytes where "V_RATCHET_MAGIC = utf8 ''YKDR2''"
definition V_MAX_SKIP_GAP :: int where "V_MAX_SKIP_GAP = 128"
definition V_MAX_SKIPPED_KEYS :: int where "V_MAX_SKIPPED_KEYS = 256"
definition V_MAILBOX_TAG_INFO :: bytes where "V_MAILBOX_TAG_INFO = utf8 ''yakr/v0.1/mailbox-tag''"
definition V_PAIR_MASTER_INFO :: bytes where "V_PAIR_MASTER_INFO = utf8 ''yakr/v0.4/pair-master''"
definition V_HYBRID_MASTER_INFO :: bytes where "V_HYBRID_MASTER_INFO = utf8 ''yakr/v0.6/hybrid-master''"
definition V_ROOT_INFO :: bytes where "V_ROOT_INFO = utf8 ''yakr/v1.0/double-ratchet-root''"
definition V_RK_INFO :: bytes where "V_RK_INFO = utf8 ''yakr/v1.0/double-ratchet-rk''"
definition V_CK_INFO :: bytes where "V_CK_INFO = utf8 ''yakr/v1.0/double-ratchet-ck''"
definition V_SEND_CHAIN_INFO :: bytes where
  "V_SEND_CHAIN_INFO = utf8 ''yakr/v1.0/double-ratchet-send''"
definition V_RECV_CHAIN_INFO :: bytes where
  "V_RECV_CHAIN_INFO = utf8 ''yakr/v1.0/double-ratchet-recv''"

section \<open>Key exchange and mailbox tags\<close>

definition verify_hybrid_master :: "prims \<Rightarrow> bytes \<Rightarrow> bytes \<Rightarrow> bytes \<Rightarrow> bytes \<Rightarrow> bytes \<Rightarrow> bool" where
  "verify_hybrid_master P identity_shared ephemeral_shared pq_secret th expected_master =
     (let x_secret = identity_shared @ ephemeral_shared
      in p_hkdf P 32 th V_HYBRID_MASTER_INFO (x_secret @ pq_secret) = expected_master)"

definition verify_hybrid_kex_vector :: "prims \<Rightarrow> vec \<Rightarrow> bool res" where
  "verify_hybrid_kex_vector P v =
     and_then (hexf v ''identity_shared_hex'') (\<lambda>identity_shared.
     and_then (hexf v ''ephemeral_shared_hex'') (\<lambda>ephemeral_shared.
     and_then (hexf v ''pq_secret_hex'') (\<lambda>pq_secret.
     and_then (hexf v ''transcript_hash_hex'') (\<lambda>th.
     and_then (hexf v ''expected_master_hex'') (\<lambda>expected.
     Inr (verify_hybrid_master P identity_shared ephemeral_shared pq_secret th expected))))))"

definition verify_mailbox_tag_vector :: "prims \<Rightarrow> vec \<Rightarrow> bool res" where
  "verify_mailbox_tag_vector P v =
     and_then (hexf v ''master_secret_hex'') (\<lambda>master_secret.
     and_then (strf v ''direction'') (\<lambda>direction.
     and_then (intf v ''epoch'') (\<lambda>epoch.
     and_then (hexf v ''expected_tag_hex'') (\<lambda>expected.
     let mailbox_secret = v_hkdf_derive P master_secret (V_MAILBOX_TAG_INFO @ utf8 direction) [];
         material = utf8 (direction @ ''|'' @ str_of_int epoch)
     in Inr (p_hmac P mailbox_secret material = expected)))))"

section \<open>Invites and profiles\<close>

definition v_invite_unsigned :: "prims \<Rightarrow> (str \<times> cval) list \<Rightarrow> bytes" where
  "v_invite_unsigned P payload =
     p_cbor_dumps P (CMap (filter (\<lambda>p. fst p \<notin> {''signature'', ''pq_signature''}) payload))"

definition v_safety :: "prims \<Rightarrow> bytes \<Rightarrow> bytes \<Rightarrow> str" where
  "v_safety P signing_public agreement_public =
     (let digits = concat (map (\<lambda>x. str_of_nat (unat x mod 10))
                            (take 10 (p_sha256 P (signing_public @ agreement_public))))
      in take 4 digits @ '' '' @ take 4 (drop 4 digits) @ '' '' @ take 2 (drop 8 digits))"

text \<open>\<open>Ed25519PublicKey.from_public_bytes\<close>.\<close>

definition ed_public :: "bytes \<Rightarrow> bytes res" where
  "ed_public b = and_then (require (length b = 32) (ValueError ''An Ed25519 public key is 32 bytes long''))
     (\<lambda>_. Inr b)"

definition verify_invite_vector :: "prims \<Rightarrow> vec \<Rightarrow> bool res" where
  "verify_invite_vector P v =
     and_then (and_then (and_then (strf v ''bundle_b64'') v_b64decode) (p_cbor_loads P)) (\<lambda>loaded.
     and_then (c_dict loaded) (\<lambda>bundle.
     and_then (and_then (cget bundle ''signing_public'') c_bytes) (\<lambda>signing_public.
     and_then (hex_is v ''signing_public_hex'' signing_public) (\<lambda>named.
     if \<not> named then Inr False else
     and_then (ed_public signing_public) (\<lambda>public_key.
     case and_then (and_then (cget bundle ''signature'') c_bytes)
            (\<lambda>signature. ed_verify P public_key signature (v_invite_unsigned P bundle)) of
       Inl _ \<Rightarrow> Inr False
     | Inr _ \<Rightarrow>
         and_then (and_then (cget bundle ''agreement_public'') c_bytes) (\<lambda>agreement_public.
         and_then (strf v ''safety_code'') (\<lambda>code.
         Inr (v_safety P signing_public agreement_public = code))))))))"

definition profile_keys :: "str list" where
  "profile_keys = [''protocol'', ''version'', ''valid_from'', ''valid_until'', ''direct_hints'',
     ''relay_descriptors'', ''mailbox_params'', ''blob_classes'', ''receipt_policy'']"

definition v_profile_unsigned :: "prims \<Rightarrow> (str \<times> cval) list \<Rightarrow> bytes res" where
  "v_profile_unsigned P payload =
     and_then (map_res (\<lambda>k. and_then (cget payload k) (\<lambda>x. Inr (k, x))) profile_keys) (\<lambda>ps.
     Inr (p_cbor_dumps P (CMap ps)))"

definition verify_delivery_profile_vector :: "prims \<Rightarrow> vec \<Rightarrow> bool res" where
  "verify_delivery_profile_vector P v =
     and_then (and_then (and_then (strf v ''profile_b64'') v_b64decode) (p_cbor_loads P)) (\<lambda>loaded.
     and_then (and_then (hexf v ''signing_public_hex'') ed_public) (\<lambda>public_key.
     case and_then (c_dict loaded) (\<lambda>payload.
          and_then (and_then (cget payload ''signature'') c_bytes) (\<lambda>signature.
          and_then (v_profile_unsigned P payload) (\<lambda>unsigned.
          and_then (ed_verify P public_key signature unsigned) (\<lambda>_. Inr payload)))) of
       Inl _ \<Rightarrow> Inr False
     | Inr payload \<Rightarrow>
         and_then (and_then (cget payload ''version'') c_int) (\<lambda>version.
         int_is v ''version'' version)))"

section \<open>Messages\<close>

definition v_message_id :: "prims \<Rightarrow> bytes \<Rightarrow> str" where
  "v_message_id P ciphertext = to_hex (p_sha256 P (utf8 ''yakr/v0.1/message-id|'' @ ciphertext))"

text \<open>The JSON value with every dictionary in the order of its keys: \<open>sort_keys=True\<close>.\<close>

fun json_sorted :: "json \<Rightarrow> json" where
  "json_sorted (JList xs) = JList (map json_sorted xs)"
| "json_sorted (JObj ps) = JObj (sort_key fst (map (\<lambda>p. (fst p, json_sorted (snd p))) ps))"
| "json_sorted j = j"

definition canonical_json :: "json \<Rightarrow> bytes" where
  "canonical_json j = utf8 (json_compact (json_sorted j))"

definition same_field :: "(str \<times> json) list \<Rightarrow> vec \<Rightarrow> str \<Rightarrow> bool res" where
  "same_field payload v k =
     and_then (jget v k) (\<lambda>expected. Inr (jeq (jget_default payload k JNull) expected))"

definition same_seq :: "(str \<times> json) list \<Rightarrow> vec \<Rightarrow> bool res" where
  "same_seq payload v =
     and_then (jint (jget_default payload ''seq'' (JInt (-1)))) (\<lambda>n. int_is v ''seq'' n)"

definition loaded_json :: "vec \<Rightarrow> ((str \<times> json) list \<times> str) res" where
  "loaded_json v =
     and_then (strf v ''json'') (\<lambda>raw. and_then (and_then (json_loads raw) jobj) (\<lambda>payload.
     Inr (payload, raw)))"

definition verify_inner_message_vector :: "vec \<Rightarrow> bool res" where
  "verify_inner_message_vector v =
     and_then (loaded_json v) (\<lambda>(payload, raw). all_hold
       [same_field payload v ''conversation_id'', same_seq payload v, same_field payload v ''body'',
        Inr (canonical_json (JObj payload) = utf8 raw)])"

definition verify_inner_receipt_vector :: "prims \<Rightarrow> vec \<Rightarrow> bool res" where
  "verify_inner_receipt_vector P v =
     and_then (loaded_json v) (\<lambda>(payload, raw). all_hold
       [same_field payload v ''conversation_id'', same_seq payload v, same_field payload v ''type'',
        same_field payload v ''message_id'', Inr (canonical_json (JObj payload) = utf8 raw),
        and_then (hexf v ''referenced_ciphertext_hex'') (\<lambda>ciphertext.
        and_then (strf v ''message_id'') (\<lambda>mid. Inr (v_message_id P ciphertext = mid)))])"

definition v_outer_blob :: "(str \<times> json) list \<Rightarrow> (int \<times> bytes \<times> int \<times> bytes) res" where
  "v_outer_blob payload =
     (if map_of payload ''mailbox_tag'' = None then Inl (ValueError ''missing mailbox_tag'') else
      if map_of payload ''expires_at'' = None then Inl (ValueError ''missing expires_at'') else
      if map_of payload ''ciphertext'' = None then Inl (ValueError ''missing ciphertext'') else
      and_then (and_then (strf payload ''mailbox_tag'') v_b64decode) (\<lambda>t.
      if length t \<noteq> 32 then Inl (ValueError ''mailbox_tag must be 32 bytes'') else
      and_then (and_then (strf payload ''ciphertext'') v_b64decode) (\<lambda>ciphertext.
      and_then (intf payload ''expires_at'') (\<lambda>expires_at.
      Inr (1, t, expires_at, ciphertext)))))"

definition verify_outer_blob_vector :: "vec \<Rightarrow> bool res" where
  "verify_outer_blob_vector v =
     (case map_of v ''relay_json'' of
        Some (JObj relay) \<Rightarrow>
          (case v_outer_blob relay of
             Inl _ \<Rightarrow> Inr False
           | Inr (version, t, expires_at, ciphertext) \<Rightarrow> all_hold
               [int_is v ''version'' version, hex_is v ''mailbox_tag_hex'' t,
                int_is v ''expires_at'' expires_at, hex_is v ''ciphertext_hex'' ciphertext])
      | _ \<Rightarrow> Inr False)"

section \<open>Pairing\<close>

definition v_transcript_hash :: "prims \<Rightarrow> vec \<Rightarrow> bytes res" where
  "v_transcript_hash P v =
     and_then (jstr (jget_default v ''invite_protocol'' (JStr ''yakr-v0.4''))) (\<lambda>protocol.
     and_then (map_res (hexf v)
       [''invite_secret_hex'', ''invite_signing_public_hex'', ''invite_agreement_public_hex'',
        ''joiner_signing_public_hex'', ''joiner_agreement_public_hex'', ''joiner_ephemeral_public_hex'',
        ''inviter_ephemeral_public_hex'', ''joiner_ratchet_public_hex'', ''inviter_ratchet_public_hex''])
       (\<lambda>parts.
     and_then (if has_value v ''kem_ciphertext_hex''
               then and_then (hexf v ''kem_ciphertext_hex'') (\<lambda>ct. Inr [ct]) else Inr []) (\<lambda>kem.
     Inr (p_sha256 P (py_join [124] (utf8 protocol # parts @ kem))))))"

definition v_classical_master :: "prims \<Rightarrow> bytes \<Rightarrow> bytes \<Rightarrow> bytes \<Rightarrow> bytes" where
  "v_classical_master P identity_shared ephemeral_shared th =
     v_hkdf_derive P (identity_shared @ ephemeral_shared) V_PAIR_MASTER_INFO th"

text \<open>The two exchanges of one side: own agreement and ephemeral keys with the other's public keys.\<close>

definition v_exchanges :: "prims \<Rightarrow> vec \<Rightarrow> str \<Rightarrow> str \<Rightarrow> str \<Rightarrow> str \<Rightarrow> (bytes \<times> bytes) res" where
  "v_exchanges P v agree_key eph_key agree_pub_key eph_pub_key =
     and_then (hexf v agree_key) (\<lambda>agree. and_then (hexf v eph_key) (\<lambda>eph.
     and_then (hexf v agree_pub_key) (\<lambda>agree_pub. and_then (hexf v eph_pub_key) (\<lambda>eph_pub.
     and_then (v_x25519_shared P agree agree_pub) (\<lambda>identity_shared.
     and_then (v_x25519_shared P eph eph_pub) (\<lambda>ephemeral_shared.
     Inr (identity_shared, ephemeral_shared)))))))"

text \<open>
  The master secret of the inviter's side, \<open>None\<close> when it is not the one expected, with the secret of
  the KEM (empty without one). The decapsulation is the call of the library.
\<close>

definition v_inviter_master :: "prims \<Rightarrow> vec \<Rightarrow> bytes \<Rightarrow> bytes \<Rightarrow> bytes \<Rightarrow> (bytes \<times> bytes) option res" where
  "v_inviter_master P v identity_shared ephemeral_shared th =
     (if has_value v ''kem_ciphertext_hex'' then
        and_then (hexf v ''inviter_kem_secret_hex'') (\<lambda>sk.
        and_then (hexf v ''kem_ciphertext_hex'') (\<lambda>ct.
        let pq_secret = p_kem_dec P sk ct in
        and_then (hex_is v ''expected_pq_secret_hex'' pq_secret) (\<lambda>ok. if \<not> ok then Inr None else
        and_then (hexf v ''expected_master_secret_hex'') (\<lambda>expected_master.
        if \<not> verify_hybrid_master P identity_shared ephemeral_shared pq_secret th expected_master
        then Inr None else Inr (Some (expected_master, pq_secret))))))
      else
        let master = v_classical_master P identity_shared ephemeral_shared th in
        and_then (hex_is v ''expected_master_secret_hex'' master) (\<lambda>ok.
        if \<not> ok then Inr None else Inr (Some (master, []))))"

definition verify_pairing_transcript_vector :: "prims \<Rightarrow> vec \<Rightarrow> bool res" where
  "verify_pairing_transcript_vector P v =
     and_then (v_transcript_hash P v) (\<lambda>th.
     and_then (hex_is v ''expected_transcript_hash_hex'' th) (\<lambda>ok. if \<not> ok then Inr False else
     and_then (v_exchanges P v ''inviter_agreement_private_hex'' ''inviter_ephemeral_private_hex''
                 ''joiner_agreement_public_hex'' ''joiner_ephemeral_public_hex'')
       (\<lambda>(identity_shared, ephemeral_shared).
     and_then (hex_is v ''expected_identity_shared_hex'' identity_shared) (\<lambda>ok. if \<not> ok then Inr False else
     and_then (hex_is v ''expected_ephemeral_shared_hex'' ephemeral_shared) (\<lambda>ok. if \<not> ok then Inr False else
     and_then (v_inviter_master P v identity_shared ephemeral_shared th) (\<lambda>inviter.
     case inviter of None \<Rightarrow> Inr False
     | Some (master, pq_secret) \<Rightarrow>
         and_then (v_exchanges P v ''joiner_agreement_private_hex'' ''joiner_ephemeral_private_hex''
                     ''invite_agreement_public_hex'' ''inviter_ephemeral_public_hex'')
           (\<lambda>(joiner_identity, joiner_ephemeral).
         let joiner_master =
           (if has_value v ''kem_ciphertext_hex''
            then p_hkdf P 32 th V_HYBRID_MASTER_INFO (joiner_identity @ joiner_ephemeral @ pq_secret)
            else v_classical_master P joiner_identity joiner_ephemeral th)
         in Inr (master = joiner_master))))))))"

section \<open>The double ratchet\<close>

text \<open>\<open>_kdf_rk\<close> and the step of a chain.\<close>

definition v_kdf_rk :: "prims \<Rightarrow> bytes \<Rightarrow> bytes \<Rightarrow> bytes \<times> bytes" where
  "v_kdf_rk P root dh_output = v_hkdf64 P root V_RK_INFO dh_output"

definition v_chain_step :: "prims \<Rightarrow> bytes \<Rightarrow> bytes \<times> bytes" where
  "v_chain_step P ck = v_hkdf64 P ck V_CK_INFO []"

definition v_header :: "bytes \<Rightarrow> int \<Rightarrow> int \<Rightarrow> bytes res" where
  "v_header public prev_n message_n =
     and_then (pack_II prev_n message_n) (\<lambda>p. Inr (V_RATCHET_MAGIC @ public @ p))"

definition verify_double_ratchet_vector :: "prims \<Rightarrow> bytes \<Rightarrow> vec \<Rightarrow> bool res" where
  "verify_double_ratchet_vector P nonce v =
     and_then (hexf v ''master_secret_hex'') (\<lambda>master.
     let root = v_hkdf_derive P master V_ROOT_INFO [];
         alice_send = v_hkdf_derive P root V_SEND_CHAIN_INFO [];
         alice_recv = v_hkdf_derive P root V_RECV_CHAIN_INFO [];
         bob_recv = v_hkdf_derive P root V_SEND_CHAIN_INFO []
     in and_then (all_hold [hex_is v ''alice_root_key_hex'' root, hex_is v ''alice_send_chain_hex'' alice_send,
                            hex_is v ''alice_recv_chain_hex'' alice_recv]) (\<lambda>ok. if \<not> ok then Inr False else
     and_then (hexf v ''alice_dh_self_private_hex'') (\<lambda>alice_private.
     and_then (hexf v ''bob_dh_self_private_hex'') (\<lambda>bob_private.
     and_then (v_x25519_public P alice_private) (\<lambda>alice_public.
     and_then (v_x25519_public P bob_private) (\<lambda>bob_public.
     and_then (all_hold [hex_is v ''alice_dh_self_public_hex'' alice_public,
                         hex_is v ''bob_dh_self_public_hex'' bob_public]) (\<lambda>ok. if \<not> ok then Inr False else
     and_then (hexf v ''plaintext_hex'') (\<lambda>plaintext.
     and_then (v_header alice_public 0 0) (\<lambda>aad.
     let ciphertext = aad @ v_xchacha_encrypt P nonce (fst (v_chain_step P alice_send)) plaintext aad;
         prev_n = int (be_nat (take 4 (drop 37 ciphertext)));
         message_n = int (be_nat (take 4 (drop 41 ciphertext)));
         peer_public = take 32 (drop 5 ciphertext)
     in if take 5 ciphertext \<noteq> V_RATCHET_MAGIC then Inr False else
     and_then (all_hold [hex_is v ''header_dh_public_hex'' peer_public, int_is v ''header_prev_n'' prev_n,
                         int_is v ''header_message_n'' message_n, Inr (message_n = 0)]) (\<lambda>ok.
     if \<not> ok then Inr False else
     and_then (v_header peer_public prev_n message_n) (\<lambda>aad.
     case v_xchacha_decrypt P (fst (v_chain_step P bob_recv)) (drop 45 ciphertext) aad of
       Inl _ \<Rightarrow> Inr False
     | Inr decrypted \<Rightarrow> Inr (decrypted = plaintext))))))))))))"

record vsession =
  vs_root_key :: bytes
  vs_dh_self_private :: bytes
  vs_dh_self_public :: bytes
  vs_dh_peer_public :: "bytes option"
  vs_send_chain_key :: "bytes option"
  vs_recv_chain_key :: "bytes option"
  vs_send_n :: int
  vs_recv_n :: int
  vs_prev_send_n :: int
  vs_skipped_keys :: "(str \<times> bytes) list"

definition vs_new :: "bytes \<Rightarrow> bytes \<Rightarrow> bytes \<Rightarrow> bytes \<Rightarrow> bytes \<Rightarrow> vsession" where
  "vs_new root private public send_chain recv_chain =
     \<lparr>vs_root_key = root, vs_dh_self_private = private, vs_dh_self_public = public,
      vs_dh_peer_public = None, vs_send_chain_key = Some send_chain,
      vs_recv_chain_key = Some recv_chain, vs_send_n = 0, vs_recv_n = 0, vs_prev_send_n = 0,
      vs_skipped_keys = []\<rparr>"

text \<open>\<open>from_bootstrap_vector\<close>: the session of the side that receives, and its peer.\<close>

definition from_bootstrap_vector :: "prims \<Rightarrow> vec \<Rightarrow> str \<Rightarrow> (vsession \<times> vsession) res" where
  "from_bootstrap_vector P v side =
     and_then (hexf v ''master_secret_hex'') (\<lambda>master.
     let root = v_hkdf_derive P master V_ROOT_INFO [];
         send_chain = v_hkdf_derive P root V_SEND_CHAIN_INFO [];
         recv_chain = v_hkdf_derive P root V_RECV_CHAIN_INFO []
     in and_then (hexf v ''alice_dh_self_private_hex'') (\<lambda>alice_private.
     and_then (hexf v ''bob_dh_self_private_hex'') (\<lambda>bob_private.
     and_then (v_x25519_public P alice_private) (\<lambda>alice_public.
     and_then (v_x25519_public P bob_private) (\<lambda>bob_public.
     let alice = vs_new root alice_private alice_public send_chain recv_chain;
         bob = vs_new root bob_private bob_public recv_chain send_chain
     in Inr (if side = ''alice'' then (alice, bob) else (bob, alice)))))))"

definition vs_key_id :: "bytes \<Rightarrow> int \<Rightarrow> str" where
  "vs_key_id peer_public message_n = to_hex peer_public @ '':'' @ str_of_int message_n"

definition vs_skip_key :: "bytes \<Rightarrow> int \<Rightarrow> vsession \<Rightarrow> bytes res" where
  "vs_skip_key peer_public message_n s =
     opt_res (KeyError (vs_key_id peer_public message_n))
       (map_of (vs_skipped_keys s) (vs_key_id peer_public message_n))"

definition vs_store_skip :: "bytes \<Rightarrow> int \<Rightarrow> bytes \<Rightarrow> vsession \<Rightarrow> vsession" where
  "vs_store_skip peer_public message_n message_key s =
     s\<lparr>vs_skipped_keys := dict_put (vs_key_id peer_public message_n) message_key (vs_skipped_keys s)\<rparr>"

text \<open>Unlike the core, this step leaves the receiving chain, its counter and the stored keys as they are.\<close>

definition vs_dh_ratchet :: "prims \<Rightarrow> bytes \<Rightarrow> bytes \<Rightarrow> (vsession, unit) meth" where
  "vs_dh_ratchet P new_private peer_public =
     m_bind (m_of (v_x25519_public P new_private)) (\<lambda>public.
     m_bind (m_modify (\<lambda>s. s\<lparr>vs_dh_self_private := new_private, vs_dh_self_public := public\<rparr>)) (\<lambda>_.
     m_bind (m_of (v_x25519_shared P new_private peer_public)) (\<lambda>dh_output.
     m_modify (\<lambda>s. s\<lparr>vs_root_key := fst (v_kdf_rk P (vs_root_key s) dh_output),
                      vs_send_chain_key := Some (snd (v_kdf_rk P (vs_root_key s) dh_output)),
                      vs_prev_send_n := vs_send_n s, vs_send_n := 0,
                      vs_dh_peer_public := Some peer_public\<rparr>))))"

text \<open>\<open>_snapshot\<close> copies the fields, the dictionary included, and \<open>_restore\<close> sets every field back.\<close>

definition vs_restore :: "vsession \<Rightarrow> vsession \<Rightarrow> vsession" where
  "vs_restore snapshot s =
     s\<lparr>vs_root_key := vs_root_key snapshot, vs_dh_self_private := vs_dh_self_private snapshot,
       vs_dh_self_public := vs_dh_self_public snapshot, vs_dh_peer_public := vs_dh_peer_public snapshot,
       vs_send_chain_key := vs_send_chain_key snapshot, vs_recv_chain_key := vs_recv_chain_key snapshot,
       vs_send_n := vs_send_n snapshot, vs_recv_n := vs_recv_n snapshot,
       vs_prev_send_n := vs_prev_send_n snapshot, vs_skipped_keys := vs_skipped_keys snapshot\<rparr>"

definition vs_encrypt :: "prims \<Rightarrow> bytes \<Rightarrow> bytes \<Rightarrow> (vsession, bytes) meth" where
  "vs_encrypt P nonce plaintext =
     m_get (\<lambda>s. case vs_send_chain_key s of
         None \<Rightarrow> m_raise (ValueError ''send chain not initialized'')
       | Some ck \<Rightarrow>
           m_bind (m_modify (\<lambda>s. s\<lparr>vs_send_chain_key := Some (snd (v_chain_step P ck))\<rparr>)) (\<lambda>_.
           m_bind (m_of (v_header (vs_dh_self_public s) (vs_prev_send_n s) (vs_send_n s))) (\<lambda>header.
           m_bind (m_modify (\<lambda>s. s\<lparr>vs_send_n := vs_send_n s + 1\<rparr>)) (\<lambda>_.
           m_return (header @ v_xchacha_encrypt P nonce (fst (v_chain_step P ck)) plaintext header)))))"

function vs_skip_loop :: "prims \<Rightarrow> bytes \<Rightarrow> int \<Rightarrow> bytes \<Rightarrow> vsession \<Rightarrow> vsession" where
  "vs_skip_loop P peer_public message_n ck s =
     (if vs_recv_n s < message_n
      then vs_skip_loop P peer_public message_n (snd (v_chain_step P ck))
             ((vs_store_skip peer_public (vs_recv_n s) (fst (v_chain_step P ck)) s)
                \<lparr>vs_recv_chain_key := Some (snd (v_chain_step P ck)), vs_recv_n := vs_recv_n s + 1\<rparr>)
      else s)"
  by pat_completeness auto
termination
  by (relation "measure (\<lambda>(P, peer, n, ck, s). nat (n - vs_recv_n s))") (auto simp: vs_store_skip_def)

declare vs_skip_loop.simps [simp del]

definition vs_advance_peer :: "prims \<Rightarrow> bytes \<Rightarrow> bytes \<Rightarrow> (vsession, unit) meth" where
  "vs_advance_peer P new_private peer_public =
     m_get (\<lambda>s. case vs_dh_peer_public s of
         None \<Rightarrow> m_modify (\<lambda>s. s\<lparr>vs_dh_peer_public := Some peer_public\<rparr>)
       | Some p \<Rightarrow> if p \<noteq> peer_public then vs_dh_ratchet P new_private peer_public else m_return ())"

definition vs_take_key :: "prims \<Rightarrow> bytes \<Rightarrow> int \<Rightarrow> (vsession, bytes) meth" where
  "vs_take_key P peer_public message_n =
     m_get (\<lambda>s. case vs_recv_chain_key s of
         None \<Rightarrow> m_raise (ValueError ''recv chain not initialized'')
       | Some ck \<Rightarrow>
           if message_n < vs_recv_n s then
             (case vs_skip_key peer_public message_n s of
                Inl _ \<Rightarrow> m_raise (ValueError ''ratchet message already received'')
              | Inr k \<Rightarrow> m_return k)
           else if message_n - vs_recv_n s > V_MAX_SKIP_GAP then
             m_raise (ValueError ''ratchet skip gap too large'')
           else if int (length (vs_skipped_keys s)) + (message_n - vs_recv_n s) > V_MAX_SKIPPED_KEYS then
             m_raise (ValueError ''ratchet skipped key limit exceeded'')
           else
             m_bind (m_modify (vs_skip_loop P peer_public message_n ck)) (\<lambda>_.
             m_get (\<lambda>s. case vs_recv_chain_key s of
                 None \<Rightarrow> m_raise (TypeError ''recv chain'')
               | Some ck' \<Rightarrow>
                   m_bind (m_modify (\<lambda>s. s\<lparr>vs_recv_chain_key := Some (snd (v_chain_step P ck')),
                                             vs_recv_n := message_n + 1\<rparr>)) (\<lambda>_.
                   m_return (fst (v_chain_step P ck'))))))"

definition vs_decrypt_body ::
    "prims \<Rightarrow> bytes \<Rightarrow> bytes \<Rightarrow> int \<Rightarrow> int \<Rightarrow> bytes \<Rightarrow> (vsession, bytes) meth" where
  "vs_decrypt_body P new_private peer_public prev_n message_n ciphertext =
     m_bind (vs_advance_peer P new_private peer_public) (\<lambda>_.
     m_bind (vs_take_key P peer_public message_n) (\<lambda>message_key.
     m_bind (m_of (v_header peer_public prev_n message_n)) (\<lambda>aad.
     m_of (v_xchacha_decrypt P message_key ciphertext aad))))"

definition vs_decrypt :: "prims \<Rightarrow> bytes \<Rightarrow> bytes \<Rightarrow> (vsession, bytes) meth" where
  "vs_decrypt P new_private payload s =
     (if length payload < length V_RATCHET_MAGIC + 32 + 8
      then (Inl (ValueError ''ratchet payload too short''), s)
      else if take (length V_RATCHET_MAGIC) payload \<noteq> V_RATCHET_MAGIC
      then (Inl (ValueError ''invalid ratchet header''), s)
      else
        let offset = length V_RATCHET_MAGIC;
            peer_public = take 32 (drop offset payload);
            prev_n = int (be_nat (take 4 (drop (offset + 32) payload)));
            message_n = int (be_nat (take 4 (drop (offset + 36) payload)));
            ciphertext = drop (offset + 40) payload
        in (case vs_decrypt_body P new_private peer_public prev_n message_n ciphertext s of
              (Inr m, s') \<Rightarrow> (Inr m, s')
            | (Inl e, s') \<Rightarrow> (Inl e, vs_restore s s')))"

section \<open>Negative vectors\<close>

definition v_supports_hybrid :: "str \<Rightarrow> str \<Rightarrow> bool" where
  "v_supports_hybrid protocol kem_public_hex \<longleftrightarrow> protocol = ''yakr-v0.6'' \<and> kem_public_hex \<noteq> []"

definition v_validate_pairing_request :: "vec \<Rightarrow> unit res" where
  "v_validate_pairing_request v =
     and_then (hexf v ''invite_secret_hex'') (\<lambda>invite_secret.
     and_then (hexf v ''request_invite_secret_hex'') (\<lambda>request_secret.
     and_then (hexf v ''joiner_ratchet_public_hex'') (\<lambda>joiner_ratchet.
     and_then (and_then (str_or_empty v ''kem_ciphertext_hex'') from_hex) (\<lambda>kem_ciphertext.
     if request_secret \<noteq> invite_secret then Inl (ValueError ''pairing invite secret mismatch'') else
     if length joiner_ratchet \<noteq> 32
     then Inl (ValueError ''pairing request missing joiner ratchet public key'') else
     and_then (strf v ''invite_protocol'') (\<lambda>protocol.
     and_then (str_or_empty v ''invite_kem_public_hex'') (\<lambda>kem_public.
     if v_supports_hybrid protocol kem_public
     then require (kem_ciphertext \<noteq> []) (ValueError ''hybrid invite requires kem ciphertext'')
     else require (kem_ciphertext = [])
            (ValueError ''unexpected kem ciphertext on classical invite'')))))))"

definition v_pairing_request_from_bytes :: "prims \<Rightarrow> bytes \<Rightarrow> (str \<times> cval) list res" where
  "v_pairing_request_from_bytes P data =
     and_then (p_cbor_loads P data) (c_map ''invalid pairing request'')"

definition v_pairing_response_from_bytes :: "prims \<Rightarrow> bytes \<Rightarrow> (str \<times> cval) list res" where
  "v_pairing_response_from_bytes P data =
     and_then (p_cbor_loads P data) (c_map ''invalid pairing response'')"

text \<open>\<open>str(exc)\<close>: that of a \<open>KeyError\<close> is quoted.\<close>

definition exc_str :: "exn \<Rightarrow> str" where
  "exc_str e = (case e of KeyError k \<Rightarrow> [CHR 0x27] @ k @ [CHR 0x27] | _ \<Rightarrow> exn_text e)"

definition NEGATIVE_REQUIRED_FIELDS :: "str list" where
  "NEGATIVE_REQUIRED_FIELDS = [''must_reject'', ''rejection_stage'', ''normative_error_code'',
     ''persistent_state_must_change'', ''retryable'']"

definition RATCHET_OPERATIONS :: "str list" where
  "RATCHET_OPERATIONS = [''ratchet_decrypt'', ''ratchet_decrypt_duplicate'',
     ''ratchet_decrypt_skip_gap'', ''ratchet_decrypt_tampered'']"

definition OPERATION_REJECTION_STAGE :: "(str \<times> str) list" where
  "OPERATION_REJECTION_STAGE =
     [(''pairing_validate'', ''pairing_validate''),
      (''pairing_request_decode'', ''pairing_request_decode''),
      (''pairing_response_decode'', ''pairing_response_decode''),
      (''invite_verify'', ''invite_verify''), (''outer_blob_decode'', ''outer_blob_decode''),
      (''ratchet_decrypt'', ''ratchet_decrypt''), (''ratchet_decrypt_duplicate'', ''ratchet_decrypt''),
      (''ratchet_decrypt_skip_gap'', ''ratchet_decrypt''),
      (''ratchet_decrypt_tampered'', ''ratchet_decrypt'')]"

text \<open>
  \<open>_infer_normative_error_code\<close>. Which exceptions of the CBOR library are its \<open>CBORDecodeError\<close> is
  the argument \<open>D\<close>. The first text that the message contains decides.
\<close>

fun code_for :: "str \<Rightarrow> (str \<times> str) list \<Rightarrow> str option" where
  "code_for message [] = None"
| "code_for message ((part, code) # cs) =
     (if substr part message then Some code else code_for message cs)"

definition PAIRING_CODES :: "(str \<times> str) list" where
  "PAIRING_CODES =
     [(''unexpected kem ciphertext'', ''YAKR_E_PAIRING_UNEXPECTED_KEM''),
      (''hybrid invite requires kem'', ''YAKR_E_PAIRING_MISSING_KEM''),
      (''invite secret mismatch'', ''YAKR_E_PAIRING_INVITE_SECRET_MISMATCH''),
      (''missing joiner ratchet public key'', ''YAKR_E_PAIRING_MISSING_JOINER_RATCHET'')]"

definition RATCHET_CODES :: "(str \<times> str) list" where
  "RATCHET_CODES =
     [(''too short'', ''YAKR_E_RATCHET_PAYLOAD_TOO_SHORT''),
      (''invalid ratchet header'', ''YAKR_E_RATCHET_INVALID_HEADER''),
      (''already received'', ''YAKR_E_RATCHET_DUPLICATE_MESSAGE''),
      (''skip gap too large'', ''YAKR_E_RATCHET_SKIP_GAP'')]"

definition cannot_classify :: "str \<Rightarrow> exn \<Rightarrow> exn" where
  "cannot_classify operation e =
     ValueError (''cannot classify negative rejection for operation '' @ operation @ '': '' @ exc_str e)"

definition infer_normative_error_code :: "(exn \<Rightarrow> bool) \<Rightarrow> vec \<Rightarrow> exn \<Rightarrow> str res" where
  "infer_normative_error_code D v e =
     and_then (jstr (jget_default v ''operation'' (JStr []))) (\<lambda>operation.
     let message = map lower_char (exc_str e);
         decode_code = (\<lambda>code. and_then (if D e then Inr True else
            and_then (jstr (jget_default v ''cbor_hex'' (JStr []))) (\<lambda>s. Inr (s = []))) (\<lambda>failed.
            Inr (if failed then ''YAKR_E_CBOR_DECODE_FAILED'' else code)))
     in if operation = ''pairing_validate''
        then opt_res (cannot_classify operation e) (code_for message PAIRING_CODES)
        else if operation = ''pairing_request_decode'' then decode_code ''YAKR_E_PAIRING_REQUEST_INVALID''
        else if operation = ''pairing_response_decode'' then decode_code ''YAKR_E_PAIRING_RESPONSE_INVALID''
        else if operation = ''invite_verify'' then Inr ''YAKR_E_INVITE_SIGNATURE_INVALID''
        else if operation = ''outer_blob_decode''
        then Inr (if substr ''32 bytes'' message then ''YAKR_E_OUTER_BLOB_INVALID_TAG''
                  else ''YAKR_E_OUTER_BLOB_MISSING_FIELD'')
        else if operation \<in> set RATCHET_OPERATIONS
        then Inr (case code_for message RATCHET_CODES of Some code \<Rightarrow> code
                  | None \<Rightarrow> ''YAKR_E_RATCHET_AEAD_FAILED'')
        else Inl (cannot_classify operation e))"

text \<open>Two sessions, the local one and its peer; a step of one of them.\<close>

definition on_local :: "(vsession, 'a) meth \<Rightarrow> (vsession \<times> vsession, 'a) meth" where
  "on_local m = (\<lambda>(l, p). case m l of (r, l') \<Rightarrow> (r, (l', p)))"

definition on_peer :: "(vsession, 'a) meth \<Rightarrow> (vsession \<times> vsession, 'a) meth" where
  "on_peer m = (\<lambda>(l, p). case m p of (r, p') \<Rightarrow> (r, (l, p')))"

text \<open>
  \<open>_reject_ratchet_vector\<close>: it returns the snapshot taken before the step that has to be refused.
  The draws are the nonce of the peer's message, the fresh keys of two ratchet steps and the forged
  ciphertext.
\<close>

definition reject_ratchet_vector ::
    "prims \<Rightarrow> (nat \<Rightarrow> bytes) \<Rightarrow> vec \<Rightarrow> (vsession \<times> vsession, vsession) meth" where
  "reject_ratchet_vector P rnd v =
     m_bind (m_of (strf v ''operation'')) (\<lambda>operation.
     if operation = ''ratchet_decrypt'' then
       m_get (\<lambda>(snapshot, _).
       m_bind (m_of (hexf v ''payload_hex'')) (\<lambda>payload.
       m_bind (on_local (vs_decrypt P (rnd 1) payload)) (\<lambda>_.
       m_return snapshot)))
     else if operation = ''ratchet_decrypt_duplicate'' then
       m_bind (on_peer (vs_encrypt P (rnd 0) (utf8 ''negative-vector-once''))) (\<lambda>message.
       m_bind (on_local (vs_decrypt P (rnd 1) message)) (\<lambda>_.
       m_get (\<lambda>(snapshot, _).
       m_bind (on_local (vs_decrypt P (rnd 2) message)) (\<lambda>_.
       m_return snapshot))))
     else if operation = ''ratchet_decrypt_skip_gap'' then
       m_bind (on_peer (vs_encrypt P (rnd 0) (utf8 ''negative-vector-first''))) (\<lambda>first.
       m_bind (on_local (vs_decrypt P (rnd 1) first)) (\<lambda>_.
       m_get (\<lambda>(snapshot, _).
       let peer_public = take 32 (drop (length V_RATCHET_MAGIC) first);
           future_n = vs_recv_n snapshot + V_MAX_SKIP_GAP + 1
       in m_bind (m_of (v_header peer_public 0 future_n)) (\<lambda>header.
       m_bind (on_local (vs_decrypt P (rnd 2) (header @ rnd 3))) (\<lambda>_.
       m_return snapshot)))))
     else if operation = ''ratchet_decrypt_tampered'' then
       m_get (\<lambda>(snapshot, _).
       m_bind (on_peer (vs_encrypt P (rnd 0) (utf8 ''negative-vector-tampered''))) (\<lambda>message.
       let tampered = message[length message - 1 := last message XOR 255]
       in m_bind (on_local (vs_decrypt P (rnd 1) tampered)) (\<lambda>_.
       m_return snapshot)))
     else m_raise (ValueError (''unknown ratchet negative operation: '' @ operation)))"

text \<open>\<open>_run_negative_operation\<close>; the ratchet operations have sessions of their own.\<close>

definition run_negative_operation :: "prims \<Rightarrow> vec \<Rightarrow> unit res" where
  "run_negative_operation P v =
     and_then (strf v ''operation'') (\<lambda>operation.
     if operation = ''pairing_validate'' then v_validate_pairing_request v
     else if operation = ''pairing_request_decode'' then
       and_then (and_then (hexf v ''cbor_hex'') (v_pairing_request_from_bytes P)) (\<lambda>_. Inr ())
     else if operation = ''pairing_response_decode'' then
       and_then (and_then (hexf v ''cbor_hex'') (v_pairing_response_from_bytes P)) (\<lambda>_. Inr ())
     else if operation = ''invite_verify'' then
       and_then (verify_invite_vector P v) (\<lambda>verified.
       Inl (ValueError (if verified then ''invite signature verified unexpectedly''
                        else ''invite signature rejected'')))
     else if operation = ''outer_blob_decode'' then
       (case map_of v ''relay_json'' of
          Some (JObj relay) \<Rightarrow> and_then (v_outer_blob relay) (\<lambda>_. Inr ())
        | _ \<Rightarrow> Inl (ValueError ''invalid relay_json''))
     else Inl (ValueError (''unknown negative vector operation: '' @ operation)))"

text \<open>
  The handler of \<open>verify_negative_vector\<close>. Its check that the state did not change is left out: it
  needs \<open>state_snapshot\<close>, which is assigned only when nothing was raised.
\<close>

definition is_false :: "vec \<Rightarrow> str \<Rightarrow> bool" where
  "is_false v k \<longleftrightarrow> map_of v k = Some (JBool False)"

definition rejected_as_required :: "(exn \<Rightarrow> bool) \<Rightarrow> vec \<Rightarrow> str \<Rightarrow> exn \<Rightarrow> bool res" where
  "rejected_as_required D v operation e =
     (if \<not> jtruthy (jget_default v ''must_reject'' (JBool True)) then Inr False else
      case map_of OPERATION_REJECTION_STAGE operation of None \<Rightarrow> Inr False
      | Some expected_stage \<Rightarrow>
          and_then (strf v ''rejection_stage'') (\<lambda>stage. if stage \<noteq> expected_stage then Inr False else
          and_then (infer_normative_error_code D v e) (\<lambda>inferred.
          and_then (strf v ''normative_error_code'') (\<lambda>code. if code \<noteq> inferred then Inr False else
          if \<not> is_false v ''persistent_state_must_change'' then Inr False else
          if \<not> is_false v ''retryable'' then Inr False else
          if has_value v ''error_contains''
          then and_then (strf v ''error_contains'') (\<lambda>expected. Inr (substr expected (exc_str e)))
          else Inr True))))"

text \<open>
  The directory of the vectors: the text of a file, and the names and texts of \<open>negative/*.json\<close>
  (\<open>None\<close> without that directory).
\<close>

record vector_dir =
  vd_text :: "str \<Rightarrow> str res"
  vd_negative :: "(str \<times> str) list option"

fun find_named :: "str \<Rightarrow> json list \<Rightarrow> vec res" where
  "find_named name [] = Inl (KeyError (''bootstrap vector not found: '' @ name))"
| "find_named name (x # xs) = and_then (jobj x) (\<lambda>v.
     if jget_default v ''name'' JNull = JStr name then Inr v else find_named name xs)"

definition items_of :: "json \<Rightarrow> json list res" where
  "items_of j = (case j of JList xs \<Rightarrow> Inr xs | _ \<Rightarrow> Inl (TypeError ''not a list of vectors''))"

definition load_bootstrap_vector :: "vector_dir \<Rightarrow> str \<Rightarrow> vec res" where
  "load_bootstrap_vector dir name =
     and_then (and_then (and_then (vd_text dir ''double_ratchet.json'') json_loads) items_of)
       (find_named name)"

definition verify_negative_vector ::
    "prims \<Rightarrow> (exn \<Rightarrow> bool) \<Rightarrow> vector_dir \<Rightarrow> (nat \<Rightarrow> bytes) \<Rightarrow> vec \<Rightarrow> bool res" where
  "verify_negative_vector P D dir rnd v =
     (if \<not> list_all (\<lambda>k. map_of v k \<noteq> None) NEGATIVE_REQUIRED_FIELDS then Inr False else
      and_then (strf v ''operation'') (\<lambda>operation.
      if operation \<in> set RATCHET_OPERATIONS then
        and_then (and_then (strf v ''bootstrap_vector'') (load_bootstrap_vector dir)) (\<lambda>bootstrap.
        and_then (jstr (jget_default v ''side'' (JStr ''bob''))) (\<lambda>side.
        and_then (from_bootstrap_vector P bootstrap side) (\<lambda>sessions.
        case fst (reject_ratchet_vector P rnd v sessions) of
          Inl e \<Rightarrow> rejected_as_required D v operation e
        | Inr _ \<Rightarrow> Inr False)))
      else (case run_negative_operation P v of
          Inl e \<Rightarrow> rejected_as_required D v operation e
        | Inr _ \<Rightarrow> Inr False)))"

section \<open>All vectors\<close>

text \<open>One file: the items are checked in order, and the first that fails raises.\<close>

fun check_items :: "((nat \<Rightarrow> bytes) \<Rightarrow> vec \<Rightarrow> bool res) \<Rightarrow> str \<Rightarrow> (nat \<Rightarrow> nat \<Rightarrow> bytes) \<Rightarrow> json list \<Rightarrow> unit res" where
  "check_items verifier label draws [] = Inr ()"
| "check_items verifier label draws (x # xs) =
     and_then (jobj x) (\<lambda>v. and_then (verifier (draws 0) v) (\<lambda>ok.
     if ok then check_items verifier label (draws \<circ> Suc) xs else
     and_then (jstr (jget_default v ''name'' (JStr ''unnamed''))) (\<lambda>name.
     Inl (AssertionError (label @ '' ('' @ name @ '')'')))))"

definition check_file ::
    "((nat \<Rightarrow> bytes) \<Rightarrow> vec \<Rightarrow> bool res) \<Rightarrow> str \<Rightarrow> bool \<Rightarrow> str res \<Rightarrow> (nat \<Rightarrow> nat \<Rightarrow> bytes) \<Rightarrow> unit res" where
  "check_file verifier label is_array content draws =
     and_then (and_then content json_loads) (\<lambda>data.
     and_then (if is_array then items_of data else Inr [data]) (check_items verifier label draws))"

text \<open>\<open>draws f i n\<close> is rnd \<open>n\<close> of item \<open>i\<close> of the file with the number \<open>f\<close>.\<close>

fun check_negative_files ::
    "prims \<Rightarrow> (exn \<Rightarrow> bool) \<Rightarrow> vector_dir \<Rightarrow> (nat \<Rightarrow> nat \<Rightarrow> nat \<Rightarrow> bytes) \<Rightarrow> (str \<times> str) list \<Rightarrow> unit res" where
  "check_negative_files P D dir draws [] = Inr ()"
| "check_negative_files P D dir draws ((name, text) # files) =
     and_then (json_loads text) (\<lambda>data.
     and_then (check_items (verify_negative_vector P D dir) (''negative vector failed: '' @ name) (draws 0)
       (case data of JList xs \<Rightarrow> xs | _ \<Rightarrow> [data])) (\<lambda>_.
     check_negative_files P D dir (draws \<circ> Suc) files))"

definition verify_all_negative_vectors ::
    "prims \<Rightarrow> (exn \<Rightarrow> bool) \<Rightarrow> vector_dir \<Rightarrow> (nat \<Rightarrow> nat \<Rightarrow> nat \<Rightarrow> bytes) \<Rightarrow> unit res" where
  "verify_all_negative_vectors P D dir draws =
     (case vd_negative dir of
        None \<Rightarrow> Inl (OSError ''negative vector directory missing'')
      | Some files \<Rightarrow> check_negative_files P D dir draws (sort_key fst files))"

definition vector_checks ::
    "prims \<Rightarrow> (str \<times> ((nat \<Rightarrow> bytes) \<Rightarrow> vec \<Rightarrow> bool res) \<times> bool) list" where
  "vector_checks P =
     [(''hybrid_kex.json'', \<lambda>_. verify_hybrid_kex_vector P, True),
      (''mailbox_tag.json'', \<lambda>_. verify_mailbox_tag_vector P, False),
      (''invite.json'', \<lambda>_. verify_invite_vector P, False),
      (''delivery_profile.json'', \<lambda>_. verify_delivery_profile_vector P, False),
      (''inner_message.json'', \<lambda>_. verify_inner_message_vector, False),
      (''inner_receipt.json'', \<lambda>_. verify_inner_receipt_vector P, False),
      (''outer_blob.json'', \<lambda>_. verify_outer_blob_vector, False),
      (''pairing_transcript.json'', \<lambda>_. verify_pairing_transcript_vector P, True),
      (''double_ratchet.json'', \<lambda>rnd. verify_double_ratchet_vector P (rnd 0), True)]"

fun run_checks ::
    "vector_dir \<Rightarrow> (nat \<Rightarrow> nat \<Rightarrow> nat \<Rightarrow> bytes) \<Rightarrow> (str \<times> ((nat \<Rightarrow> bytes) \<Rightarrow> vec \<Rightarrow> bool res) \<times> bool) list \<Rightarrow> unit res" where
  "run_checks dir draws [] = Inr ()"
| "run_checks dir draws ((filename, verifier, is_array) # checks) =
     and_then (check_file verifier (''vector failed: '' @ filename) is_array (vd_text dir filename) (draws 0))
       (\<lambda>_. run_checks dir (draws \<circ> Suc) checks)"

definition verify_all_vectors ::
    "prims \<Rightarrow> (exn \<Rightarrow> bool) \<Rightarrow> vector_dir \<Rightarrow> (nat \<Rightarrow> nat \<Rightarrow> nat \<Rightarrow> bytes) \<Rightarrow> (nat \<Rightarrow> nat \<Rightarrow> nat \<Rightarrow> bytes) \<Rightarrow> unit res" where
  "verify_all_vectors P D dir draws negative_draws =
     and_then (run_checks dir draws (vector_checks P)) (\<lambda>_.
     verify_all_negative_vectors P D dir negative_draws)"

end
