(* ===== verification/InteropProps.thy ===== *)
theory InteropProps
  imports Interop CoreProps
begin

text \<open>
  The verifier of the test kit against the core: its double ratchet gives the results of the core's for
  every sequence of messages of one chain, and the vector that records a pairing of the core is accepted
  exactly when it states the core's transcript and master secret. Mailbox tags, message ids, invites,
  messages and blobs of the core are accepted too; its delivery profiles are not.
\<close>

section \<open>The ratchet\<close>

lemma v_chain_step_eq [simp]: "v_chain_step P ck = kdf_ck P ck"
  by (simp add: v_chain_step_def v_hkdf64_def kdf_ck_def hkdf_derive_def V_CK_INFO_def CK_INFO_def)

lemma V_MAGIC: "V_RATCHET_MAGIC = RATCHET_MAGIC"
  by (simp add: V_RATCHET_MAGIC_def RATCHET_MAGIC_def)

lemma v_header_eq [simp]: "v_header pub pn n = header_aad pub pn n"
  by (simp add: v_header_def header_aad_def V_RATCHET_MAGIC_def RATCHET_MAGIC_def)

lemma v_xchacha_eq [simp]:
  "v_xchacha_encrypt P nonce k m a = xchacha_encrypt P nonce k m a"
  "v_xchacha_decrypt P k c a = xchacha_decrypt P k c a"
  by (simp_all add: v_xchacha_encrypt_def xchacha_encrypt_def v_xchacha_decrypt_def xchacha_decrypt_def
      split: option.split)

lemma vs_key_id_eq [simp]: "vs_key_id pub n = key_id pub n"
  by (simp add: vs_key_id_def key_id_def)

text \<open>Two states agree: the fields are equal, and the core's stored keys are the verifier's in base64.\<close>

definition encoded :: "(str \<times> bytes) list \<Rightarrow> (str \<times> str) list" where
  "encoded = map (\<lambda>(k, b). (k, b64encode b))"

definition agrees :: "vsession \<Rightarrow> ratchet \<Rightarrow> bool" where
  "agrees s r \<longleftrightarrow> root_key r = vs_root_key s \<and> dh_self_private r = vs_dh_self_private s \<and>
     dh_self_public r = vs_dh_self_public s \<and> dh_peer_public r = vs_dh_peer_public s \<and>
     send_chain_key r = vs_send_chain_key s \<and> recv_chain_key r = vs_recv_chain_key s \<and>
     send_n r = vs_send_n s \<and> recv_n r = vs_recv_n s \<and> prev_send_n r = vs_prev_send_n s \<and>
     skipped_keys r = encoded (vs_skipped_keys s) \<and> pending_pairing_dh_ratchet_peer r = None"

lemma encoded_simps [simp]:
  "encoded [] = []" "length (encoded d) = length d"
  "map_of (encoded d) k = map_option b64encode (map_of d k)"
  by (simp_all add: encoded_def map_of_map)

lemma dict_put_encoded [simp]: "dict_put k (b64encode b) (encoded d) = encoded (dict_put k b d)"
  by (induction k b d rule: dict_put.induct) (simp_all add: encoded_def)

lemma encrypt_agrees:
  assumes "agrees s r"
  shows "fst (vs_encrypt P nonce m s) = fst (ratchet_encrypt P np nonce m r)"
    "agrees (snd (vs_encrypt P nonce m s)) (snd (ratchet_encrypt P np nonce m r))"
    "vs_dh_peer_public (snd (vs_encrypt P nonce m s)) = vs_dh_peer_public s"
proof -
  from assms have eq: "send_chain_key r = vs_send_chain_key s" "pending_pairing_dh_ratchet_peer r = None"
      "dh_self_public r = vs_dh_self_public s" "prev_send_n r = vs_prev_send_n s" "send_n r = vs_send_n s"
    by (simp_all add: agrees_def)
  note defs = vs_encrypt_def ratchet_encrypt_def m_bind_def m_get_def m_of_def m_modify_def m_raise_def m_return_def
  show "fst (vs_encrypt P nonce m s) = fst (ratchet_encrypt P np nonce m r)"
    "agrees (snd (vs_encrypt P nonce m s)) (snd (ratchet_encrypt P np nonce m r))"
    "vs_dh_peer_public (snd (vs_encrypt P nonce m s)) = vs_dh_peer_public s"
    using assms by (auto simp: defs eq agrees_def split: option.splits sum.splits)
qed

lemma skip_loop_agrees:
  "agrees s r \<Longrightarrow> agrees (vs_skip_loop P pub n ck s) (skip_loop P pub n ck r)"
proof (induction P pub n ck s arbitrary: r rule: vs_skip_loop.induct)
  case (1 P pub n ck s)
  let ?r = "(store_skip pub (recv_n r) (fst (kdf_ck P ck)) r)
              \<lparr>recv_chain_key := Some (snd (kdf_ck P ck)), recv_n := recv_n r + 1\<rparr>"
  let ?s = "(vs_store_skip pub (vs_recv_n s) (fst (v_chain_step P ck)) s)
              \<lparr>vs_recv_chain_key := Some (snd (v_chain_step P ck)), vs_recv_n := vs_recv_n s + 1\<rparr>"
  have "agrees ?s ?r" using "1.prems" by (simp add: agrees_def store_skip_def vs_store_skip_def)
  from "1.IH" [OF _ this] "1.prems" show ?case
    by (subst vs_skip_loop.simps, subst skip_loop.simps) (simp add: agrees_def)
qed

lemma skip_loop_chain: "recv_chain_key r \<noteq> None \<Longrightarrow> recv_chain_key (skip_loop P pub n ck r) \<noteq> None"
proof (induction P pub n ck r rule: skip_loop.induct)
  case (1 P pub n ck r)
  then show ?case by (subst skip_loop.simps) auto
qed

lemma skip_loop_peer: "dh_peer_public (skip_loop P pub n ck r) = dh_peer_public r"
proof (induction P pub n ck r rule: skip_loop.induct)
  case (1 P pub n ck r)
  then show ?case by (subst skip_loop.simps) (auto simp: store_skip_def)
qed

text \<open>Taking the key of a message: the same result, and no change when there is none.\<close>

lemma take_key_agrees:
  assumes "agrees s r"
  shows "fst (vs_take_key P pub n s) = fst (take_message_key P pub n r)"
    "agrees (snd (vs_take_key P pub n s)) (snd (take_message_key P pub n r))"
    "dh_peer_public (snd (take_message_key P pub n r)) = dh_peer_public r"
    "fst (take_message_key P pub n r) = Inl e \<Longrightarrow> snd (take_message_key P pub n r) = r"
proof -
  from assms have eq: "recv_chain_key r = vs_recv_chain_key s" "recv_n r = vs_recv_n s"
      "skipped_keys r = encoded (vs_skipped_keys s)"
    by (simp_all add: agrees_def)
  note defs = vs_take_key_def take_message_key_def m_bind_def m_get_def m_of_def m_modify_def m_raise_def
    m_return_def vs_skip_key_def skip_key_def V_MAX_SKIP_GAP_def MAX_SKIP_GAP_def V_MAX_SKIPPED_KEYS_def
    MAX_SKIPPED_KEYS_def
  have loop: "agrees (vs_skip_loop P pub n ck s) (skip_loop P pub n ck r)" for ck
    by (rule skip_loop_agrees) (rule assms)
  have chain: "recv_chain_key (skip_loop P pub n ck r) = vs_recv_chain_key (vs_skip_loop P pub n ck s)" for ck
    using loop by (simp add: agrees_def)
  have some: False if "vs_recv_chain_key s = Some c" "vs_recv_chain_key (vs_skip_loop P pub n c s) = None" for c
    using skip_loop_chain [of r P pub n c] eq(1) chain that by auto
  show "fst (vs_take_key P pub n s) = fst (take_message_key P pub n r)"
    by (auto simp: defs eq chain split: option.splits)
  show "agrees (snd (vs_take_key P pub n s)) (snd (take_message_key P pub n r))"
    using assms loop by (auto simp: defs eq chain split: option.splits) (simp_all add: agrees_def)
  show "dh_peer_public (snd (take_message_key P pub n r)) = dh_peer_public r"
    by (auto simp: defs eq chain skip_loop_peer split: option.splits)
  show "fst (take_message_key P pub n r) = Inl e \<Longrightarrow> snd (take_message_key P pub n r) = r"
    by (auto simp: defs eq chain split: option.splits if_splits dest: some)
qed

text \<open>A packet that is not authentic: the one failure after which the core keeps what it stored on the way.\<close>

definition unauthentic :: "exn \<Rightarrow> bool" where
  "unauthentic e \<longleftrightarrow> e \<in> {CryptoError ''Decryption failed.'', ValueError ''ciphertext too short''}"

lemma xchacha_unauthentic: "xchacha_decrypt P k c a = Inl e \<Longrightarrow> unauthentic e"
  by (auto simp: xchacha_decrypt_def unauthentic_def opt_res_def split: if_splits option.splits)

lemma body_agrees:
  assumes a: "agrees s r" and peer: "vs_dh_peer_public s \<in> {None, Some k}" and aad: "header_aad k pn n = Inr aad"
  shows "fst (vs_decrypt_body P np k pn n ct s) = fst (decrypt_body P np' k pn n ct r)"
    "fst (decrypt_body P np' k pn n ct r) = Inr m \<Longrightarrow>
       agrees (snd (vs_decrypt_body P np k pn n ct s)) (snd (decrypt_body P np' k pn n ct r)) \<and>
       vs_dh_peer_public (snd (vs_decrypt_body P np k pn n ct s)) = Some k"
    "fst (decrypt_body P np' k pn n ct r) = Inl e \<Longrightarrow> \<not> unauthentic e \<Longrightarrow>
       skipped_keys (snd (decrypt_body P np' k pn n ct r)) = skipped_keys r"
proof -
  let ?s = "s\<lparr>vs_dh_peer_public := Some k\<rparr>" and ?r = "r\<lparr>dh_peer_public := Some k\<rparr>"
  have adv: "vs_advance_peer P np k s = (Inr (), ?s)" "advance_peer P np' k r = (Inr (), ?r)"
    using peer a by (auto simp: vs_advance_peer_def advance_peer_same agrees_def m_get_def m_modify_def m_return_def)
  have a': "agrees ?s ?r" using a by (simp add: agrees_def)
  note t = take_key_agrees [OF a', of P k n]
  obtain x s1 r1 where steps: "vs_take_key P k n ?s = (x, s1)" "take_message_key P k n ?r = (x, r1)"
    using t(1) by (metis prod.collapse)
  have v: "vs_decrypt_body P np k pn n ct s = (case x of Inl e \<Rightarrow> Inl e | Inr mk \<Rightarrow> xchacha_decrypt P mk ct aad, s1)"
    and c: "decrypt_body P np' k pn n ct r = (case x of Inl e \<Rightarrow> Inl e | Inr mk \<Rightarrow> xchacha_decrypt P mk ct aad, r1)"
    by (simp_all add: vs_decrypt_body_def decrypt_body_def m_bind_def m_of_def adv steps aad split: sum.splits)
  show "fst (vs_decrypt_body P np k pn n ct s) = fst (decrypt_body P np' k pn n ct r)" by (simp add: v c)
  have "agrees s1 r1" "dh_peer_public r1 = Some k" using t(2,3) by (simp_all add: steps)
  then show "agrees (snd (vs_decrypt_body P np k pn n ct s)) (snd (decrypt_body P np' k pn n ct r)) \<and>
       vs_dh_peer_public (snd (vs_decrypt_body P np k pn n ct s)) = Some k"
    by (simp add: v c agrees_def)
  show "fst (decrypt_body P np' k pn n ct r) = Inl e \<Longrightarrow> \<not> unauthentic e \<Longrightarrow>
       skipped_keys (snd (decrypt_body P np' k pn n ct r)) = skipped_keys r"
    using t(4) xchacha_unauthentic by (auto simp: c steps split: sum.splits)
qed

text \<open>The packets of one peer: they carry its key, unless the header is refused anyway.\<close>

definition from_peer :: "bytes \<Rightarrow> bytes \<Rightarrow> bool" where
  "from_peer k p \<longleftrightarrow> length p < 45 \<or> take 5 p \<noteq> RATCHET_MAGIC \<or> take 32 (drop 5 p) = k"

lemma be_nat_bound: "be_nat bs < 256 ^ length bs"
proof (induction bs rule: rev_induct)
  case (snoc b bs)
  have "unat b < 256" using unsigned_less [of b, where 'a = nat] by simp
  then have "be_nat bs * 256 + unat b < (be_nat bs + 1) * 256" by simp
  also have "\<dots> \<le> 256 ^ length bs * 256" using snoc by (intro mult_le_mono1) simp
  finally show ?case by (simp add: be_nat_snoc mult.commute)
qed (simp add: be_nat_def)

lemma be_nat_take_4: "be_nat (take 4 bs) < 4294967296"
proof -
  have "be_nat (take 4 bs) < 256 ^ length (take 4 bs)" by (rule be_nat_bound)
  also have "\<dots> \<le> 256 ^ 4" by (rule power_increasing) simp_all
  finally show ?thesis by simp
qed

lemma restored: "vs_restore s s' = s"
  by (cases s, cases s') (simp add: vs_restore_def)

lemma decrypt_agrees:
  assumes a: "agrees s r" and inv: "ratchet_inv r"
    and peer: "vs_dh_peer_public s \<in> {None, Some k}" and p: "from_peer k p"
  shows "fst (vs_decrypt P np p s) = fst (ratchet_decrypt P np' p r)"
    "(\<And>e. fst (ratchet_decrypt P np' p r) = Inl e \<Longrightarrow> \<not> unauthentic e) \<Longrightarrow>
       agrees (snd (vs_decrypt P np p s)) (snd (ratchet_decrypt P np' p r)) \<and>
       vs_dh_peer_public (snd (vs_decrypt P np p s)) \<in> {None, Some k}"
proof -
  have "fst (vs_decrypt P np p s) = fst (ratchet_decrypt P np' p r) \<and>
    ((\<forall>e. fst (ratchet_decrypt P np' p r) = Inl e \<longrightarrow> \<not> unauthentic e) \<longrightarrow>
       agrees (snd (vs_decrypt P np p s)) (snd (ratchet_decrypt P np' p r)) \<and>
       vs_dh_peer_public (snd (vs_decrypt P np p s)) \<in> {None, Some k})"
  proof (cases "length p < 45 \<or> take 5 p \<noteq> RATCHET_MAGIC")
    case True
    then have "vs_decrypt P np p s = (fst (ratchet_decrypt P np' p r), s)" "snd (ratchet_decrypt P np' p r) = r"
      by (auto simp: vs_decrypt_def ratchet_decrypt_def V_MAGIC Let_def)
    then show ?thesis using a peer by simp
  next
    case False
    let ?pn = "int (be_nat (take 4 (drop 37 p)))" and ?n = "int (be_nat (take 4 (drop 41 p)))"
    have k: "take 32 (drop 5 p) = k" using p False by (simp add: from_peer_def)
    have aad: "header_aad k ?pn ?n = Inr (RATCHET_MAGIC @ k @ be_bytes 4 (nat ?pn) @ be_bytes 4 (nat ?n))"
      by (simp add: header_aad_def pack_II_def be_nat_take_4 del: nat_int)
    note b = body_agrees(1,2) [OF a peer aad, where P = P and np = np and ct = "drop 45 p" and np' = np']
      and kept = body_agrees(3) [OF a peer aad, where P = P and ct = "drop 45 p" and np' = np']
    obtain x s1 r1 where body: "vs_decrypt_body P np k ?pn ?n (drop 45 p) s = (x, s1)"
        "decrypt_body P np' k ?pn ?n (drop 45 p) r = (x, r1)"
      using b(1) by (metis prod.collapse)
    have v: "vs_decrypt P np p s = (x, case x of Inl e \<Rightarrow> s | Inr m \<Rightarrow> s1)"
      using False body(1) by (auto simp: vs_decrypt_def V_MAGIC k Let_def
          restored split: sum.split)
    have wf: "ratchet_wf r" "sk_distinct r" using inv by (simp_all add: ratchet_inv_def ratchet_wf_def)
    have "sk_distinct r1" using decrypt_body_distinct [OF wf(2), of P np' k ?pn ?n "drop 45 p"] body(2) by simp
    from restore_skipped [OF wf(1) this]
    have c: "ratchet_decrypt P np' p r = (x, case x of Inl e \<Rightarrow> r\<lparr>skipped_keys := skipped_keys r1\<rparr> | Inr m \<Rightarrow> r1)"
      using False body(2) by (auto simp: ratchet_decrypt_def k Let_def split: sum.split)
    show ?thesis
    proof (cases x)
      case (Inl e)
      then have "\<not> unauthentic e \<Longrightarrow> skipped_keys r1 = skipped_keys r" using kept body by simp
      then show ?thesis using a peer by (simp add: v c Inl)
    next
      case (Inr m)
      then show ?thesis using b(2) body by (simp add: v c)
    qed
  qed
  then show "fst (vs_decrypt P np p s) = fst (ratchet_decrypt P np' p r)"
    "(\<And>e. fst (ratchet_decrypt P np' p r) = Inl e \<Longrightarrow> \<not> unauthentic e) \<Longrightarrow>
       agrees (snd (vs_decrypt P np p s)) (snd (ratchet_decrypt P np' p r)) \<and>
       vs_dh_peer_public (snd (vs_decrypt P np p s)) \<in> {None, Some k}"
    by blast+
qed

text \<open>
  A run of a session: it seals with a nonce, or opens a packet, and stops at the first packet that is not
  authentic.
\<close>

datatype ratchet_op = Seal bytes bytes | Open bytes

definition verifier_op :: "prims \<Rightarrow> bytes \<Rightarrow> ratchet_op \<Rightarrow> (vsession, bytes) meth" where
  "verifier_op P np x = (case x of Seal nonce m \<Rightarrow> vs_encrypt P nonce m | Open p \<Rightarrow> vs_decrypt P np p)"

definition core_op :: "prims \<Rightarrow> bytes \<Rightarrow> ratchet_op \<Rightarrow> (ratchet, bytes) meth" where
  "core_op P np x = (case x of Seal nonce m \<Rightarrow> ratchet_encrypt P np nonce m | Open p \<Rightarrow> ratchet_decrypt P np p)"

fun results :: "('a \<Rightarrow> ('s, bytes) meth) \<Rightarrow> 'a list \<Rightarrow> 's \<Rightarrow> bytes res list" where
  "results step [] s = []"
| "results step (x # xs) s = fst (step x s) #
     (case fst (step x s) of Inl e \<Rightarrow> if unauthentic e then [] else results step xs (snd (step x s))
      | Inr _ \<Rightarrow> results step xs (snd (step x s)))"

definition op_from :: "bytes \<Rightarrow> ratchet_op \<Rightarrow> bool" where
  "op_from k x = (case x of Seal _ _ \<Rightarrow> True | Open p \<Rightarrow> from_peer k p)"

lemma op_agrees:
  assumes P: "hkdf_lengths P" and a: "agrees s r" and inv: "ratchet_inv r"
    and peer: "vs_dh_peer_public s \<in> {None, Some k}" and x: "op_from k x"
  shows "fst (verifier_op P np x s) = fst (core_op P np' x r)" "ratchet_inv (snd (core_op P np' x r))"
    "(\<And>e. fst (core_op P np' x r) = Inl e \<Longrightarrow> \<not> unauthentic e) \<Longrightarrow>
       agrees (snd (verifier_op P np x s)) (snd (core_op P np' x r)) \<and>
       vs_dh_peer_public (snd (verifier_op P np x s)) \<in> {None, Some k}"
  using encrypt_agrees(1,2) [OF a, where P = P and np = np'] encrypt_agrees(3) [OF a, of P] decrypt_agrees [OF a inv peer, where P = P and np = np and np' = np'] peer x
    ratchet_encrypt_inv [OF P inv] ratchet_decrypt_inv [OF P inv]
  by (cases x; simp add: verifier_op_def core_op_def op_from_def)+

lemma runs_agree:
  assumes P: "hkdf_lengths P"
  shows "agrees s r \<Longrightarrow> ratchet_inv r \<Longrightarrow> vs_dh_peer_public s \<in> {None, Some k} \<Longrightarrow> list_all (op_from k) xs \<Longrightarrow>
    results (verifier_op P np) xs s = results (core_op P np') xs r"
proof (induction xs arbitrary: s r)
  case (Cons x xs)
  note agree = op_agrees(1,3) [OF P Cons.prems(1-3), where x = x and np = np and np' = np']
    and inv = op_agrees(2) [OF P Cons.prems(1-3), where x = x and np' = np']
  have "results (verifier_op P np) xs (snd (verifier_op P np x s)) = results (core_op P np') xs (snd (core_op P np' x r))"
    if "\<And>e. fst (core_op P np' x r) = Inl e \<Longrightarrow> \<not> unauthentic e"
    using agree inv that Cons.prems(4) by (intro Cons.IH) auto
  then show ?case using agree(1) Cons.prems(4) by (auto split: sum.split)
qed simp

lemma new_session_agrees:
  defines "root \<equiv> \<lambda>P master. v_hkdf_derive P master V_ROOT_INFO []"
  shows "agrees (vs_new (root P master) priv (p_x25519_pub P priv) (v_hkdf_derive P (root P master) V_SEND_CHAIN_INFO [])
           (v_hkdf_derive P (root P master) V_RECV_CHAIN_INFO [])) (from_master P master True hybrid priv)"
    "agrees (vs_new (root P master) priv (p_x25519_pub P priv) (v_hkdf_derive P (root P master) V_RECV_CHAIN_INFO [])
           (v_hkdf_derive P (root P master) V_SEND_CHAIN_INFO [])) (from_master P master False hybrid priv)"
  by (simp_all add: root_def agrees_def vs_new_def from_master_def v_hkdf_derive_def hkdf_derive_def V_ROOT_INFO_def
      ROOT_INFO_def V_SEND_CHAIN_INFO_def SEND_CHAIN_INFO_def V_RECV_CHAIN_INFO_def RECV_CHAIN_INFO_def Let_def)

text \<open>
  C24. The verifier's double ratchet is equivalent to the core's on the messages of one chain. Both sessions
  that the verifier makes of a bootstrap vector, and the core's two sides with the same master secret and
  keys, give the same result for every operation of every sequence: the packets they seal are the same
  byte for byte, and they open or refuse the same packets with the same errors, up to the first packet that
  is not authentic (after which the core keeps the keys it stored on the way, and the verifier does not).
\<close>

theorem verifier_ratchet_agrees:
  assumes law: "hkdf_lengths P"
    and v: "hexf v ''master_secret_hex'' = Inr master" "hexf v ''alice_dh_self_private_hex'' = Inr a"
      "hexf v ''bob_dh_self_private_hex'' = Inr b" "length a = 32" "length b = 32"
    and xs: "list_all (op_from k) xs"
  shows "\<exists>l p. from_bootstrap_vector P v side = Inr (l, p) \<and>
    results (verifier_op P np) xs l =
      results (core_op P np') xs (from_master P master (side = ''alice'') hybrid (if side = ''alice'' then a else b)) \<and>
    results (verifier_op P np) xs p =
      results (core_op P np') xs (from_master P master (side \<noteq> ''alice'') hybrid (if side = ''alice'' then b else a))"
proof -
  let ?root = "v_hkdf_derive P master V_ROOT_INFO []"
  let ?send = "v_hkdf_derive P ?root V_SEND_CHAIN_INFO []" and ?recv = "v_hkdf_derive P ?root V_RECV_CHAIN_INFO []"
  let ?alice = "vs_new ?root a (p_x25519_pub P a) ?send ?recv" and ?bob = "vs_new ?root b (p_x25519_pub P b) ?recv ?send"
  have run: "results (verifier_op P np) xs s = results (core_op P np') xs (from_master P master c hybrid priv)"
    if "agrees s (from_master P master c hybrid priv)" "vs_dh_peer_public s = None" for s c priv
    by (rule runs_agree [OF law that(1) from_master_inv [OF law] _ xs]) (simp add: that(2))
  have "results (verifier_op P np) xs ?alice = results (core_op P np') xs (from_master P master True hybrid a)"
    "results (verifier_op P np) xs ?bob = results (core_op P np') xs (from_master P master False hybrid b)"
    by (rule run [OF new_session_agrees(1)], simp add: vs_new_def, rule run [OF new_session_agrees(2)], simp add: vs_new_def)
  moreover have "from_bootstrap_vector P v side = Inr (if side = ''alice'' then (?alice, ?bob) else (?bob, ?alice))"
    using v by (simp add: from_bootstrap_vector_def v_x25519_public_def Let_def)
  ultimately show ?thesis by auto
qed

definition demo_bootstrap :: vec where
  "demo_bootstrap = [(''name'', JStr ''bootstrap''), (''master_secret_hex'', JStr (to_hex (replicate 32 9))),
     (''alice_dh_self_private_hex'', JStr (to_hex (replicate 32 1))),
     (''bob_dh_self_private_hex'', JStr (to_hex (replicate 32 2)))]"

definition demo_ops :: "ratchet_op list" where
  "demo_ops = [Seal (replicate 24 0) [1, 2, 3], Open [7],
     Open (RATCHET_MAGIC @ replicate 32 5 @ be_bytes 4 0 @ be_bytes 4 200 @ replicate 40 1),
     Open (RATCHET_MAGIC @ replicate 32 5 @ be_bytes 4 0 @ be_bytes 4 3 @ replicate 40 1)]"

theorem verifier_ratchet_agrees_witness:
  "\<exists>l p. from_bootstrap_vector demo_prims demo_bootstrap ''bob'' = Inr (l, p) \<and>
    results (verifier_op demo_prims []) demo_ops l =
      results (core_op demo_prims []) demo_ops (from_master demo_prims (replicate 32 9) False False (replicate 32 2))"
proof -
  have "list_all (op_from (replicate 32 5)) demo_ops"
    by (simp add: demo_ops_def op_from_def from_peer_def)
  moreover have "hexf demo_bootstrap ''master_secret_hex'' = Inr (replicate 32 9)"
    "hexf demo_bootstrap ''alice_dh_self_private_hex'' = Inr (replicate 32 1)"
    "hexf demo_bootstrap ''bob_dh_self_private_hex'' = Inr (replicate 32 2)"
    by (simp_all add: hexf_def strf_def jget_def demo_bootstrap_def del: to_hex_simps)
  ultimately show ?thesis
    using verifier_ratchet_agrees [OF demo_hkdf, where v = demo_bootstrap and master = "replicate 32 9" and a = "replicate 32 1"
        and b = "replicate 32 2" and side = "''bob''" and np = "[]" and np' = "[]" and hybrid = False
        and xs = demo_ops and k = "replicate 32 5"] by simp blast
qed

section \<open>Pairing\<close>

text \<open>The vector that records a pairing, with a transcript \<open>th\<close> and a master secret \<open>m\<close> claimed for it.\<close>

definition pairing_vector ::
    "identity \<Rightarrow> identity \<Rightarrow> bytes \<Rightarrow> invite_bundle \<Rightarrow> pairing_request \<Rightarrow> pairing_secrets \<Rightarrow> pairing_response \<Rightarrow>
     bytes \<Rightarrow> bytes \<Rightarrow> bytes \<Rightarrow> bytes \<Rightarrow> vec" where
  "pairing_vector i j e invite request secrets response x y th m =
     (''invite_protocol'', JStr (iv_protocol invite)) # map (\<lambda>(k, b). (k, JStr (to_hex b)))
     [(''invite_secret_hex'', iv_secret invite), (''invite_signing_public_hex'', iv_signing_public invite),
      (''invite_agreement_public_hex'', iv_agreement_public invite),
      (''joiner_signing_public_hex'', pq_joiner_signing request),
      (''joiner_agreement_public_hex'', pq_agreement_public request),
      (''joiner_ephemeral_public_hex'', pq_ephemeral_public request),
      (''inviter_ephemeral_public_hex'', ps_ephemeral_public response),
      (''joiner_ratchet_public_hex'', pq_ratchet_public request),
      (''inviter_ratchet_public_hex'', ps_ratchet_public response),
      (''kem_ciphertext_hex'', pq_kem_ciphertext request),
      (''inviter_agreement_private_hex'', agreement_private i), (''inviter_ephemeral_private_hex'', e),
      (''joiner_agreement_private_hex'', agreement_private j),
      (''joiner_ephemeral_private_hex'', sec_ephemeral secrets),
      (''inviter_kem_secret_hex'', kem_private i),
      (''expected_identity_shared_hex'', x), (''expected_ephemeral_shared_hex'', y),
      (''expected_pq_secret_hex'', case sec_pq secrets of Some s \<Rightarrow> s | None \<Rightarrow> []),
      (''expected_transcript_hash_hex'', th), (''expected_master_secret_hex'', m)]"

lemma to_hex_empty [simp]: "to_hex b = [] \<longleftrightarrow> b = []"
  by (cases b) simp_all

lemma pairing_vector_fields:
  fixes i j :: identity and request :: pairing_request and secrets :: pairing_secrets and response :: pairing_response
    and invite :: invite_bundle and e x y th m :: bytes
  defines "v \<equiv> pairing_vector i j e invite request secrets response x y th m"
  shows "has_value v ''kem_ciphertext_hex'' \<longleftrightarrow> pq_kem_ciphertext request \<noteq> []"
    "v_transcript_hash P v = Inr (p_sha256 P (py_join [PIPE]
       ([utf8 (iv_protocol invite), iv_secret invite, iv_signing_public invite,
         iv_agreement_public invite, pq_joiner_signing request, pq_agreement_public request,
         pq_ephemeral_public request, ps_ephemeral_public response, pq_ratchet_public request,
         ps_ratchet_public response] @
        (if pq_kem_ciphertext request \<noteq> [] then [pq_kem_ciphertext request] else []))))"
    "hexf v ''inviter_kem_secret_hex'' = Inr (kem_private i)"
    "hexf v ''kem_ciphertext_hex'' = Inr (pq_kem_ciphertext request)"
    "hexf v ''expected_master_secret_hex'' = Inr m"
    "hex_is v ''expected_master_secret_hex'' b = Inr (b = m)"
    "hex_is v ''expected_transcript_hash_hex'' b = Inr (b = th)"
    "hex_is v ''expected_identity_shared_hex'' b = Inr (b = x)"
    "hex_is v ''expected_ephemeral_shared_hex'' b = Inr (b = y)"
    "hex_is v ''expected_pq_secret_hex'' b = Inr (b = (case sec_pq secrets of Some s \<Rightarrow> s | None \<Rightarrow> []))"
    "v_exchanges P v ''inviter_agreement_private_hex'' ''inviter_ephemeral_private_hex''
       ''joiner_agreement_public_hex'' ''joiner_ephemeral_public_hex'' =
     and_then (p_x25519 P (agreement_private i) (pq_agreement_public request)) (\<lambda>a.
     and_then (p_x25519 P e (pq_ephemeral_public request)) (\<lambda>b. Inr (a, b)))"
    "v_exchanges P v ''joiner_agreement_private_hex'' ''joiner_ephemeral_private_hex''
       ''invite_agreement_public_hex'' ''inviter_ephemeral_public_hex'' =
     and_then (p_x25519 P (agreement_private j) (iv_agreement_public invite)) (\<lambda>a.
     and_then (p_x25519 P (sec_ephemeral secrets) (ps_ephemeral_public response)) (\<lambda>b. Inr (a, b)))"
  by (simp_all add: v_def pairing_vector_def has_value_def v_transcript_hash_def hexf_def strf_def hex_is_def jget_def
      jget_default_def v_exchanges_def v_x25519_shared_def PIPE_def del: to_hex_simps)

lemma pairing_vector_verified:
  fixes i j :: identity
  defines "v \<equiv> \<lambda>invite request secrets response e x y th m. pairing_vector i j e invite request secrets response x y th m"
  assumes dh: "p_x25519 P (agreement_private i) (pq_agreement_public request) = Inr x"
      "p_x25519 P e (pq_ephemeral_public request) = Inr y"
      "p_x25519 P (agreement_private j) (iv_agreement_public invite) = Inr x"
      "p_x25519 P (sec_ephemeral secrets) (ps_ephemeral_public response) = Inr y"
    and th0: "v_transcript_hash P (v invite request secrets response e x y th m) = Inr th0"
    and kem: "pq_kem_ciphertext request \<noteq> [] \<Longrightarrow> sec_pq secrets = Some (p_kem_dec P (kem_private i) (pq_kem_ciphertext request))"
  shows "verify_pairing_transcript_vector P (v invite request secrets response e x y th m) = Inr (th = th0 \<and>
    m = (if pq_kem_ciphertext request \<noteq> []
         then p_hkdf P 32 th0 V_HYBRID_MASTER_INFO (x @ y @ p_kem_dec P (kem_private i) (pq_kem_ciphertext request))
         else p_hkdf P 32 th0 V_PAIR_MASTER_INFO (x @ y)))"
  using th0 kem
  by (auto simp: verify_pairing_transcript_vector_def v_def pairing_vector_fields(1,3-) dh v_inviter_master_def
      verify_hybrid_master_def v_classical_master_def v_hkdf_derive_def Let_def)

lemma pairing_kem:
  assumes ok: "handshake_ok P i j invite ks"
    and req: "build_pairing_request P e' r' rnd j invite name profile = Inr (request, secrets)"
    and hybrid: "invite_supports_hybrid invite"
  shows "sec_pq secrets = Some (p_kem_dec P (kem_private i) (pq_kem_ciphertext request))"
    "kem_decapsulate P (kem_private i) (pq_kem_ciphertext request) = Inr (p_kem_dec P (kem_private i) (pq_kem_ciphertext request))"
proof -
  obtain s where s: "sec_pq secrets = Some s" "kem_encapsulate P rnd (iv_kem_public invite) = Inr (pq_kem_ciphertext request, s)"
    using build_pairing_request_Inr(7) [OF req hybrid] by blast
  then have "kem_decapsulate P (kem_private i) (pq_kem_ciphertext request) = Inr s"
    using ok hybrid kem_roundtrip(1) by (auto simp: handshake_ok_def)
  then show "sec_pq secrets = Some (p_kem_dec P (kem_private i) (pq_kem_ciphertext request))"
    "kem_decapsulate P (kem_private i) (pq_kem_ciphertext request) = Inr (p_kem_dec P (kem_private i) (pq_kem_ciphertext request))"
    using s(1) by (auto simp: kem_decapsulate_def split: if_splits)
qed

text \<open>
  C25. The verifier checks a pairing vector as the core computes it. Of the vector that records the keys of
  a pairing that both sides of the core completed, classical or hybrid, it accepts exactly the one that
  states the transcript hash and the master secret that the two contacts hold.
\<close>

theorem pairing_vector_checked:
  assumes ok: "handshake_ok P i j invite [e, r, e', r']"
    and req: "build_pairing_request P e' r' rnd j invite name profile = Inr (request, secrets)"
    and inv: "inviter_complete_pairing P i invite request e inviter_profile r now = Inr (response, ci)"
    and join: "joiner_complete_pairing P j invite request secrets response now' = Inr cj"
  shows "\<exists>x y. p_x25519 P (agreement_private i) (agreement_public_bytes P j) = Inr x \<and>
    p_x25519 P e (p_x25519_pub P e') = Inr y \<and>
    verify_pairing_transcript_vector P (pairing_vector i j e invite request secrets response x y th m) =
      Inr (transcript_hash ci = Some th \<and> transcript_hash cj = Some th \<and> master_secret ci = m \<and> master_secret cj = m)"
proof -
  note q = build_pairing_request_Inr [OF req] and agreed = pairing_agreement(1,2) [OF assms]
  from inv obtain th0 pqi where I:
    "pairing_transcript P invite request (p_x25519_pub P e) (p_x25519_pub P r) = Inr th0"
    "derive_pair_master P (agreement_private i) (pq_agreement_public request) e (pq_ephemeral_public request)
       th0 pqi = Inr (master_secret ci)"
    "if invite_supports_hybrid invite
     then \<exists>s. pqi = Some s \<and> kem_decapsulate P (kem_private i) (pq_kem_ciphertext request) = Inr s
     else pqi = None"
    "transcript_hash ci = Some th0"
    "response = \<lparr>ps_ephemeral_public = p_x25519_pub P e, ps_ratchet_public = p_x25519_pub P r,
       ps_transcript_hash = th0, ps_profile = inviter_profile\<rparr>"
    by (elim inviter_complete_pairing_Inr) blast
  have len: "length (agreement_private i) = 32" "length (agreement_private j) = 32" "length e = 32" "length e' = 32"
    and law: "x25519_commutes P"
    using ok by (simp_all add: handshake_ok_def)
  obtain x where x: "p_x25519 P (agreement_private i) (p_x25519_pub P (agreement_private j)) = Inr x"
      "p_x25519 P (agreement_private j) (p_x25519_pub P (agreement_private i)) = Inr x"
    using dh_shared [OF law len(1,2)] .
  obtain y where y: "p_x25519 P e (p_x25519_pub P e') = Inr y" "p_x25519 P e' (p_x25519_pub P e) = Inr y"
    using dh_shared [OF law len(3,4)] .
  have hybrid: "invite_supports_hybrid invite \<longleftrightarrow> pq_kem_ciphertext request \<noteq> []"
    using I(1) by (auto simp: pairing_transcript_def validate_pairing_request_Inr)
  note kem = pairing_kem [OF ok req]
  have m: "master_secret ci = (if pq_kem_ciphertext request \<noteq> []
         then p_hkdf P 32 th0 V_HYBRID_MASTER_INFO (x @ y @ p_kem_dec P (kem_private i) (pq_kem_ciphertext request))
         else p_hkdf P 32 th0 V_PAIR_MASTER_INFO (x @ y))"
    using I(2,3) hybrid kem(2) q(1,2) x(1) y(1)
    by (auto simp: derive_pair_master_def derive_hybrid_master_def x25519_shared_secret_def agreement_public_bytes_def
        hkdf_derive_def V_HYBRID_MASTER_INFO_def HYBRID_MASTER_INFO_def V_PAIR_MASTER_INFO_def PAIR_MASTER_INFO_def
        split: if_splits)
  have t: "v_transcript_hash P (pairing_vector i j e invite request secrets response x y th m) = Inr th0"
    using I(1,5) hybrid by (auto simp: pairing_vector_fields(2) pairing_transcript_def)
  have "verify_pairing_transcript_vector P (pairing_vector i j e invite request secrets response x y th m) =
      Inr (th = th0 \<and> m = master_secret ci)"
    unfolding m
    by (rule pairing_vector_verified [OF _ _ _ _ t kem(1)])
      (use q x y I(5) ok hybrid in \<open>auto simp: agreement_public_bytes_def handshake_ok_def\<close>)
  moreover have "master_secret cj = master_secret ci" "transcript_hash cj = Some th0" using agreed I(4) by simp_all
  ultimately show ?thesis
    using x(1) y(1) I(4) by (auto simp: agreement_public_bytes_def)
qed

theorem pairing_vector_checked_witness:
  "\<exists>request secrets response x y th m.
     verify_pairing_transcript_vector demo_prims
       (pairing_vector demo_inviter demo_joiner (replicate 32 5) demo_invite request secrets response x y th m) = Inr True"
proof -
  obtain request secrets response ci cj s where "demo_first_text request secrets response ci cj s"
    using demo_first_text by blast
  then have h: "build_pairing_request demo_prims (replicate 32 7) (replicate 32 8) [] demo_joiner demo_invite (id_name demo_joiner) []
       = Inr (request, secrets)"
     "inviter_complete_pairing demo_prims demo_inviter demo_invite request (replicate 32 5) [] (replicate 32 6) 0
       = Inr (response, ci)"
     "joiner_complete_pairing demo_prims demo_joiner demo_invite request secrets response 0 = Inr cj"
    by (simp_all add: demo_first_text_def)
  obtain th where th: "transcript_hash ci = Some th" using h(2) by (rule inviter_complete_pairing_Inr) auto
  have "transcript_hash cj = Some th" "master_secret cj = master_secret ci"
    using pairing_agreement(1,2) [OF demo_handshake_ok h] th by simp_all
  then have "\<exists>x y. verify_pairing_transcript_vector demo_prims
      (pairing_vector demo_inviter demo_joiner (replicate 32 5) demo_invite request secrets response x y th (master_secret ci)) = Inr True"
    using pairing_vector_checked [OF demo_handshake_ok h, of th "master_secret ci"] th by auto
  then show ?thesis by blast
qed

section \<open>The other vectors\<close>

lemma v_b64decode_eq [simp]: "v_b64decode s = b64decode s"
  by (simp add: v_b64decode_def b64decode_def b64_padding_def)

lemma v_message_id_eq [simp]: "v_message_id P c = message_id P c"
  by (simp add: v_message_id_def message_id_def)

lemmas vector_simps = hexf_def strf_def intf_def hex_is_def int_is_def jget_def jget_default_def

lemma mailbox_tag_checked:
  "verify_mailbox_tag_vector P
     [(''master_secret_hex'', JStr (to_hex ms)), (''direction'', JStr d), (''epoch'', JInt n), (''expected_tag_hex'', JStr (to_hex t))]
   = Inr (tag (derive_at P \<lparr>td_secret = derive_mailbox_secret P ms d, td_epoch_secs = secs\<rparr> d n) = t)"
  by (simp add: verify_mailbox_tag_vector_def vector_simps derive_at_def derive_mailbox_secret_def v_hkdf_derive_def
      hkdf_derive_def V_MAILBOX_TAG_INFO_def MAILBOX_TAG_INFO_def Let_def del: to_hex_simps)

text \<open>A blob whose tag has another length than 32 bytes is decoded by the core, and refused by the verifier.\<close>

lemma outer_blob_checked:
  assumes "to_relay_json b = JObj ps"
  shows "from_relay_json (JObj ps) = Inr (b\<lparr>ob_version := 1\<rparr>)"
    "v_outer_blob ps = (if length (ob_tag b) = 32 then Inr (1, ob_tag b, ob_expires_at b, ob_ciphertext b)
       else Inl (ValueError ''mailbox_tag must be 32 bytes''))"
  using assms from_to_relay_json [of b]
  by (auto simp: v_outer_blob_def to_relay_json_def vector_simps)

lemma invite_checked:
  assumes laws: "cbor_correct P" and b: "verify_invite P b now = Inr ()"
  shows "verify_invite_vector P [(''bundle_b64'', JStr (b64encode (invite_to_bytes P b))),
      (''signing_public_hex'', JStr (to_hex (iv_signing_public b))), (''safety_code'', JStr (safety_code P b))] = Inr True"
proof -
  let ?ps = "invite_unsigned_dict b @ (''signature'', CBytes (iv_signature b)) #
    when_item (iv_pq_signature b \<noteq> []) ''pq_signature'' (CBytes (iv_pq_signature b))"
  have unsigned: "v_invite_unsigned P ?ps = invite_unsigned_payload P b"
    by (simp add: v_invite_unsigned_def invite_unsigned_payload_def invite_unsigned_dict_def when_item_def)
  have get: "cget ?ps ''signing_public'' = Inr (CBytes (iv_signing_public b))"
    "cget ?ps ''agreement_public'' = Inr (CBytes (iv_agreement_public b))"
    "cget ?ps ''signature'' = Inr (CBytes (iv_signature b))"
    by (simp_all add: cget_def invite_unsigned_dict_def when_item_def)
  have loaded: "p_cbor_loads P (invite_to_bytes P b) = Inr (CMap ?ps)" using laws by (simp add: invite_to_bytes_def)
  have signed: "ed_verify P (iv_signing_public b) (iv_signature b) (invite_unsigned_payload P b) = Inr ()"
    using b by (auto simp: verify_invite_def split: if_splits)
  then have "length (iv_signing_public b) = 32" by simp
  then show ?thesis
    by (simp add: verify_invite_vector_def vector_simps loaded get unsigned signed ed_public_def safety_code_def v_safety_def
        Let_def del: to_hex_simps ed_verify_Inr)
qed

text \<open>
  The bytes that the verifier takes a profile's signature to be over are never those that the core signs:
  it leaves out the key pin of the endpoint.
\<close>

lemma profile_not_checked:
  assumes "cbor_correct P"
  shows "\<exists>unsigned. v_profile_unsigned P (profile_fields p @ [(''signature'', CBytes (dp_signature p))]) = Inr unsigned \<and>
    unsigned \<noteq> profile_unsigned_payload P p"
  using assms
  by (simp add: v_profile_unsigned_def profile_keys_def profile_fields_def cget_def profile_unsigned_payload_def cbor_dumps_inject)

end
