(* ===== verification/Routing.thy ===== *)
theory Routing
  imports Store
begin

text \<open>
  The choice of a route through two relays (\<open>yakr_core/routing.py\<close>): a weighted pick that the conversation
  secret and the message id determine, and then rerolls while the route shares a relay with the last one.
  The floating point numbers of the weights are a type parameter with the operations the code uses on them,
  so what is proved here holds for every rounding.
\<close>

record 'f floats =
  f_one :: 'f
  f_hundredth :: 'f  \<comment> \<open>0.01\<close>
  f_twentieth :: 'f  \<comment> \<open>0.05\<close>
  f_zero :: 'f
  f_mul :: "'f \<Rightarrow> 'f \<Rightarrow> 'f"
  f_add :: "'f \<Rightarrow> 'f \<Rightarrow> 'f"
  f_le :: "'f \<Rightarrow> 'f \<Rightarrow> bool"
  f_sum :: "'f list \<Rightarrow> 'f"
  f_per_10000 :: "nat \<Rightarrow> 'f"  \<comment> \<open>n / 10000.0\<close>

definition weighted_score :: "'f floats \<Rightarrow> relay_node \<Rightarrow> relay_node \<Rightarrow> route_state \<Rightarrow> 'f" where
  "weighted_score F entry mailbox state =
     (let score = f_one F;
          score = (if Some (rn_name entry) = last_entry state then f_mul F score (f_twentieth F) else score);
          score = (if Some (rn_name mailbox) = last_mailbox state then f_mul F score (f_twentieth F) else score)
      in if rn_name entry = rn_name mailbox then f_mul F score (f_hundredth F) else score)"

definition deterministic_uniform :: "prims \<Rightarrow> bytes \<Rightarrow> str \<Rightarrow> nat \<Rightarrow> nat" where
  "deterministic_uniform P seed key bound = be_nat (take 8 (p_hmac P seed (utf8 key))) mod bound"

text \<open>The candidates, every entry with every mailbox, in the order of the network file.\<close>

definition route_candidates ::
    "'f floats \<Rightarrow> relay_node list \<Rightarrow> relay_node list \<Rightarrow> route_state \<Rightarrow> ('f \<times> str \<times> str) list" where
  "route_candidates F entries mailboxes state =
     filter (\<lambda>(score, _). \<not> f_le F score (f_zero F))
       (concat (map (\<lambda>entry. map (\<lambda>mailbox.
          (weighted_score F entry mailbox state, rn_name entry, rn_name mailbox)) mailboxes) entries))"

fun pick_candidate :: "'f floats \<Rightarrow> 'f \<Rightarrow> 'f \<Rightarrow> str \<times> str \<Rightarrow> ('f \<times> str \<times> str) list \<Rightarrow> str \<times> str" where
  "pick_candidate F pick running chosen [] = chosen"
| "pick_candidate F pick running chosen ((score, names) # cs) =
     (let running = f_add F running score in
      if f_le F pick running then names else pick_candidate F pick running chosen cs)"

text \<open>\<open>for attempt in range(max_attempts)\<close>, counted from \<open>attempt\<close> on, with \<open>k\<close> attempts left.\<close>

fun reroll :: "prims \<Rightarrow> bytes \<Rightarrow> route_state \<Rightarrow> ('f \<times> str \<times> str) list \<Rightarrow> nat \<Rightarrow> nat \<Rightarrow> str \<times> str \<Rightarrow> str \<times> str" where
  "reroll P seed state candidates attempt 0 chosen = chosen"
| "reroll P seed state candidates attempt (Suc k) chosen =
     (if Some (fst chosen) \<noteq> last_entry state \<and> Some (snd chosen) \<noteq> last_mailbox state then chosen
      else reroll P seed state candidates (Suc attempt) k
        (snd (candidates ! deterministic_uniform P seed (''reroll-'' @ str_of_nat attempt) (length candidates))))"

definition select_route ::
    "'f floats \<Rightarrow> prims \<Rightarrow> (str \<times> relay_node) list \<Rightarrow> bytes \<Rightarrow> str \<Rightarrow> route_state \<Rightarrow> nat \<Rightarrow>
     (str \<times> str \<times> route_state) res" where
  "select_route F P network conversation_secret mid state max_attempts =
     (let entries = filter (\<lambda>node. rn_role node \<in> {''entry'', ''both''}) (map snd network);
          mailboxes = filter (\<lambda>node. rn_role node \<in> {''mailbox'', ''both''}) (map snd network)
      in if entries = [] \<or> mailboxes = [] then Inl (ValueError ''insufficient relays for route selection'') else
      let seed = hkdf_derive P conversation_secret (utf8 mid @ utf8 ''route'') 32 [];
          candidates = route_candidates F entries mailboxes state
      in if candidates = [] then Inl (ValueError ''no viable route candidates'') else
      let total = f_sum F (map fst candidates);
          pick = f_mul F (f_per_10000 F (deterministic_uniform P seed ''pick'' 10000)) total;
          chosen = pick_candidate F pick (f_zero F) (snd (hd candidates)) candidates;
          (chosen_entry, chosen_mailbox) = reroll P seed state candidates 0 max_attempts chosen
      in Inr (chosen_entry, chosen_mailbox,
              \<lparr>last_entry = Some chosen_entry, last_mailbox = Some chosen_mailbox\<rparr>))"

section \<open>Routes are routes\<close>

lemma pick_candidate_in: "chosen \<in> S \<Longrightarrow> snd ` set cs \<subseteq> S \<Longrightarrow> pick_candidate F pick running chosen cs \<in> S"
  by (induction F pick running chosen cs rule: pick_candidate.induct) (auto simp: Let_def)

lemma reroll_in:
  assumes "cs \<noteq> []" "snd ` set cs \<subseteq> S"
  shows "chosen \<in> S \<Longrightarrow> reroll P seed state cs attempt k chosen \<in> S"
proof (induction k arbitrary: attempt chosen)
  case (Suc k)
  have "deterministic_uniform P seed (''reroll-'' @ str_of_nat attempt) (length cs) < length cs"
    using assms(1) by (simp add: deterministic_uniform_def)
  then have "snd (cs ! deterministic_uniform P seed (''reroll-'' @ str_of_nat attempt) (length cs)) \<in> S"
    using assms(2) nth_mem by blast
  with Suc show ?case by simp
qed simp

lemma route_candidates_names:
  "snd ` set (route_candidates F entries mailboxes state) \<subseteq> (rn_name ` set entries) \<times> (rn_name ` set mailboxes)"
  by (auto simp: route_candidates_def)

text \<open>
  Whatever the rounding: a route enters at a relay that may be entered and ends at one that holds mail,
  and the state remembers it.
\<close>

lemma select_route_sound:
  assumes "select_route F P network secret mid state k = Inr (e, m, state')"
  shows "\<exists>entry \<in> snd ` set network. rn_name entry = e \<and> rn_role entry \<in> {''entry'', ''both''}"
    "\<exists>mailbox \<in> snd ` set network. rn_name mailbox = m \<and> rn_role mailbox \<in> {''mailbox'', ''both''}"
    "state' = \<lparr>last_entry = Some e, last_mailbox = Some m\<rparr>"
proof -
  let ?es = "filter (\<lambda>node. rn_role node \<in> {''entry'', ''both''}) (map snd network)"
    and ?ms = "filter (\<lambda>node. rn_role node \<in> {''mailbox'', ''both''}) (map snd network)"
  let ?cs = "route_candidates F ?es ?ms state" and ?S = "(rn_name ` set ?es) \<times> (rn_name ` set ?ms)"
  have sub: "snd ` set ?cs \<subseteq> ?S" by (rule route_candidates_names)
  from assms have ne: "?cs \<noteq> []" by (auto simp: select_route_def Let_def split: if_splits prod.splits)
  then have "snd (hd ?cs) \<in> ?S" using sub hd_in_set by blast
  then have "reroll P seed state ?cs 0 k (pick_candidate F pick (f_zero F) (snd (hd ?cs)) ?cs) \<in> ?S" for seed pick
    by (intro reroll_in [OF ne sub] pick_candidate_in sub)
  moreover from assms ne obtain seed pick where
    "reroll P seed state ?cs 0 k (pick_candidate F pick (f_zero F) (snd (hd ?cs)) ?cs) = (e, m)"
    "state' = \<lparr>last_entry = Some e, last_mailbox = Some m\<rparr>"
    by (auto simp: select_route_def Let_def split: if_splits prod.splits)
  ultimately have "(e, m) \<in> ?S" "state' = \<lparr>last_entry = Some e, last_mailbox = Some m\<rparr>" by metis+
  then show "\<exists>entry \<in> snd ` set network. rn_name entry = e \<and> rn_role entry \<in> {''entry'', ''both''}"
    "\<exists>mailbox \<in> snd ` set network. rn_name mailbox = m \<and> rn_role mailbox \<in> {''mailbox'', ''both''}"
    "state' = \<lparr>last_entry = Some e, last_mailbox = Some m\<rparr>"
    by auto
qed

end
