(* ===== verification/RelayMain.thy ===== *)
theory RelayMain
  imports RelayApp
begin

text \<open>
  The relay daemon's command line (\<open>yakr_relay/main.py\<close>): the options, the key material read from files
  or hex, and the runtime that \<open>serve\<close> hands to the application. Files are a function from paths to bytes,
  \<open>None\<close> where there is none. Of \<open>argparse\<close> the forms \<open>--option=value\<close>, \<open>--option value\<close> and flags are
  modelled, without abbreviations of option names; the server loop itself is \<open>uvicorn\<close>'s.
\<close>

record serve_args =
  sa_host :: str
  sa_port :: int
  sa_data_dir :: str
  sa_role :: str
  sa_name :: str
  sa_wrap_secret :: "str option"
  sa_require_tickets :: bool
  sa_require_capabilities :: bool
  sa_issuance_key :: "str option"
  sa_tls_spki :: "str option"
  sa_forward_delay :: int
  sa_ssl_keyfile :: "str option"
  sa_ssl_certfile :: "str option"

definition default_args :: serve_args where
  "default_args = \<lparr>sa_host = ''127.0.0.1'', sa_port = 8080, sa_data_dir = ''/data'', sa_role = ''mailbox'',
     sa_name = ''relay'', sa_wrap_secret = None, sa_require_tickets = False, sa_require_capabilities = False,
     sa_issuance_key = None, sa_tls_spki = None, sa_forward_delay = 0, sa_ssl_keyfile = None, sa_ssl_certfile = None\<rparr>"

text \<open>An option with a value, \<open>None\<close> for an unknown option or a value it does not take; and the flags.\<close>

definition set_option :: "str \<Rightarrow> str \<Rightarrow> serve_args \<Rightarrow> serve_args option" where
  "set_option opt v a =
     (if opt = ''--host'' then Some (a\<lparr>sa_host := v\<rparr>)
      else if opt = ''--port'' then (case int_of_str v of Inr i \<Rightarrow> Some (a\<lparr>sa_port := i\<rparr>) | Inl _ \<Rightarrow> None)
      else if opt = ''--data-dir'' then Some (a\<lparr>sa_data_dir := v\<rparr>)
      else if opt = ''--role'' then (if v \<in> {''entry'', ''mailbox'', ''both''} then Some (a\<lparr>sa_role := v\<rparr>) else None)
      else if opt = ''--name'' then Some (a\<lparr>sa_name := v\<rparr>)
      else if opt = ''--wrap-secret'' then Some (a\<lparr>sa_wrap_secret := Some v\<rparr>)
      else if opt = ''--relay-issuance-private-key'' then Some (a\<lparr>sa_issuance_key := Some v\<rparr>)
      else if opt = ''--relay-tls-spki-sha256'' then Some (a\<lparr>sa_tls_spki := Some v\<rparr>)
      else if opt = ''--forward-delay-max''
      then (case int_of_str v of Inr i \<Rightarrow> Some (a\<lparr>sa_forward_delay := i\<rparr>) | Inl _ \<Rightarrow> None)
      else if opt = ''--ssl-keyfile'' then Some (a\<lparr>sa_ssl_keyfile := Some v\<rparr>)
      else if opt = ''--ssl-certfile'' then Some (a\<lparr>sa_ssl_certfile := Some v\<rparr>)
      else None)"

definition set_flag :: "str \<Rightarrow> serve_args \<Rightarrow> serve_args option" where
  "set_flag opt a =
     (if opt = ''--require-tickets'' then Some (a\<lparr>sa_require_tickets := True\<rparr>)
      else if opt = ''--require-capabilities'' then Some (a\<lparr>sa_require_capabilities := True\<rparr>)
      else None)"

fun parse_args :: "str list \<Rightarrow> str list \<Rightarrow> serve_args \<Rightarrow> (str list \<times> serve_args) option" where
  "parse_args [] commands a = Some (commands, a)"
| "parse_args (x # xs) commands a =
     (if \<not> starts_with ''--'' x then parse_args xs (commands @ [x]) a else
      let opt = takeWhile (\<lambda>c. c \<noteq> CHR ''='') x in
      if length opt < length x then
        (case set_option opt (drop (Suc (length opt)) x) a of None \<Rightarrow> None | Some a' \<Rightarrow> parse_args xs commands a')
      else (case set_flag opt a of Some a' \<Rightarrow> parse_args xs commands a'
        | None \<Rightarrow> (case xs of [] \<Rightarrow> None
            | v # ys \<Rightarrow> if starts_with ''-'' v then None else
                (case set_option opt v a of None \<Rightarrow> None | Some a' \<Rightarrow> parse_args ys commands a'))))"

definition load_fixed_bytes :: "(str \<Rightarrow> bytes option) \<Rightarrow> str \<Rightarrow> nat \<Rightarrow> bytes res" where
  "load_fixed_bytes files v expected_len =
     and_then (case files v of Some raw \<Rightarrow> Inr raw | None \<Rightarrow> from_hex (py_strip v)) (\<lambda>raw.
     if length raw \<noteq> expected_len
     then Inl (ValueError (''expected '' @ str_of_nat expected_len @ '' bytes, got '' @ str_of_nat (length raw)))
     else Inr raw)"

text \<open>An option that is absent or empty leaves the default, no bytes.\<close>

definition optional_bytes :: "(str \<Rightarrow> bytes option) \<Rightarrow> str option \<Rightarrow> bytes res" where
  "optional_bytes files v =
     (case v of None \<Rightarrow> Inr [] | Some v \<Rightarrow> if v = [] then Inr [] else load_fixed_bytes files v 32)"

definition parse_wrap_secret :: "str option \<Rightarrow> bytes option res" where
  "parse_wrap_secret v = (case v of None \<Rightarrow> Inr None | Some v \<Rightarrow> and_then (b64decode v) (\<lambda>b. Inr (Some b)))"

datatype relay_start = UsageError | Raised exn | Serves relay_runtime serve_args

definition serve_relay :: "prims \<Rightarrow> (str \<Rightarrow> bytes option) \<Rightarrow> serve_args \<Rightarrow> relay_start" where
  "serve_relay P files a =
     (case optional_bytes files (sa_issuance_key a) of Inl e \<Rightarrow> Raised e | Inr issuance_private \<Rightarrow>
      case optional_bytes files (sa_tls_spki a) of Inl e \<Rightarrow> Raised e | Inr spki \<Rightarrow>
      if sa_require_capabilities a \<and> (issuance_private = [] \<or> spki = []) then UsageError else
      case parse_wrap_secret (sa_wrap_secret a) of Inl e \<Rightarrow> Raised e | Inr wrap \<Rightarrow>
      Serves \<lparr>rr_role = sa_role a, rr_wrap_secret = wrap, rr_name = sa_name a, require_tickets = sa_require_tickets a,
              require_capabilities = sa_require_capabilities a,
              rr_issuance_public = (if issuance_private = [] then [] else p_ed_pub P issuance_private),
              rr_issuance_private = issuance_private, rr_tls_spki = spki\<rparr> a)"

text \<open>\<open>main\<close> on the arguments of the process, without the program's name.\<close>

definition relay_main :: "prims \<Rightarrow> (str \<Rightarrow> bytes option) \<Rightarrow> str list \<Rightarrow> relay_start" where
  "relay_main P files argv = (case parse_args argv [] default_args of
     None \<Rightarrow> UsageError
   | Some (commands, a) \<Rightarrow> if commands = [''serve''] then serve_relay P files a else UsageError)"

section \<open>Key material\<close>

lemma load_fixed_bytes_raw: "files v = Some b \<Longrightarrow> length b = k \<Longrightarrow> load_fixed_bytes files v k = Inr b"
  by (simp add: load_fixed_bytes_def)

lemma load_fixed_bytes_hex: "files v = None \<Longrightarrow> py_strip v = to_hex b \<Longrightarrow> length b = k \<Longrightarrow> load_fixed_bytes files v k = Inr b"
  by (simp add: load_fixed_bytes_def)

lemma load_fixed_bytes_refused:
  "files v = Some b \<Longrightarrow> length b \<noteq> k \<Longrightarrow> load_fixed_bytes files v k =
     Inl (ValueError (''expected '' @ str_of_nat k @ '' bytes, got '' @ str_of_nat (length b)))"
  by (simp add: load_fixed_bytes_def)

text \<open>A relay that serves with capabilities required has an issuance key and a pin of 32 bytes.\<close>

lemma serves_with_keys:
  assumes "relay_main P files argv = Serves rt a" "require_capabilities rt"
  shows "length (rr_issuance_private rt) = 32" "length (rr_tls_spki rt) = 32"
    "rr_issuance_public rt = p_ed_pub P (rr_issuance_private rt)"
  using assms
  by (auto simp: relay_main_def serve_relay_def optional_bytes_def load_fixed_bytes_def
      split: option.splits sum.splits if_splits prod.splits)

end
