(* ===== verification/Deployment.thy ===== *)
theory Deployment
  imports RelayMain OperatorProps
begin

text \<open>
  The bundle of \<open>yakr relay create\<close> meets the daemon it is for: the command of the generated
  \<open>docker-compose.yml\<close>, run on the files of the bundle at the paths where they are mounted.
\<close>

section \<open>The container\<close>

text \<open>Plain scalars of the list are read as they are written. The list under \<open>command:\<close>, and the files under \<open>/tls\<close> and \<open>/relay-issuance\<close> that the daemon reads.\<close>

definition compose_command :: "str list \<Rightarrow> str list" where
  "compose_command ls = map (drop (length ''      - ''))
     (takeWhile (starts_with ''      - '') (drop 1 (dropWhile (\<lambda>l. l \<noteq> ''    command:'') ls)))"

definition container_files :: "operator_dir \<Rightarrow> str \<Rightarrow> bytes option" where
  "container_files d path =
     (if path = ''/tls/spki_sha256.hex'' then map_option utf8 (od_spki_hex d)
      else if path = ''/relay-issuance/issuance.key'' then od_issuance_key d
      else None)"

lemma compose_command_lines: "compose_command (compose_lines m) =
    [''yakr-relay'', ''serve'', ''--host=0.0.0.0'', ''--port=8080'', ''--data-dir=/data'', ''--role=both'',
     ''--name='' @ mf_operator_name m, ''--wrap-secret='' @ b64encode (mf_wrap_secret m), ''--require-capabilities'',
     ''--relay-issuance-private-key=/relay-issuance/issuance.key'', ''--relay-tls-spki-sha256=/tls/spki_sha256.hex'',
     ''--ssl-keyfile=/tls/endpoint.key.pem'', ''--ssl-certfile=/tls/endpoint.cert.pem'']"
  by (simp add: compose_command_def compose_lines_def starts_with_def)

definition compose_args :: "operator_manifest \<Rightarrow> str \<Rightarrow> serve_args" where
  "compose_args m pin = default_args\<lparr>sa_host := ''0.0.0.0'', sa_role := ''both'', sa_name := mf_operator_name m,
     sa_wrap_secret := Some (b64encode (mf_wrap_secret m)), sa_require_capabilities := True,
     sa_issuance_key := Some ''/relay-issuance/issuance.key'', sa_tls_spki := Some pin,
     sa_ssl_keyfile := Some ''/tls/endpoint.key.pem'', sa_ssl_certfile := Some ''/tls/endpoint.cert.pem''\<rparr>"

text \<open>The arguments of the daemon, with another text in place of the one that names the pin.\<close>

definition daemon_args :: "operator_manifest \<Rightarrow> str \<Rightarrow> str list" where
  "daemon_args m pin = map (\<lambda>x. if x = ''--relay-tls-spki-sha256=/tls/spki_sha256.hex'' then ''--relay-tls-spki-sha256='' @ pin else x)
     (tl (compose_command (compose_lines m)))"

lemma compose_args_fields [simp]:
  "sa_role (compose_args m pin) = ''both''" "sa_name (compose_args m pin) = mf_operator_name m"
  "sa_wrap_secret (compose_args m pin) = Some (b64encode (mf_wrap_secret m))" "sa_require_capabilities (compose_args m pin)"
  "sa_issuance_key (compose_args m pin) = Some ''/relay-issuance/issuance.key''" "sa_tls_spki (compose_args m pin) = Some pin"
  by (simp_all add: compose_args_def)

lemma daemon_args_compose: "daemon_args m ''/tls/spki_sha256.hex'' = tl (compose_command (compose_lines m))"
  by (simp add: daemon_args_def map_idI)

lemma port_parsed: "int_of_str ''8080'' = Inr 8080"
  by code_simp

lemma compose_parsed:
  "parse_args (tl (compose_command (compose_lines m))) [] default_args = Some ([''serve''], compose_args m ''/tls/spki_sha256.hex'')"
  by (simp add: compose_command_lines starts_with_def set_option_def set_flag_def port_parsed default_args_def compose_args_def)

lemma pin_parsed:
  "parse_args (daemon_args m pin) [] default_args = Some ([''serve''], compose_args m pin)"
  by (simp add: daemon_args_def compose_command_lines starts_with_def set_option_def set_flag_def port_parsed default_args_def
      compose_args_def)

section \<open>The bundle's files\<close>

lemma new_operator_pin:
  assumes "new_operator P pem kem pq home name w = (Inr (operator, wrap, pub), w')"
  shows "od_spki_hex (dir_at w' home) = Some (to_hex (fst (endpoint_tls_spki_sha256 P [] operator)) @ [CHR 0x0A])"
  using assms
  by (auto simp: new_operator_def m_bind_Inr on_owner_Inr on_dir_Inr dir_store_Inr write_issuance_keys_def Let_def
      save_identity_def new_operator_dir_def)

lemma pair_operator_pin:
  assumes "pair_operator P now home owner operator descriptor w = (Inr c, w')"
  shows "od_spki_hex (dir_at w' home) = od_spki_hex (dir_at w home)"
  using assms by (auto simp: pair_operator_def m_bind_Inr on_owner_Inr on_dir_Inr dir_store_Inr)

lemma write_manifest_files:
  assumes "on_dir home (write_manifest home m) w = (Inr (), w')"
  shows "od_compose (dir_at w' home) = Some (text_lines (compose_lines m))" "od_spki_hex (dir_at w' home) = od_spki_hex (dir_at w home)"
    "od_issuance_key (dir_at w' home) = od_issuance_key (dir_at w home)"
  using assms
  by (auto simp: on_dir_Inr write_manifest_def write_relay_env_def write_deploy_compose_def m_bind_Inr)

lemma length_to_hex: "length (to_hex b) = 2 * length b"
  by (induction b) simp_all

lemma to_hex_no_space: "c \<in> set (to_hex b) \<Longrightarrow> \<not> is_space c"
proof (induction b)
  case (Cons x b)
  have "unat x < 256" using unsigned_less [of x, where 'a = nat] by simp
  then have "unat x div 16 < 16" by (simp add: less_mult_imp_div_less)
  with Cons show ?case using hex_val_digit by auto
qed simp

lemma length_utf8_to_hex: "length (utf8 (to_hex b)) = 2 * length b"
proof (induction b)
  case (Cons x b)
  have "unat x < 256" using unsigned_less [of x, where 'a = nat] by simp
  then have "unat x div 16 < 16" by (simp add: less_mult_imp_div_less)
  moreover have "length (utf8_char (hex_digit d)) = 1" if "d < 16" for d
    using that by (simp add: hex_digit_def)
  ultimately show ?case using Cons by (simp del: utf8_char.simps)
qed simp

text \<open>What the file of the pin holds: 64 digits and a newline.\<close>

lemma pin_file_length: "length pin = 32 \<Longrightarrow> length (utf8 (to_hex pin @ [CHR 0x0A])) = 65"
  by (simp add: length_utf8_to_hex)

lemma refusal_text: "''expected '' @ str_of_nat 32 @ '' bytes, got '' @ str_of_nat 65 = ''expected 32 bytes, got 65''"
  by code_simp

lemma py_strip_to_hex: "py_strip (to_hex b) = to_hex b"
proof (rule py_strip_stripped)
  show "stripped (to_hex b)"
    using to_hex_no_space [of _ b] hd_in_set [of "to_hex b"] last_in_set [of "to_hex b"] by (auto simp: stripped_def)
qed

text \<open>
  C21. The relay that \<open>yakr relay create\<close> prepares does not start. The compose file it writes gives the
  daemon the path of the file \<open>spki_sha256.hex\<close>; the daemon takes the 65 bytes of that text for the pin and
  raises. Nothing else is wrong with the command: with the text of the file in place of its path the daemon
  serves, under the operator's name, with the wrap secret and the issuance key of the manifest.
\<close>

theorem deployed_relay_never_starts:
  fixes w w' :: "'n owner_host"
  assumes P: "hash_lengths P"
    and run: "create_relay_operator P H pem kem pq now name public_url port force w = (Inr b, w')"
  shows "let d = dir_at w' (relay_operator_home (ow_root w) name); m = bu_manifest b in
    od_compose d = Some (text_lines (compose_lines m)) \<and>
    relay_main P (container_files d) (tl (compose_command (compose_lines m))) =
      Raised (ValueError ''expected 32 bytes, got 65'') \<and>
    (\<exists>pin rt a. od_spki_hex d = Some (pin @ [CHR 0x0A]) \<and> relay_main P (container_files d) (daemon_args m pin) = Serves rt a \<and>
       require_capabilities rt \<and> rr_name rt = name \<and> rr_wrap_secret rt = Some (mf_wrap_secret m) \<and>
       b64encode (rr_issuance_public rt) = mf_issuance_public m)"
proof -
  define home where "home = relay_operator_home (ow_root w) name"
  define d where "d = dir_at w' home"
  obtain owner s operator wrap pub and w1 w2 w3 w4 :: "'n owner_host" where
    n: "new_operator P pem kem pq home name w1 = (Inr (operator, wrap, pub), w2)"
    and p: "pair_operator P now home owner operator (bu_descriptor b) w2 = (Inr (bu_owner_contact b), w3)"
    and m: "bu_manifest b = \<lparr>mf_version = MANIFEST_VERSION, mf_operator_name = name, mf_owner_name = id_name owner,
       mf_public_url = rstrip_slash public_url, mf_host_port = port, mf_wrap_secret = wrap, mf_operator_home = ''relays/'' @ name,
       mf_created_at = now, mf_issuance_public = b64encode pub, mf_issuance_sha256 = to_hex (p_sha256 P pub)\<rparr>"
    and wr: "on_dir home (write_manifest home (bu_manifest b)) w3 = (Inr (), w4)"
    and boot: "m_catch (m_bind (on_owner (bootstrap_operator_capabilities P H now owner name (rstrip_slash public_url))) (\<lambda>_. m_return ()))
       (\<lambda>e. is_runtime_error e \<or> is_value_error e \<or> is_os_error e) (\<lambda>e. m_return ()) w4 = (Inr (), w')"
    by (rule create_run [OF run home_def])
  define pin where "pin = fst (endpoint_tls_spki_sha256 P [] operator)"
  have pin: "length pin = 32"
    using P by (simp add: pin_def endpoint_tls_spki_sha256_def hash_lengths_def split: prod.split)
  obtain key where key: "length key = 32" "pub = p_ed_pub P key" "od_issuance_key (dir_at w2 home) = Some key"
    using new_operator_Inr(7) [OF n] by blast
  obtain p' c' and u t u' t' :: "'n client" where "od_issuance_key (dir_at w3 home) = od_issuance_key (dir_at w2 home)"
    by (rule pair_operator_Inr [OF p]) blast
  then have files: "od_issuance_key d = Some key" "od_spki_hex d = Some (to_hex pin @ [CHR 0x0A])"
      "od_compose d = Some (text_lines (compose_lines (bu_manifest b)))"
    using key(3) new_operator_pin [OF n] pair_operator_pin [OF p] write_manifest_files [OF wr] bootstrap_keeps_dirs [OF boot]
    by (simp_all add: d_def pin_def)
  have "to_hex pin \<noteq> ''/tls/spki_sha256.hex''" "to_hex pin \<noteq> ''/relay-issuance/issuance.key''" "to_hex pin \<noteq> []"
    using pin length_to_hex [of pin] by auto
  then have hex: "optional_bytes (container_files d) (Some (to_hex pin)) = Inr pin"
    using pin by (simp add: optional_bytes_def load_fixed_bytes_hex container_files_def py_strip_to_hex)
  have issuance: "optional_bytes (container_files d) (Some ''/relay-issuance/issuance.key'') = Inr key"
    using key(1) files(1) by (simp add: optional_bytes_def load_fixed_bytes_raw container_files_def)
  have refused: "optional_bytes (container_files d) (Some ''/tls/spki_sha256.hex'') = Inl (ValueError ''expected 32 bytes, got 65'')"
    using load_fixed_bytes_refused [of "container_files d" "''/tls/spki_sha256.hex''" "utf8 (to_hex pin @ [CHR 0x0A])" 32]
      pin_file_length [OF pin] refusal_text
    by (simp add: optional_bytes_def container_files_def files(2))
  have "relay_main P (container_files d) (tl (compose_command (compose_lines (bu_manifest b)))) =
      Raised (ValueError ''expected 32 bytes, got 65'')"
    by (simp add: relay_main_def compose_parsed serve_relay_def issuance refused)
  moreover have "\<exists>rt a. relay_main P (container_files d) (daemon_args (bu_manifest b) (to_hex pin)) = Serves rt a \<and>
      require_capabilities rt \<and> rr_name rt = name \<and> rr_wrap_secret rt = Some (mf_wrap_secret (bu_manifest b)) \<and>
      b64encode (rr_issuance_public rt) = mf_issuance_public (bu_manifest b)"
    using pin key(1)
    by (auto simp: relay_main_def pin_parsed serve_relay_def issuance hex parse_wrap_secret_def m key(2))
  ultimately show ?thesis using files(2,3) by (auto simp: Let_def d_def home_def)
qed

theorem deployed_relay_never_starts_witness:
  "\<exists>b w'. demo_create demo_down demo_owner = (Inr b, w') \<and>
     relay_main demo_prims (container_files (dir_at w' (relay_operator_home (ow_root demo_owner) ''ops'')))
       (tl (compose_command (compose_lines (bu_manifest b)))) = Raised (ValueError ''expected 32 bytes, got 65'')"
proof -
  obtain b w' where run: "demo_create demo_down demo_owner = (Inr b, w')" using demo_created by blast
  from deployed_relay_never_starts [OF demo_hashes run] run show ?thesis by (auto simp: Let_def)
qed

end
