(* ===== verification/Mesh.thy ===== *)
theory Mesh
  imports Mobile
begin

text \<open>
  The participant of the test kit's meshes (\<open>yakr_testkit/mesh_client.py\<close>): a client over the same store
  and network code as the command line, which keeps what it sent, and can fetch without saving the texts
  or without sending receipts. The locks only keep two threads of one participant apart and are left out:
  the operations are sequential.
\<close>

section \<open>State\<close>

record received_message =
  rm_sender :: str
  rm_body :: str
  rm_seq :: int
  rm_valid_until :: int

record sent_message =
  sm_sender :: str
  sm_recipient :: str
  sm_body :: str
  sm_msg_id :: str
  sm_seq :: int

record 'n participant =
  pt_client :: "'n client"
  pt_name :: str
  pt_identity :: identity
  pt_relay_url :: str
  pt_sent :: "sent_message list"
  pt_unreceipted :: "(str \<times> outer_blob) list"

definition on_pt :: "('n client, 'a) meth \<Rightarrow> ('n participant, 'a) meth" where
  "on_pt = m_zoom pt_client (\<lambda>c p. p\<lparr>pt_client := c\<rparr>)"

definition pt_with_contact :: "contact \<Rightarrow> ('n participant, 'a) meth \<Rightarrow> ('n participant, 'a) meth" where
  "pt_with_contact c m p = (case m (p\<lparr>pt_client := (pt_client p)\<lparr>cl_contact := c\<rparr>\<rparr>) of
     (x, q) \<Rightarrow> (x, q\<lparr>pt_client := (pt_client q)\<lparr>cl_contact := cl_contact (pt_client p)\<rparr>\<rparr>))"

text \<open>\<open>YAKR_RELAY_URL\<close> is set for a call and put back, also when the call raises.\<close>

definition pt_with_relay_url :: "('n client, 'a) meth \<Rightarrow> ('n participant, 'a) meth" where
  "pt_with_relay_url m = m_get (\<lambda>p. let previous = map_of (cl_env (pt_client p)) ''YAKR_RELAY_URL'' in
     on_pt (\<lambda>c. case m (c\<lparr>cl_env := dict_put ''YAKR_RELAY_URL'' (pt_relay_url p) (cl_env c)\<rparr>) of
       (x, c') \<Rightarrow> (x, c'\<lparr>cl_env := put_env previous (cl_env c')\<rparr>)))"

definition no_contact :: "'n participant \<Rightarrow> str \<Rightarrow> exn" where
  "no_contact p name = ValueError (pt_name p @ '' has no contact '' @ name)"

section \<open>Sending\<close>

definition mesh_send :: "nat \<Rightarrow> prims \<Rightarrow> 'n http \<Rightarrow> int \<Rightarrow> str \<Rightarrow> str \<Rightarrow> ('n participant, sent_message) meth" where
  "mesh_send n P H now recipient body = m_get (\<lambda>p. let i = pt_identity p in
     m_bind (on_pt (load_or_fail P recipient (no_contact p recipient))) (\<lambda>c.
     pt_with_contact c (
       m_bind (on_pt (in_session (\<lambda>np nonce. encrypt_text P i np nonce now body))) (\<lambda>em. m_get (\<lambda>p.
       m_bind (on_pt (on_store (atomic_commit_send P now (cl_contact (pt_client p)) (em_msg_id em) (seq (em_inner em)) body
         (em_outer em)))) (\<lambda>_.
       m_bind (pt_with_relay_url (deliver_encrypted n P H now i (em_outer em) None False True)) (\<lambda>_.
       let rec = \<lparr>sm_sender = pt_name p, sm_recipient = recipient, sm_body = body, sm_msg_id = em_msg_id em,
                      sm_seq = seq (em_inner em)\<rparr> in
       m_bind (m_modify (\<lambda>p. p\<lparr>pt_sent := pt_sent p @ [rec]\<rparr>)) (\<lambda>_. m_return rec))))))))"

text \<open>\<open>try_send\<close> and \<open>try_fetch\<close>: the result or the exception, whatever it is.\<close>

definition m_try :: "('s, 'a) meth \<Rightarrow> ('s, 'a option \<times> exn option) meth" where
  "m_try m = m_catch (m_bind m (\<lambda>x. m_return (Some x, None))) (\<lambda>_. True) (\<lambda>e. m_return (None, Some e))"

definition mesh_try_send ::
    "nat \<Rightarrow> prims \<Rightarrow> 'n http \<Rightarrow> int \<Rightarrow> str \<Rightarrow> str \<Rightarrow> ('n participant, sent_message option \<times> exn option) meth" where
  "mesh_try_send n P H now recipient body = m_try (mesh_send n P H now recipient body)"

definition mesh_resend_pending ::
    "nat \<Rightarrow> prims \<Rightarrow> 'n http \<Rightarrow> int \<Rightarrow> str \<Rightarrow> ('n participant, sent_message list) meth" where
  "mesh_resend_pending n P H now peer = m_get (\<lambda>p.
     let before = list_outbound_pending now peer (cl_store (pt_client p)) in
     m_bind (on_pt (resend_pending_for_contact n P H now (pt_identity p) peer None)) (\<lambda>count.
     m_return (map (\<lambda>(msg_id, k, body). \<lparr>sm_sender = pt_name p, sm_recipient = peer, sm_body = body,
       sm_msg_id = msg_id, sm_seq = k\<rparr>) (take (nat count) before))))"

section \<open>Fetching\<close>

definition mesh_refresh_send_side :: "prims \<Rightarrow> str \<Rightarrow> ('n client, unit) meth" where
  "mesh_refresh_send_side P peer = m_bind (on_store (get_contact P peer)) (\<lambda>persisted. case persisted of
     None \<Rightarrow> m_return ()
   | Some q \<Rightarrow> m_modify (\<lambda>s. s\<lparr>cl_contact := (cl_contact s)
         \<lparr>next_send_seq := next_send_seq q, c_ratchet := c_ratchet q\<rparr>\<rparr>))"

text \<open>
  A text. The id that the receipt names is assigned only when the text is saved, so with receipts and
  without saving the name is unbound.
\<close>

definition mesh_apply_text ::
    "nat \<Rightarrow> prims \<Rightarrow> 'n http \<Rightarrow> int \<Rightarrow> str \<Rightarrow> bool \<Rightarrow> bool \<Rightarrow> outer_blob \<Rightarrow> inner_message \<Rightarrow>
     ('n participant, received_message) meth" where
  "mesh_apply_text n P H now peer send_receipts save_local outer inner = m_get (\<lambda>p.
     let i = pt_identity p; delivered_id = message_id P (ob_ciphertext outer) in
     m_bind (if save_local then on_pt (m_bind (draw 24) (\<lambda>nonce.
          m_get (\<lambda>s. on_store (atomic_commit_receive_text P nonce i now (cl_contact s) inner (Some delivered_id) None))))
        else on_pt (save_cl_contact P)) (\<lambda>_.
     m_bind (if \<not> send_receipts then m_modify (\<lambda>p. p\<lparr>pt_unreceipted := pt_unreceipted p @ [(peer, outer)]\<rparr>)
        else if \<not> save_local then m_raise (NameError ''delivered_id'')
        else on_pt (m_bind (send_delivery_receipt n P H now i peer delivered_id None) (\<lambda>_.
          m_bind (mesh_refresh_send_side P peer) (\<lambda>_. save_cl_contact P)))) (\<lambda>_.
     m_return \<lparr>rm_sender = peer, rm_body = im_body inner, rm_seq = seq inner, rm_valid_until = valid_until inner\<rparr>)))"

definition mesh_process_item ::
    "nat \<Rightarrow> prims \<Rightarrow> 'n http \<Rightarrow> int \<Rightarrow> str \<Rightarrow> bool \<Rightarrow> bool \<Rightarrow> json \<Rightarrow>
     ('n participant, item_fate \<times> received_message list) meth" where
  "mesh_process_item n P H now peer send_receipts save_local item =
     m_bind (m_of (from_relay_json item)) (\<lambda>outer.
     m_bind (on_pt (decrypt_item P now outer)) (\<lambda>r. case r of Inl fate \<Rightarrow> m_return (fate, [])
     | Inr inner \<Rightarrow>
       if im_type inner = JStr ''profile'' \<and> im_body inner \<noteq> []
       then m_bind (on_pt (apply_profile_message P now inner)) (\<lambda>_. m_return (Applied False, [])) else
       m_bind (on_pt (m_get (\<lambda>s. on_store (apply_presence_message now (cl_contact s) inner)))) (\<lambda>presence.
       if presence \<noteq> None then m_bind (on_pt (save_cl_contact P)) (\<lambda>_. m_return (Applied False, []))
       else if im_type inner = JStr ''receipt'' \<and> jtruthy (im_message_id inner)
       then m_bind (on_pt (apply_receipt_message P peer inner)) (\<lambda>_. m_return (Applied False, []))
       else if im_type inner \<noteq> JStr ''text'' then m_return (Applied False, [])
       else m_bind (mesh_apply_text n P H now peer send_receipts save_local outer inner) (\<lambda>got.
         m_return (Applied True, [got])))))"

fun mesh_drain_pass ::
    "nat \<Rightarrow> prims \<Rightarrow> 'n http \<Rightarrow> int \<Rightarrow> str \<Rightarrow> bool \<Rightarrow> bool \<Rightarrow> json list \<Rightarrow>
     ('n participant, bool \<times> json list \<times> received_message list) meth" where
  "mesh_drain_pass n P H now peer send_receipts save_local [] = m_return (False, [], [])"
| "mesh_drain_pass n P H now peer send_receipts save_local (item # items) =
     m_bind (mesh_process_item n P H now peer send_receipts save_local item) (\<lambda>(fate, new).
     m_bind (mesh_drain_pass n P H now peer send_receipts save_local items) (\<lambda>(progressed, still, got).
     m_return (case fate of
       Postponed \<Rightarrow> (progressed, item # still, got)
     | Dropped \<Rightarrow> (progressed, still, got)
     | Applied _ \<Rightarrow> (True, still, new @ got))))"

text \<open>Fuel as in \<open>drain_rounds\<close>: a pass that goes on leaves fewer items.\<close>

fun mesh_drain_rounds ::
    "nat \<Rightarrow> nat \<Rightarrow> prims \<Rightarrow> 'n http \<Rightarrow> int \<Rightarrow> str \<Rightarrow> bool \<Rightarrow> bool \<Rightarrow> json list \<Rightarrow>
     received_message list \<Rightarrow> ('n participant, received_message list) meth" where
  "mesh_drain_rounds 0 n P H now peer send_receipts save_local pending heard = m_return heard"
| "mesh_drain_rounds (Suc k) n P H now peer send_receipts save_local pending heard =
     (if pending = [] then m_return heard else
      m_bind (mesh_drain_pass n P H now peer send_receipts save_local pending) (\<lambda>(progressed, still, new).
      if progressed then mesh_drain_rounds k n P H now peer send_receipts save_local still (heard @ new)
      else m_return (heard @ new)))"

lemma mesh_drain_pass_shrinks:
  "mesh_drain_pass n P H now peer acknowledge kept items s = (Inr (progressed, still, heard), t) \<Longrightarrow>
   length still + (if progressed then 1 else 0) \<le> length items"
proof (induction items arbitrary: s progressed still heard)
  case (Cons item items)
  from Cons.prems obtain fate new u p st ts where
    pass: "mesh_drain_pass n P H now peer acknowledge kept items u = (Inr (p, st, ts), t)"
    and fate: "(case fate of
       Postponed \<Rightarrow> (p, item # st, ts) | Dropped \<Rightarrow> (p, st, ts)
     | Applied is_text \<Rightarrow> (True, st, new @ ts)) = (progressed, still, heard)"
    by (auto simp: m_bind_Inr)
  from Cons.IH [OF pass] fate show ?case by (auto split: item_fate.splits if_splits)
qed simp

interpretation mesh_loop:
  drain_loop "mesh_drain_pass n P H now peer acknowledge kept" "\<lambda>k. mesh_drain_rounds k n P H now peer acknowledge kept" "(@)"
  by unfold_locales (auto dest: mesh_drain_pass_shrinks)

definition mesh_fetch_tag ::
    "nat \<Rightarrow> prims \<Rightarrow> 'n http \<Rightarrow> int \<Rightarrow> str \<Rightarrow> bool \<Rightarrow> bool \<Rightarrow> str list \<Rightarrow> str list \<Rightarrow> mailbox_tag \<Rightarrow>
     received_message list \<Rightarrow> ('n participant, received_message list) meth" where
  "mesh_fetch_tag n P H now peer send_receipts save_local hints bases t received = m_get (\<lambda>p.
     let tag_text = b64encode (tag t) in
     m_bind (if hints = [] then m_return [] else
       m_bind (on_pt (fetch_direct_blobs P H tag_text hints)) (\<lambda>j. m_of (iter_json j))) (\<lambda>direct.
     m_bind (on_pt (fetch_relay_blobs P H now (pt_identity p) tag_text bases)) (\<lambda>relayed.
     m_bind (m_of (fetch_queue (direct @ relayed))) (\<lambda>queue.
     mesh_drain_rounds (length queue) n P H now peer send_receipts save_local queue received))))"

definition mesh_fetch ::
    "nat \<Rightarrow> prims \<Rightarrow> 'n http \<Rightarrow> int \<Rightarrow> str \<Rightarrow> bool \<Rightarrow> bool \<Rightarrow> ('n participant, received_message list) meth" where
  "mesh_fetch n P H now peer send_receipts save_local = m_get (\<lambda>p. let i = pt_identity p in
     m_bind (on_pt (load_or_fail P peer (no_contact p peer))) (\<lambda>c.
     m_bind (on_pt (flush_pending_receipts n P H now i (Some peer) None)) (\<lambda>_.
     m_bind (on_pt (on_store (sweep_expired_messages now))) (\<lambda>_.
     m_bind (on_pt (on_store (sweep_expired_outbound now))) (\<lambda>_.
     pt_with_contact c (
       m_bind (m_of (session_new c)) (\<lambda>_.
       let deriver = mailbox_deriver P i c False; dir = recv_direction i c in
       m_bind (m_of (fetch_tags_for_mode P deriver dir (privacy_mode c)
         (derive_mailbox_secret P (master_secret c) dir) MAILBOX_LOOKBACK now)) (\<lambda>tags.
       m_bind (pt_with_relay_url (fetch_mailbox_urls P now c None False)) (\<lambda>bases.
       let hints = (case c_profile c of None \<Rightarrow> [] | Some q \<Rightarrow> dp_direct_hints q) in
       m_fold (mesh_fetch_tag n P H now peer send_receipts save_local hints bases) tags [])))))))))"

definition mesh_try_fetch ::
    "nat \<Rightarrow> prims \<Rightarrow> 'n http \<Rightarrow> int \<Rightarrow> str \<Rightarrow> bool \<Rightarrow> bool \<Rightarrow>
     ('n participant, received_message list option \<times> exn option) meth" where
  "mesh_try_fetch n P H now peer send_receipts save_local = m_try (mesh_fetch n P H now peer send_receipts save_local)"

text \<open>
  Without saving, a text is lost: with receipts the call raises, without them the contact is saved
  past the text, the text is not in the store and its receipt is due.
\<close>

lemma mesh_receipt_unbound:
  "fst (mesh_apply_text n P H now peer True False outer inner p) = Inl (NameError ''delivered_id'')"
  by (simp add: mesh_apply_text_def Let_def on_pt_def save_cl_contact_def save_contact_eq on_store_def m_zoom_def m_bind_def)

lemma mesh_unsaved_text:
  assumes "mesh_apply_text n P H now peer False False outer inner p = (Inr x, q)"
  shows "inbound (db (cl_store (pt_client q))) = inbound (db (cl_store (pt_client p)))"
    "holds_contact P (cl_contact (pt_client p)) (db (cl_store (pt_client q)))"
    "pt_unreceipted q = pt_unreceipted p @ [(peer, outer)]"
  using assms
  by (auto simp: mesh_apply_text_def Let_def on_pt_def save_cl_contact_def save_contact_eq on_store_def m_zoom_def m_bind_def
      holds_contact_def contact_tbl.get_replace)

section \<open>Receipts\<close>

definition mesh_flush_receipts :: "nat \<Rightarrow> prims \<Rightarrow> 'n http \<Rightarrow> int \<Rightarrow> str option \<Rightarrow> ('n participant, int) meth" where
  "mesh_flush_receipts n P H now peer = m_get (\<lambda>p. let i = pt_identity p in
     m_bind (on_pt (flush_pending_receipts n P H now i peer None)) (\<lambda>sent. m_get (\<lambda>p.
     m_bind (m_fold (\<lambda>(name, outer) (sent, remaining).
         if peer \<noteq> None \<and> peer \<noteq> Some name then m_return (sent, remaining @ [(name, outer)]) else
         m_bind (on_pt (send_delivery_receipt n P H now i name (message_id P (ob_ciphertext outer)) None)) (\<lambda>ok.
         m_return (if ok then (sent + 1, remaining) else (sent, remaining @ [(name, outer)]))))
       (pt_unreceipted p) (sent, [])) (\<lambda>(sent, remaining).
     m_bind (m_modify (\<lambda>p. p\<lparr>pt_unreceipted := remaining\<rparr>)) (\<lambda>_. m_return sent)))))"

definition mesh_pending_count :: "int \<Rightarrow> str option \<Rightarrow> 'n participant \<Rightarrow> nat" where
  "mesh_pending_count now peer p = (let s = cl_store (pt_client p) in
     case peer of None \<Rightarrow> sum_list (map (\<lambda>name. length (list_outbound_pending now name s)) (list_contacts s))
     | Some name \<Rightarrow> length (list_outbound_pending now name s))"

definition mesh_drain_receipts :: "nat \<Rightarrow> prims \<Rightarrow> 'n http \<Rightarrow> int \<Rightarrow> ('n participant, nat) meth" where
  "mesh_drain_receipts n P H now = m_get (\<lambda>p.
     m_bind (m_fold (\<lambda>peer _. m_bind (mesh_fetch n P H now peer False False) (\<lambda>_. m_return ()))
       (list_contacts (cl_store (pt_client p))) ()) (\<lambda>_.
     m_get (\<lambda>p. m_return (mesh_pending_count now None p))))"

definition mesh_fetch_all ::
    "nat \<Rightarrow> prims \<Rightarrow> 'n http \<Rightarrow> int \<Rightarrow> bool \<Rightarrow> bool \<Rightarrow> ('n participant, (str \<times> received_message list) list) meth" where
  "mesh_fetch_all n P H now send_receipts save_local = m_get (\<lambda>p.
     m_bind (on_pt (flush_pending_receipts n P H now (pt_identity p) None None)) (\<lambda>_. m_get (\<lambda>p.
     m_fold (\<lambda>peer received. m_bind (mesh_fetch n P H now peer send_receipts save_local) (\<lambda>messages.
         m_return (if messages \<noteq> [] then dict_put peer messages received else received)))
       (list_contacts (cl_store (pt_client p))) [])))"

end
