(* ===== verification/EndToEnd.thy ===== *)
theory EndToEnd
  imports Conversation RelayService Delivery
begin

text \<open>
  From one client's session to the other client's store: the conversation of two sessions, the relay
  service between the clients, and the loop of \<open>fetch\<close> with all it does to the store.
\<close>

section \<open>What a client received stays in its store\<close>

definition stored_row :: "inbound_row \<Rightarrow> store \<Rightarrow> bool" where
  "stored_row row s \<longleftrightarrow> row \<in> set (inbound (db s))"

definition client_row :: "inbound_row \<Rightarrow> 'n client \<Rightarrow> bool" where
  "client_row row s \<longleftrightarrow> stored_row row (cl_store s)"

lemma row_in_place [preserves_rules]:
  "preserves (client_row row) (on_net m)" "preserves (client_row row) (draw k)" "preserves (client_row row) (on_contact m')"
  "preserves (client_row row) (m_modify (\<lambda>s. s\<lparr>cl_probes := f s\<rparr>))"
  "preserves (client_row row) (m_modify (\<lambda>s. s\<lparr>cl_contact := g s\<rparr>))"
  by (auto simp: preserves_def client_row_def on_net_def on_contact_def draw_def m_zoom_def split: prod.splits)

lemma row_on_store [preserves_rules]: "preserves (stored_row row) m \<Longrightarrow> preserves (client_row row) (on_store m)"
  by (auto simp: preserves_def client_row_def on_store_def m_zoom_def split: prod.splits)

lemma row_scoped [preserves_rules]:
  assumes "preserves (client_row row) m"
  shows "preserves (client_row row) (with_contact c m)" "preserves (client_row row) (with_relay_name name m)"
proof -
  have put: "client_row row (s\<lparr>cl_contact := x\<rparr>) = client_row row s" "client_row row (s\<lparr>cl_env := e\<rparr>) = client_row row s"
    for s :: "'a client" and x e
    by (simp_all add: client_row_def)
  show "preserves (client_row row) (with_contact c m)" "preserves (client_row row) (with_relay_name name m)"
    using assms by (auto simp: preserves_def with_contact_def with_relay_name_def put split: prod.splits)
      (metis put snd_conv)+
qed

lemma row_writes [preserves_rules]:
  "preserves (stored_row row) (save_contact P c)" "preserves (stored_row row) (atomic_persist_contact P c)"
  "preserves (stored_row row) (save_capability_grant P name g key salt tls)"
  "preserves (stored_row row) (save_presence now p name)" "preserves (stored_row row) (save_pending_receipt now name did route)"
  "preserves (stored_row row) (delete_pending_receipt name did)" "preserves (stored_row row) (mark_outbound_delivered name did)"
  "preserves (stored_row row) (record_profile_ack_on_receipt c name did)" "preserves (stored_row row) load_identity"
  by (auto simp: preserves_def stored_row_def save_contact_eq atomic_persist_contact_def save_contact_conn_def sync_contact_json_def
      save_capability_grant_def save_presence_def save_pending_receipt_def delete_pending_receipt_def mark_outbound_delivered_def
      record_profile_ack_on_receipt_def take_profile_ack_pending_def load_identity_def transaction_def m_bind_def Let_def
      split: option.splits)

lemma row_received [preserves_rules]:
  "preserves (stored_row row) (atomic_commit_receive_text P nonce i now c inner delivered route)"
  by (auto simp: preserves_def stored_row_def atomic_commit_receive_result tbl_ignore_def)

lemma row_lookup [preserves_rules]: "preserves (stored_row row) (get_contact P name)"
  unfolding get_contact_def by (intro preserves_rules)

lemma row_each [preserves_rules]: "preserves (stored_row row) (each_contact P f b)"
  unfolding each_contact_def by (intro preserves_rules)

lemma row_reads [preserves_rules]:
  "preserves (stored_row row) (url_operator_map P)" "preserves (stored_row row) (relay_tls_pins_from_store P)"
  "preserves (stored_row row) (operator_tls_pins P)"
  unfolding url_operator_map_def relay_tls_pins_from_store_def operator_tls_pins_def by (intro preserves_rules)+

lemma row_pins [preserves_rules]:
  "preserves (stored_row row) (resolve_tls_pin_for_url P url contact pin extra)"
  "preserves (stored_row row) (verify_param_for_url P env url contact pin extra)"
  "preserves (stored_row row) (relay_tls_pin P url contact)"
  "preserves (stored_row row) (resolve_capability_contact P url contact network)"
  unfolding verify_param_for_url_def relay_tls_pin_def resolve_capability_contact_def resolve_tls_pin_for_url_def Let_def
  by (intro preserves_rules)+

lemma row_presence [preserves_rules]:
  "preserves (stored_row row) (apply_presence_message now c inner)"
  "preserves (stored_row row) (apply_inbound_delivery_receipt name inner)"
  unfolding apply_presence_message_def apply_inbound_delivery_receipt_def by (intro preserves_rules)+

section \<open>Through the network code\<close>

lemma row_requests [preserves_rules]:
  "preserves (client_row row) (yakr_request P H verb url contact pin extra hs body)"
  "preserves (client_row row) (yakr_get P H url contact)" "preserves (client_row row) (yakr_post P H url contact hs body)"
  unfolding yakr_get_def yakr_post_def yakr_request_def by (intro preserves_rules)+

lemma row_capabilities [preserves_rules]:
  "preserves (client_row row) (probe_relay_issuance_public P H now url contact)"
  "preserves (client_row row) (relay_supports_capabilities P H now url contact)"
  "preserves (client_row row) (capability_material_params name profile)"
  "preserves (client_row row) (capability_headers_for_request P now session verb path body)"
  "preserves (client_row row) (relay_name_for_url P url network dflt)"
  "preserves (client_row row) (issue_capability_from_relay P H now url name i c permissions key profile)"
  "preserves (client_row row) (ensure_capability_session P H now url name i c permissions key)"
  "preserves (client_row row) (relay_capability_context P H now url network)"
  unfolding probe_relay_issuance_public_def relay_supports_capabilities_def capability_material_params_def
    capability_headers_for_request_def relay_name_for_url_def issue_capability_from_relay_def
    ensure_capability_session_def relay_capability_context_def Let_def
  by (intro preserves_rules)+

lemma row_local [preserves_rules]:
  "preserves (client_row row) (load_or_fail P name e)" "preserves (client_row row) (in_session f)"
  "preserves (client_row row) (restore_ratchet_snapshot j)" "preserves (client_row row) (persist_contact P)"
  "preserves (client_row row) (save_cl_contact P)" "preserves (client_row row) (refresh_contact_send_state P)"
  "preserves (client_row row) (apply_profile_message P now inner)"
  "preserves (client_row row) (apply_receipt_message P name inner)" "preserves (client_row row) (decrypt_item P now outer)"
  unfolding load_or_fail_def in_session_def restore_ratchet_snapshot_def persist_contact_def
    save_cl_contact_def refresh_contact_send_state_def apply_profile_message_def apply_receipt_message_def
    decrypt_item_def Let_def
  by (intro preserves_rules)+

lemma row_direct [preserves_rules]:
  "preserves (client_row row) (try_direct_delivery P H outer hints)"
  "preserves (client_row row) (fetch_remote_profile P H hints key)"
  by (induction hints; simp only: try_direct_delivery.simps fetch_remote_profile.simps; intro preserves_rules; assumption)+

lemma row_upload [preserves_rules]:
  "preserves (client_row row) (refresh_contact_profile P H now)"
  "preserves (client_row row) (send_encrypted P H now i outer url network)"
  unfolding refresh_contact_profile_def send_encrypted_def Let_def by (intro preserves_rules)+

lemma row_relays [preserves_rules]:
  "preserves (client_row row) (deliver_to_relays P H now i outer network urls rest errors)"
  by (induction rest arbitrary: errors; simp only: deliver_to_relays.simps Let_def; intro preserves_rules; assumption)

lemma row_delivery [preserves_rules]:
  "preserves (client_row row) (deliver_encrypted n P H now i outer route allow_direct retry)"
  by (induction n arbitrary: retry; simp only: deliver_encrypted.simps Let_def; intro preserves_rules; assumption)

lemma row_receipt [preserves_rules]: "preserves (client_row row) (send_delivery_receipt n P H now i name did route)"
  unfolding send_delivery_receipt_def by (intro preserves_rules)

lemma row_item [preserves_rules]: "preserves (client_row row) (process_item n P H now i name item)"
  unfolding process_item_def apply_text_message_def Let_def by (intro preserves_rules)

lemma row_pass [preserves_rules]: "preserves (client_row row) (drain_pass n P H now i name items)"
  by (induction items; simp only: drain_pass.simps; intro preserves_rules; assumption)

lemma row_rounds [preserves_rules]: "preserves (client_row row) (drain_rounds k n P H now i name pending fetched)"
  by (induction k arbitrary: pending fetched; simp only: drain_rounds.simps; intro preserves_rules; assumption)

section \<open>One text from the queue to the store\<close>

lemma kept_by_bind:
  assumes "m s = (x, u)" "client_row row u" "\<And>y. preserves (client_row row) (f y)" "m_bind m f s = (z, t)"
  shows "client_row row t"
  using assms by (cases x) (auto simp: m_bind_def dest: preservesD)

lemma draw_length: "draw k u = (Inr bs, v) \<Longrightarrow> length bs = k \<and> cl_store v = cl_store u \<and> cl_contact v = cl_contact u"
  by (auto simp: draw_def)

lemma text_stored:
  assumes item: "from_relay_json item = Inr b" and np: "draw 32 u = (Inr np, u')"
    and dec: "decrypt_inbound P np now b (cl_contact u) = (Inr inner, c)" "im_type inner = JStr ''text''"
    and new: "tbl_get inbound_key (c_name c, seq inner) (inbound (db (cl_store u))) = None" "test_fault (cl_store u) = None"
    and run: "process_item n P H now i name item u = (res, t)"
  shows "\<exists>nonce. length nonce = 24 \<and> client_row (receive_row P nonce i now (c_name c) inner) t"
proof -
  define v where "v = u'\<lparr>cl_contact := c\<rparr>"
  have item_read: "decrypt_item P now b u = (Inr (Inr inner), v)"
    using np dec(1) draw_length [OF np]
    by (simp add: decrypt_item_def m_bind_def m_catch_def on_contact_def m_zoom_def v_def)
  obtain nonce w where w: "draw 24 v = (Inr nonce, w)" by (simp add: draw_def)
  let ?row = "receive_row P nonce i now (c_name c) inner"
  obtain x s where s: "atomic_commit_receive_text P nonce i now c inner (Some (message_id P (ob_ciphertext b))) None (cl_store u) = (x, s)"
    by fastforce
  have "tbl_get inbound_key (inbound_key ?row) (inbound (db (cl_store u))) = None"
    using new(1) by (simp add: receive_row_def inbound_key_def)
  then have kept: "stored_row ?row s" "x = Inr ()"
    using s new(2) by (auto simp: atomic_commit_receive_result stored_row_def tbl_ignore_def)
  have store: "cl_store w = cl_store u" "cl_contact w = c"
    using draw_length [OF w] draw_length [OF np] by (simp_all add: v_def)
  let ?commit = "on_store (atomic_commit_receive_text P nonce i now c inner (Some (message_id P (ob_ciphertext b))) None)"
  have commit: "?commit w = (Inr (), w\<lparr>cl_store := s\<rparr>)"
    using s store kept(2) by (simp add: on_store_def m_zoom_def)
  have in_place: "client_row ?row (w\<lparr>cl_store := s\<rparr>)" using kept(1) by (simp add: client_row_def)
  let ?after = "\<lambda>_. m_bind (send_delivery_receipt n P H now i name (message_id P (ob_ciphertext b)) None) (\<lambda>_.
      m_bind (refresh_contact_send_state P) (\<lambda>_. save_cl_contact P))"
  have none: "on_store (apply_presence_message now (cl_contact v) inner) v = (Inr None, v)"
    using dec(2) by (simp add: apply_presence_message_def on_store_def m_zoom_def)
  have "process_item n P H now i name item u = m_bind (apply_text_message n P H now i name b inner) (\<lambda>_. m_return (Applied True)) v"
    using dec(2) item item_read none
    by (simp add: process_item_def m_bind_eq m_catch_def split: prod.split)
  also have "\<dots> = m_bind (m_bind ?commit ?after) (\<lambda>_. m_return (Applied True)) w"
    using w store by (simp add: apply_text_message_def Let_def m_bind_def)
  finally have whole: "m_bind (m_bind ?commit ?after) (\<lambda>_. m_return (Applied True)) w = (res, t)" using run by simp
  obtain y q where q: "m_bind ?commit ?after w = (y, q)" by fastforce
  have "preserves (client_row ?row) (?after z)" for z by (intro preserves_rules)
  from kept_by_bind [OF commit in_place this q] have "client_row ?row q" .
  from kept_by_bind [OF q this _ whole] have "client_row ?row t" by (simp add: preserves_rules)
  with draw_length [OF w] show ?thesis by blast
qed

text \<open>And what comes after it in the queue does not take it away.\<close>

lemma row_first:
  assumes run: "drain_rounds (Suc k) n P H now i name (item # later) fetched u = (res, t)"
    and first: "\<And>fate v. process_item n P H now i name item u = (fate, v) \<Longrightarrow> client_row row v"
  shows "client_row row t"
proof -
  obtain fate v where v: "process_item n P H now i name item u = (fate, v)" by fastforce
  obtain x w where w: "drain_pass n P H now i name (item # later) u = (x, w)" by fastforce
  have whole: "m_bind (drain_pass n P H now i name (item # later)) (\<lambda>(progressed, still, new).
      if progressed then drain_rounds k n P H now i name still (fetched + new) else m_return (fetched + new)) u = (res, t)"
    using run by simp
  have "client_row row w"
    by (intro kept_by_bind [OF v first [OF v] _ w [unfolded drain_pass.simps]] preserves_rules)
  then show ?thesis
    by (intro kept_by_bind [of "drain_pass n P H now i name (item # later)" u, OF w _ _ whole] preserves_rules)
qed

lemma row_listed:
  assumes "aead_correct P" "length nonce = 24" "inner = inner_text conv d k body at" "now' < at + MESSAGE_TTL_MS"
    "client_row (receive_row P nonce i now name inner) t"
  shows "(k, body) \<in> set (list_inbound_messages P i now' name (cl_store t))"
proof -
  have codec: "inner_from_bytes (inner_to_bytes inner) = Inr inner"
    using assms(3) by (intro inner_from_to_bytes) (simp_all add: inner_text_def inner_new_def)
  have f: "im_type inner = JStr ''text''" "im_body inner = body" "seq inner = k" "valid_until inner = at + MESSAGE_TTL_MS"
    using assms(3) by (simp_all add: inner_text_def inner_new_def message_valid_until_def)
  let ?row = "receive_row P nonce i now name inner"
  have "?row \<in> set (sort_key ib_received_at (sort_key ib_seq
      (filter (\<lambda>r. ib_contact r = name \<and> ib_valid_until r > now') (inbound (db (cl_store t))))))"
    using assms(4,5) f(4) by (simp add: client_row_def stored_row_def receive_row_def)
  then have "(k, body, now) \<in> set (list_inbound_messages_timed P i now' name (cl_store t))"
    unfolding list_inbound_messages_timed_def using assms(1,2,4) codec f
    by (force simp: receive_row_def unwrap_wrap_local enforce_message_ttl_def is_message_expired_def require_def)
  then show ?thesis unfolding list_inbound_messages_def by force
qed

section \<open>From session to store\<close>

text \<open>
  C1. A text that one side said reaches the other side's inbox. Two parties ran the pairing handshake and
  conversed; the next blob on the line was uploaded to the relay service with \<open>send_encrypted\<close>. Whatever
  requests, sweeps and waiting come next at the relay, a poll that it answers before the blob's expiry lists an
  item such that the fetch loop of the recipient, with that item at the head of its queue, leaves the very text
  that was said among the messages the client shows, under the next number: whatever follows in the queue,
  whether or not a receipt can be sent, and also when the loop raises later on.
\<close>

theorem text_reaches_inbox:
  assumes ok: "handshake_ok P i j invite [e, r, e', r']"
    and req: "build_pairing_request P e' r' rnd j invite (id_name j) profile = Inr (request, secrets)"
    and inv: "inviter_complete_pairing P i invite request e inviter_profile r at0 = Inr (response, ci)"
    and join: "joiner_complete_pairing P j invite request secrets response at1 = Inr cj"
    and name: "iv_inviter_name invite = id_name i"
    and run: "conv_reach P (meeting i j ci cj) s" and line: "line s x = (blob, at) # rest"
    and sent: "send_encrypted P (relay_service W P rt post base) now1 sender blob url network a = (Inr (), a')" "rstrip_slash url = base"
    and polled: "poll_relay P (relay_service W P rt post base) now2 recipient (b64encode (ob_tag blob)) url' b = (Inr reply, u)"
      "rstrip_slash url' = base" "hs_status reply = 200"
    and between: "cl_net b = site_run W P rt post base es (cl_net a')" "st_clock (cl_net b) < ob_expires_at blob"
    and client: "cl_contact u = peer s x" "test_fault (cl_store u) = None"
      "tbl_get inbound_key (c_name (peer s x), last_recv_seq (peer s x) + 1) (inbound (db (cl_store u))) = None"
    and fresh: "draw 32 u = (Inr np, u')" "p_x25519_pub P np \<noteq> dh_self_public (ratchet_of (peer s x))"
    and time: "now \<le> at + MESSAGE_TTL_MS" "now' < at + MESSAGE_TTL_MS"
  shows "\<exists>seen found item. polled_items [] reply = Inr (seen, found) \<and> item \<in> set found \<and>
    (case drain_rounds (Suc k) n P H now (self_id s x) contact_name (item # later) fetched u of (res, t) \<Rightarrow>
       (last_recv_seq (peer s x) + 1, said s x ! length (heard s x)) \<in>
         set (list_inbound_messages P (self_id s x) now' (c_name (peer s x)) (cl_store t)))"
proof -
  let ?c = "peer s x" and ?text = "said s x ! length (heard s x)"
  obtain seen found item v where item: "polled_items [] reply = Inr (seen, found)" "item \<in> set found"
    "from_relay_json item = Inr \<lparr>ob_version = 1, ob_tag = ob_tag blob, ob_expires_at = v, ob_ciphertext = ob_ciphertext blob\<rparr>"
      (is "_ = Inr ?b")
    using upload_arrives [OF sent polled(1,2) between polled(3)] by blast
  obtain d ts where rf: "refines s d ts" "faithful d" "\<And>d'. duplex_step P d d' \<Longrightarrow> faithful d'"
    using handshake_refines [OF ok req inv join name run] by blast
  have np: "length np = 32" using draw_length [OF fresh(1)] by simp
  obtain r'' dev where dec: "decrypt_inbound P np now ?b ?c =
      (Inr (inner_text (c_conversation_id ?c) dev (last_recv_seq ?c + 1) ?text at),
       ?c\<lparr>c_ratchet := Some r'', last_recv_seq := last_recv_seq ?c + 1\<rparr>)"
    using refines_next [OF rf(1,3,2) np fresh(2) line time(1), of ?b] by force
  let ?m = "inner_text (c_conversation_id ?c) dev (last_recv_seq ?c + 1) ?text at"
  have m: "im_type ?m = JStr ''text''" "seq ?m = last_recv_seq ?c + 1" by (simp_all add: inner_text_def inner_new_def)
  have dec': "decrypt_inbound P np now ?b (cl_contact u) =
      (Inr ?m, ?c\<lparr>c_ratchet := Some r'', last_recv_seq := last_recv_seq ?c + 1\<rparr>)"
    using dec by (simp only: client(1))
  obtain res t where t: "drain_rounds (Suc k) n P H now (self_id s x) contact_name (item # later) fetched u = (res, t)" by fastforce
  obtain fate w where w: "process_item n P H now (self_id s x) contact_name item u = (fate, w)" by fastforce
  obtain nonce where nonce: "length nonce = 24"
    "client_row (receive_row P nonce (self_id s x) now (c_name ?c) ?m) w"
    using text_stored [OF item(3) fresh(1) dec' m(1) _ client(2) w] client(3) m(2) by auto
  have "client_row (receive_row P nonce (self_id s x) now (c_name ?c) ?m) t"
    using w nonce(2) by (intro row_first [OF t]) simp
  moreover have "aead_correct P" using ok by (simp add: handshake_ok_def)
  ultimately have "(last_recv_seq ?c + 1, ?text) \<in> set (list_inbound_messages P (self_id s x) now' (c_name ?c) (cl_store t))"
    using nonce(1) time(2) by (intro row_listed [OF _ _ refl])
  with item t show ?thesis by auto
qed

theorem text_reaches_inbox_witness:
  "\<exists>blob cj w w' reply found item.
     send_encrypted demo_prims demo_site 1000 demo_inviter blob ''http://relay'' None (demo_client demo_contact w) =
       (Inr (), demo_client demo_contact w') \<and>
     poll_relay demo_prims demo_site 1500 demo_joiner (b64encode (ob_tag blob)) ''http://relay'' (demo_client cj w') =
       (Inr reply, demo_client cj w') \<and>
     polled_items [] reply = Inr found \<and> item \<in> set (snd found) \<and>
     (1, ''hello'') \<in> set (list_inbound_messages demo_prims demo_joiner 2000 (c_name cj) (cl_store (snd
       (drain_rounds 1 2 demo_prims demo_site 1500 demo_joiner (c_name cj) [item] 0 (demo_client cj w')))))"
proof -
  obtain request secrets response ci cj s where "demo_first_text request secrets response ci cj s"
    using demo_first_text by blast
  then obtain blob where h: "build_pairing_request demo_prims (replicate 32 7) (replicate 32 8) [] demo_joiner demo_invite
      (id_name demo_joiner) [] = Inr (request, secrets)"
    "inviter_complete_pairing demo_prims demo_inviter demo_invite request (replicate 32 5) [] (replicate 32 6) 0
       = Inr (response, ci)"
    "joiner_complete_pairing demo_prims demo_joiner demo_invite request secrets response 0 = Inr cj"
    "conv_reach demo_prims (meeting demo_inviter demo_joiner ci cj) s"
    and s: "said s Joiner = [''hello'']" "heard s Joiner = []" "peer s Joiner = cj" "self_id s Joiner = demo_joiner"
      "last_recv_seq cj = 0" "dh_self_public (ratchet_of cj) = replicate 32 8"
    and blob: "line s Joiner = [(blob, 0)]" "length (ob_tag blob) = 32" "ob_expires_at blob = MESSAGE_TTL_MS"
    by (auto simp: demo_first_text_def)
  let ?store = "new_blob_store\<lparr>max_blob_size := length (ob_ciphertext blob)\<rparr>"
  define w where "w = \<lparr>st_relay = demo_relay\<lparr>rl_blobs := ?store\<rparr>, st_clock = 1000\<rparr>"
  have "\<exists>bs. blob_put (ob_tag blob) (ob_expires_at blob) (ob_ciphertext blob) None 1000 (rl_blobs (demo_relay\<lparr>rl_blobs := ?store\<rparr>)) =
      (Inr (), bs)"
    using blob(2,3) by (simp add: blob_put_def new_blob_store_def tbl_count_def MAX_RELAY_BLOB_TTL_MS_def MESSAGE_TTL_MS_def)
  then obtain rl where sent: "send_encrypted demo_prims demo_site 1000 demo_inviter blob ''http://relay'' None
      (demo_client demo_contact w) = (Inr (), demo_client demo_contact \<lparr>st_relay = rl, st_clock = 1000\<rparr>)"
    unfolding w_def using demo_uploaded by blast
  define w' where "w' = \<lparr>st_relay = rl, st_clock = (1000 :: int)\<rparr>"
  obtain reply where polled: "poll_relay demo_prims demo_site 1500 demo_joiner (b64encode (ob_tag blob)) ''http://relay''
      (demo_client cj w') = (Inr reply, demo_client cj w')" "hs_status reply = 200"
    using demo_fetch_answered by meson
  have net: "cl_net (demo_client cj w') = site_run \<lparr>fw_int = (\<lambda>_. None)\<rparr> demo_prims open_runtime (\<lambda>_ _ _. Inr (202, []))
      ''http://relay'' [] (cl_net (demo_client demo_contact w'))" "st_clock (cl_net (demo_client cj w')) < ob_expires_at blob"
    using blob(3) by (simp_all add: demo_client_def w'_def MESSAGE_TTL_MS_def)
  have client: "cl_contact (demo_client cj w') = peer s Joiner" "test_fault (cl_store (demo_client cj w')) = None"
    "tbl_get inbound_key (c_name (peer s Joiner), last_recv_seq (peer s Joiner) + 1) (inbound (db (cl_store (demo_client cj w')))) = None"
    using s(3) by (simp_all add: demo_client_def empty_store_def empty_db_def tbl_get_def)
  have key: "draw 32 (demo_client cj w') = (Inr (replicate 32 0), (demo_client cj w')\<lparr>cl_drawn := 32\<rparr>)"
    by (simp add: draw_def demo_client_def map_replicate_const)
  have "(0 :: byte) \<noteq> 8" by code_simp
  then have "replicate 32 0 \<noteq> (replicate 32 8 :: bytes)" by (metis replicate_eq_replicate zero_neq_numeral)
  then have new: "p_x25519_pub demo_prims (replicate 32 0) \<noteq> dh_self_public (ratchet_of (peer s Joiner))"
    using s(3,6) by (simp add: demo_prims_def)
  have time: "1500 \<le> 0 + MESSAGE_TTL_MS" "2000 < 0 + MESSAGE_TTL_MS" by (simp_all add: MESSAGE_TTL_MS_def)
  note reaches = text_reaches_inbox [OF demo_handshake_ok h(1-3) demo_names h(4) blob(1) sent [folded w'_def] demo_base(2) polled(1)
      demo_base(2) polled(2) net client key new time, of 0 2 demo_site "c_name cj" "[]" 0]
  then obtain seen found item where item: "polled_items [] reply = Inr (seen, found)" "item \<in> set found"
    and shown: "case drain_rounds (Suc 0) 2 demo_prims demo_site 1500 (self_id s Joiner) (c_name cj) [item] 0 (demo_client cj w') of
      (res, t) \<Rightarrow> (last_recv_seq (peer s Joiner) + 1, said s Joiner ! length (heard s Joiner)) \<in>
        set (list_inbound_messages demo_prims (self_id s Joiner) 2000 (c_name (peer s Joiner)) (cl_store t))"
    by (elim exE conjE) (rule that)
  have "(1, ''hello'') \<in> set (list_inbound_messages demo_prims demo_joiner 2000 (c_name cj) (cl_store (snd
       (drain_rounds 1 2 demo_prims demo_site 1500 demo_joiner (c_name cj) [item] 0 (demo_client cj w')))))"
    using shown by (simp only: s case_prod_beta list.size nth_Cons_0 add_0 One_nat_def)
  with item sent polled(1) show ?thesis unfolding w'_def [symmetric] by (metis snd_conv)
qed

end
