(* ===== verification/Shows.thy ===== *)
theory Shows
  imports Commands
begin

text \<open>
  The commands that read and show (\<open>show\<close>, \<open>pending\<close>, \<open>export-public\<close>, \<open>privacy show\<close> and \<open>metrics\<close>,
  \<open>presence show\<close>, \<open>profile show\<close>, \<open>receipts pending\<close>), as the rows they print, and the small functions by
  which the commands find their home, relays and routes. The layout of the rows and the colours are \<open>rich\<close>'s.
\<close>

section \<open>Places and routes\<close>

text \<open>\<open>pathlib\<close>'s \<open>a / b\<close>; a path that starts at the root replaces what is before it.\<close>

definition path_join :: "str \<Rightarrow> str \<Rightarrow> str" where
  "path_join a b = (if starts_with ''/'' b then b else a @ ''/'' @ b)"

definition home_path :: "str \<Rightarrow> (str \<times> str) list \<Rightarrow> str" where
  "home_path user_home env = (case getenv env ''YAKR_HOME'' [] of
     [] \<Rightarrow> path_join (path_join user_home ''.yakr'') (getenv env ''YAKR_NAME'' ''default'')
   | h # t \<Rightarrow> h # t)"

definition shown_relay_url :: "(str \<times> str) list \<Rightarrow> str" where
  "shown_relay_url env = rstrip_slash (getenv env ''YAKR_RELAY_URL'' ''http://127.0.0.1:8080'')"

definition relays_path :: "(str \<times> str) list \<Rightarrow> (str \<Rightarrow> bool) \<Rightarrow> str \<Rightarrow> str" where
  "relays_path env exists cwd = (case getenv env ''YAKR_RELAYS_FILE'' [] of
     [] \<Rightarrow> if exists ''/data/shared/relays.json'' then ''/data/shared/relays.json'' else path_join cwd ''relays.json''
   | c # t \<Rightarrow> c # t)"

definition load_route_nodes :: "str \<Rightarrow> (str \<times> relay_node) list option \<Rightarrow> str option \<Rightarrow> (relay_node \<times> relay_node) res" where
  "load_route_nodes route network relays_file =
     and_then (parse_route route) (\<lambda>(entry_name, mailbox_name).
     and_then (case network of Some (n # ns) \<Rightarrow> Inr (n # ns)
       | _ \<Rightarrow> and_then (opt_res (OSError ''relays file'') relays_file) load_relay_network) (\<lambda>nodes.
     case (map_of nodes entry_name, map_of nodes mailbox_name) of
       (Some e, Some m) \<Rightarrow> Inr (e, m)
     | _ \<Rightarrow> Inl (ValueError ''unknown relay in route'')))"

text \<open>No route is ever chosen for a contact: delivery goes to mailboxes directly.\<close>

definition should_use_auto_two_hop :: "(str \<times> relay_node) list \<Rightarrow> bool" where
  "should_use_auto_two_hop network = False"

definition resolve_contact_route :: "store \<Rightarrow> contact \<Rightarrow> str option \<Rightarrow> str \<Rightarrow> str option" where
  "resolve_contact_route s c route mid = None"

definition resolve_route :: "store \<Rightarrow> contact \<Rightarrow> str option \<Rightarrow> str \<Rightarrow> str option" where
  "resolve_route s c route mid = (case route of None \<Rightarrow> resolve_contact_route s c None mid
     | Some r \<Rightarrow> if r = ''auto'' then resolve_contact_route s c (Some ''auto'') mid else Some r)"

definition resolve_fetch_route :: "store \<Rightarrow> contact \<Rightarrow> str option \<Rightarrow> str option" where
  "resolve_fetch_route s c route = (case route of None \<Rightarrow> resolve_contact_route s c None ''fetch''
     | Some r \<Rightarrow> if r = ''auto'' then resolve_contact_route s c (Some ''auto'') ''fetch'' else Some r)"

definition reverse_route :: "str option \<Rightarrow> str option" where
  "reverse_route route = None"

definition mailbox_urls :: "prims \<Rightarrow> int \<Rightarrow> contact option \<Rightarrow> str option \<Rightarrow> bool \<Rightarrow> ('n client, str list) meth" where
  "mailbox_urls P now contact route wide = (case contact of
     None \<Rightarrow> m_raise (ValueError ''contact required'') | Some c \<Rightarrow> fetch_mailbox_urls P now c route wide)"

text \<open>The list is never empty: without an address \<open>fetch_mailbox_urls\<close> raises.\<close>

definition mailbox_url :: "prims \<Rightarrow> int \<Rightarrow> contact option \<Rightarrow> str option \<Rightarrow> ('n client, str) meth" where
  "mailbox_url P now contact route = m_bind (mailbox_urls P now contact route False) (\<lambda>urls.
     m_return (hd urls))"

text \<open>An invite given on the command line: its URL, or the file that holds it.\<close>

definition load_invite_url :: "(str \<Rightarrow> str option) \<Rightarrow> str \<Rightarrow> str res" where
  "load_invite_url read_text v = (if starts_with ''yakr://'' v then Inr v
     else and_then (opt_res (OSError v) (read_text v)) (\<lambda>t. Inr (py_strip t)))"

definition contact_public_bundle :: "contact \<Rightarrow> (str \<times> str) list" where
  "contact_public_bundle c = [(''name'', c_name c), (''signing_public'', b64encode (c_signing_public c)),
     (''agreement_public'', b64encode (c_agreement_public c))]"

definition ciphertext_length_for_body :: "str \<Rightarrow> str \<Rightarrow> nat res" where
  "ciphertext_length_for_body body mode =
     and_then (pad_plaintext (utf8 (json_default (JObj [(''body'', JStr body)]))) mode) (\<lambda>(padded, _).
     Inr (24 + length padded + 16))"

definition relay_delay_max_secs :: "str \<Rightarrow> int" where
  "relay_delay_max_secs mode = (if mode = ''balanced'' then 15 else if mode = ''high'' then 90 else 0)"

section \<open>What the commands show\<close>

definition show_cmd :: "prims \<Rightarrow> str \<Rightarrow> ('n client, (str \<times> str) list) meth" where
  "show_cmd P home = m_bind require_identity (\<lambda>i. m_get (\<lambda>s.
     m_return [(''name'', id_name i), (''device_id'', device_id P i), (''home'', home), (''relay'', shown_relay_url (cl_env s))]))"

definition pending_cmd :: "int \<Rightarrow> str \<Rightarrow> 'n client \<Rightarrow> (int \<times> str \<times> str) list" where
  "pending_cmd now contact_name s = map (\<lambda>(msg_id, n, body). (n, take 12 msg_id, body)) (list_outbound_pending now contact_name (cl_store s))"

text \<open>Without \<open>--output\<close> the bundle goes to \<open>public.json\<close> of the store; otherwise it is what the file is given.\<close>

definition export_public_cmd :: "prims \<Rightarrow> str option \<Rightarrow> ('n client, str \<times> (str \<times> str) list) meth" where
  "export_public_cmd P output = m_bind require_identity (\<lambda>i. let bundle = export_public_bundle P i in
     case output of Some path \<Rightarrow> m_return (path, bundle)
     | None \<Rightarrow> m_bind (on_store (m_modify (\<lambda>s. s\<lparr>bundle_file := Some bundle\<rparr>))) (\<lambda>_. m_return (''public.json'', bundle)))"

definition privacy_show :: "prims \<Rightarrow> str option \<Rightarrow> ('n client, str \<times> str) meth" where
  "privacy_show P contact_name = (case contact_name of None \<Rightarrow> m_raise exit_error
     | Some name \<Rightarrow> m_bind (load_or_fail P name exit_error) (\<lambda>c. m_return (name, privacy_mode c)))"

definition privacy_metrics_cmd :: "('n client, (str \<times> int) list) meth" where
  "privacy_metrics_cmd = m_bind (on_store (m_read load_privacy_metrics)) (\<lambda>m. m_return
     [(''bytes_sent'', bytes_sent m), (''bytes_fetched'', bytes_fetched m), (''padding_bytes'', padding_bytes m),
      (''decoy_fetches'', decoy_fetches m), (''dummy_blobs_sent'', dummy_blobs_sent m), (''send_count'', send_count m),
      (''fetch_count'', fetch_count m)])"

text \<open>A presence with its status; the time is shown for one operator only.\<close>

definition presence_status :: "int \<Rightarrow> presence_payload \<Rightarrow> str" where
  "presence_status now p = (if is_presence_fresh p now then ''fresh'' else ''stale'')"

definition presence_show :: "int \<Rightarrow> str option \<Rightarrow> ('n client, (str \<times> str \<times> bool \<times> str \<times> int option) list) meth" where
  "presence_show now op_name = m_get (\<lambda>s. case op_name of
     Some name \<Rightarrow> (case load_presence name (cl_store s) of None \<Rightarrow> m_raise exit_error
       | Some p \<Rightarrow> m_return [(operator_name p, reachable_url p, relay_active p, presence_status now p, Some (pr_valid_until p))])
   | None \<Rightarrow> if list_presences (cl_store s) = [] then m_raise exit_error
       else m_return (map (\<lambda>p. (operator_name p, reachable_url p, relay_active p, presence_status now p, None))
         (list_presences (cl_store s))))"

record shown_profile =
  sp_version :: int
  sp_valid_until :: "int option"
  sp_status :: "str option"
  sp_direct :: "str list"
  sp_relays :: "(str \<times> str \<times> str) list"

definition shown_relays :: "delivery_profile \<Rightarrow> (str \<times> str \<times> str) list" where
  "shown_relays p = map (\<lambda>d. (rd_name d, rd_role d, rd_url d)) (dp_relays p)"

definition profile_show :: "prims \<Rightarrow> int \<Rightarrow> str option \<Rightarrow> ('n client, shown_profile) meth" where
  "profile_show P now contact_name = (case contact_name of
     None \<Rightarrow> m_bind (on_store (m_read (load_local_profile P))) (\<lambda>local. case local of None \<Rightarrow> m_raise exit_error
       | Some p \<Rightarrow> m_return \<lparr>sp_version = dp_version p, sp_valid_until = Some (dp_valid_until p), sp_status = None,
           sp_direct = dp_direct_hints p, sp_relays = shown_relays p\<rparr>)
   | Some name \<Rightarrow> m_bind (load_or_fail P name exit_error) (\<lambda>c. case c_profile c of None \<Rightarrow> m_raise exit_error
       | Some p \<Rightarrow> m_return \<lparr>sp_version = dp_version p, sp_valid_until = None,
           sp_status = Some (if profile_is_stale p now then ''stale'' else ''fresh''), sp_direct = [], sp_relays = shown_relays p\<rparr>))"

definition receipts_pending :: "str option \<Rightarrow> 'n client \<Rightarrow> (str \<times> str \<times> str) list" where
  "receipts_pending contact_name s = map (\<lambda>(name, did, route). (name, take 12 did,
     case route of None \<Rightarrow> ''direct/failover'' | Some r \<Rightarrow> if r = [] then ''direct/failover'' else r))
     (list_pending_receipts contact_name (cl_store s))"

section \<open>Showing changes nothing\<close>

text \<open>But for a contact that is known from its file only: reading it puts it into the database.\<close>

lemma shows_keep_state:
  "keeps (\<lambda>s. s) (show_cmd P home)" "keeps (\<lambda>s. s) privacy_metrics_cmd" "keeps (\<lambda>s. s) (presence_show now op_name)"
  unfolding show_cmd_def privacy_metrics_cmd_def presence_show_def require_identity_def
  by (intro keeps_rules; simp add: keeps_def on_store_def m_zoom_def load_identity_def m_read_def split: option.split)+

lemma routes_never_chosen: "resolve_route s c None mid = None" "resolve_route s c (Some ''auto'') mid = None"
    "resolve_fetch_route s c None = None" "resolve_fetch_route s c (Some ''auto'') = None"
  by (simp_all add: resolve_route_def resolve_fetch_route_def resolve_contact_route_def)

end
