(* ===== verification/Spec2Isabelle.thy ===== *)
theory Spec2Isabelle
  imports RelayProps RelayService Conversation ServerProps CoreProps MobileProps OperatorProps InteropProps Routing Deployment Mesh EndToEnd Shows
begin

text \<open>
  Yakr is an end-to-end encrypted messenger whose parties carry each other's relays. This library models
  its Python packages, under \<^verbatim>\<open>src/packages/\<close>: the protocol (\<^verbatim>\<open>yakr-core\<close>), the relay (\<^verbatim>\<open>yakr-relay\<close>), the
  command line client (\<^verbatim>\<open>yakr-cli\<close>), the mobile client (\<^verbatim>\<open>yakr-mobile\<close>), and of the test kit
  (\<^verbatim>\<open>yakr-testkit\<close>) the interoperability verifier and the participant of the meshes.

  \<^bold>\<open>How the parts interact.\<close> Two people pair: one makes an invite, the other answers it, and both complete
  a hybrid key agreement that gives each a contact with a master secret and a ratchet. A session is an
  identity with one contact; it turns a text into an outer blob under a mailbox tag that only the two can
  derive. The client's network code uploads the blob to a relay of the receiver, found in the receiver's
  signed delivery profile, or queues it; the relay keeps blobs by tag until they expire and lets requests
  through by signed capability grants. The receiver polls the tags of the last epochs, decrypts what comes,
  applies it to its store and answers with a receipt. Profiles, presence and their acknowledgements travel
  as messages of the same session.

  \<^bold>\<open>Conventions.\<close> A Python function that raises is a HOL function into \<open>exn + 'a\<close> (\<open>Inl\<close> the exception); a
  method that changes its object is a function of the state into the result and the new state (\<open>meth\<close>), so
  that what was changed before a raise stays changed. Aliasing matters in one place, the dictionary of
  skipped keys that a ratchet state shares with its copy, and is written out there. Definitions have the
  names of the sources; time is an argument \<open>now\<close>, and so are the random bytes an operation draws.

  \<^bold>\<open>Parameters.\<close> Code that is not in the repository is an argument. \<open>prims\<close> (\<open>Crypto\<close>) is the record of
  the functions taken from \<^verbatim>\<open>cryptography\<close>, \<^verbatim>\<open>PyNaCl\<close>, \<^verbatim>\<open>pqcrypto\<close>, \<^verbatim>\<open>cbor2\<close> and \<^verbatim>\<open>hashlib\<close>; its laws are
  named predicates (decryption undoes encryption, the two Diffie-Hellman products agree, a signature
  verifies, sizes, CBOR round trips), each theorem names those it needs, and \<open>demo_prims\<close> satisfies them all.
  The HTTP library is a function \<open>H\<close> from a call and a network state to an answer, or an exception, and the
  next network state: theorems about the clients hold for every such function, and \<open>RelayService\<close> puts the
  modelled relay behind it. Files are the text they hold, \<open>floats\<close> (\<open>Routing\<close>) is the arithmetic of the route
  weights, and \<open>fw_int\<close> (\<open>RelayService\<close>) what the web framework converts to an integer beyond integers.
\<close>

section \<open>Theories and sources\<close>

text \<open>
  Foundations.

  \<^item> \<open>Prelude\<close>, \<open>Effects\<close>: exceptions, results and methods, Python's string and integer helpers, SQL tables
    as row lists, loops and \<open>try\<close>; \<open>DrainLoop\<close>: the loop the three clients drain a mailbox with.
  \<^item> \<open>Base64\<close>, \<open>Json\<close>, \<open>Crypto\<close>: the codecs and primitives, and \<^verbatim>\<open>yakr_core/crypto.py\<close>, \<^verbatim>\<open>hybrid_pq.py\<close>;
    \<open>DemoPrims\<close>: the instance of the primitives that the concrete runs evaluate.

  The protocol, \<^verbatim>\<open>yakr-core/src/yakr_core/\<close>.

  \<^item> \<open>Message\<close>: \<^verbatim>\<open>ephemeral.py\<close>, \<^verbatim>\<open>mailbox.py\<close>, \<^verbatim>\<open>privacy.py\<close>, \<^verbatim>\<open>message.py\<close> and the payload of \<^verbatim>\<open>presence.py\<close>.
  \<^item> \<open>Ratchet\<close>: \<^verbatim>\<open>ratchet.py\<close>; \<open>RatchetProofs\<close> what one ratchet does, \<open>Duplex\<close> two ratchets over two wires.
  \<^item> \<open>Profile\<close>, \<open>Identity\<close>, \<open>Authorization\<close>: \<^verbatim>\<open>relay.py\<close>, \<^verbatim>\<open>delivery_profile.py\<close>, \<^verbatim>\<open>identity.py\<close>, \<^verbatim>\<open>tls.py\<close>,
    \<^verbatim>\<open>relay_authorization.py\<close>, \<^verbatim>\<open>profile_ack.py\<close>.
  \<^item> \<open>Session\<close>: \<^verbatim>\<open>session.py\<close>. \<open>Grants\<close>: \<^verbatim>\<open>relay_ticket.py\<close>, \<^verbatim>\<open>capability_grant.py\<close>.
  \<^item> \<open>Invite\<close>, \<open>Pairing\<close>, \<open>Onion\<close>: \<^verbatim>\<open>invite.py\<close>, \<^verbatim>\<open>pairing.py\<close>, \<^verbatim>\<open>onion.py\<close>.
  \<^item> \<open>Store\<close>: \<^verbatim>\<open>store.py\<close>. \<open>Routing\<close>: \<^verbatim>\<open>routing.py\<close>.

  The relay, \<^verbatim>\<open>yakr-relay/src/yakr_relay/\<close>.

  \<^item> \<open>RelayStore\<close>: \<^verbatim>\<open>store.py\<close>, \<^verbatim>\<open>pairing_store.py\<close>, \<^verbatim>\<open>capability_store.py\<close>.
  \<^item> \<open>RelayApp\<close>: the handlers of \<^verbatim>\<open>app.py\<close> as one step function \<open>serve\<close> over the three stores, with the
    sweeper; \<open>RelayService\<close> the routes, request models and status codes of \<^verbatim>\<open>app.py\<close> around it.
  \<^item> \<open>RelayMain\<close>: \<^verbatim>\<open>main.py\<close>, from the arguments and key files to the application.

  The command line client, \<^verbatim>\<open>yakr-cli/src/yakr_cli/\<close>.

  \<^item> \<open>Http\<close>, \<open>CapClient\<close>, \<open>Network\<close>: \<^verbatim>\<open>http_client.py\<close>, \<^verbatim>\<open>capability_client.py\<close>, \<^verbatim>\<open>network.py\<close>.
  \<^item> \<open>Inbox\<close>, \<open>Publish\<close>: \<^verbatim>\<open>receipt_cmds.py\<close>, \<^verbatim>\<open>receipt_apply.py\<close>, \<^verbatim>\<open>fetch_cmds.py\<close>; \<^verbatim>\<open>presence_cmds.py\<close>,
    \<^verbatim>\<open>profile_cmds.py\<close>.
  \<^item> \<open>Rendezvous\<close>: \<^verbatim>\<open>rendezvous.py\<close>, \<^verbatim>\<open>direct_server.py\<close>, \<^verbatim>\<open>relay_pairing.py\<close>.
  \<^item> \<open>Commands\<close>, \<open>Shows\<close>: \<^verbatim>\<open>main.py\<close>, \<^verbatim>\<open>privacy_cmds.py\<close>, \<^verbatim>\<open>offline_cmds.py\<close>, \<^verbatim>\<open>invite_cmds.py\<close>,
    \<^verbatim>\<open>relay_wait_cmds.py\<close>, the commands that change state and the ones that show it.
  \<^item> \<open>Operator\<close>: \<^verbatim>\<open>relay_operator.py\<close>, \<^verbatim>\<open>relay_deploy.py\<close>, \<^verbatim>\<open>reachability.py\<close> of the core, and the commands
    \<^verbatim>\<open>relay_create_cmds.py\<close>, \<^verbatim>\<open>relay_embed_cmds.py\<close>.

  The mobile client and the test kit.

  \<^item> \<open>Mobile\<close>: \<^verbatim>\<open>encrypted_store.py\<close>, \<^verbatim>\<open>client.py\<close>, \<^verbatim>\<open>device_settings.py\<close>, \<^verbatim>\<open>invite_qr.py\<close>.
  \<^item> \<open>Interop\<close>: \<^verbatim>\<open>interop_verifier.py\<close>, \<^verbatim>\<open>hybrid_verify.py\<close>. \<open>Mesh\<close>: \<^verbatim>\<open>mesh_client.py\<close>.
\<close>

section \<open>What is shown\<close>

text \<open>
  \<^item> \<open>EndToEnd\<close>: a text said in a session and uploaded to the relay service is in the inbox of the other
    client after a fetch. The theorem joins the three below it with the loop of \<^verbatim>\<open>fetch_cmds.py\<close>.
  \<^item> \<open>Conversation\<close>: the specification of a pair of contacts is two logs, one for each direction. Every
    interleaving of encryptions and deliveries of the two sessions refines it (\<open>refines_next\<close>), from the state
    that the pairing handshake leaves; what was heard is a prefix of what was said, and the rest can be drained.
    \<open>Duplex\<close> holds the invariant of the two ratchets the refinement rests on.
  \<^item> \<open>RelayProps\<close>, \<open>RelayService\<close>: over every sequence of requests and sweeps, what the relay keeps and returns,
    its limits, what is let through at most once, and the three ways around its grants that the code leaves open.
  \<^item> \<open>RatchetProofs\<close>, \<open>CoreProps\<close>: delivery in any order, forged packets, invariants of the saved ratchet;
    pairing agreement, round trips of invites and profiles, atomic commits, unique keys in every reachable store.
  \<^item> \<open>ClientProps\<close>, \<open>ClientRuns\<close>, \<open>Delivery\<close>: which calls the clients make over any run of commands; delivery puts
    a blob on one server when it returns and on none when it raises; receipts are sent or queued; loops end.
  \<^item> \<open>ServerProps\<close>, \<open>OperatorProps\<close>, \<open>Deployment\<close>: the rendezvous pairs once; what the bundle of a relay operator
    is good for, and that the daemon it deploys does not start.
  \<^item> \<open>MobileProps\<close>: the two places where the mobile client departs from the command line, with their effects.
  \<^item> \<open>InteropProps\<close>: the verifier's ratchet is equivalent to the core's, and which vectors of the core it accepts.

  Interfaces are locales, each with an interpretation on the model's own operations in the theory that
  provides them: \<open>keyed_table\<close> (\<open>Prelude\<close>; the tables of the client's and the relay's stores), \<open>replay_guard\<close>
  and its extension \<open>stamped_guard\<close> (\<open>RelayStore\<close>; the nonce table and the relay's \<open>serve\<close>),
  \<open>sequenced_receiver\<close> (\<open>Session\<close>; the two decryption methods), \<open>mailbox_service\<close> (\<open>RelayService\<close>; the relay
  behind HTTP), \<open>drain_loop\<close> (\<open>DrainLoop\<close>; the loops of the three clients).

  \<^bold>\<open>Bounds.\<close> The drain loops run on the number of pending items: a pass that goes on leaves fewer, so the fuel
  is enough and the loop equals its unbounded equation (\<open>fuel_enough\<close>, \<open>while_equation\<close>). \<open>deliver_encrypted\<close>
  takes the recursion depth the interpreter has left; one nested call is the most it makes, so two is enough
  (\<open>delivery_depth\<close>). The loops that skip keys of a ratchet end by a measure. The JSON decoder takes the
  length of its text, enough for every printed value (the round trip in \<open>Json\<close>).
\<close>

section \<open>Not modelled\<close>

text \<open>
  \<^item> The toga interface of the mobile client (\<^verbatim>\<open>toga_app.py\<close>): widgets of a library.
  \<^item> Starting servers, event loops, threads and subprocesses; the handlers they run are modelled, and what is
    started is recorded as an effect. Sockets, the locks of the mesh participant and the lock file of a fetch:
    operations of one client are sequential here.
  \<^item> Parsing of options by typer and argparse, the layout and colours of the console.
  \<^item> Making certificates and SSL contexts, drawing QR images: library calls.
  \<^item> The SQL dialect and schema migration: a table is the list of its rows, with the keys of the schema.
  \<^item> \<^verbatim>\<open>relay_delay_secs\<close>, a random pause, and the explanatory text of the privacy modes.
  \<^item> Code points above 255, and \<open>repr\<close> of containers in \<open>str()\<close>.
  \<^item> The drivers of the test kit (meshes in threads, in containers and over ssh, stress runs) and the scripts:
    they call what is modelled and compare counts, and have no state of their own.
  \<^item> The Rust port, under \<^verbatim>\<open>src/rust/\<close>.
\<close>

end
